(* ===== verification/Go_Prelude.thy ===== *)
theory Go_Prelude
  imports Main "HOL-Library.Sublist"
begin

text \<open>
  Shared vocabulary of the development: the parts of Go's standard library the modelled code
  calls (package strings, on byte strings), the collections of lemmas the component proofs use,
  and generic facts on lists.  A Go string is a list of bytes, that is an Isabelle \<open>string\<close>;
  the white-space, case and field functions are given on ASCII, which is what the modelled
  callers pass (identifiers, tool names, shell text).
\<close>

named_theorems go_str \<open>unfolding rules for the string functions\<close>

abbreviation (input) backslash :: char where
  "backslash \<equiv> CHR 0x5C"

abbreviation (input) newline :: char where
  "newline \<equiv> CHR 0x0A"

section \<open>Package strings\<close>

definition HasPrefix :: "string \<Rightarrow> string \<Rightarrow> bool" where
  "HasPrefix s p \<longleftrightarrow> take (length p) s = p"

definition HasSuffix :: "string \<Rightarrow> string \<Rightarrow> bool" where
  "HasSuffix s p \<longleftrightarrow> length p \<le> length s \<and> drop (length s - length p) s = p"

definition is_space :: "char \<Rightarrow> bool" where
  "is_space c \<longleftrightarrow> c \<in> {CHR 0x09, CHR 0x0A, CHR 0x0B, CHR 0x0C, CHR 0x0D, CHR '' ''}"

definition TrimLeftSpace :: "string \<Rightarrow> string" where
  "TrimLeftSpace s = dropWhile is_space s"

definition TrimSpace :: "string \<Rightarrow> string" where
  "TrimSpace s = rev (dropWhile is_space (rev (dropWhile is_space s)))"

fun fields_from :: "string \<Rightarrow> string \<Rightarrow> string list" where
  "fields_from cur [] = (if cur = [] then [] else [cur])"
| "fields_from cur (c # s) =
     (if is_space c then (if cur = [] then fields_from [] s else cur # fields_from [] s)
      else fields_from (cur @ [c]) s)"

definition Fields :: "string \<Rightarrow> string list" where
  "Fields s = fields_from [] s"

definition lower_char :: "char \<Rightarrow> char" where
  "lower_char c =
     (let n = (of_char c :: nat) in if 65 \<le> n \<and> n \<le> 90 then char_of (n + 32) else c)"

definition ToLower :: "string \<Rightarrow> string" where
  "ToLower s = map lower_char s"

text \<open>\<open>strings.IndexByte\<close> and \<open>strings.LastIndex\<close> for a one-byte needle; \<open>None\<close> is Go's \<open>-1\<close>.\<close>

fun IndexByte :: "string \<Rightarrow> char \<Rightarrow> nat option" where
  "IndexByte [] x = None"
| "IndexByte (c # s) x = (if c = x then Some 0 else map_option Suc (IndexByte s x))"

fun LastIndexByte :: "string \<Rightarrow> char \<Rightarrow> nat option" where
  "LastIndexByte [] x = None"
| "LastIndexByte (c # s) x =
     (case LastIndexByte s x of
        Some k \<Rightarrow> Some (Suc k)
      | None \<Rightarrow> (if c = x then Some 0 else None))"

definition CountByte :: "string \<Rightarrow> char \<Rightarrow> nat" where
  "CountByte s x = length (filter (\<lambda>c. c = x) s)"

fun Contains :: "string \<Rightarrow> string \<Rightarrow> bool" where
  "Contains [] p = (p = [])"
| "Contains (c # s) p = (HasPrefix (c # s) p \<or> Contains s p)"

text \<open>
  \<open>strings.Index\<close> for a non-empty needle, and \<open>strings.SplitN (s, sep, n)\<close> with \<open>n > 0\<close>:
  at most \<open>n\<close> parts, the last one holding the unsplit remainder.
\<close>

fun IndexStr :: "string \<Rightarrow> string \<Rightarrow> nat option" where
  "IndexStr [] p = (if p = [] then Some 0 else None)"
| "IndexStr (c # s) p = (if HasPrefix (c # s) p then Some 0 else map_option Suc (IndexStr s p))"

fun SplitN :: "nat \<Rightarrow> string \<Rightarrow> string \<Rightarrow> string list" where
  "SplitN 0 sep s = []"
| "SplitN (Suc 0) sep s = [s]"
| "SplitN (Suc (Suc n)) sep s =
     (case IndexStr s sep of
        None \<Rightarrow> [s]
      | Some k \<Rightarrow> take k s # SplitN (Suc n) sep (drop (k + length sep) s))"

text \<open>\<open>strconv.Quote\<close>, the \<open>%q\<close> of package fmt; bytes of valid multi-byte characters stand for themselves.\<close>

definition hex_digit :: "nat \<Rightarrow> char" where
  "hex_digit n = ''0123456789abcdef'' ! n"

definition quote_char :: "char \<Rightarrow> string" where
  "quote_char c =
     (let n = (of_char c :: nat) in
      if c = CHR 0x22 then [backslash, CHR 0x22]
      else if c = backslash then [backslash, backslash]
      else if n = 7 then [backslash, CHR ''a'']
      else if n = 8 then [backslash, CHR ''b'']
      else if n = 12 then [backslash, CHR ''f'']
      else if n = 10 then [backslash, CHR ''n'']
      else if n = 13 then [backslash, CHR ''r'']
      else if n = 9 then [backslash, CHR ''t'']
      else if n = 11 then [backslash, CHR ''v'']
      else if n < 32 \<or> n = 127 then [backslash, CHR ''x'', hex_digit (n div 16), hex_digit (n mod 16)]
      else [c])"

definition Quote :: "string \<Rightarrow> string" where
  "Quote s = [CHR 0x22] @ concat (map quote_char s) @ [CHR 0x22]"

lemmas go_str_defs = HasPrefix_def HasSuffix_def is_space_def TrimSpace_def Fields_def
  lower_char_def ToLower_def CountByte_def

section \<open>Facts on the string functions\<close>

lemma HasPrefix_append [simp]: "HasPrefix (p @ s) p"
  by (simp add: HasPrefix_def)

lemma HasPrefix_iff: "HasPrefix s p \<longleftrightarrow> (\<exists>t. s = p @ t)"
  by (metis HasPrefix_def append_eq_conv_conj append_take_drop_id)

lemma HasSuffix_iff: "HasSuffix s p \<longleftrightarrow> (\<exists>t. s = t @ p)"
proof
  assume "HasSuffix s p"
  then have "s = take (length s - length p) s @ p"
    by (metis HasSuffix_def append_take_drop_id)
  then show "\<exists>t. s = t @ p" by blast
next
  assume "\<exists>t. s = t @ p"
  then show "HasSuffix s p" by (auto simp: HasSuffix_def)
qed

lemma dropWhile_idle: "s = [] \<or> \<not> P (hd s) \<Longrightarrow> dropWhile P s = s"
  by (cases s) auto

text \<open>A string that neither starts nor ends with white space is its own trim.\<close>

definition trimmed :: "string \<Rightarrow> bool" where
  "trimmed s \<longleftrightarrow> s = [] \<or> (\<not> is_space (hd s) \<and> \<not> is_space (last s))"

lemma TrimSpace_trimmed: "trimmed s \<Longrightarrow> TrimSpace s = s"
  by (cases "s = []") (simp_all add: trimmed_def TrimSpace_def dropWhile_idle hd_rev)

lemma hd_dropWhile_not: "dropWhile P s \<noteq> [] \<Longrightarrow> \<not> P (hd (dropWhile P s))"
  by (induction s) auto

lemma hd_TrimSpace: "TrimSpace s \<noteq> [] \<Longrightarrow> \<not> is_space (hd (TrimSpace s))"
proof -
  assume ne: "TrimSpace s \<noteq> []"
  let ?m = "dropWhile is_space s"
  have sfx: "suffix (dropWhile is_space (rev ?m)) (rev ?m)"
    by (rule suffix_dropWhile)
  then obtain zs where "rev ?m = zs @ dropWhile is_space (rev ?m)"
    by (auto simp: suffix_def)
  then have m: "?m = TrimSpace s @ rev zs"
    by (metis TrimSpace_def rev_append rev_rev_ident)
  then have "?m \<noteq> []" using ne by simp
  then have "\<not> is_space (hd ?m)" by (rule hd_dropWhile_not)
  then show ?thesis using m ne by simp
qed

lemma trimmed_TrimSpace [simp]: "trimmed (TrimSpace s)"
proof (cases "TrimSpace s = []")
  case True
  then show ?thesis by (simp add: trimmed_def)
next
  case False
  then have "dropWhile is_space (rev (dropWhile is_space s)) \<noteq> []"
    by (simp add: TrimSpace_def)
  from hd_dropWhile_not [OF this] have "\<not> is_space (last (TrimSpace s))"
    by (metis TrimSpace_def last_rev)
  then show ?thesis using False hd_TrimSpace by (simp add: trimmed_def)
qed

lemma TrimSpace_idem [simp]: "TrimSpace (TrimSpace s) = TrimSpace s"
  by (simp add: TrimSpace_trimmed)

lemma set_TrimSpace: "set (TrimSpace s) \<subseteq> set s"
  by (auto simp: TrimSpace_def dest!: set_dropWhileD)

lemma IndexByte_None: "IndexByte s x = None \<longleftrightarrow> x \<notin> set s"
  by (induction s) auto

lemma LastIndexByte_None: "LastIndexByte s x = None \<longleftrightarrow> x \<notin> set s"
  by (induction s) (auto split: option.splits)

lemma IndexByte_append: "x \<notin> set a \<Longrightarrow> IndexByte (a @ x # b) x = Some (length a)"
  by (induction a) auto

lemma LastIndexByte_append: "x \<notin> set b \<Longrightarrow> LastIndexByte (a @ x # b) x = Some (length a)"
proof (induction a)
  case Nil
  then have "LastIndexByte b x = None" by (simp add: LastIndexByte_None)
  then show ?case by simp
qed simp

lemma IndexByte_SomeD: "IndexByte s x = Some k \<Longrightarrow> k < length s \<and> s ! k = x"
  by (induction s arbitrary: k) (auto split: if_splits)

lemma find_SomeD: "find P xs = Some x \<Longrightarrow> x \<in> set xs \<and> P x"
  by (auto simp: find_Some_iff)

lemma find_SomeD': "Some x = find P xs \<Longrightarrow> x \<in> set xs \<and> P x"
  by (auto dest: sym find_SomeD)

lemma map_sum_InrE: "map_sum f g x = Inr y \<Longrightarrow> (\<And>z. x = Inr z \<Longrightarrow> y = g z \<Longrightarrow> P) \<Longrightarrow> P"
  by (cases x) auto

end
