(* ===== verification/Shell_Match.thy ===== *)
theory Shell_Match
  imports Go_Prelude
begin

text \<open>
  Shell rule patterns: src/engine/permission/shell_match.go.  The regular expression that
  \<open>matchWildcardPattern\<close> builds is modelled by the token list it denotes: after the escape
  sentinels are put back, every byte of the regular expression is either a quoted literal or
  the wildcard \<open>.*\<close>, with an optional \<open>( .*)?\<close> at the end.  \<open>wild_lang\<close> is the
  language of such a token list; \<open>wild_match\<close> decides it.
\<close>

section \<open>Model\<close>

datatype ShellRuleType = ShellRuleExact | ShellRulePrefix | ShellRuleWildcard

record ShellRule =
  sr_Type :: ShellRuleType
  sr_Raw :: string
  sr_Command :: string
  sr_Prefix :: string
  sr_Pattern :: string

definition extractLegacyPrefix :: "string \<Rightarrow> string" where
  "extractLegacyPrefix rule =
     (if \<not> HasSuffix rule '':*'' then []
      else take (length rule - 2) rule)"

text \<open>The loop over the bytes, with the length of the run of backslashes just before.\<close>

fun unescaped_star :: "nat \<Rightarrow> string \<Rightarrow> bool" where
  "unescaped_star k [] = False"
| "unescaped_star k (c # s) =
     (if c = CHR ''*'' then (if even k then True else unescaped_star 0 s)
      else if c = backslash then unescaped_star (Suc k) s
      else unescaped_star 0 s)"

definition hasUnescapedWildcards :: "string \<Rightarrow> bool" where
  "hasUnescapedWildcards pattern =
     (if HasSuffix pattern '':*'' then False else unescaped_star 0 pattern)"

definition ParseShellRule :: "string \<Rightarrow> ShellRule" where
  "ParseShellRule rule =
     (let prefix = extractLegacyPrefix rule in
      if prefix \<noteq> [] then
        \<lparr>sr_Type = ShellRulePrefix, sr_Raw = rule, sr_Command = [], sr_Prefix = prefix, sr_Pattern = []\<rparr>
      else if hasUnescapedWildcards rule then
        \<lparr>sr_Type = ShellRuleWildcard, sr_Raw = rule, sr_Command = [], sr_Prefix = [], sr_Pattern = rule\<rparr>
      else
        \<lparr>sr_Type = ShellRuleExact, sr_Raw = rule, sr_Command = rule, sr_Prefix = [], sr_Pattern = []\<rparr>)"

text \<open>Phase 1 of \<open>matchWildcardPattern\<close>: escape sequences become private-use sentinels,
  the UTF-8 encodings of U+F000 and U+F001.\<close>

definition escapedStarSentinel :: string where
  "escapedStarSentinel = [CHR 0xEF, CHR 0x80, CHR 0x80]"

definition escapedBackslashSentinel :: string where
  "escapedBackslashSentinel = [CHR 0xEF, CHR 0x80, CHR 0x81]"

fun process_escapes :: "string \<Rightarrow> string" where
  "process_escapes [] = []"
| "process_escapes [c] = [c]"
| "process_escapes (c # d # s) =
     (if c = backslash \<and> d = CHR ''*'' then escapedStarSentinel @ process_escapes s
      else if c = backslash \<and> d = backslash then escapedBackslashSentinel @ process_escapes s
      else c # process_escapes (d # s))"

text \<open>\<open>strings.ReplaceAll (s, "**", "*")\<close>: left to right, without overlaps.\<close>

fun collapse_stars :: "string \<Rightarrow> string" where
  "collapse_stars [] = []"
| "collapse_stars [c] = [c]"
| "collapse_stars (c # d # s) =
     (if c = CHR ''*'' \<and> d = CHR ''*'' then CHR ''*'' # collapse_stars s
      else c # collapse_stars (d # s))"

datatype wtok = WLit char | WStar

definition byte_tok :: "char \<Rightarrow> wtok" where
  "byte_tok c = (if c = CHR ''*'' then WStar else WLit c)"

text \<open>Phases 2 and 3: quoting, the wildcard and the sentinels put back as literals.\<close>

fun regex_toks :: "string \<Rightarrow> wtok list" where
  "regex_toks (c # d # e # s) =
     (if [c, d, e] = escapedStarSentinel then WLit (CHR ''*'') # regex_toks s
      else if [c, d, e] = escapedBackslashSentinel then WLit backslash # regex_toks s
      else byte_tok c # regex_toks (d # e # s))"
| "regex_toks s = map byte_tok s"

fun wild_match :: "wtok list \<Rightarrow> string \<Rightarrow> bool" where
  "wild_match [] s = (s = [])"
| "wild_match (WLit c # ts) [] = False"
| "wild_match (WLit c # ts) (d # s) = (c = d \<and> wild_match ts s)"
| "wild_match (WStar # ts) [] = wild_match ts []"
| "wild_match (WStar # ts) (d # s) = (wild_match ts (d # s) \<or> wild_match (WStar # ts) s)"

definition matchWildcardPattern :: "string \<Rightarrow> string \<Rightarrow> bool" where
  "matchWildcardPattern pattern command =
     (let processed = process_escapes (TrimSpace pattern);
          unescapedStarCount = CountByte processed (CHR ''*'');
          ts = regex_toks (collapse_stars processed)
      in if 2 \<le> length ts \<and> drop (length ts - 2) ts = [WLit (CHR '' ''), WStar] \<and> unescapedStarCount = 1
         then wild_match (take (length ts - 2) ts) command \<or> wild_match ts command
         else wild_match ts command)"

definition MatchShellRule :: "string \<Rightarrow> string \<Rightarrow> bool" where
  "MatchShellRule pattern command =
     (let rule = ParseShellRule pattern in
      case sr_Type rule of
        ShellRuleExact \<Rightarrow> command = sr_Command rule
      | ShellRulePrefix \<Rightarrow> command = sr_Prefix rule \<or> HasPrefix command (sr_Prefix rule @ '' '')
      | ShellRuleWildcard \<Rightarrow> matchWildcardPattern (sr_Pattern rule) command)"

section \<open>The language of a token list\<close>

fun wild_lang :: "wtok list \<Rightarrow> string set" where
  "wild_lang [] = {[]}"
| "wild_lang (WLit c # ts) = {c # s | s. s \<in> wild_lang ts}"
| "wild_lang (WStar # ts) = {p @ s | p s. s \<in> wild_lang ts}"

lemma wild_star_Cons:
  "d # s \<in> wild_lang (WStar # ts) \<longleftrightarrow> d # s \<in> wild_lang ts \<or> s \<in> wild_lang (WStar # ts)"
proof -
  have "(\<exists>p t. d # s = p @ t \<and> t \<in> wild_lang ts) \<longleftrightarrow>
        d # s \<in> wild_lang ts \<or> (\<exists>p t. s = p @ t \<and> t \<in> wild_lang ts)"
    by (auto simp: Cons_eq_append_conv)
  then show ?thesis by simp
qed

lemma wild_match_lang: "wild_match ts s \<longleftrightarrow> s \<in> wild_lang ts"
proof (induction ts s rule: wild_match.induct)
  case (5 ts d s)
  then show ?case by (simp only: wild_match.simps wild_star_Cons)
qed auto

lemma wild_match_lits: "wild_match (map WLit s) t \<longleftrightarrow> t = s"
proof (induction s arbitrary: t)
  case Nil
  then show ?case by simp
next
  case (Cons c s)
  then show ?case by (cases t) auto
qed

lemma wild_match_lits_app:
  "wild_match (map WLit a @ ts) t \<longleftrightarrow> (\<exists>u. t = a @ u \<and> wild_match ts u)"
proof (induction a arbitrary: t)
  case Nil
  then show ?case by simp
next
  case (Cons c a)
  then show ?case by (cases t) auto
qed

lemma wild_match_WStar [simp]: "wild_match [WStar] t"
  by (induction t) auto

section \<open>Patterns without escapes\<close>

text \<open>No wildcard, no backslash and no sentinel byte: such a pattern is a literal.\<close>

definition plain_char :: "char \<Rightarrow> bool" where
  "plain_char c \<longleftrightarrow> c \<noteq> CHR ''*'' \<and> c \<noteq> backslash \<and> c \<noteq> CHR 0xEF"

lemma process_escapes_nobs: "backslash \<notin> set s \<Longrightarrow> process_escapes s = s"
  by (induction s rule: process_escapes.induct) auto

lemma collapse_stars_id:
  "CHR ''*'' \<notin> set (butlast s) \<Longrightarrow> collapse_stars s = s"
  by (induction s rule: collapse_stars.induct) auto

lemma regex_toks_plain: "CHR 0xEF \<notin> set s \<Longrightarrow> regex_toks s = map byte_tok s"
  by (induction s rule: regex_toks.induct)
    (auto simp: escapedStarSentinel_def escapedBackslashSentinel_def)

lemma byte_tok_plain: "list_all plain_char s \<Longrightarrow> map byte_tok s = map WLit s"
  by (induction s) (auto simp: byte_tok_def plain_char_def)

lemma plain_charD:
  "list_all plain_char s \<Longrightarrow> CHR ''*'' \<notin> set s \<and> backslash \<notin> set s \<and> CHR 0xEF \<notin> set s"
  by (auto simp: plain_char_def list_all_iff)

lemma matchWildcardPattern_plain:
  assumes "list_all plain_char p" and "trimmed p"
  shows "matchWildcardPattern p c \<longleftrightarrow> c = p"
proof -
  note pc = plain_charD [OF assms(1)]
  then have proc: "process_escapes p = p" by (simp add: process_escapes_nobs)
  have "CHR ''*'' \<notin> set (butlast p)" using pc in_set_butlastD by fast
  then have coll: "collapse_stars p = p" by (rule collapse_stars_id)
  have toks: "regex_toks p = map WLit p"
    using pc by (simp add: regex_toks_plain byte_tok_plain [OF assms(1)])
  have "filter (\<lambda>c. c = CHR ''*'') p = []" using pc by (auto simp: filter_empty_conv)
  then have "CountByte p (CHR ''*'') = 0" by (simp add: CountByte_def)
  then show ?thesis
    by (simp add: matchWildcardPattern_def TrimSpace_trimmed [OF assms(2)] proc coll toks
        wild_match_lits Let_def)
qed

lemma last_append_star: "trimmed (p @ '' *'') \<longleftrightarrow> p = [] \<and> False \<or> p \<noteq> [] \<and> \<not> is_space (hd p)"
  by (cases p) (auto simp: trimmed_def is_space_def)

lemma matchWildcardPattern_trailing:
  assumes "list_all plain_char p" and "p \<noteq> []" and "\<not> is_space (hd p)"
  shows "matchWildcardPattern (p @ '' *'') c \<longleftrightarrow> c = p \<or> HasPrefix c (p @ '' '')"
proof -
  let ?q = "p @ '' *''"
  note pc = plain_charD [OF assms(1)]
  have trim: "TrimSpace ?q = ?q"
    using assms(2,3) by (intro TrimSpace_trimmed) (simp add: last_append_star)
  have proc: "process_escapes ?q = ?q" using pc by (intro process_escapes_nobs) simp
  have "CHR ''*'' \<notin> set (butlast ?q)"
    using pc by (simp add: butlast_append)
  then have coll: "collapse_stars ?q = ?q" by (rule collapse_stars_id)
  have toks: "regex_toks ?q = map WLit p @ [WLit (CHR '' ''), WStar]"
    using pc by (simp add: regex_toks_plain byte_tok_plain [OF assms(1)] byte_tok_def)
  have "filter (\<lambda>c. c = CHR ''*'') p = []" using pc by (auto simp: filter_empty_conv)
  then have cnt: "CountByte ?q (CHR ''*'') = 1" by (simp add: CountByte_def)
  have star: "wild_match [WLit (CHR '' ''), WStar] u \<longleftrightarrow> (\<exists>v. u = CHR '' '' # v)" for u
    by (cases u) auto
  show ?thesis
    by (auto simp: matchWildcardPattern_def trim proc coll toks cnt wild_match_lits
        wild_match_lits_app star HasPrefix_iff Let_def)
qed

section \<open>Properties\<close>

lemma HasSuffix_colon_star: "HasSuffix (p @ '':*'') '':*''"
  by (simp add: HasSuffix_def)

lemma HasSuffix_space_star: "\<not> HasSuffix (p @ '' *'') '':*''"
  by (simp add: HasSuffix_def)

lemma unescaped_star_trailing:
  "list_all plain_char p \<Longrightarrow> unescaped_star k (p @ '' *'')"
  by (induction p arbitrary: k) (auto simp: plain_char_def)

lemma MatchShellRule_legacy:
  assumes "p \<noteq> []"
  shows "MatchShellRule (p @ '':*'') c \<longleftrightarrow> c = p \<or> HasPrefix c (p @ '' '')"
  using assms HasSuffix_colon_star [of p]
  by (simp add: MatchShellRule_def ParseShellRule_def extractLegacyPrefix_def Let_def)

lemma MatchShellRule_wildcard:
  assumes "list_all plain_char p" and "p \<noteq> []"
  shows "MatchShellRule (p @ '' *'') c \<longleftrightarrow> matchWildcardPattern (p @ '' *'') c"
  using HasSuffix_space_star [of p] unescaped_star_trailing [OF assms(1), of 0]
  by (simp add: MatchShellRule_def ParseShellRule_def extractLegacyPrefix_def
      hasUnescapedWildcards_def Let_def)

text \<open>
  The trailing wildcard agrees with the legacy prefix rule: for a command name \<open>p\<close> with no
  wildcard, escape or leading space, the rules \<open>p *\<close> and \<open>p:*\<close> match the same commands, the
  bare \<open>p\<close> and everything that starts with \<open>p\<close> and a space.
\<close>

lemma trailing_wildcard_is_prefix_rule:
  assumes "list_all plain_char p" and "p \<noteq> []" and "\<not> is_space (hd p)"
  shows "MatchShellRule (p @ '' *'') c = MatchShellRule (p @ '':*'') c \<and>
    (MatchShellRule (p @ '' *'') c \<longleftrightarrow> c = p \<or> HasPrefix c (p @ '' ''))"
  using assms
  by (simp add: MatchShellRule_legacy MatchShellRule_wildcard matchWildcardPattern_trailing)

lemma trailing_wildcard_is_prefix_rule_witness:
  "MatchShellRule ''git *'' ''git push'' = MatchShellRule ''git:*'' ''git push'' \<and>
   MatchShellRule ''git *'' ''git push'' \<and> \<not> MatchShellRule ''git *'' ''gitk''"
proof -
  have h: "list_all plain_char ''git''" "''git'' \<noteq> []" "\<not> is_space (hd ''git'')"
    by (simp_all add: plain_char_def is_space_def)
  show ?thesis
    using trailing_wildcard_is_prefix_rule [OF h, of "''git push''"]
      trailing_wildcard_is_prefix_rule [OF h, of "''gitk''"]
    by (auto simp: HasPrefix_def)
qed

lemma ends_with_pair:
  "(\<exists>us. ts = us @ [a, b] \<and> P us) \<longleftrightarrow>
    (2 \<le> length ts \<and> drop (length ts - 2) ts = [a, b]) \<and> P (take (length ts - 2) ts)"
proof
  assume r: "(2 \<le> length ts \<and> drop (length ts - 2) ts = [a, b]) \<and> P (take (length ts - 2) ts)"
  then have "ts = take (length ts - 2) ts @ [a, b]" by (metis append_take_drop_id)
  with r show "\<exists>us. ts = us @ [a, b] \<and> P us" by blast
qed auto


end
