(* ===== verification/Tool_Input.thy ===== *)
theory Tool_Input
  imports Go_Prelude "HOL-Library.Char_ord" "HOL-Library.List_Lexorder"
begin

text \<open>
  Tool inputs.  A Go \<open>map[string]any\<close> that a tool call carries is a decoded JSON object: an
  association list with distinct keys.  Numbers are the integral ones (Go prints an integral
  \<open>float64\<close> below 1e21 without exponent or fraction).  \<open>Sprint\<close> is \<open>fmt.Sprint\<close> of one such
  value, \<open>Marshal\<close> is \<open>json.Marshal\<close>; both print maps in key order.
\<close>

datatype jval =
    JNull
  | JBool bool
  | JInt int
  | JStr string
  | JArr "jval list"
  | JObj "(string \<times> jval) list"

type_synonym tool_input = "(string \<times> jval) list"

definition digit_char :: "nat \<Rightarrow> char" where
  "digit_char n = char_of (48 + n mod 10)"

fun nat_string :: "nat \<Rightarrow> string" where
  "nat_string n = (if n < 10 then [digit_char n] else nat_string (n div 10) @ [digit_char n])"

declare nat_string.simps [simp del]

definition int_string :: "int \<Rightarrow> string" where
  "int_string i = (if i < 0 then CHR ''-'' # nat_string (nat (- i)) else nat_string (nat i))"

definition hex_char :: "nat \<Rightarrow> char" where
  "hex_char n = (if n < 10 then char_of (48 + n) else char_of (87 + n))"

definition join_with :: "string \<Rightarrow> string list \<Rightarrow> string" where
  "join_with sep xs = concat (case xs of [] \<Rightarrow> [] | x # xs \<Rightarrow> x # map (\<lambda>y. sep @ y) xs)"

definition bool_string :: "bool \<Rightarrow> string" where
  "bool_string b = (if b then ''true'' else ''false'')"

fun Sprint :: "jval \<Rightarrow> string" and Sprint_members :: "(string \<times> jval) list \<Rightarrow> (string \<times> string) list"
where
  "Sprint JNull = ''<nil>''"
| "Sprint (JBool b) = bool_string b"
| "Sprint (JInt i) = int_string i"
| "Sprint (JStr s) = s"
| "Sprint (JArr xs) = ''['' @ join_with '' '' (map Sprint xs) @ '']''"
| "Sprint (JObj kvs) =
     ''map['' @ join_with '' '' (map (\<lambda>(k, v). k @ '':'' @ v) (sort_key fst (Sprint_members kvs))) @ '']''"
| "Sprint_members [] = []"
| "Sprint_members ((k, v) # kvs) = (k, Sprint v) # Sprint_members kvs"

text \<open>String quoting of package encoding/json, HTML escaping included.\<close>

definition json_escape :: "char \<Rightarrow> string" where
  "json_escape c =
     (if c = CHR 0x22 then [backslash, CHR 0x22]
      else if c = backslash then [backslash, backslash]
      else if c = CHR 0x08 then [backslash, CHR ''b'']
      else if c = CHR 0x0C then [backslash, CHR ''f'']
      else if c = CHR 0x0A then [backslash, CHR ''n'']
      else if c = CHR 0x0D then [backslash, CHR ''r'']
      else if c = CHR 0x09 then [backslash, CHR ''t'']
      else if (of_char c :: nat) < 32 \<or> c \<in> {CHR ''<'', CHR ''>'', CHR ''&''} then
        [backslash, CHR ''u'', CHR ''0'', CHR ''0'',
          hex_char (of_char c div 16), hex_char (of_char c mod 16)]
      else [c])"

definition json_quote :: "string \<Rightarrow> string" where
  "json_quote s = [CHR 0x22] @ concat (map json_escape s) @ [CHR 0x22]"

fun marshal :: "jval \<Rightarrow> string" and marshal_members :: "(string \<times> jval) list \<Rightarrow> (string \<times> string) list"
where
  "marshal JNull = ''null''"
| "marshal (JBool b) = bool_string b"
| "marshal (JInt i) = int_string i"
| "marshal (JStr s) = json_quote s"
| "marshal (JArr xs) = ''['' @ join_with '','' (map marshal xs) @ '']''"
| "marshal (JObj kvs) =
     ''{'' @ join_with '','' (map (\<lambda>(k, v). json_quote k @ '':'' @ v) (sort_key fst (marshal_members kvs))) @ ''}''"
| "marshal_members [] = []"
| "marshal_members ((k, v) # kvs) = (k, marshal v) # marshal_members kvs"

definition Marshal :: "tool_input \<Rightarrow> string" where
  "Marshal input = marshal (JObj input)"

text \<open>The type assertion \<open>input[key].(string)\<close>.\<close>

definition string_field :: "tool_input \<Rightarrow> string \<Rightarrow> string option" where
  "string_field input key =
     (case map_of input key of Some (JStr s) \<Rightarrow> Some s | _ \<Rightarrow> None)"

section \<open>The part of an input that rules match\<close>

definition extractInputString :: "string \<Rightarrow> tool_input \<Rightarrow> string" where
  "extractInputString toolName toolInput =
     (if toolInput = [] then []
      else if toolName = ''Bash'' then
        (case map_of toolInput ''command'' of Some cmd \<Rightarrow> Sprint cmd | None \<Rightarrow> Marshal toolInput)
      else if toolName \<in> {''Read'', ''Edit'', ''Write''} then
        (case map_of toolInput ''file_path'' of Some fp \<Rightarrow> Sprint fp
         | None \<Rightarrow> (case map_of toolInput ''path'' of Some p \<Rightarrow> Sprint p | None \<Rightarrow> Marshal toolInput))
      else if toolName \<in> {''Glob'', ''Grep'', ''LS''} then
        (case map_of toolInput ''path'' of Some p \<Rightarrow> Sprint p | None \<Rightarrow> Marshal toolInput)
      else Marshal toolInput)"

text \<open>The key under which a denial is rate-limited.\<close>

definition denialRateLimitKey :: "string \<Rightarrow> tool_input \<Rightarrow> string" where
  "denialRateLimitKey toolName input =
     (let inputKey =
        (if toolName = ''Bash'' then (case string_field input ''command'' of Some cmd \<Rightarrow> cmd | None \<Rightarrow> [])
         else if toolName \<in> {''Read'', ''Write'', ''Edit''} then
           (case string_field input ''file_path'' of Some fp \<Rightarrow> fp | None \<Rightarrow> [])
         else [])
      in toolName @ [CHR 0x00] @ inputKey)"

lemma extractInputString_command [simp]:
  "map_of input ''command'' = Some (JStr cmd) \<Longrightarrow> extractInputString ''Bash'' input = cmd"
  by (auto simp: extractInputString_def)

lemma append_sep_inject:
  "x \<notin> set a \<Longrightarrow> x \<notin> set b \<Longrightarrow> a @ [x] @ s = b @ [x] @ t \<longleftrightarrow> a = b \<and> s = t"
proof (induction a arbitrary: b)
  case Nil
  then show ?case by (cases b) auto
next
  case (Cons c a)
  then show ?case by (cases b) auto
qed

lemma denialRateLimitKey_Bash:
  "map_of input ''command'' = Some (JStr cmd) \<Longrightarrow>
    denialRateLimitKey ''Bash'' input = ''Bash'' @ [CHR 0x00] @ cmd"
  by (simp add: denialRateLimitKey_def string_field_def)

end
