(* ===== verification/Permission_Rules.thy ===== *)
theory Permission_Rules
  imports Tool_Input Shell_Match
begin

text \<open>
  Permission rules: src/engine/permission/rules.go (the rules engine), precedence.go (the typed
  winning decision) and shadowed_rules.go (the detection of unreachable allow rules).  Go's
  string types for actions admit any string; the switch statements treat an unknown one in
  their default branch, which \<open>ActionOther\<close> keeps.
\<close>

section \<open>Model\<close>

datatype PermissionAction = ActionAllow | ActionDeny | ActionAsk | ActionOther string

record PermissionRule =
  ToolName :: string
  InputPattern :: string
  Action :: PermissionAction
  Source :: string

type_synonym RulesEngine = "PermissionRule list option"

definition mcp_server_match :: "string \<Rightarrow> string \<Rightarrow> bool" where
  "mcp_server_match pattern value =
     (HasPrefix pattern ''mcp__'' \<and> HasPrefix value ''mcp__'' \<and>
      (let pp = SplitN 3 ''__'' pattern; vp = SplitN 3 ''__'' value in
       (length pp = 2 \<and> length vp = 3 \<and> pp ! 1 = vp ! 1) \<or>
       (length pp = 3 \<and> pp ! 2 = ''*'' \<and> length vp = 3 \<and> pp ! 1 = vp ! 1)))"

definition matchPattern :: "string \<Rightarrow> string \<Rightarrow> bool" where
  "matchPattern pattern value =
     (if pattern = ''*'' then True
      else if mcp_server_match pattern value then True
      else matchWildcardPattern pattern value)"

definition matchRule :: "PermissionRule \<Rightarrow> string \<Rightarrow> tool_input \<Rightarrow> bool" where
  "matchRule rule toolName toolInput =
     (if \<not> matchPattern (ToolName rule) toolName then False
      else if InputPattern rule = [] then True
      else matchPattern (InputPattern rule) (extractInputString toolName toolInput))"

definition NewRulesEngine :: "PermissionRule list \<Rightarrow> RulesEngine" where
  "NewRulesEngine rules = Some rules"

definition Snapshot :: "RulesEngine \<Rightarrow> PermissionRule list" where
  "Snapshot e = (case e of None \<Rightarrow> [] | Some rules \<Rightarrow> rules)"

text \<open>The loop of \<open>EvaluateMatch\<close> over the rules, with its flags (deny, ask, allow, matched).\<close>

fun match_flags ::
  "string \<Rightarrow> tool_input \<Rightarrow> PermissionRule list \<Rightarrow> bool \<times> bool \<times> bool \<times> bool \<Rightarrow> bool \<times> bool \<times> bool \<times> bool"
where
  "match_flags tn ti [] fl = fl"
| "match_flags tn ti (r # rs) (hasDeny, hasAsk, hasAllow, matched) =
     match_flags tn ti rs
       (if matchRule r tn ti then
          (case Action r of
             ActionDeny \<Rightarrow> (True, hasAsk, hasAllow, True)
           | ActionAsk \<Rightarrow> (hasDeny, True, hasAllow, True)
           | ActionAllow \<Rightarrow> (hasDeny, hasAsk, True, True)
           | ActionOther _ \<Rightarrow> (hasDeny, hasAsk, hasAllow, True))
        else (hasDeny, hasAsk, hasAllow, matched))"

definition EvaluateMatch :: "RulesEngine \<Rightarrow> string \<Rightarrow> tool_input \<Rightarrow> PermissionAction \<times> bool" where
  "EvaluateMatch e toolName toolInput =
     (case e of None \<Rightarrow> (ActionAsk, False)
      | Some rules \<Rightarrow>
        (if rules = [] then (ActionAsk, False)
         else (case match_flags toolName toolInput rules (False, False, False, False) of
           (hasDeny, hasAsk, hasAllow, matched) \<Rightarrow>
             if hasDeny then (ActionDeny, matched)
             else if hasAsk then (ActionAsk, matched)
             else if hasAllow then (ActionAllow, matched)
             else (ActionAsk, False))))"

definition EvaluateRules :: "RulesEngine \<Rightarrow> string \<Rightarrow> tool_input \<Rightarrow> PermissionAction" where
  "EvaluateRules e toolName toolInput = fst (EvaluateMatch e toolName toolInput)"

definition IsToolBlanketDenied :: "RulesEngine \<Rightarrow> string \<Rightarrow> bool" where
  "IsToolBlanketDenied e toolName =
     (case e of None \<Rightarrow> False
      | Some rules \<Rightarrow>
          list_ex (\<lambda>rule. Action rule = ActionDeny \<and> InputPattern rule = [] \<and>
            matchPattern (ToolName rule) toolName) rules)"

subsection \<open>Precedence\<close>

record RuleMatch =
  Rule :: PermissionRule
  ToolExact :: bool
  InputExact :: bool
  Specificity :: int

record RuleDecision =
  rd_Action :: PermissionAction
  rd_Rule :: "PermissionRule option"
  rd_Matched :: bool
  rd_ToolExact :: bool
  rd_InputExact :: bool
  rd_Specificity :: int

definition no_decision :: RuleDecision where
  "no_decision = \<lparr>rd_Action = ActionAsk, rd_Rule = None, rd_Matched = False,
     rd_ToolExact = False, rd_InputExact = False, rd_Specificity = 0\<rparr>"

definition isMoreSpecific :: "RuleMatch \<Rightarrow> RuleMatch \<Rightarrow> bool" where
  "isMoreSpecific a b =
     (if ToolExact a \<noteq> ToolExact b then ToolExact a
      else if (InputPattern (Rule a) \<noteq> []) \<noteq> (InputPattern (Rule b) \<noteq> []) then InputPattern (Rule a) \<noteq> []
      else if Specificity a \<noteq> Specificity b then Specificity a > Specificity b
      else if InputExact a \<noteq> InputExact b then InputExact a
      else False)"

text \<open>The selection loops keep the best match seen so far.\<close>

fun pick_best :: "('a \<Rightarrow> 'a \<Rightarrow> bool) \<Rightarrow> 'a \<Rightarrow> 'a list \<Rightarrow> 'a" where
  "pick_best better best [] = best"
| "pick_best better best (m # ms) = pick_best better (if better m best then m else best) ms"

definition with_action :: "PermissionAction \<Rightarrow> RuleMatch list \<Rightarrow> RuleMatch list" where
  "with_action act ms = filter (\<lambda>m. Action (Rule m) = act) ms"

definition ResolvePrecedence :: "RuleMatch list \<Rightarrow> PermissionAction \<times> bool" where
  "ResolvePrecedence matches =
     (if matches = [] then (ActionAsk, False)
      else if with_action ActionDeny matches \<noteq> [] then (ActionDeny, True)
      else if with_action ActionAsk matches \<noteq> [] then (ActionAsk, True)
      else if with_action ActionAllow matches \<noteq> [] then (ActionAllow, True)
      else (ActionAsk, False))"

definition decision_of :: "RuleMatch list \<Rightarrow> RuleDecision" where
  "decision_of chosen =
     (let best = pick_best isMoreSpecific (hd chosen) (tl chosen) in
      \<lparr>rd_Action = Action (Rule best), rd_Rule = Some (Rule best), rd_Matched = True,
       rd_ToolExact = ToolExact best, rd_InputExact = InputExact best,
       rd_Specificity = Specificity best\<rparr>)"

definition ResolvePrecedenceDecision :: "RuleMatch list \<Rightarrow> RuleDecision" where
  "ResolvePrecedenceDecision matches =
     (if matches = [] then no_decision
      else if with_action ActionDeny matches \<noteq> [] then decision_of (with_action ActionDeny matches)
      else if with_action ActionAsk matches \<noteq> [] then decision_of (with_action ActionAsk matches)
      else if with_action ActionAllow matches \<noteq> [] then decision_of (with_action ActionAllow matches)
      else no_decision)"

definition ResolvePrecedenceWithWinner ::
  "RuleMatch list \<Rightarrow> PermissionAction \<times> PermissionRule option \<times> bool" where
  "ResolvePrecedenceWithWinner matches =
     (let decision = ResolvePrecedenceDecision matches in
      (rd_Action decision, rd_Rule decision, rd_Matched decision))"

definition IsAbs :: "string \<Rightarrow> bool" where
  "IsAbs p = HasPrefix p ''/''"

definition computeSpecificity :: "string \<Rightarrow> int" where
  "computeSpecificity pattern =
     (if pattern = [] then 0
      else
        (let score = int (length pattern) - int (CountByte pattern (CHR ''*'')) * 10
               - int (CountByte pattern (CHR ''?'')) * 5
               + (if IsAbs pattern then 10 else 0)
               + int (CountByte pattern (CHR ''/'')) * 5
         in if score < 1 then 1 else score))"

fun collect_matches :: "string \<Rightarrow> string \<Rightarrow> PermissionRule list \<Rightarrow> RuleMatch list" where
  "collect_matches toolName inputStr [] = []"
| "collect_matches toolName inputStr (rule # rules) =
     (let toolExact = (ToolName rule = toolName) in
      if \<not> toolExact \<and> \<not> matchPattern (ToolName rule) toolName then collect_matches toolName inputStr rules
      else if InputPattern rule = [] then
        \<lparr>Rule = rule, ToolExact = toolExact, InputExact = False, Specificity = 0\<rparr>
          # collect_matches toolName inputStr rules
      else if \<not> matchPattern (InputPattern rule) inputStr then collect_matches toolName inputStr rules
      else
        \<lparr>Rule = rule, ToolExact = toolExact,
         InputExact = \<not> hasUnescapedWildcards (InputPattern rule),
         Specificity = computeSpecificity (InputPattern rule)\<rparr>
          # collect_matches toolName inputStr rules)"

definition collectMatches :: "PermissionRule list \<Rightarrow> string \<Rightarrow> tool_input \<Rightarrow> RuleMatch list" where
  "collectMatches rules toolName toolInput =
     collect_matches toolName (extractInputString toolName toolInput) rules"

definition EvaluateDecision :: "RulesEngine \<Rightarrow> string \<Rightarrow> tool_input \<Rightarrow> RuleDecision" where
  "EvaluateDecision e toolName toolInput =
     (case e of None \<Rightarrow> no_decision
      | Some rules \<Rightarrow>
         (if rules = [] then no_decision
          else ResolvePrecedenceDecision (collectMatches rules toolName toolInput)))"

definition EvaluateWithPrecedence ::
  "RulesEngine \<Rightarrow> string \<Rightarrow> tool_input \<Rightarrow> PermissionAction \<times> PermissionRule option \<times> bool" where
  "EvaluateWithPrecedence e toolName toolInput =
     (let decision = EvaluateDecision e toolName toolInput in
      (rd_Action decision, rd_Rule decision, rd_Matched decision))"

subsection \<open>Unreachable rules\<close>

datatype ShadowType = ShadowTypeAsk | ShadowTypeDeny

record UnreachableRule =
  ur_Rule :: PermissionRule
  ur_Reason :: string
  ur_ShadowedBy :: PermissionRule
  ur_ShadowType :: ShadowType
  ur_Fix :: string

record DetectUnreachableRulesOptions =
  SandboxAutoAllowEnabled :: bool

definition IsSharedSettingSource :: "string \<Rightarrow> bool" where
  "IsSharedSettingSource source =
     (source = ''projectSettings'' \<or> source = ''policySettings'' \<or> source = ''command'')"

definition findToolWideDenyRule :: "string \<Rightarrow> PermissionRule list \<Rightarrow> PermissionRule option" where
  "findToolWideDenyRule toolName denyRules =
     find (\<lambda>r. ToolName r = toolName \<and> InputPattern r = []) denyRules"

definition findToolWideAskRule ::
  "string \<Rightarrow> PermissionRule list \<Rightarrow> DetectUnreachableRulesOptions \<Rightarrow> PermissionRule option" where
  "findToolWideAskRule toolName askRules opts =
     find (\<lambda>r. ToolName r = toolName \<and> InputPattern r = [] \<and>
       \<not> (toolName = ''Bash'' \<and> SandboxAutoAllowEnabled opts \<and> \<not> IsSharedSettingSource (Source r))) askRules"

definition in_quotes :: "string \<Rightarrow> string" where
  "in_quotes s = [CHR 0x22] @ s @ [CHR 0x22]"

definition generateShadowFixSuggestion ::
  "ShadowType \<Rightarrow> PermissionRule \<Rightarrow> PermissionRule \<Rightarrow> string" where
  "generateShadowFixSuggestion shadowType shadower shadowed =
     (if shadowType = ShadowTypeDeny then
        ''Remove the '' @ in_quotes (ToolName shadower) @ '' deny rule from '' @ Source shadower @
        '', or remove the specific allow rule from '' @ Source shadowed
      else
        ''Remove the '' @ in_quotes (ToolName shadower) @ '' ask rule from '' @ Source shadower @
        '', or remove the specific allow rule from '' @ Source shadowed)"

fun DetectUnreachableRules ::
  "PermissionRule list \<Rightarrow> PermissionRule list \<Rightarrow> PermissionRule list \<Rightarrow>
   DetectUnreachableRulesOptions \<Rightarrow> UnreachableRule list"
where
  "DetectUnreachableRules [] askRules denyRules opts = []"
| "DetectUnreachableRules (allowRule # allowRules) askRules denyRules opts =
     (if InputPattern allowRule = [] then []
      else case findToolWideDenyRule (ToolName allowRule) denyRules of
        Some shadower \<Rightarrow>
          [\<lparr>ur_Rule = allowRule,
            ur_Reason = ''Blocked by '' @ in_quotes (ToolName shadower) @ '' deny rule (from '' @ Source shadower @ '')'',
            ur_ShadowedBy = shadower, ur_ShadowType = ShadowTypeDeny,
            ur_Fix = generateShadowFixSuggestion ShadowTypeDeny shadower allowRule\<rparr>]
      | None \<Rightarrow>
          (case findToolWideAskRule (ToolName allowRule) askRules opts of
             Some shadower \<Rightarrow>
               [\<lparr>ur_Rule = allowRule,
                 ur_Reason = ''Shadowed by '' @ in_quotes (ToolName shadower) @ '' ask rule (from '' @ Source shadower @ '')'',
                 ur_ShadowedBy = shadower, ur_ShadowType = ShadowTypeAsk,
                 ur_Fix = generateShadowFixSuggestion ShadowTypeAsk shadower allowRule\<rparr>]
           | None \<Rightarrow> []))
     @ DetectUnreachableRules allowRules askRules denyRules opts"

text \<open>The tie-breaking weight of actions, from src/engine/permission/evaluator.go.\<close>

fun actionPriority :: "PermissionAction \<Rightarrow> int" where
  "actionPriority ActionDeny = 3"
| "actionPriority ActionAsk = 2"
| "actionPriority ActionAllow = 1"
| "actionPriority (ActionOther _) = 0"

section \<open>Selecting the best of a list\<close>

text \<open>
  The selection loops promise to return a maximal element.  That holds for any strict weak
  order; the two orders the code uses are instances.
\<close>

lemma pick_best_mem: "pick_best better best ms \<in> insert best (set ms)"
proof (induction ms arbitrary: best)
  case Nil
  then show ?case by simp
next
  case (Cons m ms)
  from Cons.IH [of "if better m best then m else best"] show ?case by auto
qed

locale preference =
  fixes better :: "'a \<Rightarrow> 'a \<Rightarrow> bool"
  assumes better_asym: "better a b \<Longrightarrow> \<not> better b a"
    and better_negtrans: "\<not> better a b \<Longrightarrow> \<not> better b c \<Longrightarrow> \<not> better a c"
begin

lemma better_irrefl: "\<not> better a a"
  using better_asym by blast

lemma pick_best_max: "m \<in> insert best (set ms) \<Longrightarrow> \<not> better m (pick_best better best ms)"
proof (induction ms arbitrary: best m)
  case Nil
  then show ?case by (simp add: better_irrefl)
next
  case (Cons x ms)
  let ?b = "if better x best then x else best"
  let ?w = "pick_best better best (x # ms)"
  have IH: "m \<in> insert ?b (set ms) \<Longrightarrow> \<not> better m ?w" for m
    using Cons.IH [of m ?b] by simp
  have "\<not> better best ?b" and "\<not> better x ?b"
    using better_asym better_irrefl by auto
  moreover have "\<not> better ?b ?w" using IH by blast
  ultimately have "\<not> better best ?w" and "\<not> better x ?w"
    using better_negtrans by blast+
  moreover consider "m = best" | "m = x" | "m \<in> set ms" using Cons.prems by auto
  ultimately show ?case using IH by cases auto
qed

end

text \<open>Breaking ties by a numeric weight keeps a preference a preference.\<close>

locale preference_tiebreak = preference better
  for better :: "'a \<Rightarrow> 'a \<Rightarrow> bool" +
  fixes weight :: "'a \<Rightarrow> int"
begin

sublocale lex: preference "\<lambda>a b. better a b \<or> (\<not> better b a \<and> weight a > weight b)"
proof unfold_locales
  fix a b c
  show "\<not> (better b a \<or> (\<not> better a b \<and> weight b > weight a))"
    if "better a b \<or> (\<not> better b a \<and> weight a > weight b)"
    using that better_asym by auto
  show "\<not> (better a c \<or> (\<not> better c a \<and> weight a > weight c))"
    if ab: "\<not> (better a b \<or> (\<not> better b a \<and> weight a > weight b))"
      and bc: "\<not> (better b c \<or> (\<not> better c b \<and> weight b > weight c))"
  proof -
    have "\<not> better a c" using ab bc better_negtrans by blast
    moreover have "better c a" if "\<not> weight a \<le> weight c"
    proof (rule ccontr)
      assume ca: "\<not> better c a"
      have "better b a \<or> better c b" using ab bc that by linarith
      then show False
      proof
        assume "better b a"
        then have "better b c" using ca better_negtrans by blast
        then show False using bc by blast
      next
        assume "better c b"
        then have "better a b" using ca better_negtrans by blast
        then show False using ab by blast
      qed
    qed
    ultimately show ?thesis by linarith
  qed
qed

end

interpretation spec: preference isMoreSpecific
proof unfold_locales
  fix a b c
  show "\<not> isMoreSpecific b a" if "isMoreSpecific a b"
    using that by (auto simp: isMoreSpecific_def split: if_splits)
  show "\<not> isMoreSpecific a c" if "\<not> isMoreSpecific a b" and "\<not> isMoreSpecific b c"
    using that by (auto simp: isMoreSpecific_def split: if_splits)
qed

interpretation spec_action: preference_tiebreak isMoreSpecific "\<lambda>m. actionPriority (Action (Rule m))"
  by unfold_locales

section \<open>Evaluation\<close>

definition rule_hit :: "PermissionAction \<Rightarrow> PermissionRule list \<Rightarrow> string \<Rightarrow> tool_input \<Rightarrow> bool" where
  "rule_hit act rules tn ti = list_ex (\<lambda>r. matchRule r tn ti \<and> Action r = act) rules"

lemma rule_hit_simps [simp]:
  "rule_hit act [] tn ti = False"
  "rule_hit act (r # rs) tn ti = ((matchRule r tn ti \<and> Action r = act) \<or> rule_hit act rs tn ti)"
  by (simp_all add: rule_hit_def)

lemma rule_hitI: "r \<in> set rules \<Longrightarrow> matchRule r tn ti \<Longrightarrow> Action r = act \<Longrightarrow> rule_hit act rules tn ti"
  by (auto simp: rule_hit_def list_ex_iff)

lemma match_flags_eq:
  "match_flags tn ti rs (d, k, l, m) =
    (d \<or> rule_hit ActionDeny rs tn ti, k \<or> rule_hit ActionAsk rs tn ti,
     l \<or> rule_hit ActionAllow rs tn ti, m \<or> list_ex (\<lambda>r. matchRule r tn ti) rs)"
proof (induction rs arbitrary: d k l m)
  case Nil
  then show ?case by simp
next
  case (Cons r rs)
  show ?case
    by (cases "Action r"; cases "matchRule r tn ti") (simp_all add: Cons.IH)
qed

lemma rule_hit_matched: "rule_hit act rs tn ti \<Longrightarrow> list_ex (\<lambda>r. matchRule r tn ti) rs"
  by (auto simp: rule_hit_def list_ex_iff)

lemma EvaluateMatch_Snapshot:
  "EvaluateMatch e tn ti =
    (if rule_hit ActionDeny (Snapshot e) tn ti then (ActionDeny, True)
     else if rule_hit ActionAsk (Snapshot e) tn ti then (ActionAsk, True)
     else if rule_hit ActionAllow (Snapshot e) tn ti then (ActionAllow, True)
     else (ActionAsk, False))"
proof (cases e)
  case None
  then show ?thesis by (simp add: EvaluateMatch_def Snapshot_def)
next
  case (Some rules)
  have matched: "list_ex (\<lambda>r. matchRule r tn ti) rules" if "rule_hit act rules tn ti" for act
    using that by (rule rule_hit_matched)
  show ?thesis
    by (auto simp: EvaluateMatch_def Snapshot_def Some match_flags_eq matched)
qed

text \<open>Canonical tool names match themselves, so the exact-name shortcut changes nothing.\<close>

definition canonical_name :: "string \<Rightarrow> bool" where
  "canonical_name t \<longleftrightarrow> list_all plain_char t \<and> trimmed t"

lemma matchPattern_refl: "canonical_name t \<Longrightarrow> matchPattern t t"
  by (simp add: canonical_name_def matchPattern_def matchWildcardPattern_plain)

lemma collect_matches_Rule:
  assumes "canonical_name tn"
  shows "map Rule (collect_matches tn (extractInputString tn ti) rules) = filter (\<lambda>r. matchRule r tn ti) rules"
  using matchPattern_refl [OF assms]
  by (induction rules) (auto simp: matchRule_def Let_def)

lemma with_action_hit:
  assumes "canonical_name tn"
  shows "with_action act (collectMatches rules tn ti) \<noteq> [] \<longleftrightarrow> rule_hit act rules tn ti"
proof -
  have any: "with_action act ms \<noteq> [] \<longleftrightarrow> (\<exists>r \<in> set (map Rule ms). Action r = act)" for ms :: "RuleMatch list"
    by (auto simp: with_action_def filter_empty_conv)
  have rules: "map Rule (collectMatches rules tn ti) = filter (\<lambda>r. matchRule r tn ti) rules"
    unfolding collectMatches_def by (rule collect_matches_Rule [OF assms])
  show ?thesis
    unfolding any rules by (auto simp: rule_hit_def list_ex_iff)
qed

lemma with_action_Nil [simp]: "with_action act [] = []"
  by (simp add: with_action_def)

lemma decision_of_with_action:
  assumes "with_action act ms \<noteq> []"
  shows "\<exists>w \<in> set ms. Action (Rule w) = act \<and>
    decision_of (with_action act ms) =
      \<lparr>rd_Action = act, rd_Rule = Some (Rule w), rd_Matched = True, rd_ToolExact = ToolExact w,
       rd_InputExact = InputExact w, rd_Specificity = Specificity w\<rparr> \<and>
    (\<forall>m \<in> set ms. Action (Rule m) = act \<longrightarrow> \<not> isMoreSpecific m w)"
proof -
  let ?c = "with_action act ms"
  let ?w = "pick_best isMoreSpecific (hd ?c) (tl ?c)"
  have ins: "insert (hd ?c) (set (tl ?c)) = set ?c"
    using assms by (metis list.collapse list.simps(15))
  have mem: "?w \<in> set ?c"
    using pick_best_mem [of isMoreSpecific "hd ?c" "tl ?c"] ins by simp
  have max: "\<not> isMoreSpecific m ?w" if "m \<in> set ms" "Action (Rule m) = act" for m
    using that ins by (intro spec.pick_best_max) (simp add: with_action_def)
  have act: "?w \<in> set ms" "Action (Rule ?w) = act"
    using mem by (auto simp: with_action_def)
  then show ?thesis
    using max by (intro bexI [of _ ?w]) (auto simp: decision_of_def Let_def)
qed

lemma decision_of_action [simp]:
  "with_action act ms \<noteq> [] \<Longrightarrow> rd_Action (decision_of (with_action act ms)) = act"
  using decision_of_with_action [of act ms] by auto

lemma decision_of_matched [simp]: "rd_Matched (decision_of ms)"
  by (simp add: decision_of_def Let_def)

lemma EvaluateDecision_eq:
  "EvaluateDecision e tn ti = ResolvePrecedenceDecision (collectMatches (Snapshot e) tn ti)"
  by (cases e)
    (auto simp: EvaluateDecision_def Snapshot_def ResolvePrecedenceDecision_def collectMatches_def)

section \<open>Properties\<close>

text \<open>
  The rules engine's verdict is decided by which actions have a matching rule: deny beats
  ask, ask beats allow, whatever the order of the rules, and with no matching rule the answer
  is ask and not matched.
\<close>

lemma EvaluateMatch_priority:
  "EvaluateMatch (NewRulesEngine rules) tn ti =
    (if \<exists>r \<in> set rules. matchRule r tn ti \<and> Action r = ActionDeny then (ActionDeny, True)
     else if \<exists>r \<in> set rules. matchRule r tn ti \<and> Action r = ActionAsk then (ActionAsk, True)
     else if \<exists>r \<in> set rules. matchRule r tn ti \<and> Action r = ActionAllow then (ActionAllow, True)
     else (ActionAsk, False))"
  by (simp add: EvaluateMatch_Snapshot NewRulesEngine_def Snapshot_def rule_hit_def list_ex_iff)

text \<open>
  The two evaluation paths agree: for a canonical tool name (no wildcard, escape or outer
  space) the precedence decision has the action and the matched flag of the simple evaluation.
\<close>

lemma EvaluateDecision_agrees:
  assumes "canonical_name tn"
  shows "(rd_Action (EvaluateDecision e tn ti), rd_Matched (EvaluateDecision e tn ti)) =
    EvaluateMatch e tn ti"
proof -
  let ?ms = "collectMatches (Snapshot e) tn ti"
  have hit: "rule_hit act (Snapshot e) tn ti \<longleftrightarrow> with_action act ?ms \<noteq> []" for act
    by (simp only: with_action_hit [OF assms])
  show ?thesis
    by (cases "?ms = []")
      (simp_all add: EvaluateDecision_eq EvaluateMatch_Snapshot hit ResolvePrecedenceDecision_def no_decision_def)
qed

lemma EvaluateDecision_agrees_witness:
  "canonical_name ''Bash'' \<and>
   rd_Action (EvaluateDecision (Some [\<lparr>ToolName = ''Bash'', InputPattern = [], Action = ActionDeny, Source = []\<rparr>])
     ''Bash'' []) = ActionDeny"
proof -
  have c: "canonical_name ''Bash''"
    by (simp add: canonical_name_def plain_char_def trimmed_def is_space_def)
  let ?r = "\<lparr>ToolName = ''Bash'', InputPattern = [], Action = ActionDeny, Source = []\<rparr>"
  have "matchRule ?r ''Bash'' []"
    using matchPattern_refl [OF c] by (simp add: matchRule_def)
  then have "EvaluateMatch (Some [?r]) ''Bash'' [] = (ActionDeny, True)"
    by (simp add: EvaluateMatch_Snapshot Snapshot_def)
  then show ?thesis using EvaluateDecision_agrees [OF c, of "Some [?r]" "[]"] c by simp
qed

text \<open>
  The precedence decision names a winning rule: it is one of the matching rules, no matching
  rule has an action of higher priority, and among those of the same action none is more
  specific.
\<close>

lemma precedence_winner_maximal:
  assumes "rd_Matched (ResolvePrecedenceDecision ms)"
  shows "\<exists>w \<in> set ms. rd_Rule (ResolvePrecedenceDecision ms) = Some (Rule w) \<and>
    rd_Action (ResolvePrecedenceDecision ms) = Action (Rule w) \<and>
    (\<forall>m \<in> set ms. actionPriority (Action (Rule m)) \<le> actionPriority (Action (Rule w))) \<and>
    (\<forall>m \<in> set ms. Action (Rule m) = Action (Rule w) \<longrightarrow> \<not> isMoreSpecific m w)"
proof -
  have chosen: ?thesis if "with_action act ms \<noteq> []"
    and "ResolvePrecedenceDecision ms = decision_of (with_action act ms)"
    and "\<And>m. m \<in> set ms \<Longrightarrow> actionPriority (Action (Rule m)) \<le> actionPriority act" for act
    using decision_of_with_action [OF that(1)] that(2,3) by force
  have none: "m \<in> set ms \<Longrightarrow> Action (Rule m) \<noteq> act" if "with_action act ms = []" for m act
    using that by (auto simp: with_action_def filter_empty_conv)
  have prio: "actionPriority a \<le> 3" "a \<noteq> ActionDeny \<Longrightarrow> actionPriority a \<le> 2"
    "a \<noteq> ActionDeny \<Longrightarrow> a \<noteq> ActionAsk \<Longrightarrow> actionPriority a \<le> 1" for a
    by (cases a; simp)+
  consider "with_action ActionDeny ms \<noteq> []"
    | "with_action ActionDeny ms = []" "with_action ActionAsk ms \<noteq> []"
    | "with_action ActionDeny ms = []" "with_action ActionAsk ms = []" "with_action ActionAllow ms \<noteq> []"
    using assms by (auto simp: ResolvePrecedenceDecision_def no_decision_def split: if_splits)
  then show ?thesis
  proof cases
    case 1
    then have "ms \<noteq> []" by (auto simp: with_action_def)
    with 1 show ?thesis
      by (intro chosen [of ActionDeny]) (simp_all add: ResolvePrecedenceDecision_def prio(1))
  next
    case 2
    then have "ms \<noteq> []" by (auto simp: with_action_def)
    with 2 show ?thesis
      by (intro chosen [of ActionAsk]) (simp_all add: ResolvePrecedenceDecision_def prio(2) none)
  next
    case 3
    then have "ms \<noteq> []" by (auto simp: with_action_def)
    with 3 show ?thesis
      by (intro chosen [of ActionAllow]) (simp_all add: ResolvePrecedenceDecision_def prio(3) none)
  qed
qed

lemma precedence_winner_maximal_witness:
  "\<exists>w. rd_Rule (ResolvePrecedenceDecision
      [\<lparr>Rule = \<lparr>ToolName = ''Bash'', InputPattern = [], Action = ActionAllow, Source = []\<rparr>,
        ToolExact = True, InputExact = False, Specificity = 0\<rparr>,
       \<lparr>Rule = \<lparr>ToolName = ''*'', InputPattern = [], Action = ActionAsk, Source = []\<rparr>,
        ToolExact = False, InputExact = False, Specificity = 0\<rparr>]) = Some w \<and> Action w = ActionAsk"
proof -
  let ?ms = "[\<lparr>Rule = \<lparr>ToolName = ''Bash'', InputPattern = [], Action = ActionAllow, Source = []\<rparr>,
        ToolExact = True, InputExact = False, Specificity = 0\<rparr>,
       \<lparr>Rule = \<lparr>ToolName = ''*'', InputPattern = [], Action = ActionAsk, Source = []\<rparr>,
        ToolExact = False, InputExact = False, Specificity = 0\<rparr>]"
  have m: "rd_Matched (ResolvePrecedenceDecision ?ms)"
    by (simp add: ResolvePrecedenceDecision_def with_action_def)
  have "rd_Action (ResolvePrecedenceDecision ?ms) = ActionAsk"
    by (simp add: ResolvePrecedenceDecision_def with_action_def decision_of_def Let_def)
  then show ?thesis using precedence_winner_maximal [OF m] by auto
qed

text \<open>
  A blanket denial holds at run time: when a tool is hidden from the model because some deny
  rule covers it without an input pattern, every invocation of it is denied, whatever its input,
  by both evaluation paths.
\<close>

lemma blanket_denied_always_denied:
  assumes "IsToolBlanketDenied e tn"
  shows "EvaluateMatch e tn ti = (ActionDeny, True) \<and>
    rd_Action (EvaluateDecision e tn ti) = ActionDeny"
proof -
  obtain rules r where e: "e = Some rules" and r: "r \<in> set rules" "Action r = ActionDeny"
      "InputPattern r = []" "matchPattern (ToolName r) tn"
    using assms by (auto simp: IsToolBlanketDenied_def list_ex_iff split: option.splits)
  then have "matchRule r tn ti" by (simp add: matchRule_def)
  then have hit: "rule_hit ActionDeny (Snapshot e) tn ti"
    using r e by (auto simp: Snapshot_def intro: rule_hitI)
  have "r \<in> set (map Rule (collect_matches tn s rs))" if "r \<in> set rs" for s rs
    using that r by (induction rs) (auto simp: Let_def)
  then have "r \<in> set (map Rule (collectMatches (Snapshot e) tn ti))"
    using r e by (simp add: collectMatches_def Snapshot_def del: set_map)
  then have "with_action ActionDeny (collectMatches (Snapshot e) tn ti) \<noteq> []"
    using r by (auto simp: with_action_def filter_empty_conv)
  then show ?thesis
    using hit by (auto simp: EvaluateMatch_Snapshot EvaluateDecision_eq ResolvePrecedenceDecision_def)
qed

lemma blanket_denied_always_denied_witness:
  "IsToolBlanketDenied (Some [\<lparr>ToolName = ''mcp__db'', InputPattern = [], Action = ActionDeny, Source = []\<rparr>])
     ''mcp__db__drop'' \<and>
   EvaluateMatch (Some [\<lparr>ToolName = ''mcp__db'', InputPattern = [], Action = ActionDeny, Source = []\<rparr>])
     ''mcp__db__drop'' [(''table'', JStr ''users'')] = (ActionDeny, True)"
proof -
  have b: "IsToolBlanketDenied (Some [\<lparr>ToolName = ''mcp__db'', InputPattern = [], Action = ActionDeny, Source = []\<rparr>])
     ''mcp__db__drop''"
    by (simp add: IsToolBlanketDenied_def matchPattern_def mcp_server_match_def HasPrefix_def
        numeral_eq_Suc Let_def)
  then show ?thesis using blanket_denied_always_denied [OF b] by simp
qed

lemma DetectUnreachable_cases:
  assumes "u \<in> set (DetectUnreachableRules allow ask deny opts)"
  shows "ur_Rule u \<in> set allow \<and> ur_ShadowedBy u \<in> set (if ur_ShadowType u = ShadowTypeDeny then deny else ask) \<and>
    ToolName (ur_ShadowedBy u) = ToolName (ur_Rule u) \<and> InputPattern (ur_ShadowedBy u) = []"
  using assms
  by (induction allow)
    (auto simp: findToolWideDenyRule_def findToolWideAskRule_def split: if_splits option.splits dest!: find_SomeD find_SomeD')

text \<open>
  The detection of unreachable allow rules is sound for the rules engine: when an allow rule
  is reported as shadowed and the engine holds the deny and the ask rules given to the detector,
  no invocation of that tool is ever allowed.
\<close>

lemma unreachable_rule_never_allows:
  assumes "u \<in> set (DetectUnreachableRules allow ask deny opts)"
    and "canonical_name (ToolName (ur_Rule u))"
    and "set ask \<union> set deny \<subseteq> set rules"
    and "\<forall>r \<in> set ask. Action r = ActionAsk" and "\<forall>r \<in> set deny. Action r = ActionDeny"
  shows "EvaluateRules (NewRulesEngine rules) (ToolName (ur_Rule u)) ti \<noteq> ActionAllow"
proof -
  let ?s = "ur_ShadowedBy u" and ?t = "ToolName (ur_Rule u)"
  from DetectUnreachable_cases [OF assms(1)]
  have s: "?s \<in> set ask \<or> ?s \<in> set deny" "ToolName ?s = ?t" "InputPattern ?s = []"
    by (auto split: if_splits)
  then have "matchRule ?s ?t ti"
    using matchPattern_refl [OF assms(2)] by (simp add: matchRule_def)
  then have "rule_hit ActionAsk rules ?t ti \<or> rule_hit ActionDeny rules ?t ti"
    using s assms(3-5) by (auto intro: rule_hitI)
  then show ?thesis
    by (auto simp: EvaluateRules_def EvaluateMatch_Snapshot NewRulesEngine_def Snapshot_def)
qed

lemma unreachable_rule_never_allows_witness:
  "EvaluateRules (NewRulesEngine [\<lparr>ToolName = ''Bash'', InputPattern = [], Action = ActionAsk, Source = []\<rparr>,
      \<lparr>ToolName = ''Bash'', InputPattern = ''ls'', Action = ActionAllow, Source = []\<rparr>])
    ''Bash'' [(''command'', JStr ''ls'')] \<noteq> ActionAllow"
proof -
  let ?al = "\<lparr>ToolName = ''Bash'', InputPattern = ''ls'', Action = ActionAllow, Source = []\<rparr>"
  let ?ak = "\<lparr>ToolName = ''Bash'', InputPattern = [], Action = ActionAsk, Source = []\<rparr>"
  let ?us = "DetectUnreachableRules [?al] [?ak] [] \<lparr>SandboxAutoAllowEnabled = False\<rparr>"
  obtain u where u: "u \<in> set ?us" "ur_Rule u = ?al"
    by (simp add: findToolWideDenyRule_def findToolWideAskRule_def)
  have c: "canonical_name (ToolName (ur_Rule u))"
    using u by (simp add: canonical_name_def plain_char_def trimmed_def is_space_def)
  show ?thesis
    using unreachable_rule_never_allows [OF u(1) c, of "[?ak, ?al]" "[(''command'', JStr ''ls'')]"] u by simp
qed

end
