(* ===== verification/Rule_Syntax.thy ===== *)
theory Rule_Syntax
  imports Permission_Rules
begin

text \<open>
  Concrete syntax of permission rules: the \<open>tool(pattern):action\<close> strings of
  src/engine/permission/rules.go, the settings strings that loader.go reads and persist.go
  writes, and their escaping.
\<close>

section \<open>Model\<close>

datatype rule_error =
    EmptyRule
  | MissingAction string
  | UnknownAction string string
  | EmptyToolName string

definition parseAction :: "string \<Rightarrow> string + PermissionAction" where
  "parseAction s =
     (let l = ToLower s in
      if l = ''allow'' then Inr ActionAllow
      else if l = ''deny'' then Inr ActionDeny
      else if l = ''ask'' then Inr ActionAsk
      else Inl s)"

definition isKnownParamName :: "string \<Rightarrow> bool" where
  "isKnownParamName s =
     (ToLower s \<in> {''command'', ''file_path'', ''path'', ''pattern'', ''query'', ''uri'', ''url''})"

definition parseToolPart :: "string \<Rightarrow> string \<times> string" where
  "parseToolPart s =
     (case IndexByte s (CHR ''('') of
        None \<Rightarrow> (s, [])
      | Some openParen \<Rightarrow>
        (case LastIndexByte s (CHR '')'') of
           None \<Rightarrow> (s, [])
         | Some closeParen \<Rightarrow>
            (if closeParen < openParen then (s, [])
             else
               (let toolName = take openParen s;
                    inputPattern = take (closeParen - (openParen + 1)) (drop (openParen + 1) s)
                in case IndexByte inputPattern (CHR '':'') of
                     Some colonIdx \<Rightarrow>
                       (if colonIdx > 0 \<and> isKnownParamName (take colonIdx inputPattern)
                        then (toolName, drop (colonIdx + 1) inputPattern)
                        else (toolName, inputPattern))
                   | None \<Rightarrow> (toolName, inputPattern)))))"

definition ParseRuleString :: "string \<Rightarrow> rule_error + PermissionRule" where
  "ParseRuleString s0 =
     (let s = TrimSpace s0 in
      if s = [] then Inl EmptyRule
      else case LastIndexByte s (CHR '':'') of
        None \<Rightarrow> Inl (MissingAction s)
      | Some lastColon \<Rightarrow>
          (let actionStr = TrimSpace (drop (lastColon + 1) s);
               toolPart = TrimSpace (take lastColon s)
           in case parseAction actionStr of
                Inl bad \<Rightarrow> Inl (UnknownAction s bad)
              | Inr action \<Rightarrow>
                  (case parseToolPart toolPart of (toolName, inputPattern) \<Rightarrow>
                     if toolName = [] then Inl (EmptyToolName s)
                     else Inr \<lparr>ToolName = toolName, InputPattern = inputPattern,
                               Action = action, Source = []\<rparr>)))"

fun action_string :: "PermissionAction \<Rightarrow> string" where
  "action_string ActionAllow = ''allow''"
| "action_string ActionDeny = ''deny''"
| "action_string ActionAsk = ''ask''"
| "action_string (ActionOther s) = s"

definition formatRuleDescription :: "PermissionRule option \<Rightarrow> string" where
  "formatRuleDescription rule =
     (case rule of None \<Rightarrow> ''<nil>''
      | Some r \<Rightarrow>
          ToolName r @ (if InputPattern r \<noteq> [] then ''('' @ InputPattern r @ '')'' else [])
          @ '':'' @ action_string (Action r)
          @ (if Source r \<noteq> [] then '' ['' @ Source r @ '']'' else []))"

subsection \<open>Settings strings\<close>

definition backslashes_before :: "string \<Rightarrow> nat \<Rightarrow> nat" where
  "backslashes_before s i = length (takeWhile (\<lambda>c. c = backslash) (rev (take i s)))"

definition unescaped_at :: "string \<Rightarrow> char \<Rightarrow> nat \<Rightarrow> bool" where
  "unescaped_at s ch i = (s ! i = ch \<and> even (backslashes_before s i))"

definition findFirstUnescaped :: "string \<Rightarrow> char \<Rightarrow> nat option" where
  "findFirstUnescaped s ch = find (unescaped_at s ch) [0..<length s]"

definition findLastUnescaped :: "string \<Rightarrow> char \<Rightarrow> nat option" where
  "findLastUnescaped s ch = find (unescaped_at s ch) (rev [0..<length s])"

fun unescapeRuleContent :: "string \<Rightarrow> string" where
  "unescapeRuleContent [] = []"
| "unescapeRuleContent [c] = [c]"
| "unescapeRuleContent (c # d # s) =
     (if c = backslash \<and> d \<in> {CHR ''('', CHR '')'', backslash} then d # unescapeRuleContent s
      else c # unescapeRuleContent (d # s))"

definition parseRuleValueString :: "string \<Rightarrow> string \<times> string" where
  "parseRuleValueString s =
     (case findFirstUnescaped s (CHR ''('') of
        None \<Rightarrow> (s, [])
      | Some openIdx \<Rightarrow>
          (case findLastUnescaped s (CHR '')'') of
             None \<Rightarrow> (s, [])
           | Some closeIdx \<Rightarrow>
               (if closeIdx \<le> openIdx \<or> closeIdx \<noteq> length s - 1 then (s, [])
                else let toolName = take openIdx s in
                  if toolName = [] then (s, [])
                  else
                    (let rawContent = take (closeIdx - (openIdx + 1)) (drop (openIdx + 1) s) in
                     if rawContent = [] \<or> rawContent = ''*'' then (toolName, [])
                     else (toolName, unescapeRuleContent rawContent)))))"

definition parseRuleValue :: "string \<Rightarrow> PermissionAction \<Rightarrow> string \<Rightarrow> PermissionRule" where
  "parseRuleValue ruleStr action source =
     (case parseRuleValueString ruleStr of (toolName, inputPattern) \<Rightarrow>
        \<lparr>ToolName = toolName, InputPattern = inputPattern, Action = action, Source = source\<rparr>)"

record settingsPermissions =
  perms_Allow :: "string list"
  perms_Deny :: "string list"
  perms_Ask :: "string list"

definition parsePermissionSection :: "settingsPermissions \<Rightarrow> string \<Rightarrow> PermissionRule list" where
  "parsePermissionSection perms source =
     map (\<lambda>r. parseRuleValue r ActionAllow source) (perms_Allow perms)
     @ map (\<lambda>r. parseRuleValue r ActionDeny source) (perms_Deny perms)
     @ map (\<lambda>r. parseRuleValue r ActionAsk source) (perms_Ask perms)"

definition escape_byte :: "char \<Rightarrow> string" where
  "escape_byte c =
     (if c = CHR ''('' then [backslash, CHR ''('']
      else if c = CHR '')'' then [backslash, CHR '')'']
      else if c = backslash then [backslash, backslash]
      else [c])"

definition escapeRuleContent :: "string \<Rightarrow> string" where
  "escapeRuleContent s = concat (map escape_byte s)"

definition FormatRuleString :: "string \<Rightarrow> string \<Rightarrow> string" where
  "FormatRuleString toolName inputPattern =
     (if inputPattern = [] then toolName
      else toolName @ ''('' @ escapeRuleContent inputPattern @ '')'')"

definition normalizeRule :: "string \<Rightarrow> string" where
  "normalizeRule rule =
     (case parseRuleValueString rule of (toolName, inputPattern) \<Rightarrow>
        FormatRuleString toolName inputPattern)"

definition escapeExactRuleWildcards :: "string \<Rightarrow> string" where
  "escapeExactRuleWildcards pattern =
     concat (map (\<lambda>c. if c = CHR ''*'' \<or> c = backslash then [backslash, c] else [c]) pattern)"

section \<open>Escaping\<close>

lemma escapeRuleContent_simps [simp]:
  "escapeRuleContent [] = []"
  "escapeRuleContent (c # s) = escape_byte c @ escapeRuleContent s"
  by (simp_all add: escapeRuleContent_def)

lemma unescape_plain:
  "c \<noteq> backslash \<Longrightarrow> unescapeRuleContent (c # s) = c # unescapeRuleContent s"
  by (cases s) auto

lemma unescape_escape [simp]: "unescapeRuleContent (escapeRuleContent s) = s"
  by (induction s) (auto simp: escape_byte_def unescape_plain)

lemma escapeRuleContent_Nil [simp]: "escapeRuleContent s = [] \<longleftrightarrow> s = []"
  by (cases s) (auto simp: escape_byte_def)

lemma escapeRuleContent_star: "escapeRuleContent s = ''*'' \<longleftrightarrow> s = ''*''"
  by (cases s) (auto simp: escape_byte_def)

lemma unescape_Nil [simp]: "unescapeRuleContent s = [] \<longleftrightarrow> s = []"
  by (induction s rule: unescapeRuleContent.induct) auto

lemma unescape_star: "unescapeRuleContent s = ''*'' \<longleftrightarrow> s = ''*''"
  by (induction s rule: unescapeRuleContent.induct) auto

text \<open>The length of the run of backslashes at the end of a string.\<close>

definition trailing_bs :: "string \<Rightarrow> nat" where
  "trailing_bs s = length (takeWhile (\<lambda>c. c = backslash) (rev s))"

lemma trailing_bs_snoc:
  "trailing_bs (s @ [c]) = (if c = backslash then Suc (trailing_bs s) else 0)"
  by (simp add: trailing_bs_def)

lemma trailing_bs_app: "backslash \<notin> set s \<Longrightarrow> s \<noteq> [] \<Longrightarrow> trailing_bs (t @ s) = 0"
  by (cases s rule: rev_cases) (auto simp: trailing_bs_def)

lemma backslashes_before_trailing: "backslashes_before s i = trailing_bs (take i s)"
  by (simp add: backslashes_before_def trailing_bs_def)

lemma trailing_bs_escape: "even (trailing_bs (t @ [CHR ''(''] @ escapeRuleContent s))"
proof (induction s rule: rev_induct)
  case Nil
  then show ?case by (simp add: trailing_bs_def)
next
  case (snoc c s)
  have "escapeRuleContent (s @ [c]) = escapeRuleContent s @ escape_byte c"
    by (simp add: escapeRuleContent_def)
  moreover have "trailing_bs (u @ escape_byte c) = (if c = backslash then trailing_bs u + 2 else 0)" for u
    by (simp add: escape_byte_def trailing_bs_def)
  ultimately show ?case using snoc.IH by (simp flip: append_assoc append_Cons)
qed

section \<open>Round trips of the settings strings\<close>

lemma find_upt_first: "k < n \<Longrightarrow> P k \<Longrightarrow> (\<And>i. i < k \<Longrightarrow> \<not> P i) \<Longrightarrow> find P [0..<n] = Some k"
  by (auto simp: find_Some_iff)

lemma find_upt_last: "0 < n \<Longrightarrow> P (n - 1) \<Longrightarrow> find P (rev [0..<n]) = Some (n - 1)"
  by (cases n) auto

lemma find_upt_SomeD: "find P [0..<n] = Some k \<Longrightarrow> k < n \<and> P k \<and> (\<forall>i < k. \<not> P i)"
  by (auto simp: find_Some_iff)

lemma unescaped_at_append: "i < length t \<Longrightarrow> unescaped_at (t @ u) ch i = unescaped_at t ch i"
  by (simp add: unescaped_at_def backslashes_before_def nth_append)

text \<open>A tool part that the parser gives back: no unescaped opening parenthesis, and it does not
  escape the parenthesis that follows it.\<close>

definition tool_part_ok :: "string \<Rightarrow> bool" where
  "tool_part_ok t \<longleftrightarrow> t \<noteq> [] \<and> even (trailing_bs t) \<and> (\<forall>i < length t. \<not> unescaped_at t (CHR ''('') i)"

lemma tool_part_ok_name: "t \<noteq> [] \<Longrightarrow> backslash \<notin> set t \<Longrightarrow> CHR ''('' \<notin> set t \<Longrightarrow> tool_part_ok t"
  using trailing_bs_app [of t "[]"] by (auto simp: tool_part_ok_def unescaped_at_def dest: nth_mem)

lemma findFirstUnescaped_tool:
  assumes "tool_part_ok t"
  shows "findFirstUnescaped (t @ CHR ''('' # r) (CHR ''('') = Some (length t)"
  unfolding findFirstUnescaped_def
proof (rule find_upt_first)
  show "unescaped_at (t @ CHR ''('' # r) (CHR ''('') (length t)"
    using assms by (simp add: unescaped_at_def backslashes_before_trailing tool_part_ok_def)
  show "\<not> unescaped_at (t @ CHR ''('' # r) (CHR ''('') i" if "i < length t" for i
    using that assms unescaped_at_append by (simp add: tool_part_ok_def)
qed simp

lemma findLastUnescaped_close:
  "findLastUnescaped (t @ CHR ''('' # escapeRuleContent p @ '')'') (CHR '')'') =
    Some (length t + 1 + length (escapeRuleContent p))"
proof -
  let ?s = "t @ CHR ''('' # escapeRuleContent p @ '')''"
  have last: "length ?s - 1 = length t + 1 + length (escapeRuleContent p)" by simp
  have tk: "take (length ?s - 1) ?s = t @ [CHR ''(''] @ escapeRuleContent p"
    by simp
  have "?s ! (length ?s - 1) = CHR '')''"
    by (simp add: nth_append)
  moreover have "even (backslashes_before ?s (length ?s - 1))"
    unfolding backslashes_before_trailing tk by (rule trailing_bs_escape)
  ultimately have "unescaped_at ?s (CHR '')'') (length ?s - 1)"
    unfolding unescaped_at_def by blast
  then have "findLastUnescaped ?s (CHR '')'') = Some (length ?s - 1)"
    unfolding findLastUnescaped_def by (rule find_upt_last [rotated]) simp
  then show ?thesis by simp
qed

lemma parse_Format:
  assumes "tool_part_ok t" and "p \<noteq> ''*''"
  shows "parseRuleValueString (FormatRuleString t p) = (t, p)"
proof (cases "p = []")
  case True
  have "findFirstUnescaped t (CHR ''('') = None"
    using assms(1) by (auto simp: findFirstUnescaped_def tool_part_ok_def find_None_iff)
  then show ?thesis using True by (simp add: FormatRuleString_def parseRuleValueString_def)
next
  case False
  have t: "t \<noteq> []" using assms(1) by (simp add: tool_part_ok_def)
  show ?thesis
    using False assms(2) t findFirstUnescaped_tool [OF assms(1)] findLastUnescaped_close [of t p]
    by (simp add: FormatRuleString_def parseRuleValueString_def Let_def escapeRuleContent_star)
qed

lemma parse_shape:
  assumes "parseRuleValueString s = (t, p)"
  shows "(t = s \<and> p = []) \<or> (tool_part_ok t \<and> p \<noteq> ''*'')"
proof (cases "findFirstUnescaped s (CHR ''('')")
  case None
  then show ?thesis using assms by (simp add: parseRuleValueString_def)
next
  case (Some k)
  then have k: "k < length s" "unescaped_at s (CHR ''('') k"
      "\<And>i. i < k \<Longrightarrow> \<not> unescaped_at s (CHR ''('') i"
    unfolding findFirstUnescaped_def by (auto dest: find_upt_SomeD)
  have "\<not> unescaped_at (take k s) (CHR ''('') i" if "i < k" for i
    using k(3) [OF that] k(1) that unescaped_at_append [of i "take k s" "drop k s"] by simp
  then have ok: "take k s \<noteq> [] \<Longrightarrow> tool_part_ok (take k s)"
    using k(1,2) by (simp add: tool_part_ok_def unescaped_at_def backslashes_before_trailing)
  show ?thesis
    using assms ok Some
    by (auto simp: parseRuleValueString_def Let_def unescape_star split: option.splits if_splits)
qed



text \<open>
  The normal form that deduplicates persisted rules is stable: normalizing a rule string
  twice gives the same string as normalizing it once, for every string, malformed ones included.
\<close>

lemma normalizeRule_idem: "normalizeRule (normalizeRule r) = normalizeRule r"
proof -
  obtain t p where tp: "parseRuleValueString r = (t, p)" by fastforce
  then have n: "normalizeRule r = FormatRuleString t p" by (simp add: normalizeRule_def)
  from parse_shape [OF tp] show ?thesis
  proof
    assume "t = r \<and> p = []"
    then have "normalizeRule r = r" using n by (simp add: FormatRuleString_def)
    then show ?thesis by simp
  next
    assume "tool_part_ok t \<and> p \<noteq> ''*''"
    then have "parseRuleValueString (FormatRuleString t p) = (t, p)" using parse_Format by blast
    then show ?thesis using n by (simp add: normalizeRule_def)
  qed
qed

section \<open>Exact rules\<close>

definition sentinel_of :: "char \<Rightarrow> string" where
  "sentinel_of c =
     (if c = CHR ''*'' then escapedStarSentinel
      else if c = backslash then escapedBackslashSentinel else [c])"

lemma process_escapes_Cons:
  "c \<noteq> backslash \<Longrightarrow> process_escapes (c # s) = c # process_escapes s"
  by (cases s) auto

lemma process_escapeExact:
  "process_escapes (escapeExactRuleWildcards p) = concat (map sentinel_of p)"
  by (induction p) (auto simp: escapeExactRuleWildcards_def sentinel_of_def process_escapes_Cons)

lemma regex_toks_Cons: "c \<noteq> CHR 0xEF \<Longrightarrow> regex_toks (c # s) = byte_tok c # regex_toks s"
proof (cases s rule: regex_toks.cases)
qed (auto simp: escapedStarSentinel_def escapedBackslashSentinel_def)

lemma regex_toks_sentinels:
  "CHR 0xEF \<notin> set p \<Longrightarrow> regex_toks (concat (map sentinel_of p)) = map WLit p"
proof (induction p)
  case Nil
  then show ?case by simp
next
  case (Cons c p)
  then have IH: "regex_toks (concat (map sentinel_of p)) = map WLit p" and "c \<noteq> CHR 0xEF" by auto
  then show ?case
    by (auto simp: sentinel_of_def [of c] escapedStarSentinel_def escapedBackslashSentinel_def
        regex_toks_Cons byte_tok_def)
qed

lemma star_free_sentinels: "CHR ''*'' \<notin> set (concat (map sentinel_of p))"
  by (induction p) (auto simp: sentinel_of_def escapedStarSentinel_def escapedBackslashSentinel_def)

lemma trimmed_escapeExact: "trimmed p \<Longrightarrow> trimmed (escapeExactRuleWildcards p)"
proof (cases p)
  case (Cons c q)
  assume tr: "trimmed p"
  obtain q' d where q': "p = q' @ [d]" using Cons by (metis append_butlast_last_id list.distinct(1))
  have "last (escapeExactRuleWildcards p) = d" using q' by (simp add: escapeExactRuleWildcards_def)
  moreover have "hd (escapeExactRuleWildcards p) \<in> {backslash, c}"
    using Cons by (auto simp: escapeExactRuleWildcards_def)
  moreover have "\<not> is_space c" using tr unfolding Cons by (simp add: trimmed_def)
  moreover have "\<not> is_space d" using tr unfolding q' by (simp add: trimmed_def)
  moreover have "\<not> is_space backslash" by (simp add: is_space_def)
  ultimately show ?thesis by (auto simp: trimmed_def)
qed (simp add: escapeExactRuleWildcards_def)

lemma matchWildcard_escapeExact:
  assumes "trimmed p" and "CHR 0xEF \<notin> set p"
  shows "matchWildcardPattern (escapeExactRuleWildcards p) c \<longleftrightarrow> c = p"
proof -
  have trim: "TrimSpace (escapeExactRuleWildcards p) = escapeExactRuleWildcards p"
    using assms(1) by (intro TrimSpace_trimmed trimmed_escapeExact)
  have coll: "collapse_stars (concat (map sentinel_of p)) = concat (map sentinel_of p)"
    using star_free_sentinels in_set_butlastD by (intro collapse_stars_id) fast
  have "filter (\<lambda>c. c = CHR ''*'') (concat (map sentinel_of p)) = []"
    using star_free_sentinels [of p] by (auto simp: filter_empty_conv)
  then have "CountByte (concat (map sentinel_of p)) (CHR ''*'') = 0"
    by (simp only: CountByte_def list.size)
  then show ?thesis
    by (simp add: matchWildcardPattern_def trim process_escapeExact coll
        regex_toks_sentinels [OF assms(2)] wild_match_lits Let_def)
qed

lemma escapeExact_prefix:
  "HasPrefix (escapeExactRuleWildcards p) w \<Longrightarrow> CHR ''*'' \<notin> set w \<and> backslash \<notin> set w \<Longrightarrow> HasPrefix p w"
proof (induction w arbitrary: p)
  case Nil
  then show ?case by (simp add: HasPrefix_def)
next
  case (Cons x w)
  then obtain c q where p: "p = c # q" by (cases p) (auto simp: HasPrefix_def escapeExactRuleWildcards_def)
  from Cons.prems have "c = x" and "HasPrefix (escapeExactRuleWildcards q) w"
    unfolding p by (auto simp: HasPrefix_def escapeExactRuleWildcards_def split: if_splits)
  with Cons show ?case unfolding p by (simp add: HasPrefix_def)
qed

text \<open>
  An exact rule does not widen: the escaped form of a trimmed input text (with no byte of the
  matcher's sentinels) matches that text and nothing else, provided the text does not look like
  an MCP tool name.
\<close>

lemma exact_rule_matches_only_itself:
  assumes "trimmed p" and "CHR 0xEF \<notin> set p" and "\<not> HasPrefix p ''mcp__''"
  shows "matchPattern (escapeExactRuleWildcards p) c \<longleftrightarrow> c = p"
proof -
  let ?q = "escapeExactRuleWildcards p"
  have "?q \<noteq> ''*''"
    by (cases p) (auto simp: escapeExactRuleWildcards_def)
  moreover have "\<not> HasPrefix ?q ''mcp__''"
  proof
    assume "HasPrefix ?q ''mcp__''"
    then have "HasPrefix p ''mcp__''" by (rule escapeExact_prefix) simp
    then show False using assms(3) by simp
  qed
  ultimately show ?thesis
    by (simp add: matchPattern_def mcp_server_match_def matchWildcard_escapeExact [OF assms(1,2)])
qed

lemma exact_rule_matches_only_itself_witness:
  "matchPattern (escapeExactRuleWildcards ''rm *.o'') ''rm *.o'' \<and>
   \<not> matchPattern (escapeExactRuleWildcards ''rm *.o'') ''rm a.o''"
proof -
  have h: "trimmed ''rm *.o''" "CHR 0xEF \<notin> set ''rm *.o''" "\<not> HasPrefix ''rm *.o'' ''mcp__''"
    by (simp_all add: trimmed_def is_space_def HasPrefix_def)
  show ?thesis using exact_rule_matches_only_itself [OF h] by simp
qed

section \<open>Rule descriptions\<close>

lemma lower_action [simp]: "ToLower (action_string a) = action_string a"
  if "a \<in> {ActionAllow, ActionDeny, ActionAsk}"
  using that by (auto simp: ToLower_def lower_char_def)

lemma parseAction_action:
  "a \<in> {ActionAllow, ActionDeny, ActionAsk} \<Longrightarrow> parseAction (action_string a) = Inr a"
  by (auto simp: parseAction_def ToLower_def lower_char_def)

lemma action_string_props:
  "a \<in> {ActionAllow, ActionDeny, ActionAsk} \<Longrightarrow>
    CHR '':'' \<notin> set (action_string a) \<and> trimmed (action_string a) \<and> action_string a \<noteq> []"
  by (auto simp: trimmed_def is_space_def)

lemma parseToolPart_call:
  assumes "CHR ''('' \<notin> set t" and "\<And>k. IndexByte p (CHR '':'') = Some k \<Longrightarrow> \<not> isKnownParamName (take k p)"
  shows "parseToolPart (t @ ''('' @ p @ '')'') = (t, p)"
proof -
  have o: "IndexByte (t @ ''('' @ p @ '')'') (CHR ''('') = Some (length t)"
    using IndexByte_append [OF assms(1)] by simp
  have c: "LastIndexByte (t @ ''('' @ p @ '')'') (CHR '')'') = Some (length t + 1 + length p)"
    using LastIndexByte_append [of "CHR '')''" "[]" "t @ ''('' @ p"] by simp
  show ?thesis
    using o c assms(2)
    by (auto simp: parseToolPart_def Let_def split: option.split)
qed

lemma parseToolPart_bare: "CHR ''('' \<notin> set t \<Longrightarrow> parseToolPart t = (t, [])"
proof -
  assume "CHR ''('' \<notin> set t"
  then have "IndexByte t (CHR ''('') = None" by (simp add: IndexByte_None)
  then show ?thesis by (simp add: parseToolPart_def)
qed

lemma trimmed_append: "x \<noteq> [] \<Longrightarrow> y \<noteq> [] \<Longrightarrow> trimmed (x @ y) \<longleftrightarrow> \<not> is_space (hd x) \<and> \<not> is_space (last y)"
  by (simp add: trimmed_def)

lemma ParseRuleString_parts:
  assumes "trimmed tool" and "tool \<noteq> []" and "a \<in> {ActionAllow, ActionDeny, ActionAsk}"
    and "parseToolPart tool = (t, p)" and "t \<noteq> []"
  shows "ParseRuleString (tool @ '':'' @ action_string a) =
    Inr \<lparr>ToolName = t, InputPattern = p, Action = a, Source = []\<rparr>"
proof -
  let ?s = "tool @ '':'' @ action_string a"
  note a = action_string_props [OF assms(3)]
  have "trimmed ?s"
    using assms(1,2) a by (subst trimmed_append) (auto simp: trimmed_def)
  then have trim: "TrimSpace ?s = ?s" by (rule TrimSpace_trimmed)
  have colon: "LastIndexByte ?s (CHR '':'') = Some (length tool)"
    using LastIndexByte_append [of "CHR '':''" "action_string a" tool] a by simp
  show ?thesis
    unfolding ParseRuleString_def trim using colon assms a
    by (simp add: Let_def TrimSpace_trimmed parseAction_action)
qed

text \<open>
  The description of a rule is a rule string: for a rule with one of the three actions, a
  trimmed tool name without parenthesis, no source, and a pattern that does not start with a
  parameter name and a colon, parsing \<open>formatRuleDescription\<close> gives the rule back.
\<close>

lemma rule_description_roundtrip:
  assumes "Action r \<in> {ActionAllow, ActionDeny, ActionAsk}" and "Source r = []"
    and "ToolName r \<noteq> []" and "trimmed (ToolName r)" and "CHR ''('' \<notin> set (ToolName r)"
    and "\<And>k. IndexByte (InputPattern r) (CHR '':'') = Some k \<Longrightarrow> \<not> isKnownParamName (take k (InputPattern r))"
  shows "ParseRuleString (formatRuleDescription (Some r)) = Inr r"
proof (cases "InputPattern r = []")
  case True
  then have "formatRuleDescription (Some r) = ToolName r @ '':'' @ action_string (Action r)"
    using assms(2) by (simp add: formatRuleDescription_def)
  then show ?thesis
    using ParseRuleString_parts [OF assms(4,3,1) parseToolPart_bare [OF assms(5)] assms(3)] True assms(2)
    by (cases r) simp
next
  case False
  let ?tool = "ToolName r @ ''('' @ InputPattern r @ '')''"
  have "trimmed ?tool"
    using assms(3,4) by (subst trimmed_append) (auto simp: trimmed_def is_space_def)
  moreover have "formatRuleDescription (Some r) = ?tool @ '':'' @ action_string (Action r)"
    using assms(2) False by (simp add: formatRuleDescription_def)
  ultimately show ?thesis
    using ParseRuleString_parts [OF _ _ assms(1) parseToolPart_call [OF assms(5,6)] assms(3)] assms(2)
    by (cases r) simp
qed

lemma rule_description_roundtrip_witness:
  "ParseRuleString (formatRuleDescription (Some \<lparr>ToolName = ''Bash'', InputPattern = ''rm *'',
     Action = ActionDeny, Source = []\<rparr>)) =
   Inr \<lparr>ToolName = ''Bash'', InputPattern = ''rm *'', Action = ActionDeny, Source = []\<rparr>"
  by (rule rule_description_roundtrip) (simp_all add: trimmed_def is_space_def)

end
