(* ===== verification/Permission_Session.thy ===== *)
theory Permission_Session
  imports Permission_Rules
begin

text \<open>
  Remembered decisions: src/engine/permission/session_store.go (the persisted allow-always and
  deny-always decisions) and denial_tracking.go (denial counters, history and the rate limiter).
  The stores' mutexes make every operation atomic; times are integers in nanoseconds and the
  clock is an argument.
\<close>

section \<open>Model of the session store\<close>

datatype DecisionScope = ScopeProject | ScopeGlobal | ScopeOther string

record SessionDecision =
  sd_ToolName :: string
  sd_InputPattern :: string
  sd_Action :: PermissionAction
  sd_Scope :: DecisionScope
  sd_CreatedAt :: int
  sd_Reason :: string

type_synonym SessionStore = "SessionDecision list"

definition NewSessionStore :: SessionStore where
  "NewSessionStore = []"

definition decision_key :: "SessionDecision \<Rightarrow> string \<times> string \<times> DecisionScope" where
  "decision_key d = (sd_ToolName d, sd_InputPattern d, sd_Scope d)"

fun store_Add :: "SessionDecision \<Rightarrow> SessionStore \<Rightarrow> SessionStore" where
  "store_Add d [] = [d]"
| "store_Add d (x # xs) =
     (if sd_ToolName x = sd_ToolName d \<and> sd_InputPattern x = sd_InputPattern d \<and> sd_Scope x = sd_Scope d
      then d # xs else x # store_Add d xs)"

fun store_Remove :: "string \<Rightarrow> string \<Rightarrow> DecisionScope \<Rightarrow> SessionStore \<Rightarrow> SessionStore \<times> bool" where
  "store_Remove tn ip sc [] = ([], False)"
| "store_Remove tn ip sc (d # ds) =
     (if sd_ToolName d = tn \<and> sd_InputPattern d = ip \<and> sd_Scope d = sc then (ds, True)
      else case store_Remove tn ip sc ds of (ds', b) \<Rightarrow> (d # ds', b))"

definition store_Clear :: "DecisionScope \<Rightarrow> SessionStore \<Rightarrow> SessionStore" where
  "store_Clear scope s =
     (if scope = ScopeOther [] then [] else filter (\<lambda>d. sd_Scope d \<noteq> scope) s)"

fun lookup_loop ::
  "string \<Rightarrow> string \<Rightarrow> SessionDecision option \<Rightarrow> SessionDecision list \<Rightarrow> SessionDecision option"
where
  "lookup_loop toolName inputStr globalMatch [] = globalMatch"
| "lookup_loop toolName inputStr globalMatch (d # ds) =
     (if sd_ToolName d \<noteq> toolName then lookup_loop toolName inputStr globalMatch ds
      else if sd_InputPattern d = [] then
        (if sd_Scope d = ScopeProject then Some d
         else lookup_loop toolName inputStr (if globalMatch = None then Some d else globalMatch) ds)
      else if matchPattern (sd_InputPattern d) inputStr then
        (if sd_Scope d = ScopeProject then Some d
         else lookup_loop toolName inputStr (if globalMatch = None then Some d else globalMatch) ds)
      else lookup_loop toolName inputStr globalMatch ds)"

definition store_Lookup :: "SessionStore \<Rightarrow> string \<Rightarrow> tool_input \<Rightarrow> SessionDecision option" where
  "store_Lookup s toolName toolInput =
     lookup_loop toolName (extractInputString toolName toolInput) None s"

definition store_List :: "SessionStore \<Rightarrow> SessionDecision list" where
  "store_List s = s"

definition ToRules :: "SessionStore \<Rightarrow> PermissionRule list" where
  "ToRules s =
     map (\<lambda>d. \<lparr>ToolName = sd_ToolName d, InputPattern = sd_InputPattern d, Action = sd_Action d,
       Source = (if sd_Scope d = ScopeGlobal then ''user-settings'' else ''local-settings'')\<rparr>) s"

record persistedSessionFile =
  psf_Version :: int
  psf_Decisions :: "SessionDecision list"

datatype read_result = ReadNotExist | ReadError string | ReadData string

text \<open>\<open>LoadFrom\<close>: the outcome of reading the file and the JSON decoder are arguments.\<close>

definition LoadFrom ::
  "(string \<Rightarrow> persistedSessionFile option) \<Rightarrow> read_result \<Rightarrow> SessionStore \<Rightarrow> SessionStore \<times> string option" where
  "LoadFrom unmarshal rr s =
     (case rr of
        ReadNotExist \<Rightarrow> (s, None)
      | ReadError e \<Rightarrow> (s, Some (''read session store: '' @ e))
      | ReadData data \<Rightarrow>
         (if data = [] then (s, None)
          else case unmarshal data of
            None \<Rightarrow> (s, None)
          | Some file \<Rightarrow>
             (if psf_Version file < 1 then (s, None)
              else (s @ filter (\<lambda>d. \<not> (sd_ToolName d = [] \<or>
                     (sd_Action d \<noteq> ActionAllow \<and> sd_Action d \<noteq> ActionDeny \<and> sd_Action d \<noteq> ActionAsk)))
                     (psf_Decisions file), None))))"

section \<open>Model of denial tracking\<close>

datatype PermissionReason =
    ReasonRule | ReasonMode | ReasonSafetyCheck | ReasonClassifier | ReasonHook
  | ReasonSandboxOverride | ReasonSubcommand | ReasonToolSpecific | ReasonWorkingDir
  | ReasonAsyncAgent | ReasonPermissionPrompt | ReasonOther

record DenialRecord =
  dr_ToolName :: string
  dr_Input :: tool_input
  dr_Reason :: PermissionReason
  dr_Message :: string
  dr_Timestamp :: int

record DenialTrackingState =
  ConsecutiveDenials :: int
  TotalDenials :: int
  History :: "DenialRecord list"
  rateLimiter :: "string \<rightharpoonup> int"

definition MaxConsecutive :: int where "MaxConsecutive = 3"

definition MaxTotal :: int where "MaxTotal = 20"

definition RateLimitWindow :: int where "RateLimitWindow = 30 * 10 ^ 9"

definition MaxHistorySize :: nat where "MaxHistorySize = 100"

definition NewDenialTrackingState :: DenialTrackingState where
  "NewDenialTrackingState =
     \<lparr>ConsecutiveDenials = 0, TotalDenials = 0, History = [], rateLimiter = Map.empty\<rparr>"

definition RecordDenial :: "DenialTrackingState \<Rightarrow> DenialTrackingState" where
  "RecordDenial s =
     s\<lparr>ConsecutiveDenials := ConsecutiveDenials s + 1, TotalDenials := TotalDenials s + 1\<rparr>"

definition RecordDenialWithDetails ::
  "int \<Rightarrow> string \<Rightarrow> tool_input \<Rightarrow> PermissionReason \<Rightarrow> string \<Rightarrow> DenialTrackingState \<Rightarrow> DenialTrackingState" where
  "RecordDenialWithDetails now toolName input reason message s =
     (let record = \<lparr>dr_ToolName = toolName, dr_Input = input, dr_Reason = reason,
             dr_Message = message, dr_Timestamp = now\<rparr>;
          h = History s @ [record];
          h' = (if length h > MaxHistorySize then drop (length h - MaxHistorySize) h else h)
      in \<lparr>ConsecutiveDenials = ConsecutiveDenials s + 1, TotalDenials = TotalDenials s + 1,
          History = h',
          rateLimiter = (rateLimiter s)(denialRateLimitKey toolName input \<mapsto> now)\<rparr>)"

definition RecordSuccess :: "DenialTrackingState \<Rightarrow> DenialTrackingState" where
  "RecordSuccess s = s\<lparr>ConsecutiveDenials := 0\<rparr>"

definition ShouldFallbackToPrompting :: "DenialTrackingState \<Rightarrow> bool" where
  "ShouldFallbackToPrompting s =
     (ConsecutiveDenials s \<ge> MaxConsecutive \<or> TotalDenials s \<ge> MaxTotal)"

definition IsRateLimited :: "int \<Rightarrow> DenialTrackingState \<Rightarrow> string \<Rightarrow> tool_input \<Rightarrow> bool" where
  "IsRateLimited now s toolName input =
     (case rateLimiter s (denialRateLimitKey toolName input) of
        None \<Rightarrow> False
      | Some lastDenied \<Rightarrow> now - lastDenied < RateLimitWindow)"

definition ClearRateLimit :: "string \<Rightarrow> tool_input \<Rightarrow> DenialTrackingState \<Rightarrow> DenialTrackingState" where
  "ClearRateLimit toolName input s =
     s\<lparr>rateLimiter := (rateLimiter s)(denialRateLimitKey toolName input := None)\<rparr>"

definition ClearAllRateLimits :: "DenialTrackingState \<Rightarrow> DenialTrackingState" where
  "ClearAllRateLimits s = s\<lparr>rateLimiter := Map.empty\<rparr>"

definition ResetDenials :: "DenialTrackingState \<Rightarrow> DenialTrackingState" where
  "ResetDenials s =
     s\<lparr>ConsecutiveDenials := 0, TotalDenials := 0, History := [], rateLimiter := Map.empty\<rparr>"

definition GetHistory :: "DenialTrackingState \<Rightarrow> DenialRecord list" where
  "GetHistory s = History s"

section \<open>Keyed stores\<close>

text \<open>
  What the mode transitions rely on: a store that keeps one value per key.  Deletion of a list
  of keys is the client operation of \<open>clearWriteDecisions\<close>.
\<close>

locale keyed_store =
  fixes key :: "'v \<Rightarrow> 'k" and empty :: 's and put :: "'v \<Rightarrow> 's \<Rightarrow> 's"
    and del :: "'k \<Rightarrow> 's \<Rightarrow> 's" and get :: "'s \<Rightarrow> 'k \<Rightarrow> 'v option" and invar :: "'s \<Rightarrow> bool"
  assumes get_empty: "get empty k = None"
    and get_put: "invar s \<Longrightarrow> get (put v s) k = (if k = key v then Some v else get s k)"
    and get_del: "invar s \<Longrightarrow> get (del k s) k' = (if k' = k then None else get s k')"
    and invar_empty: "invar empty"
    and invar_put: "invar s \<Longrightarrow> invar (put v s)"
    and invar_del: "invar s \<Longrightarrow> invar (del k s)"
    and get_key: "invar s \<Longrightarrow> get s k = Some v \<Longrightarrow> key v = k"
begin

lemma invar_fold_del: "invar s \<Longrightarrow> invar (fold del ks s)"
  by (induction ks arbitrary: s) (auto simp: invar_del)

lemma get_fold_del:
  "invar s \<Longrightarrow> get (fold del ks s) k = (if k \<in> set ks then None else get s k)"
  by (induction ks arbitrary: s) (auto simp: get_del invar_del)

lemma invar_fold_put: "invar s \<Longrightarrow> invar (fold put vs s)"
  by (induction vs arbitrary: s) (auto simp: invar_put)

lemma put_put: "invar s \<Longrightarrow> key v = key w \<Longrightarrow> get (put v (put w s)) = get (put v s)"
  by (auto simp: get_put invar_put)

lemma del_put: "invar s \<Longrightarrow> get (del (key v) (put v s)) = get (del (key v) s)"
  by (auto simp: get_put get_del invar_put)

end

definition store_get :: "SessionStore \<Rightarrow> string \<times> string \<times> DecisionScope \<Rightarrow> SessionDecision option" where
  "store_get s k = find (\<lambda>d. decision_key d = k) s"

definition store_del :: "string \<times> string \<times> DecisionScope \<Rightarrow> SessionStore \<Rightarrow> SessionStore" where
  "store_del k s = (case k of (tn, ip, sc) \<Rightarrow> fst (store_Remove tn ip sc s))"

definition store_ok :: "SessionStore \<Rightarrow> bool" where
  "store_ok s \<longleftrightarrow> distinct (map decision_key s)"

lemma key_eq_iff:
  "decision_key x = decision_key d \<longleftrightarrow>
    sd_ToolName x = sd_ToolName d \<and> sd_InputPattern x = sd_InputPattern d \<and> sd_Scope x = sd_Scope d"
  by (simp add: decision_key_def)

lemma keys_Add:
  "decision_key ` set (store_Add d s) = insert (decision_key d) (decision_key ` set s)"
  by (induction s) (auto simp: key_eq_iff [symmetric])

lemma store_ok_Add: "store_ok s \<Longrightarrow> store_ok (store_Add d s)"
  unfolding store_ok_def
proof (induction s)
  case (Cons x s)
  then show ?case
    using keys_Add [of d s] by (auto simp: key_eq_iff [symmetric])
qed simp

lemma store_del_simps [simp]:
  "store_del k [] = []"
  "store_del k (d # ds) = (if decision_key d = k then ds else d # store_del k ds)"
  by (cases k; simp add: store_del_def decision_key_def split: prod.split)+

lemma set_store_del: "store_ok s \<Longrightarrow> set (store_del k s) = {d \<in> set s. decision_key d \<noteq> k}"
  unfolding store_ok_def by (induction s) (auto simp: image_iff)

lemma store_ok_del: "store_ok s \<Longrightarrow> store_ok (store_del k s)"
  unfolding store_ok_def
  by (induction s) (auto simp: set_store_del [unfolded store_ok_def])

lemma store_get_Add: "store_get (store_Add d s) k = (if k = decision_key d then Some d else store_get s k)"
  unfolding store_get_def by (induction s) (auto simp: key_eq_iff [symmetric])

lemma store_get_None: "k \<notin> decision_key ` set s \<Longrightarrow> store_get s k = None"
  by (auto simp: store_get_def find_None_iff)

lemma store_get_del: "store_ok s \<Longrightarrow> store_get (store_del k s) k' = (if k' = k then None else store_get s k')"
  unfolding store_ok_def
proof (induction s)
  case Nil
  then show ?case by (simp add: store_get_def)
next
  case (Cons d s)
  then show ?case
    using store_get_None [of "decision_key d" s] by (auto simp: store_get_def)
qed

interpretation decisions: keyed_store decision_key NewSessionStore store_Add store_del store_get store_ok
  by unfold_locales
    (auto simp: NewSessionStore_def store_get_Add store_get_del store_ok_Add store_ok_del,
      auto simp: store_get_def store_ok_def dest: find_SomeD)

lemma store_get_mem: "store_ok s \<Longrightarrow> d \<in> set s \<longleftrightarrow> store_get s (decision_key d) = Some d"
  unfolding store_ok_def
proof (induction s)
  case Nil
  then show ?case by (simp add: store_get_def)
next
  case (Cons x s)
  then show ?case using store_get_None [of "decision_key d" s]
    by (auto simp: store_get_def dest: find_SomeD)
qed

section \<open>Lookup\<close>

text \<open>What a decision applies to: its tool, and any input or an input its pattern matches.\<close>

definition applies :: "string \<Rightarrow> string \<Rightarrow> SessionDecision \<Rightarrow> bool" where
  "applies toolName inputStr d \<longleftrightarrow>
     sd_ToolName d = toolName \<and> (sd_InputPattern d = [] \<or> matchPattern (sd_InputPattern d) inputStr)"

lemma lookup_loop_eq:
  "lookup_loop tn str g ds =
     (case find (\<lambda>d. applies tn str d \<and> sd_Scope d = ScopeProject) ds of
        Some d \<Rightarrow> Some d
      | None \<Rightarrow> (case g of Some d \<Rightarrow> Some d | None \<Rightarrow> find (applies tn str) ds))"
  by (induction ds arbitrary: g) (auto simp: applies_def split: option.splits)

lemma store_Lookup_eq:
  "store_Lookup s tn inp =
     (let str = extractInputString tn inp in
      case find (\<lambda>d. applies tn str d \<and> sd_Scope d = ScopeProject) s of
        Some d \<Rightarrow> Some d | None \<Rightarrow> find (applies tn str) s)"
  by (simp add: store_Lookup_def lookup_loop_eq Let_def cong: option.case_cong)

lemma store_Lookup_SomeD:
  "store_Lookup s tn inp = Some d \<Longrightarrow> d \<in> set s \<and> applies tn (extractInputString tn inp) d"
  by (auto simp: store_Lookup_eq Let_def split: option.splits dest!: find_SomeD)

text \<open>
  A lookup answers with the first applicable project-scoped decision in the order of the
  store; when no project-scoped decision applies, with the first applicable decision; and it
  finds nothing exactly when no stored decision applies to the tool and its input.
\<close>

lemma Lookup_project_before_global:
  "(case store_Lookup s toolName toolInput of
      None \<Rightarrow> filter (applies toolName (extractInputString toolName toolInput)) s = []
    | Some d \<Rightarrow>
       (let hits = filter (applies toolName (extractInputString toolName toolInput)) s;
            project = filter (\<lambda>d. sd_Scope d = ScopeProject) hits
        in hits \<noteq> [] \<and> d = hd (if project \<noteq> [] then project else hits)))"
proof -
  have find_hd: "find P xs = (case filter P xs of [] \<Rightarrow> None | y # _ \<Rightarrow> Some y)"
    for P :: "SessionDecision \<Rightarrow> bool" and xs
    by (induction xs) auto
  let ?str = "extractInputString toolName toolInput"
  have "filter (\<lambda>d. applies toolName ?str d \<and> sd_Scope d = ScopeProject) s =
        filter (\<lambda>d. sd_Scope d = ScopeProject) (filter (applies toolName ?str) s)"
    by (induction s) auto
  then show ?thesis
    unfolding store_Lookup_eq find_hd Let_def
    by (cases "filter (applies toolName ?str) s")
      (auto split: list.splits option.splits)
qed

text \<open>
  In a store whose keys are distinct, re-adding a decision under the same tool, pattern and
  scope replaces the earlier one: lookup by key finds the new decision, every other key keeps
  its decision, the store does not grow, and removing the key leaves no decision under it.
\<close>

lemma Add_replaces_same_key:
  assumes "store_ok s" "decision_key e = decision_key d"
  shows "store_ok (store_Add e (store_Add d s)) \<and>
    length (store_Add e (store_Add d s)) = length (store_Add d s) \<and>
    store_get (store_Add e (store_Add d s)) k = (if k = decision_key d then Some e else store_get s k) \<and>
    store_get (fst (store_Remove (sd_ToolName d) (sd_InputPattern d) (sd_Scope d) (store_Add e (store_Add d s))))
      (decision_key d) = None"
proof -
  have ok: "store_ok (store_Add e (store_Add d s))"
    using assms by (simp add: decisions.invar_put)
  have len: "length (store_Add e (store_Add d s)) = length (store_Add d s)"
    using assms(2) by (induction s) (auto simp: key_eq_iff)
  have rem: "fst (store_Remove (sd_ToolName d) (sd_InputPattern d) (sd_Scope d) t) = store_del (decision_key d) t" for t
    by (simp add: store_del_def decision_key_def)
  show ?thesis
    using assms ok len by (simp add: rem store_get_Add decisions.get_del)
qed

lemma Add_replaces_same_key_witness:
  "let d = \<lparr>sd_ToolName = ''Bash'', sd_InputPattern = ''ls'', sd_Action = ActionAllow,
             sd_Scope = ScopeProject, sd_CreatedAt = 1, sd_Reason = []\<rparr>;
       e = d\<lparr>sd_Action := ActionDeny\<rparr>
   in store_get (store_Add e (store_Add d [])) (decision_key d) = Some e \<and>
      length (store_Add e (store_Add d [])) = 1"
  using Add_replaces_same_key [of "[]"
      "\<lparr>sd_ToolName = ''Bash'', sd_InputPattern = ''ls'', sd_Action = ActionDeny,
        sd_Scope = ScopeProject, sd_CreatedAt = 1, sd_Reason = []\<rparr>"
      "\<lparr>sd_ToolName = ''Bash'', sd_InputPattern = ''ls'', sd_Action = ActionAllow,
        sd_Scope = ScopeProject, sd_CreatedAt = 1, sd_Reason = []\<rparr>" "(''Bash'', ''ls'', ScopeProject)"]
  by (simp add: store_ok_def decision_key_def)

section \<open>Denial tracking over sequences of operations\<close>

datatype denial_op =
    OpDenial
  | OpDenialDetails int string tool_input PermissionReason string
  | OpSuccess
  | OpClearRateLimit string tool_input
  | OpClearAllRateLimits
  | OpReset

fun denial_run :: "denial_op \<Rightarrow> DenialTrackingState \<Rightarrow> DenialTrackingState" where
  "denial_run OpDenial s = RecordDenial s"
| "denial_run (OpDenialDetails now tn inp r m) s = RecordDenialWithDetails now tn inp r m s"
| "denial_run OpSuccess s = RecordSuccess s"
| "denial_run (OpClearRateLimit tn inp) s = ClearRateLimit tn inp s"
| "denial_run OpClearAllRateLimits s = ClearAllRateLimits s"
| "denial_run OpReset s = ResetDenials s"

definition denial_ok :: "DenialTrackingState \<Rightarrow> bool" where
  "denial_ok s \<longleftrightarrow> 0 \<le> ConsecutiveDenials s \<and> ConsecutiveDenials s \<le> TotalDenials s \<and>
     length (History s) \<le> MaxHistorySize \<and> int (length (History s)) \<le> TotalDenials s"

lemmas denial_defs = RecordDenial_def RecordDenialWithDetails_def RecordSuccess_def
  ClearRateLimit_def ClearAllRateLimits_def ResetDenials_def NewDenialTrackingState_def

lemma denial_ok_run: "denial_ok s \<Longrightarrow> denial_ok (denial_run op s)"
  by (cases op) (auto simp: denial_ok_def denial_defs Let_def)

lemma denial_ok_fold: "denial_ok s \<Longrightarrow> denial_ok (fold denial_run ops s)"
  by (induction ops arbitrary: s) (auto intro: denial_ok_run)

text \<open>
  Whatever sequence of operations is applied to a fresh tracker, the consecutive count never
  exceeds the total, both are non-negative, and the history holds at most one record per denial
  and at most \<open>MaxHistorySize\<close> of them.
\<close>

lemma denial_tracking_invariant:
  "(let s = fold denial_run ops NewDenialTrackingState in
      0 \<le> ConsecutiveDenials s \<and> ConsecutiveDenials s \<le> TotalDenials s \<and>
      length (GetHistory s) \<le> 100 \<and> int (length (GetHistory s)) \<le> TotalDenials s)"
  using denial_ok_fold [of NewDenialTrackingState ops]
  by (simp add: denial_ok_def NewDenialTrackingState_def MaxHistorySize_def GetHistory_def Let_def)

text \<open>
  Recording a denial of a shell command at time \<open>t\<close> blocks that very command for thirty
  seconds and no other: a later query for a command is rate-limited iff the command is the
  denied one and less than the window has passed, or it already was rate-limited before and is
  a different command.
\<close>

lemma rate_limit_after_denial:
  assumes "map_of inp ''command'' = Some (JStr cmd)" "map_of inp' ''command'' = Some (JStr cmd')"
  shows "IsRateLimited now (RecordDenialWithDetails t ''Bash'' inp reason msg s) ''Bash'' inp' \<longleftrightarrow>
    (if cmd' = cmd then now - t < 30000000000 else IsRateLimited now s ''Bash'' inp')"
  using assms
  by (simp add: IsRateLimited_def RecordDenialWithDetails_def Let_def denialRateLimitKey_Bash
      RateLimitWindow_def)

lemma rate_limit_after_denial_witness:
  "IsRateLimited 29000000000 (RecordDenialWithDetails 0 ''Bash'' [(''command'', JStr ''rm x'')]
     ReasonRule [] NewDenialTrackingState) ''Bash'' [(''command'', JStr ''rm x'')] \<and>
   \<not> IsRateLimited 31000000000 (RecordDenialWithDetails 0 ''Bash'' [(''command'', JStr ''rm x'')]
     ReasonRule [] NewDenialTrackingState) ''Bash'' [(''command'', JStr ''rm x'')]"
  by (simp add: rate_limit_after_denial [of _ "''rm x''" _ "''rm x''"])

end
