(* ===== verification/Shell_Lex.thy ===== *)
theory Shell_Lex
  imports Go_Prelude
begin

text \<open>
  The quote-aware splitter of src/engine/permission/bash_security.go.  The scanners of the Go
  code advance an index over quotes, escapes and nested constructs; here each scanner returns
  the number of bytes it advances.  \<open>SplitCommands\<close> is then related to a tokeniser: the split
  loses no byte outside separators and white space, and leaves no separator behind.
\<close>

abbreviation (input) squote :: char where "squote \<equiv> CHR 0x27"

abbreviation (input) dquote :: char where "dquote \<equiv> CHR 0x22"

abbreviation (input) backtick :: char where "backtick \<equiv> CHR 0x60"

section \<open>Scanners\<close>

text \<open>Up to and including the closing quote, or to the end of the text.\<close>

fun quoted :: "char \<Rightarrow> string \<Rightarrow> nat" where
  "quoted q [] = 0"
| "quoted q (c # s) = (if c = q then 1 else Suc (quoted q s))"

text \<open>The same where a backslash protects the next byte.\<close>

fun escaped :: "char \<Rightarrow> string \<Rightarrow> nat" where
  "escaped q [] = 0"
| "escaped q [c] = 1"
| "escaped q (c # d # s) =
     (if c = q then 1
      else if c = backslash then 2 + escaped q s
      else Suc (escaped q (d # s)))"

text \<open>To the parenthesis that closes \<open>depth\<close> open ones; quotes inside hide parentheses.\<close>

function paren :: "nat \<Rightarrow> string \<Rightarrow> nat" where
  "paren depth [] = 0"
| "paren depth (c # s) =
     (if depth = 0 then 0
      else if c = CHR ''('' then Suc (paren (Suc depth) s)
      else if c = CHR '')'' then Suc (paren (depth - 1) s)
      else if c = squote then Suc (quoted squote s + paren depth (drop (quoted squote s) s))
      else if c = dquote then Suc (escaped dquote s + paren depth (drop (escaped dquote s) s))
      else Suc (paren depth s))"
  by pat_completeness auto
termination by (relation "measure (length \<circ> snd)") auto

text \<open>
  The length of the quoted, escaped or nested construct at the head of the text, 0 when there
  is none.
\<close>

definition segment :: "string \<Rightarrow> nat" where
  "segment s =
     (case s of
        [] \<Rightarrow> 0
      | c # cs \<Rightarrow>
         (if c = squote then Suc (quoted squote cs)
          else if c = dquote then Suc (escaped dquote cs)
          else if c = backslash \<and> cs \<noteq> [] then 2
          else if c = CHR ''$'' \<and> cs \<noteq> [] \<and> hd cs = CHR ''('' then 2 + paren 1 (tl cs)
          else if c = backtick then Suc (escaped backtick cs)
          else if c = CHR ''('' then Suc (paren 1 cs)
          else 0))"

text \<open>The length of the separator at the head of the text, 0 when there is none.\<close>

definition separator :: "string \<Rightarrow> nat" where
  "separator s =
     (case s of
        [] \<Rightarrow> 0
      | c # cs \<Rightarrow>
         (if c = CHR ''&'' \<and> cs \<noteq> [] \<and> hd cs = CHR ''&'' then 2
          else if c = CHR ''|'' \<and> cs \<noteq> [] \<and> hd cs = CHR ''|'' then 2
          else if c = CHR ''|'' then 1
          else if c = CHR '';'' then 1
          else if c = CHR ''&'' then 1
          else 0))"

definition flush :: "string \<Rightarrow> string list" where
  "flush current = (let s = TrimSpace current in if s \<noteq> [] then [s] else [])"

function split_loop :: "string \<Rightarrow> string \<Rightarrow> string list" where
  "split_loop current rest =
     (if rest = [] then flush current
      else if segment rest > 0 then
        split_loop (current @ take (segment rest) rest) (drop (segment rest) rest)
      else if separator rest > 0 then flush current @ split_loop [] (drop (separator rest) rest)
      else split_loop (current @ [hd rest]) (tl rest))"
  by pat_completeness auto
termination by (relation "measure (length \<circ> snd)") auto

declare split_loop.simps [simp del]

definition SplitCommands :: "string \<Rightarrow> string list" where
  "SplitCommands command =
     (let command = TrimSpace command in if command = [] then [] else split_loop [] command)"

section \<open>Locality of the scanners\<close>

text \<open>On a prefix of its input a scanner stops at the same place or at the end of the prefix.\<close>

lemma quoted_prefix: "quoted q x = min (quoted q (x @ y)) (length x)"
  by (induction x) auto

lemma escaped_le: "escaped q s \<le> length s"
  by (induction q s rule: escaped.induct) auto

lemma escaped_prefix: "escaped q x = min (escaped q (x @ y)) (length x)"
proof (induction q x rule: escaped.induct)
  case (2 q c)
  then show ?case by (cases y) auto
qed auto

lemma min_step:
  assumes "k = min k' (length xs)" "k' \<le> length xs \<Longrightarrow> f (drop k xs) = min (f (drop k' (xs @ y))) (length (drop k xs))"
    and "f [] = (0::nat)"
  shows "k + f (drop k xs) = min (k' + f (drop k' (xs @ y))) (length xs)"
proof (cases "k' \<le> length xs")
  case True
  then show ?thesis using assms(1,2) by auto
next
  case False
  then show ?thesis using assms(1,3) by simp
qed

lemma paren_prefix: "paren d x = min (paren d (x @ y)) (length x)"
proof (induction d x rule: paren.induct)
  case (2 d c s)
  have q: "quoted squote s + paren d (drop (quoted squote s) s) =
      min (quoted squote (s @ y) + paren d (drop (quoted squote (s @ y)) (s @ y))) (length s)"
    if "d \<noteq> 0" "c \<noteq> CHR ''(''" "c \<noteq> CHR '')''" "c = squote"
    using 2(3) that quoted_prefix [of squote s y] by (intro min_step) (auto simp: min_def)
  have e: "escaped dquote s + paren d (drop (escaped dquote s) s) =
      min (escaped dquote (s @ y) + paren d (drop (escaped dquote (s @ y)) (s @ y))) (length s)"
    if "d \<noteq> 0" "c \<noteq> CHR ''(''" "c \<noteq> CHR '')''" "c \<noteq> squote" "c = dquote"
    using 2(4) that escaped_prefix [of dquote s y] by (intro min_step) (auto simp: min_def)
  show ?case
    using 2(1,2,5) q e by auto
qed simp

lemma paren_le: "paren d s \<le> length s"
  using paren_prefix [of d s "[]"] by simp

lemma quoted_le: "quoted q s \<le> length s"
  using quoted_prefix [of q s "[]"] by simp

lemma segment_prefix:
  "segment x = min (segment (x @ y)) (length x) \<or> length x = 1 \<and> segment x = 0 \<and> separator x = 0"
proof (cases x)
  case (Cons c cs)
  note pre = paren_prefix [of 1 cs y] paren_prefix [of 1 "tl cs" y] quoted_prefix [of squote cs y]
    escaped_prefix [of dquote cs y] escaped_prefix [of backtick cs y]
  show ?thesis
  proof (cases "cs = []")
    case True
    then show ?thesis using Cons by (auto simp: segment_def separator_def)
  next
    case False
    then have "length cs = Suc (length (tl cs))" by (cases cs) auto
    with False show ?thesis
      using Cons pre by (auto simp: segment_def simp del: paren.simps quoted.simps escaped.simps length_tl)
  qed
qed (simp add: segment_def)

lemma segment_le: "segment s \<le> length s"
  using segment_prefix [of s "[]"] by auto

section \<open>Tokens\<close>

datatype stok = Text string | Sep string

fun tok_text :: "stok \<Rightarrow> string" where
  "tok_text (Text t) = t"
| "tok_text (Sep t) = t"

function lex :: "string \<Rightarrow> stok list" where
  "lex s =
     (if s = [] then []
      else if segment s > 0 then Text (take (segment s) s) # lex (drop (segment s) s)
      else if separator s > 0 then Sep (take (separator s) s) # lex (drop (separator s) s)
      else Text [hd s] # lex (tl s))"
  by pat_completeness auto
termination by (relation "measure length") auto

declare lex.simps [simp del]

lemma lex_Nil [simp]: "lex [] = []"
  by (simp add: lex.simps)

text \<open>The texts between the separators.\<close>

fun groups :: "string \<Rightarrow> stok list \<Rightarrow> string list" where
  "groups cur [] = [cur]"
| "groups cur (Text t # ts) = groups (cur @ t) ts"
| "groups cur (Sep t # ts) = cur # groups [] ts"

lemma tok_text_lex: "concat (map tok_text (lex s)) = s"
proof (induction s rule: lex.induct)
  case (1 s)
  then show ?case by (subst lex.simps) auto
qed

lemma split_loop_groups:
  "split_loop cur s = filter (\<lambda>g. g \<noteq> []) (map TrimSpace (groups cur (lex s)))"
proof (induction cur s rule: split_loop.induct)
  case (1 cur s)
  then show ?case
    by (subst split_loop.simps, subst lex.simps) (auto simp: flush_def Let_def)
qed

lemma SplitCommands_groups:
  "SplitCommands c = filter (\<lambda>g. g \<noteq> []) (map TrimSpace (groups [] (lex (TrimSpace c))))"
  by (simp add: SplitCommands_def split_loop_groups Let_def TrimSpace_trimmed trimmed_def)

section \<open>Completeness of the split\<close>

text \<open>A text is plain when the tokeniser finds no separator in it.\<close>

definition plain :: "string \<Rightarrow> bool" where
  "plain s \<longleftrightarrow> (\<forall>t \<in> set (lex s). case t of Text _ \<Rightarrow> True | Sep _ \<Rightarrow> False)"

fun lead :: "stok list \<Rightarrow> string" where
  "lead (Text t # ts) = t @ lead ts"
| "lead ts = []"

lemma plain_Nil [simp]: "plain []"
  by (simp add: plain_def)

lemma plain_segment: "0 < segment s \<Longrightarrow> plain s \<longleftrightarrow> plain (drop (segment s) s)"
  by (cases "s = []") (auto simp: plain_def lex.simps [of s] segment_def)

lemma plain_char: "segment (c # s) = 0 \<Longrightarrow> separator (c # s) = 0 \<Longrightarrow> plain (c # s) \<longleftrightarrow> plain s"
  by (simp add: plain_def lex.simps [of "c # s"])

lemma lead_prefix: "prefix (lead (lex s)) s"
proof -
  have "prefix (lead ts) (concat (map tok_text ts))" for ts
    by (induction ts rule: lead.induct) auto
  from this [of "lex s"] show ?thesis by (simp add: tok_text_lex)
qed

lemma char_prefix:
  assumes "segment (c # cs) = 0" "separator (c # cs) = 0" "prefix x cs"
  shows "segment (c # x) = 0 \<and> separator (c # x) = 0"
  using assms by (cases x; cases cs) (auto simp: segment_def separator_def split: if_splits)

lemma plain_lead: "prefix x (lead (lex s)) \<Longrightarrow> plain x"
proof (induction s arbitrary: x rule: lex.induct)
  case (1 s)
  show ?case
  proof (cases "x = [] \<or> s = []")
    case True
    then show ?thesis using 1(4) by auto
  next
    case ne: False
    obtain y where s: "s = x @ y"
      using 1(4) lead_prefix prefix_order.trans by (metis prefixE)
    consider (seg) "segment s > 0" | (sep) "segment s = 0" "separator s > 0"
      | (chr) "segment s = 0" "separator s = 0" by linarith
    then show ?thesis
    proof cases
      case seg
      let ?k = "segment s"
      have lead: "lead (lex s) = take ?k s @ lead (lex (drop ?k s))"
        using seg ne by (simp add: lex.simps [of s])
      have k: "segment x = min ?k (length x) \<or> length x = 1 \<and> segment x = 0 \<and> separator x = 0"
        using segment_prefix [of x y] s by simp
      then show ?thesis
      proof
        assume kx: "segment x = min ?k (length x)"
        have "prefix (drop ?k x) (lead (lex (drop ?k s)))"
        proof (cases "?k \<le> length x")
          case True
          have "length (take ?k s) = ?k" using segment_le [of s] by simp
          moreover have "take ?k x = take ?k s" using True s by simp
          ultimately show ?thesis
            using 1(4) lead by (metis append_take_drop_id same_prefix_prefix)
        qed simp
        then have "plain (drop ?k x)" using 1(1) ne seg by simp
        moreover have "drop (segment x) x = drop ?k x" using kx by (simp add: min_def)
        moreover have "0 < segment x" using kx ne seg by (simp add: min_def)
        ultimately show ?thesis using plain_segment [of x] by simp
      next
        assume "length x = 1 \<and> segment x = 0 \<and> separator x = 0"
        then show ?thesis by (cases x) (auto simp: plain_char)
      qed
    next
      case sep
      then have "lead (lex s) = []" using ne by (simp add: lex.simps [of s])
      then show ?thesis using 1(4) by simp
    next
      case chr
      obtain c cs where cs: "s = c # cs" using ne by (cases s) auto
      obtain x' where x': "x = c # x'" "prefix x' cs" using ne s cs by (cases x) auto
      have "prefix x' (lead (lex cs))"
        using 1(4) chr x' cs by (simp add: lex.simps [of "c # cs"])
      then have "plain x'" using 1(3) ne chr cs by simp
      then show ?thesis using char_prefix [of c cs x'] chr cs x' by (simp add: plain_char)
    qed
  qed
qed

lemma groups_hd: "groups cur ts = (cur @ lead ts) # tl (groups cur ts)"
  by (induction cur ts rule: groups.induct) auto

lemma plain_tl_groups: "g \<in> set (tl (groups cur (lex s))) \<Longrightarrow> plain g"
proof (induction s arbitrary: cur rule: lex.induct)
  case (1 s)
  consider (nil) "s = []" | (seg) "s \<noteq> []" "segment s > 0"
    | (sep) "s \<noteq> []" "segment s = 0" "separator s > 0"
    | (chr) "s \<noteq> []" "segment s = 0" "separator s = 0" by linarith
  then show ?case
  proof cases
    case sep
    let ?r = "lex (drop (separator s) s)"
    have "g \<in> set (groups [] ?r)" using 1(4) sep by (simp add: lex.simps [of s])
    then have "g = lead ?r \<or> g \<in> set (tl (groups [] ?r))"
      using groups_hd [of "[]" ?r] by (metis append_Nil set_ConsD)
    then show ?thesis using 1(2) [OF sep(1)] sep plain_lead by auto
  qed (use 1 in \<open>auto simp: lex.simps [of s]\<close>)
qed

lemma plain_groups: "g \<in> set (groups [] (lex s)) \<Longrightarrow> plain g"
  using groups_hd [of "[]" "lex s"] plain_tl_groups plain_lead
  by (metis append_Nil prefix_order.refl set_ConsD)

lemma groups_plain: "plain s \<Longrightarrow> groups [] (lex s) = [s]"
proof -
  have "\<forall>t \<in> set ts. case t of Text _ \<Rightarrow> True | Sep _ \<Rightarrow> False \<Longrightarrow>
      groups cur ts = [cur @ concat (map tok_text ts)]" for cur ts
    by (induction cur ts rule: groups.induct) auto
  from this [of "lex s" "[]"] show "plain s \<Longrightarrow> groups [] (lex s) = [s]"
    by (simp add: plain_def tok_text_lex)
qed

lemma plain_prefix: "plain s \<Longrightarrow> prefix x s \<Longrightarrow> plain x"
  using groups_hd [of "[]" "lex s"] groups_plain [of s] plain_lead [of x s] by simp

lemma plain_dropWhile_space: "plain s \<Longrightarrow> plain (dropWhile is_space s)"
proof (induction s)
  case (Cons c s)
  show ?case
  proof (cases "is_space c")
    case True
    then have "segment (c # s) = 0" "separator (c # s) = 0"
      by (auto simp: is_space_def segment_def separator_def)
    then show ?thesis using Cons True by (simp add: plain_char)
  next
    case False
    then show ?thesis using Cons by simp
  qed
qed simp

lemma plain_TrimSpace: "plain s \<Longrightarrow> plain (TrimSpace s)"
proof -
  assume "plain s"
  moreover have "prefix (TrimSpace s) (dropWhile is_space s)"
    using suffix_dropWhile [of is_space "rev (dropWhile is_space s)"]
    by (simp add: TrimSpace_def suffix_to_prefix)
  ultimately show ?thesis using plain_dropWhile_space plain_prefix by blast
qed

lemma SplitCommands_plain: "plain s \<Longrightarrow> trimmed s \<Longrightarrow> s \<noteq> [] \<Longrightarrow> SplitCommands s = [s]"
  by (simp add: SplitCommands_groups TrimSpace_trimmed groups_plain)

lemma SplitCommands_elem:
  "sub \<in> set (SplitCommands c) \<Longrightarrow> plain sub \<and> trimmed sub \<and> sub \<noteq> []"
  using plain_groups plain_TrimSpace by (auto simp: SplitCommands_groups)


text \<open>
  Splitting is complete: a sub-command it returns is non-empty and trimmed and is not split
  any further, so no separator outside quotes, escapes, substitutions or subshells survives
  inside a sub-command.
\<close>

lemma SplitCommands_complete:
  assumes "sub \<in> set (SplitCommands c)"
  shows "sub \<noteq> [] \<and> TrimSpace sub = sub \<and> SplitCommands sub = [sub]"
  using SplitCommands_elem [OF assms] by (simp add: TrimSpace_trimmed SplitCommands_plain)

lemma SplitCommands_complete_witness:
  "SplitCommands ''ls && a ';' b | wc'' = [''ls'', ''a ';' b'', ''wc''] \<and>
   SplitCommands ''a ';' b'' = [''a ';' b'']"
proof
  show split: "SplitCommands ''ls && a ';' b | wc'' = [''ls'', ''a ';' b'', ''wc'']"
    by code_simp
  show "SplitCommands ''a ';' b'' = [''a ';' b'']"
    using SplitCommands_complete [of "''a ';' b''" "''ls && a ';' b | wc''"] split by simp
qed

end
