(* ===== verification/Shell_Security.thy ===== *)
theory Shell_Security
  imports Shell_Lex
begin

text \<open>
  The detection scanners of src/engine/permission/bash_security.go: here-documents, output
  redirections and their targets, pipes, background operators and command substitutions.  The
  checks that use them, with the read-only allowlist, follow in \<open>Shell_Policy\<close>.
\<close>

section \<open>Here-documents and redirections\<close>

function heredoc_loop :: "string \<Rightarrow> bool" where
  "heredoc_loop [] = False"
| "heredoc_loop (c # cs) =
     (if c = squote then heredoc_loop (drop (quoted squote cs) cs)
      else if c = dquote then heredoc_loop (drop (escaped dquote cs) cs)
      else if c = CHR ''#'' then heredoc_loop (dropWhile (\<lambda>d. d \<noteq> newline) cs)
      else if c = CHR ''<'' \<and> cs \<noteq> [] \<and> hd cs = CHR ''<'' then
        (if tl cs \<noteq> [] \<and> hd (tl cs) = CHR ''<'' then heredoc_loop (tl (tl cs)) else True)
      else heredoc_loop cs)"
  by pat_completeness auto
termination
  by (relation "measure length") (auto simp: le_imp_less_Suc length_dropWhile_le)

definition DetectHeredoc :: "string \<Rightarrow> bool" where
  "DetectHeredoc command = (if \<not> Contains command ''<<'' then False else heredoc_loop command)"

text \<open>Copying up to the closing quote, a backslash giving the next byte literally.\<close>

fun unescape_until :: "char \<Rightarrow> string \<Rightarrow> string" where
  "unescape_until q [] = []"
| "unescape_until q [c] = (if c = q then [] else [c])"
| "unescape_until q (c # d # s) =
     (if c = q then []
      else if c = backslash then d # unescape_until q s
      else c # unescape_until q (d # s))"

definition redirect_stop :: "char \<Rightarrow> bool" where
  "redirect_stop c \<longleftrightarrow> c \<in> {CHR '' '', CHR 0x09, newline, CHR '';'', CHR ''&'', CHR ''|'',
     CHR ''<'', CHR ''>'', CHR ''('', CHR '')''}"

fun unquoted_target :: "string \<Rightarrow> string" where
  "unquoted_target [] = []"
| "unquoted_target [c] = (if redirect_stop c then [] else [c])"
| "unquoted_target (c # d # s) =
     (if redirect_stop c then []
      else if c = backslash then d # unquoted_target s
      else c # unquoted_target (d # s))"

text \<open>The argument is the command from the position on.\<close>

definition extractRedirectTarget :: "string \<Rightarrow> string" where
  "extractRedirectTarget s =
     (case s of
        [] \<Rightarrow> []
      | c # cs \<Rightarrow>
         (if c = squote then takeWhile (\<lambda>d. d \<noteq> squote) cs
          else if c = dquote then unescape_until dquote cs
          else unquoted_target s))"

text \<open>Quotes and escapes, as the scanners that ignore substitutions skip them.\<close>

definition quote_segment :: "string \<Rightarrow> nat" where
  "quote_segment s =
     (case s of
        [] \<Rightarrow> 0
      | c # cs \<Rightarrow>
         (if c = squote then Suc (quoted squote cs)
          else if c = dquote then Suc (escaped dquote cs)
          else if c = backslash \<and> cs \<noteq> [] then 2
          else 0))"

definition comment_segment :: "string \<Rightarrow> nat" where
  "comment_segment s =
     (case s of [] \<Rightarrow> 0
      | c # cs \<Rightarrow> if c = CHR ''#'' then Suc (length (takeWhile (\<lambda>d. d \<noteq> newline) cs)) else 0)"

text \<open>From a \<open>>\<close> on: the operator (one or two bytes) and the blanks that follow it.\<close>

definition redirect_operator :: "string \<Rightarrow> nat" where
  "redirect_operator s =
     (let k = (if tl s \<noteq> [] \<and> hd (tl s) = CHR ''>'' then 2 else 1)
      in k + length (takeWhile (\<lambda>c. c = CHR '' '' \<or> c = CHR 0x09) (drop k s)))"

text \<open>\<open>prev\<close> is the byte before the current position.\<close>

function redirection_loop :: "char option \<Rightarrow> string \<Rightarrow> bool \<times> string" where
  "redirection_loop prev s =
     (if s = [] then (False, [])
      else if quote_segment s > 0 then
        redirection_loop (Some (last (take (quote_segment s) s))) (drop (quote_segment s) s)
      else if comment_segment s > 0 then
        redirection_loop (Some (last (take (comment_segment s) s))) (drop (comment_segment s) s)
      else if hd s = CHR ''>'' then
        (if prev = Some (CHR ''<'') then redirection_loop (Some (hd s)) (tl s)
         else let j = redirect_operator s; target = extractRedirectTarget (drop j s) in
           if target \<noteq> [] then (True, target)
           else redirection_loop (Some (last (take j s))) (drop j s))
      else redirection_loop (Some (hd s)) (tl s))"
  by pat_completeness auto
termination by (relation "measure (length \<circ> snd)") (auto simp: redirect_operator_def Let_def)

declare redirection_loop.simps [simp del]

definition DetectOutputRedirection :: "string \<Rightarrow> bool \<times> string" where
  "DetectOutputRedirection command = redirection_loop None command"

function collect_loop :: "char option \<Rightarrow> string \<Rightarrow> string list" where
  "collect_loop prev s =
     (if s = [] then []
      else if quote_segment s > 0 then
        collect_loop (Some (last (take (quote_segment s) s))) (drop (quote_segment s) s)
      else if comment_segment s > 0 then
        collect_loop (Some (last (take (comment_segment s) s))) (drop (comment_segment s) s)
      else if hd s = CHR ''>'' then
        (if prev = Some (CHR ''<'') then collect_loop (Some (hd s)) (tl s)
         else let j = redirect_operator s; target = extractRedirectTarget (drop j s);
                  i = (if target = [] then Suc j else j + length target)
           in (if target \<noteq> [] then [target] else []) @
              collect_loop (Some (last (take i s))) (drop i s))
      else collect_loop (Some (hd s)) (tl s))"
  by pat_completeness auto
termination by (relation "measure (length \<circ> snd)") (auto simp: redirect_operator_def Let_def)

declare collect_loop.simps [simp del]

definition collectAllRedirectTargets :: "string \<Rightarrow> string list" where
  "collectAllRedirectTargets command = collect_loop None command"

section \<open>Pipes and background operators\<close>

function detectPipesQuoteAware :: "string \<Rightarrow> bool" where
  "detectPipesQuoteAware s =
     (if s = [] then False
      else if quote_segment s > 0 then detectPipesQuoteAware (drop (quote_segment s) s)
      else if hd s = CHR ''|'' then
        (if tl s \<noteq> [] \<and> hd (tl s) = CHR ''|'' then detectPipesQuoteAware (drop 2 s) else True)
      else detectPipesQuoteAware (tl s))"
  by pat_completeness auto
termination by (relation "measure length") auto

declare detectPipesQuoteAware.simps [simp del]

function detectBackgroundOpsQuoteAware :: "string \<Rightarrow> bool" where
  "detectBackgroundOpsQuoteAware s =
     (if s = [] then False
      else if quote_segment s > 0 then detectBackgroundOpsQuoteAware (drop (quote_segment s) s)
      else if hd s = CHR ''&'' then
        (if tl s \<noteq> [] \<and> hd (tl s) = CHR ''&'' then detectBackgroundOpsQuoteAware (drop 2 s)
         else if tl s \<noteq> [] \<and> hd (tl s) = CHR ''>'' then detectBackgroundOpsQuoteAware (drop 2 s)
         else True)
      else detectBackgroundOpsQuoteAware (tl s))"
  by pat_completeness auto
termination by (relation "measure length") auto

declare detectBackgroundOpsQuoteAware.simps [simp del]

section \<open>Command substitution\<close>

record CommandSubstitutionResult =
  HasDollarParen :: bool
  HasBacktick :: bool
  HasProcessSubIn :: bool
  HasProcessSubOut :: bool
  Substitutions :: "string list"

fun balanced :: "nat \<Rightarrow> string \<Rightarrow> string" where
  "balanced depth [] = []"
| "balanced depth (c # s) =
     (if c = CHR ''('' then c # balanced (Suc depth) s
      else if c = CHR '')'' then (if depth \<le> 1 then [] else c # balanced (depth - 1) s)
      else c # balanced depth s)"

definition extractBalancedParen :: "string \<Rightarrow> string" where
  "extractBalancedParen s =
     (case s of [] \<Rightarrow> [] | c # cs \<Rightarrow> if c \<noteq> CHR ''('' then [] else balanced 1 cs)"

definition extractBacktickContent :: "string \<Rightarrow> string" where
  "extractBacktickContent s =
     (case s of [] \<Rightarrow> [] | c # cs \<Rightarrow> if c \<noteq> backtick then [] else unescape_until backtick cs)"

definition add_sub :: "string \<Rightarrow> CommandSubstitutionResult \<Rightarrow> CommandSubstitutionResult" where
  "add_sub sub r = (if sub \<noteq> [] then r\<lparr>Substitutions := Substitutions r @ [sub]\<rparr> else r)"

text \<open>Inside double quotes, from after the opening quote; the rest starts after the closing one.\<close>

function dquote_subs :: "CommandSubstitutionResult \<Rightarrow> string \<Rightarrow> CommandSubstitutionResult \<times> string" where
  "dquote_subs r [] = (r, [])"
| "dquote_subs r (c # cs) =
     (if c = dquote then (r, cs)
      else if c = backslash \<and> cs \<noteq> [] then dquote_subs r (tl cs)
      else let r1 = (if c = CHR ''$'' \<and> cs \<noteq> [] \<and> hd cs = CHR ''(''
                     then add_sub (extractBalancedParen cs) (r\<lparr>HasDollarParen := True\<rparr>) else r)
        in if c = backtick
           then dquote_subs (add_sub (extractBacktickContent (c # cs)) (r1\<lparr>HasBacktick := True\<rparr>))
                  (drop (escaped backtick cs) cs)
           else dquote_subs r1 cs)"
  by pat_completeness auto
termination by (relation "measure (length \<circ> snd)") auto

declare dquote_subs.simps(2) [simp del]

text \<open>The process-substitution scanner counts parentheses without regard to quotes.\<close>

fun bare_paren :: "nat \<Rightarrow> string \<Rightarrow> nat" where
  "bare_paren depth [] = 0"
| "bare_paren depth (c # s) =
     (if depth = 0 then 0
      else Suc (bare_paren (if c = CHR ''('' then Suc depth else if c = CHR '')'' then depth - 1 else depth) s))"

lemma dquote_subs_le: "length (snd (dquote_subs r s)) \<le> length s"
proof (induction r s rule: dquote_subs.induct)
  case (2 r c cs)
  have "length (drop (escaped backtick cs) cs) \<le> length cs" by simp
  then show ?case
    using 2 by (auto simp: dquote_subs.simps(2) Let_def intro: le_SucI order.trans)
qed simp

function substitution_loop :: "CommandSubstitutionResult \<Rightarrow> string \<Rightarrow> CommandSubstitutionResult" where
  "substitution_loop r [] = r"
| "substitution_loop r (c # cs) =
     (if c = squote then substitution_loop r (drop (quoted squote cs) cs)
      else if c = backslash \<and> cs \<noteq> [] then substitution_loop r (tl cs)
      else if c = dquote then substitution_loop (fst (dquote_subs r cs)) (snd (dquote_subs r cs))
      else if c = CHR ''$'' \<and> cs \<noteq> [] \<and> hd cs = CHR ''('' then
        substitution_loop (add_sub (extractBalancedParen cs) (r\<lparr>HasDollarParen := True\<rparr>))
          (drop (paren 1 (tl cs)) (tl cs))
      else if c = backtick then
        substitution_loop (add_sub (extractBacktickContent (c # cs)) (r\<lparr>HasBacktick := True\<rparr>))
          (drop (escaped backtick cs) cs)
      else if c = CHR ''<'' \<and> cs \<noteq> [] \<and> hd cs = CHR ''('' then
        substitution_loop (add_sub (extractBalancedParen cs) (r\<lparr>HasProcessSubIn := True\<rparr>))
          (drop (bare_paren 1 (tl cs)) (tl cs))
      else if c = CHR ''>'' \<and> cs \<noteq> [] \<and> hd cs = CHR ''('' then
        substitution_loop (add_sub (extractBalancedParen cs) (r\<lparr>HasProcessSubOut := True\<rparr>))
          (drop (bare_paren 1 (tl cs)) (tl cs))
      else substitution_loop r cs)"
  by pat_completeness auto
termination
  by (relation "measure (length \<circ> snd)") (auto simp: le_imp_less_Suc dquote_subs_le)

declare substitution_loop.simps(2) [simp del]

definition DetectCommandSubstitution :: "string \<Rightarrow> CommandSubstitutionResult" where
  "DetectCommandSubstitution command =
     substitution_loop \<lparr>HasDollarParen = False, HasBacktick = False, HasProcessSubIn = False,
       HasProcessSubOut = False, Substitutions = []\<rparr> command"

definition HasAnySubstitution :: "CommandSubstitutionResult \<Rightarrow> bool" where
  "HasAnySubstitution r \<longleftrightarrow>
     HasDollarParen r \<or> HasBacktick r \<or> HasProcessSubIn r \<or> HasProcessSubOut r"

end
