(* ===== verification/Shell_Policy.thy ===== *)
theory Shell_Policy
  imports Shell_Security
begin

text \<open>
  The policy part of src/engine/permission/bash_security.go: sensitive write targets, the
  command analysis, dangerous patterns, sed writes, and the read-only allowlist with the word
  extraction it rests on.
\<close>

section \<open>Regular expressions\<close>

text \<open>
  The operators of Go's regexp the patterns use.  A position is the byte before it (if any) and
  the remaining text; \<open>ends\<close> lists the positions at which a match may end.
\<close>

datatype rx =
    Lit string
  | Cls "char \<Rightarrow> bool"
  | Many "char \<Rightarrow> bool"
  | Bnd
  | Beg
  | End
  | Seq rx rx
  | Alt rx rx

type_synonym pos = "char option \<times> string"

definition is_word :: "char \<Rightarrow> bool" where
  "is_word c \<longleftrightarrow> (let n = (of_char c :: nat) in
     48 \<le> n \<and> n \<le> 57 \<or> 65 \<le> n \<and> n \<le> 90 \<or> 97 \<le> n \<and> n \<le> 122 \<or> n = 95)"

definition is_rx_space :: "char \<Rightarrow> bool" where
  "is_rx_space c \<longleftrightarrow> c \<in> {CHR 0x09, CHR 0x0A, CHR 0x0C, CHR 0x0D, CHR '' ''}"

fun many_ends :: "(char \<Rightarrow> bool) \<Rightarrow> char option \<Rightarrow> string \<Rightarrow> pos list" where
  "many_ends p prev [] = [(prev, [])]"
| "many_ends p prev (c # s) = (prev, c # s) # (if p c then many_ends p (Some c) s else [])"

definition word_opt :: "char option \<Rightarrow> bool" where
  "word_opt c = (case c of None \<Rightarrow> False | Some c \<Rightarrow> is_word c)"

fun ends :: "rx \<Rightarrow> pos \<Rightarrow> pos list" where
  "ends (Lit w) (prev, s) =
     (if HasPrefix s w then [(if w = [] then prev else Some (last w), drop (length w) s)] else [])"
| "ends (Cls p) (prev, s) = (case s of [] \<Rightarrow> [] | c # cs \<Rightarrow> if p c then [(Some c, cs)] else [])"
| "ends (Many p) (prev, s) = many_ends p prev s"
| "ends Bnd (prev, s) =
     (if word_opt prev \<noteq> word_opt (case s of [] \<Rightarrow> None | c # _ \<Rightarrow> Some c) then [(prev, s)] else [])"
| "ends Beg (prev, s) = (if prev = None then [(prev, s)] else [])"
| "ends End (prev, s) = (if s = [] then [(prev, s)] else [])"
| "ends (Seq r1 r2) p = concat (map (ends r2) (ends r1 p))"
| "ends (Alt r1 r2) p = ends r1 p @ ends r2 p"

fun search :: "rx \<Rightarrow> char option \<Rightarrow> string \<Rightarrow> bool" where
  "search r prev [] = (ends r (prev, []) \<noteq> [])"
| "search r prev (c # s) = (ends r (prev, c # s) \<noteq> [] \<or> search r (Some c) s)"

definition MatchString :: "rx \<Rightarrow> string \<Rightarrow> bool" where
  "MatchString r s = search r None s"

fun seqs :: "rx list \<Rightarrow> rx" where
  "seqs [] = Lit []"
| "seqs [r] = r"
| "seqs (r # rs) = Seq r (seqs rs)"

fun alts :: "rx list \<Rightarrow> rx" where
  "alts [] = Cls (\<lambda>_. False)"
| "alts [r] = r"
| "alts (r # rs) = Alt r (alts rs)"

definition Spaces :: rx where
  "Spaces = Seq (Cls is_rx_space) (Many is_rx_space)"

section \<open>Sensitive write targets\<close>

definition sensitivePaths :: "string list" where
  "sensitivePaths =
     [''/etc/'', ''/usr/'', ''/bin/'', ''/sbin/'', ''/boot/'', ''/sys/'', ''/proc/'', ''/dev/'',
      ''/var/log/'', ''/root/'', ''/home/'']"

text \<open>A path component boundary: \<open>(?:^|/)\<close>.\<close>

definition at_component :: "rx \<Rightarrow> rx" where
  "at_component r = Seq (Alt Beg (Lit ''/'')) r"

definition sensitiveFilePatterns :: "rx list" where
  "sensitiveFilePatterns = map at_component
     ([seqs [Lit ''.bashrc'', End], seqs [Lit ''.bash_profile'', End], seqs [Lit ''.profile'', End],
       seqs [Lit ''.zshrc'', End], Lit ''.ssh/'', seqs [Lit ''.env'', End],
       seqs [Lit ''.gitconfig'', End], seqs [Lit ''passwd'', End], seqs [Lit ''shadow'', End],
       seqs [Lit ''sudoers'', End], seqs [Lit ''crontab'', End], seqs [Lit ''authorized_keys'', End],
       Lit ''id_rsa'', Lit ''id_ed25519''])"

definition IsWriteToSensitivePath :: "string \<Rightarrow> bool" where
  "IsWriteToSensitivePath path =
     (if path = [] then False
      else let normalized = TrimSpace path in
        (HasPrefix normalized ''/'' \<and>
           (list_ex (HasPrefix normalized) sensitivePaths \<or>
            normalized \<in> set [''/etc'', ''/usr'', ''/bin'', ''/sbin'', ''/boot'', ''/sys'', ''/proc'', ''/dev'']))
        \<or> list_ex (\<lambda>pattern. MatchString pattern normalized) sensitiveFilePatterns)"

section \<open>Command analysis\<close>

record SecurityAnalysis =
  HasRedirection :: bool
  RedirectionTargets :: "string list"
  HasPipes :: bool
  HasBackgroundOps :: bool
  HasHeredoc :: bool
  SubCommands :: "string list"
  RiskFactors :: "string list"

definition AnalyzeCommandSecurity :: "string \<Rightarrow> SecurityAnalysis" where
  "AnalyzeCommandSecurity command =
     (let command = TrimSpace command in
      if command = [] then
        \<lparr>HasRedirection = False, RedirectionTargets = [], HasPipes = False,
          HasBackgroundOps = False, HasHeredoc = False, SubCommands = [], RiskFactors = []\<rparr>
      else
        let subs = SplitCommands command;
            heredoc = DetectHeredoc command;
            pipes = detectPipesQuoteAware command;
            background = detectBackgroundOpsQuoteAware command;
            targets = collectAllRedirectTargets command;
            redirection = (targets \<noteq> [])
        in \<lparr>HasRedirection = redirection, RedirectionTargets = targets, HasPipes = pipes,
             HasBackgroundOps = background, HasHeredoc = heredoc, SubCommands = subs,
             RiskFactors =
               (if heredoc then [''command contains heredoc construct which may obscure content''] else []) @
               (if pipes then [''command uses pipes which may chain operations''] else []) @
               (if background then [''command runs operations in background''] else []) @
               (if redirection then
                  ''command writes output to file via redirection'' #
                  map (\<lambda>t. ''redirection targets sensitive system path: '' @ t)
                    (filter IsWriteToSensitivePath targets)
                else []) @
               (if length subs > 1 then [''compound command with multiple sub-commands''] else [])\<rparr>)"

section \<open>Dangerous patterns\<close>

record DangerousPatternResult =
  HasEval :: bool
  HasSource :: bool
  HasExec :: bool
  HasPipeToShell :: bool
  HasCurlPipe :: bool
  HasChmod :: bool
  HasSudo :: bool
  HasDDWrite :: bool
  Reasons :: "string list"

definition none_of :: "string \<Rightarrow> char \<Rightarrow> bool" where
  "none_of cs c \<longleftrightarrow> c \<notin> set cs"

definition octal :: "char \<Rightarrow> bool" where
  "octal c \<longleftrightarrow> c \<in> set ''01234567''"

definition optional :: "rx \<Rightarrow> rx" where
  "optional r = Alt r (Lit [])"

definition dangerousExecPatterns :: "rx list" where
  "dangerousExecPatterns =
     [seqs [Bnd, Lit ''eval'', Spaces],
      seqs [Bnd, alts [Lit ''source'', Lit ''.''], Spaces],
      seqs [Bnd, Lit ''exec'', Spaces]]"

definition pipeToShellPattern :: rx where
  "pipeToShellPattern =
     seqs [Lit ''|'', Many is_rx_space,
       alts [Lit ''sh'', Lit ''bash'', Lit ''zsh'', Lit ''ksh'', Lit ''dash'', Lit ''fish'', Lit ''csh'',
         Lit ''tcsh'', Seq (Lit ''python'') (optional (Cls (\<lambda>c. c \<in> set ''23''))), Lit ''perl'',
         Lit ''ruby'', Lit ''node'', Lit ''php''],
       Bnd]"

definition curlPipePattern :: rx where
  "curlPipePattern =
     seqs [Bnd, alts [Lit ''curl'', Lit ''wget''], Bnd, Many (none_of ''|;''), Lit ''|'', Many is_rx_space,
       alts [Lit ''sh'', Lit ''bash'', Lit ''zsh'',
         seqs [Lit ''sudo'', Spaces, alts [Lit ''sh'', Lit ''bash'']],
         Seq (Lit ''python'') (optional (Cls (\<lambda>c. c \<in> set ''23''))), Lit ''perl'', Lit ''ruby'', Lit ''node'']]"

definition chmodDangerousPattern :: rx where
  "chmodDangerousPattern =
     seqs [Bnd, Lit ''chmod'', Spaces,
       alts [Seq (Lit ''+'') (Cls (\<lambda>c. c \<in> set ''xXsS'')),
         seqs [Many octal, Lit ''7'', Many octal],
         Lit ''a+'']]"

definition sudoPattern :: rx where
  "sudoPattern = seqs [Bnd, Lit ''sudo'', Spaces]"

definition ddWritePattern :: rx where
  "ddWritePattern = seqs [Bnd, Lit ''dd'', Bnd, Many (none_of '';|&''), Bnd, Lit ''of='']"

definition flag :: "bool \<Rightarrow> string \<Rightarrow> string list" where
  "flag b reason = (if b then [reason] else [])"

definition DetectDangerousPatterns :: "string \<Rightarrow> DangerousPatternResult" where
  "DetectDangerousPatterns command =
     (let subCmds = map TrimSpace (SplitCommands command);
          ev = MatchString (dangerousExecPatterns ! 0);
          so = MatchString (dangerousExecPatterns ! 1);
          ex = MatchString (dangerousExecPatterns ! 2);
          ch = MatchString chmodDangerousPattern;
          su = MatchString sudoPattern;
          dw = MatchString ddWritePattern;
          pipe = MatchString pipeToShellPattern command;
          curl = MatchString curlPipePattern command
      in \<lparr>HasEval = list_ex ev subCmds, HasSource = list_ex so subCmds, HasExec = list_ex ex subCmds,
          HasPipeToShell = pipe, HasCurlPipe = curl, HasChmod = list_ex ch subCmds,
          HasSudo = list_ex su subCmds, HasDDWrite = list_ex dw subCmds,
          Reasons =
            concat (map (\<lambda>t.
              flag (ev t) ''uses 'eval' which executes dynamically constructed commands'' @
              flag (so t) ''uses 'source' or '.' which executes a file in the current shell context'' @
              flag (ex t) ''uses 'exec' which replaces the current process'' @
              flag (ch t) ''changes file permissions to executable or overly permissive'' @
              flag (su t) ''uses 'sudo' for elevated privileges'' @
              flag (dw t) ''uses 'dd' with output file which can overwrite devices/files'') subCmds) @
            flag pipe ''pipes output to a shell interpreter'' @
            flag curl ''downloads and executes remote code (curl/wget piped to shell)''\<rparr>)"

definition HasAnyDanger :: "DangerousPatternResult \<Rightarrow> bool" where
  "HasAnyDanger r \<longleftrightarrow> HasEval r \<or> HasSource r \<or> HasExec r \<or> HasPipeToShell r \<or>
     HasCurlPipe r \<or> HasChmod r \<or> HasSudo r \<or> HasDDWrite r"

section \<open>Writes by sed\<close>

record SedWriteResult =
  HasInPlace :: bool
  HasWriteCmd :: bool
  TargetFile :: string
  Hint :: string

definition sedInPlacePattern :: rx where
  "sedInPlacePattern =
     seqs [Bnd, Lit ''sed'', Bnd, Many (none_of '';|&''), Cls is_rx_space,
       alts [Lit ''-i'', Lit ''--in-place'']]"

definition sedWriteCmdPattern :: rx where
  "sedWriteCmdPattern =
     seqs [Bnd, Lit ''sed'', Bnd, Many (none_of '';|&''),
       optional (Cls (\<lambda>c. c = squote \<or> c = dquote)), Many (\<lambda>c. c \<noteq> squote \<and> c \<noteq> dquote),
       Bnd, Lit ''w'', Spaces, Cls (\<lambda>c. \<not> is_rx_space c), Many (\<lambda>c. \<not> is_rx_space c)]"

definition extractSedTarget :: "string \<Rightarrow> string" where
  "extractSedTarget cmd =
     (let parts = Fields cmd in
      if length parts < 3 then []
      else let lastArg = last parts in
        if HasPrefix lastArg [squote] \<or> HasPrefix lastArg [dquote] \<or>
           HasPrefix lastArg ''s/'' \<or> HasPrefix lastArg ''/'' then []
        else lastArg)"

definition sed_step :: "string \<Rightarrow> SedWriteResult \<Rightarrow> SedWriteResult" where
  "sed_step sub r =
     (let trimmed = TrimSpace sub in
      if \<not> Contains trimmed ''sed'' then r
      else
        let r1 = (if MatchString sedInPlacePattern trimmed then
                    r\<lparr>HasInPlace := True, TargetFile := extractSedTarget trimmed,
                      Hint := ''sed -i modifies files in-place; consider using the Edit tool for tracked, reversible file modifications''\<rparr>
                  else r)
        in if MatchString sedWriteCmdPattern trimmed then
             (let r2 = r1\<lparr>HasWriteCmd := True\<rparr> in
              if Hint r2 = [] then
                r2\<lparr>Hint := ''sed 'w' command writes to a file; consider using the Write tool instead''\<rparr>
              else r2)
           else r1)"

definition DetectSedWrite :: "string \<Rightarrow> SedWriteResult" where
  "DetectSedWrite command =
     (let result = \<lparr>HasInPlace = False, HasWriteCmd = False, TargetFile = [], Hint = []\<rparr> in
      if \<not> Contains command ''sed'' then result
      else fold sed_step (SplitCommands command) result)"

definition HasSedWrite :: "SedWriteResult \<Rightarrow> bool" where
  "HasSedWrite r \<longleftrightarrow> HasInPlace r \<or> HasWriteCmd r"

section \<open>Words of a command\<close>

definition is_alpha_underscore :: "char \<Rightarrow> bool" where
  "is_alpha_underscore c \<longleftrightarrow> (let n = (of_char c :: nat) in
     65 \<le> n \<and> n \<le> 90 \<or> 97 \<le> n \<and> n \<le> 122 \<or> n = 95)"

definition isValidEnvVarName :: "string \<Rightarrow> bool" where
  "isValidEnvVarName s =
     (case s of [] \<Rightarrow> False | c # cs \<Rightarrow> is_alpha_underscore c \<and> list_all is_word cs)"

definition skipValue :: "string \<Rightarrow> string" where
  "skipValue s =
     (case s of
        [] \<Rightarrow> []
      | c # cs \<Rightarrow>
         (if c = squote then
            (case IndexByte cs squote of Some k \<Rightarrow> drop (Suc k) cs | None \<Rightarrow> [])
          else if c = dquote then drop (escaped dquote cs) cs
          else dropWhile (\<lambda>d. d \<noteq> CHR '' '' \<and> d \<noteq> CHR 0x09) s))"

lemma TrimSpace_le: "length (TrimSpace s) \<le> length s"
  by (metis TrimSpace_def length_dropWhile_le length_rev order.trans)

lemma skipValue_le: "length (skipValue s) \<le> length s"
  by (auto simp: skipValue_def length_dropWhile_le le_SucI split: list.splits option.splits)

function skip_env :: "string \<Rightarrow> string" where
  "skip_env cmd =
     (case IndexByte cmd (CHR ''='') of
        Some idx \<Rightarrow>
          (if idx > 0 \<and> \<not> list_ex (\<lambda>c. c = CHR '' '' \<or> c = CHR 0x09) (take idx cmd) \<and>
              isValidEnvVarName (take idx cmd)
           then skip_env (TrimSpace (skipValue (drop (Suc idx) cmd)))
           else cmd)
      | None \<Rightarrow> cmd)"
  by pat_completeness auto
termination
proof (relation "measure length", goal_cases)
  case (2 cmd idx)
  have "length (TrimSpace (skipValue (drop (Suc idx) cmd))) \<le> length (drop (Suc idx) cmd)"
    using TrimSpace_le skipValue_le order.trans by blast
  then show ?case using IndexByte_SomeD [OF 2(1)] by auto
qed simp

declare skip_env.simps [simp del]

definition extractFirstWord :: "string \<Rightarrow> string" where
  "extractFirstWord cmd =
     (case Fields (skip_env (TrimSpace cmd)) of [] \<Rightarrow> [] | f # _ \<Rightarrow> f)"

definition env_like :: "string \<Rightarrow> bool" where
  "env_like f \<longleftrightarrow> Contains f ''='' \<and> \<not> HasPrefix f ''-''"

definition extractSecondWord :: "string \<Rightarrow> string" where
  "extractSecondWord cmd =
     (let fields = Fields (TrimSpace cmd) in
      if length fields < 2 then []
      else case dropWhile env_like fields of
        _ # second # _ \<Rightarrow> second
      | _ \<Rightarrow> [])"

definition extractFirstTwoWords :: "string \<Rightarrow> string" where
  "extractFirstTwoWords cmd =
     (let first = extractFirstWord cmd in
      if first = [] then []
      else let second = extractSecondWord cmd in
        if second = [] then [] else first @ '' '' @ second)"

definition extractGitSubcommand :: "string \<Rightarrow> string" where
  "extractGitSubcommand cmd =
     (case dropWhile (\<lambda>f. HasPrefix f ''-'') (tl (Fields cmd)) of [] \<Rightarrow> [] | f # _ \<Rightarrow> f)"

section \<open>The read-only allowlist\<close>

definition readOnlyCommands :: "string list" where
  "readOnlyCommands =
     [''ls'', ''dir'', ''stat'', ''file'', ''wc'', ''du'', ''df'', ''find'', ''locate'',
      ''which'', ''whereis'', ''type'', ''readlink'', ''realpath'', ''cat'', ''head'', ''tail'',
      ''less'', ''more'', ''bat'', ''hexdump'', ''xxd'', ''strings'', ''od'', ''grep'',
      ''egrep'', ''fgrep'', ''rg'', ''ag'', ''ack'', ''diff'', ''cmp'', ''comm'', ''sort'',
      ''uniq'', ''tr'', ''cut'', ''paste'', ''join'', ''fmt'', ''fold'', ''column'', ''expand'',
      ''unexpand'', ''nl'', ''pr'', ''rev'', ''git status'', ''git log'', ''git diff'',
      ''git show'', ''git branch'', ''git tag'', ''git remote'', ''git blame'', ''git shortlog'',
      ''git describe'', ''git rev-parse'', ''git ls-files'', ''git ls-tree'', ''git cat-file'',
      ''git config --get'', ''git config --list'', ''uname'', ''hostname'', ''whoami'', ''id'',
      ''date'', ''uptime'', ''env'', ''printenv'', ''pwd'', ''echo'', ''printf'', ''test'',
      ''go version'', ''go env'', ''go list'', ''go doc'', ''go vet'', ''node --version'',
      ''npm --version'', ''python --version'', ''python3 --version'', ''pip list'',
      ''pip3 list'', ''ps'', ''top'', ''htop'', ''pgrep'', ''lsof'', ''ifconfig'', ''ip addr'',
      ''netstat'', ''ss'', ''dig'', ''nslookup'', ''host'', ''ping'', ''tar -tf'',
      ''tar --list'', ''unzip -l'', ''zipinfo'', ''jq'', ''yq'', ''tree'']"

definition readOnlyCommandPrefixes :: "string list" where
  "readOnlyCommandPrefixes =
     [''ls'', ''dir'', ''stat'', ''file'', ''wc'', ''du'', ''df'', ''find'', ''locate'',
      ''which'', ''whereis'', ''type'', ''readlink'', ''realpath'', ''cat'', ''head'', ''tail'',
      ''less'', ''more'', ''bat'', ''hexdump'', ''xxd'', ''strings'', ''od'', ''grep'',
      ''egrep'', ''fgrep'', ''rg'', ''ag'', ''ack'', ''diff'', ''cmp'', ''comm'', ''sort'',
      ''uniq'', ''tr'', ''cut'', ''paste'', ''join'', ''fmt'', ''fold'', ''column'', ''expand'',
      ''unexpand'', ''nl'', ''pr'', ''rev'', ''uname'', ''hostname'', ''whoami'', ''id'',
      ''date'', ''uptime'', ''env'', ''printenv'', ''pwd'', ''echo'', ''printf'', ''test'',
      ''ps'', ''top'', ''htop'', ''pgrep'', ''lsof'', ''ifconfig'', ''netstat'', ''ss'', ''dig'',
      ''nslookup'', ''host'', ''ping'', ''jq'', ''yq'', ''tree'']"

definition writeCommands :: "string list" where
  "writeCommands =
     [''rm'', ''rmdir'', ''mv'', ''cp'', ''mkdir'', ''touch'', ''chmod'', ''chown'', ''chgrp'',
      ''ln'', ''install'', ''shred'', ''truncate'', ''dd'', ''mkfs'', ''mount'', ''umount'',
      ''kill'', ''killall'', ''pkill'', ''reboot'', ''shutdown'', ''halt'', ''poweroff'',
      ''useradd'', ''userdel'', ''usermod'', ''groupadd'', ''passwd'', ''chpasswd'', ''apt'',
      ''apt-get'', ''dpkg'', ''yum'', ''dnf'', ''pacman'', ''brew'', ''snap'', ''pip'', ''pip3'',
      ''npm'', ''yarn'', ''pnpm'', ''cargo'', ''go install'', ''go get'', ''docker'', ''podman'',
      ''kubectl'', ''systemctl'', ''service'', ''crontab'', ''git push'', ''git commit'',
      ''git merge'', ''git rebase'', ''git reset'', ''git checkout'', ''git stash'',
      ''git cherry-pick'', ''git revert'', ''git pull'', ''git fetch'', ''git clone'',
      ''git add'', ''git rm'', ''git mv'', ''git init'', ''git clean'']"

definition readOnlyGitSubs :: "string list" where
  "readOnlyGitSubs =
     [''status'', ''log'', ''diff'', ''show'', ''branch'', ''tag'', ''remote'', ''blame'', ''shortlog'',
      ''describe'', ''rev-parse'', ''ls-files'', ''ls-tree'', ''cat-file'', ''stash list'', ''reflog'', ''bisect'']"

definition readOnlyGoSubs :: "string list" where
  "readOnlyGoSubs = [''version'', ''env'', ''list'', ''doc'', ''vet'', ''build'', ''test'', ''mod'']"

definition isSubCommandReadOnly :: "string \<Rightarrow> bool" where
  "isSubCommandReadOnly cmd =
     (if cmd = [] then True
      else if fst (DetectOutputRedirection cmd) then False
      else let firstWord = extractFirstWord cmd in
        if firstWord = [] then True
        else if firstWord \<in> set writeCommands then False
        else let twoWord = extractFirstTwoWords cmd in
          if twoWord \<noteq> [] \<and> twoWord \<in> set writeCommands then False
          else if firstWord \<in> set readOnlyCommandPrefixes then True
          else if twoWord \<noteq> [] \<and> twoWord \<in> set readOnlyCommands then True
          else if firstWord = ''git'' \<and> extractGitSubcommand cmd \<in> set readOnlyGitSubs then True
          else if firstWord = ''git'' \<and> (''git '' @ extractGitSubcommand cmd) \<in> set writeCommands then False
          else if firstWord = ''go'' \<and> extractSecondWord cmd \<in> set readOnlyGoSubs then True
          else if firstWord = ''make'' then True
          else False)"

definition IsReadOnlyCommand :: "string \<Rightarrow> bool" where
  "IsReadOnlyCommand command =
     (let command = TrimSpace command in
      if command = [] then True
      else list_all (\<lambda>sub. isSubCommandReadOnly (TrimSpace sub)) (SplitCommands command))"

definition ValidateReadOnlyMode :: "string \<Rightarrow> string" where
  "ValidateReadOnlyMode command =
     (let command = TrimSpace command in
      if command = [] then []
      else case find (\<lambda>t. \<not> isSubCommandReadOnly t) (map TrimSpace (SplitCommands command)) of
        None \<Rightarrow> []
      | Some t \<Rightarrow> ''command '' @ Quote (extractFirstWord t) @
          '' is not allowed in read-only (plan) mode; only read-only commands are permitted'')"

section \<open>The allowlist is compositional\<close>

lemma IsReadOnlyCommand_alt: "IsReadOnlyCommand c \<longleftrightarrow> list_all isSubCommandReadOnly (SplitCommands c)"
proof (cases "TrimSpace c = []")
  case True
  then show ?thesis by (simp add: IsReadOnlyCommand_def SplitCommands_def)
next
  case False
  have "SplitCommands (TrimSpace c) = SplitCommands c" by (simp add: SplitCommands_def)
  moreover have "TrimSpace sub = sub" if "sub \<in> set (SplitCommands c)" for sub
    using SplitCommands_elem [OF that] by (simp add: TrimSpace_trimmed)
  ultimately show ?thesis using False by (auto simp: IsReadOnlyCommand_def list_all_iff)
qed

lemma IsReadOnlyCommand_sub:
  "sub \<in> set (SplitCommands c) \<Longrightarrow> IsReadOnlyCommand sub \<longleftrightarrow> isSubCommandReadOnly sub"
  using SplitCommands_elem [of sub c] by (simp add: IsReadOnlyCommand_alt SplitCommands_plain)

lemma isSubCommandReadOnlyD:
  assumes "isSubCommandReadOnly cmd" "cmd \<noteq> []"
  shows "\<not> fst (DetectOutputRedirection cmd)"
    and "extractFirstWord cmd \<notin> set writeCommands"
    and "extractFirstTwoWords cmd \<notin> set writeCommands"
proof -
  have w: "[] \<notin> set writeCommands" by (simp add: writeCommands_def)
  have two: "extractFirstTwoWords cmd = []" if "extractFirstWord cmd = []"
    using that by (simp add: extractFirstTwoWords_def)
  show "\<not> fst (DetectOutputRedirection cmd)"
    using assms by (simp add: isSubCommandReadOnly_def split: if_splits)
  show "extractFirstWord cmd \<notin> set writeCommands"
    using assms w by (auto simp: isSubCommandReadOnly_def Let_def split: if_splits)
  show "extractFirstTwoWords cmd \<notin> set writeCommands"
    using assms w two by (auto simp: isSubCommandReadOnly_def Let_def split: if_splits)
qed

text \<open>
  A command is read-only exactly when each of its sub-commands, taken as a command of its
  own, is read-only; in particular chaining a non-read-only command by any separator is enough
  to lose the status.
\<close>

lemma read_only_compositional:
  "IsReadOnlyCommand c \<longleftrightarrow> list_all IsReadOnlyCommand (SplitCommands c)"
  by (auto simp: IsReadOnlyCommand_alt [of c] list_all_iff IsReadOnlyCommand_sub)

text \<open>
  C4. When a command is classified as read-only, none of its sub-commands has a detected output
  redirection, and none starts with a word or a pair of words of the write denylist.
\<close>

theorem read_only_command_sound:
  assumes "IsReadOnlyCommand c" "sub \<in> set (SplitCommands c)"
  shows "\<not> fst (DetectOutputRedirection sub) \<and>
    extractFirstWord sub \<notin> set writeCommands \<and> extractFirstTwoWords sub \<notin> set writeCommands"
proof -
  have "isSubCommandReadOnly sub" using assms by (simp add: IsReadOnlyCommand_alt list_all_iff)
  then show ?thesis
    using isSubCommandReadOnlyD [of sub] SplitCommands_elem [OF assms(2)] by simp
qed

theorem read_only_command_sound_witness:
  "IsReadOnlyCommand ''git log | grep x'' \<and> \<not> fst (DetectOutputRedirection ''grep x'')"
proof
  show ro: "IsReadOnlyCommand ''git log | grep x''" by code_simp
  have "''grep x'' \<in> set (SplitCommands ''git log | grep x'')" by code_simp
  from read_only_command_sound [OF ro this] show "\<not> fst (DetectOutputRedirection ''grep x'')" by simp
qed

text \<open>
  Plan mode's validator reports no error exactly for the read-only commands, and otherwise
  names the first word of the first sub-command that is not read-only.
\<close>

lemma ValidateReadOnlyMode_iff:
  "(ValidateReadOnlyMode c = [] \<longleftrightarrow> IsReadOnlyCommand c) \<and>
   (\<forall>pre t post. SplitCommands c = pre @ t # post \<and> list_all isSubCommandReadOnly pre \<and>
      \<not> isSubCommandReadOnly t \<longrightarrow>
      ValidateReadOnlyMode c = ''command '' @ Quote (extractFirstWord t) @
        '' is not allowed in read-only (plan) mode; only read-only commands are permitted'')"
proof -
  let ?f = "\<lambda>t. \<not> isSubCommandReadOnly t"
  have split: "SplitCommands (TrimSpace c) = SplitCommands c" by (simp add: SplitCommands_def)
  have trim: "map TrimSpace (SplitCommands c) = SplitCommands c"
    using SplitCommands_elem by (intro map_idI) (auto simp: TrimSpace_trimmed)
  have empty: "SplitCommands c = []" if "TrimSpace c = []" using that by (simp add: SplitCommands_def)
  have found: "find ?f (pre @ t # post) = Some t" if "list_all isSubCommandReadOnly pre" "?f t" for pre t post
    using that by (induction pre) auto
  have none: "list_all isSubCommandReadOnly xs \<longleftrightarrow> find ?f xs = None" for xs
    by (auto simp: find_None_iff list_all_iff)
  then show ?thesis
    using empty found split trim
    by (auto simp: ValidateReadOnlyMode_def IsReadOnlyCommand_alt Let_def none split: option.splits)
qed

lemma ValidateReadOnlyMode_iff_witness:
  "ValidateReadOnlyMode ''ls; rm x'' = ''command '' @ Quote ''rm'' @
     '' is not allowed in read-only (plan) mode; only read-only commands are permitted''"
proof -
  have "SplitCommands ''ls; rm x'' = [''ls''] @ ''rm x'' # []" "isSubCommandReadOnly ''ls''"
    "\<not> isSubCommandReadOnly ''rm x''" "extractFirstWord ''rm x'' = ''rm''"
    by code_simp+
  then show ?thesis
    using ValidateReadOnlyMode_iff [THEN conjunct2, rule_format, of "''ls; rm x''" "[''ls'']" "''rm x''" "[]"]
    by (simp only: list.pred_inject simp_thms)
qed

section \<open>Environment assignments in front of a command\<close>

lemma is_word_not_space: "is_word c \<Longrightarrow> \<not> is_space c \<and> c \<noteq> CHR ''=''"
  by (auto simp: is_word_def is_space_def)

lemma is_alpha_is_word: "is_alpha_underscore c \<Longrightarrow> is_word c"
  by (auto simp: is_alpha_underscore_def is_word_def Let_def)

lemma env_name_word: "isValidEnvVarName n \<Longrightarrow> list_all is_word n \<and> n \<noteq> []"
  by (auto simp: isValidEnvVarName_def is_alpha_is_word split: list.splits)

definition bare_value :: "string \<Rightarrow> bool" where
  "bare_value v \<longleftrightarrow> list_all (\<lambda>c. \<not> is_space c \<and> c \<noteq> squote \<and> c \<noteq> dquote) v"

lemma skipValue_bare: "bare_value v \<Longrightarrow> skipValue (v @ CHR '' '' # c) = CHR '' '' # c"
proof -
  assume v: "bare_value v"
  have "dropWhile (\<lambda>d. d \<noteq> CHR '' '' \<and> d \<noteq> CHR 0x09) (v @ CHR '' '' # c) = CHR '' '' # c"
    using v by (induction v) (auto simp: bare_value_def is_space_def)
  then show ?thesis
    using v by (cases v) (auto simp: skipValue_def bare_value_def)
qed

lemma TrimSpace_blank: "trimmed c \<Longrightarrow> TrimSpace (CHR '' '' # c) = c"
  using TrimSpace_trimmed [of c] by (simp add: TrimSpace_def is_space_def)

lemma skip_env_step:
  assumes "isValidEnvVarName n" "bare_value v" "trimmed c"
  shows "skip_env (n @ CHR ''='' # v @ CHR '' '' # c) = skip_env c"
proof -
  have w: "list_all is_word n" "n \<noteq> []" using env_name_word [OF assms(1)] by auto
  then have "CHR ''='' \<notin> set n" "\<not> list_ex (\<lambda>c. c = CHR '' '' \<or> c = CHR 0x09) n"
    by (auto simp: list_all_iff list_ex_iff is_word_def)
  then show ?thesis
    using assms w by (subst skip_env.simps) (simp add: IndexByte_append skipValue_bare TrimSpace_blank)
qed

text \<open>
  An unquoted environment assignment in front of a command does not hide the command: the
  first word of \<open>NAME=value cmd\<close> is that of \<open>cmd\<close>, so a denylisted command is still refused.
\<close>

lemma env_prefix_transparent:
  assumes "isValidEnvVarName n" "bare_value v" "trimmed c" "c \<noteq> []"
  shows "extractFirstWord (n @ ''='' @ v @ '' '' @ c) = extractFirstWord c \<and>
    (extractFirstWord c \<in> set writeCommands \<longrightarrow> \<not> isSubCommandReadOnly (n @ ''='' @ v @ '' '' @ c))"
proof -
  have w: "list_all is_word n" "n \<noteq> []" using env_name_word [OF assms(1)] by auto
  then have "\<not> is_space (hd n)" by (cases n) (auto simp: is_word_not_space)
  then have "trimmed (n @ ''='' @ v @ '' '' @ c)"
    using assms(3,4) w by (auto simp: trimmed_def)
  then have first: "extractFirstWord (n @ ''='' @ v @ '' '' @ c) = extractFirstWord c"
    using skip_env_step [OF assms(1-3)] assms(3) by (simp add: extractFirstWord_def TrimSpace_trimmed)
  then show ?thesis
    using isSubCommandReadOnlyD(2) [of "n @ ''='' @ v @ '' '' @ c"] by auto
qed

lemma env_prefix_transparent_witness:
  "extractFirstWord ''FOO=1 rm -rf x'' = ''rm'' \<and> \<not> isSubCommandReadOnly ''FOO=1 rm -rf x''"
proof -
  have "extractFirstWord ''rm -rf x'' = ''rm''" "''rm'' \<in> set writeCommands"
    "isValidEnvVarName ''FOO''" "bare_value ''1''" "trimmed ''rm -rf x''"
    by code_simp+
  then show ?thesis
    using env_prefix_transparent [of "''FOO''" "''1''" "''rm -rf x''"] by simp
qed

section \<open>What the word patterns find\<close>

definition before :: "char option \<Rightarrow> string \<Rightarrow> char option" where
  "before prev a = (if a = [] then prev else Some (last a))"

lemma before_Cons [simp]: "before prev (c # a) = before (Some c) a"
  by (simp add: before_def)

lemma search_iff: "search r prev s \<longleftrightarrow> (\<exists>a b. s = a @ b \<and> ends r (before prev a, b) \<noteq> [])"
proof (induction s arbitrary: prev)
  case (Cons c s)
  have "(\<exists>a b. c # s = a @ b \<and> Q (before prev a) b) \<longleftrightarrow>
      Q prev (c # s) \<or> (\<exists>a b. s = a @ b \<and> Q (before (Some c) a) b)" for Q
  proof
    assume "\<exists>a b. c # s = a @ b \<and> Q (before prev a) b"
    then obtain a b where ab: "c # s = a @ b" "Q (before prev a) b" by blast
    then show "Q prev (c # s) \<or> (\<exists>a b. s = a @ b \<and> Q (before (Some c) a) b)"
      by (cases a) (auto simp: before_def [of _ "[]"])
  next
    assume "Q prev (c # s) \<or> (\<exists>a b. s = a @ b \<and> Q (before (Some c) a) b)"
    then show "\<exists>a b. c # s = a @ b \<and> Q (before prev a) b"
    proof
      assume "Q prev (c # s)"
      then have "c # s = [] @ (c # s) \<and> Q (before prev []) (c # s)" by (simp add: before_def)
      then show ?thesis by blast
    next
      assume "\<exists>a b. s = a @ b \<and> Q (before (Some c) a) b"
      then obtain a b where "c # s = (c # a) @ b \<and> Q (before prev (c # a)) b" by auto
      then show ?thesis by blast
    qed
  qed
  from this [of "\<lambda>p b. ends r (p, b) \<noteq> []"] show ?case using Cons by simp
qed (auto simp: before_def)

lemma many_ends_ne [simp]: "many_ends p prev s \<noteq> []"
  by (cases s) auto

definition word_pattern :: "string \<Rightarrow> rx" where
  "word_pattern w = seqs [Bnd, Lit w, Spaces]"

lemma ends_word_pattern:
  assumes "w \<noteq> []" "is_word (hd w)"
  shows "ends (word_pattern w) (prev, s) \<noteq> [] \<longleftrightarrow>
    \<not> word_opt prev \<and> (\<exists>c t. s = w @ c # t \<and> is_rx_space c)"
  using assms
  by (auto simp: word_pattern_def Spaces_def HasPrefix_iff word_opt_def neq_Nil_conv split: list.splits)

definition at_boundary :: "string \<Rightarrow> bool" where
  "at_boundary a \<longleftrightarrow> (if a = [] then True else \<not> is_word (last a))"

lemma word_pattern_iff:
  assumes "w \<noteq> []" "is_word (hd w)"
  shows "MatchString (word_pattern w) s \<longleftrightarrow>
    (\<exists>a c t. s = a @ w @ c # t \<and> is_rx_space c \<and> at_boundary a)"
proof -
  have "\<not> word_opt (before None a) \<longleftrightarrow> at_boundary a" for a
    by (simp add: before_def word_opt_def at_boundary_def)
  then show ?thesis
    unfolding MatchString_def search_iff ends_word_pattern [OF assms] by auto
qed

text \<open>
  The checks for eval, exec and sudo flag exactly the commands one of whose sub-commands
  contains that word, starting at a word boundary and followed by white space.
\<close>

lemma dangerous_words_exact:
  "HasEval (DetectDangerousPatterns cmd) = list_ex (\<lambda>sub. \<exists>a c t. sub = a @ ''eval'' @ c # t \<and>
      is_rx_space c \<and> at_boundary a) (SplitCommands cmd) \<and>
   HasExec (DetectDangerousPatterns cmd) = list_ex (\<lambda>sub. \<exists>a c t. sub = a @ ''exec'' @ c # t \<and>
      is_rx_space c \<and> at_boundary a) (SplitCommands cmd) \<and>
   HasSudo (DetectDangerousPatterns cmd) = list_ex (\<lambda>sub. \<exists>a c t. sub = a @ ''sudo'' @ c # t \<and>
      is_rx_space c \<and> at_boundary a) (SplitCommands cmd)"
proof -
  have pats: "dangerousExecPatterns ! 0 = word_pattern ''eval''" "dangerousExecPatterns ! 2 = word_pattern ''exec''"
    "sudoPattern = word_pattern ''sudo''"
    by (simp_all add: dangerousExecPatterns_def sudoPattern_def word_pattern_def)
  have trim: "map TrimSpace (SplitCommands cmd) = SplitCommands cmd"
    using SplitCommands_elem by (intro map_idI) (auto simp: TrimSpace_trimmed)
  have iff: "MatchString (word_pattern w) = (\<lambda>sub. \<exists>a c t. sub = a @ w @ c # t \<and>
      is_rx_space c \<and> at_boundary a)" if "w \<in> {''eval'', ''exec'', ''sudo''}" for w
    using that by (intro ext word_pattern_iff) (auto simp: is_word_def)
  show ?thesis
    unfolding DetectDangerousPatterns_def Let_def trim pats by (simp add: iff)
qed

section \<open>Known gaps of the classification\<close>

text \<open>
  Concrete commands the classification gets wrong: a newline is not a separator, command
  substitution and quoted assignments are ignored, a \<open>#\<close> inside a word starts a comment, and
  the target scanner loses its position after a quoted target.
\<close>

lemma newline_hides_command: "IsReadOnlyCommand (''ls'' @ [newline] @ ''rm -rf x'')"
  by code_simp

lemma substitution_hides_command: "IsReadOnlyCommand ''echo $(rm x)''"
  by code_simp

lemma git_flag_argument_hides_push: "IsReadOnlyCommand ''git -c status push''"
  by code_simp

lemma env_runs_command: "IsReadOnlyCommand ''env rm -rf x''"
  by code_simp

lemma hash_in_word_hides_redirection: "IsReadOnlyCommand ''echo a#b > f''"
  by code_simp

lemma quoted_target_hides_next:
  "RedirectionTargets (AnalyzeCommandSecurity ''echo > 'a' > /etc/hosts'') = [''a'']"
  by code_simp

lemma sensitive_path_not_cleaned: "\<not> IsWriteToSensitivePath ''/tmp/../etc/hosts''"
  by code_simp

end
