(* ===== verification/Go_Path.thy ===== *)
theory Go_Path
  imports Go_Prelude
begin

text \<open>
  The part of Go's path/filepath (Unix) the path code calls, on component lists, with the
  normal form of \<open>Clean\<close> and the decrease of \<open>Dir\<close> that makes upward walks end.
\<close>

section \<open>Lexical operations\<close>

fun comps :: "string \<Rightarrow> string list" where
  "comps [] = [[]]"
| "comps (c # s) = (if c = CHR ''/'' then [] # comps s else (c # hd (comps s)) # tl (comps s))"

fun join_slash :: "string list \<Rightarrow> string" where
  "join_slash [] = []"
| "join_slash [x] = x"
| "join_slash (x # y # xs) = x @ ''/'' @ join_slash (y # xs)"

definition rooted :: "string \<Rightarrow> bool" where
  "rooted p \<longleftrightarrow> p \<noteq> [] \<and> hd p = CHR ''/''"

definition clean_step :: "bool \<Rightarrow> string \<Rightarrow> string list \<Rightarrow> string list" where
  "clean_step r e out =
     (if e = [] \<or> e = ''.'' then out
      else if e = ''..'' then
        (case out of
           [] \<Rightarrow> (if r then [] else [e])
         | x # xs \<Rightarrow> (if x = ''..'' then e # out else xs))
      else e # out)"

definition clean_comps :: "bool \<Rightarrow> string list \<Rightarrow> string list" where
  "clean_comps r cs = rev (fold (clean_step r) cs [])"

definition Clean :: "string \<Rightarrow> string" where
  "Clean p =
     (if p = [] then ''.''
      else let out = clean_comps (rooted p) (comps p) in
        if rooted p then ''/'' @ join_slash out
        else if out = [] then ''.'' else join_slash out)"

definition filepath_IsAbs :: "string \<Rightarrow> bool" where
  "filepath_IsAbs p = rooted p"

definition Join :: "string list \<Rightarrow> string" where
  "Join elems =
     (case dropWhile (\<lambda>e. e = []) elems of [] \<Rightarrow> [] | es \<Rightarrow> Clean (join_slash es))"

definition Dir :: "string \<Rightarrow> string" where
  "Dir p = Clean (case LastIndexByte p (CHR ''/'') of None \<Rightarrow> [] | Some i \<Rightarrow> take (Suc i) p)"

definition Base :: "string \<Rightarrow> string" where
  "Base p =
     (if p = [] then ''.''
      else let q = rev (dropWhile (\<lambda>c. c = CHR ''/'') (rev p));
               b = last (comps q)
        in if q = [] then ''/'' else b)"

fun strip_common :: "string list \<Rightarrow> string list \<Rightarrow> string list \<times> string list" where
  "strip_common (x # xs) (y # ys) = (if x = y then strip_common xs ys else (x # xs, y # ys))"
| "strip_common xs ys = (xs, ys)"

definition path_elems :: "string \<Rightarrow> string list" where
  "path_elems p = filter (\<lambda>c. c \<noteq> []) (comps p)"

definition Rel :: "string \<Rightarrow> string \<Rightarrow> string option" where
  "Rel basepath targpath =
     (let b = Clean basepath; t = Clean targpath in
      if t = b then Some ''.''
      else let base = (if b = ''.'' then [] else b) in
        if rooted base \<noteq> rooted t then None
        else case strip_common (path_elems base) (path_elems t) of
          (bs, ts) \<Rightarrow>
            (if bs \<noteq> [] \<and> hd bs = ''..'' then None
             else Some (join_slash (replicate (length bs) ''..'' @ ts))))"

section \<open>Components\<close>

lemma comps_ne [simp]: "comps s \<noteq> []"
  by (cases s) auto

lemma comps_no_slash: "x \<in> set (comps s) \<Longrightarrow> CHR ''/'' \<notin> set x"
proof (induction s arbitrary: x)
  case (Cons c s)
  then show ?case by (cases "comps s") (auto split: if_splits)
qed simp

lemma comps_plain: "CHR ''/'' \<notin> set x \<Longrightarrow> comps x = [x]"
  by (induction x) auto

lemma comps_append: "CHR ''/'' \<notin> set x \<Longrightarrow> comps (x @ CHR ''/'' # s) = x # comps s"
  by (induction x) auto

lemma comps_join:
  "xs \<noteq> [] \<Longrightarrow> \<forall>x \<in> set xs. CHR ''/'' \<notin> set x \<Longrightarrow> comps (join_slash xs) = xs"
  by (induction xs rule: join_slash.induct) (auto simp: comps_plain comps_append)

lemma join_comps: "join_slash (comps s) = s"
proof (induction s)
  case (Cons c s)
  obtain x xs where "comps s = x # xs" by (cases "comps s") auto
  then show ?case using Cons by (cases xs) auto
qed simp

section \<open>Normal form\<close>

definition good_elem :: "string \<Rightarrow> bool" where
  "good_elem e \<longleftrightarrow> e \<noteq> [] \<and> e \<noteq> ''.'' \<and> CHR ''/'' \<notin> set e"

text \<open>The stack of \<open>Clean\<close>: no dot-dot above the leading ones, none at all when rooted.\<close>

fun clean_out :: "bool \<Rightarrow> string list \<Rightarrow> bool" where
  "clean_out r [] = True"
| "clean_out r (x # xs) =
     (good_elem x \<and> clean_out r xs \<and> (x = ''..'' \<longrightarrow> \<not> r \<and> list_all (\<lambda>y. y = ''..'') xs))"

lemma clean_step_out:
  "clean_out r out \<Longrightarrow> CHR ''/'' \<notin> set e \<Longrightarrow> clean_out r (clean_step r e out)"
  by (cases out) (auto simp: clean_step_def good_elem_def)

lemma fold_clean_out:
  "clean_out r out \<Longrightarrow> \<forall>e \<in> set es. CHR ''/'' \<notin> set e \<Longrightarrow> clean_out r (fold (clean_step r) es out)"
  by (induction es arbitrary: out) (auto intro: clean_step_out)

lemma clean_step_push:
  "clean_out r (x # xs) \<Longrightarrow> clean_step r x xs = x # xs"
  by (cases xs) (auto simp: clean_step_def good_elem_def)

lemma fold_clean_rev:
  "clean_out r (rev ys @ xs) \<Longrightarrow> fold (clean_step r) ys xs = rev ys @ xs"
proof (induction ys arbitrary: xs)
  case (Cons y ys)
  have "clean_out r (zs @ us) \<Longrightarrow> clean_out r us" for zs us by (induction zs) auto
  from this [of "rev ys" "y # xs"] have "clean_out r (y # xs)" using Cons.prems by simp
  then show ?case using Cons by (simp add: clean_step_push)
qed simp

lemma clean_comps_out: "clean_out r (rev (clean_comps r (comps p)))"
  using fold_clean_out [of r "[]" "comps p"] comps_no_slash by (auto simp: clean_comps_def)

lemma clean_comps_fixed: "clean_out r (rev ys) \<Longrightarrow> clean_comps r ys = ys"
  using fold_clean_rev [of r ys "[]"] by (simp add: clean_comps_def)

lemma clean_comps_Nil_elem: "clean_comps r ([] # es) = clean_comps r es"
  by (simp add: clean_comps_def clean_step_def)

lemma clean_out_good: "clean_out r xs \<Longrightarrow> x \<in> set xs \<Longrightarrow> good_elem x"
  by (induction xs) auto

lemma clean_comps_good: "x \<in> set (clean_comps r (comps p)) \<Longrightarrow> good_elem x"
  using clean_out_good [OF clean_comps_out] by simp

lemma join_slash_hd: "\<forall>x \<in> set xs. good_elem x \<Longrightarrow> xs \<noteq> [] \<Longrightarrow> join_slash xs \<noteq> [] \<and> hd (join_slash xs) \<noteq> CHR ''/''"
  by (cases xs rule: join_slash.cases) (auto simp: good_elem_def hd_append neq_Nil_conv)

lemma Clean_rooted: "rooted (Clean p) = rooted p"
  using join_slash_hd [of "clean_comps False (comps p)"] clean_comps_good [of _ False p]
  by (auto simp: Clean_def rooted_def Let_def)

lemma Clean_ne [simp]: "Clean p \<noteq> []"
  using join_slash_hd [of "clean_comps False (comps p)"] clean_comps_good [of _ False p]
  by (auto simp: Clean_def Let_def)

lemma elems_Clean_rooted: "rooted p \<Longrightarrow> path_elems (Clean p) = clean_comps True (comps p)"
proof -
  assume r: "rooted p"
  let ?o = "clean_comps True (comps p)"
  have good: "\<forall>x \<in> set ?o. good_elem x" using clean_comps_good by blast
  then have flt: "filter (\<lambda>c. c \<noteq> []) ?o = ?o" by (auto simp: good_elem_def intro!: filter_True)
  have "Clean p = CHR ''/'' # join_slash ?o" using r by (auto simp: Clean_def rooted_def Let_def)
  then show ?thesis
    using good flt comps_join [of ?o]
    by (cases "?o = []") (auto simp: path_elems_def good_elem_def)
qed

lemma Clean_fixed_rooted:
  "clean_out True (rev ys) \<Longrightarrow> Clean (CHR ''/'' # join_slash ys) = CHR ''/'' # join_slash ys"
proof -
  assume c: "clean_out True (rev ys)"
  then have "\<forall>y \<in> set ys. CHR ''/'' \<notin> set y" using clean_out_good [OF c] by (auto simp: good_elem_def)
  then have "clean_comps True (comps (join_slash ys)) = ys"
    using comps_join [of ys] c clean_comps_fixed [of True ys]
    by (cases "ys = []") (auto simp: clean_comps_def clean_step_def)
  then show ?thesis
    by (simp add: Clean_def rooted_def clean_comps_Nil_elem)
qed

lemma Clean_Clean [simp]: "Clean (Clean p) = Clean p"
proof (cases "rooted p")
  case True
  then have "Clean p = CHR ''/'' # join_slash (clean_comps True (comps p))"
    by (auto simp: Clean_def rooted_def Let_def)
  then show ?thesis using Clean_fixed_rooted [OF clean_comps_out] by simp
next
  case False
  let ?o = "clean_comps False (comps p)"
  have good: "\<forall>x \<in> set ?o. good_elem x" using clean_comps_good by blast
  show ?thesis
  proof (cases "p = [] \<or> ?o = []")
    case True
    then have "Clean p = ''.''" using False by (auto simp: Clean_def Let_def)
    then show ?thesis by (simp add: Clean_def rooted_def clean_comps_def clean_step_def)
  next
    case ne: False
    then have C: "Clean p = join_slash ?o" using False by (simp add: Clean_def Let_def)
    have "comps (join_slash ?o) = ?o" using ne good by (intro comps_join) (auto simp: good_elem_def)
    moreover have "clean_comps False ?o = ?o" by (rule clean_comps_fixed [OF clean_comps_out])
    moreover have "join_slash ?o \<noteq> [] \<and> \<not> rooted (join_slash ?o)"
      using join_slash_hd good ne by (auto simp: rooted_def)
    ultimately show ?thesis using C ne by (simp add: Clean_def)
  qed
qed

section \<open>Dir ends\<close>

definition weight :: "string list \<Rightarrow> nat" where
  "weight xs = sum_list (map (\<lambda>x. Suc (length x)) xs)"

lemma weight_simps [simp]: "weight [] = 0" "weight (x # xs) = Suc (length x) + weight xs"
  "weight (xs @ ys) = weight xs + weight ys" "weight (rev xs) = weight xs"
  by (simp_all add: weight_def sum_list_rev flip: rev_map)

lemma weight_comps: "weight (comps s) = Suc (length s)"
proof (induction s)
  case (Cons c s)
  then show ?case by (cases "comps s") auto
qed simp

lemma weight_join: "xs \<noteq> [] \<Longrightarrow> weight xs = Suc (length (join_slash xs))"
  by (induction xs rule: join_slash.induct) auto

lemma weight_clean_step: "weight (clean_step r e out) \<le> weight out + (if e = [] then 0 else Suc (length e))"
  by (auto simp: clean_step_def split: list.splits)

lemma weight_clean: "weight (fold (clean_step r) es out) \<le> weight out + weight (filter (\<lambda>e. e \<noteq> []) es)"
proof (induction es arbitrary: out)
  case (Cons e es)
  show ?case
    using Cons [of "clean_step r e out"] weight_clean_step [of r e out] by (auto split: if_splits)
qed simp

lemma weight_filter: "weight (filter (\<lambda>e. e \<noteq> []) es) + length (filter (\<lambda>e. e = []) es) = weight es"
  by (induction es) auto

lemma comps_snoc: "comps (s @ ''/'') = comps s @ [[]]"
proof (induction s)
  case (Cons c s)
  then show ?case by (cases "comps s") auto
qed simp

lemma Clean_trailing_slash:
  "Clean (s @ ''/'') = ''.'' \<or> s = [] \<or> length (Clean (s @ ''/'')) \<le> length s"
proof -
  let ?p = "s @ ''/''"
  let ?o = "clean_comps (rooted ?p) (comps ?p)"
  let ?n = "length (filter (\<lambda>e. e = []) (comps s))"
  have "weight ?o \<le> weight (filter (\<lambda>e. e \<noteq> []) (comps ?p))"
    using weight_clean [of "rooted ?p" "comps ?p" "[]"] by (simp add: clean_comps_def)
  also have "\<dots> = weight (filter (\<lambda>e. e \<noteq> []) (comps s))" by (simp add: comps_snoc)
  also have "\<dots> + ?n = Suc (length s)" using weight_filter [of "comps s"] by (simp add: weight_comps)
  finally have w: "weight ?o + ?n \<le> Suc (length s)" by simp
  show ?thesis
  proof (cases "?o = []")
    case True
    then show ?thesis by (cases s) (auto simp: Clean_def Let_def)
  next
    case False
    then have len: "weight ?o = Suc (length (join_slash ?o))" by (rule weight_join)
    show ?thesis
    proof (cases "rooted ?p")
      case True
      then have "s = [] \<or> ?n \<ge> 1" by (cases s) (auto simp: rooted_def)
      then show ?thesis using True len w False by (auto simp: Clean_def Let_def)
    next
      case nr: False
      then show ?thesis using len w False by (auto simp: Clean_def Let_def)
    qed
  qed
qed

lemma LastIndexByte_SomeD: "LastIndexByte s x = Some k \<Longrightarrow> k < length s \<and> s ! k = x"
  by (induction s arbitrary: k) (auto split: if_splits option.splits)

lemma Dir_decreases: "Dir p = ''.'' \<or> Dir p = p \<or> length (Dir p) < length p"
proof (cases "LastIndexByte p (CHR ''/'')")
  case None
  then show ?thesis by (simp add: Dir_def Clean_def)
next
  case (Some i)
  then have i: "i < length p" "p ! i = CHR ''/''" using LastIndexByte_SomeD by blast+
  then have t: "take (Suc i) p = take i p @ ''/''" by (simp add: take_Suc_conv_app_nth)
  have d: "Dir p = Clean (take i p @ ''/'')" using Some t by (simp add: Dir_def)
  have root: "Clean ''/'' = ''/''" by (simp add: Clean_def rooted_def clean_comps_def clean_step_def)
  consider "Dir p = ''.''" | "i = 0" | "length (Dir p) \<le> i"
    using Clean_trailing_slash [of "take i p"] d i by auto
  then show ?thesis
  proof cases
    case 2
    then have "Dir p = ''/''" using d root by simp
    then show ?thesis using 2 i by (cases p; cases "tl p") auto
  qed (use i in auto)
qed

section \<open>Containment\<close>

lemma strip_common_Nil: "fst (strip_common xs ys) = [] \<longleftrightarrow> prefix xs ys"
  by (induction xs ys rule: strip_common.induct) auto

lemma strip_common_same: "strip_common xs ys = ([], []) \<longleftrightarrow> xs = ys"
  by (induction xs ys rule: strip_common.induct) auto

lemma strip_common_snd: "set (snd (strip_common xs ys)) \<subseteq> set ys"
  by (induction xs ys rule: strip_common.induct) auto

lemma strip_common_fst: "set (fst (strip_common xs ys)) \<subseteq> set xs"
  by (induction xs ys rule: strip_common.induct) auto

lemma clean_out_rooted_no_dotdot: "clean_out True xs \<Longrightarrow> ''..'' \<notin> set xs"
  by (induction xs) auto

lemma elems_no_dotdot: "rooted p \<Longrightarrow> ''..'' \<notin> set (path_elems (Clean p))"
  using clean_out_rooted_no_dotdot [OF clean_comps_out] by (simp add: elems_Clean_rooted)

lemma rooted_Clean_eq:
  "rooted p \<Longrightarrow> rooted q \<Longrightarrow> path_elems (Clean p) = path_elems (Clean q) \<Longrightarrow> Clean p = Clean q"
  by (simp add: elems_Clean_rooted) (simp add: Clean_def rooted_def)

end
