(* ===== verification/Permission_Path.thy ===== *)
theory Permission_Path
  imports Go_Path Tool_Input "HOL-Library.Word"
begin

unbundle bit_operations_syntax

text \<open>
  Path containment: src/engine/permission/path_resolution.go and accept_edits.go.  The file
  system is a record of the three calls the code makes (Lstat, Readlink, EvalSymlinks), and
  \<open>fold_case\<close> stands for the test of runtime.GOOS (darwin, windows).
\<close>

section \<open>Model\<close>

type_synonym FileMode = "32 word"

record filesystem =
  Lstat :: "string \<Rightarrow> FileMode option"
  Readlink :: "string \<Rightarrow> string option"
  EvalSymlinks :: "string \<Rightarrow> string option"

definition ModeSymlink :: FileMode where "ModeSymlink = push_bit 27 1"

definition ModeSpecial :: FileMode where
  "ModeSpecial = push_bit 25 1 OR push_bit 24 1 OR push_bit 26 1 OR push_bit 21 1"

definition isSpecialPermissionFile :: "FileMode \<Rightarrow> bool" where
  "isSpecialPermissionFile mode \<longleftrightarrow> mode AND ModeSpecial \<noteq> 0"

definition is_symlink :: "FileMode \<Rightarrow> bool" where
  "is_symlink mode \<longleftrightarrow> mode AND ModeSymlink \<noteq> 0"

definition maxPermissionSymlinkDepth :: nat where "maxPermissionSymlinkDepth = 40"

record PathResolution =
  Logical :: string
  Paths :: "string list"
  Unsafe :: bool

definition Effective :: "PathResolution \<Rightarrow> string" where
  "Effective r = (if Paths r \<noteq> [] then last (Paths r) else Logical r)"

definition isUNCPath :: "string \<Rightarrow> bool" where
  "isUNCPath path \<longleftrightarrow> HasPrefix path ''//'' \<or> HasPrefix path [backslash, backslash]"

definition addPermissionPath :: "string \<Rightarrow> PathResolution \<Rightarrow> PathResolution" where
  "addPermissionPath path result =
     (let cleaned = Clean path in
      if cleaned \<in> set (Paths result) then result
      else result\<lparr>Paths := Paths result @ [cleaned]\<rparr>)"

text \<open>The target of a link found at \<open>current\<close>.\<close>

definition link_target :: "string \<Rightarrow> string \<Rightarrow> string" where
  "link_target current target =
     (if \<not> filepath_IsAbs target then Join [Dir current, target] else target)"

text \<open>
  The symlink loop; the flag of the result tells that the function returned from inside the
  loop (a special file).
\<close>

fun symlink_loop ::
  "filesystem \<Rightarrow> nat \<Rightarrow> string list \<Rightarrow> string \<Rightarrow> PathResolution \<Rightarrow> PathResolution \<times> bool"
where
  "symlink_loop fs 0 visited current result = (result, False)"
| "symlink_loop fs (Suc n) visited current result =
     (if current \<in> set visited then (result\<lparr>Unsafe := True\<rparr>, False)
      else case Lstat fs current of
        None \<Rightarrow> (result, False)
      | Some mode \<Rightarrow>
         (if isSpecialPermissionFile mode then (result\<lparr>Unsafe := True\<rparr>, True)
          else if \<not> is_symlink mode then (result, False)
          else case Readlink fs current of
            None \<Rightarrow> (result\<lparr>Unsafe := True\<rparr>, False)
          | Some target \<Rightarrow>
             (let next = Clean (link_target current target) in
              symlink_loop fs n (current # visited) next (addPermissionPath next result))))"

function resolve_ancestor :: "filesystem \<Rightarrow> string \<Rightarrow> string list \<Rightarrow> string" where
  "resolve_ancestor fs current tail =
     (case Lstat fs current of
        Some mode \<Rightarrow>
          (if isSpecialPermissionFile mode then []
           else if is_symlink mode then
             (case Readlink fs current of
                None \<Rightarrow> []
              | Some target \<Rightarrow> Join (Clean (link_target current target) # tail))
           else case EvalSymlinks fs current of
             None \<Rightarrow> []
           | Some resolved \<Rightarrow> Join (resolved # tail))
      | None \<Rightarrow>
          (if Dir current = current then []
           else resolve_ancestor fs (Dir current) (Base current # tail)))"
  by pat_completeness auto
termination
proof (relation "measure (\<lambda>(fs, p, t). if p = ''.'' then 0 else if p = [] then 1 else Suc (length p))", goal_cases)
  case (2 fs current tail)
  then show ?case
    using Dir_decreases [of current] by (auto simp: Dir_def Clean_def)
qed simp

declare resolve_ancestor.simps [simp del]

definition resolveDeepestPermissionAncestor :: "filesystem \<Rightarrow> string \<Rightarrow> string" where
  "resolveDeepestPermissionAncestor fs path = resolve_ancestor fs path []"

definition ResolvePermissionPath :: "filesystem \<Rightarrow> string \<Rightarrow> string \<Rightarrow> PathResolution" where
  "ResolvePermissionPath fs path cwd =
     (if path = [] then \<lparr>Logical = [], Paths = [], Unsafe = False\<rparr>
      else if isUNCPath path then \<lparr>Logical = path, Paths = [path], Unsafe = True\<rparr>
      else
        let logical = Clean (if \<not> filepath_IsAbs path then Join [cwd, path] else path);
            result = addPermissionPath logical \<lparr>Logical = logical, Paths = [], Unsafe = False\<rparr>
        in case symlink_loop fs maxPermissionSymlinkDepth [] logical result of
             (result, True) \<Rightarrow> result
           | (result, False) \<Rightarrow>
              (case EvalSymlinks fs logical of
                 Some resolved \<Rightarrow> addPermissionPath resolved result
               | None \<Rightarrow>
                  (let resolved = resolveDeepestPermissionAncestor fs logical in
                   if resolved \<noteq> [] then addPermissionPath resolved result else result)))"

definition permissionPathWithin :: "bool \<Rightarrow> string \<Rightarrow> string \<Rightarrow> bool" where
  "permissionPathWithin fold_case path root =
     (let path = (if fold_case then ToLower path else path);
          root = (if fold_case then ToLower root else root)
      in case Rel root path of
           None \<Rightarrow> False
         | Some rel \<Rightarrow> rel = ''.'' \<or> (rel \<noteq> ''..'' \<and> \<not> HasPrefix rel ''../''))"

definition root_paths :: "filesystem \<Rightarrow> string list \<Rightarrow> string list" where
  "root_paths fs roots =
     concat (map (\<lambda>root. let r = ResolvePermissionPath fs root [] in if Unsafe r then [] else Paths r) roots)"

definition PermissionPathsWithinRoots :: "bool \<Rightarrow> filesystem \<Rightarrow> PathResolution \<Rightarrow> string list \<Rightarrow> bool" where
  "PermissionPathsWithinRoots fold_case fs resolution roots =
     (if Unsafe resolution \<or> Paths resolution = [] \<or> roots = [] then False
      else let rootPaths = root_paths fs roots in
        if rootPaths = [] then False
        else list_all (\<lambda>path. list_ex (permissionPathWithin fold_case path) rootPaths) (Paths resolution))"

definition FileEditToolNames :: "string list" where
  "FileEditToolNames = [''Write'', ''Edit'']"

definition AcceptEditsCheck ::
  "bool \<Rightarrow> filesystem \<Rightarrow> string \<Rightarrow> tool_input \<Rightarrow> string \<Rightarrow> string list \<Rightarrow> bool" where
  "AcceptEditsCheck fold_case fs toolName input cwd additionalDirs =
     (if cwd = [] then False
      else if toolName \<in> set FileEditToolNames then
        (let filePath = (case string_field input ''file_path'' of Some p \<Rightarrow> p | None \<Rightarrow> []) in
         if filePath = [] then False
         else PermissionPathsWithinRoots fold_case fs (ResolvePermissionPath fs filePath cwd) (cwd # additionalDirs))
      else False)"

definition isPathInWorkingDir :: "bool \<Rightarrow> filesystem \<Rightarrow> string \<Rightarrow> string \<Rightarrow> bool" where
  "isPathInWorkingDir fold_case fs path cwd =
     PermissionPathsWithinRoots fold_case fs (ResolvePermissionPath fs path cwd) [cwd]"

section \<open>Containment is component-wise\<close>

text \<open>The components of one absolute path begin with those of another.\<close>

definition under :: "string \<Rightarrow> string \<Rightarrow> bool" where
  "under path root \<longleftrightarrow> prefix (path_elems (Clean root)) (path_elems (Clean path))"

lemma join_slash_dotdot: "HasPrefix (join_slash (''..'' # xs)) ''../'' \<or> join_slash (''..'' # xs) = ''..''"
  by (cases xs) (auto simp: HasPrefix_def)

lemma join_slash_up:
  assumes "\<forall>x \<in> set xs. good_elem x" "''..'' \<notin> set xs" "xs \<noteq> []"
  shows "join_slash xs \<noteq> ''..'' \<and> \<not> HasPrefix (join_slash xs) ''../''"
proof -
  have c: "comps (join_slash xs) = xs" using assms by (intro comps_join) (auto simp: good_elem_def)
  have "HasPrefix s ''../'' \<Longrightarrow> hd (comps s) = ''..''" for s
    by (auto simp: HasPrefix_iff)
  then have "hd xs = ''..''" if "HasPrefix (join_slash xs) ''../'' \<or> join_slash xs = ''..''"
    using that c \<open>\<And>s. HasPrefix s ''../'' \<Longrightarrow> hd (comps s) = ''..''\<close> [of "join_slash xs"] by auto
  then show ?thesis using assms by (metis hd_in_set)
qed

lemma permissionPathWithin_iff:
  assumes "rooted path" "rooted root"
  shows "permissionPathWithin False path root \<longleftrightarrow> under path root"
proof -
  let ?b = "path_elems (Clean root)" and ?t = "path_elems (Clean path)"
  obtain bs ts where st: "strip_common ?b ?t = (bs, ts)" by fastforce
  have r: "rooted (Clean root)" "rooted (Clean path)" using assms by (simp_all add: Clean_rooted)
  have nd: "Clean root \<noteq> ''.''" using r by (auto simp: rooted_def)
  have bs: "''..'' \<notin> set bs" using strip_common_fst [of ?b ?t] st elems_no_dotdot [OF assms(2)] by auto
  have ts: "''..'' \<notin> set ts" "\<forall>x \<in> set ts. good_elem x"
    using strip_common_snd [of ?b ?t] st elems_no_dotdot [OF assms(1)] clean_comps_good
    by (auto simp: elems_Clean_rooted [OF assms(1)])
  show ?thesis
  proof (cases "Clean path = Clean root")
    case True
    then show ?thesis by (simp add: permissionPathWithin_def Rel_def under_def)
  next
    case False
    then have ne: "?b \<noteq> ?t" using rooted_Clean_eq [OF assms] by metis
    have rel: "Rel root path = Some (join_slash (replicate (length bs) ''..'' @ ts))"
      using False nd r st bs by (cases bs) (auto simp: Rel_def)
    have under: "under path root \<longleftrightarrow> bs = []"
      using strip_common_Nil [of ?b ?t] st by (simp add: under_def)
    show ?thesis
    proof (cases bs)
      case Nil
      then have "ts \<noteq> []" using ne strip_common_same [of ?b ?t] st by auto
      then show ?thesis using under Nil rel join_slash_up [OF ts(2,1)] by (simp add: permissionPathWithin_def)
    next
      case (Cons x xs)
      then have "join_slash (replicate (length bs) ''..'' @ ts) = join_slash (''..'' # (replicate (length xs) ''..'' @ ts))"
        by simp
      moreover have "join_slash (''..'' # ys) \<noteq> ''.''" for ys by (cases ys) auto
      ultimately show ?thesis
        using under Cons rel join_slash_dotdot [of "replicate (length xs) ''..'' @ ts"]
        by (auto simp: permissionPathWithin_def)
    qed
  qed
qed


section \<open>Shape of a resolution\<close>

definition res_ok :: "PathResolution \<Rightarrow> bool" where
  "res_ok r \<longleftrightarrow> distinct (Paths r) \<and> (\<forall>p \<in> set (Paths r). Clean p = p) \<and> Logical r \<in> set (Paths r)"

lemma res_ok_add: "res_ok r \<Longrightarrow> res_ok (addPermissionPath p r)"
  by (auto simp: res_ok_def addPermissionPath_def Let_def)

lemma add_mono: "set (Paths r) \<subseteq> set (Paths (addPermissionPath p r))"
  by (auto simp: addPermissionPath_def Let_def)

lemma add_mem: "Clean p \<in> set (Paths (addPermissionPath p r))"
  by (auto simp: addPermissionPath_def Let_def)

lemma add_fields [simp]:
  "Logical (addPermissionPath p r) = Logical r" "Unsafe (addPermissionPath p r) = Unsafe r"
  by (simp_all add: addPermissionPath_def Let_def)

lemma res_ok_Unsafe [simp]: "res_ok (r\<lparr>Unsafe := u\<rparr>) = res_ok r"
  by (simp add: res_ok_def)

lemma symlink_loop_step:
  "(\<exists>next. symlink_loop fs (Suc n) vis cur r = symlink_loop fs n (cur # vis) next (addPermissionPath next r)) \<or>
   symlink_loop fs (Suc n) vis cur r \<in> {(r, False), (r\<lparr>Unsafe := True\<rparr>, False), (r\<lparr>Unsafe := True\<rparr>, True)}"
  by (auto simp: Let_def split: option.splits)

lemma symlink_loop_ok:
  "res_ok r \<Longrightarrow> symlink_loop fs n vis cur r = (r', b) \<Longrightarrow>
    res_ok r' \<and> Logical r' = Logical r \<and> (b \<longrightarrow> Unsafe r') \<and> set (Paths r) \<subseteq> set (Paths r')"
proof (induction n arbitrary: vis cur r)
  case (Suc n)
  from symlink_loop_step [of fs n vis cur r] show ?case
  proof
    assume "\<exists>next. symlink_loop fs (Suc n) vis cur r = symlink_loop fs n (cur # vis) next (addPermissionPath next r)"
    then obtain nxt where "symlink_loop fs n (cur # vis) nxt (addPermissionPath nxt r) = (r', b)"
      using Suc.prems(2) by metis
    from Suc.IH [OF res_ok_add [OF Suc.prems(1)] this] show ?thesis
      using add_mono [of r nxt] by auto
  qed (use Suc.prems in auto)
qed auto

definition logical_path :: "string \<Rightarrow> string \<Rightarrow> string" where
  "logical_path path cwd = Clean (if \<not> filepath_IsAbs path then Join [cwd, path] else path)"

lemma Resolve_cases:
  assumes "path \<noteq> []" "\<not> isUNCPath path"
  obtains r b where
    "symlink_loop fs maxPermissionSymlinkDepth [] (logical_path path cwd)
       \<lparr>Logical = logical_path path cwd, Paths = [logical_path path cwd], Unsafe = False\<rparr> = (r, b)"
    "ResolvePermissionPath fs path cwd =
      (if b then r else case EvalSymlinks fs (logical_path path cwd) of
         Some resolved \<Rightarrow> addPermissionPath resolved r
       | None \<Rightarrow> (let resolved = resolveDeepestPermissionAncestor fs (logical_path path cwd) in
            if resolved \<noteq> [] then addPermissionPath resolved r else r))"
proof -
  have "Clean (logical_path path cwd) = logical_path path cwd" by (simp add: logical_path_def)
  then show thesis
    using assms that
    by (cases "symlink_loop fs maxPermissionSymlinkDepth [] (logical_path path cwd)
       \<lparr>Logical = logical_path path cwd, Paths = [logical_path path cwd], Unsafe = False\<rparr>")
      (simp add: ResolvePermissionPath_def addPermissionPath_def Let_def flip: logical_path_def split: bool.splits)
qed

lemma Resolve_ok:
  assumes "path \<noteq> []" "\<not> isUNCPath path"
  shows "res_ok (ResolvePermissionPath fs path cwd) \<and>
    Logical (ResolvePermissionPath fs path cwd) = logical_path path cwd \<and>
    (\<forall>q. EvalSymlinks fs (logical_path path cwd) = Some q \<longrightarrow>
      Unsafe (ResolvePermissionPath fs path cwd) \<or> Clean q \<in> set (Paths (ResolvePermissionPath fs path cwd)))"
proof -
  let ?l = "logical_path path cwd"
  have "res_ok \<lparr>Logical = ?l, Paths = [?l], Unsafe = False\<rparr>"
    by (simp add: res_ok_def logical_path_def)
  moreover obtain r b where rb:
    "symlink_loop fs maxPermissionSymlinkDepth [] ?l \<lparr>Logical = ?l, Paths = [?l], Unsafe = False\<rparr> = (r, b)"
    "ResolvePermissionPath fs path cwd =
      (if b then r else case EvalSymlinks fs ?l of
         Some resolved \<Rightarrow> addPermissionPath resolved r
       | None \<Rightarrow> (let resolved = resolveDeepestPermissionAncestor fs ?l in
            if resolved \<noteq> [] then addPermissionPath resolved r else r))"
    by (rule Resolve_cases [OF assms])
  ultimately have ok: "res_ok r" "Logical r = ?l" "b \<longrightarrow> Unsafe r"
    using symlink_loop_ok by fastforce+
  show ?thesis
    unfolding rb(2) using ok res_ok_add [OF ok(1)] add_mem
    by (auto simp: Let_def split: option.splits)
qed

section \<open>Safety of acceptEdits\<close>

lemma within_rooted: "permissionPathWithin False p root \<Longrightarrow> rooted root = rooted p"
proof -
  assume w: "permissionPathWithin False p root"
  then have "Clean p = Clean root \<or> rooted (if Clean root = ''.'' then [] else Clean root) = rooted (Clean p)"
    by (auto simp: permissionPathWithin_def Rel_def Let_def split: option.splits if_splits)
  then show ?thesis
  proof
    assume "Clean p = Clean root"
    then show ?thesis using Clean_rooted by metis
  next
    assume "rooted (if Clean root = ''.'' then [] else Clean root) = rooted (Clean p)"
    moreover have "rooted (Clean root) = rooted (if Clean root = ''.'' then [] else Clean root)"
      by (auto simp: rooted_def)
    ultimately show ?thesis by (simp add: Clean_rooted)
  qed
qed

lemma within_under: "permissionPathWithin False p root \<Longrightarrow> rooted p \<Longrightarrow> rooted root \<and> under p root"
  using within_rooted permissionPathWithin_iff by blast

lemma AcceptEditsCheckD:
  assumes "AcceptEditsCheck fc fs tool input cwd dirs"
  obtains fp where "tool \<in> {''Write'', ''Edit''}" "string_field input ''file_path'' = Some fp" "fp \<noteq> []"
    "PermissionPathsWithinRoots fc fs (ResolvePermissionPath fs fp cwd) (cwd # dirs)"
  using assms
  by (auto simp: AcceptEditsCheck_def FileEditToolNames_def Let_def split: if_splits option.splits)

lemma withinRootsD:
  assumes "PermissionPathsWithinRoots fc fs r roots" "p \<in> set (Paths r)"
  shows "\<not> Unsafe r \<and> (\<exists>root \<in> set (root_paths fs roots). permissionPathWithin fc p root)"
  using assms
  by (auto simp: PermissionPathsWithinRoots_def Let_def list_all_iff list_ex_iff split: if_splits)

text \<open>
  Path containment is component-wise: for absolute paths, on a case-sensitive system, a path
  is within a root exactly when the components of the cleaned root are a prefix of those of the
  cleaned path, so neither a shared name prefix nor a dot-dot can fake containment.
\<close>

lemma permissionPathWithin_exact:
  assumes "rooted path" "rooted root"
  shows "permissionPathWithin False path root \<longleftrightarrow>
    prefix (path_elems (Clean root)) (path_elems (Clean path))"
  using permissionPathWithin_iff [OF assms] by (simp add: under_def)

lemma permissionPathWithin_exact_witness:
  "permissionPathWithin False ''/w/a/../b'' ''/w'' \<and> \<not> permissionPathWithin False ''/w/../etc'' ''/w'' \<and>
   \<not> permissionPathWithin False ''/work'' ''/w''"
proof -
  have "rooted ''/w/a/../b''" "rooted ''/w''" "rooted ''/w/../etc''" "rooted ''/work''"
    by (simp_all add: rooted_def)
  note * = permissionPathWithin_exact [OF this(1,2)] permissionPathWithin_exact [OF this(3,2)]
    permissionPathWithin_exact [OF this(4,2)]
  show ?thesis unfolding * by code_simp
qed


definition demo_fs :: filesystem where
  "demo_fs = \<lparr>Lstat = (\<lambda>p. if p = ''/w'' \<or> p = ''/'' then Some (push_bit 31 1) else None),
     Readlink = (\<lambda>_. None), EvalSymlinks = (\<lambda>p. if p = ''/w'' \<or> p = ''/'' then Some p else None)\<rparr>"


section \<open>Special files and link cycles\<close>

definition hop :: "filesystem \<Rightarrow> string \<Rightarrow> string option" where
  "hop fs p = (case Lstat fs p of
      None \<Rightarrow> None
    | Some m \<Rightarrow> if isSpecialPermissionFile m \<or> \<not> is_symlink m then None
        else map_option (\<lambda>t. Clean (link_target p t)) (Readlink fs p))"

fun walk :: "filesystem \<Rightarrow> nat \<Rightarrow> string \<Rightarrow> string option" where
  "walk fs 0 p = Some p"
| "walk fs (Suc k) p = (case hop fs p of None \<Rightarrow> None | Some q \<Rightarrow> walk fs k q)"

definition special_at :: "filesystem \<Rightarrow> string \<Rightarrow> bool" where
  "special_at fs p \<longleftrightarrow> (case Lstat fs p of None \<Rightarrow> False | Some m \<Rightarrow> isSpecialPermissionFile m)"

lemma loop_hop:
  "hop fs cur = Some q \<Longrightarrow> cur \<notin> set vis \<Longrightarrow>
    symlink_loop fs (Suc n) vis cur r = symlink_loop fs n (cur # vis) q (addPermissionPath q r)"
  by (auto simp: hop_def Let_def split: option.splits if_splits)

lemma loop_visited: "cur \<in> set vis \<Longrightarrow> 0 < n \<Longrightarrow> Unsafe (fst (symlink_loop fs n vis cur r))"
  by (cases n) auto

lemma loop_special: "special_at fs cur \<Longrightarrow> 0 < n \<Longrightarrow> Unsafe (fst (symlink_loop fs n vis cur r))"
  by (cases n) (auto simp: special_at_def split: option.splits)

lemma loop_reaches:
  "walk fs k cur = Some p \<Longrightarrow> k < n \<Longrightarrow> p \<in> set vis \<or> special_at fs p \<Longrightarrow>
    Unsafe (fst (symlink_loop fs n vis cur r))"
proof (induction k arbitrary: cur n vis r)
  case 0
  then show ?case using loop_visited loop_special by auto
next
  case (Suc k)
  obtain q where q: "hop fs cur = Some q" "walk fs k q = Some p"
    using Suc.prems(1) by (auto split: option.splits)
  obtain m where m: "n = Suc m" "k < m" using Suc.prems(2) by (cases n) auto
  show ?case
  proof (cases "cur \<in> set vis")
    case True
    then show ?thesis using loop_visited m by simp
  next
    case False
    then show ?thesis
      using loop_hop [OF q(1) False] Suc.IH [OF q(2) m(2)] Suc.prems(3) m(1) by simp
  qed
qed

lemma loop_cycle:
  "walk fs j cur = Some p \<Longrightarrow> walk fs (Suc d) p = Some p \<Longrightarrow> j + Suc d < n \<Longrightarrow>
    Unsafe (fst (symlink_loop fs n vis cur r))"
proof (induction j arbitrary: cur n vis r)
  case 0
  then obtain q where q: "hop fs p = Some q" "walk fs d q = Some p" by (auto split: option.splits)
  obtain m where m: "n = Suc m" "d < m" using 0(3) by (cases n) auto
  show ?case
    using 0(1) m loop_visited [of p vis n] loop_hop [OF q(1), of vis m r]
      loop_reaches [OF q(2) m(2), of "p # vis"] by (cases "p \<in> set vis") auto
next
  case (Suc j)
  obtain q where q: "hop fs cur = Some q" "walk fs j q = Some p"
    using Suc.prems(1) by (auto split: option.splits)
  obtain m where m: "n = Suc m" "j + Suc d < m" using Suc.prems(3) by (cases n) auto
  show ?case
    using m loop_visited [of cur vis n] loop_hop [OF q(1), of vis m r]
      Suc.IH [OF q(2) Suc.prems(2) m(2)] by (cases "cur \<in> set vis") auto
qed

lemma Resolve_Unsafe:
  assumes "path \<noteq> []" "\<not> isUNCPath path"
    and "Unsafe (fst (symlink_loop fs maxPermissionSymlinkDepth [] (logical_path path cwd)
       \<lparr>Logical = logical_path path cwd, Paths = [logical_path path cwd], Unsafe = False\<rparr>))"
  shows "Unsafe (ResolvePermissionPath fs path cwd)"
  using Resolve_cases [OF assms(1,2), of fs cwd] assms(3)
  by (smt (verit) add_fields(2) fst_conv option.case_eq_if)

text \<open>
  A target whose chain of symbolic links reaches a device, pipe or socket, or runs into a
  cycle, within the depth limit of 40 is never accepted, whatever the roots are.
\<close>

lemma unsafe_links_never_within:
  assumes "path \<noteq> []" "\<not> isUNCPath path"
    and "(\<exists>k p. k < 40 \<and> walk fs k (logical_path path cwd) = Some p \<and> special_at fs p) \<or>
      (\<exists>j d p. walk fs j (logical_path path cwd) = Some p \<and> walk fs (Suc d) p = Some p \<and> j + Suc d < 40)"
  shows "Unsafe (ResolvePermissionPath fs path cwd) \<and>
    \<not> PermissionPathsWithinRoots fc fs (ResolvePermissionPath fs path cwd) roots"
proof -
  have "Unsafe (ResolvePermissionPath fs path cwd)"
    using assms(3) loop_reaches loop_cycle
    by (intro Resolve_Unsafe [OF assms(1,2)]) (auto simp: maxPermissionSymlinkDepth_def)
  then show ?thesis by (simp add: PermissionPathsWithinRoots_def)
qed

definition loop_fs :: filesystem where
  "loop_fs = \<lparr>Lstat = (\<lambda>p. if p = ''/w/a'' \<or> p = ''/w/b'' then Some ModeSymlink else None),
     Readlink = (\<lambda>p. Some (if p = ''/w/a'' then ''b'' else ''a'')), EvalSymlinks = (\<lambda>_. None)\<rparr>"

lemma unsafe_links_never_within_witness:
  "Unsafe (ResolvePermissionPath loop_fs ''/w/a'' []) \<and>
   \<not> PermissionPathsWithinRoots False loop_fs (ResolvePermissionPath loop_fs ''/w/a'' []) [''/w'']"
proof -
  have "walk loop_fs 0 (logical_path ''/w/a'' []) = Some ''/w/a''"
    "walk loop_fs (Suc 1) ''/w/a'' = Some ''/w/a''" "\<not> isUNCPath ''/w/a''"
    by code_simp+
  then show ?thesis
    by (intro unsafe_links_never_within) (simp, simp, rule disjI2, rule exI [of _ 0], rule exI [of _ 1], simp)
qed

section \<open>A gap: chained links above a missing directory\<close>

text \<open>
  When the target does not exist, only the last existing ancestor is resolved, by one hop.  A
  link to a second link inside the root that leads outside is therefore accepted, although the
  write would land outside.
\<close>

definition chain_fs :: filesystem where
  "chain_fs = \<lparr>Lstat = (\<lambda>p. if p = ''/w/l1'' \<or> p = ''/w/l2'' then Some ModeSymlink
       else if p = ''/w'' \<or> p = ''/'' \<or> p = ''/out'' then Some (push_bit 31 1) else None),
     Readlink = (\<lambda>p. if p = ''/w/l1'' then Some ''/w/l2'' else if p = ''/w/l2'' then Some ''/out'' else None),
     EvalSymlinks = (\<lambda>p. if p = ''/w/l1'' \<or> p = ''/w/l2'' \<or> p = ''/out'' then Some ''/out''
       else if p = ''/w'' \<or> p = ''/'' then Some p else None)\<rparr>"

lemma chained_symlink_escapes:
  "AcceptEditsCheck False chain_fs ''Write'' [(''file_path'', JStr ''/w/l1/new/f'')] ''/w'' [] \<and>
   EvalSymlinks chain_fs ''/w/l1'' = Some ''/out''"
  by code_simp

end
