(* ===== verification/Permission_Mode.thy ===== *)
theory Permission_Mode
  imports Permission_Rules Shell_Policy
begin

text \<open>
  Permission modes (src/engine/permission/mode.go), the transition table of mode_transition.go,
  the bypass killswitch (bypass_killswitch.go) and the static risk classifier
  (risk_classifier.go).
\<close>

section \<open>Modes\<close>

datatype Mode =
    ModeDefault | ModePlan | ModeAcceptEdits | ModeBypassPermissions | ModeDontAsk
  | ModeAuto | ModeBubble | ModeOther string

fun mode_string :: "Mode \<Rightarrow> string" where
  "mode_string ModeDefault = ''default''"
| "mode_string ModePlan = ''plan''"
| "mode_string ModeAcceptEdits = ''acceptEdits''"
| "mode_string ModeBypassPermissions = ''bypassPermissions''"
| "mode_string ModeDontAsk = ''dontAsk''"
| "mode_string ModeAuto = ''auto''"
| "mode_string ModeBubble = ''bubble''"
| "mode_string (ModeOther s) = s"

definition IsBypassMode :: "Mode \<Rightarrow> bool" where
  "IsBypassMode m \<longleftrightarrow> m = ModeBypassPermissions"

definition IsDenialTrackingEnabled :: "Mode \<Rightarrow> bool" where
  "IsDenialTrackingEnabled m \<longleftrightarrow> m = ModeAuto"

definition ShouldAutoAllow :: "Mode \<Rightarrow> bool" where
  "ShouldAutoAllow m \<longleftrightarrow> m = ModeBypassPermissions"

fun DefaultBehavior :: "Mode \<Rightarrow> PermissionAction" where
  "DefaultBehavior ModeBypassPermissions = ActionAllow"
| "DefaultBehavior ModePlan = ActionDeny"
| "DefaultBehavior ModeDontAsk = ActionDeny"
| "DefaultBehavior ModeAcceptEdits = ActionAsk"
| "DefaultBehavior ModeAuto = ActionAsk"
| "DefaultBehavior ModeBubble = ActionAsk"
| "DefaultBehavior ModeDefault = ActionAsk"
| "DefaultBehavior (ModeOther s) = ActionAsk"

definition AllowsToolByDefault :: "Mode \<Rightarrow> bool" where
  "AllowsToolByDefault m \<longleftrightarrow> m = ModeBypassPermissions"

definition DeniesToolByDefault :: "Mode \<Rightarrow> bool" where
  "DeniesToolByDefault m \<longleftrightarrow> m = ModePlan \<or> m = ModeDontAsk"

definition EvaluateWithMode :: "Mode \<Rightarrow> PermissionAction \<Rightarrow> bool \<Rightarrow> PermissionAction" where
  "EvaluateWithMode mode ruleAction ruleMatched =
     (if \<not> ruleMatched then DefaultBehavior mode
      else if mode = ModeDontAsk \<and> ruleAction = ActionAsk then ActionDeny
      else if mode = ModeBypassPermissions \<and> ruleAction = ActionAsk then ActionAllow
      else ruleAction)"

fun ModeTitle :: "Mode \<Rightarrow> string" where
  "ModeTitle ModeDefault = ''Default''"
| "ModeTitle ModePlan = ''Plan Mode''"
| "ModeTitle ModeAcceptEdits = ''Accept Edits''"
| "ModeTitle ModeBypassPermissions = ''Bypass Permissions''"
| "ModeTitle ModeDontAsk = ''Don't Ask''"
| "ModeTitle ModeAuto = ''Auto Mode''"
| "ModeTitle ModeBubble = ''Bubble''"
| "ModeTitle (ModeOther s) = ''Default''"

definition ParseMode :: "string \<Rightarrow> Mode" where
  "ParseMode s =
     (case find (\<lambda>m. mode_string m = s)
        [ModeDefault, ModePlan, ModeAcceptEdits, ModeBypassPermissions, ModeDontAsk, ModeAuto, ModeBubble] of
        Some m \<Rightarrow> m
      | None \<Rightarrow> ModeDefault)"

definition ValidModes :: "Mode list" where
  "ValidModes = [ModeDefault, ModePlan, ModeAcceptEdits, ModeBypassPermissions, ModeDontAsk]"

section \<open>Transition table\<close>

record ModeTransitionError =
  mte_From :: Mode
  mte_To :: Mode
  mte_Reason :: string

definition transition_error_string :: "ModeTransitionError \<Rightarrow> string" where
  "transition_error_string e =
     ''cannot transition from '' @ mode_string (mte_From e) @ '' to '' @ mode_string (mte_To e) @ '': '' @ mte_Reason e"

record TransitionValidation =
  RequiresConfirmation :: bool
  ClearsWriteDecisions :: bool
  ClearsAllDecisions :: bool
  ResetsRateLimits :: bool
  ResetsDenialTracking :: bool

definition isValidTargetMode :: "Mode \<Rightarrow> bool" where
  "isValidTargetMode m \<longleftrightarrow>
     m \<in> {ModeDefault, ModePlan, ModeAcceptEdits, ModeBypassPermissions, ModeDontAsk}"

definition no_validation :: TransitionValidation where
  "no_validation = \<lparr>RequiresConfirmation = False, ClearsWriteDecisions = False,
     ClearsAllDecisions = False, ResetsRateLimits = False, ResetsDenialTracking = False\<rparr>"

definition ValidateTransition :: "Mode \<Rightarrow> Mode \<Rightarrow> ModeTransitionError + TransitionValidation" where
  "ValidateTransition from to =
     (if from = to then Inr no_validation
      else if \<not> isValidTargetMode to then
        Inl \<lparr>mte_From = from, mte_To = to,
          mte_Reason = Quote (mode_string to) @ '' is not a valid user-addressable mode''\<rparr>
      else
        let validation = no_validation\<lparr>ResetsRateLimits := True, ResetsDenialTracking := True\<rparr> in
        Inr (if to = ModeBypassPermissions then validation\<lparr>RequiresConfirmation := True\<rparr>
             else if to = ModePlan then validation\<lparr>ClearsWriteDecisions := True\<rparr>
             else if from = ModeBypassPermissions then validation\<lparr>ClearsAllDecisions := True\<rparr>
             else if to = ModeDontAsk then validation\<lparr>ResetsRateLimits := True\<rparr>
             else validation))"

definition isWriteTool :: "string \<Rightarrow> bool" where
  "isWriteTool toolName \<longleftrightarrow> toolName \<in> {''Write'', ''Edit'', ''Bash''}"

section \<open>Bypass killswitch\<close>

text \<open>\<open>checkFn\<close> is the configured check; \<open>None\<close> is a nil function.\<close>

record BypassKillswitch =
  ks_checked :: bool
  ks_killed :: bool
  ks_checkFn :: "bool option"

definition NewBypassKillswitch :: "bool option \<Rightarrow> BypassKillswitch" where
  "NewBypassKillswitch f = \<lparr>ks_checked = False, ks_killed = False, ks_checkFn = f\<rparr>"

definition CheckAndDisable :: "BypassKillswitch \<Rightarrow> BypassKillswitch \<times> bool" where
  "CheckAndDisable k =
     (if ks_checked k then (k, ks_killed k)
      else let k = k\<lparr>ks_checked := True\<rparr> in
        if ks_checkFn k = Some True then (k\<lparr>ks_killed := True\<rparr>, True) else (k, False))"

definition IsKilled :: "BypassKillswitch \<Rightarrow> bool" where
  "IsKilled k = ks_killed k"

definition ResetKillswitch :: "BypassKillswitch \<Rightarrow> BypassKillswitch" where
  "ResetKillswitch k = k\<lparr>ks_checked := False, ks_killed := False\<rparr>"

section \<open>Risk classification\<close>

datatype ToolRiskLevel = RiskNone | RiskReadOnly | RiskWrite | RiskDestructive | RiskUnknown

record RiskClassification =
  rc_Level :: ToolRiskLevel
  rc_Reason :: string

record ToolRiskClassifier =
  readOnlyTools :: "string list"
  writeTools :: "string list"

definition NewToolRiskClassifier :: ToolRiskClassifier where
  "NewToolRiskClassifier =
     \<lparr>readOnlyTools = [''Read'', ''Grep'', ''Glob'', ''WebFetch'', ''WebSearch'', ''AskUserQuestion'',
         ''EnterPlanMode'', ''ExitPlanMode'', ''TaskCreate'', ''TaskGet'', ''TaskUpdate'', ''TaskList'',
         ''TaskStop'', ''TaskOutput'', ''Agent'', ''TodoWrite''],
       writeTools = [''Write'', ''Edit'']\<rparr>"

definition containsForceFlag :: "string \<Rightarrow> bool" where
  "containsForceFlag command = list_ex (\<lambda>f. f = ''--force'' \<or> f = ''-f'') (Fields command)"

definition truncateForReason :: "string \<Rightarrow> string" where
  "truncateForReason s = (if length s \<le> 60 then s else take 57 s @ ''...'')"

definition destructiveCommands :: "string list" where
  "destructiveCommands =
     [''rm'', ''rmdir'', ''shred'', ''mkfs'', ''dd'', ''kill'', ''killall'', ''pkill'', ''reboot'',
      ''shutdown'', ''halt'', ''poweroff'']"

definition isDestructiveBashCommand :: "string \<Rightarrow> bool" where
  "isDestructiveBashCommand command =
     (let firstWord = extractFirstWord command in
      if firstWord \<in> set destructiveCommands then True
      else let twoWord = extractFirstTwoWords command in
        if (twoWord = ''git push'' \<and> containsForceFlag command) \<or>
           twoWord \<in> {''git reset'', ''git clean'', ''git rebase'', ''git cherry-pick''} then True
        else let dangerous = DetectDangerousPatterns command in
          HasCurlPipe dangerous \<or> HasEval dangerous \<or> HasDDWrite dangerous)"

definition classifyBashCommand :: "tool_input \<Rightarrow> RiskClassification" where
  "classifyBashCommand input =
     (let command = (case string_field input ''command'' of Some c \<Rightarrow> c | None \<Rightarrow> []) in
      if command = [] then \<lparr>rc_Level = RiskUnknown, rc_Reason = ''empty bash command''\<rparr>
      else let command = TrimSpace command in
        if IsReadOnlyCommand command then
          \<lparr>rc_Level = RiskReadOnly, rc_Reason = ''bash command is read-only: '' @ truncateForReason command\<rparr>
        else if isDestructiveBashCommand command then
          \<lparr>rc_Level = RiskDestructive, rc_Reason = ''bash command is destructive: '' @ truncateForReason command\<rparr>
        else \<lparr>rc_Level = RiskWrite, rc_Reason = ''bash command modifies state: '' @ truncateForReason command\<rparr>)"

definition Classify :: "ToolRiskClassifier option \<Rightarrow> string \<Rightarrow> tool_input \<Rightarrow> RiskClassification" where
  "Classify cl toolName toolInput =
     (case cl of
        None \<Rightarrow> \<lparr>rc_Level = RiskUnknown, rc_Reason = ''no classifier configured''\<rparr>
      | Some c \<Rightarrow>
         (if toolName \<in> set (readOnlyTools c) then
            \<lparr>rc_Level = RiskReadOnly, rc_Reason = toolName @ '' is a read-only tool''\<rparr>
          else if toolName \<in> set (writeTools c) then
            \<lparr>rc_Level = RiskWrite, rc_Reason = toolName @ '' modifies files''\<rparr>
          else if HasPrefix toolName ''mcp__'' then
            \<lparr>rc_Level = RiskWrite, rc_Reason = ''MCP tool (external side effects possible)''\<rparr>
          else if toolName = ''Bash'' then classifyBashCommand toolInput
          else \<lparr>rc_Level = RiskUnknown, rc_Reason = ''unknown tool '' @ toolName\<rparr>))"

section \<open>Properties\<close>

text \<open>
  Parsing and printing modes are inverse on the seven named modes, and every other string
  parses to the default mode.
\<close>

lemma ParseMode_mode_string:
  "ParseMode (mode_string m) = (case m of ModeOther s \<Rightarrow> ParseMode s | _ \<Rightarrow> m) \<and>
   (mode_string (ParseMode s) = s \<or> ParseMode s = ModeDefault)"
proof
  show "ParseMode (mode_string m) = (case m of ModeOther s \<Rightarrow> ParseMode s | _ \<Rightarrow> m)"
    by (cases m) (simp_all add: ParseMode_def)
  show "mode_string (ParseMode s) = s \<or> ParseMode s = ModeDefault"
    by (auto simp: ParseMode_def split: option.splits dest: find_SomeD)
qed

text \<open>
  The static classifier calls a shell tool use read-only only when every sub-command of its
  command passes the read-only check, and calls no tool named by its write list, no MCP tool
  and no unknown tool read-only.
\<close>

lemma Classify_read_only_sound:
  assumes "rc_Level (Classify (Some NewToolRiskClassifier) toolName input) = RiskReadOnly"
  shows "toolName \<in> set (readOnlyTools NewToolRiskClassifier) \<or>
    (toolName = ''Bash'' \<and> (\<exists>cmd. string_field input ''command'' = Some cmd \<and> cmd \<noteq> [] \<and>
       list_all isSubCommandReadOnly (SplitCommands cmd)))"
proof (cases "toolName \<in> set (readOnlyTools NewToolRiskClassifier)")
  case False
  then have bash: "toolName = ''Bash''" "rc_Level (classifyBashCommand input) = RiskReadOnly"
    using assms by (auto simp: Classify_def split: if_splits)
  obtain cmd where cmd: "string_field input ''command'' = Some cmd" "cmd \<noteq> []" "IsReadOnlyCommand (TrimSpace cmd)"
    using bash(2) by (auto simp: classifyBashCommand_def Let_def split: if_splits option.splits)
  have "SplitCommands (TrimSpace cmd) = SplitCommands cmd" by (simp add: SplitCommands_def)
  then show ?thesis using bash(1) cmd by (simp add: IsReadOnlyCommand_alt)
qed simp

lemma Classify_read_only_sound_witness:
  "rc_Level (Classify (Some NewToolRiskClassifier) ''Bash'' [(''command'', JStr ''git log | wc'')]) = RiskReadOnly \<and>
   ''Bash'' \<notin> set (readOnlyTools NewToolRiskClassifier) \<and> list_all isSubCommandReadOnly (SplitCommands ''git log | wc'')"
proof -
  have ro: "rc_Level (Classify (Some NewToolRiskClassifier) ''Bash'' [(''command'', JStr ''git log | wc'')]) = RiskReadOnly"
    by code_simp
  have n: "''Bash'' \<notin> set (readOnlyTools NewToolRiskClassifier)" by code_simp
  from Classify_read_only_sound [OF ro] n have "list_all isSubCommandReadOnly (SplitCommands ''git log | wc'')"
    by (auto simp: string_field_def)
  then show ?thesis using ro n by blast
qed

text \<open>The killswitch consults its check once per reset.\<close>

lemma killswitch_idempotent:
  "(ks_killed k \<longrightarrow> ks_checked k) \<Longrightarrow>
    CheckAndDisable (fst (CheckAndDisable k)) = (fst (CheckAndDisable k), snd (CheckAndDisable k))"
  by (auto simp: CheckAndDisable_def Let_def)

end
