(* ===== verification/Permission_Eval.thy ===== *)
theory Permission_Eval
  imports Permission_Mode Permission_Session Permission_Path Rule_Syntax
begin

text \<open>
  The unified evaluator (src/engine/permission/evaluator.go) and the mode manager
  (mode_transition.go).  The evaluator's parts are optional, as its Go fields are pointers; the
  clock, the file system and the case-folding flag of the operating system are arguments.
\<close>

section \<open>Model\<close>

datatype EvaluationSource =
    SourceEvalSessionStore | SourceEvalRule | SourceEvalMode | SourceEvalRateLimit
  | SourceEvalClassification | SourceEvalAcceptEdits

record EvaluationResult =
  er_Decision :: PermissionAction
  er_Reason :: string
  er_Source :: EvaluationSource
  er_MatchedRule :: "PermissionRule option"
  er_RiskLevel :: ToolRiskLevel

record Evaluator =
  ev_SessionStore :: "SessionStore option"
  ev_Rules :: RulesEngine
  ev_Mode :: Mode
  ev_DenialTracking :: "DenialTrackingState option"
  ev_Classifier :: "ToolRiskClassifier option"
  ev_WorkingDir :: string

record EvaluatorConfig =
  cfg_SessionStore :: "SessionStore option"
  cfg_Rules :: "PermissionRule list"
  cfg_Mode :: Mode
  cfg_WorkingDir :: string

definition NewEvaluator :: "EvaluatorConfig \<Rightarrow> Evaluator" where
  "NewEvaluator cfg =
     \<lparr>ev_SessionStore = (case cfg_SessionStore cfg of None \<Rightarrow> Some NewSessionStore | Some s \<Rightarrow> Some s),
      ev_Rules = NewRulesEngine (cfg_Rules cfg),
      ev_Mode = (if cfg_Mode cfg = ModeOther [] then ModeDefault else cfg_Mode cfg),
      ev_DenialTracking = Some NewDenialTrackingState,
      ev_Classifier = Some NewToolRiskClassifier,
      ev_WorkingDir = cfg_WorkingDir cfg\<rparr>"

text \<open>The comparison the loop of \<open>resolveWithSpecificity\<close> makes.\<close>

definition beats :: "RuleMatch \<Rightarrow> RuleMatch \<Rightarrow> bool" where
  "beats m best \<longleftrightarrow>
     isMoreSpecific m best \<or>
     (\<not> isMoreSpecific best m \<and> actionPriority (Action (Rule m)) > actionPriority (Action (Rule best)))"

definition resolveWithSpecificity ::
  "RulesEngine \<Rightarrow> string \<Rightarrow> tool_input \<Rightarrow> PermissionAction \<times> PermissionRule option \<times> bool" where
  "resolveWithSpecificity rules toolName toolInput =
     (case rules of
        None \<Rightarrow> (ActionAsk, None, False)
      | Some rs \<Rightarrow>
         (case collectMatches rs toolName toolInput of
            [] \<Rightarrow> (ActionAsk, None, False)
          | m # ms \<Rightarrow> (let best = pick_best beats m ms in (Action (Rule best), Some (Rule best), True))))"

definition result_of :: "PermissionAction \<Rightarrow> string \<Rightarrow> EvaluationSource \<Rightarrow> EvaluationResult" where
  "result_of d r s =
     \<lparr>er_Decision = d, er_Reason = r, er_Source = s, er_MatchedRule = None, er_RiskLevel = RiskNone\<rparr>"

definition Evaluate ::
  "bool \<Rightarrow> filesystem \<Rightarrow> int \<Rightarrow> Evaluator \<Rightarrow> string \<Rightarrow> tool_input \<Rightarrow> EvaluationResult" where
  "Evaluate fold_case fs now e toolName toolInput =
     (let mode = ev_Mode e; cwd = ev_WorkingDir e in
      if (case ev_DenialTracking e of None \<Rightarrow> False | Some d \<Rightarrow> IsRateLimited now d toolName toolInput) then
        result_of ActionDeny ''rate-limited: same operation was recently denied'' SourceEvalRateLimit
      else case (case ev_SessionStore e of None \<Rightarrow> None | Some s \<Rightarrow> store_Lookup s toolName toolInput) of
        Some decision \<Rightarrow>
          result_of (sd_Action decision)
            (''persisted '' @ action_string (sd_Action decision) @ '' decision from session store'')
            SourceEvalSessionStore
      | None \<Rightarrow>
        (case resolveWithSpecificity (ev_Rules e) toolName toolInput of
          (ruleAction, matchedRule, ruleMatched) \<Rightarrow>
            (if ruleMatched then
               (let finalAction = EvaluateWithMode mode ruleAction True;
                    reason = ''rule matched: '' @ formatRuleDescription matchedRule @
                      (if finalAction \<noteq> ruleAction then
                         '' (transformed '' @ action_string ruleAction @ [CHR 0xE2, CHR 0x86, CHR 0x92] @
                           action_string finalAction @ '' by mode '' @ mode_string mode @ '')''
                       else [])
                in (result_of finalAction reason SourceEvalRule)\<lparr>er_MatchedRule := matchedRule\<rparr>)
             else if mode = ModeAcceptEdits \<and> AcceptEditsCheck fold_case fs toolName toolInput cwd [] then
               result_of ActionAllow ''auto-allowed by acceptEdits mode (file operation within working directory)''
                 SourceEvalAcceptEdits
             else
               (let modeDefault = DefaultBehavior mode in
                if modeDefault = ActionAsk \<and> ev_Classifier e \<noteq> None then
                  (let classification = Classify (ev_Classifier e) toolName toolInput in
                   if rc_Level classification = RiskReadOnly then
                     (result_of ActionAllow
                        (''auto-allowed: '' @ toolName @ '' classified as read-only ('' @ rc_Reason classification @ '')'')
                        SourceEvalClassification)\<lparr>er_RiskLevel := RiskReadOnly\<rparr>
                   else if rc_Level classification = RiskDestructive then
                     (result_of ActionAsk
                        (''requires confirmation: '' @ toolName @ '' classified as destructive ('' @ rc_Reason classification @ '')'')
                        SourceEvalClassification)\<lparr>er_RiskLevel := RiskDestructive\<rparr>
                   else
                     (result_of modeDefault
                        (''mode '' @ mode_string mode @ '' default ('' @ toolName @ '' classified as write-level risk: '' @
                           rc_Reason classification @ '')'')
                        SourceEvalMode)\<lparr>er_RiskLevel := RiskWrite\<rparr>)
                else
                  result_of modeDefault
                    (''no rule matched; mode '' @ mode_string mode @ '' default = '' @ action_string modeDefault)
                    SourceEvalMode))))"

definition ev_RecordDenial :: "int \<Rightarrow> string \<Rightarrow> tool_input \<Rightarrow> string \<Rightarrow> Evaluator \<Rightarrow> Evaluator" where
  "ev_RecordDenial now toolName input reason e =
     e\<lparr>ev_DenialTracking :=
        map_option (RecordDenialWithDetails now toolName input ReasonRule reason) (ev_DenialTracking e)\<rparr>"

definition ev_RecordSuccess :: "Evaluator \<Rightarrow> Evaluator" where
  "ev_RecordSuccess e = e\<lparr>ev_DenialTracking := map_option RecordSuccess (ev_DenialTracking e)\<rparr>"

definition PersistDecision ::
  "string \<Rightarrow> string \<Rightarrow> PermissionAction \<Rightarrow> DecisionScope \<Rightarrow> string \<Rightarrow> Evaluator \<Rightarrow> Evaluator" where
  "PersistDecision toolName inputPattern action scope reason e =
     e\<lparr>ev_SessionStore := map_option (store_Add
        \<lparr>sd_ToolName = toolName, sd_InputPattern = inputPattern, sd_Action = action, sd_Scope = scope,
          sd_CreatedAt = 0, sd_Reason = reason\<rparr>) (ev_SessionStore e)\<rparr>"

definition GetMode :: "Evaluator \<Rightarrow> Mode" where
  "GetMode e = ev_Mode e"

definition SetMode :: "Mode \<Rightarrow> Evaluator \<Rightarrow> Evaluator" where
  "SetMode mode e = e\<lparr>ev_Mode := mode\<rparr>"

record ModeTransitionResult =
  PreviousMode :: Mode
  NewMode :: Mode
  SessionDecisionsCleared :: nat
  RateLimitsCleared :: bool
  DenialTrackingReset :: bool

text \<open>The confirmation callback is its answer; \<open>None\<close> is a nil callback.\<close>

record ModeManager =
  mm_evaluator :: Evaluator
  mm_confirmBypass :: "bool option"

definition NewModeManager :: "Evaluator \<Rightarrow> bool option \<Rightarrow> ModeManager" where
  "NewModeManager e c = \<lparr>mm_evaluator = e, mm_confirmBypass = c\<rparr>"

definition write_allow :: "SessionDecision \<Rightarrow> bool" where
  "write_allow d \<longleftrightarrow> sd_Action d = ActionAllow \<and> isWriteTool (sd_ToolName d)"

definition clearWriteDecisions :: "SessionStore \<Rightarrow> SessionStore \<times> nat" where
  "clearWriteDecisions s =
     (let doomed = filter write_allow (store_List s)
      in (fold (\<lambda>d st. fst (store_Remove (sd_ToolName d) (sd_InputPattern d) (sd_Scope d) st)) doomed s,
          length doomed))"

definition TransitionTo :: "Mode \<Rightarrow> ModeManager \<Rightarrow> ModeManager \<times> ModeTransitionResult \<times> ModeTransitionError option" where
  "TransitionTo to m =
     (let e = mm_evaluator m; from = GetMode e;
          result = \<lparr>PreviousMode = from, NewMode = to, SessionDecisionsCleared = 0,
            RateLimitsCleared = False, DenialTrackingReset = False\<rparr>
      in if from = to then (m, result, None)
         else case ValidateTransition from to of
           Inl err \<Rightarrow> (m, result, Some err)
         | Inr v \<Rightarrow>
            (if RequiresConfirmation v \<and> mm_confirmBypass m \<noteq> Some True then
               (m, result, Some \<lparr>mte_From = from, mte_To = to,
                  mte_Reason = ''user did not confirm bypass mode transition''\<rparr>)
             else
               let (store, cleared) =
                     (if ClearsAllDecisions v then
                        (case ev_SessionStore e of
                           None \<Rightarrow> (None, 0)
                         | Some s \<Rightarrow> (Some (store_Clear (ScopeOther []) s), length (store_List s)))
                      else if ClearsWriteDecisions v then
                        (case ev_SessionStore e of
                           None \<Rightarrow> (None, 0)
                         | Some s \<Rightarrow> (case clearWriteDecisions s of (s', n) \<Rightarrow> (Some s', n)))
                      else (ev_SessionStore e, 0));
                   d1 = (if ResetsRateLimits v then map_option ClearAllRateLimits (ev_DenialTracking e)
                         else ev_DenialTracking e);
                   d2 = (if ResetsDenialTracking v then map_option ResetDenials d1 else d1);
                   e' = SetMode to (e\<lparr>ev_SessionStore := store, ev_DenialTracking := d2\<rparr>)
               in (m\<lparr>mm_evaluator := e'\<rparr>,
                   result\<lparr>SessionDecisionsCleared := cleared,
                     RateLimitsCleared := ResetsRateLimits v \<and> ev_DenialTracking e \<noteq> None,
                     DenialTrackingReset := ResetsDenialTracking v \<and> ev_DenialTracking e \<noteq> None\<rparr>,
                   None)))"

definition CurrentMode :: "ModeManager \<Rightarrow> Mode" where
  "CurrentMode m = GetMode (mm_evaluator m)"

section \<open>The winning rule\<close>

lemma beats_preference: "beats = (\<lambda>a b. isMoreSpecific a b \<or> (\<not> isMoreSpecific b a \<and>
    actionPriority (Action (Rule a)) > actionPriority (Action (Rule b))))"
  by (intro ext) (simp add: beats_def)

text \<open>The rules that take part in a resolution: named exactly or by pattern, and with a matching input.\<close>

definition rule_covers :: "string \<Rightarrow> tool_input \<Rightarrow> PermissionRule \<Rightarrow> bool" where
  "rule_covers toolName input r \<longleftrightarrow>
     (ToolName r = toolName \<or> matchPattern (ToolName r) toolName) \<and>
     (InputPattern r = [] \<or> matchPattern (InputPattern r) (extractInputString toolName input))"

lemma collectMatches_rules: "map Rule (collectMatches rs tn ti) = filter (rule_covers tn ti) rs"
  unfolding collectMatches_def by (induction rs) (auto simp: rule_covers_def Let_def)

lemma resolve_none:
  "filter (rule_covers tn ti) rs = [] \<longleftrightarrow> collectMatches rs tn ti = []"
  using collectMatches_rules [of rs tn ti] by (metis map_is_Nil_conv)

lemma resolve_some:
  assumes "collectMatches rs tn ti = m # ms"
  obtains best where "resolveWithSpecificity (Some rs) tn ti = (Action (Rule best), Some (Rule best), True)"
    "best \<in> set (collectMatches rs tn ti)" "Rule best \<in> set rs" "rule_covers tn ti (Rule best)"
    "\<And>x. x \<in> set (collectMatches rs tn ti) \<Longrightarrow> \<not> beats x best"
proof
  let ?b = "pick_best beats m ms"
  show "resolveWithSpecificity (Some rs) tn ti = (Action (Rule ?b), Some (Rule ?b), True)"
    using assms by (simp add: resolveWithSpecificity_def Let_def)
  show mem: "?b \<in> set (collectMatches rs tn ti)"
    using pick_best_mem [of beats m ms] assms by simp
  then have "Rule ?b \<in> set (filter (rule_covers tn ti) rs)"
    unfolding collectMatches_rules [symmetric] by simp
  then show "Rule ?b \<in> set rs" "rule_covers tn ti (Rule ?b)" by auto
  show "\<not> beats x ?b" if "x \<in> set (collectMatches rs tn ti)" for x
    using spec_action.lex.pick_best_max [of x m ms] that assms by (simp add: beats_preference)
qed


section \<open>The evaluation pipeline\<close>

lemma resolve_matched:
  assumes "resolveWithSpecificity rules tn ti = (act, mr, b)"
  shows "if b then \<exists>rs r. rules = Some rs \<and> mr = Some r \<and> act = Action r \<and> r \<in> set rs \<and> rule_covers tn ti r
    else \<forall>rs. rules = Some rs \<longrightarrow> filter (rule_covers tn ti) rs = []"
proof (cases rules)
  case None
  then show ?thesis using assms by (auto simp: resolveWithSpecificity_def)
next
  case (Some rs)
  show ?thesis
  proof (cases "collectMatches rs tn ti")
    case Nil
    then show ?thesis using assms Some resolve_none [of tn ti rs] by (auto simp: resolveWithSpecificity_def)
  next
    case (Cons m ms)
    from resolve_some [OF Cons] show ?thesis using assms Some by fastforce
  qed
qed

text \<open>
  C1. What the evaluator allows without asking: the outcome allow has one of five grounds, a
  persisted allow decision that applies, a matching rule that allows (or asks, in bypass mode),
  an edit inside the working directory in acceptEdits mode, bypass mode with no matching rule,
  or a read-only classification in a mode whose default is to ask; and never while the same
  operation is rate-limited.
\<close>

theorem Evaluate_allow_grounds:
  assumes "er_Decision (Evaluate fc fs now e tool input) = ActionAllow"
  shows "(\<forall>d. ev_DenialTracking e = Some d \<longrightarrow> \<not> IsRateLimited now d tool input) \<and>
    ((\<exists>s d. ev_SessionStore e = Some s \<and> d \<in> set s \<and> sd_Action d = ActionAllow \<and>
        applies tool (extractInputString tool input) d) \<or>
     (\<exists>rs r. ev_Rules e = Some rs \<and> r \<in> set rs \<and> rule_covers tool input r \<and>
        (Action r = ActionAllow \<or> Action r = ActionAsk \<and> ev_Mode e = ModeBypassPermissions)) \<or>
     (ev_Mode e = ModeAcceptEdits \<and> AcceptEditsCheck fc fs tool input (ev_WorkingDir e) []) \<or>
     (ev_Mode e = ModeBypassPermissions \<and> (\<forall>rs. ev_Rules e = Some rs \<longrightarrow> filter (rule_covers tool input) rs = [])) \<or>
     (DefaultBehavior (ev_Mode e) = ActionAsk \<and> ev_Classifier e \<noteq> None \<and>
        rc_Level (Classify (ev_Classifier e) tool input) = RiskReadOnly))"
proof -
  have limit: "\<forall>d. ev_DenialTracking e = Some d \<longrightarrow> \<not> IsRateLimited now d tool input"
    using assms by (auto simp: Evaluate_def Let_def result_of_def split: if_splits)
  let ?look = "case ev_SessionStore e of None \<Rightarrow> None | Some s \<Rightarrow> store_Lookup s tool input"
  show ?thesis
  proof (cases ?look)
    case (Some d)
    then obtain s where "ev_SessionStore e = Some s" "store_Lookup s tool input = Some d"
      by (auto split: option.splits)
    moreover have "sd_Action d = ActionAllow"
      using assms limit Some by (auto simp: Evaluate_def Let_def result_of_def split: option.splits)
    ultimately show ?thesis using limit store_Lookup_SomeD [of s tool input d] by blast
  next
    case None
    obtain act mr b where r: "resolveWithSpecificity (ev_Rules e) tool input = (act, mr, b)"
      by (metis prod_cases3)
    have ev: "er_Decision (Evaluate fc fs now e tool input) =
      (if b then EvaluateWithMode (ev_Mode e) act True
       else if ev_Mode e = ModeAcceptEdits \<and> AcceptEditsCheck fc fs tool input (ev_WorkingDir e) [] then ActionAllow
       else if DefaultBehavior (ev_Mode e) = ActionAsk \<and> ev_Classifier e \<noteq> None
         \<and> rc_Level (Classify (ev_Classifier e) tool input) = RiskReadOnly then ActionAllow
       else DefaultBehavior (ev_Mode e))"
      using limit None r by (auto simp: Evaluate_def Let_def result_of_def split: option.splits)
    show ?thesis
    proof (cases b)
      case True
      then obtain rs ru where "ev_Rules e = Some rs" "act = Action ru" "ru \<in> set rs" "rule_covers tool input ru"
        using resolve_matched [OF r] by auto
      moreover have "act = ActionAllow \<or> act = ActionAsk \<and> ev_Mode e = ModeBypassPermissions"
        using assms ev True by (auto simp: EvaluateWithMode_def split: if_splits)
      ultimately show ?thesis using limit by auto
    next
      case False
      have "DefaultBehavior (ev_Mode e) = ActionAllow \<Longrightarrow> ev_Mode e = ModeBypassPermissions"
        by (cases "ev_Mode e") auto
      then show ?thesis using assms ev False resolve_matched [OF r] limit by (auto split: if_splits)
    qed
  qed
qed

theorem Evaluate_allow_grounds_witness:
  "let e = NewEvaluator \<lparr>cfg_SessionStore = None, cfg_Rules = [], cfg_Mode = ModeDefault, cfg_WorkingDir = ''/w''\<rparr>
   in er_Decision (Evaluate False demo_fs 0 e ''Read'' []) = ActionAllow \<and>
      rc_Level (Classify (ev_Classifier e) ''Read'' []) = RiskReadOnly"
proof -
  let ?e = "NewEvaluator \<lparr>cfg_SessionStore = None, cfg_Rules = [], cfg_Mode = ModeDefault, cfg_WorkingDir = ''/w''\<rparr>"
  have allow: "er_Decision (Evaluate False demo_fs 0 ?e ''Read'' []) = ActionAllow" by code_simp
  have "ev_SessionStore ?e = Some []" "ev_Rules ?e = Some [] \<or> ev_Rules ?e = None" "ev_Mode ?e = ModeDefault"
    by (simp_all add: NewEvaluator_def NewSessionStore_def NewRulesEngine_def)
  then have "rc_Level (Classify (ev_Classifier ?e) ''Read'' []) = RiskReadOnly"
    using Evaluate_allow_grounds [OF allow] by auto
  then show ?thesis using allow by (simp add: Let_def)
qed

text \<open>
  In dontAsk mode the evaluator never answers ask unless a persisted decision itself says
  ask, and in plan mode it allows only on an explicit persisted or rule-based allow.
\<close>

lemma quiet_modes_never_prompt:
  assumes "ev_Mode e = ModeDontAsk \<or> ev_Mode e = ModePlan"
    and "\<And>s d. ev_SessionStore e = Some s \<Longrightarrow> d \<in> set s \<Longrightarrow> sd_Action d = ActionDeny"
    and "\<And>rs r. ev_Rules e = Some rs \<Longrightarrow> r \<in> set rs \<Longrightarrow> Action r \<in> {ActionDeny, ActionAsk}"
  shows "er_Decision (Evaluate fc fs now e tool input) = ActionDeny \<or>
    (ev_Mode e = ModePlan \<and> er_Decision (Evaluate fc fs now e tool input) = ActionAsk \<and>
      er_Source (Evaluate fc fs now e tool input) = SourceEvalRule)"
proof -
  have store: "sd_Action d = ActionDeny"
    if "(case ev_SessionStore e of None \<Rightarrow> None | Some s \<Rightarrow> store_Lookup s tool input) = Some d" for d
    using that assms(2) store_Lookup_SomeD by (auto split: option.splits)
  obtain act mr b where r: "resolveWithSpecificity (ev_Rules e) tool input = (act, mr, b)"
    by (metis prod_cases3)
  have act: "b \<Longrightarrow> act \<in> {ActionDeny, ActionAsk}"
    using resolve_matched [OF r] assms(3) by auto
  show ?thesis
    using assms(1) store r act
    by (auto simp: Evaluate_def Let_def result_of_def EvaluateWithMode_def split: option.splits if_splits)
qed

lemma quiet_modes_never_prompt_witness:
  "let e = NewEvaluator \<lparr>cfg_SessionStore = None, cfg_Rules = [], cfg_Mode = ModeDontAsk, cfg_WorkingDir = ''/w''\<rparr>
   in er_Decision (Evaluate False demo_fs 0 e ''Read'' []) = ActionDeny"
proof -
  let ?e = "NewEvaluator \<lparr>cfg_SessionStore = None, cfg_Rules = [], cfg_Mode = ModeDontAsk, cfg_WorkingDir = ''/w''\<rparr>"
  have e: "ev_Mode ?e = ModeDontAsk" "ev_SessionStore ?e = Some []" "ev_Rules ?e = Some [] \<or> ev_Rules ?e = None"
    by (simp_all add: NewEvaluator_def NewSessionStore_def NewRulesEngine_def)
  then show ?thesis
    using quiet_modes_never_prompt [of ?e False demo_fs 0 "''Read''" "[]"] by (auto simp: Let_def)
qed

section \<open>Mode transitions\<close>

lemma clearWriteDecisions_fold:
  "clearWriteDecisions s = (fold store_del (map decision_key (filter write_allow s)) s, length (filter write_allow s))"
proof -
  have "(\<lambda>d st. fst (store_Remove (sd_ToolName d) (sd_InputPattern d) (sd_Scope d) st)) = (\<lambda>d. store_del (decision_key d))"
    by (intro ext) (simp add: store_del_def decision_key_def)
  then show ?thesis by (simp add: clearWriteDecisions_def store_List_def fold_map comp_def Let_def)
qed

lemma clearWriteDecisions_set:
  assumes "store_ok s"
  shows "set (fst (clearWriteDecisions s)) = {d \<in> set s. \<not> write_allow d} \<and> store_ok (fst (clearWriteDecisions s))"
proof -
  let ?ks = "map decision_key (filter write_allow s)"
  have ok: "store_ok (fold store_del ?ks s)" using assms by (rule decisions.invar_fold_del)
  have sub: "store_ok t \<Longrightarrow> set (fold store_del ks t) \<subseteq> set t" for ks t
  proof (induction ks arbitrary: t)
    case (Cons k ks)
    then show ?case using store_ok_del [of t k] set_store_del [of t k] by fastforce
  qed simp
  have "d \<in> set (fold store_del ?ks s) \<longleftrightarrow> d \<in> set s \<and> \<not> write_allow d" for d
  proof (cases "d \<in> set s")
    case True
    have key: "decision_key d \<in> set ?ks \<longleftrightarrow> write_allow d"
      using True assms by (auto simp: store_ok_def distinct_map inj_on_def)
    show ?thesis
      using store_get_mem [OF ok, of d] decisions.get_fold_del [OF assms, of ?ks "decision_key d"]
        store_get_mem [OF assms, of d] True key by simp
  next
    case False
    then show ?thesis using sub [OF assms] by blast
  qed
  then show ?thesis using ok by (auto simp: clearWriteDecisions_fold)
qed

text \<open>
  Entering plan mode from another mode always succeeds; from a store with distinct keys it
  removes exactly the allow decisions of the write tools, keeps every other decision, counts
  what it removed, and resets the denial tracker.
\<close>

lemma TransitionTo_plan:
  assumes "CurrentMode m \<noteq> ModePlan" "ev_SessionStore (mm_evaluator m) = Some s" "store_ok s"
  shows "case TransitionTo ModePlan m of (m', result, err) \<Rightarrow>
    err = None \<and> CurrentMode m' = ModePlan \<and>
    (\<exists>s'. ev_SessionStore (mm_evaluator m') = Some s' \<and> store_ok s' \<and>
       set s' = {d \<in> set s. \<not> (sd_Action d = ActionAllow \<and> sd_ToolName d \<in> {''Write'', ''Edit'', ''Bash''})} \<and>
       SessionDecisionsCleared result + length s' = length s) \<and>
    ev_DenialTracking (mm_evaluator m') =
      map_option (\<lambda>_. NewDenialTrackingState) (ev_DenialTracking (mm_evaluator m))"
proof -
  have reset: "ResetDenials (ClearAllRateLimits d) = NewDenialTrackingState" for d
    by (cases d) (simp add: ResetDenials_def ClearAllRateLimits_def NewDenialTrackingState_def)
  obtain s' n where c: "clearWriteDecisions s = (s', n)" by fastforce
  have set': "set s' = {d \<in> set s. \<not> write_allow d}" "store_ok s'"
    using clearWriteDecisions_set [OF assms(3)] c by simp_all
  have "distinct s" "distinct s'" using assms(3) set'(2) by (auto simp: store_ok_def distinct_map)
  then have "length s' = length (filter (\<lambda>d. \<not> write_allow d) s)"
    using set'(1) by (metis distinct_card distinct_filter set_filter)
  then have count: "n + length s' = length s"
    using c sum_length_filter_compl [of write_allow s] by (simp add: clearWriteDecisions_fold)
  have "ValidateTransition (CurrentMode m) ModePlan =
      Inr (no_validation\<lparr>ResetsRateLimits := True, ResetsDenialTracking := True, ClearsWriteDecisions := True\<rparr>)"
    using assms(1) by (simp add: ValidateTransition_def isValidTargetMode_def no_validation_def)
  then show ?thesis
    using assms(1,2) c count set'
    by (simp add: TransitionTo_def CurrentMode_def GetMode_def SetMode_def no_validation_def
        Let_def option.map_comp comp_def reset write_allow_def isWriteTool_def)
qed

lemma TransitionTo_plan_witness:
  "let d = \<lparr>sd_ToolName = ''Write'', sd_InputPattern = [], sd_Action = ActionAllow, sd_Scope = ScopeProject,
             sd_CreatedAt = 0, sd_Reason = []\<rparr>;
       m = NewModeManager (NewEvaluator \<lparr>cfg_SessionStore = Some [d], cfg_Rules = [], cfg_Mode = ModeDefault,
             cfg_WorkingDir = ''/w''\<rparr>) None
   in CurrentMode (fst (TransitionTo ModePlan m)) = ModePlan \<and>
      ev_SessionStore (mm_evaluator (fst (TransitionTo ModePlan m))) = Some []"
proof -
  let ?d = "\<lparr>sd_ToolName = ''Write'', sd_InputPattern = [], sd_Action = ActionAllow, sd_Scope = ScopeProject,
             sd_CreatedAt = 0, sd_Reason = []\<rparr>"
  let ?m = "NewModeManager (NewEvaluator \<lparr>cfg_SessionStore = Some [?d], cfg_Rules = [], cfg_Mode = ModeDefault,
             cfg_WorkingDir = ''/w''\<rparr>) None"
  have "CurrentMode ?m \<noteq> ModePlan" "ev_SessionStore (mm_evaluator ?m) = Some [?d]" "store_ok [?d]"
    by (simp_all add: CurrentMode_def GetMode_def NewModeManager_def NewEvaluator_def store_ok_def)
  note plan = TransitionTo_plan [OF this]
  obtain m' result err where t: "TransitionTo ModePlan ?m = (m', result, err)" by (metis prod_cases3)
  have "{d \<in> set [?d]. \<not> (sd_Action d = ActionAllow \<and> sd_ToolName d \<in> {''Write'', ''Edit'', ''Bash''})} = {}"
    by auto
  with plan have "CurrentMode m' = ModePlan" "\<exists>s'. ev_SessionStore (mm_evaluator m') = Some s' \<and> set s' = {}"
    unfolding t prod.case by metis+
  then show ?thesis unfolding Let_def t by simp
qed

text \<open>
  Bypass mode is entered only on confirmation, the internal modes are never entered, and a
  transition that fails changes nothing.
\<close>

lemma TransitionTo_guarded:
  "case TransitionTo to m of (m', result, err) \<Rightarrow>
     (if err \<noteq> None then m' = m
      else CurrentMode m' = to \<and> (to = CurrentMode m \<or> to \<in> set ValidModes) \<and>
        (if to = ModeBypassPermissions
         then CurrentMode m = ModeBypassPermissions \<or> mm_confirmBypass m = Some True else True))"
proof (cases "CurrentMode m = to")
  case True
  then show ?thesis by (simp add: TransitionTo_def CurrentMode_def Let_def)
next
  case False
  then show ?thesis
    by (cases "isValidTargetMode to"; cases "to = ModeBypassPermissions")
      (auto simp: TransitionTo_def ValidateTransition_def CurrentMode_def GetMode_def SetMode_def
        Let_def no_validation_def isValidTargetMode_def ValidModes_def split: prod.splits if_splits)
qed

section \<open>Known divergences\<close>

text \<open>A specific allow rule overrides a broad deny rule, and a tool-wide deny rule too.\<close>

lemma specific_allow_beats_broad_deny:
  "er_Decision (Evaluate False demo_fs 0
     (NewEvaluator \<lparr>cfg_SessionStore = None,
        cfg_Rules = [\<lparr>ToolName = ''Bash'', InputPattern = [], Action = ActionDeny, Source = []\<rparr>,
                     \<lparr>ToolName = ''Bash'', InputPattern = ''rm x'', Action = ActionAllow, Source = []\<rparr>],
        cfg_Mode = ModeDefault, cfg_WorkingDir = ''/w''\<rparr>)
     ''Bash'' [(''command'', JStr ''rm x'')]) = ActionAllow"
  by code_simp

text \<open>Loading appends, so a key may occur twice; clearing then removes the deny and keeps the allow.\<close>

lemma duplicate_key_keeps_allow:
  "let a = \<lparr>sd_ToolName = ''Bash'', sd_InputPattern = [], sd_Action = ActionAllow, sd_Scope = ScopeProject,
            sd_CreatedAt = 0, sd_Reason = []\<rparr>;
       d = a\<lparr>sd_Action := ActionDeny\<rparr>
   in LoadFrom (\<lambda>_. Some \<lparr>psf_Version = 1, psf_Decisions = [a]\<rparr>) (ReadData ''x'') [d] = ([d, a], None) \<and>
      clearWriteDecisions [d, a] = ([a], 1)"
  by code_simp

text \<open>Leaving bypass mode for plan mode keeps the decisions made under bypass for other tools.\<close>

lemma bypass_to_plan_keeps_decisions:
  "ValidateTransition ModeBypassPermissions ModePlan =
     Inr \<lparr>RequiresConfirmation = False, ClearsWriteDecisions = True, ClearsAllDecisions = False,
       ResetsRateLimits = True, ResetsDenialTracking = True\<rparr>"
  by (simp add: ValidateTransition_def isValidTargetMode_def no_validation_def)

end
