(* ===== verification/Turn_Queue.thy ===== *)
theory Turn_Queue
  imports Tool_Input "HOL-Library.Multiset"
begin

text \<open>
  The per-session turn queue: src/engine/queue/queue.go.  A queue is its item list, the number
  of pending signals in the notification channel of capacity one, and the closed flag.  The
  mutex makes each operation atomic; sending on the closed channel panics, which the enqueue
  operations report as a flag.  Waiting is a step relation between operations of other
  goroutines; the manager keeps its queues in an explicit store, since callers share them by
  pointer.
\<close>

section \<open>Model\<close>

datatype ItemType = ItemTypeMessage | ItemTypeCommand | ItemTypeOther string

record TurnItem =
  ti_Type :: ItemType
  ti_Content :: string
  ti_Timestamp :: int
  ti_Meta :: tool_input

record TurnQueue =
  tq_items :: "TurnItem list"
  tq_signals :: nat
  tq_closed :: bool

definition NewTurnQueue :: TurnQueue where
  "NewTurnQueue = \<lparr>tq_items = [], tq_signals = 0, tq_closed = False\<rparr>"

text \<open>The non-blocking send; the flag tells that it panicked.\<close>

definition signal :: "TurnQueue \<Rightarrow> TurnQueue \<times> bool" where
  "signal q = (if tq_closed q then (q, True) else (q\<lparr>tq_signals := 1\<rparr>, False))"

definition EnqueueMessage :: "int \<Rightarrow> string \<Rightarrow> tool_input \<Rightarrow> TurnQueue \<Rightarrow> TurnQueue \<times> bool" where
  "EnqueueMessage now content meta q =
     signal (q\<lparr>tq_items := tq_items q @
       [\<lparr>ti_Type = ItemTypeMessage, ti_Content = content, ti_Timestamp = now, ti_Meta = meta\<rparr>]\<rparr>)"

definition EnqueueCommand :: "int \<Rightarrow> string \<Rightarrow> TurnQueue \<Rightarrow> TurnQueue \<times> bool" where
  "EnqueueCommand now content q =
     signal (q\<lparr>tq_items := tq_items q @
       [\<lparr>ti_Type = ItemTypeCommand, ti_Content = content, ti_Timestamp = now, ti_Meta = []\<rparr>]\<rparr>)"

fun command_index :: "TurnItem list \<Rightarrow> nat option" where
  "command_index [] = None"
| "command_index (x # xs) =
     (if ti_Type x = ItemTypeCommand then Some 0 else map_option Suc (command_index xs))"

definition nextIndex :: "TurnItem list \<Rightarrow> nat" where
  "nextIndex items = (case command_index items of Some i \<Rightarrow> i | None \<Rightarrow> 0)"

definition Dequeue :: "TurnQueue \<Rightarrow> TurnQueue \<times> TurnItem option" where
  "Dequeue q =
     (if tq_items q = [] then (q, None)
      else let idx = nextIndex (tq_items q); item = tq_items q ! idx
        in (q\<lparr>tq_items := take idx (tq_items q) @ drop (Suc idx) (tq_items q)\<rparr>, Some item))"

definition DequeueAll :: "TurnQueue \<Rightarrow> TurnQueue \<times> TurnItem list" where
  "DequeueAll q =
     (if tq_items q = [] then (q, [])
      else (q\<lparr>tq_items := []\<rparr>,
        filter (\<lambda>i. ti_Type i = ItemTypeCommand) (tq_items q) @
        filter (\<lambda>i. ti_Type i = ItemTypeMessage) (tq_items q)))"

definition tq_Len :: "TurnQueue \<Rightarrow> nat" where
  "tq_Len q = length (tq_items q)"

definition HasCommands :: "TurnQueue \<Rightarrow> bool" where
  "HasCommands q = list_ex (\<lambda>i. ti_Type i = ItemTypeCommand) (tq_items q)"

definition tq_Peek :: "TurnQueue \<Rightarrow> TurnItem option" where
  "tq_Peek q =
     (if tq_items q = [] then None else Some (tq_items q ! nextIndex (tq_items q)))"

definition tq_Close :: "TurnQueue \<Rightarrow> TurnQueue" where
  "tq_Close q = (if \<not> tq_closed q then q\<lparr>tq_closed := True\<rparr> else q)"

subsection \<open>Waiting\<close>

text \<open>
  Where a call of \<open>Wait\<close> stands: at the head of its loop, between its dequeue and its closed
  test, at its select, or returned with an item or with a cancellation error.
\<close>

datatype wait_pc = AtHead | Checking | Selecting | WaitItem TurnItem | WaitCancelled

definition wait_head :: "TurnQueue \<Rightarrow> TurnQueue \<times> wait_pc" where
  "wait_head q =
     (case Dequeue q of (q', Some item) \<Rightarrow> (q', WaitItem item) | (q', None) \<Rightarrow> (q', Checking))"

definition wait_check :: "TurnQueue \<Rightarrow> wait_pc" where
  "wait_check q = (if tq_closed q then WaitCancelled else Selecting)"

text \<open>Receiving: a buffered signal first, then the closed channel; \<open>None\<close> while it blocks.\<close>

definition wait_receive :: "TurnQueue \<Rightarrow> (TurnQueue \<times> wait_pc) option" where
  "wait_receive q =
     (if tq_signals q > 0 then Some (q\<lparr>tq_signals := 0\<rparr>, AtHead)
      else if tq_closed q then Some (q, WaitCancelled)
      else None)"

text \<open>A queue shared by waiters, each with its own position; other goroutines act in between.\<close>

type_synonym tq_system = "TurnQueue \<times> wait_pc list"

inductive tq_step :: "tq_system \<Rightarrow> tq_system \<Rightarrow> bool" where
  enq_message: "tq_step (q, ws) (fst (EnqueueMessage now content meta q), ws)"
| enq_command: "tq_step (q, ws) (fst (EnqueueCommand now content q), ws)"
| dequeue: "tq_step (q, ws) (fst (Dequeue q), ws)"
| dequeue_all: "tq_step (q, ws) (fst (DequeueAll q), ws)"
| close: "tq_step (q, ws) (tq_Close q, ws)"
| head: "i < length ws \<Longrightarrow> ws ! i = AtHead \<Longrightarrow> wait_head q = (q', pc) \<Longrightarrow> tq_step (q, ws) (q', ws[i := pc])"
| check: "i < length ws \<Longrightarrow> ws ! i = Checking \<Longrightarrow> tq_step (q, ws) (q, ws[i := wait_check q])"
| receive: "i < length ws \<Longrightarrow> ws ! i = Selecting \<Longrightarrow> wait_receive q = Some (q', pc) \<Longrightarrow>
    tq_step (q, ws) (q', ws[i := pc])"
| ctx_done: "i < length ws \<Longrightarrow> ws ! i = Selecting \<Longrightarrow> tq_step (q, ws) (q, ws[i := WaitCancelled])"
| again: "i < length ws \<Longrightarrow> ws ! i = WaitItem x \<Longrightarrow> tq_step (q, ws) (q, ws[i := AtHead])"

inductive tq_reach :: "nat \<Rightarrow> tq_system \<Rightarrow> bool" for n where
  start: "tq_reach n (NewTurnQueue, replicate n AtHead)"
| step: "tq_reach n s \<Longrightarrow> tq_step s s' \<Longrightarrow> tq_reach n s'"

subsection \<open>Queue manager\<close>

record QueueManager =
  qm_queues :: "string \<rightharpoonup> nat"
  qm_store :: "nat \<rightharpoonup> TurnQueue"
  qm_next :: nat

definition NewQueueManager :: QueueManager where
  "NewQueueManager = \<lparr>qm_queues = Map.empty, qm_store = Map.empty, qm_next = 0\<rparr>"

definition GetQueue :: "string \<Rightarrow> QueueManager \<Rightarrow> QueueManager \<times> nat" where
  "GetQueue sessionID m =
     (case qm_queues m sessionID of
        Some a \<Rightarrow> (m, a)
      | None \<Rightarrow>
         (let a = qm_next m in
          (m\<lparr>qm_queues := (qm_queues m)(sessionID \<mapsto> a), qm_store := (qm_store m)(a \<mapsto> NewTurnQueue),
             qm_next := Suc a\<rparr>, a)))"

definition RemoveQueue :: "string \<Rightarrow> QueueManager \<Rightarrow> QueueManager" where
  "RemoveQueue sessionID m =
     (case qm_queues m sessionID of
        None \<Rightarrow> m
      | Some a \<Rightarrow>
         m\<lparr>qm_store := (qm_store m)(a := map_option tq_Close (qm_store m a)),
           qm_queues := (qm_queues m)(sessionID := None)\<rparr>)"

section \<open>Priority and order\<close>

lemma command_index_Some:
  "command_index xs = Some i \<Longrightarrow> i < length xs \<and> ti_Type (xs ! i) = ItemTypeCommand \<and>
    (\<forall>j < i. ti_Type (xs ! j) \<noteq> ItemTypeCommand)"
proof (induction xs arbitrary: i)
  case (Cons x xs)
  then show ?case by (auto split: if_splits simp: less_Suc_eq_0_disj)
qed simp

lemma command_index_None: "command_index xs = None \<longleftrightarrow> (\<forall>x \<in> set xs. ti_Type x \<noteq> ItemTypeCommand)"
  by (induction xs) auto

lemma command_split:
  "command_index xs = Some (length pre) \<Longrightarrow> xs = pre @ x # post \<Longrightarrow>
    ti_Type x = ItemTypeCommand \<and> (\<forall>y \<in> set pre. ti_Type y \<noteq> ItemTypeCommand)"
  by (induction pre arbitrary: xs) (auto split: if_splits)

text \<open>
  Dequeue takes the first command when there is one and the first item otherwise, and
  leaves the other items in their order; it answers nothing exactly on the empty queue.
\<close>

lemma Dequeue_priority:
  "case Dequeue q of
     (q', None) \<Rightarrow> tq_items q = [] \<and> q' = q
   | (q', Some x) \<Rightarrow> tq_Peek q = Some x \<and> (\<exists>pre post. tq_items q = pre @ x # post \<and>
       q' = q\<lparr>tq_items := pre @ post\<rparr> \<and>
       (if HasCommands q
        then ti_Type x = ItemTypeCommand \<and> list_all (\<lambda>y. ti_Type y \<noteq> ItemTypeCommand) pre
        else pre = []))"
proof (cases "tq_items q = []")
  case True
  then show ?thesis by (simp add: Dequeue_def)
next
  case False
  let ?xs = "tq_items q" and ?i = "nextIndex (tq_items q)"
  have i: "?i < length ?xs"
    using False command_index_Some [of ?xs] by (auto simp: nextIndex_def split: option.splits)
  have split: "?xs = take ?i ?xs @ ?xs ! ?i # drop (Suc ?i) ?xs"
    by (rule id_take_nth_drop [OF i])
  have len: "length (take ?i ?xs) = ?i" using i by simp
  have "if HasCommands q
      then ti_Type (?xs ! ?i) = ItemTypeCommand \<and> list_all (\<lambda>y. ti_Type y \<noteq> ItemTypeCommand) (take ?i ?xs)
      else take ?i ?xs = []"
  proof (cases "command_index ?xs")
    case None
    then have "\<not> HasCommands q" using command_index_None [of ?xs] by (auto simp: HasCommands_def list_ex_iff)
    then show ?thesis using None by (simp add: nextIndex_def)
  next
    case (Some j)
    then have "HasCommands q" using command_index_None [of ?xs] by (auto simp: HasCommands_def list_ex_iff)
    then show ?thesis
      using Some command_split [of ?xs "take ?i ?xs", OF _ split] len by (simp add: nextIndex_def list_all_iff)
  qed
  then show ?thesis
    using False split by (auto simp: Dequeue_def tq_Peek_def Let_def intro!: exI)
qed

text \<open>Draining by repeated dequeues.\<close>

function drain :: "TurnQueue \<Rightarrow> TurnItem list" where
  "drain q = (case Dequeue q of (q', None) \<Rightarrow> [] | (q', Some x) \<Rightarrow> x # drain q')"
  by pat_completeness auto
termination
proof (relation "measure (length \<circ> tq_items)", goal_cases)
  case (2 q q' o' x)
  then have ne: "tq_items q \<noteq> []" by (auto simp: Dequeue_def split: if_splits)
  have "nextIndex (tq_items q) < length (tq_items q)"
    using ne command_index_Some [of "tq_items q"] by (auto simp: nextIndex_def split: option.splits)
  then show ?case using 2 ne by (auto simp: Dequeue_def Let_def)
qed simp

declare drain.simps [simp del]

lemma Dequeue_cases:
  assumes "tq_items q \<noteq> []"
  obtains pre x post where "tq_items q = pre @ x # post" "Dequeue q = (q\<lparr>tq_items := pre @ post\<rparr>, Some x)"
    "\<forall>y \<in> set pre. ti_Type y \<noteq> ItemTypeCommand"
    "ti_Type x = ItemTypeCommand \<or> pre = [] \<and> (\<forall>y \<in> set (x # post). ti_Type y \<noteq> ItemTypeCommand)"
proof -
  let ?xs = "tq_items q" and ?i = "nextIndex (tq_items q)"
  have i: "?i < length ?xs"
    using assms command_index_Some [of ?xs] by (auto simp: nextIndex_def split: option.splits)
  have split: "?xs = take ?i ?xs @ ?xs ! ?i # drop (Suc ?i) ?xs" by (rule id_take_nth_drop [OF i])
  have d: "Dequeue q = (q\<lparr>tq_items := take ?i ?xs @ drop (Suc ?i) ?xs\<rparr>, Some (?xs ! ?i))"
    using assms by (simp add: Dequeue_def Let_def)
  show thesis
  proof (cases "command_index ?xs")
    case None
    then have none: "\<forall>y \<in> set ?xs. ti_Type y \<noteq> ItemTypeCommand" using command_index_None by blast
    then have rest: "\<forall>y \<in> set (?xs ! ?i # drop (Suc ?i) ?xs). ti_Type y \<noteq> ItemTypeCommand"
      using split by (metis Un_iff set_append)
    have nil: "take ?i ?xs = []" using None by (simp add: nextIndex_def)
    show thesis
    proof (rule that [OF split d])
      show "\<forall>y \<in> set (take ?i ?xs). ti_Type y \<noteq> ItemTypeCommand" unfolding nil by simp
    qed (use rest nil in blast)
  next
    case (Some j)
    then have "command_index ?xs = Some (length (take ?i ?xs))" using i by (simp add: nextIndex_def)
    from command_split [OF this split] show thesis using that [OF split d] by simp
  qed
qed

lemma drain_eq:
  "drain q = filter (\<lambda>i. ti_Type i = ItemTypeCommand) (tq_items q) @
    filter (\<lambda>i. ti_Type i \<noteq> ItemTypeCommand) (tq_items q)"
proof (induction q rule: drain.induct)
  case (1 q)
  show ?case
  proof (cases "tq_items q = []")
    case True
    then show ?thesis by (subst drain.simps) (simp add: Dequeue_def)
  next
    case False
    obtain pre x post where d: "tq_items q = pre @ x # post" "Dequeue q = (q\<lparr>tq_items := pre @ post\<rparr>, Some x)"
      "\<forall>y \<in> set pre. ti_Type y \<noteq> ItemTypeCommand"
      "ti_Type x = ItemTypeCommand \<or> pre = [] \<and> (\<forall>y \<in> set (x # post). ti_Type y \<noteq> ItemTypeCommand)"
      by (rule Dequeue_cases [OF False])
    have IH: "drain (q\<lparr>tq_items := pre @ post\<rparr>) =
        filter (\<lambda>i. ti_Type i = ItemTypeCommand) (pre @ post) @ filter (\<lambda>i. ti_Type i \<noteq> ItemTypeCommand) (pre @ post)"
      using 1 [OF d(2) [symmetric] refl] by simp
    have "drain q = x # drain (q\<lparr>tq_items := pre @ post\<rparr>)" by (subst drain.simps) (simp add: d(2))
    moreover have "filter (\<lambda>i. ti_Type i = ItemTypeCommand) pre = []" using d(3) by (simp add: filter_empty_conv)
    moreover have "filter (\<lambda>i. ti_Type i = ItemTypeCommand) post = []" if "ti_Type x \<noteq> ItemTypeCommand"
      using d(4) that by (auto simp: filter_empty_conv)
    ultimately show ?thesis using IH d(1,3,4) by auto
  qed
qed

text \<open>
  Taking everything at once is the same as dequeuing one by one: on a queue of commands and
  messages \<open>DequeueAll\<close> returns what repeated \<open>Dequeue\<close> returns, in that order, and nothing is
  lost or duplicated.
\<close>

lemma DequeueAll_is_repeated_Dequeue:
  assumes "\<forall>x \<in> set (tq_items q). ti_Type x = ItemTypeCommand \<or> ti_Type x = ItemTypeMessage"
  shows "snd (DequeueAll q) = drain q \<and> tq_items (fst (DequeueAll q)) = [] \<and>
    mset (drain q) = mset (tq_items q)"
proof -
  have "filter (\<lambda>i. ti_Type i \<noteq> ItemTypeCommand) (tq_items q) = filter (\<lambda>i. ti_Type i = ItemTypeMessage) (tq_items q)"
    using assms by (intro filter_cong) auto
  moreover have "mset (drain q) = mset (tq_items q)"
    using multiset_partition [of "mset (tq_items q)" "\<lambda>i. ti_Type i = ItemTypeCommand"] by (simp add: drain_eq)
  ultimately show ?thesis by (simp add: DequeueAll_def drain_eq)
qed

lemma DequeueAll_is_repeated_Dequeue_witness:
  "let q = fst (EnqueueCommand 2 ''/x'' (fst (EnqueueMessage 1 ''hi'' [] NewTurnQueue)))
   in map ti_Content (snd (DequeueAll q)) = [''/x'', ''hi''] \<and> snd (DequeueAll q) = drain q"
proof -
  let ?q = "fst (EnqueueCommand 2 ''/x'' (fst (EnqueueMessage 1 ''hi'' [] NewTurnQueue)))"
  have "\<forall>x \<in> set (tq_items ?q). ti_Type x = ItemTypeCommand \<or> ti_Type x = ItemTypeMessage"
    by (simp add: EnqueueCommand_def EnqueueMessage_def signal_def NewTurnQueue_def)
  note eq = DequeueAll_is_repeated_Dequeue [OF this]
  have "map ti_Content (snd (DequeueAll ?q)) = [''/x'', ''hi'']"
    by (simp add: EnqueueCommand_def EnqueueMessage_def signal_def NewTurnQueue_def DequeueAll_def)
  then show ?thesis using eq unfolding Let_def by blast
qed

section \<open>Wake-ups\<close>

definition parked :: "wait_pc \<Rightarrow> bool" where
  "parked pc \<longleftrightarrow> pc = Checking \<or> pc = Selecting"

text \<open>With one waiter: a waiter past its dequeue with items in the open queue has a signal pending.\<close>

definition wake_inv :: "tq_system \<Rightarrow> bool" where
  "wake_inv s \<longleftrightarrow> (case s of (q, ws) \<Rightarrow>
     length ws = 1 \<and> tq_signals q \<le> 1 \<and>
     (parked (ws ! 0) \<longrightarrow> tq_items q \<noteq> [] \<longrightarrow> \<not> tq_closed q \<longrightarrow> tq_signals q = 1))"

lemma Dequeue_fields:
  "tq_signals (fst (Dequeue q)) = tq_signals q" "tq_closed (fst (Dequeue q)) = tq_closed q"
  "tq_items q = [] \<Longrightarrow> fst (Dequeue q) = q" "snd (Dequeue q) = None \<Longrightarrow> tq_items q = []"
  by (auto simp: Dequeue_def Let_def split: if_splits)

lemma wake_inv_step: "tq_step s s' \<Longrightarrow> wake_inv s \<Longrightarrow> wake_inv s'"
proof (induction rule: tq_step.induct)
  case (head i ws q q' pc)
  then show ?case
    using Dequeue_fields [of q]
    by (auto simp: wake_inv_def wait_head_def parked_def split: prod.splits option.splits)
next
  case (dequeue q ws)
  then show ?case using Dequeue_fields [of q] by (auto simp: wake_inv_def)
qed (auto simp: wake_inv_def EnqueueMessage_def EnqueueCommand_def signal_def DequeueAll_def tq_Close_def
    wait_check_def wait_receive_def parked_def split: if_splits)

lemma wake_inv_reach: "tq_reach 1 s \<Longrightarrow> wake_inv s"
proof (induction rule: tq_reach.induct)
  case start
  show ?case by (simp add: wake_inv_def NewTurnQueue_def parked_def)
next
  case (step s s')
  then show ?case using wake_inv_step by blast
qed

text \<open>
  C9. No lost wake-up with a single waiter: in every reachable interleaving of enqueues,
  dequeues, close and the steps of one \<open>Wait\<close> call, a waiter blocked in its select while the
  queue holds items or is closed can always receive and proceed.
\<close>

theorem single_waiter_never_stuck:
  assumes "tq_reach 1 (q, [Selecting])" "tq_items q \<noteq> [] \<or> tq_closed q"
  shows "\<exists>q' pc. wait_receive q = Some (q', pc) \<and> tq_step (q, [Selecting]) (q', [pc])"
proof -
  have "tq_signals q = 1 \<or> tq_closed q"
    using wake_inv_reach [OF assms(1)] assms(2) by (auto simp: wake_inv_def parked_def)
  then have "wait_receive q \<noteq> None" by (auto simp: wait_receive_def)
  then obtain q' pc where r: "wait_receive q = Some (q', pc)" by auto
  have "tq_step (q, [Selecting]) (q', [Selecting][0 := pc])"
    by (rule tq_step.receive) (use r in auto)
  then show ?thesis using r by auto
qed

lemma reach_two: "tq_reach n s \<Longrightarrow> tq_step s t \<Longrightarrow> tq_step t u \<Longrightarrow> tq_reach n u"
  by (blast intro: tq_reach.step)

theorem single_waiter_never_stuck_witness:
  "\<exists>q' pc. wait_receive (fst (EnqueueMessage 1 ''hi'' [] NewTurnQueue)) = Some (q', pc) \<and> pc = AtHead"
proof -
  let ?q = "fst (EnqueueMessage 1 ''hi'' [] NewTurnQueue)"
  have s1: "tq_step (NewTurnQueue, [AtHead]) (NewTurnQueue, [AtHead][0 := Checking])"
    by (rule tq_step.head) (simp_all add: wait_head_def Dequeue_def NewTurnQueue_def)
  have s2: "tq_step (NewTurnQueue, [Checking]) (NewTurnQueue, [Checking][0 := wait_check NewTurnQueue])"
    by (rule tq_step.check) simp_all
  have "tq_reach 1 (NewTurnQueue, [AtHead])" using tq_reach.start [of 1] by simp
  then have "tq_reach 1 (NewTurnQueue, [Selecting])"
    using s1 s2 reach_two by (auto simp: wait_check_def NewTurnQueue_def)
  then have "tq_reach 1 (?q, [Selecting])" by (rule tq_reach.step) (rule tq_step.enq_message)
  from single_waiter_never_stuck [OF this] obtain q' pc where "wait_receive ?q = Some (q', pc)"
    by (auto simp: EnqueueMessage_def signal_def NewTurnQueue_def)
  then show ?thesis by (auto simp: wait_receive_def EnqueueMessage_def signal_def NewTurnQueue_def)
qed

section \<open>Shared queues of the manager\<close>

definition qm_ok :: "QueueManager \<Rightarrow> bool" where
  "qm_ok m \<longleftrightarrow> dom (qm_store m) = {..<qm_next m} \<and> ran (qm_queues m) \<subseteq> {..<qm_next m} \<and>
     inj_on (qm_queues m) (dom (qm_queues m))"

lemma qm_ok_New: "qm_ok NewQueueManager"
  by (simp add: qm_ok_def NewQueueManager_def)

lemma qm_ok_GetQueue: "qm_ok m \<Longrightarrow> qm_ok (fst (GetQueue sid m))"
  by (auto simp: qm_ok_def GetQueue_def Let_def inj_on_def ran_def split: option.splits)

lemma qm_ok_RemoveQueue: "qm_ok m \<Longrightarrow> qm_ok (RemoveQueue sid m)"
  by (auto simp: qm_ok_def RemoveQueue_def inj_on_def ran_def dom_def split: option.splits)

text \<open>
  Sessions share one queue until it is removed: asking twice gives the same queue, other
  sessions have other queues, removal closes exactly that queue, a sender that still holds it
  panics, and the next request gives the session a new open queue.
\<close>

lemma QueueManager_sharing:
  assumes "qm_ok m" "GetQueue sid m = (m1, a)"
  shows "GetQueue sid m1 = (m1, a) \<and>
    (\<forall>sid' m2 b. sid' \<noteq> sid \<longrightarrow> GetQueue sid' m1 = (m2, b) \<longrightarrow> b \<noteq> a) \<and>
    (\<exists>q. qm_store (RemoveQueue sid m1) a = Some q \<and> tq_closed q \<and>
       snd (EnqueueMessage now content meta q) \<and> snd (EnqueueCommand now content q)) \<and>
    (\<forall>b. b \<noteq> a \<longrightarrow> qm_store (RemoveQueue sid m1) b = qm_store m1 b) \<and>
    (case GetQueue sid (RemoveQueue sid m1) of (m3, c) \<Rightarrow> c \<noteq> a \<and> qm_store m3 c = Some NewTurnQueue)"
proof -
  have ok1: "qm_ok m1" using qm_ok_GetQueue [OF assms(1), of sid] assms(2) by simp
  have q1: "qm_queues m1 sid = Some a"
    using assms(2) by (auto simp: GetQueue_def Let_def split: option.splits)
  have a: "a < qm_next m1" using ok1 q1 by (auto simp: qm_ok_def ran_def)
  then obtain q where q: "qm_store m1 a = Some q" using ok1 by (auto simp: qm_ok_def)
  have same: "GetQueue sid m1 = (m1, a)" using q1 by (simp add: GetQueue_def)
  have other: "b \<noteq> a" if "sid' \<noteq> sid" "GetQueue sid' m1 = (m2, b)" for sid' m2 b
  proof (cases "qm_queues m1 sid'")
    case None
    then show ?thesis using that a by (auto simp: GetQueue_def Let_def)
  next
    case (Some c)
    then have "c = b" using that by (simp add: GetQueue_def)
    moreover have "c \<noteq> a"
      using Some q1 that(1) ok1 unfolding qm_ok_def inj_on_def by (metis domI)
    ultimately show ?thesis by simp
  qed
  have removed: "qm_store (RemoveQueue sid m1) a = Some (tq_Close q)" "tq_closed (tq_Close q)"
    using q q1 by (auto simp: RemoveQueue_def tq_Close_def)
  have fresh: "case GetQueue sid (RemoveQueue sid m1) of (m3, c) \<Rightarrow> c \<noteq> a \<and> qm_store m3 c = Some NewTurnQueue"
    using q1 a by (auto simp: RemoveQueue_def GetQueue_def Let_def)
  show ?thesis
    using same other removed fresh q1
    by (auto simp: EnqueueMessage_def EnqueueCommand_def signal_def RemoveQueue_def)
qed

lemma QueueManager_sharing_witness:
  "fst (GetQueue ''a'' NewQueueManager) = fst (GetQueue ''a'' (fst (GetQueue ''a'' NewQueueManager)))"
proof -
  obtain m1 a where g: "GetQueue ''a'' NewQueueManager = (m1, a)" by fastforce
  from QueueManager_sharing [OF qm_ok_New g] show ?thesis using g by auto
qed

section \<open>A gap: several waiters\<close>

text \<open>
  The channel keeps one signal, so two enqueues in a row wake one waiter; the other stays
  blocked although an item is queued.
\<close>

lemma two_waiters_stranded:
  "\<exists>q x. tq_reach 2 (q, [WaitItem x, Selecting]) \<and> tq_items q \<noteq> [] \<and> \<not> tq_closed q \<and> wait_receive q = None"
proof -
  let ?x = "\<lambda>n. \<lparr>ti_Type = ItemTypeMessage, ti_Content = [], ti_Timestamp = n, ti_Meta = []\<rparr>"
  let ?q = "\<lambda>xs k. \<lparr>tq_items = xs, tq_signals = k, tq_closed = False\<rparr>"
  have r0: "tq_reach 2 (?q [] 0, [AtHead, AtHead])"
    using tq_reach.start [of 2] by (simp add: NewTurnQueue_def numeral_2_eq_2)
  have r1: "tq_reach 2 (?q [] 0, [Checking, AtHead])"
    using tq_reach.step [OF r0 tq_step.head [of 0]] by (simp add: wait_head_def Dequeue_def)
  have r2: "tq_reach 2 (?q [] 0, [Selecting, AtHead])"
    using tq_reach.step [OF r1 tq_step.check [of 0]] by (simp add: wait_check_def)
  have r3: "tq_reach 2 (?q [] 0, [Selecting, Checking])"
    using tq_reach.step [OF r2 tq_step.head [of 1]] by (simp add: wait_head_def Dequeue_def)
  have r4: "tq_reach 2 (?q [] 0, [Selecting, Selecting])"
    using tq_reach.step [OF r3 tq_step.check [of 1]] by (simp add: wait_check_def)
  have r5: "tq_reach 2 (?q [?x 1] 1, [Selecting, Selecting])"
    using tq_reach.step [OF r4 tq_step.enq_message [of _ _ 1 "[]" "[]"]] by (simp add: EnqueueMessage_def signal_def)
  have r6: "tq_reach 2 (?q [?x 1, ?x 2] 1, [Selecting, Selecting])"
    using tq_reach.step [OF r5 tq_step.enq_message [of _ _ 2 "[]" "[]"]] by (simp add: EnqueueMessage_def signal_def)
  have r7: "tq_reach 2 (?q [?x 1, ?x 2] 0, [AtHead, Selecting])"
    using tq_reach.step [OF r6 tq_step.receive [of 0]] by (simp add: wait_receive_def)
  have r8: "tq_reach 2 (?q [?x 2] 0, [WaitItem (?x 1), Selecting])"
    using tq_reach.step [OF r7 tq_step.head [of 0]] by (simp add: wait_head_def Dequeue_def nextIndex_def)
  then show ?thesis by (intro exI conjI) (assumption, simp_all add: wait_receive_def)
qed

end
