(* ===== verification/Priority_Queue.thy ===== *)
theory Priority_Queue
  imports Tool_Input "HOL-Library.Multiset" "HOL-Library.Product_Lexorder"
begin

text \<open>
  The priority queue and its processor: src/engine/queue/processor.go, on the binary heap of
  Go's container/heap, which is modelled on lists.  The heap's back-pointer field \<open>index\<close> is
  written by the heap callbacks and read nowhere, and is left out.
\<close>

section \<open>Binary heaps\<close>

definition swap :: "'a list \<Rightarrow> nat \<Rightarrow> nat \<Rightarrow> 'a list" where
  "swap h i j = h[i := h ! j, j := h ! i]"

function heap_up :: "('a \<Rightarrow> 'a \<Rightarrow> bool) \<Rightarrow> 'a list \<Rightarrow> nat \<Rightarrow> 'a list" where
  "heap_up lessp h j =
     (let i = (j - 1) div 2 in
      if i = j \<or> \<not> lessp (h ! j) (h ! i) then h else heap_up lessp (swap h i j) i)"
  by pat_completeness auto
termination by (relation "measure (\<lambda>(_, _, j). j)") auto

declare heap_up.simps [simp del]

function heap_down :: "('a \<Rightarrow> 'a \<Rightarrow> bool) \<Rightarrow> 'a list \<Rightarrow> nat \<Rightarrow> nat \<Rightarrow> 'a list" where
  "heap_down lessp h i n =
     (let j1 = 2 * i + 1 in
      if j1 \<ge> n then h
      else let j2 = j1 + 1; j = (if j2 < n \<and> lessp (h ! j2) (h ! j1) then j2 else j1) in
        if \<not> lessp (h ! j) (h ! i) then h else heap_down lessp (swap h i j) j n)"
  by pat_completeness auto
termination by (relation "measure (\<lambda>(_, _, i, n). n - i)") (auto split: if_splits)

declare heap_down.simps [simp del]

definition heap_Init :: "('a \<Rightarrow> 'a \<Rightarrow> bool) \<Rightarrow> 'a list \<Rightarrow> 'a list" where
  "heap_Init lessp h = fold (\<lambda>i h. heap_down lessp h i (length h)) (rev [0..<length h div 2]) h"

definition heap_Push :: "('a \<Rightarrow> 'a \<Rightarrow> bool) \<Rightarrow> 'a \<Rightarrow> 'a list \<Rightarrow> 'a list" where
  "heap_Push lessp x h = heap_up lessp (h @ [x]) (length h)"

definition heap_Pop :: "('a \<Rightarrow> 'a \<Rightarrow> bool) \<Rightarrow> 'a list \<Rightarrow> 'a list \<times> 'a" where
  "heap_Pop lessp h =
     (let n = length h - 1; h' = heap_down lessp (swap h 0 n) 0 n in (take n h', h' ! n))"

section \<open>Items, queue and processor\<close>

record QueueItem =
  qi_ID :: string
  qi_Content :: string
  qi_Priority :: int
  qi_Source :: string
  qi_Retries :: int
  qi_MaxRetries :: int
  qi_CreatedAt :: int
  qi_Metadata :: tool_input

definition SourcePriority :: "string \<Rightarrow> int" where
  "SourcePriority source =
     (if source = ''system'' then 100 else if source = ''command'' then 80
      else if source = ''user'' then 50 else if source = ''tool'' then 30 else 50)"

definition Less :: "QueueItem \<Rightarrow> QueueItem \<Rightarrow> bool" where
  "Less a b =
     (if qi_Priority a \<noteq> qi_Priority b then qi_Priority a > qi_Priority b
      else qi_CreatedAt a < qi_CreatedAt b)"

type_synonym PriorityQueue = "QueueItem list"

definition NewPriorityQueue :: PriorityQueue where
  "NewPriorityQueue = heap_Init Less []"

definition pq_Push :: "QueueItem \<Rightarrow> PriorityQueue \<Rightarrow> PriorityQueue" where
  "pq_Push item pq = heap_Push Less item pq"

definition pq_Pop :: "PriorityQueue \<Rightarrow> PriorityQueue \<times> QueueItem option" where
  "pq_Pop pq = (if pq = [] then (pq, None) else case heap_Pop Less pq of (pq', x) \<Rightarrow> (pq', Some x))"

definition pq_Peek :: "PriorityQueue \<Rightarrow> QueueItem option" where
  "pq_Peek pq = (if pq = [] then None else Some (pq ! 0))"

definition pq_Len :: "PriorityQueue \<Rightarrow> nat" where
  "pq_Len pq = length pq"

definition pq_Clear :: "PriorityQueue \<Rightarrow> PriorityQueue" where
  "pq_Clear pq = []"

section \<open>Heap lemmas\<close>

definition heap_on :: "('a \<Rightarrow> 'k::linorder) \<Rightarrow> 'a list \<Rightarrow> nat \<Rightarrow> bool" where
  "heap_on key h n \<longleftrightarrow> (\<forall>x. 0 < x \<and> x < n \<longrightarrow> key (h ! ((x - 1) div 2)) \<le> key (h ! x))"

lemma length_swap [simp]: "length (swap h i j) = length h"
  by (simp add: swap_def)

lemma nth_swap:
  "i < length h \<Longrightarrow> j < length h \<Longrightarrow> x < length h \<Longrightarrow>
    swap h i j ! x = (if x = i then h ! j else if x = j then h ! i else h ! x)"
  by (auto simp: swap_def nth_list_update)

lemma nth_swap_out: "x \<noteq> i \<Longrightarrow> x \<noteq> j \<Longrightarrow> swap h i j ! x = h ! x"
  by (simp add: swap_def)

lemma mset_swap': "i < length h \<Longrightarrow> j < length h \<Longrightarrow> mset (swap h i j) = mset h"
  by (simp add: swap_def mset_swap)

locale keyed_heap =
  fixes key :: "'a \<Rightarrow> 'k::linorder" and lessp :: "'a \<Rightarrow> 'a \<Rightarrow> bool"
  assumes less_key: "lessp a b \<longleftrightarrow> key a < key b"
begin

text \<open>All edges are ordered but the one above \<open>j\<close>, and the children of \<open>j\<close> respect its parent.\<close>

definition up_ok :: "'a list \<Rightarrow> nat \<Rightarrow> bool" where
  "up_ok h j \<longleftrightarrow> j < length h \<and>
     (\<forall>x. 0 < x \<and> x < length h \<and> x \<noteq> j \<longrightarrow> key (h ! ((x - 1) div 2)) \<le> key (h ! x)) \<and>
     (\<forall>c. 0 < j \<and> 0 < c \<and> c < length h \<and> (c - 1) div 2 = j \<longrightarrow> key (h ! ((j - 1) div 2)) \<le> key (h ! c))"

lemma up_ok_swap:
  assumes ok: "up_ok h j" and i: "i = (j - 1) div 2" "i \<noteq> j" and lt: "key (h ! j) < key (h ! i)"
  shows "up_ok (swap h i j) i"
proof -
  let ?h = "swap h i j"
  have j: "j < length h" "0 < j" "i < j" using ok i by (auto simp: up_ok_def)
  have edge: "key (h ! ((x - 1) div 2)) \<le> key (h ! x)" if "0 < x" "x < length h" "x \<noteq> j" for x
    using ok that by (simp add: up_ok_def)
  have nth: "?h ! x = (if x = i then h ! j else if x = j then h ! i else h ! x)" if "x < length h" for x
    using nth_swap [of i h j x] j that by simp
  have "key (?h ! ((x - 1) div 2)) \<le> key (?h ! x)" if x: "0 < x" "x < length h" "x \<noteq> i" for x
  proof -
    have p: "(x - 1) div 2 < length h" using x by linarith
    show ?thesis
    proof (cases "x = j")
      case True
      then show ?thesis using nth [OF p] nth [OF x(2)] i lt by auto
    next
      case False
      have "key (h ! i) \<le> key (h ! x)" if "(x - 1) div 2 = j"
        using ok that x j i by (auto simp: up_ok_def)
      moreover have "key (h ! ((x - 1) div 2)) \<le> key (h ! x)" using edge x False by simp
      ultimately show ?thesis using nth [OF p] nth [OF x(2)] False x(3) lt by auto
    qed
  qed
  moreover have "key (?h ! ((i - 1) div 2)) \<le> key (?h ! c)"
    if c: "0 < i" "0 < c" "c < length h" "(c - 1) div 2 = i" for c
  proof -
    have p: "(i - 1) div 2 < i" using c by linarith
    have up: "key (h ! ((i - 1) div 2)) \<le> key (h ! i)" using edge [of i] c j by simp
    have "c \<noteq> i" using c by (cases c) auto
    moreover have "key (h ! i) \<le> key (h ! c)" if "c \<noteq> j" using edge [of c] c that by simp
    ultimately show ?thesis using nth [of c] nth [of "(i - 1) div 2"] c p j up by fastforce
  qed
  ultimately show ?thesis using j by (auto simp: up_ok_def)
qed

lemma heap_up_heap: "up_ok h j \<Longrightarrow> heap_on key (heap_up lessp h j) (length h)"
proof (induction j arbitrary: h rule: less_induct)
  case (less j)
  let ?i = "(j - 1) div 2"
  show ?case
  proof (cases "?i = j \<or> \<not> key (h ! j) < key (h ! ?i)")
    case True
    have "heap_on key h (length h)"
      unfolding heap_on_def
    proof (intro allI impI)
      fix x
      assume x: "0 < x \<and> x < length h"
      show "key (h ! ((x - 1) div 2)) \<le> key (h ! x)"
      proof (cases "x = j")
        case True
        then show ?thesis using \<open>?i = j \<or> _\<close> x by (auto simp: not_less)
      qed (use less.prems x in \<open>auto simp: up_ok_def\<close>)
    qed
    then show ?thesis using True by (subst heap_up.simps) (auto simp: less_key Let_def)
  next
    case False
    then have "up_ok (swap h ?i j) ?i" using up_ok_swap [OF less.prems refl] by simp
    moreover have "?i < j" using False by auto
    ultimately have "heap_on key (heap_up lessp (swap h ?i j) ?i) (length h)"
      using less.IH [of ?i "swap h ?i j"] by simp
    then show ?thesis using False by (subst heap_up.simps) (auto simp: less_key Let_def)
  qed
qed

lemma heap_up_mset: "j < length h \<Longrightarrow> mset (heap_up lessp h j) = mset h \<and> length (heap_up lessp h j) = length h"
proof (induction j arbitrary: h rule: less_induct)
  case (less j)
  let ?i = "(j - 1) div 2"
  show ?case
  proof (cases "?i = j \<or> \<not> key (h ! j) < key (h ! ?i)")
    case True
    then show ?thesis by (subst (1 2) heap_up.simps) (auto simp: less_key Let_def)
  next
    case False
    then have "?i < j" by auto
    then have "mset (heap_up lessp (swap h ?i j) ?i) = mset h \<and> length (heap_up lessp (swap h ?i j) ?i) = length h"
      using less.IH [of ?i "swap h ?i j"] less.prems mset_swap' [of ?i h j] by simp
    then show ?thesis using False by (subst (1 2) heap_up.simps) (auto simp: less_key Let_def)
  qed
qed

text \<open>All edges are ordered but those below \<open>i\<close>, and the children of \<open>i\<close> respect its parent.\<close>

definition down_ok :: "'a list \<Rightarrow> nat \<Rightarrow> nat \<Rightarrow> bool" where
  "down_ok h i n \<longleftrightarrow> n \<le> length h \<and>
     (\<forall>x. 0 < x \<and> x < n \<and> (x - 1) div 2 \<noteq> i \<longrightarrow> key (h ! ((x - 1) div 2)) \<le> key (h ! x)) \<and>
     (\<forall>c. 0 < i \<and> 0 < c \<and> c < n \<and> (c - 1) div 2 = i \<longrightarrow> key (h ! ((i - 1) div 2)) \<le> key (h ! c))"

lemma child_cases: "0 < x \<Longrightarrow> (x - 1) div 2 = i \<Longrightarrow> x = 2 * i + 1 \<or> x = 2 * i + 2" for x i :: nat
  by linarith

lemma down_ok_swap:
  assumes ok: "down_ok h i n" and j: "j < n" "(j - 1) div 2 = i" "0 < j"
    and least: "\<And>c. 0 < c \<Longrightarrow> c < n \<Longrightarrow> (c - 1) div 2 = i \<Longrightarrow> key (h ! j) \<le> key (h ! c)"
    and lt: "key (h ! j) < key (h ! i)"
  shows "down_ok (swap h i j) j n"
proof -
  let ?h = "swap h i j"
  have ij: "i < j" "i < n" "n \<le> length h" using j ok by (auto simp: down_ok_def)
  have nth: "?h ! x = (if x = i then h ! j else if x = j then h ! i else h ! x)" if "x < n" for x
    using nth_swap [of i h j x] ij j that by simp
  have edge: "key (h ! ((x - 1) div 2)) \<le> key (h ! x)" if "0 < x" "x < n" "(x - 1) div 2 \<noteq> i" for x
    using ok that by (simp add: down_ok_def)
  have "key (?h ! ((x - 1) div 2)) \<le> key (?h ! x)" if x: "0 < x" "x < n" "(x - 1) div 2 \<noteq> j" for x
  proof -
    have p: "(x - 1) div 2 < x" "(x - 1) div 2 < n" using x by linarith+
    show ?thesis
    proof (cases "(x - 1) div 2 = i")
      case True
      then have "x \<noteq> i" using p by auto
      then show ?thesis using nth [OF x(2)] nth [OF p(2)] True lt least [of x] x j by auto
    next
      case False
      show ?thesis
      proof (cases "x = i")
        case True
        have "key (h ! ((i - 1) div 2)) \<le> key (h ! j)" using ok j True x by (auto simp: down_ok_def)
        then show ?thesis using nth [OF x(2)] nth [OF p(2)] True p x by auto
      next
        case xi: False
        have "x \<noteq> j" using False j by auto
        then show ?thesis using nth [OF x(2)] nth [OF p(2)] False xi x edge [of x] by auto
      qed
    qed
  qed
  moreover have "key (?h ! ((j - 1) div 2)) \<le> key (?h ! c)"
    if c: "0 < c" "c < n" "(c - 1) div 2 = j" for c
  proof -
    have "c \<noteq> i" "c \<noteq> j" using c ij by auto
    then show ?thesis using nth [OF c(2)] nth [of i] j ij edge [of c] c by auto
  qed
  ultimately show ?thesis using ij by (auto simp: down_ok_def)
qed

definition least_child :: "'a list \<Rightarrow> nat \<Rightarrow> nat \<Rightarrow> nat" where
  "least_child h i n = (if 2 * i + 2 < n \<and> lessp (h ! (2 * i + 2)) (h ! (2 * i + 1)) then 2 * i + 2 else 2 * i + 1)"

lemma least_child:
  assumes "2 * i + 1 < n"
  shows "least_child h i n < n" "(least_child h i n - 1) div 2 = i" "0 < least_child h i n"
    "\<And>c. 0 < c \<Longrightarrow> c < n \<Longrightarrow> (c - 1) div 2 = i \<Longrightarrow> key (h ! least_child h i n) \<le> key (h ! c)"
proof -
  show "least_child h i n < n" "(least_child h i n - 1) div 2 = i" "0 < least_child h i n"
    using assms by (auto simp: least_child_def)
  show "key (h ! least_child h i n) \<le> key (h ! c)" if "0 < c" "c < n" "(c - 1) div 2 = i" for c
    using child_cases [OF that(1,3)] that(2) by (auto simp: least_child_def less_key)
qed

lemma heap_down_unfold:
  "heap_down lessp h i n =
     (if 2 * i + 1 \<ge> n \<or> \<not> key (h ! least_child h i n) < key (h ! i) then h
      else heap_down lessp (swap h i (least_child h i n)) (least_child h i n) n)"
  by (subst heap_down.simps) (auto simp: least_child_def less_key Let_def)

lemma heap_down_heap:
  "down_ok h i n \<Longrightarrow> heap_on key (heap_down lessp h i n) n"
proof (induction "n - i" arbitrary: h i rule: less_induct)
  case less
  let ?j = "least_child h i n"
  show ?case
  proof (cases "2 * i + 1 \<ge> n \<or> \<not> key (h ! ?j) < key (h ! i)")
    case True
    have "heap_on key h n"
      unfolding heap_on_def
    proof (intro allI impI)
      fix x
      assume x: "0 < x \<and> x < n"
      show "key (h ! ((x - 1) div 2)) \<le> key (h ! x)"
      proof (cases "(x - 1) div 2 = i")
        case xi: True
        then have "2 * i + 1 < n" using x by linarith
        then show ?thesis
          using True least_child(4) [of i n x h] x xi by (auto simp: not_less)
      qed (use less.prems x in \<open>auto simp: down_ok_def\<close>)
    qed
    then show ?thesis using True by (simp add: heap_down_unfold [of h i n])
  next
    case False
    then have c: "2 * i + 1 < n" by simp
    have "down_ok (swap h i ?j) ?j n"
      using False least_child [OF c] by (intro down_ok_swap [OF less.prems]) auto
    moreover have "n - ?j < n - i" using least_child(1-3) [OF c, of h] by linarith
    ultimately show ?thesis
      using less.hyps [of ?j "swap h i ?j"] False by (simp add: heap_down_unfold [of h i n])
  qed
qed

lemma heap_down_frame:
  "n \<le> length h \<Longrightarrow> i < n \<or> h' = h \<Longrightarrow> h' = heap_down lessp h i n \<Longrightarrow>
    mset h' = mset h \<and> length h' = length h \<and> (\<forall>x \<ge> n. h' ! x = h ! x)"
proof (induction "n - i" arbitrary: h i rule: less_induct)
  case less
  let ?j = "least_child h i n"
  show ?case
  proof (cases "2 * i + 1 \<ge> n \<or> \<not> key (h ! ?j) < key (h ! i)")
    case True
    then show ?thesis using less.prems(3) by (simp add: heap_down_unfold [of h i n])
  next
    case False
    then have c: "2 * i + 1 < n" by simp
    note j = least_child(1-3) [OF c, of h]
    have "h' = heap_down lessp (swap h i ?j) ?j n"
      using less.prems(3) False by (simp add: heap_down_unfold [of h i n])
    moreover have "n - ?j < n - i" using j by linarith
    ultimately have "mset h' = mset (swap h i ?j) \<and> length h' = length h \<and> (\<forall>x \<ge> n. h' ! x = swap h i ?j ! x)"
      using less.hyps [of ?j "swap h i ?j"] less.prems(1) j by simp
    then show ?thesis
      using mset_swap' [of i h ?j] less.prems(1) j c by (auto simp: nth_swap_out)
  qed
qed

lemma heap_least: "heap_on key h n \<Longrightarrow> x < n \<Longrightarrow> key (h ! 0) \<le> key (h ! x)"
proof (induction x rule: less_induct)
  case (less x)
  show ?case
  proof (cases "x = 0")
    case False
    then have "(x - 1) div 2 < x" by linarith
    then have "key (h ! 0) \<le> key (h ! ((x - 1) div 2))" using less by simp
    also have "\<dots> \<le> key (h ! x)" using less.prems False by (auto simp: heap_on_def)
    finally show ?thesis .
  qed simp
qed

lemma heap_Push_heap:
  assumes "heap_on key h (length h)"
  shows "heap_on key (heap_Push lessp x h) (length (heap_Push lessp x h)) \<and>
    mset (heap_Push lessp x h) = add_mset x (mset h)"
proof -
  have "key ((h @ [x]) ! ((y - 1) div 2)) \<le> key ((h @ [x]) ! y)" if "0 < y" "y < length h" for y
  proof -
    have "(y - 1) div 2 < length h" using that by linarith
    then show ?thesis using assms that by (simp add: heap_on_def nth_append)
  qed
  moreover have "\<not> (c < Suc (length h) \<and> (c - 1) div 2 = length h \<and> 0 < c)" for c by linarith
  ultimately have "up_ok (h @ [x]) (length h)"
    unfolding up_ok_def by (simp add: less_Suc_eq) blast
  then show ?thesis
    using heap_up_heap [of "h @ [x]" "length h"] heap_up_mset [of "length h" "h @ [x]"]
    by (simp add: heap_Push_def)
qed

lemma heap_Pop_mset:
  assumes "h \<noteq> []" "heap_Pop lessp h = (h', x)"
  shows "mset h = add_mset x (mset h') \<and> x = h ! 0"
proof -
  let ?n = "length h - 1" and ?s = "swap h 0 (length h - 1)"
  let ?d = "heap_down lessp ?s 0 ?n"
  have n: "?n < length h" using assms(1) by simp
  have f: "mset ?d = mset ?s \<and> length ?d = length ?s \<and> (\<forall>x \<ge> ?n. ?d ! x = ?s ! x)"
  proof (cases "?n = 0")
    case True
    then have "?d = ?s" by (subst heap_down.simps) simp
    then show ?thesis by simp
  next
    case False
    then show ?thesis using heap_down_frame [of ?n ?s 0 ?d] n by simp
  qed
  have len: "length ?d = Suc ?n" "mset ?d = mset h" "?d ! ?n = h ! 0"
    using f mset_swap' [of 0 h ?n] n nth_swap [of 0 h ?n ?n] assms(1) by auto
  have pop: "h' = take ?n ?d" "x = ?d ! ?n"
    using assms(2) by (auto simp: heap_Pop_def Let_def)
  have "?d = take ?n ?d @ [?d ! ?n]"
    using len(1) by (metis lessI take_Suc_conv_app_nth take_all order_refl)
  then have "?d = h' @ [x]" using pop by simp
  then have "mset ?d = add_mset x (mset h')" by simp
  then show ?thesis using len pop by simp
qed

lemma heap_Pop_heap:
  assumes "heap_on key h (length h)" "heap_Pop lessp h = (h', x)"
  shows "heap_on key h' (length h')"
proof -
  let ?n = "length h - 1" and ?s = "swap h 0 (length h - 1)"
  let ?d = "heap_down lessp ?s 0 ?n"
  have "key (?s ! ((y - 1) div 2)) \<le> key (?s ! y)" if "0 < y" "y < ?n" "(y - 1) div 2 \<noteq> 0" for y
  proof -
    have "(y - 1) div 2 < ?n" using that by linarith
    then show ?thesis using assms(1) that by (simp add: heap_on_def nth_swap_out)
  qed
  then have "down_ok ?s 0 ?n" by (simp add: down_ok_def)
  then have "heap_on key ?d ?n" by (rule heap_down_heap)
  then have "heap_on key (take ?n ?d) ?n" by (auto simp: heap_on_def)
  moreover have "h' = take ?n ?d" using assms(2) by (auto simp: heap_Pop_def Let_def)
  ultimately show ?thesis by (auto simp: heap_on_def)
qed

end

definition qkey :: "QueueItem \<Rightarrow> int \<times> int" where
  "qkey x = (- qi_Priority x, qi_CreatedAt x)"

interpretation qheap: keyed_heap qkey Less
  by unfold_locales (auto simp: Less_def qkey_def)

section \<open>Priority queues as a contract\<close>

text \<open>What the processor relies on: a queue whose pop removes an item of least key.\<close>

locale min_queue =
  fixes key :: "'a \<Rightarrow> 'k::linorder" and empty :: 'q and push :: "'a \<Rightarrow> 'q \<Rightarrow> 'q"
    and pop :: "'q \<Rightarrow> 'q \<times> 'a option" and items :: "'q \<Rightarrow> 'a multiset" and invar :: "'q \<Rightarrow> bool"
  assumes items_empty: "items empty = {#}"
    and items_push: "invar q \<Longrightarrow> items (push x q) = add_mset x (items q)"
    and pop_None: "invar q \<Longrightarrow> pop q = (q', None) \<Longrightarrow> items q = {#} \<and> q' = q"
    and pop_Some: "invar q \<Longrightarrow> pop q = (q', Some x) \<Longrightarrow>
      items q = add_mset x (items q') \<and> invar q' \<and> (\<forall>y \<in># items q. key x \<le> key y)"
    and invar_empty: "invar empty"
    and invar_push: "invar q \<Longrightarrow> invar (push x q)"
begin

lemma pop_pop_mono:
  "invar q \<Longrightarrow> pop q = (q', Some x) \<Longrightarrow> pop q' = (q'', Some y) \<Longrightarrow> key x \<le> key y"
  using pop_Some [of q q' x] pop_Some [of q' q'' y] by auto

lemma fold_push: "invar q \<Longrightarrow> invar (fold push xs q) \<and> items (fold push xs q) = items q + mset xs"
  by (induction xs arbitrary: q) (auto simp: invar_push items_push)

lemma pop_of_pushes:
  assumes "pop (fold push xs empty) = (q', Some x)"
  shows "x \<in> set xs \<and> (\<forall>y \<in> set xs. key x \<le> key y)"
proof -
  have "invar (fold push xs empty)" "items (fold push xs empty) = mset xs"
    using fold_push [OF invar_empty, of xs] items_empty by auto
  with pop_Some [OF _ assms] show ?thesis
    by (metis set_mset_mset union_single_eq_member)
qed

end

definition pq_ok :: "PriorityQueue \<Rightarrow> bool" where
  "pq_ok pq \<longleftrightarrow> heap_on qkey pq (length pq)"

lemma pq_Pop_mset: "pq_Pop q = (q', Some x) \<Longrightarrow> mset q = add_mset x (mset q') \<and> x = q ! 0 \<and> q \<noteq> []"
  using qheap.heap_Pop_mset [of q] by (auto simp: pq_Pop_def split: if_splits prod.splits)

lemma pq_Pop_None: "pq_Pop q = (q', None) \<Longrightarrow> q = [] \<and> q' = []"
  by (auto simp: pq_Pop_def split: if_splits prod.splits)

lemma pq_Push_mset [simp]: "mset (pq_Push x q) = add_mset x (mset q)"
  using qheap.heap_up_mset [of "length q" "q @ [x]"] by (simp add: pq_Push_def heap_Push_def)

lemma pq_Pop_ok:
  assumes "pq_ok q" "pq_Pop q = (q', Some x)"
  shows "pq_ok q' \<and> (\<forall>y \<in># mset q. qkey x \<le> qkey y)"
proof -
  have p: "heap_Pop Less q = (q', x)" using assms(2) by (auto simp: pq_Pop_def split: if_splits prod.splits)
  have "qkey x \<le> qkey y" if "y \<in> set q" for y
    using that qheap.heap_least [of q "length q"] assms(1) pq_Pop_mset [OF assms(2)]
    by (auto simp: pq_ok_def in_set_conv_nth)
  then show ?thesis using qheap.heap_Pop_heap [OF _ p] assms(1) by (simp add: pq_ok_def)
qed

interpretation pq: min_queue qkey NewPriorityQueue pq_Push pq_Pop mset pq_ok
proof unfold_locales
  show "mset NewPriorityQueue = {#}" "pq_ok NewPriorityQueue"
    by (simp_all add: NewPriorityQueue_def heap_Init_def pq_ok_def heap_on_def)
  fix q q' x
  show "mset (pq_Push x q) = add_mset x (mset q)" if "pq_ok q" by simp
  show "mset q = {#} \<and> q' = q" if "pq_ok q" "pq_Pop q = (q', None)" using pq_Pop_None [OF that(2)] by simp
  show "mset q = add_mset x (mset q') \<and> pq_ok q' \<and> (\<forall>y \<in># mset q. qkey x \<le> qkey y)"
    if "pq_ok q" "pq_Pop q = (q', Some x)"
    using pq_Pop_mset [OF that(2)] pq_Pop_ok [OF that] by blast
  show "pq_ok (pq_Push x q)" if "pq_ok q"
    using qheap.heap_Push_heap [of q x] that by (simp add: pq_ok_def pq_Push_def)
qed

lemma Less_key: "\<not> Less y x \<longleftrightarrow> qkey x \<le> qkey y"
  by (simp add: qheap.less_key not_less)

section \<open>Queue operations in sequence\<close>

datatype pq_op = OpPush QueueItem | OpPop | OpClear

fun pq_run :: "pq_op \<Rightarrow> PriorityQueue \<Rightarrow> PriorityQueue" where
  "pq_run (OpPush x) q = pq_Push x q"
| "pq_run OpPop q = fst (pq_Pop q)"
| "pq_run OpClear q = pq_Clear q"

lemma pq_ok_run: "pq_ok q \<Longrightarrow> pq_ok (pq_run op q)"
proof (cases op)
  case OpPop
  assume "pq_ok q"
  obtain q' r where p: "pq_Pop q = (q', r)" by fastforce
  then show ?thesis
    using OpPop \<open>pq_ok q\<close> pq_Pop_None [of q q'] pq_Pop_ok [of q q'] by (cases r) auto
qed (simp_all add: pq.invar_push pq_Clear_def, simp add: pq_ok_def heap_on_def)

lemma pq_ok_fold: "pq_ok q \<Longrightarrow> pq_ok (fold pq_run ops q)"
  by (induction ops arbitrary: q) (auto intro: pq_ok_run)

text \<open>
  After any sequence of pushes, pops and clears, a pop takes the item that peek shows, and
  no remaining item has a higher priority, or the same priority and an earlier creation time;
  exactly that item leaves the queue, and nothing is returned only from the empty queue.
\<close>

lemma Pop_takes_best:
  "let q = fold pq_run ops NewPriorityQueue in
   case pq_Pop q of
     (q', None) \<Rightarrow> q = [] \<and> q' = []
   | (q', Some x) \<Rightarrow> pq_Peek q = Some x \<and> mset q = add_mset x (mset q') \<and> list_all (\<lambda>y. \<not> Less y x) q"
proof -
  let ?q = "fold pq_run ops NewPriorityQueue"
  have ok: "pq_ok ?q" by (rule pq_ok_fold [OF pq.invar_empty])
  obtain q' r where p: "pq_Pop ?q = (q', r)" by fastforce
  show ?thesis
  proof (cases r)
    case None
    then show ?thesis using pq_Pop_None [of ?q q'] p by simp
  next
    case (Some x)
    then show ?thesis
      using pq_Pop_mset [of ?q q' x] pq.pop_Some [OF ok, of q' x] p
      by (simp add: Let_def pq_Peek_def list_all_iff Less_key)
  qed
qed

section \<open>Draining\<close>

function Drain :: "PriorityQueue \<Rightarrow> QueueItem list" where
  "Drain q = (case pq_Pop q of (q', None) \<Rightarrow> [] | (q', Some x) \<Rightarrow> x # Drain q')"
  by pat_completeness auto
termination
proof (relation "measure length", goal_cases)
  case (2 q q' r x)
  then have "size (mset q) = Suc (size (mset q'))" using pq_Pop_mset [of q q' x] by simp
  then show ?case by simp
qed simp

declare Drain.simps [simp del]

lemma Drain_props:
  "pq_ok q \<Longrightarrow> mset (Drain q) = mset q \<and> sorted (map qkey (Drain q))"
proof (induction q rule: Drain.induct)
  case (1 q)
  obtain q' r where p: "pq_Pop q = (q', r)" by fastforce
  show ?case
  proof (cases r)
    case None
    then show ?thesis using pq_Pop_None [of q q'] p by (subst (1 2) Drain.simps) simp
  next
    case (Some x)
    have d: "Drain q = x # Drain q'" using p Some by (subst Drain.simps) simp
    have s: "mset q = add_mset x (mset q') \<and> pq_ok q' \<and> (\<forall>y \<in># mset q. qkey x \<le> qkey y)"
      using pq.pop_Some [OF 1(2), of q' x] p Some by blast
    then have IH: "mset (Drain q') = mset q' \<and> sorted (map qkey (Drain q'))"
      using 1(1) [OF p [symmetric] Some] by blast
    then have "set (Drain q') = set q'" by (metis set_mset_mset)
    moreover have "set q' \<subseteq> set q" using s by (metis set_mset_mset set_mset_add_mset_insert subset_insertI)
    ultimately show ?thesis using d s IH by auto
  qed
qed

text \<open>
  Draining a queue built by any sequence of operations returns all of its items, each once,
  ordered by descending priority and, within a priority, by creation time.
\<close>

lemma Drain_sorted:
  "let q = fold pq_run ops NewPriorityQueue in
   mset (Drain q) = mset q \<and> sorted_wrt (\<lambda>x y. \<not> Less y x) (Drain q)"
  using Drain_props [OF pq_ok_fold [OF pq.invar_empty, of ops]]
  by (simp add: Let_def Less_key sorted_wrt_map)

section \<open>The processor\<close>

text \<open>
  The processor's queue, running flag, retry default and pending signal.  The handler and the
  error callback act on a world \<open>'w\<close>, and the context's error is a function of that world.
\<close>

record QueueProcessor =
  qp_queue :: PriorityQueue
  qp_processing :: bool
  qp_maxRetries :: int
  qp_signals :: nat

type_synonym 'w handler = "QueueItem \<Rightarrow> 'w \<Rightarrow> 'w \<times> string option"
type_synonym 'w on_error = "(QueueItem \<Rightarrow> string \<Rightarrow> 'w \<Rightarrow> 'w) option"

definition NewQueueProcessor :: QueueProcessor where
  "NewQueueProcessor =
     \<lparr>qp_queue = NewPriorityQueue, qp_processing = False, qp_maxRetries = 3, qp_signals = 0\<rparr>"

definition SetMaxRetries :: "int \<Rightarrow> QueueProcessor \<Rightarrow> QueueProcessor" where
  "SetMaxRetries n p = p\<lparr>qp_maxRetries := n\<rparr>"

definition qp_signal :: "QueueProcessor \<Rightarrow> QueueProcessor" where
  "qp_signal p = p\<lparr>qp_signals := 1\<rparr>"

text \<open>A creation time of zero is Go's zero time.\<close>

definition Enqueue :: "int \<Rightarrow> QueueItem \<Rightarrow> QueueProcessor \<Rightarrow> QueueProcessor" where
  "Enqueue now item p =
     (let item = (if qi_CreatedAt item = 0 then item\<lparr>qi_CreatedAt := now\<rparr> else item);
          item = (if qi_Priority item = 0 \<and> qi_Source item \<noteq> []
                  then item\<lparr>qi_Priority := SourcePriority (qi_Source item)\<rparr> else item);
          item = (if qi_MaxRetries item = 0 then item\<lparr>qi_MaxRetries := qp_maxRetries p\<rparr> else item)
      in qp_signal (p\<lparr>qp_queue := pq_Push item (qp_queue p)\<rparr>))"

definition report :: "'w on_error \<Rightarrow> QueueItem \<Rightarrow> string \<Rightarrow> 'w \<Rightarrow> 'w" where
  "report onErr item err w = (case onErr of None \<Rightarrow> w | Some f \<Rightarrow> f item err w)"

definition effort :: "QueueItem \<Rightarrow> nat" where
  "effort x = Suc (nat (qi_MaxRetries x - qi_Retries x))"

definition retried :: "QueueItem \<Rightarrow> QueueItem" where
  "retried x = x\<lparr>qi_Retries := qi_Retries x + 1\<rparr>"

function Process ::
  "'w handler \<Rightarrow> 'w on_error \<Rightarrow> ('w \<Rightarrow> string option) \<Rightarrow> PriorityQueue \<Rightarrow> 'w \<Rightarrow> PriorityQueue \<times> 'w \<times> string option"
where
  "Process handler onErr ctxErr q w =
     (case pq_Pop q of
        (q', None) \<Rightarrow> (q', w, None)
      | (q', Some item) \<Rightarrow>
         (case ctxErr w of
            Some e \<Rightarrow> (pq_Push item q', w, Some e)
          | None \<Rightarrow>
             (case handler item w of
                (w', None) \<Rightarrow> Process handler onErr ctxErr q' w'
              | (w', Some e) \<Rightarrow>
                 (if qi_Retries (retried item) < qi_MaxRetries (retried item)
                  then Process handler onErr ctxErr (pq_Push (retried item) q') w'
                  else (q', report onErr (retried item) e w', Some e)))))"
  by pat_completeness auto
termination
proof (relation "measure (\<lambda>(_, _, _, q, _). \<Sum>x \<in># mset q. effort x)", goal_cases)
  case (2 handler onErr ctxErr q w q' r item w' r')
  then have "mset q = add_mset item (mset q')" using pq_Pop_mset [of q q' item] by simp
  then show ?case by (simp add: effort_def)
next
  case (3 handler onErr ctxErr q w q' r item w' r' e)
  then have "mset q = add_mset item (mset q')" using pq_Pop_mset [of q q' item] by simp
  then show ?case using 3 by (simp add: effort_def retried_def)
qed simp

declare Process.simps [simp del]

definition processOne ::
  "'w handler \<Rightarrow> 'w on_error \<Rightarrow> ('w \<Rightarrow> string option) \<Rightarrow> QueueProcessor \<Rightarrow> 'w \<Rightarrow> QueueProcessor \<times> 'w \<times> string option" where
  "processOne handler onErr ctxErr p w =
     (case pq_Pop (qp_queue p) of
        (q', None) \<Rightarrow> (p\<lparr>qp_queue := q'\<rparr>, w, None)
      | (q', Some item) \<Rightarrow>
         (case ctxErr w of
            Some e \<Rightarrow> (p\<lparr>qp_queue := pq_Push item q'\<rparr>, w, Some e)
          | None \<Rightarrow>
             (case handler item w of
                (w', None) \<Rightarrow> (p\<lparr>qp_queue := q'\<rparr>, w', None)
              | (w', Some e) \<Rightarrow>
                 (if qi_Retries (retried item) < qi_MaxRetries (retried item)
                  then (qp_signal (p\<lparr>qp_queue := pq_Push (retried item) q'\<rparr>), w', None)
                  else (p\<lparr>qp_queue := q'\<rparr>, report onErr (retried item) e w', Some e)))))"

text \<open>
  The background goroutine: one round up to its select, and what the select does: stop when the
  context is done, continue on a signal, block otherwise.
\<close>

datatype run_state = Running | Blocked | Stopped

definition run_round ::
  "'w handler \<Rightarrow> 'w on_error \<Rightarrow> ('w \<Rightarrow> string option) \<Rightarrow> QueueProcessor \<Rightarrow> 'w \<Rightarrow> QueueProcessor \<times> 'w \<times> run_state" where
  "run_round handler onErr ctxErr p w =
     (case (if pq_Len (qp_queue p) > 0
            then (case processOne handler onErr ctxErr p w of (p', w', _) \<Rightarrow> (p', w')) else (p, w)) of
        (p', w') \<Rightarrow>
          (if ctxErr w' \<noteq> None then (p'\<lparr>qp_processing := False\<rparr>, w', Stopped)
           else if qp_signals p' > 0 then (p'\<lparr>qp_signals := 0\<rparr>, w', Running)
           else (p', w', Blocked)))"

definition Pending :: "QueueProcessor \<Rightarrow> nat" where
  "Pending p = pq_Len (qp_queue p)"


text \<open>
  Processing always ends, with one of three outcomes: no error and an empty queue; the
  context's error; or a handler error of an item whose retries are exhausted, which has left the
  queue and was reported.
\<close>

lemma Process_outcome:
  "case Process handler onErr ctxErr q w of
     (q', w', None) \<Rightarrow> q' = []
   | (q', w', Some e) \<Rightarrow> ctxErr w' = Some e \<or>
       (\<exists>item w0 w1. handler item w0 = (w1, Some e) \<and> qi_MaxRetries item \<le> qi_Retries item + 1 \<and>
          w' = report onErr (retried item) e w1)"
proof (induction handler onErr ctxErr q w rule: Process.induct)
  case (1 handler onErr ctxErr q w)
  obtain q' r where p: "pq_Pop q = (q', r)" by fastforce
  show ?case
  proof (cases r)
    case None
    then show ?thesis using p pq_Pop_None [of q q'] by (subst Process.simps) simp
  next
    case (Some item)
    show ?thesis
    proof (cases "ctxErr w")
      case (Some e)
      then show ?thesis using p \<open>r = Some item\<close> by (subst Process.simps) simp
    next
      case None
      obtain w' r' where h: "handler item w = (w', r')" by fastforce
      show ?thesis
      proof (cases r')
        case None
        have "Process handler onErr ctxErr q w = Process handler onErr ctxErr q' w'"
          using p \<open>r = Some item\<close> \<open>ctxErr w = None\<close> h None by (subst Process.simps) simp
        then show ?thesis using 1(1) [OF p [symmetric] \<open>r = Some item\<close> \<open>ctxErr w = None\<close> h [symmetric] None] by simp
      next
        case (Some e)
        show ?thesis
        proof (cases "qi_Retries (retried item) < qi_MaxRetries (retried item)")
          case True
          have "Process handler onErr ctxErr q w = Process handler onErr ctxErr (pq_Push (retried item) q') w'"
            using p \<open>r = Some item\<close> \<open>ctxErr w = None\<close> h Some True by (subst Process.simps) simp
          then show ?thesis
            using 1(2) [OF p [symmetric] \<open>r = Some item\<close> \<open>ctxErr w = None\<close> h [symmetric] Some True] by simp
        next
          case False
          have "Process handler onErr ctxErr q w = (q', report onErr (retried item) e w', Some e)"
            using p \<open>r = Some item\<close> \<open>ctxErr w = None\<close> h Some False by (subst Process.simps) simp
          moreover have "qi_MaxRetries item \<le> qi_Retries item + 1" using False by (simp add: retried_def)
          ultimately show ?thesis using h Some by auto
        qed
      qed
    qed
  qed
qed

section \<open>A gap: stranded items\<close>

text \<open>
  The background loop takes one item per signal, and the channel keeps one signal: of three
  items enqueued before the loop runs, the third stays queued while the loop is blocked.
\<close>

definition demo_item :: QueueItem where
  "demo_item = \<lparr>qi_ID = ''a'', qi_Content = [], qi_Priority = 50, qi_Source = ''user'', qi_Retries = 0,
     qi_MaxRetries = 3, qi_CreatedAt = 1, qi_Metadata = []\<rparr>"

lemma background_loop_strands_item:
  "let p0 = Enqueue 3 demo_item (Enqueue 2 demo_item (Enqueue 1 demo_item NewQueueProcessor));
       (p1, w1, s1) = run_round (\<lambda>_ w. (Suc w, None)) None (\<lambda>_. None) p0 0;
       (p2, w2, s2) = run_round (\<lambda>_ w. (Suc w, None)) None (\<lambda>_. None) p1 w1
   in s1 = Running \<and> s2 = Blocked \<and> w2 = 2 \<and> Pending p2 = 1"
  by code_simp

end
