(* ===== verification/Event_Order.thy ===== *)
theory Event_Order
  imports Go_Prelude
begin

text \<open>
  The advisory event-order validator of the query loop: src/engine/event_order_validator.go.
\<close>

section \<open>Model\<close>

datatype TurnPhase =
    PhaseIdle | PhaseTurnStarted | PhaseModelCall | PhaseToolExecution | PhaseTurnEnding | PhaseTerminal

fun phase_string :: "TurnPhase \<Rightarrow> string" where
  "phase_string PhaseIdle = ''idle''"
| "phase_string PhaseTurnStarted = ''turn_started''"
| "phase_string PhaseModelCall = ''model_call''"
| "phase_string PhaseToolExecution = ''tool_execution''"
| "phase_string PhaseTurnEnding = ''turn_ending''"
| "phase_string PhaseTerminal = ''terminal''"

text \<open>The event types the validator distinguishes; the others are informational.\<close>

datatype QueryEventType =
    EventStreamRequestStart | EventAssistant | EventToolResult | EventAttachment
  | EventCompactBoundary | EventUserInterruption | EventMaxTurnsReached | EventToolProgress
  | EventTerminal | EventInformational string

record EventOrderViolation =
  ov_Turn :: int
  ov_Phase :: TurnPhase
  ov_EventType :: QueryEventType
  ov_Message :: string

record EventOrderValidator =
  v_state :: TurnPhase
  v_violations :: "EventOrderViolation list"
  v_turnCount :: int

definition NewEventOrderValidator :: EventOrderValidator where
  "NewEventOrderValidator = \<lparr>v_state = PhaseIdle, v_violations = [], v_turnCount = 0\<rparr>"

definition recordViolation :: "QueryEventType \<Rightarrow> string \<Rightarrow> EventOrderValidator \<Rightarrow> EventOrderValidator" where
  "recordViolation eventType message v =
     v\<lparr>v_violations := v_violations v @
        [\<lparr>ov_Turn = v_turnCount v, ov_Phase = v_state v, ov_EventType = eventType, ov_Message = message\<rparr>]\<rparr>"

text \<open>A phase test of \<open>Observe\<close>: record a violation with its message when it fails.\<close>

definition expect :: "bool \<Rightarrow> QueryEventType \<Rightarrow> string \<Rightarrow> string \<Rightarrow> EventOrderValidator \<Rightarrow> EventOrderValidator \<times> bool" where
  "expect ok eventType pre post v =
     (if ok then (v, True)
      else (recordViolation eventType (pre @ '' in phase '' @ phase_string (v_state v) @ post) v, False))"

definition enter :: "TurnPhase \<Rightarrow> EventOrderValidator \<times> bool \<Rightarrow> EventOrderValidator \<times> bool" where
  "enter phase r = ((fst r)\<lparr>v_state := phase\<rparr>, snd r)"

definition count_turn :: "EventOrderValidator \<times> bool \<Rightarrow> EventOrderValidator \<times> bool" where
  "count_turn r = ((fst r)\<lparr>v_turnCount := v_turnCount (fst r) + 1\<rparr>, snd r)"

fun Observe :: "QueryEventType \<Rightarrow> EventOrderValidator \<Rightarrow> EventOrderValidator \<times> bool" where
  "Observe EventStreamRequestStart v =
     count_turn (enter PhaseTurnStarted
       (expect (v_state v = PhaseIdle \<or> v_state v = PhaseTurnEnding) EventStreamRequestStart
          ''stream_request_start'' '' (expected idle or turn_ending)'' v))"
| "Observe EventAssistant v =
     enter PhaseModelCall
       (expect (v_state v = PhaseTurnStarted \<or> v_state v = PhaseModelCall) EventAssistant
          ''assistant event'' '' (expected turn_started or model_call)'' v)"
| "Observe EventToolResult v =
     enter PhaseToolExecution
       (expect (v_state v = PhaseModelCall \<or> v_state v = PhaseToolExecution) EventToolResult
          ''tool_result'' '' (expected model_call or tool_execution)'' v)"
| "Observe EventAttachment v =
     expect (v_state v \<noteq> PhaseIdle \<and> v_state v \<noteq> PhaseTerminal) EventAttachment
       ''attachment'' '' (not expected in idle or terminal)'' v"
| "Observe EventCompactBoundary v =
     expect (v_state v \<noteq> PhaseTerminal) EventCompactBoundary
       ''compact_boundary'' '' (not expected after terminal)'' v"
| "Observe EventMaxTurnsReached v =
     enter PhaseTurnEnding
       (expect (v_state v = PhaseToolExecution \<or> v_state v = PhaseTurnEnding \<or> v_state v = PhaseModelCall)
          EventMaxTurnsReached ''max_turns_reached'' '' (expected tool_execution or turn_ending)'' v)"
| "Observe EventUserInterruption v =
     enter PhaseTurnEnding
       (expect (v_state v \<noteq> PhaseIdle) EventUserInterruption
          ''user_interruption'' '' (not expected before turn starts)'' v)"
| "Observe EventToolProgress v =
     expect (v_state v = PhaseToolExecution \<or> v_state v = PhaseModelCall) EventToolProgress
       ''tool_progress'' '' (expected model_call or tool_execution)'' v"
| "Observe EventTerminal v = (v\<lparr>v_state := PhaseTerminal\<rparr>, True)"
| "Observe (EventInformational t) v = (v, True)"

definition MarkTurnEnding :: "EventOrderValidator \<Rightarrow> EventOrderValidator" where
  "MarkTurnEnding v = v\<lparr>v_state := PhaseTurnEnding\<rparr>"

definition MarkTerminal :: "EventOrderValidator \<Rightarrow> EventOrderValidator" where
  "MarkTerminal v = v\<lparr>v_state := PhaseTerminal\<rparr>"

definition HasViolations :: "EventOrderValidator \<Rightarrow> bool" where
  "HasViolations v = (length (v_violations v) > 0)"

definition ResetValidator :: "EventOrderValidator \<Rightarrow> EventOrderValidator" where
  "ResetValidator v = v\<lparr>v_state := PhaseIdle, v_violations := [], v_turnCount := 0\<rparr>"

datatype vop = VObserve QueryEventType | VEnding | VTerminal | VReset

fun v_run :: "vop \<Rightarrow> EventOrderValidator \<Rightarrow> EventOrderValidator" where
  "v_run (VObserve e) v = fst (Observe e v)"
| "v_run VEnding v = MarkTurnEnding v"
| "v_run VTerminal v = MarkTerminal v"
| "v_run VReset v = ResetValidator v"

section \<open>Counting\<close>

lemmas observe_defs = expect_def enter_def count_turn_def recordViolation_def

lemma Observe_effect:
  "v_turnCount (fst (Observe e v)) = v_turnCount v + (if e = EventStreamRequestStart then 1 else 0)"
  "length (v_violations (fst (Observe e v))) = length (v_violations v) + (if snd (Observe e v) then 0 else 1)"
  "prefix (v_violations v) (v_violations (fst (Observe e v)))"
  by (cases e; simp add: observe_defs)+

fun rejected :: "vop list \<Rightarrow> EventOrderValidator \<Rightarrow> nat" where
  "rejected [] v = 0"
| "rejected (op # ops) v =
     (case op of VObserve e \<Rightarrow> (if snd (Observe e v) then 0 else 1) | _ \<Rightarrow> 0) + rejected ops (v_run op v)"

lemma run_counts:
  "VReset \<notin> set ops \<Longrightarrow>
    v_turnCount (fold v_run ops v) = v_turnCount v + int (count_list ops (VObserve EventStreamRequestStart)) \<and>
    length (v_violations (fold v_run ops v)) = length (v_violations v) + rejected ops v"
proof (induction ops arbitrary: v)
  case (Cons op ops)
  then show ?case
    by (cases op) (auto simp: Observe_effect MarkTurnEnding_def MarkTerminal_def)
qed simp

text \<open>
  Over any run without reset from a fresh validator, the turn count is the number of
  observed turn starts, and exactly the events answered with false are recorded as violations.
\<close>

lemma validator_counts:
  assumes "VReset \<notin> set ops"
  shows "v_turnCount (fold v_run ops NewEventOrderValidator) = int (count_list ops (VObserve EventStreamRequestStart)) \<and>
    length (v_violations (fold v_run ops NewEventOrderValidator)) = rejected ops NewEventOrderValidator"
  using run_counts [OF assms, of NewEventOrderValidator] by (simp add: NewEventOrderValidator_def)

lemma validator_counts_witness:
  "v_turnCount (fold v_run [VObserve EventStreamRequestStart, VObserve EventToolResult] NewEventOrderValidator) = 1 \<and>
   length (v_violations (fold v_run [VObserve EventStreamRequestStart, VObserve EventToolResult] NewEventOrderValidator)) = 1"
  using validator_counts [of "[VObserve EventStreamRequestStart, VObserve EventToolResult]"]
  by (simp add: observe_defs NewEventOrderValidator_def)

section \<open>The documented order\<close>

text \<open>
  A turn of the query loop: its start, one or more assistant events, any number of tool results
  and progress events, then the end of the turn; between them attachments, compaction
  boundaries and informational events may occur.
\<close>

definition model_event :: "QueryEventType \<Rightarrow> bool" where
  "model_event e \<longleftrightarrow> (case e of EventAssistant \<Rightarrow> True | EventAttachment \<Rightarrow> True | EventCompactBoundary \<Rightarrow> True
     | EventToolProgress \<Rightarrow> True | EventInformational _ \<Rightarrow> True | _ \<Rightarrow> False)"

definition tool_event :: "QueryEventType \<Rightarrow> bool" where
  "tool_event e \<longleftrightarrow> (case e of EventToolResult \<Rightarrow> True | EventAttachment \<Rightarrow> True | EventCompactBoundary \<Rightarrow> True
     | EventToolProgress \<Rightarrow> True | EventInformational _ \<Rightarrow> True | _ \<Rightarrow> False)"

record turn =
  t_model :: "QueryEventType list"
  t_tools :: "QueryEventType list"

definition turn_ok :: "turn \<Rightarrow> bool" where
  "turn_ok t \<longleftrightarrow> list_all model_event (t_model t) \<and> list_all tool_event (t_tools t)"

definition turn_ops :: "turn \<Rightarrow> vop list" where
  "turn_ops t = [VObserve EventStreamRequestStart, VObserve EventAssistant] @ map VObserve (t_model t) @
     (if t_tools t = [] then [] else [VObserve EventToolResult] @ map VObserve (t_tools t)) @ [VEnding]"

lemma model_events_ok:
  "list_all model_event es \<Longrightarrow> v_state v = PhaseModelCall \<Longrightarrow> fold v_run (map VObserve es) v = v"
proof (induction es)
  case (Cons e es)
  then have "fst (Observe e v) = v" by (cases e) (auto simp: model_event_def observe_defs)
  then show ?case using Cons by simp
qed simp

lemma tool_events_ok:
  "list_all tool_event es \<Longrightarrow> v_state v = PhaseToolExecution \<Longrightarrow> fold v_run (map VObserve es) v = v"
proof (induction es)
  case (Cons e es)
  then have "fst (Observe e v) = v" by (cases e) (auto simp: tool_event_def observe_defs)
  then show ?case using Cons by simp
qed simp

lemma turn_runs:
  assumes "turn_ok t" "v_state v = PhaseIdle \<or> v_state v = PhaseTurnEnding"
  shows "fold v_run (turn_ops t) v = v\<lparr>v_state := PhaseTurnEnding, v_turnCount := v_turnCount v + 1\<rparr>"
proof -
  let ?v = "v\<lparr>v_state := PhaseModelCall, v_turnCount := v_turnCount v + 1\<rparr>"
  let ?w = "v\<lparr>v_state := PhaseToolExecution, v_turnCount := v_turnCount v + 1\<rparr>"
  have start: "fst (Observe EventAssistant (fst (Observe EventStreamRequestStart v))) = ?v"
    using assms(2) by (auto simp: observe_defs)
  have tool: "fst (Observe EventToolResult ?v) = ?w" by (simp add: observe_defs)
  have "fold v_run (map VObserve (t_model t)) ?v = ?v" "fold v_run (map VObserve (t_tools t)) ?w = ?w"
    using assms(1) model_events_ok [of "t_model t" ?v] tool_events_ok [of "t_tools t" ?w]
    by (simp_all add: turn_ok_def)
  then show ?thesis
    unfolding turn_ops_def by (simp add: start tool MarkTurnEnding_def del: Observe.simps)
qed

text \<open>
  A query loop that keeps to the documented order is never reported: after any number of
  well-ordered turns the validator has no violation, has counted every turn, and rests between
  turns.
\<close>

lemma ordered_turns_accepted:
  assumes "list_all turn_ok ts"
  shows "(let v = fold v_run (concat (map turn_ops ts)) NewEventOrderValidator in
    \<not> HasViolations v \<and> v_turnCount v = int (length ts) \<and> v_state v = (if ts = [] then PhaseIdle else PhaseTurnEnding))"
proof -
  have "list_all turn_ok ts \<Longrightarrow> v_state v = PhaseIdle \<or> v_state v = PhaseTurnEnding \<Longrightarrow>
    fold v_run (concat (map turn_ops ts)) v =
      v\<lparr>v_state := (if ts = [] then v_state v else PhaseTurnEnding), v_turnCount := v_turnCount v + int (length ts)\<rparr>" for v
  proof (induction ts arbitrary: v)
    case (Cons t ts)
    then show ?case using turn_runs [of t v] by simp
  qed simp
  from this [OF assms, of NewEventOrderValidator] show ?thesis
    by (simp add: NewEventOrderValidator_def HasViolations_def Let_def)
qed

lemma ordered_turns_accepted_witness:
  "(let v = fold v_run (concat (map turn_ops [\<lparr>t_model = [EventAttachment], t_tools = [EventToolProgress]\<rparr>])) NewEventOrderValidator
    in \<not> HasViolations v \<and> v_turnCount v = 1)"
  using ordered_turns_accepted [of "[\<lparr>t_model = [EventAttachment], t_tools = [EventToolProgress]\<rparr>]"]
  by (simp add: turn_ok_def model_event_def tool_event_def Let_def del: fold_simps)

text \<open>
  The order is enforced: a tool result is accepted only after an assistant event of the same
  turn, an assistant event only inside a started turn, and after the terminal phase none of turn
  start, assistant, tool result, progress, attachment and compaction is accepted.
\<close>

lemma order_enforced:
  "(snd (Observe EventToolResult v) \<longleftrightarrow> v_state v = PhaseModelCall \<or> v_state v = PhaseToolExecution) \<and>
   (snd (Observe EventAssistant v) \<longleftrightarrow> v_state v = PhaseTurnStarted \<or> v_state v = PhaseModelCall) \<and>
   (snd (Observe EventStreamRequestStart v) \<longleftrightarrow> v_state v = PhaseIdle \<or> v_state v = PhaseTurnEnding) \<and>
   list_all (\<lambda>e. \<not> snd (Observe e (MarkTerminal v)))
     [EventStreamRequestStart, EventAssistant, EventToolResult, EventToolProgress, EventAttachment,
      EventCompactBoundary, EventMaxTurnsReached]"
  by (simp add: observe_defs MarkTerminal_def)

text \<open>An interruption after the terminal phase is accepted and reopens the validator.\<close>

lemma interruption_reopens_terminal:
  "snd (Observe EventUserInterruption (MarkTerminal v)) \<and>
   snd (Observe EventStreamRequestStart (fst (Observe EventUserInterruption (MarkTerminal v))))"
  by (simp add: observe_defs MarkTerminal_def)

end
