(* ===== verification/Go_Text.thy ===== *)
theory Go_Text
  imports Go_Prelude
begin

text \<open>
  Text that may hold any bytes: the parts of Go's unicode/utf8 and strings the goal code uses,
  exact on arbitrary byte strings.  White space is Unicode's, recognised by its encodings: since
  no encoding ends or starts inside another, matching a prefix or suffix of bytes is what Go's
  decoding of the first or last rune does.
\<close>

section \<open>UTF-8\<close>

definition cont_byte :: "char \<Rightarrow> bool" where
  "cont_byte c \<longleftrightarrow> (let n = (of_char c :: nat) in 0x80 \<le> n \<and> n \<le> 0xBF)"

definition byte_in :: "nat \<Rightarrow> nat \<Rightarrow> char \<Rightarrow> bool" where
  "byte_in lo hi c \<longleftrightarrow> (let n = (of_char c :: nat) in lo \<le> n \<and> n \<le> hi)"

text \<open>\<open>hex.DecodeString\<close> gives the 32 bytes of a SHA-256 digest exactly on 64 hexadecimal digits.\<close>

definition is_hex :: "char \<Rightarrow> bool" where
  "is_hex c \<longleftrightarrow> byte_in 0x30 0x39 c \<or> byte_in 0x41 0x46 c \<or> byte_in 0x61 0x66 c"

definition hex_digest :: "string \<Rightarrow> bool" where
  "hex_digest s \<longleftrightarrow> length s = 64 \<and> list_all is_hex s"

text \<open>\<open>strconv.Atoi\<close>: an optional sign and decimal digits, in the range of a 64-bit integer.\<close>

definition MaxInt64 :: int where "MaxInt64 = 2 ^ 63 - 1"

definition MinInt64 :: int where "MinInt64 = - (2 ^ 63)"

fun decimal :: "int \<Rightarrow> string \<Rightarrow> int option" where
  "decimal acc [] = Some acc"
| "decimal acc (c # s) = (if byte_in 0x30 0x39 c then decimal (10 * acc + (int (of_char c) - 48)) s else None)"

definition Atoi :: "string \<Rightarrow> int option" where
  "Atoi s =
     (let signed = (s \<noteq> [] \<and> (hd s = CHR ''-'' \<or> hd s = CHR ''+''));
          digits = (if signed then tl s else s) in
      if digits = [] then None
      else case decimal 0 digits of
        None \<Rightarrow> None
      | Some n \<Rightarrow>
         let v = (if signed \<and> hd s = CHR ''-'' then - n else n) in
         if MinInt64 \<le> v \<and> v \<le> MaxInt64 then Some v else None)"

text \<open>The bounds of the second byte after a leading byte, as in the accept ranges of unicode/utf8.\<close>

definition second_ok :: "char \<Rightarrow> char \<Rightarrow> bool" where
  "second_ok c d \<longleftrightarrow>
     (let n = (of_char c :: nat) in
      if n = 0xE0 then byte_in 0xA0 0xBF d
      else if n = 0xED then byte_in 0x80 0x9F d
      else if n = 0xF0 then byte_in 0x90 0xBF d
      else if n = 0xF4 then byte_in 0x80 0x8F d
      else cont_byte d)"

text \<open>The length of the encoding a leading byte announces; 0 for a byte that cannot lead.\<close>

definition lead_len :: "char \<Rightarrow> nat" where
  "lead_len c =
     (let n = (of_char c :: nat) in
      if n < 0x80 then 1
      else if n < 0xC2 then 0
      else if n < 0xE0 then 2
      else if n < 0xF0 then 3
      else if n < 0xF5 then 4
      else 0)"

text \<open>The length of the valid encoding a string starts with; 0 when there is none.\<close>

definition rune_len :: "string \<Rightarrow> nat" where
  "rune_len s =
     (case s of
        [] \<Rightarrow> 0
      | c # t \<Rightarrow>
         (let k = lead_len c in
          if k \<le> 1 then k
          else if k - 1 \<le> length t \<and> second_ok c (hd t) \<and> list_all cont_byte (take (k - 2) (tl t)) then k
          else 0))"

lemma rune_len_le: "rune_len s \<le> length s"
  by (cases s) (auto simp: rune_len_def Let_def)

function ValidString :: "string \<Rightarrow> bool" where
  "ValidString s = (if s = [] then True else if rune_len s = 0 then False else ValidString (drop (rune_len s) s))"
  by pat_completeness auto
termination by (relation "measure length") auto

function RuneCountInString :: "string \<Rightarrow> nat" where
  "RuneCountInString s =
     (if s = [] then 0 else Suc (RuneCountInString (drop (if rune_len s = 0 then 1 else rune_len s) s)))"
  by pat_completeness auto
termination by (relation "measure length") auto

declare ValidString.simps [simp del] RuneCountInString.simps [simp del]

lemma ValidString_Nil [simp]: "ValidString []"
  by (simp add: ValidString.simps)

lemma ValidString_step:
  "s \<noteq> [] \<Longrightarrow> ValidString s \<longleftrightarrow> rune_len s \<noteq> 0 \<and> ValidString (drop (rune_len s) s)"
  by (subst ValidString.simps) simp

section \<open>White space\<close>

definition uspaces :: "string list" where
  "uspaces =
     [[CHR 0x09], [CHR 0x0A], [CHR 0x0B], [CHR 0x0C], [CHR 0x0D], [CHR 0x20],
      [CHR 0xC2, CHR 0x85], [CHR 0xC2, CHR 0xA0], [CHR 0xE1, CHR 0x9A, CHR 0x80],
      [CHR 0xE2, CHR 0x80, CHR 0x80], [CHR 0xE2, CHR 0x80, CHR 0x81], [CHR 0xE2, CHR 0x80, CHR 0x82],
      [CHR 0xE2, CHR 0x80, CHR 0x83], [CHR 0xE2, CHR 0x80, CHR 0x84], [CHR 0xE2, CHR 0x80, CHR 0x85],
      [CHR 0xE2, CHR 0x80, CHR 0x86], [CHR 0xE2, CHR 0x80, CHR 0x87], [CHR 0xE2, CHR 0x80, CHR 0x88],
      [CHR 0xE2, CHR 0x80, CHR 0x89], [CHR 0xE2, CHR 0x80, CHR 0x8A], [CHR 0xE2, CHR 0x80, CHR 0xA8],
      [CHR 0xE2, CHR 0x80, CHR 0xA9], [CHR 0xE2, CHR 0x80, CHR 0xAF],
      [CHR 0xE2, CHR 0x81, CHR 0x9F], [CHR 0xE3, CHR 0x80, CHR 0x80]]"

definition space_at :: "string \<Rightarrow> string option" where
  "space_at s = find (HasPrefix s) uspaces"

definition space_end :: "string \<Rightarrow> string option" where
  "space_end s = find (HasSuffix s) uspaces"

lemma uspaces_nonempty: "p \<in> set uspaces \<Longrightarrow> p \<noteq> []"
  by (auto simp: uspaces_def)

lemma space_atD: "space_at s = Some p \<Longrightarrow> p \<in> set uspaces \<and> HasPrefix s p"
  by (auto simp: space_at_def find_Some_iff)

lemma space_endD: "space_end s = Some p \<Longrightarrow> p \<in> set uspaces \<and> HasSuffix s p"
  by (auto simp: space_end_def find_Some_iff)

function trim_left :: "string \<Rightarrow> string" where
  "trim_left s = (case space_at s of None \<Rightarrow> s | Some p \<Rightarrow> trim_left (drop (length p) s))"
  by pat_completeness auto
termination
  by (relation "measure length") (auto dest!: space_atD uspaces_nonempty simp: HasPrefix_iff)

function trim_right :: "string \<Rightarrow> string" where
  "trim_right s = (case space_end s of None \<Rightarrow> s | Some p \<Rightarrow> trim_right (take (length s - length p) s))"
  by pat_completeness auto
termination
  by (relation "measure length") (auto dest!: space_endD uspaces_nonempty simp: HasSuffix_iff)

declare trim_left.simps [simp del] trim_right.simps [simp del]

lemma trim_left_Some: "space_at s = Some p \<Longrightarrow> trim_left s = trim_left (drop (length p) s)"
  by (subst trim_left.simps) simp

lemma trim_right_Some: "space_end s = Some p \<Longrightarrow> trim_right s = trim_right (take (length s - length p) s)"
  by (subst trim_right.simps) simp

definition TrimUnicode :: "string \<Rightarrow> string" where
  "TrimUnicode s = trim_right (trim_left s)"

definition utrimmed :: "string \<Rightarrow> bool" where
  "utrimmed s \<longleftrightarrow> space_at s = None \<and> space_end s = None"

section \<open>Line ends\<close>

text \<open>\<open>strings.ReplaceAll(s, "\r\n", "\n")\<close>.\<close>

fun replace_crlf :: "string \<Rightarrow> string" where
  "replace_crlf (c # d # s) =
     (if c = CHR 0x0D \<and> d = newline then newline # replace_crlf s else c # replace_crlf (d # s))"
| "replace_crlf s = s"

definition has_crlf :: "string \<Rightarrow> bool" where
  "has_crlf s \<longleftrightarrow> Contains s [CHR 0x0D, newline]"

section \<open>Encodings split\<close>

lemma second_ok_cont: "second_ok c d \<Longrightarrow> cont_byte d"
  by (auto simp: second_ok_def cont_byte_def byte_in_def Let_def split: if_splits)

lemma rune_len_cons:
  "rune_len (c # t) =
     (if lead_len c \<le> 1 then lead_len c
      else if lead_len c - 1 \<le> length t \<and> second_ok c (hd t) \<and> list_all cont_byte (take (lead_len c - 2) (tl t))
        then lead_len c else 0)"
  by (simp add: rune_len_def Let_def)

lemma rune_len_conts:
  assumes "rune_len (c # t) = k" "1 < k"
  shows "k - 1 \<le> length t" and "list_all cont_byte (take (k - 1) t)"
proof -
  have k: "lead_len c = k" and l: "k - 1 \<le> length t" and s: "second_ok c (hd t)"
    and a: "list_all cont_byte (take (k - 2) (tl t))"
    using assms by (auto simp: rune_len_cons split: if_splits)
  show "k - 1 \<le> length t" by (rule l)
  obtain d u where t: "t = d # u" using l assms(2) by (cases t) auto
  have "take (k - 1) t = d # take (k - 2) u"
    using assms(2) t by (cases k; cases "k - 1") auto
  then show "list_all cont_byte (take (k - 1) t)" using s a t second_ok_cont by auto
qed

lemma rune_len_append: "0 < rune_len x \<Longrightarrow> rune_len (x @ y) = rune_len x"
proof (cases x)
  case (Cons c t)
  assume "0 < rune_len x"
  then show ?thesis using Cons
    by (cases t) (auto simp: rune_len_cons hd_append split: if_splits)
qed (simp add: rune_len_def)

lemma rune_len_take: "rune_len (x @ y) = length x \<Longrightarrow> x \<noteq> [] \<Longrightarrow> rune_len (x @ z) = length x"
proof (cases x)
  case (Cons c t)
  assume a: "rune_len (x @ y) = length x"
  then show ?thesis using Cons
    by (cases t) (auto simp: rune_len_cons hd_append split: if_splits)
qed simp

lemma ValidString_append_rune:
  "rune_len x = length x \<Longrightarrow> x \<noteq> [] \<Longrightarrow> ValidString (x @ s) = ValidString s"
  by (subst ValidString.simps) (simp add: rune_len_append)

lemma ValidString_split:
  assumes "ValidString s" "s \<noteq> []"
  obtains x t where "s = x @ t" "x \<noteq> []" "rune_len x = length x" "ValidString t"
proof -
  let ?k = "rune_len s"
  have k: "0 < ?k" "ValidString (drop ?k s)" using assms ValidString_step [of s] by auto
  have l: "length (take ?k s) = ?k" using rune_len_le by simp
  have s: "s = take ?k s @ drop ?k s" by simp
  have "rune_len (take ?k s @ drop ?k s) = length (take ?k s)" using l by simp
  then have "rune_len (take ?k s @ []) = length (take ?k s)"
    by (rule rune_len_take) (use k l in auto)
  then show ?thesis using that [of "take ?k s" "drop ?k s"] k l s assms(2) by auto
qed

section \<open>Trimming\<close>

lemma space_rune: "p \<in> set uspaces \<Longrightarrow> rune_len p = length p"
  by (auto simp: uspaces_def rune_len_def lead_len_def second_ok_def cont_byte_def byte_in_def)

lemma space_lead: "p \<in> set uspaces \<Longrightarrow> \<not> cont_byte (hd p)"
  by (auto simp: uspaces_def cont_byte_def)

lemma ValidString_trim_left: "ValidString s \<Longrightarrow> ValidString (trim_left s)"
proof (induction s rule: trim_left.induct)
  case (1 s)
  show ?case
  proof (cases "space_at s")
    case (Some p)
    then obtain t where p: "p \<in> set uspaces" and s: "s = p @ t"
      using space_atD [of s p] by (auto simp: HasPrefix_iff)
    have "ValidString t" using "1.prems" ValidString_append_rune [OF space_rune [OF p] uspaces_nonempty [OF p]] s by simp
    then show ?thesis using "1.IH" [OF Some] trim_left_Some [OF Some] s by simp
  qed (use 1 in \<open>simp add: trim_left.simps [of s]\<close>)
qed

lemma ValidString_prefix:
  assumes "ValidString (s @ p)" "p \<noteq> []" "\<not> cont_byte (hd p)"
  shows "ValidString s"
  using assms
proof (induction s rule: length_induct)
  case (1 s)
  show ?case
  proof (cases s)
    case (Cons c t)
    have k: "rune_len (s @ p) \<noteq> 0" "ValidString (drop (rune_len (s @ p)) (s @ p))"
      using "1.prems"(1) Cons ValidString_step [of "s @ p"] by auto
    let ?k = "rune_len (s @ p)"
    have le: "?k \<le> length s"
    proof (rule ccontr)
      assume "\<not> ?k \<le> length s"
      then have k1: "1 < ?k" "length t < ?k - 1" using Cons by auto
      have "list_all cont_byte (take (?k - 1) (t @ p))"
        using rune_len_conts(2) [of c "t @ p" ?k] k1 Cons by simp
      then have "cont_byte (hd p)"
        using k1 assms(2) by (cases p) (auto simp: take_Cons' split: if_splits)
      then show False using assms(3) by simp
    qed
    have "ValidString (drop ?k s @ p)" using k(2) le by simp
    then have "ValidString (drop ?k s)" using "1.IH" k(1) le Cons assms(2,3) by simp
    moreover have "rune_len (take ?k s @ (drop ?k s @ p)) = length (take ?k s)"
      using le by (simp flip: append_assoc)
    then have "rune_len (take ?k s @ []) = length (take ?k s)"
      by (rule rune_len_take) (use k(1) Cons in auto)
    ultimately show ?thesis
      using ValidString_append_rune [of "take ?k s" "drop ?k s"] k(1) Cons by simp
  qed simp
qed

lemma ValidString_trim_right: "ValidString s \<Longrightarrow> ValidString (trim_right s)"
proof (induction s rule: trim_right.induct)
  case (1 s)
  show ?case
  proof (cases "space_end s")
    case (Some p)
    then obtain t where p: "p \<in> set uspaces" and s: "s = t @ p"
      using space_endD [of s p] by (auto simp: HasSuffix_iff)
    have "ValidString t" using ValidString_prefix "1.prems" s uspaces_nonempty [OF p] space_lead [OF p] by blast
    then show ?thesis using "1.IH" [OF Some] trim_right_Some [OF Some] s by simp
  qed (use 1 in \<open>simp add: trim_right.simps [of s]\<close>)
qed

lemma space_at_trim_left [simp]: "space_at (trim_left s) = None"
  by (induction s rule: trim_left.induct) (subst trim_left.simps, simp split: option.split)

lemma space_end_trim_right [simp]: "space_end (trim_right s) = None"
  by (induction s rule: trim_right.induct) (subst trim_right.simps, simp split: option.split)

lemma trim_right_prefix: "\<exists>t. s = trim_right s @ t"
proof (induction s rule: trim_right.induct)
  case (1 s)
  show ?case
  proof (cases "space_end s")
    case (Some p)
    then obtain t where "take (length s - length p) s = trim_right s @ t"
      using "1.IH" [OF Some] trim_right_Some [OF Some] by auto
    then show ?thesis by (metis append_take_drop_id append_assoc)
  qed (simp add: trim_right.simps [of s])
qed

lemma space_at_prefix: "space_at (s @ t) = None \<Longrightarrow> space_at s = None"
  by (auto simp: space_at_def find_None_iff HasPrefix_iff)

lemma utrimmed_TrimUnicode: "utrimmed (TrimUnicode s)"
  using trim_right_prefix [of "trim_left s"] space_at_prefix space_at_trim_left
  unfolding utrimmed_def TrimUnicode_def by (metis space_end_trim_right)

lemma TrimUnicode_id: "utrimmed s \<Longrightarrow> TrimUnicode s = s"
  by (simp add: utrimmed_def TrimUnicode_def trim_left.simps trim_right.simps)

lemma TrimUnicode_iff: "TrimUnicode s = s \<longleftrightarrow> utrimmed s"
  using TrimUnicode_id utrimmed_TrimUnicode by metis

lemma ValidString_TrimUnicode: "ValidString s \<Longrightarrow> ValidString (TrimUnicode s)"
  by (simp add: TrimUnicode_def ValidString_trim_left ValidString_trim_right)

section \<open>Line ends and validity\<close>

lemma replace_crlf_peel: "CHR 0x0D \<notin> set x \<Longrightarrow> replace_crlf (x @ s) = x @ replace_crlf s"
proof (induction x)
  case (Cons c x)
  then show ?case by (cases "x @ s") auto
qed simp

lemma rune_no_cr: "rune_len x = length x \<Longrightarrow> x \<noteq> [] \<Longrightarrow> CHR 0x0D \<in> set x \<Longrightarrow> x = [CHR 0x0D]"
proof (cases x)
  case (Cons c t)
  assume r: "rune_len x = length x" "CHR 0x0D \<in> set x"
  show ?thesis
  proof (cases t)
    case (Cons d u)
    then have k: "rune_len (c # t) = length x" "1 < length x" using r \<open>x = c # t\<close> by auto
    have "list_all cont_byte t" using rune_len_conts(2) [OF k] \<open>x = c # t\<close> by simp
    moreover have "c \<noteq> CHR 0x0D" using k by (auto simp: rune_len_cons lead_len_def)
    ultimately show ?thesis using r(2) \<open>x = c # t\<close> by (auto simp: list_all_iff cont_byte_def)
  qed (use r Cons in auto)
qed simp

lemma rune_ascii: "(of_char c :: nat) < 0x80 \<Longrightarrow> rune_len [c] = 1"
  by (simp add: rune_len_def lead_len_def)

lemma ValidString_ascii: "(of_char c :: nat) < 0x80 \<Longrightarrow> ValidString (c # s) = ValidString s"
  using ValidString_append_rune [of "[c]" s] rune_ascii by simp

lemma ValidString_replace_crlf: "ValidString s \<Longrightarrow> ValidString (replace_crlf s)"
proof (induction s rule: length_induct)
  case (1 s)
  show ?case
  proof (cases "s = []")
    case False
    then obtain x t where s: "s = x @ t" "x \<noteq> []" "rune_len x = length x" and t: "ValidString t"
      using ValidString_split "1.prems" by metis
    show ?thesis
    proof (cases "CHR 0x0D \<in> set x")
      case False
      then show ?thesis using s t "1.IH" replace_crlf_peel [of x t] ValidString_append_rune by simp
    next
      case True
      then have x: "x = [CHR 0x0D]" using rune_no_cr s by simp
      show ?thesis
      proof (cases "\<exists>u. t = newline # u")
        case True
        then obtain u where u: "t = newline # u" by blast
        have "ValidString u" using t u ValidString_ascii [of newline u] by simp
        then have "ValidString (replace_crlf u)" using "1.IH" s x u by simp
        then show ?thesis using s x u ValidString_ascii [of newline "replace_crlf u"] by simp
      next
        case False
        then have "replace_crlf s = CHR 0x0D # replace_crlf t" using s x by (cases t) auto
        then show ?thesis using "1.IH" s t x ValidString_ascii [of "CHR 0x0D" "replace_crlf t"] by simp
      qed
    qed
  qed simp
qed

lemma replace_crlf_shorter: "has_crlf s \<Longrightarrow> length (replace_crlf s) < length s"
proof (induction s rule: replace_crlf.induct)
  case (1 c d s)
  have le: "length (replace_crlf u) \<le> length u" for u by (induction u rule: replace_crlf.induct) auto
  show ?case using 1 le [of s] by (auto simp: has_crlf_def HasPrefix_def)
qed (auto simp: has_crlf_def HasPrefix_def)

lemma replace_crlf_id: "\<not> has_crlf s \<Longrightarrow> replace_crlf s = s"
  by (induction s rule: replace_crlf.induct) (auto simp: has_crlf_def HasPrefix_def)

lemma replace_crlf_iff: "replace_crlf s = s \<longleftrightarrow> \<not> has_crlf s"
  using replace_crlf_id replace_crlf_shorter by force

section \<open>Plain ASCII\<close>

definition ascii :: "string \<Rightarrow> bool" where
  "ascii s \<longleftrightarrow> list_all (\<lambda>c. (of_char c :: nat) < 0x80) s"

definition plain :: "string \<Rightarrow> bool" where
  "plain s \<longleftrightarrow> ascii s \<and> (s = [] \<or> (\<not> is_space (hd s) \<and> \<not> is_space (last s)))"

lemma ascii_text: "ascii s \<Longrightarrow> ValidString s \<and> RuneCountInString s = length s"
proof (induction s)
  case Nil
  show ?case by (simp add: RuneCountInString.simps)
next
  case (Cons c s)
  then have c: "(of_char c :: nat) < 0x80" and s: "ascii s" by (simp_all add: ascii_def)
  have "rune_len (c # s) = 1" using c by (simp add: rune_len_def lead_len_def)
  then have "RuneCountInString (c # s) = Suc (RuneCountInString s)"
    by (subst RuneCountInString.simps) simp
  then show ?case using Cons.IH [OF s] ValidString_ascii [OF c, of s] by simp
qed

lemma uspaces_ascii: "list_all (\<lambda>p. ascii p \<longrightarrow> (length p = 1 \<and> is_space (hd p))) uspaces"
  by (simp add: uspaces_def ascii_def is_space_def)

lemma ascii_space:
  assumes "p \<in> set uspaces" "ascii p"
  obtains c where "p = [c]" "is_space c"
  using uspaces_ascii assms that unfolding list_all_iff
  by (metis One_nat_def length_0_conv length_Suc_conv list.sel(1))

lemma plain_trimmed: "plain s \<Longrightarrow> TrimUnicode s = s"
proof (rule TrimUnicode_id)
  assume s: "plain s"
  have "\<not> HasPrefix s p \<and> \<not> HasSuffix s p" if p: "p \<in> set uspaces" for p
  proof (cases "ascii p")
    case True
    then obtain c where "p = [c]" "is_space c" using ascii_space [OF p] by blast
    then show ?thesis using s by (auto simp: plain_def HasPrefix_iff HasSuffix_iff)
  qed (use s in \<open>auto simp: plain_def ascii_def HasPrefix_iff HasSuffix_iff\<close>)
  then show "utrimmed s" by (auto simp: utrimmed_def space_at_def space_end_def find_None_iff)
qed

lemmas plain_eval = plain_trimmed ascii_text plain_def ascii_def is_space_def

end
