(* ===== verification/Goal_Text.thy ===== *)
theory Goal_Text
  imports Go_Text
begin

text \<open>
  Normalisation of goal texts: src/engine/goal_validation.go, and the identity checks of
  goal_persistence.go and goal_binding.go.  The errors of the goal code are one datatype: its
  sentinel errors by name, a formatted message (without the numbers it prints), or a message that
  wraps another error.
\<close>

datatype goal_error =
    errGoalObjectiveInvalidUTF8 | errGoalObjectiveEmpty | errGoalObjectiveNUL | errGoalObjectiveTooLong
  | errGoalReasonInvalidUTF8 | errGoalReasonEmpty | errGoalReasonNUL | errGoalReasonTooLong
  | errGoalBlockerKeyInvalid
  | errGoalNotFound | errGoalAlreadyExists | errGoalUnavailable | errGoalUnsupportedScope
  | errGoalPlanConflict | errGoalTerminal | errGoalBudget | errGoalUsageUnavailable
  | errGoalTransitionInFlight string
  | errGoalUsageCapabilityUnavailable | errGoalUsageAdmissionPending | errGoalUsageCoverageIncomplete
  | errGoalContinuationPermanentlyRejected
  | context_Canceled
  | Errorf string | Wrapped string goal_error | Joined goal_error goal_error

text \<open>\<open>errors.Is\<close>: the target is the error or one it wraps.\<close>

fun error_is :: "goal_error \<Rightarrow> goal_error \<Rightarrow> bool" where
  "error_is (Wrapped m e) target = (Wrapped m e = target \<or> error_is e target)"
| "error_is (Joined a b) target = (Joined a b = target \<or> error_is a target \<or> error_is b target)"
| "error_is e target = (e = target)"

section \<open>Objectives and reasons\<close>

definition goalObjectiveMaxScalars :: nat where
  "goalObjectiveMaxScalars = 4000"

definition goalReasonMaxScalars :: nat where
  "goalReasonMaxScalars = 1024"

definition normalizeGoalText ::
  "string \<Rightarrow> nat \<Rightarrow> goal_error \<Rightarrow> goal_error \<Rightarrow> goal_error \<Rightarrow> goal_error \<Rightarrow> goal_error + string" where
  "normalizeGoalText input maxScalars errUTF8 errEmpty errNUL errTooLong =
     (if \<not> ValidString input then Inl errUTF8
      else let normalized = TrimUnicode (replace_crlf input) in
        if normalized = [] then Inl errEmpty
        else if IndexByte normalized (CHR 0x00) \<noteq> None then Inl errNUL
        else if maxScalars < RuneCountInString normalized then Inl errTooLong
        else Inr normalized)"

definition normalizeGoalObjective :: "string \<Rightarrow> goal_error + string" where
  "normalizeGoalObjective input =
     normalizeGoalText input goalObjectiveMaxScalars
       errGoalObjectiveInvalidUTF8 errGoalObjectiveEmpty errGoalObjectiveNUL errGoalObjectiveTooLong"

definition normalizeGoalReason :: "string \<Rightarrow> goal_error + string" where
  "normalizeGoalReason input =
     normalizeGoalText input goalReasonMaxScalars
       errGoalReasonInvalidUTF8 errGoalReasonEmpty errGoalReasonNUL errGoalReasonTooLong"

section \<open>Blocker keys\<close>

text \<open>
  \<open>strings.ToLower\<close> as far as the key check can tell: ASCII letters, and the two other runes
  whose lower case is ASCII, the Kelvin sign (U+212A) and the dotted capital I (U+0130).  Every
  other non-ASCII rune has a non-ASCII lower case, which the check rejects; it is left alone.
\<close>

fun lower_text :: "string \<Rightarrow> string" where
  "lower_text (c # d # e # s) =
     (if [c, d, e] = [CHR 0xE2, CHR 0x84, CHR 0xAA] then CHR ''k'' # lower_text s
      else if [c, d] = [CHR 0xC4, CHR 0xB0] then CHR ''i'' # lower_text (e # s)
      else lower_char c # lower_text (d # e # s))"
| "lower_text [c, d] = (if [c, d] = [CHR 0xC4, CHR 0xB0] then ''i'' else [lower_char c, lower_char d])"
| "lower_text [c] = [lower_char c]"
| "lower_text [] = []"

definition goalBlockerKeyMaxLen :: nat where
  "goalBlockerKeyMaxLen = 128"

definition key_alnum :: "char \<Rightarrow> bool" where
  "key_alnum c \<longleftrightarrow> byte_in 97 122 c \<or> byte_in 48 57 c"

definition key_punct :: "char \<Rightarrow> bool" where
  "key_punct c \<longleftrightarrow> c \<in> {CHR ''.'', CHR ''_'', CHR '':'', CHR ''/'', CHR ''-''}"

definition key_bytes_ok :: "string \<Rightarrow> bool" where
  "key_bytes_ok key \<longleftrightarrow>
     list_all (\<lambda>(i, c). key_alnum c \<or> (0 < i \<and> key_punct c)) (enumerate 0 key)"

definition normalizeGoalBlockerKey :: "string \<Rightarrow> goal_error + string" where
  "normalizeGoalBlockerKey input =
     (let key = lower_text (TrimUnicode input) in
      if length key = 0 \<or> goalBlockerKeyMaxLen < length key then Inl errGoalBlockerKeyInvalid
      else if key_bytes_ok key then Inr key
      else Inl errGoalBlockerKeyInvalid)"

section \<open>Identities\<close>

definition validateGoalTurnID :: "string \<Rightarrow> goal_error option" where
  "validateGoalTurnID turnID =
     (if TrimUnicode turnID = [] \<or> turnID \<noteq> TrimUnicode turnID \<or> \<not> ValidString turnID \<or> CHR 0x00 \<in> set turnID
      then Some (Errorf ''invalid turn identity'') else None)"

definition validGoalBindingText :: "string \<Rightarrow> bool \<Rightarrow> bool" where
  "validGoalBindingText value required =
     (if value = [] then \<not> required
      else value = TrimUnicode value \<and> ValidString value \<and> CHR 0x00 \<notin> set value)"

section \<open>Normalised texts\<close>

lemma normalizeGoalText_Inr:
  "normalizeGoalText x m a b c d = Inr t \<Longrightarrow>
     ValidString t \<and> utrimmed t \<and> t \<noteq> [] \<and> CHR 0x00 \<notin> set t \<and> RuneCountInString t \<le> m"
  by (auto simp: normalizeGoalText_def Let_def IndexByte_None utrimmed_TrimUnicode
      ValidString_TrimUnicode ValidString_replace_crlf split: if_splits)

lemma length_TrimUnicode: "length (TrimUnicode s) \<le> length s"
proof -
  have r: "length (trim_right u) \<le> length u" for u using trim_right_prefix [of u] by (metis le_add1 length_append)
  have l: "length (trim_left u) \<le> length u" for u
  proof (induction u rule: trim_left.induct)
    case (1 u)
    then show ?case
      by (cases "space_at u") (fastforce simp: trim_left_Some trim_left.simps [of u])+
  qed
  show ?thesis unfolding TrimUnicode_def using r l le_trans by blast
qed

lemma normalizeGoalText_again:
  assumes "normalizeGoalText x m a b c d = Inr t"
  shows "normalizeGoalText t m a b c d = Inr t \<longleftrightarrow> \<not> has_crlf t"
proof
  assume "normalizeGoalText t m a b c d = Inr t"
  then have "TrimUnicode (replace_crlf t) = t"
    by (auto simp: normalizeGoalText_def Let_def split: if_splits)
  then have "length t \<le> length (replace_crlf t)" using length_TrimUnicode [of "replace_crlf t"] by simp
  then show "\<not> has_crlf t" using replace_crlf_shorter by force
next
  assume "\<not> has_crlf t"
  then show "normalizeGoalText t m a b c d = Inr t"
    using normalizeGoalText_Inr [OF assms]
    by (simp add: normalizeGoalText_def Let_def replace_crlf_id TrimUnicode_id IndexByte_None)
qed

text \<open>
  A normalised objective or reason is valid UTF-8, has no outer Unicode white space, is
  non-empty, holds no NUL byte and keeps its length limit; normalising it again gives it back
  exactly when no carriage return and line feed are left next to each other in it.
\<close>

lemma normalizeGoalText_clean:
  assumes "normalizeGoalObjective x = Inr t" "normalizeGoalReason y = Inr r"
  shows "list_all (\<lambda>s. ValidString s \<and> TrimUnicode s = s \<and> s \<noteq> [] \<and> CHR 0x00 \<notin> set s) [t, r] \<and>
    RuneCountInString t \<le> 4000 \<and> RuneCountInString r \<le> 1024 \<and>
    (normalizeGoalObjective t = Inr t \<longleftrightarrow> \<not> has_crlf t) \<and> (normalizeGoalReason r = Inr r \<longleftrightarrow> \<not> has_crlf r)"
  using assms normalizeGoalText_Inr normalizeGoalText_again
  unfolding normalizeGoalObjective_def normalizeGoalReason_def goalObjectiveMaxScalars_def goalReasonMaxScalars_def
  by (simp add: TrimUnicode_iff)

lemma normalizeGoalText_plain:
  "plain s \<Longrightarrow> s \<noteq> [] \<Longrightarrow> CHR 0x00 \<notin> set s \<Longrightarrow> \<not> has_crlf s \<Longrightarrow> length s \<le> m \<Longrightarrow>
    normalizeGoalText s m a b c d = Inr s"
  using ascii_text [of s] plain_trimmed [of s]
  by (simp add: normalizeGoalText_def Let_def replace_crlf_id IndexByte_None plain_def)

lemmas plain_goal_text = normalizeGoalText_plain plain_def ascii_def is_space_def has_crlf_def HasPrefix_def

lemma objective_example: "normalizeGoalObjective ''fix it'' = Inr ''fix it''"
  by (simp add: normalizeGoalObjective_def goalObjectiveMaxScalars_def plain_goal_text)

lemma reason_example: "normalizeGoalReason ''no key'' = Inr ''no key''"
  by (simp add: normalizeGoalReason_def goalReasonMaxScalars_def plain_goal_text)

lemma normalizeGoalText_clean_witness:
  "normalizeGoalObjective ''fix it'' = Inr ''fix it'' \<and> \<not> has_crlf ''fix it''"
  using normalizeGoalText_clean [OF objective_example reason_example]
  by (simp add: has_crlf_def HasPrefix_def)

section \<open>Normalised keys\<close>

definition key_char :: "char \<Rightarrow> bool" where
  "key_char c \<longleftrightarrow> key_alnum c \<or> key_punct c"

lemma key_bytes_char: "key_bytes_ok k \<Longrightarrow> c \<in> set k \<Longrightarrow> key_char c"
  by (auto simp: key_bytes_ok_def key_char_def list_all_iff in_set_conv_nth nth_enumerate_eq dest!: bspec
      intro!: exI)

lemma key_char_cases:
  "key_char c \<Longrightarrow> (of_char c :: nat) \<in> {97..122} \<union> {48..57} \<union> {46, 95, 58, 47, 45}"
  by (auto simp: key_char_def key_alnum_def key_punct_def byte_in_def Let_def)

lemma space_not_key: "p \<in> set uspaces \<Longrightarrow> c \<in> set p \<Longrightarrow> \<not> key_char c"
  by (auto simp: uspaces_def dest!: key_char_cases)

lemma key_utrimmed: "list_all key_char k \<Longrightarrow> utrimmed k"
proof -
  assume k: "list_all key_char k"
  have "\<not> HasPrefix k p \<and> \<not> HasSuffix k p" if "p \<in> set uspaces" for p
    using that k uspaces_nonempty [OF that] space_not_key [OF that]
    by (auto simp: HasPrefix_iff HasSuffix_iff list_all_iff neq_Nil_conv)
  then show "utrimmed k" by (auto simp: utrimmed_def space_at_def space_end_def find_None_iff)
qed

lemma key_lower: "key_char c \<Longrightarrow> lower_char c = c"
  by (auto simp: lower_char_def Let_def dest!: key_char_cases)

lemma key_lower_text: "list_all key_char k \<Longrightarrow> lower_text k = k"
  by (induction k rule: lower_text.induct) (auto simp: key_lower dest: key_char_cases)

lemma normalizeGoalBlockerKey_stable:
  assumes "normalizeGoalBlockerKey x = Inr k"
  shows "key_bytes_ok k \<and> k \<noteq> [] \<and> length k \<le> 128 \<and> list_all key_char k \<and> normalizeGoalBlockerKey k = Inr k"
proof -
  have ok: "key_bytes_ok k" and len: "k \<noteq> []" "length k \<le> 128"
    using assms by (auto simp: normalizeGoalBlockerKey_def Let_def goalBlockerKeyMaxLen_def split: if_splits)
  have all: "list_all key_char k" using key_bytes_char [OF ok] by (simp add: list_all_iff)
  then show ?thesis using ok len key_utrimmed [OF all] key_lower_text [OF all]
    by (simp add: normalizeGoalBlockerKey_def Let_def TrimUnicode_id goalBlockerKeyMaxLen_def)
qed

text \<open>
  An accepted blocker key has the documented form, a lower-case letter or digit followed by
  at most 127 letters, digits and the five punctuation marks, and normalising it again gives it
  back.
\<close>

lemma normalizeGoalBlockerKey_form:
  assumes "normalizeGoalBlockerKey x = Inr k"
  shows "(\<exists>c s. k = c # s \<and> key_alnum c \<and> list_all (\<lambda>d. key_alnum d \<or> key_punct d) s \<and> length s \<le> 127) \<and>
    normalizeGoalBlockerKey k = Inr k"
proof -
  note k' = normalizeGoalBlockerKey_stable [OF assms]
  obtain c s where k: "k = c # s" using k' by (cases k) auto
  have "key_alnum c" using k' k by (simp add: key_bytes_ok_def)
  then show ?thesis using k k' by (auto simp: key_char_def [abs_def])
qed

lemmas key_eval = goalBlockerKeyMaxLen_def key_bytes_ok_def key_alnum_def key_punct_def lower_char_def byte_in_def

lemma normalizeGoalBlockerKey_form_witness:
  "normalizeGoalBlockerKey ''ci-9'' = Inr ''ci-9'' \<and> key_alnum (CHR ''c'')"
proof -
  have "normalizeGoalBlockerKey ''ci-9'' = Inr ''ci-9''"
    by (simp add: normalizeGoalBlockerKey_def plain_eval key_eval)
  then show ?thesis using normalizeGoalBlockerKey_form [of "''ci-9''" "''ci-9''"] by simp
qed

section \<open>Gaps\<close>

text \<open>
  Normalisation is not idempotent: of two carriage returns before a line feed it removes one.
  The check of a restored objective compares it with its own normal form and rejects it.
\<close>

lemma objective_not_idempotent:
  "normalizeGoalObjective [CHR ''a'', CHR 0x0D, CHR 0x0D, newline, CHR ''b''] = Inr [CHR ''a'', CHR 0x0D, newline, CHR ''b''] \<and>
   normalizeGoalObjective [CHR ''a'', CHR 0x0D, newline, CHR ''b''] = Inr [CHR ''a'', newline, CHR ''b'']"
  by (simp add: normalizeGoalObjective_def normalizeGoalText_def goalObjectiveMaxScalars_def plain_eval)

text \<open>A non-ASCII letter, the Kelvin sign, is accepted as a key.\<close>

lemma kelvin_key: "normalizeGoalBlockerKey [CHR 0xE2, CHR 0x84, CHR 0xAA] = Inr ''k''"
proof -
  have "utrimmed [CHR 0xE2, CHR 0x84, CHR 0xAA]"
    by (simp add: utrimmed_def space_at_def space_end_def uspaces_def HasPrefix_def HasSuffix_def)
  then show ?thesis by (simp add: normalizeGoalBlockerKey_def TrimUnicode_id key_eval)
qed

end
