(* ===== verification/Goal_State.thy ===== *)
theory Goal_State
  imports Goal_Text "HOL-Library.Word"
begin

text \<open>
  The goal of a root session and its control operations: src/engine/goal_state.go, with the
  continuation cursor of goal_continuation.go, the usage admission of goal_usage.go and the
  persisted form of session/branch.go.  A time is its count of nanoseconds, 0 being Go's zero
  time; unsigned 64-bit counters are words.  The locks make every operation atomic.
\<close>

section \<open>Data\<close>

type_synonym uint64 = "64 word"
type_synonym time = int

abbreviation MaxUint64 :: uint64 where
  "MaxUint64 \<equiv> -1"

datatype goalStatus =
    goalStatusActive | goalStatusPaused | goalStatusBlocked | goalStatusUsageLimited
  | goalStatusBudgetLimited | goalStatusComplete | goalStatusOther string

datatype goalDisposition =
    DispositionPending | DispositionAdmitting | DispositionRejected | DispositionDelivered
  | DispositionOther string

record goalContinuationCursor =
  gc_Version :: nat
  gc_ItemID :: string
  gc_CheckpointID :: string
  gc_ContinuationTurnID :: string
  gc_GoalID :: string
  gc_GoalSchemaVersion :: nat
  gc_ObjectiveRevision :: uint64
  gc_GoalRevision :: uint64
  gc_GoalStatus :: goalStatus
  gc_RootSessionID :: string
  gc_RootThreadID :: string
  gc_RootAgentID :: string
  gc_PredecessorGoalTurnID :: string
  gc_PredecessorTerminalSequence :: uint64
  gc_PredecessorTerminalReason :: string
  gc_PredecessorTerminalAt :: time
  gc_TokenBudget :: "uint64 option"
  gc_TokensUsed :: uint64
  gc_UsageLedgerRevision :: uint64
  gc_ContinuationOrdinal :: uint64
  gc_RuntimeRevision :: uint64
  gc_Disposition :: goalDisposition
  gc_DispositionReason :: string
  gc_DispositionAt :: time

record goalUsageAdmission =
  ua_Version :: nat
  ua_LedgerRevision :: uint64
  ua_GoalID :: string
  ua_ObjectiveRevision :: uint64
  ua_RootSessionID :: string
  ua_RootThreadID :: string
  ua_RootAgentID :: string
  ua_ExecutingSessionID :: string
  ua_ExecutingThreadID :: string
  ua_ExecutingAgentID :: string
  ua_ExecutingAgentGeneration :: int
  ua_GoalTurnID :: string
  ua_LogicalRoundID :: string
  ua_LogicalRequestID :: string
  ua_ModelAttemptID :: string
  ua_ModelAttemptIndex :: int
  ua_ModelProfile :: string
  ua_ModelRetryIndex :: int
  ua_ProviderCallID :: string
  ua_AdmittedAt :: time

text \<open>The durable record; its nested records have the fields of their live counterparts.\<close>

record PersistedGoalState =
  ps_Version :: nat
  ps_GoalID :: string
  ps_Objective :: string
  ps_ObjectiveRevision :: uint64
  ps_Status :: goalStatus
  ps_StatusReasonCode :: string
  ps_StatusReason :: string
  ps_Revision :: uint64
  ps_TokenBudget :: "uint64 option"
  ps_TokensUsed :: uint64
  ps_UsageLedgerRevision :: uint64
  ps_RootActiveTimeMillis :: int
  ps_ContinuationOrdinal :: uint64
  ps_Continuation :: "goalContinuationCursor option"
  ps_LastGoalTurnID :: string
  ps_LastTerminalSequence :: uint64
  ps_PendingCompleteTurnID :: string
  ps_PendingCompleteObjectiveRevision :: uint64
  ps_PendingUsageAdmission :: "goalUsageAdmission option"
  ps_BlockerKey :: string
  ps_BlockerTurnIDs :: "string list"
  ps_CreatedAt :: time
  ps_UpdatedAt :: time
  ps_invalidEncoding :: bool

record goalState =
  GoalID :: string
  Objective :: string
  ObjectiveRevision :: uint64
  Status :: goalStatus
  StatusReasonCode :: string
  StatusReason :: string
  Revision :: uint64
  TokenBudget :: "uint64 option"
  TokensUsed :: uint64
  UsageLedgerRevision :: uint64
  RootActiveTimeMillis :: int
  ContinuationOrdinal :: uint64
  Continuation :: "goalContinuationCursor option"
  LastGoalTurnID :: string
  LastTerminalSequence :: uint64
  PendingCompleteTurnID :: string
  PendingCompleteObjectiveRevision :: uint64
  PendingUsageAdmission :: "goalUsageAdmission option"
  BlockerKey :: string
  BlockerTurnIDs :: "string list"
  CreatedAt :: time
  UpdatedAt :: time
  unavailable :: bool
  unavailablePersisted :: "PersistedGoalState option"

datatype PlanPhase = PlanPhaseInactive | PlanPhaseActive | PlanPhaseAwaitingApproval | PlanPhaseOther string

definition planPhaseRequiresContainment :: "PlanPhase \<Rightarrow> bool" where
  "planPhaseRequiresContainment phase \<longleftrightarrow> phase = PlanPhaseActive \<or> phase = PlanPhaseAwaitingApproval"

datatype GoalLifecyclePhase =
    GoalLifecycleCreated | GoalLifecycleObjectiveEdited | GoalLifecyclePaused | GoalLifecycleResumed
  | GoalLifecycleBudgetUpdated | GoalLifecycleCleared | GoalLifecycleTurnStarted
  | GoalLifecyclePermissionWaiting | GoalLifecyclePermissionResumed | GoalLifecycleChildWaiting
  | GoalLifecycleChildResumed | GoalLifecycleCompletionRequested | GoalLifecycleBlockerReported
  | GoalLifecycleBlocked | GoalLifecycleTurnFinished | GoalLifecycleUsageRecorded
  | GoalLifecycleUsageLimited | GoalLifecycleBudgetLimited | GoalLifecycleUsageAdmissionReleased

record goalExecutionIdentity =
  gi_GoalID :: string
  gi_ObjectiveRevision :: uint64
  gi_RootSessionID :: string
  gi_RootThreadID :: string
  gi_RootAgentID :: string
  gi_GoalTurnID :: string

record goalTurnRuntime =
  tr_identity :: goalExecutionIdentity
  tr_activeSince :: time
  tr_waiting :: "string set"

text \<open>
  The fields of the engine the goal service touches.  The projections to the runtime view are
  kept as a log of the event phase, the goal and the turn.
\<close>

record goal_engine =
  ge_goal :: "goalState option"
  ge_runtime :: "goalTurnRuntime option"
  ge_planActiveTurnID :: string
  ge_planPhase :: PlanPhase
  ge_administrationOnly :: bool
  ge_SessionID :: string
  ge_ThreadID :: string
  ge_AgentID :: string
  ge_transcript :: "string option"
  ge_usageUncertain :: bool
  ge_runtimeStateErr :: "goal_error option"
  ge_projected :: "(GoalLifecyclePhase \<times> goalState \<times> string \<times> time) list"

text \<open>
  What a call meets outside the service: the clock, a fresh identifier, the outcome of writing
  the session checkpoint with a goal, and the input coordinator (its error when it is missing,
  the outcomes of rejecting and settling a queued continuation).
\<close>

record goal_env =
  gv_now :: time
  gv_uuid :: string
  gv_persist :: "goalState option \<Rightarrow> goal_error option"
  gv_coordinatorErr :: "goal_error option"
  gv_reject :: "string \<Rightarrow> string \<Rightarrow> time \<Rightarrow> goal_error option"
  gv_settle :: "string \<Rightarrow> goal_error option"

section \<open>Helpers\<close>

definition mutableGoalStateError :: "goalState option \<Rightarrow> goal_error option" where
  "mutableGoalStateError state =
     (case state of
        None \<Rightarrow> Some errGoalNotFound
      | Some g \<Rightarrow>
         (if unavailable g then Some errGoalUnavailable
          else if PendingUsageAdmission g \<noteq> None then Some errGoalUsageAdmissionPending
          else None))"

definition nextGoalRevision :: "goalState \<Rightarrow> time \<Rightarrow> goal_error + goalState" where
  "nextGoalRevision state now =
     (if Revision state = MaxUint64 then Inl (Errorf ''goal revision exhausted'')
      else Inr (state\<lparr>Revision := Revision state + 1, UpdatedAt := now\<rparr>))"

definition resetGoalTurnEvidence :: "goalState \<Rightarrow> goalState" where
  "resetGoalTurnEvidence g =
     g\<lparr>PendingCompleteTurnID := [], PendingCompleteObjectiveRevision := 0, BlockerKey := [], BlockerTurnIDs := []\<rparr>"

definition goalBlocksPlan :: "goalState option \<Rightarrow> bool" where
  "goalBlocksPlan state =
     (case state of None \<Rightarrow> False | Some g \<Rightarrow> \<not> unavailable g \<and> Status g = goalStatusActive)"

definition validateGoalScopeLocked :: "goal_engine \<Rightarrow> goal_error option" where
  "validateGoalScopeLocked e =
     (if ge_administrationOnly e then Some errGoalUnsupportedScope
      else if TrimUnicode (ge_SessionID e) = [] \<or> TrimUnicode (ge_ThreadID e) = [] \<or> TrimUnicode (ge_AgentID e) \<noteq> [] \<or>
        (case ge_transcript e of None \<Rightarrow> True | Some path \<Rightarrow> TrimUnicode path = [])
      then Some errGoalUnsupportedScope
      else None)"

definition firstGoalOwnerTurnID :: "string list \<Rightarrow> string" where
  "firstGoalOwnerTurnID ids = (case ids of [] \<Rightarrow> [] | x # _ \<Rightarrow> TrimUnicode x)"

definition live_cursor :: "goalState \<Rightarrow> goalContinuationCursor option" where
  "live_cursor g =
     (case Continuation g of
        None \<Rightarrow> None
      | Some c \<Rightarrow> if gc_Disposition c = DispositionPending \<or> gc_Disposition c = DispositionAdmitting then Some c else None)"

definition rejected_cursor :: "string \<Rightarrow> time \<Rightarrow> goalContinuationCursor \<Rightarrow> goalContinuationCursor" where
  "rejected_cursor reason at c =
     c\<lparr>gc_Disposition := DispositionRejected, gc_DispositionReason := reason, gc_DispositionAt := at\<rparr>"

text \<open>Retiring a queued continuation; the flag says whether there is a coordinator.\<close>

definition retireGoalContinuationItem ::
  "goal_env \<Rightarrow> bool \<Rightarrow> string \<Rightarrow> string \<Rightarrow> time \<Rightarrow> goal_error option" where
  "retireGoalContinuationItem env coordinator itemID code at =
     (if \<not> coordinator \<or> TrimUnicode itemID = [] then None
      else case gv_reject env itemID code at of
        Some err \<Rightarrow> Some (Wrapped ''persist Goal continuation rejection'' err)
      | None \<Rightarrow>
         (case gv_settle env itemID of
            Some err \<Rightarrow> Some (Wrapped ''settle rejected Goal continuation'' err)
          | None \<Rightarrow> None))"

definition retire_cursor :: "goal_env \<Rightarrow> goalContinuationCursor \<Rightarrow> goal_error option" where
  "retire_cursor env c =
     retireGoalContinuationItem env (gv_coordinatorErr env = None) (gc_ItemID c) (gc_DispositionReason c) (gc_DispositionAt c)"

definition goalContinuationTransitionRejection :: "GoalLifecyclePhase \<Rightarrow> string" where
  "goalContinuationTransitionRejection phase =
     (case phase of
        GoalLifecycleObjectiveEdited \<Rightarrow> ''superseded-by-objective-edit''
      | GoalLifecyclePaused \<Rightarrow> ''superseded-by-goal-pause''
      | GoalLifecycleBudgetUpdated \<Rightarrow> ''superseded-by-budget-change''
      | GoalLifecycleResumed \<Rightarrow> ''superseded-by-goal-resume''
      | _ \<Rightarrow> ''superseded-by-goal-control'')"

definition recordRuntimeStateError :: "goal_error option \<Rightarrow> goal_engine \<Rightarrow> goal_engine" where
  "recordRuntimeStateError err e =
     (if err \<noteq> None \<and> ge_runtimeStateErr e = None then e\<lparr>ge_runtimeStateErr := err\<rparr> else e)"

definition projectGoalLifecycle :: "GoalLifecyclePhase \<Rightarrow> goalState \<Rightarrow> string \<Rightarrow> time \<Rightarrow> goal_engine \<Rightarrow> goal_engine" where
  "projectGoalLifecycle phase g turnID now e =
     e\<lparr>ge_projected := ge_projected e @ [(phase, g, turnID, now)]\<rparr>"

section \<open>Transitions\<close>

text \<open>
  Publishing a built goal: the live cursor of the old goal is rejected in the new one, the
  checkpoint is written, and only then is the goal live, its queued continuation retired and the
  event projected.
\<close>

definition publish ::
  "goal_env \<Rightarrow> GoalLifecyclePhase \<Rightarrow> goalState \<Rightarrow> goal_engine \<Rightarrow> goal_engine \<times> (goal_error + goalState)" where
  "publish env phase built e =
     (case (case ge_goal e of None \<Rightarrow> None | Some g \<Rightarrow> live_cursor g) of
        Some c \<Rightarrow>
         (case gv_coordinatorErr env of
            Some err \<Rightarrow> (e, Inl err)
          | None \<Rightarrow>
             (let c' = rejected_cursor (goalContinuationTransitionRejection phase) (UpdatedAt built) c;
                  built' = built\<lparr>Continuation := Some c'\<rparr>
              in case gv_persist env (Some built') of
                   Some err \<Rightarrow> (e, Inl (Wrapped ''persist goal transition'' err))
                 | None \<Rightarrow>
                    (let e1 = recordRuntimeStateError (retire_cursor env c') (e\<lparr>ge_goal := Some built'\<rparr>);
                         e2 = (if Status built' \<noteq> goalStatusActive then e1\<lparr>ge_runtime := None\<rparr> else e1)
                     in (projectGoalLifecycle phase built' [] (UpdatedAt built') e2, Inr built'))))
      | None \<Rightarrow>
         (case gv_persist env (Some built) of
            Some err \<Rightarrow> (e, Inl (Wrapped ''persist goal transition'' err))
          | None \<Rightarrow>
             (let e1 = e\<lparr>ge_goal := Some built\<rparr>;
                  e2 = (if Status built \<noteq> goalStatusActive then e1\<lparr>ge_runtime := None\<rparr> else e1)
              in (projectGoalLifecycle phase built [] (UpdatedAt built) e2, Inr built))))"

definition transition ::
  "goal_env \<Rightarrow> GoalLifecyclePhase \<Rightarrow> string \<Rightarrow> (goalState option \<Rightarrow> PlanPhase \<Rightarrow> time \<Rightarrow> goal_error + goalState) \<Rightarrow>
   goal_engine \<Rightarrow> goal_engine \<times> (goal_error + goalState)" where
  "transition env phase ownerTurnID build e =
     (case validateGoalScopeLocked e of
        Some err \<Rightarrow> (e, Inl err)
      | None \<Rightarrow>
        (if (ge_planActiveTurnID e \<noteq> [] \<and> ge_planActiveTurnID e \<noteq> ownerTurnID) \<or> ge_runtime e \<noteq> None then
           (e, Inl (errGoalTransitionInFlight
              (case (ge_planActiveTurnID e, ge_runtime e) of
                 ([], Some r) \<Rightarrow> gi_GoalTurnID (tr_identity r)
               | (owner, _) \<Rightarrow> owner)))
         else case build (ge_goal e) (ge_planPhase e) (gv_now env) of
           Inl err \<Rightarrow> (e, Inl err)
         | Inr built \<Rightarrow>
           (case ge_goal e of
              None \<Rightarrow> publish env phase built e
            | Some g \<Rightarrow>
               (if GoalID built = GoalID g \<and> Revision built = Revision g then (e, Inr g)
                else publish env phase built e))))"

definition create_build :: "goal_env \<Rightarrow> string \<Rightarrow> uint64 option \<Rightarrow> goalState option \<Rightarrow> PlanPhase \<Rightarrow> time \<Rightarrow> goal_error + goalState" where
  "create_build env objective budget current phase now =
     (if planPhaseRequiresContainment phase then Inl errGoalPlanConflict
      else if (case current of None \<Rightarrow> False | Some g \<Rightarrow> Status g \<noteq> goalStatusComplete) then Inl errGoalAlreadyExists
      else Inr \<lparr>GoalID = gv_uuid env, Objective = objective, ObjectiveRevision = 1, Status = goalStatusActive,
        StatusReasonCode = [], StatusReason = [], Revision = 1, TokenBudget = budget, TokensUsed = 0,
        UsageLedgerRevision = 0, RootActiveTimeMillis = 0, ContinuationOrdinal = 0, Continuation = None,
        LastGoalTurnID = [], LastTerminalSequence = 0, PendingCompleteTurnID = [],
        PendingCompleteObjectiveRevision = 0, PendingUsageAdmission = None, BlockerKey = [],
        BlockerTurnIDs = [], CreatedAt = now, UpdatedAt = now, unavailable = False,
        unavailablePersisted = None\<rparr>)"

definition create ::
  "goal_env \<Rightarrow> string \<Rightarrow> uint64 option \<Rightarrow> string list \<Rightarrow> goal_engine \<Rightarrow> goal_engine \<times> (goal_error + goalState)" where
  "create env objective budget ownerTurnID e =
     (case normalizeGoalObjective objective of
        Inl err \<Rightarrow> (e, Inl err)
      | Inr normalized \<Rightarrow>
         (if budget = Some 0 then (e, Inl errGoalBudget)
          else transition env GoalLifecycleCreated (firstGoalOwnerTurnID ownerTurnID)
            (create_build env normalized budget) e))"

definition edit_build :: "string \<Rightarrow> goalState option \<Rightarrow> PlanPhase \<Rightarrow> time \<Rightarrow> goal_error + goalState" where
  "edit_build normalized current phase now =
     (case mutableGoalStateError current of
        Some err \<Rightarrow> Inl err
      | None \<Rightarrow>
         (let g = the current in
          if Status g = goalStatusComplete then Inl errGoalTerminal
          else if ObjectiveRevision g = MaxUint64 \<or> Revision g = MaxUint64 then Inl (Errorf ''goal revision exhausted'')
          else Inr (resetGoalTurnEvidence
            (g\<lparr>Objective := normalized, ObjectiveRevision := ObjectiveRevision g + 1, Revision := Revision g + 1,
               UpdatedAt := now\<rparr>))))"

definition edit :: "goal_env \<Rightarrow> string \<Rightarrow> string list \<Rightarrow> goal_engine \<Rightarrow> goal_engine \<times> (goal_error + goalState)" where
  "edit env objective ownerTurnID e =
     (case normalizeGoalObjective objective of
        Inl err \<Rightarrow> (e, Inl err)
      | Inr normalized \<Rightarrow>
         transition env GoalLifecycleObjectiveEdited (firstGoalOwnerTurnID ownerTurnID) (edit_build normalized) e)"

definition pause_build :: "goalState option \<Rightarrow> PlanPhase \<Rightarrow> time \<Rightarrow> goal_error + goalState" where
  "pause_build current phase now =
     (case mutableGoalStateError current of
        Some err \<Rightarrow> Inl err
      | None \<Rightarrow>
         (let g = the current in
          if Status g = goalStatusComplete then Inl errGoalTerminal
          else if Status g = goalStatusPaused \<and> StatusReasonCode g = ''user-paused'' then Inr g
          else case nextGoalRevision g now of
            Inl err \<Rightarrow> Inl err
          | Inr g' \<Rightarrow> Inr (resetGoalTurnEvidence
              (g'\<lparr>Status := goalStatusPaused, StatusReasonCode := ''user-paused'', StatusReason := ''paused by user''\<rparr>))))"

definition pause :: "goal_env \<Rightarrow> string list \<Rightarrow> goal_engine \<Rightarrow> goal_engine \<times> (goal_error + goalState)" where
  "pause env ownerTurnID e = transition env GoalLifecyclePaused (firstGoalOwnerTurnID ownerTurnID) pause_build e"

definition resume_build :: "goalState option \<Rightarrow> PlanPhase \<Rightarrow> time \<Rightarrow> goal_error + goalState" where
  "resume_build current phase now =
     (case mutableGoalStateError current of
        Some err \<Rightarrow> Inl err
      | None \<Rightarrow>
         (let g = the current in
          if planPhaseRequiresContainment phase then Inl errGoalPlanConflict
          else if Status g = goalStatusComplete then Inl errGoalTerminal
          else if Status g = goalStatusActive then Inr g
          else if Status g = goalStatusUsageLimited then Inl errGoalUsageUnavailable
          else if (case TokenBudget g of None \<Rightarrow> False | Some b \<Rightarrow> b \<le> TokensUsed g) then Inl errGoalBudget
          else case nextGoalRevision g now of
            Inl err \<Rightarrow> Inl err
          | Inr g' \<Rightarrow> Inr (resetGoalTurnEvidence
              (g'\<lparr>Status := goalStatusActive, StatusReasonCode := [], StatusReason := []\<rparr>))))"

definition resume :: "goal_env \<Rightarrow> string list \<Rightarrow> goal_engine \<Rightarrow> goal_engine \<times> (goal_error + goalState)" where
  "resume env ownerTurnID e = transition env GoalLifecycleResumed (firstGoalOwnerTurnID ownerTurnID) resume_build e"

definition budget_limited :: "goalState \<Rightarrow> goalState" where
  "budget_limited g =
     resetGoalTurnEvidence (g\<lparr>Status := goalStatusBudgetLimited, StatusReasonCode := ''budget-exhausted'',
       StatusReason := ''the Goal token budget has been reached''\<rparr>)"

definition setBudget_build :: "uint64 \<Rightarrow> goalState option \<Rightarrow> PlanPhase \<Rightarrow> time \<Rightarrow> goal_error + goalState" where
  "setBudget_build tokenBudget current phase now =
     (case mutableGoalStateError current of
        Some err \<Rightarrow> Inl err
      | None \<Rightarrow>
         (let g = the current in
          if Status g = goalStatusComplete then Inl errGoalTerminal
          else case nextGoalRevision g now of
            Inl err \<Rightarrow> Inl err
          | Inr g' \<Rightarrow>
             (let g'' = g'\<lparr>TokenBudget := Some tokenBudget\<rparr> in
              Inr (if Status g'' = goalStatusActive \<and> tokenBudget \<le> TokensUsed g'' then budget_limited g'' else g''))))"

definition setBudget ::
  "goal_env \<Rightarrow> uint64 \<Rightarrow> string list \<Rightarrow> goal_engine \<Rightarrow> goal_engine \<times> (goal_error + goalState)" where
  "setBudget env tokenBudget ownerTurnID e =
     (if tokenBudget = 0 then (e, Inl errGoalBudget)
      else transition env GoalLifecycleBudgetUpdated (firstGoalOwnerTurnID ownerTurnID) (setBudget_build tokenBudget) e)"

text \<open>
  Clearing.  A live continuation is first rejected durably and retired; the second component is
  the error, if any.
\<close>

definition reject_before_clear :: "goal_env \<Rightarrow> goalState \<Rightarrow> goal_engine \<Rightarrow> goal_engine \<times> goal_error option" where
  "reject_before_clear env g e =
     (case live_cursor g of
        None \<Rightarrow> (e, None)
      | Some c \<Rightarrow>
         (if gv_coordinatorErr env \<noteq> None then (e, gv_coordinatorErr env)
          else case nextGoalRevision g (gv_now env) of
            Inl err \<Rightarrow> (e, Some err)
          | Inr g' \<Rightarrow>
             (let c' = rejected_cursor ''superseded-by-goal-clear'' (UpdatedAt g') c;
                  rejected = g'\<lparr>Continuation := Some c'\<rparr>
              in case gv_persist env (Some rejected) of
                   Some err \<Rightarrow> (e, Some (Wrapped ''reject Goal continuation before clear'' err))
                 | None \<Rightarrow> (e\<lparr>ge_goal := Some rejected\<rparr>, retire_cursor env c'))))"

definition clearForTurn :: "goal_env \<Rightarrow> string \<Rightarrow> goal_engine \<Rightarrow> goal_engine \<times> goal_error option" where
  "clearForTurn env ownerTurnID e =
     (if ge_planActiveTurnID e \<noteq> [] \<and> ge_planActiveTurnID e \<noteq> TrimUnicode ownerTurnID then
        (e, Some (errGoalTransitionInFlight (ge_planActiveTurnID e)))
      else case ge_goal e of
        None \<Rightarrow> (e, None)
      | Some g \<Rightarrow>
         (if PendingUsageAdmission g \<noteq> None then (e, Some errGoalUsageAdmissionPending)
          else case validateGoalScopeLocked e of
            Some err \<Rightarrow> (e, Some err)
          | None \<Rightarrow>
             (case reject_before_clear env g e of
                (e1, Some err) \<Rightarrow> (e1, Some err)
              | (e1, None) \<Rightarrow>
                 (case gv_persist env None of
                    Some err \<Rightarrow> (e1, Some (Wrapped ''clear goal checkpoint'' err))
                  | None \<Rightarrow>
                     (let cleared = the (ge_goal e1); e2 = e1\<lparr>ge_goal := None, ge_runtime := None\<rparr> in
                      if \<not> unavailable cleared \<and> TrimUnicode (GoalID cleared) \<noteq> []
                      then (projectGoalLifecycle GoalLifecycleCleared cleared [] (gv_now env) e2, None)
                      else (e2, None))))))"

definition clear :: "goal_env \<Rightarrow> goal_engine \<Rightarrow> goal_engine \<times> goal_error option" where
  "clear env e = clearForTurn env [] e"

section \<open>Control operations\<close>

datatype goal_control =
    ControlCreate string "uint64 option" "string list" | ControlEdit string "string list"
  | ControlPause "string list" | ControlResume "string list" | ControlSetBudget uint64 "string list"

fun control :: "goal_env \<Rightarrow> goal_control \<Rightarrow> goal_engine \<Rightarrow> goal_engine \<times> (goal_error + goalState)" where
  "control env (ControlCreate objective budget owner) e = create env objective budget owner e"
| "control env (ControlEdit objective owner) e = edit env objective owner e"
| "control env (ControlPause owner) e = pause env owner e"
| "control env (ControlResume owner) e = resume env owner e"
| "control env (ControlSetBudget budget owner) e = setBudget env budget owner e"

lemmas control_defs = create_def edit_def pause_def resume_def setBudget_def
lemmas build_defs = create_build_def edit_build_def pause_build_def resume_build_def setBudget_build_def
  nextGoalRevision_def resetGoalTurnEvidence_def budget_limited_def mutableGoalStateError_def

text \<open>Every control operation fails at once or is one transition.\<close>

type_synonym goal_build = "goalState option \<Rightarrow> PlanPhase \<Rightarrow> time \<Rightarrow> goal_error + goalState"

fun control_plan :: "goal_env \<Rightarrow> goal_control \<Rightarrow> goal_error + (GoalLifecyclePhase \<times> string \<times> goal_build)" where
  "control_plan env (ControlCreate objective budget owner) =
     (case normalizeGoalObjective objective of
        Inl err \<Rightarrow> Inl err
      | Inr n \<Rightarrow> if budget = Some 0 then Inl errGoalBudget
          else Inr (GoalLifecycleCreated, firstGoalOwnerTurnID owner, create_build env n budget))"
| "control_plan env (ControlEdit objective owner) =
     (case normalizeGoalObjective objective of
        Inl err \<Rightarrow> Inl err
      | Inr n \<Rightarrow> Inr (GoalLifecycleObjectiveEdited, firstGoalOwnerTurnID owner, edit_build n))"
| "control_plan env (ControlPause owner) = Inr (GoalLifecyclePaused, firstGoalOwnerTurnID owner, pause_build)"
| "control_plan env (ControlResume owner) = Inr (GoalLifecycleResumed, firstGoalOwnerTurnID owner, resume_build)"
| "control_plan env (ControlSetBudget budget owner) =
     (if budget = 0 then Inl errGoalBudget
      else Inr (GoalLifecycleBudgetUpdated, firstGoalOwnerTurnID owner, setBudget_build budget))"

lemma control_transition:
  "control env op e =
     (case control_plan env op of
        Inl err \<Rightarrow> (e, Inl err)
      | Inr (phase, owner, build) \<Rightarrow> transition env phase owner build e)"
  by (cases op) (simp_all add: control_defs split: sum.split)

lemma publish_outcome:
  assumes "publish env phase built e = (e', r)" "ge_runtime e = None"
  shows "case r of Inl err \<Rightarrow> e' = e
    | Inr g \<Rightarrow> ge_goal e' = Some g \<and> gv_persist env (Some g) = None \<and> ge_runtime e' = None \<and>
        ge_projected e' = ge_projected e @ [(phase, g, [], UpdatedAt built)] \<and>
        g = (case (case ge_goal e of None \<Rightarrow> None | Some g0 \<Rightarrow> live_cursor g0) of
               None \<Rightarrow> built
             | Some c \<Rightarrow> built\<lparr>Continuation :=
                 Some (rejected_cursor (goalContinuationTransitionRejection phase) (UpdatedAt built) c)\<rparr>)"
proof (cases "case ge_goal e of None \<Rightarrow> None | Some g0 \<Rightarrow> live_cursor g0")
  case None
  then show ?thesis using assms
    by (auto simp: publish_def Let_def projectGoalLifecycle_def split: option.splits if_splits)
next
  case (Some c)
  show ?thesis
  proof (cases "gv_coordinatorErr env")
    case None
    then show ?thesis using assms Some
      by (auto simp: publish_def Let_def projectGoalLifecycle_def recordRuntimeStateError_def
          split: option.splits if_splits)
  qed (use assms Some in \<open>auto simp: publish_def\<close>)
qed

text \<open>
  The outcomes of a transition: refused without a change, the current goal given back, or a
  built goal published.
\<close>

lemma transition_cases:
  obtains (refused) err where "transition env phase owner build e = (e, Inl err)"
  | (same) g where "transition env phase owner build e = (e, Inr g)" "ge_goal e = Some g"
  | (published) built where "transition env phase owner build e = publish env phase built e"
      "build (ge_goal e) (ge_planPhase e) (gv_now env) = Inr built" "ge_runtime e = None" "ge_goal e \<noteq> Some built"
proof -
  have "(\<exists>err. transition env phase owner build e = (e, Inl err)) \<or>
    (\<exists>g. transition env phase owner build e = (e, Inr g) \<and> ge_goal e = Some g) \<or>
    (\<exists>built. transition env phase owner build e = publish env phase built e \<and>
       build (ge_goal e) (ge_planPhase e) (gv_now env) = Inr built \<and> ge_runtime e = None \<and> ge_goal e \<noteq> Some built)"
    by (auto simp: transition_def split: option.splits sum.splits)
  then show ?thesis using that by blast
qed


text \<open>
  A goal transition never runs inside a goal turn: while a turn owns the boundary no control
  operation changes anything, and the caller is told.
\<close>

lemma control_excluded_by_turn:
  assumes "ge_runtime e = Some r"
  shows "fst (control env op e) = e \<and> (\<exists>err. snd (control env op e) = Inl err)"
  using assms by (auto simp: control_transition transition_def split: option.splits sum.splits prod.splits)

lemma word_Suc: "r \<noteq> MaxUint64 \<Longrightarrow> unat (r + 1) = Suc (unat r)" for r :: uint64
  by (metis add.commute eq_neg_iff_add_eq_0 unatSuc)

text \<open>What the builders do to a goal that is already there.\<close>

lemma build_effect:
  assumes "control_plan env op = Inr (phase, owner, build)" "build (Some g0) pl now = Inr g"
  shows "g = g0 \<or> (Status g0 = goalStatusComplete \<and> Revision g = 1 \<and> phase = GoalLifecycleCreated) \<or>
    (\<not> unavailable g0 \<and> PendingUsageAdmission g0 = None \<and> Status g0 \<noteq> goalStatusComplete \<and>
     unat (Revision g) = Suc (unat (Revision g0)) \<and> GoalID g = GoalID g0 \<and> TokensUsed g = TokensUsed g0 \<and>
     (if phase = GoalLifecycleObjectiveEdited then unat (ObjectiveRevision g) = Suc (unat (ObjectiveRevision g0))
      else ObjectiveRevision g = ObjectiveRevision g0 \<and> Objective g = Objective g0))"
  using assms
  by (cases op) (auto simp: build_defs Let_def word_Suc split: sum.splits if_splits option.splits)

text \<open>
  Revisions count changes without wrapping: a control operation on a goal gives it back
  unchanged, replaces a completed goal by a new one, or raises its revision by exactly one; its
  objective and the objective's revision change, by exactly one, only when it is edited, and the
  tokens used never change.
\<close>

lemma control_revisions:
  assumes "ge_goal e = Some g0" "control env op e = (e', Inr g)"
  shows "g = g0 \<or> (Status g0 = goalStatusComplete \<and> Revision g = 1 \<and> (\<exists>x b owner. op = ControlCreate x b owner)) \<or>
    (unat (Revision g) = Suc (unat (Revision g0)) \<and> GoalID g = GoalID g0 \<and> TokensUsed g = TokensUsed g0 \<and>
     (case op of ControlEdit _ _ \<Rightarrow> unat (ObjectiveRevision g) = Suc (unat (ObjectiveRevision g0))
      | _ \<Rightarrow> ObjectiveRevision g = ObjectiveRevision g0 \<and> Objective g = Objective g0))"
proof (cases "control_plan env op")
  case (Inl err)
  then show ?thesis using assms(2) by (simp add: control_transition)
next
  case (Inr pob)
  obtain phase owner build where p: "pob = (phase, owner, build)" by (cases pob)
  have phase: "(\<exists>x b o'. op = ControlCreate x b o') \<longleftrightarrow> phase = GoalLifecycleCreated"
    "(\<exists>x o'. op = ControlEdit x o') \<longleftrightarrow> phase = GoalLifecycleObjectiveEdited"
    using Inr p by (cases op; auto split: sum.splits if_splits)+
  show ?thesis
  proof (cases rule: transition_cases [of env phase owner build e])
    case (published built)
    have pub: "publish env phase built e = (e', Inr g)" using published(1) assms(2) Inr p by (simp add: control_transition)
    have f: "Revision g = Revision built" "GoalID g = GoalID built" "TokensUsed g = TokensUsed built"
      "ObjectiveRevision g = ObjectiveRevision built" "Objective g = Objective built"
      using publish_outcome [OF pub published(3)] by (simp_all split: option.splits)
    have ne: "built \<noteq> g0" using published(4) assms(1) by auto
    have b: "build (Some g0) (ge_planPhase e) (gv_now env) = Inr built" using published(2) assms(1) by simp
    show ?thesis using build_effect [OF Inr [unfolded p] b] ne f phase by (cases op) auto
  qed (use assms Inr p in \<open>auto simp: control_transition\<close>)
qed

section \<open>A session\<close>

text \<open>A saved root session with a fresh goal, for examples.\<close>

definition demo_env :: goal_env where
  "demo_env = \<lparr>gv_now = 1000, gv_uuid = ''g1'', gv_persist = (\<lambda>_. None), gv_coordinatorErr = None,
     gv_reject = (\<lambda>_ _ _. None), gv_settle = (\<lambda>_. None)\<rparr>"

definition demo_goal :: goalState where
  "demo_goal = projr (create_build demo_env ''fix it'' (Some 100) None PlanPhaseInactive 500)"

definition demo_engine :: goal_engine where
  "demo_engine = \<lparr>ge_goal = Some demo_goal, ge_runtime = None, ge_planActiveTurnID = [], ge_planPhase = PlanPhaseInactive,
     ge_administrationOnly = False, ge_SessionID = ''s'', ge_ThreadID = ''t'', ge_AgentID = [],
     ge_transcript = Some ''f'', ge_usageUncertain = False, ge_runtimeStateErr = None, ge_projected = []\<rparr>"

lemmas demo_defs = demo_engine_def demo_env_def demo_goal_def

lemma demo_scope: "validateGoalScopeLocked (demo_engine\<lparr>ge_goal := g, ge_runtime := r\<rparr>) = None"
  by (simp add: validateGoalScopeLocked_def demo_engine_def plain_eval)

lemma demo_pause:
  "case control demo_env (ControlPause []) demo_engine of
     (e', Inr g) \<Rightarrow> Status g = goalStatusPaused \<and> g \<noteq> demo_goal | _ \<Rightarrow> False"
  using demo_scope [of "ge_runtime demo_engine" "ge_goal demo_engine"]
  by (simp add: pause_def transition_def publish_def build_defs live_cursor_def demo_defs projectGoalLifecycle_def
      planPhaseRequiresContainment_def firstGoalOwnerTurnID_def)

lemma control_revisions_witness:
  "\<exists>g. snd (control demo_env (ControlPause []) demo_engine) = Inr g \<and> Objective g = Objective demo_goal"
proof -
  obtain e' g where c: "control demo_env (ControlPause []) demo_engine = (e', Inr g)" and g: "g \<noteq> demo_goal"
    using demo_pause by (auto split: prod.splits sum.splits)
  have "ge_goal demo_engine = Some demo_goal" by (simp add: demo_engine_def)
  from control_revisions [OF this c] show ?thesis using g c by auto
qed

definition demo_runtime :: goalTurnRuntime where
  "demo_runtime = \<lparr>tr_identity = \<lparr>gi_GoalID = ''g1'', gi_ObjectiveRevision = 1, gi_RootSessionID = ''s'',
     gi_RootThreadID = ''t'', gi_RootAgentID = [], gi_GoalTurnID = ''t1''\<rparr>, tr_activeSince = 600, tr_waiting = {}\<rparr>"

lemma control_excluded_by_turn_witness:
  "fst (control demo_env (ControlPause []) (demo_engine\<lparr>ge_runtime := Some demo_runtime\<rparr>)) =
   demo_engine\<lparr>ge_runtime := Some demo_runtime\<rparr>"
  using control_excluded_by_turn [of "demo_engine\<lparr>ge_runtime := Some demo_runtime\<rparr>" demo_runtime demo_env "ControlPause []"]
  by simp

end
