(* ===== verification/Goal_Cursor.thy ===== *)
theory Goal_Cursor
  imports Goal_State
begin

text \<open>
  The continuation cursor: the first half of src/engine/goal_continuation.go.  A cursor binds the
  terminal of a goal turn to the turn that may follow it.  Its three identifiers are derived from
  its identity by a digest (the SHA-256 of the JSON encoding), which is an argument here: nothing
  below depends on which function it is.
\<close>

section \<open>Data\<close>

record RuntimeInputScope =
  sc_SessionID :: string
  sc_ThreadID :: string
  sc_AgentID :: string

definition runtimeScopesEqual :: "RuntimeInputScope \<Rightarrow> RuntimeInputScope \<Rightarrow> bool" where
  "runtimeScopesEqual left right \<longleftrightarrow>
     sc_SessionID left = sc_SessionID right \<and> sc_ThreadID left = sc_ThreadID right \<and> sc_AgentID left = sc_AgentID right"

record goalContinuationIdentity =
  ci_Version :: nat
  ci_GoalID :: string
  ci_GoalSchemaVersion :: nat
  ci_ObjectiveRevision :: uint64
  ci_GoalRevision :: uint64
  ci_GoalStatus :: goalStatus
  ci_RootSessionID :: string
  ci_RootThreadID :: string
  ci_RootAgentID :: string
  ci_PredecessorGoalTurnID :: string
  ci_PredecessorTerminalSequence :: uint64
  ci_PredecessorTerminalReason :: string
  ci_PredecessorTerminalAt :: time
  ci_TokenBudget :: "uint64 option"
  ci_TokensUsed :: uint64
  ci_UsageLedgerRevision :: uint64
  ci_ContinuationOrdinal :: uint64
  ci_RuntimeRevision :: uint64

type_synonym digest = "goalContinuationIdentity \<Rightarrow> string"

record RuntimeGoalContinuation =
  rg_Version :: int
  rg_CheckpointID :: string
  rg_ContinuationTurnID :: string
  rg_GoalID :: string
  rg_GoalSchemaVersion :: nat
  rg_ObjectiveRevision :: uint64
  rg_GoalRevision :: uint64
  rg_GoalStatus :: goalStatus
  rg_RootSessionID :: string
  rg_RootThreadID :: string
  rg_RootAgentID :: string
  rg_PredecessorGoalTurnID :: string
  rg_PredecessorTerminalSequence :: uint64
  rg_PredecessorTerminalReason :: string
  rg_PredecessorTerminalAt :: time
  rg_TokenBudget :: "uint64 option"
  rg_TokensUsed :: uint64
  rg_UsageLedgerRevision :: uint64
  rg_ContinuationOrdinal :: uint64
  rg_RuntimeRevision :: uint64

text \<open>The versions of session/branch.go and input_coordinator.go.\<close>

definition PersistedGoalStateLegacyVersion :: nat where "PersistedGoalStateLegacyVersion = 1"
definition PersistedGoalStateAccountingVersion :: nat where "PersistedGoalStateAccountingVersion = 2"
definition PersistedGoalStateContinuationVersion :: nat where "PersistedGoalStateContinuationVersion = 3"
definition PersistedGoalStateVersion :: nat where "PersistedGoalStateVersion = 4"
definition PersistedGoalUsageAdmissionVersion :: nat where "PersistedGoalUsageAdmissionVersion = 2"
definition PersistedGoalContinuationLegacyVersion :: nat where "PersistedGoalContinuationLegacyVersion = 1"
definition PersistedGoalContinuationVersion :: nat where "PersistedGoalContinuationVersion = 2"
definition runtimeGoalContinuationLegacyVersion :: int where "runtimeGoalContinuationLegacyVersion = 1"
definition runtimeGoalContinuationVersion :: int where "runtimeGoalContinuationVersion = 2"

lemmas version_defs = PersistedGoalStateLegacyVersion_def PersistedGoalStateAccountingVersion_def
  PersistedGoalStateContinuationVersion_def PersistedGoalStateVersion_def
  PersistedGoalUsageAdmissionVersion_def PersistedGoalContinuationLegacyVersion_def
  PersistedGoalContinuationVersion_def runtimeGoalContinuationLegacyVersion_def runtimeGoalContinuationVersion_def

section \<open>Budgets\<close>

definition goalBudgetHasRemaining :: "uint64 option \<Rightarrow> uint64 \<Rightarrow> bool" where
  "goalBudgetHasRemaining tokenBudget tokensUsed =
     (case tokenBudget of None \<Rightarrow> True | Some b \<Rightarrow> b > tokensUsed)"

definition sameGoalTokenBudget :: "uint64 option \<Rightarrow> uint64 option \<Rightarrow> bool" where
  "sameGoalTokenBudget left right =
     (case (left, right) of (Some a, Some b) \<Rightarrow> a = b | (None, None) \<Rightarrow> True | _ \<Rightarrow> False)"

section \<open>Identities and validation\<close>

definition cursor_identity :: "goalContinuationCursor \<Rightarrow> goalContinuationIdentity" where
  "cursor_identity c =
     \<lparr>ci_Version = gc_Version c, ci_GoalID = gc_GoalID c, ci_GoalSchemaVersion = gc_GoalSchemaVersion c,
      ci_ObjectiveRevision = gc_ObjectiveRevision c, ci_GoalRevision = gc_GoalRevision c,
      ci_GoalStatus = gc_GoalStatus c, ci_RootSessionID = gc_RootSessionID c, ci_RootThreadID = gc_RootThreadID c,
      ci_RootAgentID = gc_RootAgentID c, ci_PredecessorGoalTurnID = gc_PredecessorGoalTurnID c,
      ci_PredecessorTerminalSequence = gc_PredecessorTerminalSequence c,
      ci_PredecessorTerminalReason = gc_PredecessorTerminalReason c,
      ci_PredecessorTerminalAt = gc_PredecessorTerminalAt c, ci_TokenBudget = gc_TokenBudget c,
      ci_TokensUsed = gc_TokensUsed c, ci_UsageLedgerRevision = gc_UsageLedgerRevision c,
      ci_ContinuationOrdinal = gc_ContinuationOrdinal c, ci_RuntimeRevision = gc_RuntimeRevision c\<rparr>"

text \<open>The item, checkpoint and turn identifiers of a digest suffix.\<close>

definition continuation_ids :: "string \<Rightarrow> string \<times> string \<times> string" where
  "continuation_ids sfx =
     (''goal-continuation:'' @ sfx, ''goal-continuation-checkpoint:'' @ sfx, ''goal-continuation-turn:'' @ sfx)"

definition expectedGoalContinuationIDs :: "digest \<Rightarrow> goalContinuationCursor \<Rightarrow> string \<times> string \<times> string" where
  "expectedGoalContinuationIDs dg c = continuation_ids (dg (cursor_identity c))"

definition disposition_string :: "goalDisposition \<Rightarrow> string" where
  "disposition_string d =
     (case d of DispositionPending \<Rightarrow> ''pending'' | DispositionAdmitting \<Rightarrow> ''admitting''
      | DispositionRejected \<Rightarrow> ''rejected'' | DispositionDelivered \<Rightarrow> ''delivered'' | DispositionOther s \<Rightarrow> s)"

definition cursor_version_error :: "goalContinuationCursor \<Rightarrow> goal_error option" where
  "cursor_version_error c =
     (if gc_Version c = PersistedGoalContinuationLegacyVersion then
        (if gc_GoalSchemaVersion c \<noteq> PersistedGoalStateContinuationVersion \<or> gc_TokenBudget c = None
         then Some (Errorf ''invalid legacy Goal continuation schema or budget'') else None)
      else if gc_Version c = PersistedGoalContinuationVersion then
        (if gc_GoalSchemaVersion c \<noteq> PersistedGoalStateVersion
         then Some (Errorf ''invalid Goal continuation schema version'') else None)
      else Some (Errorf ''unsupported Goal continuation version''))"

definition cursor_disposition_error :: "goalContinuationCursor \<Rightarrow> goal_error option" where
  "cursor_disposition_error c =
     (case gc_Disposition c of
        DispositionPending \<Rightarrow>
          (if gc_DispositionReason c \<noteq> [] \<or> gc_DispositionAt c \<noteq> 0
           then Some (Errorf ''pending Goal continuation has a terminal disposition'') else None)
      | DispositionOther d \<Rightarrow> Some (Errorf (''unknown Goal continuation disposition '' @ Quote d))
      | _ \<Rightarrow>
          (if TrimUnicode (gc_DispositionReason c) = [] \<or> gc_DispositionAt c = 0
           then Some (Errorf ''terminal Goal continuation disposition is incomplete'') else None))"

definition validateGoalContinuationCursor :: "digest \<Rightarrow> goalContinuationCursor \<Rightarrow> goal_error option" where
  "validateGoalContinuationCursor dg c =
     (if cursor_version_error c \<noteq> None then cursor_version_error c
      else if TrimUnicode (gc_GoalID c) = [] \<or> TrimUnicode (gc_RootSessionID c) = [] \<or>
        TrimUnicode (gc_RootThreadID c) = [] \<or> gc_RootAgentID c \<noteq> []
      then Some (Errorf ''invalid Goal continuation scope'')
      else if gc_ObjectiveRevision c = 0 \<or> gc_GoalRevision c = 0 \<or> gc_GoalStatus c \<noteq> goalStatusActive
      then Some (Errorf ''invalid Goal continuation revision'')
      else if validateGoalTurnID (gc_PredecessorGoalTurnID c) \<noteq> None
      then Some (Errorf ''invalid predecessor Goal turn'')
      else if validateGoalTurnID (gc_ContinuationTurnID c) \<noteq> None
      then Some (Errorf ''invalid continuation Goal turn'')
      else if gc_PredecessorTerminalSequence c = 0 \<or> gc_PredecessorTerminalReason c \<noteq> ''completed'' \<or>
        gc_PredecessorTerminalAt c = 0
      then Some (Errorf ''invalid predecessor terminal'')
      else if \<not> goalBudgetHasRemaining (gc_TokenBudget c) (gc_TokensUsed c) \<or> gc_ContinuationOrdinal c = 0
      then Some (Errorf ''invalid Goal continuation budget or ordinal'')
      else if cursor_disposition_error c \<noteq> None then cursor_disposition_error c
      else if (gc_ItemID c, gc_CheckpointID c, gc_ContinuationTurnID c) \<noteq> expectedGoalContinuationIDs dg c
      then Some (Errorf ''goal continuation deterministic identity mismatch'')
      else None)"

definition newGoalContinuationCursor ::
  "digest \<Rightarrow> goalState \<Rightarrow> RuntimeInputScope \<Rightarrow> string \<Rightarrow> uint64 \<Rightarrow> time \<Rightarrow> uint64 \<Rightarrow> goal_error + goalContinuationCursor" where
  "newGoalContinuationCursor dg state scope terminalReason terminalSequence terminalAt runtimeRevision =
     (if Goal_State.ContinuationOrdinal state = MaxUint64 then Inl (Errorf ''goal continuation ordinal exhausted'')
      else let bare = \<lparr>gc_Version = PersistedGoalContinuationVersion, gc_ItemID = [], gc_CheckpointID = [],
          gc_ContinuationTurnID = [], gc_GoalID = GoalID state, gc_GoalSchemaVersion = PersistedGoalStateVersion,
          gc_ObjectiveRevision = ObjectiveRevision state, gc_GoalRevision = Revision state, gc_GoalStatus = Status state,
          gc_RootSessionID = sc_SessionID scope, gc_RootThreadID = sc_ThreadID scope, gc_RootAgentID = sc_AgentID scope,
          gc_PredecessorGoalTurnID = LastGoalTurnID state, gc_PredecessorTerminalSequence = terminalSequence,
          gc_PredecessorTerminalReason = terminalReason, gc_PredecessorTerminalAt = terminalAt,
          gc_TokenBudget = TokenBudget state, gc_TokensUsed = TokensUsed state,
          gc_UsageLedgerRevision = UsageLedgerRevision state, gc_ContinuationOrdinal = ContinuationOrdinal state + 1,
          gc_RuntimeRevision = runtimeRevision, gc_Disposition = DispositionPending, gc_DispositionReason = [],
          gc_DispositionAt = 0\<rparr>;
          (item, checkpoint, turn) = continuation_ids (dg (cursor_identity bare));
          cursor = bare\<lparr>gc_ItemID := item, gc_CheckpointID := checkpoint, gc_ContinuationTurnID := turn\<rparr>
        in case validateGoalContinuationCursor dg cursor of Some err \<Rightarrow> Inl err | None \<Rightarrow> Inr cursor)"

section \<open>The queued item\<close>

text \<open>Of the runtime item of a cursor the payload, identifier and scope; the rest is constant.\<close>

definition goalContinuationPayload :: "goalContinuationCursor \<Rightarrow> RuntimeGoalContinuation" where
  "goalContinuationPayload c =
     \<lparr>rg_Version = (if gc_Version c = PersistedGoalContinuationLegacyVersion
        then runtimeGoalContinuationLegacyVersion else runtimeGoalContinuationVersion),
      rg_CheckpointID = gc_CheckpointID c, rg_ContinuationTurnID = gc_ContinuationTurnID c, rg_GoalID = gc_GoalID c,
      rg_GoalSchemaVersion = gc_GoalSchemaVersion c, rg_ObjectiveRevision = gc_ObjectiveRevision c,
      rg_GoalRevision = gc_GoalRevision c, rg_GoalStatus = gc_GoalStatus c, rg_RootSessionID = gc_RootSessionID c,
      rg_RootThreadID = gc_RootThreadID c, rg_RootAgentID = gc_RootAgentID c,
      rg_PredecessorGoalTurnID = gc_PredecessorGoalTurnID c,
      rg_PredecessorTerminalSequence = gc_PredecessorTerminalSequence c,
      rg_PredecessorTerminalReason = gc_PredecessorTerminalReason c,
      rg_PredecessorTerminalAt = gc_PredecessorTerminalAt c, rg_TokenBudget = gc_TokenBudget c,
      rg_TokensUsed = gc_TokensUsed c, rg_UsageLedgerRevision = gc_UsageLedgerRevision c,
      rg_ContinuationOrdinal = gc_ContinuationOrdinal c, rg_RuntimeRevision = gc_RuntimeRevision c\<rparr>"

definition validateRuntimeGoalContinuation ::
  "digest \<Rightarrow> string \<Rightarrow> RuntimeInputScope \<Rightarrow> RuntimeGoalContinuation \<Rightarrow> goal_error option" where
  "validateRuntimeGoalContinuation dg itemID scope payload =
     (if rg_Version payload \<noteq> runtimeGoalContinuationLegacyVersion \<and> rg_Version payload \<noteq> runtimeGoalContinuationVersion
      then Some (Errorf ''unsupported payload version'')
      else let cursor = \<lparr>gc_Version = (if rg_Version payload = runtimeGoalContinuationLegacyVersion
            then PersistedGoalContinuationLegacyVersion else PersistedGoalContinuationVersion),
          gc_ItemID = TrimUnicode itemID, gc_CheckpointID = rg_CheckpointID payload,
          gc_ContinuationTurnID = rg_ContinuationTurnID payload, gc_GoalID = rg_GoalID payload,
          gc_GoalSchemaVersion = rg_GoalSchemaVersion payload, gc_ObjectiveRevision = rg_ObjectiveRevision payload,
          gc_GoalRevision = rg_GoalRevision payload, gc_GoalStatus = rg_GoalStatus payload,
          gc_RootSessionID = rg_RootSessionID payload, gc_RootThreadID = rg_RootThreadID payload,
          gc_RootAgentID = rg_RootAgentID payload, gc_PredecessorGoalTurnID = rg_PredecessorGoalTurnID payload,
          gc_PredecessorTerminalSequence = rg_PredecessorTerminalSequence payload,
          gc_PredecessorTerminalReason = rg_PredecessorTerminalReason payload,
          gc_PredecessorTerminalAt = rg_PredecessorTerminalAt payload, gc_TokenBudget = rg_TokenBudget payload,
          gc_TokensUsed = rg_TokensUsed payload, gc_UsageLedgerRevision = rg_UsageLedgerRevision payload,
          gc_ContinuationOrdinal = rg_ContinuationOrdinal payload, gc_RuntimeRevision = rg_RuntimeRevision payload,
          gc_Disposition = DispositionPending, gc_DispositionReason = [], gc_DispositionAt = 0\<rparr>
        in if \<not> runtimeScopesEqual scope \<lparr>sc_SessionID = gc_RootSessionID cursor, sc_ThreadID = gc_RootThreadID cursor,
              sc_AgentID = gc_RootAgentID cursor\<rparr>
           then Some (Errorf ''payload scope does not match item scope'')
           else validateGoalContinuationCursor dg cursor)"

section \<open>Round trip\<close>

text \<open>
  A cursor survives the queue: a new cursor is valid and pending, one ordinal after the goal's,
  and the item queued for it validates in the scope it was derived in, so it is the cursor's own
  identity that the queue checks.
\<close>

lemma cursor_round_trip:
  assumes "newGoalContinuationCursor dg g scope reason seq at runtimeRevision = Inr c"
    and "TrimUnicode (gc_ItemID c) = gc_ItemID c"
  shows "validateGoalContinuationCursor dg c = None \<and> gc_Disposition c = DispositionPending \<and>
    unat (gc_ContinuationOrdinal c) = Suc (unat (ContinuationOrdinal g)) \<and>
    validateRuntimeGoalContinuation dg (gc_ItemID c) scope (goalContinuationPayload c) = None"
proof -
  have c: "validateGoalContinuationCursor dg c = None" "gc_Disposition c = DispositionPending"
    "gc_DispositionReason c = []" "gc_DispositionAt c = 0" "gc_Version c = PersistedGoalContinuationVersion"
    "gc_RootSessionID c = sc_SessionID scope" "gc_RootThreadID c = sc_ThreadID scope" "gc_RootAgentID c = sc_AgentID scope"
    "gc_ContinuationOrdinal c = ContinuationOrdinal g + 1" "ContinuationOrdinal g \<noteq> MaxUint64"
    using assms(1) by (auto simp: newGoalContinuationCursor_def Let_def continuation_ids_def split: if_splits option.splits)
  have "validateRuntimeGoalContinuation dg (gc_ItemID c) scope (goalContinuationPayload c) = validateGoalContinuationCursor dg c"
    using c assms(2)
    by (cases c) (simp add: validateRuntimeGoalContinuation_def goalContinuationPayload_def runtimeScopesEqual_def version_defs Let_def)
  then show ?thesis using c word_Suc [OF c(10)] by simp
qed

lemma cursor_round_trip_witness:
  "\<exists>c. newGoalContinuationCursor (\<lambda>_. ''d'') (demo_goal\<lparr>LastGoalTurnID := ''t1''\<rparr>)
      \<lparr>sc_SessionID = ''s'', sc_ThreadID = ''t'', sc_AgentID = []\<rparr> ''completed'' 9 700 4 = Inr c \<and>
     unat (gc_ContinuationOrdinal c) = 1"
proof -
  obtain c where c: "newGoalContinuationCursor (\<lambda>_. ''d'') (demo_goal\<lparr>LastGoalTurnID := ''t1''\<rparr>)
      \<lparr>sc_SessionID = ''s'', sc_ThreadID = ''t'', sc_AgentID = []\<rparr> ''completed'' 9 700 4 = Inr c"
    "gc_ItemID c = ''goal-continuation:d''"
    by (simp add: newGoalContinuationCursor_def Let_def continuation_ids_def validateGoalContinuationCursor_def
      cursor_version_error_def cursor_disposition_error_def expectedGoalContinuationIDs_def cursor_identity_def
      validateGoalTurnID_def goalBudgetHasRemaining_def version_defs demo_defs create_build_def
      planPhaseRequiresContainment_def plain_eval)
  moreover have "TrimUnicode (gc_ItemID c) = gc_ItemID c" using c(2) by (simp add: plain_eval)
  ultimately show ?thesis using cursor_round_trip [OF c(1)]
    by (auto simp: demo_defs create_build_def planPhaseRequiresContainment_def)
qed

end
