(* ===== verification/Input_Item.thy ===== *)
theory Input_Item
  imports Goal_Cursor "HOL-Library.AList" "HOL-Library.Product_Lexorder" "HOL-Library.Char_ord" "HOL-Library.List_Lexorder"
begin

text \<open>
  The data of the runtime input coordinator, src/engine/input_coordinator.go: runtime items with
  one payload per kind, their validation, and the admission receipts that acknowledge a retried
  request.  Four things are arguments, bundled in the environment: the JSON encoding of an item
  (two items are equal when their encodings are), the digest of an admission payload, the checks
  of images and of durable prompt records, and what the media store resolves such a record to.
\<close>

section \<open>Errors and environment\<close>

datatype input_error = InputError string | RuntimeInputConflictError string | InputGoalError goal_error

datatype RuntimeInputPriority = RuntimePriorityNow | RuntimePriorityNext | RuntimePriorityLater | RuntimePriorityOther string

text \<open>The empty delivery mode has its own constructor.\<close>

datatype PromptDeliveryMode = PromptDeliveryDefault | PromptDeliverySteer | PromptDeliveryNextTurn | PromptDeliveryOther string

definition validPromptDelivery :: "PromptDeliveryMode \<Rightarrow> bool" where
  "validPromptDelivery mode \<longleftrightarrow>
     mode = PromptDeliveryDefault \<or> mode = PromptDeliverySteer \<or> mode = PromptDeliveryNextTurn"

datatype RuntimeItemKind =
    RuntimeItemUserPrompt | RuntimeItemSteering | RuntimeItemAgentMessage | RuntimeItemAgentNotification
  | RuntimeItemAsyncRewake | RuntimeItemPermissionDecision | RuntimeItemGoalContinuation | RuntimeItemStop
  | RuntimeItemOtherKind string

datatype RuntimeItemState = RuntimeItemPending | RuntimeItemProcessing | RuntimeItemRejected | RuntimeItemOtherState string

datatype RuntimeStopMode = RuntimeStopGraceful | RuntimeStopImmediate | RuntimeStopOther string

datatype PermissionInteractionDecision =
    PermissionAllowOnce | PermissionAllowSession | PermissionAllowAlways | PermissionDeny | PermissionCancelled
  | PermissionTimedOut | PermissionOtherDecision string

datatype PermissionDecisionConstraint = PermissionDecisionUnconstrained | PermissionAllowOnceOnly | PermissionConstraintOther string

definition constraint_valid :: "PermissionDecisionConstraint \<Rightarrow> bool" where
  "constraint_valid c \<longleftrightarrow> c = PermissionDecisionUnconstrained \<or> c = PermissionAllowOnceOnly"

section \<open>Payloads\<close>

record UserImage =
  im_Name :: string
  im_Path :: string
  im_MIMEType :: string
  im_Base64Data :: string

text \<open>Of a part of a durable prompt only the text is read here; \<open>pp_rest\<close> stands for the other payloads.\<close>

record promptPart =
  pp_Kind :: string
  pp_Text :: "string option"
  pp_rest :: string

record promptRecord =
  pr_Version :: int
  pr_TurnID :: string
  pr_Parts :: "promptPart list"

text \<open>The writer is the capability of the coordinator that published a durable prompt.\<close>

record RuntimeUserPrompt =
  up_Display :: string
  up_Prompt :: string
  up_Images :: "UserImage list"
  up_durablePrompt :: "promptRecord option"
  up_materializedInput :: "string option"
  up_writer :: "nat option"
  up_writerItemID :: string

record RuntimeAgentMessage =
  am_From :: string
  am_To :: string
  am_Content :: string

record RuntimeAgentNotification =
  an_ReceiptVersion :: int
  an_CompletionID :: string
  an_AgentID :: string
  an_ToolUseID :: string
  an_Status :: string
  an_Description :: string
  an_OutputFile :: string
  an_Message :: string
  an_Generation :: int
  an_TerminalSequence :: uint64

record RuntimeAsyncRewake =
  aw_HookID :: string
  aw_Event :: string
  aw_HookName :: string
  aw_ToolName :: string
  aw_Outcome :: string
  aw_ExitCode :: int
  aw_ModelPrompt :: string

text \<open>The message, updated input and plan approval of a result travel unread in \<open>pd_ResultRest\<close>.\<close>

record RuntimePermissionDecision =
  pd_Version :: int
  pd_RequestID :: string
  pd_InterruptID :: string
  pd_InvocationDigest :: string
  pd_PolicyRevision :: string
  pd_DecisionConstraint :: PermissionDecisionConstraint
  pd_Decision :: PermissionInteractionDecision
  pd_ResultRest :: string

record RuntimeItemRejection =
  rj_Version :: int
  rj_Code :: string
  rj_RejectedAt :: time

record RuntimeStop =
  rs_Mode :: RuntimeStopMode
  rs_Reason :: string

record RuntimeItem =
  ri_Version :: int
  ri_ID :: string
  ri_Kind :: RuntimeItemKind
  ri_Priority :: RuntimeInputPriority
  ri_Delivery :: PromptDeliveryMode
  ri_Scope :: RuntimeInputScope
  ri_Sequence :: uint64
  ri_EnqueuedAt :: time
  ri_State :: RuntimeItemState
  ri_IsMeta :: bool
  ri_Origin :: string
  ri_Provenance :: string
  ri_UserPrompt :: "RuntimeUserPrompt option"
  ri_AgentMessage :: "RuntimeAgentMessage option"
  ri_AgentNotification :: "RuntimeAgentNotification option"
  ri_AsyncRewake :: "RuntimeAsyncRewake option"
  ri_PermissionDecision :: "RuntimePermissionDecision option"
  ri_GoalContinuation :: "RuntimeGoalContinuation option"
  ri_Stop :: "RuntimeStop option"
  ri_Rejection :: "RuntimeItemRejection option"

definition runtimeItemVersion :: int where "runtimeItemVersion = 1"
definition runtimeItemDeliveryVersion :: int where "runtimeItemDeliveryVersion = 2"
definition runtimeInputEnvelopeLegacyVersion :: int where "runtimeInputEnvelopeLegacyVersion = 1"
definition runtimeInputEnvelopeVersion :: int where "runtimeInputEnvelopeVersion = 2"
definition runtimeInputAdmissionReceiptVersion :: int where "runtimeInputAdmissionReceiptVersion = 1"
definition runtimeItemRejectionVersion :: int where "runtimeItemRejectionVersion = 1"
definition AgentCompletionReceiptVersion :: int where "AgentCompletionReceiptVersion = 1"
definition projectGraphHITLDecisionVersion :: int where "projectGraphHITLDecisionVersion = 1"
definition runtimeInputAdmissionDigestAlgorithm :: string where "runtimeInputAdmissionDigestAlgorithm = ''sha256-v1''"

lemmas input_version_defs = runtimeItemVersion_def runtimeItemDeliveryVersion_def runtimeInputEnvelopeLegacyVersion_def
  runtimeInputEnvelopeVersion_def runtimeInputAdmissionReceiptVersion_def runtimeItemRejectionVersion_def
  AgentCompletionReceiptVersion_def projectGraphHITLDecisionVersion_def runtimeInputAdmissionDigestAlgorithm_def

record runtimeInputAdmissionPayload =
  ap_Version :: int
  ap_Kind :: RuntimeItemKind
  ap_Priority :: RuntimeInputPriority
  ap_Delivery :: PromptDeliveryMode
  ap_Scope :: RuntimeInputScope
  ap_IsMeta :: bool
  ap_Origin :: string
  ap_Provenance :: string
  ap_Display :: string
  ap_Prompt :: string

record runtimeInputAdmissionReceipt =
  ar_Version :: int
  ar_ID :: string
  ar_Kind :: RuntimeItemKind
  ar_Scope :: RuntimeInputScope
  ar_DigestAlgorithm :: string
  ar_PayloadDigest :: string
  ar_Sequence :: uint64
  ar_EnqueuedAt :: time

record runtimeInputEnvelope =
  en_Version :: int
  en_Revision :: uint64
  en_NextSequence :: uint64
  en_Items :: "RuntimeItem list"
  en_AdmissionReceipts :: "runtimeInputAdmissionReceipt list"

text \<open>
  The environment of an operation: the clock; the outcome of replacing the ledger file; the JSON
  encoding (\<open>None\<close> when it fails); the digests; the checks of images and prompt records; the
  media store; and the lookup in the transcript, when one is configured.
\<close>

record input_env =
  iv_now :: time
  iv_write :: "runtimeInputEnvelope \<Rightarrow> input_error option"
  iv_json :: "RuntimeItem \<Rightarrow> string option"
  iv_digest :: "runtimeInputAdmissionPayload \<Rightarrow> string"
  iv_goalDigest :: digest
  iv_validPrompt :: "promptRecord \<Rightarrow> bool"
  iv_imagesErr :: "UserImage list \<Rightarrow> input_error option"
  iv_resolve :: "promptRecord \<Rightarrow> string option"
  iv_lookup :: "(string set \<Rightarrow> input_error + string set) option"

section \<open>Priorities, scopes, equality\<close>

definition runtimePriorityOrdinal :: "RuntimeInputPriority \<Rightarrow> nat" where
  "runtimePriorityOrdinal p =
     (case p of RuntimePriorityNow \<Rightarrow> 0 | RuntimePriorityNext \<Rightarrow> 1 | RuntimePriorityLater \<Rightarrow> 2 | RuntimePriorityOther _ \<Rightarrow> 1)"

definition normalizedRuntimePriority :: "RuntimeInputPriority \<Rightarrow> RuntimeInputPriority" where
  "normalizedRuntimePriority p = (if p = RuntimePriorityOther [] then RuntimePriorityNext else p)"

definition normalizeScope :: "RuntimeInputScope \<Rightarrow> RuntimeInputScope \<Rightarrow> RuntimeInputScope" where
  "normalizeScope own scope =
     \<lparr>sc_SessionID = TrimUnicode (if TrimUnicode (sc_SessionID scope) = [] then sc_SessionID own else sc_SessionID scope),
      sc_ThreadID = TrimUnicode (if TrimUnicode (sc_ThreadID scope) = [] then sc_ThreadID own else sc_ThreadID scope),
      sc_AgentID = TrimUnicode (if TrimUnicode (sc_AgentID scope) = [] \<and> sc_AgentID own \<noteq> [] then sc_AgentID own
        else sc_AgentID scope)\<rparr>"

definition runtimeItemByID :: "RuntimeItem list \<Rightarrow> string \<Rightarrow> RuntimeItem option" where
  "runtimeItemByID items itemID = find (\<lambda>item. ri_ID item = itemID) items"

definition runtimeItemsEqual :: "(RuntimeItem \<Rightarrow> string option) \<Rightarrow> RuntimeItem \<Rightarrow> RuntimeItem \<Rightarrow> bool" where
  "runtimeItemsEqual json left right =
     (case (json left, json right) of (Some a, Some b) \<Rightarrow> a = b | _ \<Rightarrow> False)"

definition hasPendingGoalContinuation :: "RuntimeItem list \<Rightarrow> bool" where
  "hasPendingGoalContinuation items =
     list_ex (\<lambda>item. ri_State item = RuntimeItemPending \<and> ri_Kind item = RuntimeItemGoalContinuation) items"

definition hasTransportEligiblePending :: "RuntimeItem list \<Rightarrow> bool" where
  "hasTransportEligiblePending items =
     list_ex (\<lambda>item. ri_State item = RuntimeItemPending \<and> ri_Kind item \<noteq> RuntimeItemGoalContinuation) items"

definition durablePromptText :: "promptRecord \<Rightarrow> string" where
  "durablePromptText r =
     concat (map (\<lambda>p. if pp_Kind p = ''text'' then (case pp_Text p of None \<Rightarrow> [] | Some t \<Rightarrow> t) else []) (pr_Parts r))"

definition runtimeItemPrompt :: "RuntimeItem \<Rightarrow> string" where
  "runtimeItemPrompt item =
     (case ri_Kind item of
        RuntimeItemAgentMessage \<Rightarrow> (case ri_AgentMessage item of None \<Rightarrow> [] | Some m \<Rightarrow> am_Content m)
      | RuntimeItemAgentNotification \<Rightarrow> (case ri_AgentNotification item of None \<Rightarrow> [] | Some n \<Rightarrow> an_Message n)
      | RuntimeItemAsyncRewake \<Rightarrow> (case ri_AsyncRewake item of None \<Rightarrow> [] | Some w \<Rightarrow> aw_ModelPrompt w)
      | k \<Rightarrow>
         (if k = RuntimeItemUserPrompt \<or> k = RuntimeItemSteering then
            (case ri_UserPrompt item of
               None \<Rightarrow> []
             | Some p \<Rightarrow> (case up_durablePrompt p of None \<Rightarrow> up_Prompt p | Some r \<Rightarrow> durablePromptText r))
          else []))"

section \<open>Normalising and validating items\<close>

definition is_prompt :: "RuntimeItemKind \<Rightarrow> bool" where
  "is_prompt k \<longleftrightarrow> k = RuntimeItemUserPrompt \<or> k = RuntimeItemSteering"

text \<open>The result says whether names or paths of images were removed.\<close>

definition normalizeRuntimeItemPayload :: "RuntimeItem \<Rightarrow> RuntimeItem \<times> bool" where
  "normalizeRuntimeItemPayload item =
     (case (if is_prompt (ri_Kind item) then ri_UserPrompt item else None) of
        Some p \<Rightarrow>
          (item\<lparr>ri_UserPrompt := Some (p\<lparr>up_Images := map (\<lambda>i. i\<lparr>im_Name := [], im_Path := []\<rparr>) (up_Images p)\<rparr>)\<rparr>,
           list_ex (\<lambda>i. im_Name i \<noteq> [] \<or> im_Path i \<noteq> []) (up_Images p))
      | None \<Rightarrow>
         (case (if ri_Kind item = RuntimeItemAgentNotification then ri_AgentNotification item else None) of
            None \<Rightarrow> (item, False)
          | Some n \<Rightarrow>
             (let g = (if an_Generation n \<le> 0 then 1 else an_Generation n) in
              (item\<lparr>ri_AgentNotification := Some (n\<lparr>
                  an_ReceiptVersion := (if an_ReceiptVersion n = 0 then AgentCompletionReceiptVersion else an_ReceiptVersion n),
                  an_CompletionID := (if TrimUnicode (an_CompletionID n) = [] then TrimUnicode (ri_ID item) else an_CompletionID n),
                  an_Generation := g,
                  an_TerminalSequence := (if an_TerminalSequence n = 0 then word_of_int g else an_TerminalSequence n)\<rparr>)\<rparr>,
               False))))"

definition validateRuntimeItemUserImages :: "input_env \<Rightarrow> RuntimeItem \<Rightarrow> input_error option" where
  "validateRuntimeItemUserImages env item =
     (case (if is_prompt (ri_Kind item) then ri_UserPrompt item else None) of
        None \<Rightarrow> None
      | Some p \<Rightarrow>
         (case up_durablePrompt p of
            Some r \<Rightarrow>
              (if up_Images p \<noteq> [] \<or> TrimUnicode (up_Prompt p) \<noteq> []
               then Some (InputError ''item mixes durable and inline prompt media'')
               else if \<not> iv_validPrompt env r then Some (InputError ''item has invalid durable prompt'')
               else None)
          | None \<Rightarrow> iv_imagesErr env (up_Images p)))"

definition validate_state :: "RuntimeItem \<Rightarrow> input_error option" where
  "validate_state item =
     (case ri_State item of
        RuntimeItemRejected \<Rightarrow>
         (case ri_Rejection item of
            None \<Rightarrow> Some (InputError ''item has invalid rejection'')
          | Some r \<Rightarrow>
             (if ri_Kind item \<noteq> RuntimeItemGoalContinuation \<or> rj_Version r \<noteq> runtimeItemRejectionVersion \<or>
                TrimUnicode (rj_Code r) = [] \<or> rj_RejectedAt r = 0
              then Some (InputError ''item has invalid rejection'') else None))
      | RuntimeItemOtherState s \<Rightarrow> Some (InputError ''item has invalid state'')
      | _ \<Rightarrow>
         (if ri_Rejection item \<noteq> None then Some (InputError ''item has rejection outside rejected state'') else None))"

definition payload_count :: "RuntimeItem \<Rightarrow> nat" where
  "payload_count item =
     of_bool (ri_UserPrompt item \<noteq> None) + of_bool (ri_AgentMessage item \<noteq> None) +
     of_bool (ri_AgentNotification item \<noteq> None) + of_bool (ri_AsyncRewake item \<noteq> None) +
     of_bool (ri_PermissionDecision item \<noteq> None) + of_bool (ri_GoalContinuation item \<noteq> None) + of_bool (ri_Stop item \<noteq> None)"

definition validate_prompt :: "input_env \<Rightarrow> nat \<Rightarrow> RuntimeItem \<Rightarrow> input_error option" where
  "validate_prompt env writer item =
     (case ri_UserPrompt item of
        None \<Rightarrow> Some (InputError ''item has no user prompt'')
      | Some p \<Rightarrow>
         (if up_durablePrompt p = None \<and> TrimUnicode (runtimeItemPrompt item) = []
          then Some (InputError ''item has no user prompt'')
          else if up_durablePrompt p \<noteq> None \<and> (up_writer p \<noteq> Some writer \<or> up_writerItemID p \<noteq> ri_ID item)
          then Some (InputError ''item has unauthorized durable prompt'')
          else validateRuntimeItemUserImages env item))"

definition validate_payload :: "input_env \<Rightarrow> nat \<Rightarrow> RuntimeItem \<Rightarrow> input_error option" where
  "validate_payload env writer item =
     (case ri_Kind item of
        RuntimeItemUserPrompt \<Rightarrow> validate_prompt env writer item
      | RuntimeItemSteering \<Rightarrow> validate_prompt env writer item
      | RuntimeItemAgentMessage \<Rightarrow>
         (case ri_AgentMessage item of
            None \<Rightarrow> Some (InputError ''item has no Agent message'')
          | Some m \<Rightarrow> if TrimUnicode (am_Content m) = [] then Some (InputError ''item has no Agent message'') else None)
      | RuntimeItemAgentNotification \<Rightarrow>
         (case ri_AgentNotification item of
            None \<Rightarrow> Some (InputError ''item has invalid Agent notification'')
          | Some n \<Rightarrow>
             (if an_ReceiptVersion n \<noteq> AgentCompletionReceiptVersion \<or> TrimUnicode (an_CompletionID n) = [] \<or>
                an_CompletionID n \<noteq> ri_ID item \<or> TrimUnicode (an_AgentID n) = [] \<or> TrimUnicode (an_Message n) = [] \<or>
                an_Generation n \<le> 0 \<or> an_TerminalSequence n = 0
              then Some (InputError ''item has invalid Agent notification'') else None))
      | RuntimeItemAsyncRewake \<Rightarrow>
         (case ri_AsyncRewake item of
            None \<Rightarrow> Some (InputError ''item has invalid async rewake'')
          | Some w \<Rightarrow>
             (if TrimUnicode (aw_HookID w) = [] \<or> TrimUnicode (aw_ModelPrompt w) = []
              then Some (InputError ''item has invalid async rewake'') else None))
      | RuntimeItemPermissionDecision \<Rightarrow>
         (case ri_PermissionDecision item of
            None \<Rightarrow> Some (InputError ''item has invalid permission decision'')
          | Some d \<Rightarrow>
             (if pd_Version d \<noteq> projectGraphHITLDecisionVersion \<or> TrimUnicode (pd_RequestID d) = [] \<or>
                TrimUnicode (pd_InterruptID d) = [] \<or> TrimUnicode (pd_InvocationDigest d) = [] \<or>
                TrimUnicode (pd_PolicyRevision d) = [] \<or> \<not> constraint_valid (pd_DecisionConstraint d)
              then Some (InputError ''item has invalid permission decision'')
              else case pd_Decision d of
                PermissionOtherDecision s \<Rightarrow> Some (InputError ''item has invalid permission result'')
              | _ \<Rightarrow> None))
      | RuntimeItemGoalContinuation \<Rightarrow>
         (case ri_GoalContinuation item of
            None \<Rightarrow> Some (InputError ''item has no Goal continuation'')
          | Some g \<Rightarrow> map_option InputGoalError (validateRuntimeGoalContinuation (iv_goalDigest env) (ri_ID item) (ri_Scope item) g))
      | RuntimeItemStop \<Rightarrow>
         (case ri_Stop item of
            None \<Rightarrow> Some (InputError ''item has no stop payload'')
          | Some s \<Rightarrow>
             (case rs_Mode s of RuntimeStopOther m \<Rightarrow> Some (InputError ''item has invalid stop mode'') | _ \<Rightarrow> None))
      | RuntimeItemOtherKind s \<Rightarrow> Some (InputError ''item has invalid kind''))"

definition validateItem :: "input_env \<Rightarrow> RuntimeInputScope \<Rightarrow> nat \<Rightarrow> RuntimeItem \<Rightarrow> input_error option" where
  "validateItem env own writer item =
     (if ri_Version item \<noteq> runtimeItemVersion \<and> ri_Version item \<noteq> runtimeItemDeliveryVersion
      then Some (InputError ''item has unsupported version'')
      else if validate_state item \<noteq> None then validate_state item
      else if ri_Priority item \<notin> {RuntimePriorityNow, RuntimePriorityNext, RuntimePriorityLater}
      then Some (InputError ''item has invalid priority'')
      else if ri_Delivery item \<noteq> PromptDeliveryDefault \<and> ri_Version item \<noteq> runtimeItemDeliveryVersion \<or>
        \<not> validPromptDelivery (ri_Delivery item) \<or>
        ri_Delivery item \<noteq> PromptDeliveryDefault \<and> ri_Kind item \<noteq> RuntimeItemUserPrompt
      then Some (InputError ''item has invalid delivery mode'')
      else if sc_SessionID (ri_Scope item) = [] \<or> sc_SessionID (ri_Scope item) \<noteq> sc_SessionID own
      then Some (InputError ''item has invalid session scope'')
      else if sc_ThreadID (ri_Scope item) \<noteq> sc_ThreadID own then Some (InputError ''item has invalid thread scope'')
      else if sc_AgentID (ri_Scope item) \<noteq> sc_AgentID own then Some (InputError ''item has invalid Agent scope'')
      else if payload_count item \<noteq> 1 then Some (InputError ''item must contain exactly one payload'')
      else validate_payload env writer item)"

section \<open>Admission receipts\<close>

definition runtimeInputAdmissionDigest :: "input_env \<Rightarrow> RuntimeItem \<Rightarrow> input_error + string" where
  "runtimeInputAdmissionDigest env item =
     (case (if ri_Kind item = RuntimeItemUserPrompt then ri_UserPrompt item else None) of
        None \<Rightarrow> Inl (InputError ''admission receipt requires one plain text user prompt'')
      | Some p \<Rightarrow>
         (if up_Images p \<noteq> [] \<or> up_durablePrompt p \<noteq> None \<or> up_materializedInput p \<noteq> None
          then Inl (InputError ''admission receipt requires one plain text user prompt'')
          else let prompt = TrimUnicode (up_Prompt p); display = TrimUnicode (up_Display p) in
            if prompt = [] then Inl (InputError ''admission receipt prompt is required'')
            else Inr (iv_digest env
              \<lparr>ap_Version = runtimeInputAdmissionReceiptVersion, ap_Kind = ri_Kind item,
               ap_Priority = normalizedRuntimePriority (ri_Priority item), ap_Delivery = ri_Delivery item,
               ap_Scope = ri_Scope item, ap_IsMeta = ri_IsMeta item, ap_Origin = TrimUnicode (ri_Origin item),
               ap_Provenance = TrimUnicode (ri_Provenance item),
               ap_Display = (if display = [] then prompt else display), ap_Prompt = prompt\<rparr>)))"

definition validateRuntimeInputAdmissionReceipt :: "runtimeInputAdmissionReceipt \<Rightarrow> input_error option" where
  "validateRuntimeInputAdmissionReceipt r =
     (if ar_Version r \<noteq> runtimeInputAdmissionReceiptVersion then Some (InputError ''unsupported version'')
      else if TrimUnicode (ar_ID r) = [] then Some (InputError ''identity is required'')
      else if ar_Kind r \<noteq> RuntimeItemUserPrompt then Some (InputError ''unsupported kind'')
      else if TrimUnicode (sc_SessionID (ar_Scope r)) = [] then Some (InputError ''session scope is required'')
      else if ar_DigestAlgorithm r \<noteq> runtimeInputAdmissionDigestAlgorithm then Some (InputError ''unsupported digest algorithm'')
      else if \<not> hex_digest (ar_PayloadDigest r) then Some (InputError ''payload digest is invalid'')
      else if ar_Sequence r = 0 \<or> ar_EnqueuedAt r = 0 then Some (InputError ''original ordering metadata is required'')
      else None)"

definition runtimeInputAdmissionReceiptFor :: "input_env \<Rightarrow> RuntimeItem \<Rightarrow> input_error + runtimeInputAdmissionReceipt" where
  "runtimeInputAdmissionReceiptFor env item =
     (case runtimeInputAdmissionDigest env item of
        Inl err \<Rightarrow> Inl err
      | Inr d \<Rightarrow>
         (if ri_Sequence item = 0 \<or> ri_EnqueuedAt item = 0
          then Inl (InputError ''admission receipt requires original ordering metadata'')
          else let r = \<lparr>ar_Version = runtimeInputAdmissionReceiptVersion, ar_ID = TrimUnicode (ri_ID item),
                 ar_Kind = ri_Kind item, ar_Scope = ri_Scope item,
                 ar_DigestAlgorithm = runtimeInputAdmissionDigestAlgorithm, ar_PayloadDigest = d,
                 ar_Sequence = ri_Sequence item, ar_EnqueuedAt = ri_EnqueuedAt item\<rparr>
            in case validateRuntimeInputAdmissionReceipt r of Some err \<Rightarrow> Inl err | None \<Rightarrow> Inr r))"

definition runtimeInputAdmissionReceiptMatches ::
  "input_env \<Rightarrow> runtimeInputAdmissionReceipt \<Rightarrow> RuntimeItem \<Rightarrow> input_error + bool" where
  "runtimeInputAdmissionReceiptMatches env r item =
     (case validateRuntimeInputAdmissionReceipt r of
        Some err \<Rightarrow> Inl err
      | None \<Rightarrow>
         (case runtimeInputAdmissionDigest env item of
            Inl err \<Rightarrow> Inl err
          | Inr d \<Rightarrow> Inr (ar_ID r = TrimUnicode (ri_ID item) \<and> ar_Kind r = ri_Kind item \<and>
              runtimeScopesEqual (ar_Scope r) (ri_Scope item) \<and> ar_PayloadDigest r = d)))"

definition orderedRuntimeInputAdmissionReceipts ::
  "(string \<times> runtimeInputAdmissionReceipt) list \<Rightarrow> runtimeInputAdmissionReceipt list" where
  "orderedRuntimeInputAdmissionReceipts rs = sort_key (\<lambda>r. (ar_Sequence r, ar_ID r)) (map snd rs)"

section \<open>The file form\<close>

text \<open>
  An item as it comes back from the ledger: fields that are not exported are gone, and a durable
  prompt carries no inline text.
\<close>

definition wire_prompt :: "RuntimeUserPrompt \<Rightarrow> RuntimeUserPrompt" where
  "wire_prompt p = p\<lparr>up_Prompt := (if up_durablePrompt p = None then up_Prompt p else []),
     up_materializedInput := None, up_writer := None, up_writerItemID := []\<rparr>"

definition wire_item :: "RuntimeItem \<Rightarrow> RuntimeItem" where
  "wire_item item = item\<lparr>ri_UserPrompt := map_option wire_prompt (ri_UserPrompt item)\<rparr>"

end
