(* ===== verification/Goal_Turn.thy ===== *)
theory Goal_Turn
  imports Input_Item
begin

text \<open>
  Goal turns: src/engine/goal_runtime.go and the turn operations of goal_continuation.go.  A turn
  that owns the boundary begins, collects evidence (a completion request, blocker reports), is
  suspended while it waits for a permission or a child, and ends with its terminal event.  The
  code replaces a zero time argument by the clock; the environment's time is the one in effect.
\<close>

section \<open>What a turn meets\<close>

text \<open>
  Beyond the goal environment: the digest, the encoding of items, the coordinator's scope, items, revision, the item and
  revision it admits a claimed continuation with, and the outcome of queueing one; whether the
  goal workflow is enabled; the last event sequence of the thread; and the outcomes of reducing
  the two terminal events.
\<close>

record turn_env = goal_env +
  tv_digest :: digest
  tv_json :: "RuntimeItem \<Rightarrow> string option"
  tv_scope :: RuntimeInputScope
  tv_items :: "RuntimeItem list"
  tv_revision :: uint64
  tv_admission :: "goal_error + RuntimeItem \<times> uint64"
  tv_enqueue :: "goalContinuationCursor \<Rightarrow> goal_error option"
  tv_completeEnabled :: bool
  tv_sequence :: uint64
  tv_goalEvent :: "goal_error option"
  tv_terminalEvent :: "goal_error + uint64"

section \<open>Admission of a continuation\<close>

definition runtimeGoalContinuationMatchesCursor :: "RuntimeItem \<Rightarrow> goalContinuationCursor \<Rightarrow> bool" where
  "runtimeGoalContinuationMatchesCursor item c \<longleftrightarrow>
     ri_ID item = gc_ItemID c \<and> ri_Kind item = RuntimeItemGoalContinuation \<and>
     ri_GoalContinuation item = Some (goalContinuationPayload c) \<and>
     runtimeScopesEqual (ri_Scope item)
       \<lparr>sc_SessionID = gc_RootSessionID c, sc_ThreadID = gc_RootThreadID c, sc_AgentID = gc_RootAgentID c\<rparr>"

definition validateGoalContinuationAdmission ::
  "goalState option \<Rightarrow> RuntimeItem \<Rightarrow> RuntimeInputScope \<Rightarrow> string \<Rightarrow> goal_error option" where
  "validateGoalContinuationAdmission state item scope turnID =
     (case state of
        None \<Rightarrow> Some (Errorf ''goal continuation has no active owner'')
      | Some g \<Rightarrow>
         (case Continuation g of
            None \<Rightarrow> Some (Errorf ''goal continuation has no active owner'')
          | Some c \<Rightarrow>
             (if unavailable g \<or> Status g \<noteq> goalStatusActive
              then Some (Errorf ''goal continuation has no active owner'')
              else if gc_Disposition c \<noteq> DispositionPending \<and> gc_Disposition c \<noteq> DispositionAdmitting
              then Some (Errorf (''goal continuation is already '' @ disposition_string (gc_Disposition c)))
              else if \<not> runtimeGoalContinuationMatchesCursor item c \<or> \<not> runtimeScopesEqual scope (ri_Scope item) \<or>
                turnID \<noteq> gc_ContinuationTurnID c
              then Some (Errorf ''goal continuation immutable identity is stale'')
              else if GoalID g \<noteq> gc_GoalID c \<or> ObjectiveRevision g \<noteq> gc_ObjectiveRevision c \<or>
                LastTerminalSequence g \<noteq> gc_PredecessorTerminalSequence c \<or>
                \<not> sameGoalTokenBudget (TokenBudget g) (gc_TokenBudget c) \<or> TokensUsed g \<noteq> gc_TokensUsed c \<or>
                UsageLedgerRevision g \<noteq> gc_UsageLedgerRevision c \<or> ContinuationOrdinal g \<noteq> gc_ContinuationOrdinal c \<or>
                PendingUsageAdmission g \<noteq> None \<or> \<not> goalBudgetHasRemaining (TokenBudget g) (TokensUsed g)
              then Some (Errorf ''goal continuation state or accounting identity is stale'')
              else if gc_Disposition c = DispositionPending then
                (if Revision g \<noteq> gc_GoalRevision c \<or> LastGoalTurnID g \<noteq> gc_PredecessorGoalTurnID c
                 then Some (Errorf ''goal continuation state revision is stale'') else None)
              else
                (if Revision g \<le> gc_GoalRevision c \<or> LastGoalTurnID g \<noteq> gc_ContinuationTurnID c
                 then Some (Errorf ''goal continuation admitting state is stale'') else None))))"

definition runtimeItemsEqualForGoalClaim :: "(RuntimeItem \<Rightarrow> string option) \<Rightarrow> RuntimeItem \<Rightarrow> RuntimeItem \<Rightarrow> bool" where
  "runtimeItemsEqualForGoalClaim json left right \<longleftrightarrow>
     runtimeItemsEqual json (left\<lparr>ri_State := RuntimeItemPending\<rparr>) (right\<lparr>ri_State := RuntimeItemPending\<rparr>)"

definition rejectContinuationAdmissionLocked ::
  "turn_env \<Rightarrow> goalState \<Rightarrow> string \<Rightarrow> goal_engine \<Rightarrow> goal_engine \<times> goal_error" where
  "rejectContinuationAdmissionLocked env current reason e =
     (case Continuation current of
        None \<Rightarrow> (e, Wrapped ''no durable cursor'' errGoalContinuationPermanentlyRejected)
      | Some c \<Rightarrow>
         (case nextGoalRevision current (gv_now env) of
            Inl err \<Rightarrow> (e, err)
          | Inr g \<Rightarrow>
             (let c' = rejected_cursor (TrimUnicode reason) (gv_now env) c; g' = g\<lparr>Continuation := Some c'\<rparr> in
              case gv_persist env (Some g') of
                Some err \<Rightarrow> (e, Wrapped ''persist permanent Goal continuation rejection'' err)
              | None \<Rightarrow>
                 (e\<lparr>ge_goal := Some g'\<rparr>,
                  case retire_cursor (goal_env.truncate env) c' of
                    Some err \<Rightarrow> Joined errGoalContinuationPermanentlyRejected err
                  | None \<Rightarrow> Wrapped (gc_DispositionReason c') errGoalContinuationPermanentlyRejected))))"

definition admit_claim :: "turn_env \<Rightarrow> string \<Rightarrow> RuntimeItem \<Rightarrow> goalState \<Rightarrow> goal_error + goalState" where
  "admit_claim env turnID item current =
     (case tv_admission env of
        Inl err \<Rightarrow> Inl err
      | Inr (claimed, runtimeRevision) \<Rightarrow>
         (let c = the (Continuation current) in
          if \<not> runtimeItemsEqualForGoalClaim (tv_json env) claimed item
          then Inl (Errorf ''goal continuation claim changed before admission'')
          else if runtimeRevision \<le> gc_RuntimeRevision c
          then Inl (Errorf ''goal continuation runtime revision did not advance through enqueue and claim'')
          else case nextGoalRevision current (gv_now env) of
            Inl err \<Rightarrow> Inl err
          | Inr g \<Rightarrow>
             (let g' = g\<lparr>LastGoalTurnID := turnID, Continuation := Some (c\<lparr>gc_Disposition := DispositionAdmitting,
                gc_DispositionReason := ''continuation-turn-admitted'', gc_DispositionAt := gv_now env\<rparr>)\<rparr>
              in case gv_persist env (Some g') of
                   Some err \<Rightarrow> Inl (Wrapped ''persist Goal continuation admission'' err)
                 | None \<Rightarrow> Inr g')))"

definition beginContinuationTurn ::
  "turn_env \<Rightarrow> string \<Rightarrow> RuntimeItem \<Rightarrow> goal_engine \<Rightarrow> goal_engine \<times> (goal_error + goalState)" where
  "beginContinuationTurn env turnID item e =
     (if gv_coordinatorErr env \<noteq> None then (e, Inl errGoalUnsupportedScope)
      else case validateGoalContinuationAdmission (ge_goal e) item (tv_scope env) turnID of
        Some err \<Rightarrow> (e, Inl err)
      | None \<Rightarrow>
         (let current = the (ge_goal e) in
          if gc_Disposition (the (Continuation current)) = DispositionAdmitting then (e, Inr current)
          else case admit_claim env turnID item current of
            Inr g \<Rightarrow> (e, Inr g)
          | Inl err \<Rightarrow>
             (if error_is err errGoalContinuationPermanentlyRejected then
                (case rejectContinuationAdmissionLocked env current ''superseded-by-explicit-user-input'' e of
                   (e', err') \<Rightarrow> (e', Inl err'))
              else (e, Inl err))))"

section \<open>Beginning a turn\<close>

text \<open>A turn that is no continuation: it takes the turn over, and supersedes a live cursor.\<close>

definition begin_plain_turn :: "turn_env \<Rightarrow> string \<Rightarrow> bool \<Rightarrow> goalState \<Rightarrow> goal_error + goalState" where
  "begin_plain_turn env turnID userSteering current =
     (case nextGoalRevision current (gv_now env) of
        Inl err \<Rightarrow> Inl err
      | Inr g \<Rightarrow>
         (let g1 = g\<lparr>LastGoalTurnID := turnID\<rparr>;
              g2 = (if userSteering then resetGoalTurnEvidence g1 else g1);
              reason = (if userSteering then ''superseded-by-user-steering'' else ''superseded-by-new-goal-turn'');
              g3 = (case live_cursor g2 of None \<Rightarrow> g2 | Some c \<Rightarrow> g2\<lparr>Continuation := Some (rejected_cursor reason (gv_now env) c)\<rparr>)
          in case gv_persist env (Some g3) of
               Some err \<Rightarrow> Inl (Wrapped ''persist Goal turn admission'' err)
             | None \<Rightarrow> Inr g3))"

definition start_runtime :: "turn_env \<Rightarrow> string \<Rightarrow> goalState \<Rightarrow> goal_engine \<Rightarrow> goal_engine \<times> goalExecutionIdentity" where
  "start_runtime env turnID g e =
     (let identity = \<lparr>gi_GoalID = GoalID g, gi_ObjectiveRevision = ObjectiveRevision g, gi_RootSessionID = ge_SessionID e,
        gi_RootThreadID = ge_ThreadID e, gi_RootAgentID = ge_AgentID e, gi_GoalTurnID = turnID\<rparr>
      in (e\<lparr>ge_goal := Some g,
            ge_runtime := Some \<lparr>tr_identity = identity, tr_activeSince = gv_now env, tr_waiting = {}\<rparr>\<rparr>, identity))"

text \<open>
  The result is the goal announced as started with the turn's identity; \<open>None\<close> when there is no
  active goal.
\<close>

definition beginTurn ::
  "turn_env \<Rightarrow> string \<Rightarrow> bool \<Rightarrow> RuntimeItem option \<Rightarrow> goal_engine \<Rightarrow>
   goal_engine \<times> (goal_error + (goalState \<times> goalExecutionIdentity) option)" where
  "beginTurn env turnID userSteering continuation e =
     (case validateGoalTurnID turnID of
        Some err \<Rightarrow> (e, Inl err)
      | None \<Rightarrow>
        (if (continuation \<noteq> None \<or> userSteering) \<and> gv_coordinatorErr env \<noteq> None
         then (e, Inl (the (gv_coordinatorErr env)))
         else if ge_planActiveTurnID e \<noteq> turnID then (e, Inl (Errorf ''goal turn does not own active boundary''))
         else case ge_goal e of
           None \<Rightarrow> (e, Inr None)
         | Some current \<Rightarrow>
           (if unavailable current \<or> Status current \<noteq> goalStatusActive then (e, Inr None)
            else if PendingUsageAdmission current \<noteq> None then (e, Inl errGoalUsageAdmissionPending)
            else case validateGoalScopeLocked e of
              Some err \<Rightarrow> (e, Inl err)
            | None \<Rightarrow>
              (if ge_runtime e \<noteq> None then (e, Inl (Errorf ''goal turn is already active''))
               else case continuation of
                 Some item \<Rightarrow>
                  (case beginContinuationTurn env turnID item e of
                     (e', Inl err) \<Rightarrow> (e', Inl err)
                   | (e', Inr g) \<Rightarrow> (case start_runtime env turnID g e' of (e'', identity) \<Rightarrow> (e'', Inr (Some (g, identity)))))
               | None \<Rightarrow>
                  (case begin_plain_turn env turnID userSteering current of
                     Inl err \<Rightarrow> (e, Inl err)
                   | Inr g \<Rightarrow>
                      (case (case Continuation g of
                          Some c \<Rightarrow> if gc_Disposition c = DispositionRejected
                            then retireGoalContinuationItem (goal_env.truncate env) userSteering (gc_ItemID c)
                              (gc_DispositionReason c) (gv_now env)
                            else None
                        | None \<Rightarrow> None) of
                         Some err \<Rightarrow> (e\<lparr>ge_goal := Some g\<rparr>, Inl err)
                       | None \<Rightarrow> (case start_runtime env turnID g e of (e', identity) \<Rightarrow> (e', Inr (Some (g, identity))))))))))"

section \<open>Active time\<close>

text \<open>
  The active interval of the running turn is added to the goal's active time in milliseconds,
  saturating at the largest 64-bit integer; \<open>time.Time.Sub\<close> saturates as well.
\<close>

definition add_active :: "int \<Rightarrow> time \<Rightarrow> time \<Rightarrow> int" where
  "add_active millis since now =
     (if now > since then
        (let elapsed = min MaxInt64 (now - since) div 1000000 in
         if elapsed > 0 then (if millis > MaxInt64 - elapsed then MaxInt64 else millis + elapsed) else millis)
      else millis)"

definition stopActiveIntervalLocked :: "time \<Rightarrow> goalTurnRuntime option \<Rightarrow> goalState \<Rightarrow> goalTurnRuntime option \<times> goalState" where
  "stopActiveIntervalLocked now rt g =
     (case rt of
        None \<Rightarrow> (None, g)
      | Some r \<Rightarrow>
         (if tr_activeSince r = 0 then (rt, g)
          else (Some (r\<lparr>tr_activeSince := 0\<rparr>),
            g\<lparr>RootActiveTimeMillis := add_active (RootActiveTimeMillis g) (tr_activeSince r) now\<rparr>)))"

section \<open>Evidence\<close>

text \<open>
  Committing evidence of the running turn.  The mutation also returns the turn's runtime, which
  is changed in place: it stays changed when the checkpoint fails.
\<close>

type_synonym evidence = "time \<Rightarrow> goalTurnRuntime option \<Rightarrow> goalState \<Rightarrow> goalTurnRuntime option \<times> goalState"

definition commitTurnEvidence ::
  "goal_env \<Rightarrow> GoalLifecyclePhase \<Rightarrow> string \<Rightarrow> uint64 \<Rightarrow> string \<Rightarrow> evidence \<Rightarrow> goal_engine \<Rightarrow>
   goal_engine \<times> (goal_error + goalState)" where
  "commitTurnEvidence env phase goalID objectiveRevision turnID mutate e =
     (case validateGoalTurnID turnID of
        Some err \<Rightarrow> (e, Inl err)
      | None \<Rightarrow>
        (case mutableGoalStateError (ge_goal e) of
           Some err \<Rightarrow> (e, Inl err)
         | None \<Rightarrow>
           (let current = the (ge_goal e) in
            if Status current \<noteq> goalStatusActive \<or> GoalID current \<noteq> TrimUnicode goalID \<or>
              ObjectiveRevision current \<noteq> objectiveRevision \<or> LastGoalTurnID current \<noteq> turnID \<or>
              (case ge_runtime e of None \<Rightarrow> True | Some r \<Rightarrow> gi_GoalTurnID (tr_identity r) \<noteq> turnID)
            then (e, Inl (Errorf ''stale Goal turn evidence''))
            else case nextGoalRevision current (gv_now env) of
              Inl err \<Rightarrow> (e, Inl err)
            | Inr g0 \<Rightarrow>
              (case mutate (gv_now env) (ge_runtime e) g0 of
                 (rt, g) \<Rightarrow>
                   (let e1 = e\<lparr>ge_runtime := rt\<rparr> in
                    if phase = GoalLifecycleBlockerReported \<and> BlockerKey g = BlockerKey current \<and>
                      length (BlockerTurnIDs g) = length (BlockerTurnIDs current)
                    then (e1, Inr current)
                    else if Revision g \<noteq> Revision g0 then (e1, Inl (Errorf ''goal evidence mutated revision directly''))
                    else case gv_persist env (Some g) of
                      Some err \<Rightarrow> (e1, Inl (Wrapped ''persist Goal turn evidence'' err))
                    | None \<Rightarrow>
                      (let phase' = (if phase = GoalLifecycleBlockerReported \<and> Status g = goalStatusBlocked
                             then GoalLifecycleBlocked else phase)
                       in (projectGoalLifecycle phase' g turnID (gv_now env) (e1\<lparr>ge_goal := Some g\<rparr>), Inr g)))))))"

definition requestCompletion ::
  "goal_env \<Rightarrow> string \<Rightarrow> uint64 \<Rightarrow> string \<Rightarrow> goal_engine \<Rightarrow> goal_engine \<times> (goal_error + goalState)" where
  "requestCompletion env goalID objectiveRevision turnID =
     commitTurnEvidence env GoalLifecycleCompletionRequested goalID objectiveRevision turnID
       (\<lambda>_ rt g. (rt, g\<lparr>PendingCompleteTurnID := turnID, PendingCompleteObjectiveRevision := objectiveRevision\<rparr>))"

definition blocker_evidence :: "string \<Rightarrow> string \<Rightarrow> string \<Rightarrow> evidence" where
  "blocker_evidence key reason turnID at rt g =
     (let g1 = (if BlockerKey g \<noteq> key then g\<lparr>BlockerKey := key, BlockerTurnIDs := []\<rparr> else g) in
      if turnID \<in> set (BlockerTurnIDs g1) then (rt, g1)
      else let g2 = g1\<lparr>BlockerTurnIDs := BlockerTurnIDs g1 @ [turnID]\<rparr> in
        if length (BlockerTurnIDs g2) < 3 then (rt, g2)
        else stopActiveIntervalLocked at rt
          (g2\<lparr>BlockerTurnIDs := drop (length (BlockerTurnIDs g2) - 3) (BlockerTurnIDs g2),
              Status := goalStatusBlocked, StatusReasonCode := ''model-blocker'', StatusReason := reason\<rparr>))"

definition reportBlocker ::
  "goal_env \<Rightarrow> string \<Rightarrow> uint64 \<Rightarrow> string \<Rightarrow> string \<Rightarrow> string \<Rightarrow> goal_engine \<Rightarrow> goal_engine \<times> (goal_error + goalState)" where
  "reportBlocker env goalID objectiveRevision turnID rawReason rawKey e =
     (case normalizeGoalReason rawReason of
        Inl err \<Rightarrow> (e, Inl err)
      | Inr reason \<Rightarrow>
         (case normalizeGoalBlockerKey rawKey of
            Inl err \<Rightarrow> (e, Inl err)
          | Inr key \<Rightarrow>
             commitTurnEvidence env GoalLifecycleBlockerReported goalID objectiveRevision turnID
               (blocker_evidence key reason turnID) e))"

section \<open>Waiting\<close>

text \<open>The result is the goal to announce, \<open>None\<close> when nothing changed.\<close>

definition pauseTurnFor :: "goal_env \<Rightarrow> string \<Rightarrow> goal_engine \<Rightarrow> goal_engine \<times> (goal_error + goalState option)" where
  "pauseTurnFor env rawReason e =
     (let reason = TrimUnicode rawReason in
      if reason = [] then (e, Inl (Errorf ''goal wait reason is required''))
      else case (ge_runtime e, ge_goal e) of
        (Some r, Some current) \<Rightarrow>
          (if unavailable current \<or> Status current \<noteq> goalStatusActive \<or> reason \<in> tr_waiting r then (e, Inr None)
           else case nextGoalRevision current (gv_now env) of
             Inl err \<Rightarrow> (e, Inl err)
           | Inr g0 \<Rightarrow>
             (case (if tr_waiting r = {} then stopActiveIntervalLocked (gv_now env) (Some r) g0 else (Some r, g0)) of
                (rt, g) \<Rightarrow>
                  (case gv_persist env (Some g) of
                     Some err \<Rightarrow> (e, Inl (Wrapped ''persist Goal wait boundary'' err))
                   | None \<Rightarrow>
                     (e\<lparr>ge_goal := Some g, ge_runtime := map_option (\<lambda>r'. r'\<lparr>tr_waiting := insert reason (tr_waiting r)\<rparr>) rt\<rparr>,
                      Inr (Some g)))))
      | _ \<Rightarrow> (e, Inr None))"

definition resumeTurnFor :: "goal_env \<Rightarrow> string \<Rightarrow> goal_engine \<Rightarrow> goal_engine \<times> (goal_error + goalState option)" where
  "resumeTurnFor env rawReason e =
     (let reason = TrimUnicode rawReason in
      if reason = [] then (e, Inl (Errorf ''goal wait reason is required''))
      else case (ge_runtime e, ge_goal e) of
        (Some r, Some current) \<Rightarrow>
          (if reason \<notin> tr_waiting r then (e, Inr None)
           else case nextGoalRevision current (gv_now env) of
             Inl err \<Rightarrow> (e, Inl err)
           | Inr g \<Rightarrow>
             (case gv_persist env (Some g) of
                Some err \<Rightarrow> (e, Inl (Wrapped ''persist Goal wait release'' err))
              | None \<Rightarrow>
                (let waiting = tr_waiting r - {reason};
                     r1 = r\<lparr>tr_waiting := waiting\<rparr>;
                     r2 = (if waiting = {} \<and> Status g = goalStatusActive then r1\<lparr>tr_activeSince := gv_now env\<rparr> else r1)
                 in (e\<lparr>ge_goal := Some g, ge_runtime := Some r2\<rparr>, Inr (Some g)))))
      | _ \<Rightarrow> (e, Inr None))"

definition abandonTurn :: "string \<Rightarrow> goal_engine \<Rightarrow> goal_engine" where
  "abandonTurn goalTurnID e =
     (case ge_runtime e of
        Some r \<Rightarrow> if gi_GoalTurnID (tr_identity r) = TrimUnicode goalTurnID then e\<lparr>ge_runtime := None\<rparr> else e
      | None \<Rightarrow> e)"

section \<open>The terminal event\<close>

definition goalContinuationEligible :: "goalState \<Rightarrow> goalTurnRuntime \<Rightarrow> string \<Rightarrow> bool" where
  "goalContinuationEligible g r terminalReason \<longleftrightarrow>
     Status g = goalStatusActive \<and> terminalReason = ''completed'' \<and> tr_waiting r = {} \<and>
     PendingCompleteTurnID g = [] \<and> PendingCompleteObjectiveRevision g = 0 \<and> PendingUsageAdmission g = None \<and>
     goalBudgetHasRemaining (TokenBudget g) (TokensUsed g)"

definition hasPendingGoalSteering :: "RuntimeItem list \<Rightarrow> bool" where
  "hasPendingGoalSteering items =
     list_ex (\<lambda>item. (ri_State item = RuntimeItemPending \<or> ri_State item = RuntimeItemProcessing) \<and>
       (ri_Kind item = RuntimeItemUserPrompt \<or> ri_Kind item = RuntimeItemSteering)) items"

text \<open>The goal a terminal leaves, before a continuation is derived from it.\<close>

definition terminal_goal :: "turn_env \<Rightarrow> goalExecutionIdentity \<Rightarrow> string \<Rightarrow> uint64 \<Rightarrow> goalTurnRuntime \<Rightarrow> goalState \<Rightarrow> goalState" where
  "terminal_goal env identity reason terminalSequence r g0 =
     (let g1 = (snd (stopActiveIntervalLocked (gv_now env) (Some r) g0))\<lparr>LastTerminalSequence := terminalSequence\<rparr>;
          g2 = (if reason \<noteq> ''completed'' \<and> PendingCompleteTurnID g1 = gi_GoalTurnID identity
                then g1\<lparr>PendingCompleteTurnID := [], PendingCompleteObjectiveRevision := 0\<rparr> else g1)
      in if tv_completeEnabled env \<and> reason = ''completed'' \<and> PendingCompleteTurnID g2 = gi_GoalTurnID identity \<and>
           PendingCompleteObjectiveRevision g2 = gi_ObjectiveRevision identity \<and> PendingUsageAdmission g2 = None \<and>
           gv_coordinatorErr env = None \<and> \<not> hasPendingGoalSteering (tv_items env) \<and> tr_waiting r = {}
         then resetGoalTurnEvidence (g2\<lparr>Status := goalStatusComplete, StatusReasonCode := [],
           StatusReason := ''matching completion request reached the safe terminal boundary''\<rparr>)
         else g2)"

text \<open>
  The terminal of the running turn.  The identity is the one the event carries.  Once the
  checkpoint is written the goal is live and the turn over, even when queueing the continuation
  or reducing the events fails afterwards.
\<close>

definition commitGoalTerminalEvents ::
  "turn_env \<Rightarrow> goalExecutionIdentity \<Rightarrow> string \<Rightarrow> goal_engine \<Rightarrow> goal_engine \<times> (goal_error + goalState)" where
  "commitGoalTerminalEvents env identity reason e =
     (case (ge_runtime e, ge_goal e) of
        (Some r, Some current) \<Rightarrow>
          (if gi_GoalTurnID (tr_identity r) \<noteq> gi_GoalTurnID identity \<or> GoalID current \<noteq> gi_GoalID identity \<or>
             ObjectiveRevision current \<noteq> gi_ObjectiveRevision identity
           then (e, Inl (Errorf ''goal terminal identity is stale''))
           else if tv_sequence env > MaxUint64 - 2 then (e, Inl (Errorf ''runtime sequence exhausted''))
           else case nextGoalRevision current (gv_now env) of
             Inl err \<Rightarrow> (e, Inl err)
           | Inr g0 \<Rightarrow>
             (let terminalSequence = tv_sequence env + 2;
                  g = terminal_goal env identity reason terminalSequence r g0
              in case (if goalContinuationEligible g r reason then
                    (case gv_coordinatorErr env of
                       Some err \<Rightarrow> Inl err
                     | None \<Rightarrow>
                        (case newGoalContinuationCursor (tv_digest env) g (tv_scope env) reason terminalSequence
                            (gv_now env) (tv_revision env) of
                           Inl err \<Rightarrow> Inl err
                         | Inr c \<Rightarrow> Inr (g\<lparr>ContinuationOrdinal := gc_ContinuationOrdinal c, Continuation := Some c\<rparr>)))
                  else Inr g) of
                Inl err \<Rightarrow> (e, Inl err)
              | Inr g' \<Rightarrow>
                (case gv_persist env (Some g') of
                   Some err \<Rightarrow> (e, Inl (Wrapped ''persist Goal terminal boundary'' err))
                 | None \<Rightarrow>
                   (let e1 = e\<lparr>ge_goal := Some g', ge_runtime := None\<rparr>;
                        e2 = (case Continuation g' of
                                Some c \<Rightarrow> if gc_Disposition c = DispositionPending
                                  then recordRuntimeStateError
                                    (map_option (Wrapped ''persist Goal continuation item'') (tv_enqueue env c)) e1
                                  else e1
                              | None \<Rightarrow> e1)
                    in case tv_goalEvent env of
                         Some err \<Rightarrow> (e2, Inl (Wrapped ''goal turn-finished projection was rejected'' err))
                       | None \<Rightarrow>
                          (case tv_terminalEvent env of
                             Inl err \<Rightarrow> (e2, Inl (Wrapped ''goal terminal projection was rejected'' err))
                           | Inr sequence \<Rightarrow>
                              (if sequence \<noteq> terminalSequence
                               then (e2, Inl (Errorf ''goal terminal projection sequence mismatch''))
                               else (e2, Inr g')))))))
      | _ \<Rightarrow> (e, Inl (Errorf ''goal terminal identity is stale'')))"

definition markContinuationDelivered :: "goal_env \<Rightarrow> string \<Rightarrow> string \<Rightarrow> goal_engine \<Rightarrow> goal_engine \<times> goal_error option" where
  "markContinuationDelivered env itemID turnID e =
     (case ge_goal e of
        None \<Rightarrow> (e, Some (Errorf ''goal continuation delivery identity is stale''))
      | Some current \<Rightarrow>
        (case Continuation current of
           None \<Rightarrow> (e, Some (Errorf ''goal continuation delivery identity is stale''))
         | Some c \<Rightarrow>
           (if gc_ItemID c \<noteq> TrimUnicode itemID \<or> gc_ContinuationTurnID c \<noteq> TrimUnicode turnID \<or>
              gc_Disposition c \<noteq> DispositionAdmitting
            then (e, Some (Errorf ''goal continuation delivery identity is stale''))
            else case nextGoalRevision current (gv_now env) of
              Inl err \<Rightarrow> (e, Some err)
            | Inr g \<Rightarrow>
              (let g' = g\<lparr>Continuation := Some (c\<lparr>gc_Disposition := DispositionDelivered,
                   gc_DispositionReason := ''transcript-receipt-committed'', gc_DispositionAt := gv_now env\<rparr>)\<rparr>
               in case gv_persist env (Some g') of
                    Some err \<Rightarrow> (e, Some (Wrapped ''persist Goal continuation delivery'' err))
                  | None \<Rightarrow> (e\<lparr>ge_goal := Some g'\<rparr>, None)))))"

text \<open>
  Cancellation by the user pauses an active goal inside its turn.  The active interval is stopped
  before the checkpoint and stays stopped when that fails.
\<close>

definition pauseForCancellation :: "goal_env \<Rightarrow> goal_engine \<Rightarrow> goal_engine \<times> goal_error option" where
  "pauseForCancellation env e =
     (case ge_goal e of
        None \<Rightarrow> (e, None)
      | Some current \<Rightarrow>
        (if unavailable current \<or> Status current \<noteq> goalStatusActive then (e, None)
         else case nextGoalRevision current (gv_now env) of
           Inl err \<Rightarrow> (e, Some err)
         | Inr g0 \<Rightarrow>
           (case stopActiveIntervalLocked (gv_now env) (ge_runtime e)
               (resetGoalTurnEvidence (g0\<lparr>Status := goalStatusPaused, StatusReasonCode := ''user-cancelled'',
                  StatusReason := ''automatic Goal continuation was cancelled by the user''\<rparr>)) of
              (rt, g1) \<Rightarrow>
                (let e1 = e\<lparr>ge_runtime := rt\<rparr>;
                     retired = map_option (rejected_cursor ''superseded-by-user-cancel'' (gv_now env)) (live_cursor g1);
                     g2 = (if retired \<noteq> None then g1\<lparr>Continuation := retired\<rparr> else g1)
                 in if retired \<noteq> None \<and> gv_coordinatorErr env \<noteq> None then (e1, gv_coordinatorErr env)
                    else case gv_persist env (Some g2) of
                      Some err \<Rightarrow> (e1, Some (Wrapped ''persist Goal cancellation'' err))
                    | None \<Rightarrow>
                      (let e2 = e1\<lparr>ge_goal := Some g2\<rparr>;
                           e3 = (case retired of None \<Rightarrow> e2 | Some c \<Rightarrow> recordRuntimeStateError (retire_cursor env c) e2)
                       in (projectGoalLifecycle GoalLifecyclePaused g2 (LastGoalTurnID g2) (gv_now env) e3, None))))))"

end
