(* ===== verification/Goal_Run.thy ===== *)
theory Goal_Run
  imports Goal_Turn
begin

text \<open>
  What every operation of a goal turn (Goal_Turn) does to the goal: one description of the
  operations together, the frame they keep, their durability, the bounds of the active time, the
  blocker count and the completion guard.
\<close>

section \<open>The operations of a turn\<close>

datatype turn_op =
    Turn_Begin string bool "RuntimeItem option" | Turn_RequestCompletion string uint64 string
  | Turn_ReportBlocker string uint64 string string string | Turn_PauseFor string | Turn_ResumeFor string
  | Turn_Abandon string | Turn_Terminal goalExecutionIdentity string | Turn_Delivered string string | Turn_Cancel

fun run_turn :: "turn_env \<Rightarrow> turn_op \<Rightarrow> goal_engine \<Rightarrow> goal_engine" where
  "run_turn env (Turn_Begin turnID steering item) e = fst (beginTurn env turnID steering item e)"
| "run_turn env (Turn_RequestCompletion goalID objRev turnID) e =
     fst (requestCompletion (goal_env.truncate env) goalID objRev turnID e)"
| "run_turn env (Turn_ReportBlocker goalID objRev turnID reason key) e =
     fst (reportBlocker (goal_env.truncate env) goalID objRev turnID reason key e)"
| "run_turn env (Turn_PauseFor reason) e = fst (pauseTurnFor (goal_env.truncate env) reason e)"
| "run_turn env (Turn_ResumeFor reason) e = fst (resumeTurnFor (goal_env.truncate env) reason e)"
| "run_turn env (Turn_Abandon turnID) e = abandonTurn turnID e"
| "run_turn env (Turn_Terminal identity reason) e = fst (commitGoalTerminalEvents env identity reason e)"
| "run_turn env (Turn_Delivered itemID turnID) e = fst (markContinuationDelivered (goal_env.truncate env) itemID turnID e)"
| "run_turn env Turn_Cancel e = fst (pauseForCancellation (goal_env.truncate env) e)"

lemma env_truncate [simp]:
  "gv_now (goal_env.truncate env) = gv_now env" "gv_persist (goal_env.truncate env) = gv_persist env"
  "gv_coordinatorErr (goal_env.truncate env) = gv_coordinatorErr env"
  by (simp_all add: goal_env.truncate_def)

text \<open>
  A step of a turn on the goal: one revision, at the time of the step, the identity, objective,
  budget and accounting kept, the active time changed by the elapsed interval only.
\<close>

definition turn_change :: "bool \<Rightarrow> time \<Rightarrow> goalTurnRuntime option \<Rightarrow> goalState \<Rightarrow> goalState \<Rightarrow> bool" where
  "turn_change d now rt g g' \<longleftrightarrow>
     Revision g \<noteq> MaxUint64 \<and> Revision g' = Revision g + 1 \<and> UpdatedAt g' = now \<and> GoalID g' = GoalID g \<and>
     Objective g' = Objective g \<and> ObjectiveRevision g' = ObjectiveRevision g \<and> TokenBudget g' = TokenBudget g \<and>
     TokensUsed g' = TokensUsed g \<and> UsageLedgerRevision g' = UsageLedgerRevision g \<and>
     PendingUsageAdmission g' = PendingUsageAdmission g \<and> CreatedAt g' = CreatedAt g \<and>
     unavailable g' = unavailable g \<and> unavailablePersisted g' = unavailablePersisted g \<and>
     RootActiveTimeMillis g' \<in> {RootActiveTimeMillis g, RootActiveTimeMillis (snd (stopActiveIntervalLocked now rt g))} \<and>
     (Status g' = Status g \<or> Status g' = goalStatusPaused \<or>
      PendingUsageAdmission g = None \<and> (Status g' = goalStatusBlocked \<or> d \<and> Status g' = goalStatusComplete))"

lemma stop_simps [simp]:
  "GoalID (snd (stopActiveIntervalLocked t rt g)) = GoalID g"
  "Objective (snd (stopActiveIntervalLocked t rt g)) = Objective g"
  "ObjectiveRevision (snd (stopActiveIntervalLocked t rt g)) = ObjectiveRevision g"
  "Status (snd (stopActiveIntervalLocked t rt g)) = Status g"
  "Revision (snd (stopActiveIntervalLocked t rt g)) = Revision g"
  "TokenBudget (snd (stopActiveIntervalLocked t rt g)) = TokenBudget g"
  "TokensUsed (snd (stopActiveIntervalLocked t rt g)) = TokensUsed g"
  "UsageLedgerRevision (snd (stopActiveIntervalLocked t rt g)) = UsageLedgerRevision g"
  "PendingUsageAdmission (snd (stopActiveIntervalLocked t rt g)) = PendingUsageAdmission g"
  "PendingCompleteTurnID (snd (stopActiveIntervalLocked t rt g)) = PendingCompleteTurnID g"
  "PendingCompleteObjectiveRevision (snd (stopActiveIntervalLocked t rt g)) = PendingCompleteObjectiveRevision g"
  "Continuation (snd (stopActiveIntervalLocked t rt g)) = Continuation g"
  "BlockerKey (snd (stopActiveIntervalLocked t rt g)) = BlockerKey g"
  "BlockerTurnIDs (snd (stopActiveIntervalLocked t rt g)) = BlockerTurnIDs g"
  "CreatedAt (snd (stopActiveIntervalLocked t rt g)) = CreatedAt g"
  "UpdatedAt (snd (stopActiveIntervalLocked t rt g)) = UpdatedAt g"
  "unavailable (snd (stopActiveIntervalLocked t rt g)) = unavailable g"
  "unavailablePersisted (snd (stopActiveIntervalLocked t rt g)) = unavailablePersisted g"
  by (simp_all add: stopActiveIntervalLocked_def split: option.split)

lemma stop_active_cong:
  "RootActiveTimeMillis g = RootActiveTimeMillis h \<Longrightarrow>
   RootActiveTimeMillis (snd (stopActiveIntervalLocked t rt g)) = RootActiveTimeMillis (snd (stopActiveIntervalLocked t rt h))"
  by (simp add: stopActiveIntervalLocked_def split: option.split)

definition turn_effect :: "bool \<Rightarrow> turn_env \<Rightarrow> goal_engine \<Rightarrow> goal_engine \<Rightarrow> bool" where
  "turn_effect d env e e' \<longleftrightarrow>
     ge_goal e' = ge_goal e \<or>
     (\<exists>g g'. ge_goal e = Some g \<and> ge_goal e' = Some g' \<and> gv_persist env (Some g') = None \<and>
        turn_change d (gv_now env) (ge_runtime e) g g')"

lemma turn_effect_refl [simp]: "turn_effect d env e e"
  by (simp add: turn_effect_def)

lemmas turn_simps = nextGoalRevision_def resetGoalTurnEvidence_def turn_change_def

subsection \<open>Each operation\<close>

lemma begin_plain_change:
  "begin_plain_turn env turnID steering g = Inr g' \<Longrightarrow> gv_persist env (Some g') = None \<and> turn_change False (gv_now env) rt g g'"
  by (auto simp: begin_plain_turn_def turn_simps Let_def split: sum.splits if_splits option.splits)

lemma admit_claim_change:
  "admit_claim env turnID item g = Inr g' \<Longrightarrow> gv_persist env (Some g') = None \<and> turn_change False (gv_now env) rt g g'"
  by (auto simp: admit_claim_def turn_simps Let_def split: sum.splits if_splits option.splits prod.splits)

lemma reject_change:
  "rejectContinuationAdmissionLocked env g reason e = (e', err) \<Longrightarrow> ge_goal e = Some g \<Longrightarrow>
   turn_effect False env e e' \<and> ge_runtime e' = ge_runtime e"
  by (auto simp: rejectContinuationAdmissionLocked_def turn_effect_def turn_simps Let_def split: sum.splits if_splits option.splits)

lemma beginContinuation_change:
  assumes "beginContinuationTurn env turnID item e = (e', r)"
  shows "case r of Inl err \<Rightarrow> turn_effect False env e e' \<and> ge_runtime e' = ge_runtime e
    | Inr g' \<Rightarrow> e' = e \<and> (ge_goal e = Some g' \<or>
        (\<exists>g. ge_goal e = Some g \<and> gv_persist env (Some g') = None \<and> turn_change False (gv_now env) (ge_runtime e) g g'))"
proof (cases "gv_coordinatorErr env = None \<and> validateGoalContinuationAdmission (ge_goal e) item (tv_scope env) turnID = None")
  case True
  then obtain g where g: "ge_goal e = Some g"
    by (auto simp: validateGoalContinuationAdmission_def split: option.splits)
  show ?thesis using assms True g
    by (auto simp: beginContinuationTurn_def Let_def split: if_splits sum.splits prod.splits
        dest: reject_change admit_claim_change [where rt = "ge_runtime e"])
qed (use assms in \<open>auto simp: beginContinuationTurn_def split: if_splits option.splits\<close>)

lemma start_runtime_goal: "start_runtime env turnID g e = (e', i) \<Longrightarrow> ge_goal e' = Some g"
  by (auto simp: start_runtime_def Let_def)

lemma begin_continuation_effect:
  "turn_effect False env e (fst (case beginContinuationTurn env turnID it e of
      (e', Inl err) \<Rightarrow> (e', Inl err)
    | (e', Inr g) \<Rightarrow> (case start_runtime env turnID g e' of (e'', identity) \<Rightarrow> (e'', Inr (Some (g, identity))))))"
  using beginContinuation_change [of env turnID it e]
  by (auto simp: turn_effect_def dest!: start_runtime_goal split: prod.split sum.split)

lemma begin_effect: "turn_effect False env e (run_turn env (Turn_Begin turnID steering item) e)"
proof (cases item)
  case None
  have eff: "ge_goal e = Some g \<Longrightarrow> begin_plain_turn env turnID steering g = Inr g' \<Longrightarrow> ge_goal e' = Some g' \<Longrightarrow>
      turn_effect False env e e'" for g g' e'
    using begin_plain_change by (auto simp: turn_effect_def)
  show ?thesis unfolding run_turn.simps beginTurn_def None
    by (auto dest!: start_runtime_goal split: option.split sum.split prod.split intro: eff)
next
  case (Some it)
  show ?thesis unfolding run_turn.simps beginTurn_def Some
    using begin_continuation_effect [of env e turnID it]
    by (auto split: option.split simp del: split_beta)
qed

definition evidence_change :: "evidence \<Rightarrow> bool" where
  "evidence_change mutate \<longleftrightarrow>
     (\<forall>now rt g g'. Status g = goalStatusActive \<longrightarrow> PendingUsageAdmission g = None \<longrightarrow> Revision g \<noteq> MaxUint64 \<longrightarrow>
        g' = snd (mutate now rt (g\<lparr>Revision := Revision g + 1, UpdatedAt := now\<rparr>)) \<longrightarrow> turn_change False now rt g g')"

lemma commitTurnEvidence_effect:
  assumes "evidence_change mutate" "gv_persist env' = gv_persist env" "gv_now env' = gv_now env"
  shows "turn_effect False env e (fst (commitTurnEvidence env' phase goalID objRev turnID mutate e))"
proof (cases "mutableGoalStateError (ge_goal e)")
  case None
  then obtain g where g: "ge_goal e = Some g" "PendingUsageAdmission g = None"
    by (auto simp: mutableGoalStateError_def split: option.splits if_splits)
  have change: "turn_change False (gv_now env) (ge_runtime e) g g'"
    if "Status g = goalStatusActive" "nextGoalRevision g (gv_now env) = Inr g0" "mutate (gv_now env) (ge_runtime e) g0 = (rt, g')"
    for g0 rt g'
    using assms(1) [unfolded evidence_change_def] that g(2) by (auto simp: nextGoalRevision_def split: if_splits) (metis snd_conv)
  show ?thesis
    using None g change assms(2,3)
    by (auto simp: commitTurnEvidence_def Let_def turn_effect_def projectGoalLifecycle_def split: option.splits sum.splits prod.splits)
qed (simp add: commitTurnEvidence_def split: option.split)

lemma request_effect: "turn_effect False env e (run_turn env (Turn_RequestCompletion goalID objRev turnID) e)"
  by (auto simp: requestCompletion_def evidence_change_def turn_change_def intro!: commitTurnEvidence_effect)

lemma blocker_evidence_change: "evidence_change (blocker_evidence key reason turnID)"
  by (auto simp: evidence_change_def blocker_evidence_def turn_change_def Let_def
      intro: stop_active_cong)

lemma blocker_effect: "turn_effect False env e (run_turn env (Turn_ReportBlocker goalID objRev turnID reason key) e)"
  by (auto simp: reportBlocker_def intro!: commitTurnEvidence_effect blocker_evidence_change split: sum.split)

lemma pause_effect: "turn_effect False env e (run_turn env (Turn_PauseFor reason) e)"
  by (auto simp: pauseTurnFor_def turn_effect_def turn_simps Let_def stopActiveIntervalLocked_def
      split: option.split sum.split if_split)

lemma resume_effect: "turn_effect False env e (run_turn env (Turn_ResumeFor reason) e)"
  by (auto simp: resumeTurnFor_def turn_effect_def turn_simps Let_def split: option.split sum.split if_split)

lemma terminal_goal_kept:
  "(case terminal_goal env identity reason seq r g of g' \<Rightarrow>
     Revision g' = Revision g \<and> UpdatedAt g' = UpdatedAt g \<and> GoalID g' = GoalID g \<and> Objective g' = Objective g \<and>
     ObjectiveRevision g' = ObjectiveRevision g \<and> TokenBudget g' = TokenBudget g \<and> TokensUsed g' = TokensUsed g \<and>
     UsageLedgerRevision g' = UsageLedgerRevision g \<and> PendingUsageAdmission g' = PendingUsageAdmission g \<and>
     CreatedAt g' = CreatedAt g \<and> unavailable g' = unavailable g \<and> unavailablePersisted g' = unavailablePersisted g \<and>
     RootActiveTimeMillis g' = RootActiveTimeMillis (snd (stopActiveIntervalLocked (gv_now env) (Some r) g)) \<and>
     (Status g' = Status g \<or> Status g' = goalStatusComplete \<and> PendingUsageAdmission g = None))"
  by (simp add: terminal_goal_def Let_def resetGoalTurnEvidence_def)

lemma terminal_goal_change:
  assumes "nextGoalRevision g (gv_now env) = Inr g0"
  shows "turn_change True (gv_now env) (Some r) g (terminal_goal env identity reason seq r g0)"
proof -
  have g0: "g0 = g\<lparr>Revision := Revision g + 1, UpdatedAt := gv_now env\<rparr>" "Revision g \<noteq> MaxUint64"
    using assms by (auto simp: nextGoalRevision_def split: if_splits)
  show ?thesis using terminal_goal_kept [of env identity reason seq r g0] g0 stop_active_cong [of g0 g "gv_now env" "Some r"]
    by (auto simp: turn_change_def)
qed

lemma turn_change_continuation [simp]:
  "turn_change d now rt g (g'\<lparr>ContinuationOrdinal := n, Continuation := c\<rparr>) = turn_change d now rt g g'"
  by (simp add: turn_change_def)

text \<open>What a terminal writes: the goal of the terminal, with a new cursor when it is to be continued.\<close>

definition terminal_next ::
  "turn_env \<Rightarrow> goalExecutionIdentity \<Rightarrow> string \<Rightarrow> goalTurnRuntime \<Rightarrow> goalState \<Rightarrow> goal_error + goalState" where
  "terminal_next env identity reason r g0 =
     (let g = terminal_goal env identity reason (tv_sequence env + 2) r g0 in
      if goalContinuationEligible g r reason then
        (case gv_coordinatorErr env of
           Some err \<Rightarrow> Inl err
         | None \<Rightarrow>
            (case newGoalContinuationCursor (tv_digest env) g (tv_scope env) reason (tv_sequence env + 2)
                (gv_now env) (tv_revision env) of
               Inl err \<Rightarrow> Inl err
             | Inr c \<Rightarrow> Inr (g\<lparr>ContinuationOrdinal := gc_ContinuationOrdinal c, Continuation := Some c\<rparr>)))
      else Inr g)"

lemma terminal_cases:
  obtains (refused) err where "commitGoalTerminalEvents env identity reason e = (e, Inl err)"
  | (committed) r g g0 g' where "ge_runtime e = Some r" "ge_goal e = Some g" "nextGoalRevision g (gv_now env) = Inr g0"
      "gi_GoalTurnID (tr_identity r) = gi_GoalTurnID identity" "terminal_next env identity reason r g0 = Inr g'"
      "gv_persist env (Some g') = None" "ge_goal (fst (commitGoalTerminalEvents env identity reason e)) = Some g'"
      "ge_runtime (fst (commitGoalTerminalEvents env identity reason e)) = None"
      "ObjectiveRevision g = gi_ObjectiveRevision identity" "GoalID g = gi_GoalID identity"
proof (cases "\<exists>err. commitGoalTerminalEvents env identity reason e = (e, Inl err)")
  case False
  obtain r g where rg: "ge_runtime e = Some r" "ge_goal e = Some g"
    using False by (auto simp: commitGoalTerminalEvents_def split: option.splits)
  have id: "gi_GoalTurnID (tr_identity r) = gi_GoalTurnID identity" "GoalID g = gi_GoalID identity"
    "ObjectiveRevision g = gi_ObjectiveRevision identity" "\<not> tv_sequence env > MaxUint64 - 2"
    using False rg by (auto simp: commitGoalTerminalEvents_def split: if_splits)
  obtain g0 where g0: "nextGoalRevision g (gv_now env) = Inr g0"
    using False rg id by (auto simp: commitGoalTerminalEvents_def split: sum.splits if_splits)
  obtain g' where g': "terminal_next env identity reason r g0 = Inr g'"
    using False rg id g0
    by (auto simp: commitGoalTerminalEvents_def terminal_next_def Let_def split: sum.splits if_splits option.splits)
  have p: "gv_persist env (Some g') = None"
    using False rg id g0 g'
    by (auto simp: commitGoalTerminalEvents_def terminal_next_def Let_def split: sum.splits if_splits option.splits)
  have "ge_goal (fst (commitGoalTerminalEvents env identity reason e)) = Some g' \<and>
    ge_runtime (fst (commitGoalTerminalEvents env identity reason e)) = None"
    using rg id g0 g' p
    by (auto simp: commitGoalTerminalEvents_def terminal_next_def Let_def recordRuntimeStateError_def
        split: sum.splits if_splits option.splits)
  then show ?thesis using committed rg id g0 g' p by blast
qed blast

lemma terminal_next_goal:
  "terminal_next env identity reason r g0 = Inr g' \<Longrightarrow>
   g' = (terminal_goal env identity reason (tv_sequence env + 2) r g0)
     \<lparr>ContinuationOrdinal := ContinuationOrdinal g', Continuation := Continuation g'\<rparr>"
  by (auto simp: terminal_next_def Let_def split: if_splits option.splits sum.splits)

lemma terminal_effect: "turn_effect True env e (run_turn env (Turn_Terminal identity reason) e)"
proof (cases rule: terminal_cases [of env identity reason e])
  case (committed r g g0 g')
  have "turn_change True (gv_now env) (Some r) g g'"
    using terminal_goal_change [OF committed(3)] turn_change_continuation terminal_next_goal [OF committed(5)] by metis
  then show ?thesis using committed by (auto simp: turn_effect_def)
qed simp

lemma delivered_effect: "turn_effect False env e (run_turn env (Turn_Delivered itemID turnID) e)"
  by (auto simp: markContinuationDelivered_def turn_effect_def turn_simps Let_def split: option.split sum.split)

lemma cancel_effect: "turn_effect False env e (run_turn env Turn_Cancel e)"
proof (cases "ge_goal e")
  case (Some g)
  let ?g0 = "g\<lparr>Revision := Revision g + 1, UpdatedAt := gv_now env\<rparr>"
  let ?paused = "resetGoalTurnEvidence (?g0\<lparr>Status := goalStatusPaused, StatusReasonCode := ''user-cancelled'',
     StatusReason := ''automatic Goal continuation was cancelled by the user''\<rparr>)"
  obtain rt g1 where stop: "stopActiveIntervalLocked (gv_now env) (ge_runtime e) ?paused = (rt, g1)" by fastforce
  have "turn_change False (gv_now env) (ge_runtime e) g (g1\<lparr>Continuation := c\<rparr>)" if "Revision g \<noteq> MaxUint64" for c
    using that stop_simps [of "gv_now env" "ge_runtime e" ?paused] stop_active_cong [of ?paused g "gv_now env" "ge_runtime e"]
    unfolding stop by (simp add: turn_change_def resetGoalTurnEvidence_def)
  moreover have "g1\<lparr>Continuation := Continuation g1\<rparr> = g1" by simp
  ultimately have change: "Revision g \<noteq> MaxUint64 \<Longrightarrow> turn_change False (gv_now env) (ge_runtime e) g (g1\<lparr>Continuation := c\<rparr>)"
    "Revision g \<noteq> MaxUint64 \<Longrightarrow> turn_change False (gv_now env) (ge_runtime e) g g1" for c by metis+
  show ?thesis using Some stop change
    by (auto simp: pauseForCancellation_def nextGoalRevision_def turn_effect_def Let_def recordRuntimeStateError_def
        projectGoalLifecycle_def split: option.split)
qed (simp add: pauseForCancellation_def)

lemma abandon_effect: "turn_effect False env e (run_turn env (Turn_Abandon turnID) e)"
  by (simp add: abandonTurn_def turn_effect_def split: option.split)

definition is_terminal :: "turn_op \<Rightarrow> bool" where
  "is_terminal op = (case op of Turn_Terminal _ _ \<Rightarrow> True | _ \<Rightarrow> False)"

lemma run_turn_effect: "turn_effect (is_terminal op) env e (run_turn env op e)"
  by (cases op) (simp_all only: is_terminal_def turn_op.case begin_effect request_effect blocker_effect pause_effect
      resume_effect abandon_effect terminal_effect delivered_effect cancel_effect)

section \<open>Durability\<close>

text \<open>
  C12. Turns are durable before they are live: an operation of a turn leaves the live goal as it is,
  or the goal it leaves live was written to the session checkpoint first.  A change raises the
  revision by exactly one and keeps the goal's identity, its objective, its budget and its token
  accounting, whatever the operation and whatever fails.
\<close>

theorem turn_write_ahead:
  "ge_goal (run_turn env op e) = ge_goal e \<or>
   (\<exists>g g'. ge_goal e = Some g \<and> ge_goal (run_turn env op e) = Some g' \<and> gv_persist env (Some g') = None \<and>
      unat (Revision g') = Suc (unat (Revision g)) \<and> UpdatedAt g' = gv_now env \<and> CreatedAt g' = CreatedAt g \<and>
      GoalID g' = GoalID g \<and> Objective g' = Objective g \<and> ObjectiveRevision g' = ObjectiveRevision g \<and>
      TokenBudget g' = TokenBudget g \<and> TokensUsed g' = TokensUsed g \<and>
      UsageLedgerRevision g' = UsageLedgerRevision g \<and> PendingUsageAdmission g' = PendingUsageAdmission g)"
  using run_turn_effect [of op env e] by (auto simp: turn_effect_def turn_change_def word_Suc)

section \<open>Active time\<close>

lemma add_active_bounds:
  "0 \<le> m \<Longrightarrow> m \<le> MaxInt64 \<Longrightarrow> m \<le> add_active m since now \<and> add_active m since now \<le> MaxInt64"
  by (auto simp: add_active_def Let_def)

text \<open>The saturating sum, without the guard against wrap-around.\<close>

lemma add_active_exact:
  "0 \<le> m \<Longrightarrow> m \<le> MaxInt64 \<Longrightarrow> now - since \<le> MaxInt64 \<Longrightarrow>
   add_active m since now = min MaxInt64 (m + max 0 (now - since) div 1000000)"
  by (auto simp: add_active_def Let_def min_def max_def)

lemma stop_active:
  "RootActiveTimeMillis (snd (stopActiveIntervalLocked now rt g)) =
   (case rt of None \<Rightarrow> RootActiveTimeMillis g
    | Some r \<Rightarrow> if tr_activeSince r = 0 then RootActiveTimeMillis g
        else add_active (RootActiveTimeMillis g) (tr_activeSince r) now)"
  by (simp add: stopActiveIntervalLocked_def split: option.split)

text \<open>
  The active time of a goal stays a 64-bit count of milliseconds and never goes back: an
  operation of a turn keeps it or adds the milliseconds since the turn became active, rounded
  down, saturating at the largest 64-bit integer even when the clock runs backwards.
\<close>

lemma active_time_bounds:
  assumes "ge_goal e = Some g" "ge_goal (run_turn env op e) = Some g'"
    and "0 \<le> RootActiveTimeMillis g" "RootActiveTimeMillis g \<le> MaxInt64"
  shows "RootActiveTimeMillis g \<le> RootActiveTimeMillis g' \<and> RootActiveTimeMillis g' \<le> MaxInt64 \<and>
    (RootActiveTimeMillis g' = RootActiveTimeMillis g \<or>
     (\<exists>r. ge_runtime e = Some r \<and> tr_activeSince r \<noteq> 0 \<and>
        (gv_now env - tr_activeSince r \<le> MaxInt64 \<longrightarrow> RootActiveTimeMillis g' =
           min MaxInt64 (RootActiveTimeMillis g + max 0 (gv_now env - tr_activeSince r) div 1000000))))"
proof (cases "RootActiveTimeMillis g' = RootActiveTimeMillis g")
  case False
  then have "RootActiveTimeMillis g' = RootActiveTimeMillis (snd (stopActiveIntervalLocked (gv_now env) (ge_runtime e) g))"
    using run_turn_effect [of op env e] assms(1,2) by (auto simp: turn_effect_def turn_change_def)
  then show ?thesis using False add_active_bounds [OF assms(3,4)] add_active_exact [OF assms(3,4)]
    by (auto simp: stop_active split: option.splits if_splits)
qed (use assms in auto)

text \<open>A turn under way, with nothing queued and every write succeeding.\<close>

definition demo_turn_env :: turn_env where
  "demo_turn_env = \<lparr>gv_now = 5000600, gv_uuid = ''g1'', gv_persist = (\<lambda>_. None), gv_coordinatorErr = None,
     gv_reject = (\<lambda>_ _ _. None), gv_settle = (\<lambda>_. None), tv_digest = (\<lambda>_. ''d''), tv_json = (\<lambda>_. Some ''j''),
     tv_scope = \<lparr>sc_SessionID = ''s'', sc_ThreadID = ''t'', sc_AgentID = []\<rparr>, tv_items = [], tv_revision = 0,
     tv_admission = Inl errGoalUnsupportedScope, tv_enqueue = (\<lambda>_. None), tv_completeEnabled = True, tv_sequence = 7,
     tv_goalEvent = None, tv_terminalEvent = Inr 9\<rparr>"

definition demo_turn_engine :: "(goalState \<Rightarrow> goalState) \<Rightarrow> goal_engine" where
  "demo_turn_engine f = demo_engine\<lparr>ge_goal := Some (f demo_goal), ge_runtime := Some demo_runtime\<rparr>"

lemmas demo_turn_defs = demo_turn_engine_def demo_turn_env_def demo_runtime_def demo_engine_def demo_goal_def
  demo_env_def create_build_def planPhaseRequiresContainment_def

lemma active_time_bounds_witness:
  "\<exists>g'. ge_goal (run_turn demo_turn_env Turn_Cancel (demo_turn_engine id)) = Some g' \<and>
     RootActiveTimeMillis g' = 5 \<and> RootActiveTimeMillis g' \<le> MaxInt64"
proof -
  obtain g' where g': "ge_goal (run_turn demo_turn_env Turn_Cancel (demo_turn_engine id)) = Some g'"
    "RootActiveTimeMillis g' = 5"
    by (simp add: pauseForCancellation_def nextGoalRevision_def resetGoalTurnEvidence_def stopActiveIntervalLocked_def
        add_active_def Let_def MaxInt64_def live_cursor_def projectGoalLifecycle_def demo_turn_defs)
  have "ge_goal (demo_turn_engine id) = Some demo_goal" "0 \<le> RootActiveTimeMillis demo_goal"
    "RootActiveTimeMillis demo_goal \<le> MaxInt64"
    by (simp_all add: demo_turn_defs MaxInt64_def)
  from active_time_bounds [OF this(1) g'(1) this(2,3)] g' show ?thesis by simp
qed

text \<open>The clock of a turn stands still while the turn waits.\<close>

definition clock_ok :: "goal_engine \<Rightarrow> bool" where
  "clock_ok e = (case ge_runtime e of None \<Rightarrow> True | Some r \<Rightarrow> tr_waiting r = {} \<or> tr_activeSince r = 0)"

lemma clock_stop:
  "stopActiveIntervalLocked now rt g = (rt', g') \<Longrightarrow>
   (case rt of None \<Rightarrow> rt' = None | Some r \<Rightarrow> rt' = Some (r\<lparr>tr_activeSince := 0\<rparr>))"
  by (auto simp: stopActiveIntervalLocked_def split: option.splits if_splits)

lemma commitTurnEvidence_runtime:
  "\<exists>g. ge_runtime (fst (commitTurnEvidence env phase goalID objRev turnID mutate e)) \<in>
     {ge_runtime e, fst (mutate (gv_now env) (ge_runtime e) g)}"
proof (cases "nextGoalRevision (the (ge_goal e)) (gv_now env)")
  case (Inr g0)
  obtain rt g where m: "mutate (gv_now env) (ge_runtime e) g0 = (rt, g)" by fastforce
  show ?thesis
    by (rule exI [of _ g0]) (simp add: commitTurnEvidence_def Let_def Inr m projectGoalLifecycle_def split: option.split)
qed (simp add: commitTurnEvidence_def Let_def split: option.split)

lemma clock_evidence:
  assumes "clock_ok e"
    and "\<And>now rt g. fst (mutate now rt g) = rt \<or> fst (mutate now rt g) = map_option (\<lambda>r. r\<lparr>tr_activeSince := 0\<rparr>) rt"
  shows "clock_ok (fst (commitTurnEvidence env phase goalID objRev turnID mutate e))"
proof -
  obtain g where "ge_runtime (fst (commitTurnEvidence env phase goalID objRev turnID mutate e)) \<in>
      {ge_runtime e, fst (mutate (gv_now env) (ge_runtime e) g)}"
    using commitTurnEvidence_runtime by blast
  then show ?thesis using assms(1) assms(2) [of "gv_now env" "ge_runtime e" g]
    by (auto simp: clock_ok_def split: option.splits)
qed

lemma clock_begin: "clock_ok e \<Longrightarrow> clock_ok (run_turn env (Turn_Begin turnID steering item) e)"
proof -
  assume c: "clock_ok e"
  have start: "start_runtime env tid g e1 = (e2, i) \<Longrightarrow> clock_ok e2" for tid g e1 e2 i
    by (auto simp: start_runtime_def Let_def clock_ok_def)
  have reject: "beginContinuationTurn env tid it e = (e', Inl err) \<Longrightarrow> clock_ok e'" for tid it e' err
    using c beginContinuation_change [of env tid it e e' "Inl err"] by (simp add: clock_ok_def)
  show ?thesis using c
    by (cases item) (auto simp: beginTurn_def clock_ok_def [of "e\<lparr>ge_goal := _\<rparr>"] clock_ok_def [of e]
        split: option.split sum.split prod.split dest!: start reject)
qed

lemma blocker_clock:
  "fst (blocker_evidence key reason turnID now rt g) = rt \<or>
   fst (blocker_evidence key reason turnID now rt g) = map_option (\<lambda>r. r\<lparr>tr_activeSince := 0\<rparr>) rt"
  by (auto simp: blocker_evidence_def Let_def stopActiveIntervalLocked_def split: option.split)

text \<open>
  Waiting time is never counted as active time: while a turn waits for a permission or a child
  its interval is stopped, through every operation of the turn, in any order and with any failure.
\<close>

lemma waiting_stops_clock:
  assumes "clock_ok e"
  shows "clock_ok (run_turn env op e)"
proof (cases op)
  case (Turn_Begin turnID steering item)
  then show ?thesis using clock_begin [OF assms] by simp
next
  case (Turn_Terminal identity reason)
  then show ?thesis using assms
    by (cases rule: terminal_cases [of env identity reason e]) (auto simp: clock_ok_def)
next
  case (Turn_RequestCompletion goalID objRev turnID)
  then show ?thesis by (simp add: requestCompletion_def clock_evidence [OF assms])
next
  case (Turn_ReportBlocker goalID objRev turnID reason key)
  then show ?thesis
    by (simp add: reportBlocker_def assms clock_evidence [OF assms blocker_clock] split: sum.split)
next
  case (Turn_PauseFor reason)
  then show ?thesis using assms
    by (auto simp: pauseTurnFor_def clock_ok_def Let_def dest!: clock_stop split: option.split sum.split prod.split if_split)
next
  case Turn_Cancel
  then show ?thesis using assms
    by (auto simp: pauseForCancellation_def Let_def clock_ok_def projectGoalLifecycle_def recordRuntimeStateError_def
        dest!: clock_stop split: option.splits sum.split prod.split)
qed (use assms in \<open>auto simp: resumeTurnFor_def abandonTurn_def markContinuationDelivered_def clock_ok_def Let_def
       split: option.split sum.split if_split\<close>)

lemma waiting_stops_clock_witness:
  "clock_ok (demo_turn_engine id) \<and> clock_ok (run_turn demo_turn_env (Turn_PauseFor ''permission'') (demo_turn_engine id))"
proof -
  have "clock_ok (demo_turn_engine id)" by (simp add: clock_ok_def demo_turn_defs)
  from waiting_stops_clock [OF this, of demo_turn_env "Turn_PauseFor ''permission''"] this show ?thesis by (rule conjI [rotated])
qed

section \<open>Blockers\<close>

text \<open>
  A sequence of accepted reports, each a turn and a key: only an active goal takes a report.
  The reference reading is about the reports alone: the turns that reported since the key last
  changed.
\<close>

definition blocker_report :: "string \<Rightarrow> time \<Rightarrow> goalState \<Rightarrow> string \<times> string \<Rightarrow> goalState" where
  "blocker_report reason now g r =
     (if Status g = goalStatusActive then snd (blocker_evidence (snd r) reason (fst r) now None g) else g)"

definition streak :: "(string \<times> string) list \<Rightarrow> (string \<times> string) list" where
  "streak rs = takeWhile (\<lambda>r. snd r = snd (last rs)) (rev rs)"

definition persistently_blocked :: "(string \<times> string) list \<Rightarrow> bool" where
  "persistently_blocked rs \<longleftrightarrow> (\<exists>n\<in>{..length rs}. 3 \<le> card (fst ` set (streak (take n rs))))"

lemma streak_snoc: "streak (rs @ [r]) = r # (if rs \<noteq> [] \<and> snd (last rs) = snd r then streak rs else [])"
  by (cases rs rule: rev_cases) (auto simp: streak_def)

lemma persistently_blocked_snoc:
  "persistently_blocked (rs @ [r]) \<longleftrightarrow> persistently_blocked rs \<or> 3 \<le> card (fst ` set (streak (rs @ [r])))"
proof -
  have "{..length (rs @ [r])} = insert (length (rs @ [r])) {..length rs}" by auto
  then have "persistently_blocked (rs @ [r]) \<longleftrightarrow> 3 \<le> card (fst ` set (streak (rs @ [r]))) \<or>
    (\<exists>n\<in>{..length rs}. 3 \<le> card (fst ` set (streak (take n (rs @ [r])))))"
    unfolding persistently_blocked_def by simp
  also have "(\<exists>n\<in>{..length rs}. 3 \<le> card (fst ` set (streak (take n (rs @ [r]))))) \<longleftrightarrow> persistently_blocked rs"
    unfolding persistently_blocked_def by (intro bex_cong) auto
  finally show ?thesis by blast
qed

definition blocker_state :: "(string \<times> string) list \<Rightarrow> goalState \<Rightarrow> bool" where
  "blocker_state rs g \<longleftrightarrow>
     Status g = goalStatusActive \<and> distinct (BlockerTurnIDs g) \<and> length (BlockerTurnIDs g) < 3 \<and>
     set (BlockerTurnIDs g) = fst ` set (streak rs) \<and> (rs \<noteq> [] \<longrightarrow> BlockerKey g = snd (last rs))"

lemma blocker_report_snoc:
  assumes "blocker_state rs g"
  shows "if 3 \<le> card (fst ` set (streak (rs @ [r]))) then Status (blocker_report reason now g r) = goalStatusBlocked
    else blocker_state (rs @ [r]) (blocker_report reason now g r)"
proof -
  let ?ids = "if BlockerKey g = snd r then BlockerTurnIDs g else []"
  have ids: "distinct ?ids" "length ?ids < 3" using assms by (auto simp: blocker_state_def)
  have new: "fst ` set (streak (rs @ [r])) = insert (fst r) (set ?ids)"
  proof (cases "rs = []")
    case True
    then show ?thesis using assms by (simp add: blocker_state_def streak_def)
  next
    case False
    then show ?thesis using assms by (auto simp: blocker_state_def streak_snoc)
  qed
  have card: "card (fst ` set (streak (rs @ [r]))) = (if fst r \<in> set ?ids then length ?ids else Suc (length ?ids))"
    unfolding new using ids(1) by (auto simp: card_insert_if distinct_card)
  show ?thesis
    using assms card new ids
    by (auto simp: blocker_report_def blocker_evidence_def blocker_state_def Let_def stopActiveIntervalLocked_def split: if_splits)
qed



section \<open>Completion\<close>

text \<open>
  C22. A goal is complete only by request: the only operation of a turn that completes a goal is
  the terminal of the running turn, with the workflow enabled, when the turn completed, it asked
  for completion of the current objective, no provider call is unaccounted for, no user input is
  queued, nothing is waited for, and the completed goal is on disk.
\<close>

theorem completed_only_on_request:
  assumes "ge_goal e = Some g" "Status g \<noteq> goalStatusComplete"
    and "ge_goal (run_turn env op e) = Some g'" "Status g' = goalStatusComplete"
  shows "\<exists>identity r. op = Turn_Terminal identity ''completed'' \<and> tv_completeEnabled env \<and>
    ge_runtime e = Some r \<and> PendingCompleteTurnID g = gi_GoalTurnID (tr_identity r) \<and>
    PendingCompleteObjectiveRevision g = ObjectiveRevision g \<and> PendingUsageAdmission g = None \<and>
    gv_coordinatorErr env = None \<and> \<not> hasPendingGoalSteering (tv_items env) \<and> tr_waiting r = {} \<and>
    gv_persist env (Some g') = None"
proof -
  have "is_terminal op" using run_turn_effect [of op env e] assms
    by (auto simp: turn_effect_def turn_change_def)
  then obtain identity reason where op: "op = Turn_Terminal identity reason" by (auto simp: is_terminal_def split: turn_op.splits)
  show ?thesis
  proof (cases rule: terminal_cases [of env identity reason e])
    case (refused err)
    then show ?thesis using assms op by simp
  next
    case (committed r h g0 h')
    then have [simp]: "h = g" "h' = g'" using assms op by auto
    have g0: "g0 = g\<lparr>Revision := Revision g + 1, UpdatedAt := gv_now env\<rparr>"
      using committed(3) by (auto simp: nextGoalRevision_def split: if_splits)
    have t: "Status (terminal_goal env identity reason (tv_sequence env + 2) r g0) = goalStatusComplete"
      using terminal_next_goal [OF committed(5)] assms(4)
      by (metis (no_types, lifting) \<open>h' = g'\<close> goalState.select_convs(4) goalState.surjective goalState.update_convs(12,13))
    then show ?thesis using committed op assms(2) g0
      by (auto simp: terminal_goal_def Let_def split: if_splits)
  qed
qed

theorem completed_only_on_request_witness:
  "\<exists>g'. ge_goal (run_turn demo_turn_env (Turn_Terminal (tr_identity demo_runtime) ''completed'')
       (demo_turn_engine (\<lambda>g. g\<lparr>PendingCompleteTurnID := ''t1'', PendingCompleteObjectiveRevision := 1\<rparr>))) = Some g' \<and>
     Status g' = goalStatusComplete \<and> gv_persist demo_turn_env (Some g') = None"
proof -
  let ?f = "\<lambda>g. g\<lparr>PendingCompleteTurnID := ''t1'', PendingCompleteObjectiveRevision := 1\<rparr>"
  let ?op = "Turn_Terminal (tr_identity demo_runtime) ''completed''"
  have g: "ge_goal (demo_turn_engine ?f) = Some (?f demo_goal)" "Status (?f demo_goal) \<noteq> goalStatusComplete"
    by (simp_all add: demo_turn_defs)
  obtain g' where g': "ge_goal (run_turn demo_turn_env ?op (demo_turn_engine ?f)) = Some g'" "Status g' = goalStatusComplete"
    by (simp add: commitGoalTerminalEvents_def nextGoalRevision_def terminal_goal_def resetGoalTurnEvidence_def
        stopActiveIntervalLocked_def Let_def goalContinuationEligible_def hasPendingGoalSteering_def demo_turn_defs)
  from completed_only_on_request [OF g g'] g' show ?thesis by auto
qed

section \<open>An interval that is lost\<close>

text \<open>
  When the checkpoint of the third blocker report or of a cancellation fails, the goal stays
  active and unchanged but the turn's clock has been stopped already: the interval since the turn
  became active is in no goal and is never added later.  The other operations restore the clock.
\<close>

definition failing_env :: turn_env where
  "failing_env = demo_turn_env\<lparr>gv_persist := (\<lambda>_. Some (Errorf ''disk full''))\<rparr>"

lemma cancel_loses_interval:
  "case run_turn failing_env Turn_Cancel (demo_turn_engine id) of
     e' \<Rightarrow> ge_goal e' = Some demo_goal \<and> map_option tr_activeSince (ge_runtime e') = Some 0 \<and>
       (case ge_goal (run_turn demo_turn_env Turn_Cancel e') of
          Some g \<Rightarrow> Status g = goalStatusPaused \<and> RootActiveTimeMillis g = 0 | None \<Rightarrow> False)"
  by (simp add: pauseForCancellation_def nextGoalRevision_def resetGoalTurnEvidence_def stopActiveIntervalLocked_def
      Let_def live_cursor_def projectGoalLifecycle_def failing_env_def demo_turn_defs)

lemma third_report_loses_interval:
  "case commitTurnEvidence (goal_env.truncate failing_env) GoalLifecycleBlockerReported ''g1'' 1 ''t1''
       (blocker_evidence ''net'' ''down'' ''t1'')
       (demo_turn_engine (\<lambda>g. g\<lparr>LastGoalTurnID := ''t1'', BlockerKey := ''net'', BlockerTurnIDs := [''a'', ''b'']\<rparr>)) of
     (e', r) \<Rightarrow> Status (the (ge_goal e')) = goalStatusActive \<and> RootActiveTimeMillis (the (ge_goal e')) = 0 \<and>
       map_option tr_activeSince (ge_runtime e') = Some 0"
proof -
  have "validateGoalTurnID ''t1'' = None" "TrimUnicode ''g1'' = ''g1''"
    by (simp_all add: validateGoalTurnID_def plain_eval)
  then show ?thesis
    by (simp add: commitTurnEvidence_def mutableGoalStateError_def nextGoalRevision_def blocker_evidence_def
        stopActiveIntervalLocked_def Let_def failing_env_def demo_turn_defs goal_env.truncate_def)
qed

end
