(* ===== verification/Goal_Usage.thy ===== *)
theory Goal_Usage
  imports Goal_Cursor
begin

text \<open>
  Token accounting of a goal: src/engine/goal_usage.go, goal_usage_normalize.go and the record
  check of transcript/goal_usage.go.  Before a provider call is dispatched its admission is
  written into the goal; when the call ends its usage record is appended to the ledger in the
  transcript and then added to the goal.  A crash in between is repaired from the ledger.  The
  gate that makes callers wait for one another is not modelled: an admission is refused while
  another one is pending.
\<close>

section \<open>Provider usage\<close>

text \<open>The counts a provider reports, Go's \<open>int\<close>.\<close>

record TokenUsage =
  tu_PromptTokens :: int
  tu_CachedTokens :: int
  tu_CompletionTokens :: int
  tu_TotalTokens :: int
  tu_ReasoningTokens :: int

record normalizedGoalProviderUsage =
  nu_PromptTokens :: uint64
  nu_CachedPromptTokens :: uint64
  nu_CompletionTokens :: uint64
  nu_ReasoningTokens :: uint64
  nu_TotalTokens :: uint64
  nu_BillableTokens :: uint64

text \<open>\<open>bits.Add64\<close> without carry in: the sum and the carry.\<close>

definition Add64 :: "uint64 \<Rightarrow> uint64 \<Rightarrow> uint64 \<times> uint64" where
  "Add64 x y = (x + y, if unat x + unat y < 2 ^ 64 then 0 else 1)"

definition negative_count :: "TokenUsage \<Rightarrow> string option" where
  "negative_count u =
     map_option fst (find (\<lambda>(name, n). n < (0 :: int))
       [(''prompt tokens'', tu_PromptTokens u), (''cached prompt tokens'', tu_CachedTokens u),
        (''completion tokens'', tu_CompletionTokens u), (''total tokens'', tu_TotalTokens u),
        (''reasoning tokens'', tu_ReasoningTokens u)])"

definition normalizeGoalProviderUsage :: "TokenUsage option \<Rightarrow> goal_error + normalizedGoalProviderUsage" where
  "normalizeGoalProviderUsage usage =
     (case usage of
        None \<Rightarrow> Inl (Errorf ''normalize goal provider usage: nil usage'')
      | Some u \<Rightarrow>
        (case negative_count u of
           Some name \<Rightarrow> Inl (Errorf (''normalize goal provider usage: negative '' @ name))
         | None \<Rightarrow>
           (let prompt = word_of_int (tu_PromptTokens u); cached = word_of_int (tu_CachedTokens u);
                completion = word_of_int (tu_CompletionTokens u); reasoning = word_of_int (tu_ReasoningTokens u);
                providerTotal = word_of_int (tu_TotalTokens u)
            in if cached > prompt
               then Inl (Errorf ''normalize goal provider usage: cached prompt tokens exceed prompt tokens'')
               else if reasoning > completion
               then Inl (Errorf ''normalize goal provider usage: reasoning tokens exceed completion tokens'')
               else case Add64 prompt completion of
                 (breakdownTotal, carry) \<Rightarrow>
                   (if carry \<noteq> 0
                    then Inl (Errorf ''normalize goal provider usage: prompt tokens plus completion tokens overflow'')
                    else let total = (if breakdownTotal > providerTotal then breakdownTotal else providerTotal) in
                      Inr \<lparr>nu_PromptTokens = prompt, nu_CachedPromptTokens = cached, nu_CompletionTokens = completion,
                        nu_ReasoningTokens = reasoning, nu_TotalTokens = total, nu_BillableTokens = total - cached\<rparr>))))"

section \<open>Ledger records\<close>

record GoalUsageRecord =
  ur_Version :: nat
  ur_LedgerRevision :: uint64
  ur_GoalID :: string
  ur_ObjectiveRevision :: uint64
  ur_RootSessionID :: string
  ur_RootThreadID :: string
  ur_RootAgentID :: string
  ur_ExecutingSessionID :: string
  ur_ExecutingThreadID :: string
  ur_ExecutingAgentID :: string
  ur_ExecutingAgentGeneration :: int
  ur_GoalTurnID :: string
  ur_LogicalRoundID :: string
  ur_LogicalRequestID :: string
  ur_ModelAttemptID :: string
  ur_ModelAttemptIndex :: int
  ur_ModelProfile :: string
  ur_ModelRetryIndex :: int
  ur_ProviderCallID :: string
  ur_PromptTokens :: uint64
  ur_CachedPromptTokens :: uint64
  ur_CompletionTokens :: uint64
  ur_ReasoningTokens :: uint64
  ur_TotalTokens :: uint64
  ur_BillableTokens :: uint64

definition GoalUsageRecordVersion :: nat where
  "GoalUsageRecordVersion = 1"

definition bad_text :: "string \<Rightarrow> bool" where
  "bad_text s \<longleftrightarrow> TrimUnicode s = [] \<or> s \<noteq> TrimUnicode s \<or> CHR 0x00 \<in> set s"

text \<open>
  The first bad field, in the order the code lists them; the code ranges over a map, whose order
  is unspecified, so with several bad fields it may name another of them.
\<close>

definition bad_field :: "(string \<times> string) list \<Rightarrow> goal_error option" where
  "bad_field xs = map_option (\<lambda>(name, _). Errorf (''invalid '' @ name)) (find (\<lambda>(_, s). bad_text s) xs)"

definition record_identity_error :: "GoalUsageRecord \<Rightarrow> goal_error option" where
  "record_identity_error r =
     (if ur_Version r \<noteq> GoalUsageRecordVersion then Some (Errorf ''unsupported Goal usage record version'')
      else if ur_LedgerRevision r = 0 \<or> ur_ObjectiveRevision r = 0
      then Some (Errorf ''goal usage record requires positive revisions'')
      else case bad_field [(''Goal ID'', ur_GoalID r), (''root Session ID'', ur_RootSessionID r),
          (''root thread ID'', ur_RootThreadID r), (''executing Session ID'', ur_ExecutingSessionID r),
          (''executing thread ID'', ur_ExecutingThreadID r), (''Goal turn ID'', ur_GoalTurnID r),
          (''logical round ID'', ur_LogicalRoundID r), (''provider call ID'', ur_ProviderCallID r)] of
        Some err \<Rightarrow> Some err
      | None \<Rightarrow>
        (if ur_LogicalRequestID r \<noteq> [] \<or> ur_ModelAttemptID r \<noteq> [] \<or> ur_ModelProfile r \<noteq> [] then
           (case bad_field [(''logical request ID'', ur_LogicalRequestID r), (''model attempt ID'', ur_ModelAttemptID r),
               (''model profile'', ur_ModelProfile r)] of
              Some err \<Rightarrow> Some err
            | None \<Rightarrow>
              (if ur_ModelAttemptIndex r < 0 \<or> ur_ModelRetryIndex r < 0
               then Some (Errorf ''invalid model attempt or retry index'') else None))
         else None))"

definition record_agent_error :: "GoalUsageRecord \<Rightarrow> goal_error option" where
  "record_agent_error r =
     (if TrimUnicode (ur_RootAgentID r) \<noteq> [] then Some (Errorf ''root Goal usage identity must not name a child Agent'')
      else if ur_ExecutingAgentID r = [] then
        (if ur_ExecutingAgentGeneration r \<noteq> 0 \<or> ur_ExecutingSessionID r \<noteq> ur_RootSessionID r \<or>
           ur_ExecutingThreadID r \<noteq> ur_RootThreadID r
         then Some (Errorf ''invalid root Goal usage execution identity'') else None)
      else if ur_ExecutingAgentID r \<noteq> TrimUnicode (ur_ExecutingAgentID r) \<or> CHR 0x00 \<in> set (ur_ExecutingAgentID r) \<or>
        ur_ExecutingAgentGeneration r \<le> 0
      then Some (Errorf ''invalid descendant Goal usage execution identity'') else None)"

definition record_token_error :: "GoalUsageRecord \<Rightarrow> goal_error option" where
  "record_token_error r =
     (if ur_CachedPromptTokens r > ur_PromptTokens r then Some (Errorf ''cached prompt tokens exceed prompt tokens'')
      else if ur_ReasoningTokens r > ur_CompletionTokens r then Some (Errorf ''reasoning tokens exceed completion tokens'')
      else if ur_PromptTokens r > MaxUint64 - ur_CompletionTokens r then Some (Errorf ''goal usage token total overflows'')
      else if ur_TotalTokens r < ur_PromptTokens r + ur_CompletionTokens r
      then Some (Errorf ''goal usage total is below prompt plus completion'')
      else if ur_TotalTokens r < ur_CachedPromptTokens r \<or>
        ur_BillableTokens r \<noteq> ur_TotalTokens r - ur_CachedPromptTokens r
      then Some (Errorf ''invalid Goal usage billable token formula'')
      else None)"

definition ValidateGoalUsageRecord :: "GoalUsageRecord \<Rightarrow> goal_error option" where
  "ValidateGoalUsageRecord r =
     (if record_identity_error r \<noteq> None then record_identity_error r
      else if record_agent_error r \<noteq> None then record_agent_error r
      else record_token_error r)"

definition record_of :: "goalUsageAdmission \<Rightarrow> normalizedGoalProviderUsage \<Rightarrow> GoalUsageRecord" where
  "record_of a u =
     \<lparr>ur_Version = GoalUsageRecordVersion, ur_LedgerRevision = ua_LedgerRevision a, ur_GoalID = ua_GoalID a,
      ur_ObjectiveRevision = ua_ObjectiveRevision a, ur_RootSessionID = ua_RootSessionID a,
      ur_RootThreadID = ua_RootThreadID a, ur_RootAgentID = ua_RootAgentID a,
      ur_ExecutingSessionID = ua_ExecutingSessionID a, ur_ExecutingThreadID = ua_ExecutingThreadID a,
      ur_ExecutingAgentID = ua_ExecutingAgentID a, ur_ExecutingAgentGeneration = ua_ExecutingAgentGeneration a,
      ur_GoalTurnID = ua_GoalTurnID a, ur_LogicalRoundID = ua_LogicalRoundID a,
      ur_LogicalRequestID = ua_LogicalRequestID a, ur_ModelAttemptID = ua_ModelAttemptID a,
      ur_ModelAttemptIndex = ua_ModelAttemptIndex a, ur_ModelProfile = ua_ModelProfile a,
      ur_ModelRetryIndex = ua_ModelRetryIndex a, ur_ProviderCallID = ua_ProviderCallID a,
      ur_PromptTokens = nu_PromptTokens u, ur_CachedPromptTokens = nu_CachedPromptTokens u,
      ur_CompletionTokens = nu_CompletionTokens u, ur_ReasoningTokens = nu_ReasoningTokens u,
      ur_TotalTokens = nu_TotalTokens u, ur_BillableTokens = nu_BillableTokens u\<rparr>"

definition no_usage :: normalizedGoalProviderUsage where
  "no_usage = \<lparr>nu_PromptTokens = 0, nu_CachedPromptTokens = 0, nu_CompletionTokens = 0, nu_ReasoningTokens = 0,
     nu_TotalTokens = 0, nu_BillableTokens = 0\<rparr>"

definition validateGoalUsageAdmission :: "goalUsageAdmission \<Rightarrow> goal_error option" where
  "validateGoalUsageAdmission a =
     (if ua_Version a \<noteq> PersistedGoalUsageAdmissionVersion \<or> ua_AdmittedAt a = 0
      then Some (Errorf ''invalid Goal usage admission version or timestamp'')
      else ValidateGoalUsageRecord (record_of a no_usage))"

definition goalUsageRecordMatchesAdmission :: "GoalUsageRecord \<Rightarrow> goalUsageAdmission \<Rightarrow> bool" where
  "goalUsageRecordMatchesAdmission r a \<longleftrightarrow>
     ur_LedgerRevision r = ua_LedgerRevision a \<and> ur_GoalID r = ua_GoalID a \<and>
     ur_ObjectiveRevision r = ua_ObjectiveRevision a \<and> ur_RootSessionID r = ua_RootSessionID a \<and>
     ur_RootThreadID r = ua_RootThreadID a \<and> ur_RootAgentID r = ua_RootAgentID a \<and>
     ur_ExecutingSessionID r = ua_ExecutingSessionID a \<and> ur_ExecutingThreadID r = ua_ExecutingThreadID a \<and>
     ur_ExecutingAgentID r = ua_ExecutingAgentID a \<and> ur_ExecutingAgentGeneration r = ua_ExecutingAgentGeneration a \<and>
     ur_GoalTurnID r = ua_GoalTurnID a \<and> ur_LogicalRoundID r = ua_LogicalRoundID a \<and>
     ur_LogicalRequestID r = ua_LogicalRequestID a \<and> ur_ModelAttemptID r = ua_ModelAttemptID a \<and>
     ur_ModelAttemptIndex r = ua_ModelAttemptIndex a \<and> ur_ModelProfile r = ua_ModelProfile a \<and>
     ur_ModelRetryIndex r = ua_ModelRetryIndex a \<and> ur_ProviderCallID r = ua_ProviderCallID a"

section \<open>Applying and reconciling\<close>

definition applyGoalUsageRecord :: "goalState \<Rightarrow> GoalUsageRecord \<Rightarrow> time \<Rightarrow> goal_error + goalState" where
  "applyGoalUsageRecord current r now =
     (case PendingUsageAdmission current of
        None \<Rightarrow> Inl errGoalUsageAdmissionPending
      | Some a \<Rightarrow>
        (case ValidateGoalUsageRecord r of
           Some err \<Rightarrow> Inl err
         | None \<Rightarrow>
           (if \<not> goalUsageRecordMatchesAdmission r a
            then Inl (Errorf ''goal usage record does not match pending admission'')
            else if TokensUsed current > MaxUint64 - ur_BillableTokens r then Inl (Errorf ''goal token usage overflow'')
            else case nextGoalRevision current now of
              Inl err \<Rightarrow> Inl err
            | Inr g \<Rightarrow>
              (let g' = g\<lparr>TokensUsed := TokensUsed g + ur_BillableTokens r, UsageLedgerRevision := ur_LedgerRevision r,
                     PendingUsageAdmission := None\<rparr>
               in Inr (case TokenBudget g' of
                     Some b \<Rightarrow> if TokensUsed g' \<ge> b then budget_limited g' else g'
                   | None \<Rightarrow> g')))))"

definition usage_limited :: "string \<Rightarrow> goalState \<Rightarrow> goalState" where
  "usage_limited reason g =
     resetGoalTurnEvidence (g\<lparr>Status := goalStatusUsageLimited, StatusReasonCode := ''usage-coverage-incomplete'',
       StatusReason := reason\<rparr>)"

definition usageLimitedGoalState :: "goalState \<Rightarrow> time \<Rightarrow> string \<Rightarrow> goalState \<times> bool \<times> goal_error option" where
  "usageLimitedGoalState current now reason =
     (if Status current = goalStatusComplete then (current, False, None)
      else case nextGoalRevision current now of
        Inl err \<Rightarrow> (current, False, Some err)
      | Inr g \<Rightarrow> (usage_limited reason g, True, None))"

record LoadResult =
  lr_corrupt :: bool
  lr_records :: "GoalUsageRecord list"

text \<open>The ledger's records of the goal, one per revision; a conflicting duplicate is an error.\<close>

fun collect_records :: "goalState \<Rightarrow> GoalUsageRecord list \<Rightarrow> GoalUsageRecord list \<Rightarrow> goal_error + GoalUsageRecord list" where
  "collect_records g acc [] = Inr acc"
| "collect_records g acc (r # rs) =
     (if ur_GoalID r \<noteq> GoalID g then collect_records g acc rs
      else case ValidateGoalUsageRecord r of
        Some err \<Rightarrow> Inl err
      | None \<Rightarrow>
        (if ur_ObjectiveRevision r > ObjectiveRevision g
         then Inl (Errorf ''goal usage record has a future objective revision'')
         else case find (\<lambda>x. ur_LedgerRevision x = ur_LedgerRevision r) acc of
           Some x \<Rightarrow> if x \<noteq> r then Inl (Errorf ''conflicting Goal usage records at ledger revision'')
             else collect_records g acc rs
         | None \<Rightarrow> collect_records g (acc @ [r]) rs))"

definition inspectGoalUsageLedger :: "goalState \<Rightarrow> LoadResult option \<Rightarrow> goal_error + GoalUsageRecord list" where
  "inspectGoalUsageLedger g loaded =
     (case loaded of
        None \<Rightarrow> (if UsageLedgerRevision g > 0 \<or> PendingUsageAdmission g \<noteq> None then Inl errGoalUsageCoverageIncomplete else Inr [])
      | Some l \<Rightarrow>
        (if lr_corrupt l \<and> (UsageLedgerRevision g > 0 \<or> PendingUsageAdmission g \<noteq> None)
         then Inl (Errorf ''goal usage transcript contains corrupt records'')
         else case collect_records g [] (lr_records l) of
           Inl err \<Rightarrow> Inl err
         | Inr records \<Rightarrow>
           (if (case PendingUsageAdmission g of
                  None \<Rightarrow> False
                | Some a \<Rightarrow> UsageLedgerRevision g = MaxUint64 \<or> ua_LedgerRevision a \<noteq> UsageLedgerRevision g + 1)
            then Inl (Errorf ''pending Goal usage ledger revision is not next'')
            else let pending = (case PendingUsageAdmission g of None \<Rightarrow> 0 | Some a \<Rightarrow> ua_LedgerRevision a) in
              if list_ex (\<lambda>r. \<not> ur_LedgerRevision r \<le> UsageLedgerRevision g \<and>
                   \<not> (pending \<noteq> 0 \<and> ur_LedgerRevision r = pending)) records
              then Inl (Errorf ''goal usage ledger has unauthorized future revision'')
              else if of_nat (length (filter (\<lambda>r. ur_LedgerRevision r \<le> UsageLedgerRevision g) records)) \<noteq> UsageLedgerRevision g
              then Inl (Errorf ''goal usage ledger is incomplete'')
              else Inr records)))"

text \<open>The reconciled goal, whether it changed, and the error that made recovery fail closed.\<close>

definition join_error :: "goal_error \<Rightarrow> goal_error option \<Rightarrow> goal_error option" where
  "join_error err extra = Some (case extra of None \<Rightarrow> err | Some e \<Rightarrow> Joined err e)"

definition reconcileGoalUsageState :: "goalState \<Rightarrow> LoadResult option \<Rightarrow> time \<Rightarrow> goalState \<times> bool \<times> goal_error option" where
  "reconcileGoalUsageState current loaded now =
     (case inspectGoalUsageLedger current loaded of
        Inl err \<Rightarrow>
          (case usageLimitedGoalState current now ''goal provider usage coverage is incomplete'' of
             (g, changed, limitErr) \<Rightarrow> (g, changed, join_error err limitErr))
      | Inr records \<Rightarrow>
        (case PendingUsageAdmission current of
           None \<Rightarrow> (current, False, None)
         | Some a \<Rightarrow>
           (case find (\<lambda>r. ur_LedgerRevision r = ua_LedgerRevision a) records of
              None \<Rightarrow>
                (case nextGoalRevision current now of
                   Inl err \<Rightarrow> (current, False, Some err)
                 | Inr g \<Rightarrow> (usage_limited ''pending provider admission has no exact durable usage record'' g, True,
                     Some errGoalUsageCoverageIncomplete))
            | Some r \<Rightarrow>
                (case applyGoalUsageRecord current r now of
                   Inr g \<Rightarrow> (g, True, None)
                 | Inl err \<Rightarrow>
                   (case usageLimitedGoalState current now ''pending provider admission has a stale or invalid usage record'' of
                      (g, changed, limitErr) \<Rightarrow> (g, changed, join_error err limitErr))))))"

section \<open>Provider calls\<close>

record goalUsageSubject =
  su_SessionID :: string
  su_ThreadID :: string
  su_AgentID :: string
  su_AgentGeneration :: int

record goalUsageReporter =
  rp_binding :: goalExecutionIdentity
  rp_subject :: goalUsageSubject
  rp_revoked :: bool

record ProviderUsageDescriptor =
  pd_LogicalRoundID :: string
  pd_LogicalRequestID :: string
  pd_ModelAttemptID :: string
  pd_ModelAttemptIndex :: int
  pd_ModelProfile :: string
  pd_ModelRetryIndex :: int

text \<open>The ledger as loaded from the transcript, and the outcome of appending a record to it.\<close>

record usage_env = goal_env +
  uv_loaded :: "LoadResult option"
  uv_record :: "GoalUsageRecord \<Rightarrow> goal_error option"

definition identity_valid :: "goalExecutionIdentity \<Rightarrow> bool" where
  "identity_valid i \<longleftrightarrow>
     validGoalBindingText (gi_GoalID i) True \<and> gi_ObjectiveRevision i > 0 \<and>
     validGoalBindingText (gi_RootSessionID i) True \<and> validGoalBindingText (gi_RootThreadID i) True \<and>
     validGoalBindingText (gi_RootAgentID i) False \<and>
     (gi_GoalTurnID i = [] \<or> validateGoalTurnID (gi_GoalTurnID i) = None)"

definition validateGoalUsageReporter :: "goalState option \<Rightarrow> goalUsageReporter \<Rightarrow> goal_error option" where
  "validateGoalUsageReporter state rp =
     (case state of
        None \<Rightarrow> Some errGoalNotFound
      | Some g \<Rightarrow>
        (let b = rp_binding rp; su = rp_subject rp in
         if unavailable g then Some errGoalUnavailable
         else if rp_revoked rp \<or> \<not> identity_valid b then Some errGoalUsageCapabilityUnavailable
         else if GoalID g \<noteq> gi_GoalID b \<or> ObjectiveRevision g \<noteq> gi_ObjectiveRevision b \<or> LastGoalTurnID g \<noteq> gi_GoalTurnID b
         then Some (Errorf ''stale Goal usage binding'')
         else if TrimUnicode (su_SessionID su) = [] \<or> TrimUnicode (su_ThreadID su) = []
         then Some (Errorf ''goal usage execution identity is incomplete'')
         else if su_AgentID su = [] then
           (if su_AgentGeneration su \<noteq> 0 \<or> su_SessionID su \<noteq> gi_RootSessionID b \<or> su_ThreadID su \<noteq> gi_RootThreadID b
            then Some (Errorf ''invalid root Goal usage subject'') else None)
         else if su_AgentGeneration su \<le> 0 then Some (Errorf ''invalid descendant Goal usage generation'')
         else None))"

definition new_admission ::
  "goalUsageReporter \<Rightarrow> ProviderUsageDescriptor \<Rightarrow> string \<Rightarrow> time \<Rightarrow> goalState \<Rightarrow> goalUsageAdmission" where
  "new_admission rp d providerCallID now current =
     (let b = rp_binding rp; su = rp_subject rp in
      \<lparr>ua_Version = PersistedGoalUsageAdmissionVersion, ua_LedgerRevision = UsageLedgerRevision current + 1,
       ua_GoalID = gi_GoalID b, ua_ObjectiveRevision = gi_ObjectiveRevision b, ua_RootSessionID = gi_RootSessionID b,
       ua_RootThreadID = gi_RootThreadID b, ua_RootAgentID = gi_RootAgentID b, ua_ExecutingSessionID = su_SessionID su,
       ua_ExecutingThreadID = su_ThreadID su, ua_ExecutingAgentID = su_AgentID su,
       ua_ExecutingAgentGeneration = su_AgentGeneration su, ua_GoalTurnID = gi_GoalTurnID b,
       ua_LogicalRoundID = TrimUnicode (pd_LogicalRoundID d), ua_LogicalRequestID = TrimUnicode (pd_LogicalRequestID d),
       ua_ModelAttemptID = TrimUnicode (pd_ModelAttemptID d), ua_ModelAttemptIndex = pd_ModelAttemptIndex d,
       ua_ModelProfile = TrimUnicode (pd_ModelProfile d), ua_ModelRetryIndex = pd_ModelRetryIndex d,
       ua_ProviderCallID = providerCallID, ua_AdmittedAt = now\<rparr>)"

text \<open>The last step of an admission: the goal has no pending call, and the new one is written.\<close>

definition admit_fresh ::
  "usage_env \<Rightarrow> goalUsageReporter \<Rightarrow> ProviderUsageDescriptor \<Rightarrow> string \<Rightarrow> goal_engine \<Rightarrow>
   goal_engine \<times> (goal_error + goalUsageAdmission)" where
  "admit_fresh env rp d providerCallID e =
     (case validateGoalUsageReporter (ge_goal e) rp of
        Some err \<Rightarrow> (e, Inl err)
      | None \<Rightarrow>
        (let current = the (ge_goal e) in
         if Status current \<noteq> goalStatusActive then (e, Inl (Errorf ''goal provider admission requires active status''))
         else if PendingUsageAdmission current \<noteq> None then (e, Inl errGoalUsageAdmissionPending)
         else if UsageLedgerRevision current = MaxUint64 then (e, Inl (Errorf ''goal usage ledger revision exhausted''))
         else case nextGoalRevision current (gv_now env) of
           Inl err \<Rightarrow> (e, Inl err)
         | Inr g \<Rightarrow>
           (let a = new_admission rp d providerCallID (gv_now env) current in
            case validateGoalUsageAdmission a of
              Some err \<Rightarrow> (e, Inl err)
            | None \<Rightarrow>
              (let g' = g\<lparr>PendingUsageAdmission := Some a\<rparr> in
               case gv_persist env (Some g') of
                 Some err \<Rightarrow> (e, Inl (Wrapped ''persist Goal provider admission'' err))
               | None \<Rightarrow> (e\<lparr>ge_goal := Some g'\<rparr>, Inr a)))))"

definition admitProviderUsage ::
  "usage_env \<Rightarrow> goalUsageReporter \<Rightarrow> ProviderUsageDescriptor \<Rightarrow> string \<Rightarrow> goal_engine \<Rightarrow>
   goal_engine \<times> (goal_error + goalUsageAdmission)" where
  "admitProviderUsage env rp d providerCallID e =
     (if ge_usageUncertain e then (e, Inl errGoalUsageCoverageIncomplete)
      else case validateGoalUsageReporter (ge_goal e) rp of
        Some err \<Rightarrow> (e, Inl err)
      | None \<Rightarrow>
        (let current = the (ge_goal e) in
         if Status current \<noteq> goalStatusActive then (e, Inl (Errorf ''goal provider admission requires active status''))
         else if PendingUsageAdmission current = None then admit_fresh env rp d providerCallID e
         else case reconcileGoalUsageState current (uv_loaded env) (gv_now env) of
           (g, changed, reconcileErr) \<Rightarrow>
             (case (if changed then gv_persist env (Some g) else None) of
                Some err \<Rightarrow> (e, Inl (Wrapped ''persist Goal usage reconciliation'' err))
              | None \<Rightarrow>
                (let e' = (if changed then e\<lparr>ge_goal := Some g\<rparr> else e) in
                 case reconcileErr of
                   Some err \<Rightarrow> (e', Inl err)
                 | None \<Rightarrow> admit_fresh env rp d providerCallID e'))))"

definition markProviderUsageAmbiguous ::
  "goal_env \<Rightarrow> goalUsageAdmission \<Rightarrow> goal_error option \<Rightarrow> goal_engine \<Rightarrow> goal_engine \<times> goal_error option" where
  "markProviderUsageAmbiguous env a cause e0 =
     (let e = e0\<lparr>ge_usageUncertain := True\<rparr> in
      if (case ge_goal e of None \<Rightarrow> True | Some g \<Rightarrow> PendingUsageAdmission g \<noteq> Some a)
      then (e, Some (Errorf ''stale Goal ambiguous provider usage''))
      else case nextGoalRevision (the (ge_goal e)) (gv_now env) of
        Inl err \<Rightarrow> (e, Some err)
      | Inr g \<Rightarrow>
        (let g' = usage_limited (if cause \<noteq> None \<and> error_is (the cause) context_Canceled
               then ''provider dispatch was canceled without exact final usage''
               else ''provider dispatch may have occurred without exact final usage'') g
         in case gv_persist env (Some g') of
              Some err \<Rightarrow> (e, Some (Wrapped ''persist Goal usage-limited state'' err))
            | None \<Rightarrow>
              (projectGoalLifecycle GoalLifecycleUsageLimited g' (ua_GoalTurnID a) (UpdatedAt g') (e\<lparr>ge_goal := Some g'\<rparr>), None)))"

definition ambiguous_with :: "goal_env \<Rightarrow> goalUsageAdmission \<Rightarrow> goal_error \<Rightarrow> goal_engine \<Rightarrow> goal_engine \<times> goal_error option" where
  "ambiguous_with env a err e =
     (case markProviderUsageAmbiguous env a (Some err) e of (e', limitErr) \<Rightarrow> (e', join_error err limitErr))"

definition completeProviderUsage ::
  "usage_env \<Rightarrow> goalUsageAdmission \<Rightarrow> TokenUsage option \<Rightarrow> goal_engine \<Rightarrow> goal_engine \<times> goal_error option" where
  "completeProviderUsage env a usage e =
     (case normalizeGoalProviderUsage usage of
        Inl err \<Rightarrow> ambiguous_with (goal_env.truncate env) a err e
      | Inr u \<Rightarrow>
        (let r = record_of a u in
         case ValidateGoalUsageRecord r of
           Some err \<Rightarrow> ambiguous_with (goal_env.truncate env) a err e
         | None \<Rightarrow>
           (case uv_record env r of
              Some err \<Rightarrow> ambiguous_with (goal_env.truncate env) a (Wrapped ''commit Goal usage record'' err) e
            | None \<Rightarrow>
              (case ge_goal e of
                 None \<Rightarrow> (e, Some errGoalNotFound)
               | Some current \<Rightarrow>
                 (case PendingUsageAdmission current of
                    None \<Rightarrow> (if UsageLedgerRevision current \<ge> ur_LedgerRevision r then (e, None)
                      else (e, Some errGoalUsageAdmissionPending))
                  | Some pending \<Rightarrow>
                    (if pending \<noteq> a then (e, Some (Errorf ''stale Goal provider usage completion''))
                     else case applyGoalUsageRecord current r (gv_now env) of
                       Inl err \<Rightarrow> (e, Some err)
                     | Inr g \<Rightarrow>
                       (case gv_persist env (Some g) of
                          Some err \<Rightarrow> (e, Some (Wrapped ''persist Goal usage aggregate'' err))
                        | None \<Rightarrow>
                          (projectGoalLifecycle
                             (if Status g = goalStatusBudgetLimited then GoalLifecycleBudgetLimited else GoalLifecycleUsageRecorded)
                             g (ua_GoalTurnID a) (UpdatedAt g) (e\<lparr>ge_goal := Some g\<rparr>), None))))))))"

definition releaseProviderUsageBeforeDispatch ::
  "goal_env \<Rightarrow> goalUsageAdmission \<Rightarrow> goal_engine \<Rightarrow> goal_engine \<times> goal_error option" where
  "releaseProviderUsageBeforeDispatch env a e =
     (if (case ge_goal e of None \<Rightarrow> True | Some g \<Rightarrow> PendingUsageAdmission g \<noteq> Some a)
      then (e, Some (Errorf ''stale Goal pre-dispatch release''))
      else case nextGoalRevision (the (ge_goal e)) (gv_now env) of
        Inl err \<Rightarrow> (e, Some err)
      | Inr g \<Rightarrow>
        (let g' = g\<lparr>PendingUsageAdmission := None\<rparr> in
         case gv_persist env (Some g') of
           Some err \<Rightarrow> (e, Some (Wrapped ''persist Goal pre-dispatch release'' err))
         | None \<Rightarrow>
           (projectGoalLifecycle GoalLifecycleUsageAdmissionReleased g' (ua_GoalTurnID a) (UpdatedAt g')
              (e\<lparr>ge_goal := Some g'\<rparr>), None)))"

text \<open>
  A provider call in the hands of the caller: it is settled at most once, whichever way, and a
  second settlement does nothing.
\<close>

record goalProviderUsageCall =
  pc_admission :: goalUsageAdmission
  pc_settled :: bool

definition settle ::
  "(goal_engine \<Rightarrow> goal_engine \<times> goal_error option) \<Rightarrow> goalProviderUsageCall \<Rightarrow> goal_engine \<Rightarrow>
   goalProviderUsageCall \<times> goal_engine \<times> goal_error option" where
  "settle run c e = (if pc_settled c then (c, e, None) else (c\<lparr>pc_settled := True\<rparr>, run e))"

datatype settlement = Settle_Complete "TokenUsage option" | Settle_Release | Settle_Ambiguous "goal_error option"

fun settle_call ::
  "usage_env \<Rightarrow> settlement \<Rightarrow> goalProviderUsageCall \<Rightarrow> goal_engine \<Rightarrow>
   goalProviderUsageCall \<times> goal_engine \<times> goal_error option" where
  "settle_call env (Settle_Complete usage) c = settle (completeProviderUsage env (pc_admission c) usage) c"
| "settle_call env Settle_Release c =
     settle (releaseProviderUsageBeforeDispatch (goal_env.truncate env) (pc_admission c)) c"
| "settle_call env (Settle_Ambiguous cause) c =
     settle (markProviderUsageAmbiguous (goal_env.truncate env) (pc_admission c) cause) c"

text \<open>The reporter's own checks; \<open>nextID\<close> is the identifier its generator gives.\<close>

definition AdmitProviderUsage ::
  "usage_env \<Rightarrow> string \<Rightarrow> goalUsageReporter \<Rightarrow> ProviderUsageDescriptor \<Rightarrow> goal_engine \<Rightarrow>
   goal_engine \<times> (goal_error + goalProviderUsageCall)" where
  "AdmitProviderUsage env nextID rp d e =
     (if rp_revoked rp then (e, Inl errGoalUsageCapabilityUnavailable)
      else if TrimUnicode (pd_LogicalRoundID d) = []
      then (e, Inl (Errorf ''goal usage logical round identity is required''))
      else if TrimUnicode nextID = []
      then (e, Inl (Errorf ''goal usage provider call identity is unavailable''))
      else case admitProviderUsage env rp d nextID e of
        (e', Inl err) \<Rightarrow> (e', Inl err)
      | (e', Inr a) \<Rightarrow> (e', Inr \<lparr>pc_admission = a, pc_settled = False\<rparr>))"

definition revoke :: "goalUsageReporter \<Rightarrow> goalUsageReporter" where
  "revoke rp = rp\<lparr>rp_revoked := True\<rparr>"

definition goalUsageCoverage :: "goalState option \<Rightarrow> string" where
  "goalUsageCoverage state =
     (case state of
        None \<Rightarrow> []
      | Some g \<Rightarrow>
        (if unavailable g then ''unavailable''
         else if PendingUsageAdmission g \<noteq> None then ''pending''
         else if Status g = goalStatusUsageLimited then ''incomplete''
         else ''complete''))"

end
