(* ===== verification/Goal_Restore.thy ===== *)
theory Goal_Restore
  imports Goal_Usage
begin

text \<open>
  Saving and restoring a goal: src/engine/goal_persistence.go.  The nested records of the durable
  form have the fields of the live ones, so their conversions are the identity here.  A warning
  is its text with the error appended to it, if any.
\<close>

section \<open>Conversions\<close>

definition persistedGoalState :: "goalState option \<Rightarrow> PersistedGoalState option" where
  "persistedGoalState state =
     (case state of
        None \<Rightarrow> None
      | Some g \<Rightarrow>
         (if unavailable g then unavailablePersisted g
          else Some \<lparr>ps_Version = PersistedGoalStateVersion, ps_GoalID = GoalID g, ps_Objective = Objective g,
            ps_ObjectiveRevision = ObjectiveRevision g, ps_Status = Status g, ps_StatusReasonCode = StatusReasonCode g,
            ps_StatusReason = StatusReason g, ps_Revision = Revision g, ps_TokenBudget = TokenBudget g,
            ps_TokensUsed = TokensUsed g, ps_UsageLedgerRevision = UsageLedgerRevision g,
            ps_RootActiveTimeMillis = RootActiveTimeMillis g, ps_ContinuationOrdinal = ContinuationOrdinal g,
            ps_Continuation = Continuation g, ps_LastGoalTurnID = LastGoalTurnID g,
            ps_LastTerminalSequence = LastTerminalSequence g, ps_PendingCompleteTurnID = PendingCompleteTurnID g,
            ps_PendingCompleteObjectiveRevision = PendingCompleteObjectiveRevision g,
            ps_PendingUsageAdmission = PendingUsageAdmission g, ps_BlockerKey = BlockerKey g,
            ps_BlockerTurnIDs = BlockerTurnIDs g, ps_CreatedAt = CreatedAt g, ps_UpdatedAt = UpdatedAt g,
            ps_invalidEncoding = False\<rparr>))"

definition goalStateFromPersisted :: "PersistedGoalState \<Rightarrow> goalState" where
  "goalStateFromPersisted p =
     \<lparr>GoalID = ps_GoalID p, Objective = ps_Objective p, ObjectiveRevision = ps_ObjectiveRevision p, Status = ps_Status p,
      StatusReasonCode = ps_StatusReasonCode p, StatusReason = ps_StatusReason p, Revision = ps_Revision p,
      TokenBudget = ps_TokenBudget p, TokensUsed = ps_TokensUsed p, UsageLedgerRevision = ps_UsageLedgerRevision p,
      RootActiveTimeMillis = ps_RootActiveTimeMillis p, ContinuationOrdinal = ps_ContinuationOrdinal p,
      Continuation = ps_Continuation p, LastGoalTurnID = ps_LastGoalTurnID p,
      LastTerminalSequence = ps_LastTerminalSequence p, PendingCompleteTurnID = ps_PendingCompleteTurnID p,
      PendingCompleteObjectiveRevision = ps_PendingCompleteObjectiveRevision p,
      PendingUsageAdmission = ps_PendingUsageAdmission p, BlockerKey = ps_BlockerKey p,
      BlockerTurnIDs = ps_BlockerTurnIDs p, CreatedAt = ps_CreatedAt p, UpdatedAt = ps_UpdatedAt p,
      unavailable = False, unavailablePersisted = None\<rparr>"

definition unavailableGoalState :: "PersistedGoalState \<Rightarrow> string \<Rightarrow> string \<Rightarrow> goalState" where
  "unavailableGoalState p code reason =
     resetGoalTurnEvidence ((goalStateFromPersisted p)\<lparr>Status := goalStatusPaused, StatusReasonCode := code,
       StatusReason := reason, unavailable := True, unavailablePersisted := Some p\<rparr>)"

section \<open>Validation\<close>

definition knownGoalStatus :: "goalStatus \<Rightarrow> bool" where
  "knownGoalStatus s = (case s of goalStatusOther _ \<Rightarrow> False | _ \<Rightarrow> True)"

definition identity_error :: "nat \<Rightarrow> PersistedGoalState \<Rightarrow> goal_error option" where
  "identity_error sourceVersion p =
     (if TrimUnicode (ps_GoalID p) = [] \<or> ps_GoalID p \<noteq> TrimUnicode (ps_GoalID p) \<or> \<not> ValidString (ps_GoalID p) \<or>
        CHR 0x00 \<in> set (ps_GoalID p)
      then Some (Errorf ''invalid Goal identity'')
      else if normalizeGoalObjective (ps_Objective p) \<noteq> Inr (ps_Objective p) then Some (Errorf ''invalid objective'')
      else if ps_ObjectiveRevision p = 0 \<or> ps_Revision p = 0 then Some (Errorf ''zero revision'')
      else if ps_ObjectiveRevision p > ps_Revision p then Some (Errorf ''objective revision exceeds Goal revision'')
      else if \<not> knownGoalStatus (ps_Status p) then Some (Errorf ''unknown status'')
      else if ps_TokenBudget p = Some 0 then Some (Errorf ''zero token budget'')
      else if ps_Status p = goalStatusActive \<and>
        (sourceVersion < PersistedGoalStateVersion \<and> ps_TokenBudget p = None \<or>
         \<not> goalBudgetHasRemaining (ps_TokenBudget p) (ps_TokensUsed p))
      then Some (Errorf ''active Goal has no remaining token budget'')
      else if ps_StatusReason p \<noteq> [] \<and> normalizeGoalReason (ps_StatusReason p) \<noteq> Inr (ps_StatusReason p)
      then Some (Errorf ''invalid status reason'')
      else if ps_StatusReasonCode p \<noteq> [] \<and> normalizeGoalBlockerKey (ps_StatusReasonCode p) \<noteq> Inr (ps_StatusReasonCode p)
      then Some (Errorf ''invalid status reason code'')
      else None)"

definition bad_turn :: "string \<Rightarrow> bool" where
  "bad_turn t \<longleftrightarrow> TrimUnicode t = [] \<or> t \<noteq> TrimUnicode t \<or> \<not> ValidString t \<or> CHR 0x00 \<in> set t"

fun blocker_turns_error :: "string set \<Rightarrow> string list \<Rightarrow> goal_error option" where
  "blocker_turns_error seen [] = None"
| "blocker_turns_error seen (t # ts) =
     (if bad_turn t then Some (Errorf ''invalid blocker turn identity'')
      else if t \<in> seen then Some (Errorf ''duplicate blocker turn identity'')
      else blocker_turns_error (insert t seen) ts)"

definition evidence_error :: "PersistedGoalState \<Rightarrow> goal_error option" where
  "evidence_error p =
     (if ps_BlockerKey p \<noteq> [] \<and> normalizeGoalBlockerKey (ps_BlockerKey p) \<noteq> Inr (ps_BlockerKey p)
      then Some (Errorf ''invalid blocker key'')
      else if length (ps_BlockerTurnIDs p) > 3 then Some (Errorf ''too many blocker turns'')
      else if (ps_BlockerKey p = []) \<noteq> (ps_BlockerTurnIDs p = []) then Some (Errorf ''incomplete blocker evidence'')
      else case blocker_turns_error {} (ps_BlockerTurnIDs p) of
        Some err \<Rightarrow> Some err
      | None \<Rightarrow>
        (if ps_RootActiveTimeMillis p < 0 then Some (Errorf ''negative active time'')
         else if ps_CreatedAt p = 0 \<or> ps_UpdatedAt p = 0 \<or> ps_UpdatedAt p < ps_CreatedAt p
         then Some (Errorf ''invalid timestamps'')
         else if (ps_PendingCompleteTurnID p = []) \<noteq> (ps_PendingCompleteObjectiveRevision p = 0)
         then Some (Errorf ''incomplete pending-completion identity'')
         else if ps_PendingCompleteTurnID p \<noteq> [] \<and> validateGoalTurnID (ps_PendingCompleteTurnID p) \<noteq> None
         then Some (Errorf ''invalid pending-completion turn identity'')
         else if ps_PendingCompleteTurnID p \<noteq> [] \<and> ps_PendingCompleteObjectiveRevision p \<noteq> ps_ObjectiveRevision p
         then Some (Errorf ''stale pending-completion objective revision'')
         else if ps_LastGoalTurnID p \<noteq> [] \<and> validateGoalTurnID (ps_LastGoalTurnID p) \<noteq> None
         then Some (Errorf ''invalid last Goal turn identity'')
         else None))"

definition continuation_error :: "digest \<Rightarrow> PersistedGoalState \<Rightarrow> goal_error option" where
  "continuation_error dg p =
     (case ps_Continuation p of
        None \<Rightarrow> None
      | Some c \<Rightarrow>
        (case validateGoalContinuationCursor dg c of
           Some err \<Rightarrow> Some (Wrapped ''invalid Goal continuation'' err)
         | None \<Rightarrow>
           (if gc_GoalID c \<noteq> ps_GoalID p \<or> gc_ObjectiveRevision c \<noteq> ps_ObjectiveRevision p \<or>
              gc_ContinuationOrdinal c \<noteq> ps_ContinuationOrdinal p \<or>
              gc_PredecessorTerminalSequence c \<noteq> ps_LastTerminalSequence p \<or>
              \<not> sameGoalTokenBudget (gc_TokenBudget c) (ps_TokenBudget p) \<or> gc_TokensUsed c \<noteq> ps_TokensUsed p \<or>
              gc_UsageLedgerRevision c \<noteq> ps_UsageLedgerRevision p
            then Some (Errorf ''stale Goal continuation'')
            else if gc_Disposition c = DispositionPending then
              (if ps_Status p \<noteq> goalStatusActive \<or> gc_PredecessorGoalTurnID c \<noteq> ps_LastGoalTurnID p \<or>
                 gc_GoalRevision c \<noteq> ps_Revision p
               then Some (Errorf ''pending Goal continuation does not bind current state'') else None)
            else if gc_Disposition c = DispositionAdmitting then
              (if ps_Status p \<noteq> goalStatusActive \<or> ps_LastGoalTurnID p \<noteq> gc_ContinuationTurnID c \<or>
                 gc_GoalRevision c \<ge> ps_Revision p
               then Some (Errorf ''admitting Goal continuation does not bind current turn'') else None)
            else if gc_GoalRevision c > ps_Revision p
            then Some (Errorf ''goal continuation revision exceeds current state'')
            else None)))"

definition pending_usage_error :: "PersistedGoalState \<Rightarrow> goal_error option" where
  "pending_usage_error p =
     (case ps_PendingUsageAdmission p of
        None \<Rightarrow> None
      | Some a \<Rightarrow>
        (case validateGoalUsageAdmission a of
           Some err \<Rightarrow> Some (Wrapped ''invalid pending usage admission'' err)
         | None \<Rightarrow>
           (if ua_GoalID a \<noteq> ps_GoalID p \<or> ua_ObjectiveRevision a \<noteq> ps_ObjectiveRevision p \<or>
              ua_LedgerRevision a \<noteq> ps_UsageLedgerRevision p + 1 \<or> ua_GoalTurnID a \<noteq> ps_LastGoalTurnID p
            then Some (Errorf ''stale pending usage admission'')
            else if ua_AdmittedAt a < ps_CreatedAt p \<or> ua_AdmittedAt a > ps_UpdatedAt p
            then Some (Errorf ''invalid pending usage admission timestamp'')
            else None)))"

definition validatePersistedGoalStateFromVersion :: "digest \<Rightarrow> PersistedGoalState \<Rightarrow> nat \<Rightarrow> goal_error option" where
  "validatePersistedGoalStateFromVersion dg p sourceVersion =
     (if identity_error sourceVersion p \<noteq> None then identity_error sourceVersion p
      else if evidence_error p \<noteq> None then evidence_error p
      else if continuation_error dg p \<noteq> None then continuation_error dg p
      else pending_usage_error p)"

definition validatePersistedGoalState :: "digest \<Rightarrow> PersistedGoalState \<Rightarrow> goal_error option" where
  "validatePersistedGoalState dg p = validatePersistedGoalStateFromVersion dg p (ps_Version p)"

section \<open>Restoring\<close>

type_synonym warning = "string \<times> goal_error option"

definition unavailable_with :: "PersistedGoalState \<Rightarrow> string \<Rightarrow> string \<Rightarrow> goal_error option \<Rightarrow> goalState option \<times> warning list \<times> bool" where
  "unavailable_with p code reason err = (Some (unavailableGoalState p code reason), [(reason, err)], False)"

text \<open>The last step: an active goal without a live cursor is paused.\<close>

definition cold_pause :: "PersistedGoalState \<Rightarrow> time \<Rightarrow> goalState \<Rightarrow> warning list \<Rightarrow> bool \<Rightarrow> goalState option \<times> warning list \<times> bool" where
  "cold_pause p now state warnings checkpointRequired =
     (if Status state = goalStatusActive \<and> live_cursor state = None then
        (if Revision state = MaxUint64
         then unavailable_with p ''corrupt-state'' ''persisted active Goal revision is exhausted; Goal is unavailable'' None
         else (Some (resetGoalTurnEvidence (state\<lparr>Status := goalStatusPaused,
             StatusReasonCode := ''cold-continuation-unavailable'',
             StatusReason := ''automatic continuation is unavailable without an eligible durable cursor'',
             Revision := Revision state + 1, UpdatedAt := now\<rparr>)),
           warnings @ [(''normalized persisted active Goal to paused because no eligible durable continuation cursor exists'', None)],
           True))
      else (Some state, warnings, checkpointRequired))"

definition restorePersistedGoalStateWithUsage ::
  "digest \<Rightarrow> PersistedGoalState option \<Rightarrow> string \<Rightarrow> time \<Rightarrow> LoadResult option \<Rightarrow> bool \<Rightarrow>
   goalState option \<times> warning list \<times> bool" where
  "restorePersistedGoalStateWithUsage dg rec agentID now loaded reconcileUsage =
     (case rec of
        None \<Rightarrow> (None, [], False)
      | Some p \<Rightarrow>
        (let v = ps_Version p in
         if TrimUnicode agentID \<noteq> []
         then (None, [(''ignored persisted Goal state on a child or review Agent session'', None)], True)
         else if ps_invalidEncoding p
         then unavailable_with p ''corrupt-state'' ''persisted Goal state has invalid encoding; Goal is unavailable'' None
         else if (case ps_PendingUsageAdmission p of None \<Rightarrow> False | Some a \<Rightarrow> ua_Version a \<noteq> PersistedGoalUsageAdmissionVersion)
         then unavailable_with p ''unsupported-version'' ''unsupported persisted Goal usage admission version; Goal is unavailable'' None
         else if v \<noteq> PersistedGoalStateVersion \<and> v \<noteq> PersistedGoalStateLegacyVersion \<and>
           v \<noteq> PersistedGoalStateAccountingVersion \<and> v \<noteq> PersistedGoalStateContinuationVersion
         then unavailable_with p ''unsupported-version'' ''unsupported persisted Goal state version; Goal is unavailable'' None
         else if v = PersistedGoalStateLegacyVersion \<and> ps_PendingUsageAdmission p \<noteq> None
         then unavailable_with p ''unsupported-version''
           ''legacy persisted Goal state contains unsupported usage admission; Goal is unavailable'' None
         else if (v = PersistedGoalStateLegacyVersion \<or> v = PersistedGoalStateAccountingVersion) \<and> ps_Continuation p \<noteq> None
         then unavailable_with p ''unsupported-version''
           ''older persisted Goal state contains unsupported continuation; Goal is unavailable'' None
         else let working = p\<lparr>ps_Version := PersistedGoalStateVersion\<rparr> in
           case validatePersistedGoalStateFromVersion dg working v of
             Some err \<Rightarrow> unavailable_with p ''corrupt-state'' ''persisted Goal state is invalid; Goal is unavailable'' (Some err)
           | None \<Rightarrow>
             (let state = goalStateFromPersisted working; migrated = (v \<noteq> PersistedGoalStateVersion);
                  warnings = (if migrated then [(''migrated persisted Goal state'', None)] else [])
              in if reconcileUsage then
                   (case reconcileGoalUsageState state loaded now of
                      (g, changed, err) \<Rightarrow>
                        cold_pause p now (if changed then g else state)
                          (warnings @ (if err \<noteq> None then [(''Goal provider usage recovery failed closed'', err)] else []))
                          (migrated \<or> changed))
                 else cold_pause p now state warnings migrated)))"

definition restorePersistedGoalState :: "digest \<Rightarrow> PersistedGoalState option \<Rightarrow> string \<Rightarrow> time \<Rightarrow> goalState option \<times> warning list \<times> bool" where
  "restorePersistedGoalState dg rec agentID now = restorePersistedGoalStateWithUsage dg rec agentID now None False"

end
