(* ===== verification/Goal_Wf.thy ===== *)
theory Goal_Wf
  imports Goal_Run Goal_Restore
begin

text \<open>
  A goal that is saved can be restored: the check a saved goal must pass (Goal_Restore) read as an
  invariant of the live goal, kept by the control operations, the operations of a turn and the
  accounting of provider calls; and the two ways in which it is lost.
\<close>

section \<open>The check as an invariant\<close>

definition restorable :: "digest \<Rightarrow> goalState \<Rightarrow> bool" where
  "restorable dg g \<longleftrightarrow>
     \<not> unavailable g \<and> unavailablePersisted g = None \<and>
     validatePersistedGoalState dg (the (persistedGoalState (Some g))) = None"

definition identity_wf :: "goalState \<Rightarrow> bool" where
  "identity_wf g \<longleftrightarrow>
     \<not> bad_turn (GoalID g) \<and> normalizeGoalObjective (Objective g) = Inr (Objective g) \<and>
     ObjectiveRevision g \<noteq> 0 \<and> unat (ObjectiveRevision g) \<le> unat (Revision g) \<and> knownGoalStatus (Status g) \<and>
     TokenBudget g \<noteq> Some 0 \<and> (Status g = goalStatusActive \<longrightarrow> goalBudgetHasRemaining (TokenBudget g) (TokensUsed g)) \<and>
     (StatusReason g = [] \<or> normalizeGoalReason (StatusReason g) = Inr (StatusReason g)) \<and>
     (StatusReasonCode g = [] \<or> normalizeGoalBlockerKey (StatusReasonCode g) = Inr (StatusReasonCode g))"

definition evidence_wf :: "goalState \<Rightarrow> bool" where
  "evidence_wf g \<longleftrightarrow>
     (BlockerKey g = [] \<or> normalizeGoalBlockerKey (BlockerKey g) = Inr (BlockerKey g)) \<and>
     length (BlockerTurnIDs g) \<le> 3 \<and> (BlockerKey g = []) = (BlockerTurnIDs g = []) \<and>
     list_all (\<lambda>t. \<not> bad_turn t) (BlockerTurnIDs g) \<and> distinct (BlockerTurnIDs g) \<and>
     (PendingCompleteTurnID g = []) = (PendingCompleteObjectiveRevision g = 0) \<and>
     (PendingCompleteTurnID g = [] \<or>
      \<not> bad_turn (PendingCompleteTurnID g) \<and> PendingCompleteObjectiveRevision g = ObjectiveRevision g) \<and>
     (LastGoalTurnID g = [] \<or> \<not> bad_turn (LastGoalTurnID g))"

definition time_wf :: "goalState \<Rightarrow> bool" where
  "time_wf g \<longleftrightarrow> 0 \<le> RootActiveTimeMillis g \<and> CreatedAt g \<noteq> 0 \<and> UpdatedAt g \<noteq> 0 \<and> CreatedAt g \<le> UpdatedAt g"

definition pending_wf :: "goalState \<Rightarrow> bool" where
  "pending_wf g \<longleftrightarrow>
     (case PendingUsageAdmission g of
        None \<Rightarrow> True
      | Some a \<Rightarrow> validateGoalUsageAdmission a = None \<and> ua_GoalID a = GoalID g \<and>
          ua_ObjectiveRevision a = ObjectiveRevision g \<and> ua_LedgerRevision a = UsageLedgerRevision g + 1 \<and>
          ua_GoalTurnID a = LastGoalTurnID g \<and> CreatedAt g \<le> ua_AdmittedAt a \<and> ua_AdmittedAt a \<le> UpdatedAt g)"

definition cursor_wf :: "digest \<Rightarrow> goalState \<Rightarrow> bool" where
  "cursor_wf dg g \<longleftrightarrow> unavailable g \<or> continuation_error dg (the (persistedGoalState (Some g))) = None"

lemma blocker_turns_error_None:
  "blocker_turns_error seen ts = None \<longleftrightarrow> list_all (\<lambda>t. \<not> bad_turn t) ts \<and> distinct ts \<and> set ts \<inter> seen = {}"
  by (induction ts arbitrary: seen) auto

lemma validateGoalTurnID_bad: "validateGoalTurnID t = None \<longleftrightarrow> \<not> bad_turn t"
  by (simp add: validateGoalTurnID_def bad_turn_def)

lemmas wf_defs = identity_wf_def evidence_wf_def time_wf_def pending_wf_def

lemma if_None: "((if b then Some x else y) = None) = (\<not> b \<and> y = None)"
  by simp

lemma case_None: "((case x of None \<Rightarrow> y | Some err \<Rightarrow> Some err) = None) = (x = None \<and> y = None)"
  by (cases x) auto

lemma restorable_iff:
  "restorable dg g \<longleftrightarrow> \<not> unavailable g \<and> unavailablePersisted g = None \<and>
     identity_wf g \<and> evidence_wf g \<and> time_wf g \<and> pending_wf g \<and> cursor_wf dg g"
proof (cases "unavailable g")
  case False
  let ?p = "the (persistedGoalState (Some g))"
  have rev: "unat (ObjectiveRevision g) \<le> unat (Revision g) \<and> ObjectiveRevision g \<noteq> 0 \<longrightarrow> Revision g \<noteq> 0"
    by (metis le_zero_eq unat_0 unat_eq_zero)
  have le: "Revision g < ObjectiveRevision g \<longleftrightarrow> \<not> unat (ObjectiveRevision g) \<le> unat (Revision g)"
    by (simp add: word_less_nat_alt linorder_not_le)
  have p: "?p = \<lparr>ps_Version = PersistedGoalStateVersion, ps_GoalID = GoalID g, ps_Objective = Objective g,
     ps_ObjectiveRevision = ObjectiveRevision g, ps_Status = Status g, ps_StatusReasonCode = StatusReasonCode g,
     ps_StatusReason = StatusReason g, ps_Revision = Revision g, ps_TokenBudget = TokenBudget g,
     ps_TokensUsed = TokensUsed g, ps_UsageLedgerRevision = UsageLedgerRevision g,
     ps_RootActiveTimeMillis = RootActiveTimeMillis g, ps_ContinuationOrdinal = ContinuationOrdinal g,
     ps_Continuation = Continuation g, ps_LastGoalTurnID = LastGoalTurnID g,
     ps_LastTerminalSequence = LastTerminalSequence g, ps_PendingCompleteTurnID = PendingCompleteTurnID g,
     ps_PendingCompleteObjectiveRevision = PendingCompleteObjectiveRevision g,
     ps_PendingUsageAdmission = PendingUsageAdmission g, ps_BlockerKey = BlockerKey g,
     ps_BlockerTurnIDs = BlockerTurnIDs g, ps_CreatedAt = CreatedAt g, ps_UpdatedAt = UpdatedAt g,
     ps_invalidEncoding = False\<rparr>"
    using False by (simp add: persistedGoalState_def)
  have i: "identity_error PersistedGoalStateVersion ?p = None \<longleftrightarrow> identity_wf g"
    unfolding identity_error_def identity_wf_def bad_turn_def if_None p PersistedGoalState.select_convs le
    using rev by (simp only: less_irrefl simp_thms) argo
  have e: "evidence_error ?p = None \<longleftrightarrow> evidence_wf g \<and> time_wf g"
    unfolding evidence_error_def evidence_wf_def time_wf_def if_None case_None p PersistedGoalState.select_convs
      blocker_turns_error_None validateGoalTurnID_bad linorder_not_le [symmetric]
    by (simp only: simp_thms Int_empty_right) satx
  have u: "pending_usage_error ?p = None \<longleftrightarrow> pending_wf g"
    using False by (auto simp: pending_usage_error_def pending_wf_def persistedGoalState_def split: option.splits)
  have v: "ps_Version ?p = PersistedGoalStateVersion" using False by (simp add: persistedGoalState_def)
  show ?thesis
    unfolding restorable_def validatePersistedGoalState_def validatePersistedGoalStateFromVersion_def v
    using False i e u by (auto simp: cursor_wf_def)
qed (simp add: restorable_def)

section \<open>The texts of the engine\<close>

lemma no_cr: "CHR 0x0D \<notin> set s \<Longrightarrow> \<not> has_crlf s"
  by (induction s) (auto simp: has_crlf_def HasPrefix_def)

lemma plain_reason:
  "plain s \<and> s \<noteq> [] \<and> CHR 0x00 \<notin> set s \<and> CHR 0x0D \<notin> set s \<and> length s \<le> 1024 \<Longrightarrow> normalizeGoalReason s = Inr s"
  unfolding normalizeGoalReason_def goalReasonMaxScalars_def
  by (intro normalizeGoalText_plain) (auto simp: no_cr)

lemma engine_reasons [simp]:
  "normalizeGoalReason ''paused by user'' = Inr ''paused by user''"
  "normalizeGoalReason ''the Goal token budget has been reached'' = Inr ''the Goal token budget has been reached''"
  "normalizeGoalReason ''provider dispatch may have occurred without exact final usage'' =
     Inr ''provider dispatch may have occurred without exact final usage''"
  "normalizeGoalReason ''provider dispatch was canceled without exact final usage'' =
     Inr ''provider dispatch was canceled without exact final usage''"
  "normalizeGoalReason ''matching completion request reached the safe terminal boundary'' =
     Inr ''matching completion request reached the safe terminal boundary''"
  "normalizeGoalReason ''automatic Goal continuation was cancelled by the user'' =
     Inr ''automatic Goal continuation was cancelled by the user''"
  by (rule plain_reason, simp add: plain_def ascii_def is_space_def)+

lemma engine_codes [simp]:
  "normalizeGoalBlockerKey ''user-paused'' = Inr ''user-paused''"
  "normalizeGoalBlockerKey ''budget-exhausted'' = Inr ''budget-exhausted''"
  "normalizeGoalBlockerKey ''usage-coverage-incomplete'' = Inr ''usage-coverage-incomplete''"
  "normalizeGoalBlockerKey ''user-cancelled'' = Inr ''user-cancelled''"
  "normalizeGoalBlockerKey ''model-blocker'' = Inr ''model-blocker''"
  by (simp_all add: normalizeGoalBlockerKey_def plain_eval key_eval)

section \<open>Goals without a cursor\<close>

definition plain_goal :: "goalState \<Rightarrow> bool" where
  "plain_goal g \<longleftrightarrow> \<not> unavailable g \<and> unavailablePersisted g = None \<and> Continuation g = None \<and>
     identity_wf g \<and> evidence_wf g \<and> time_wf g \<and> pending_wf g"

lemma plain_goal_restorable: "plain_goal g \<longleftrightarrow> restorable dg g \<and> Continuation g = None"
proof -
  have "Continuation g = None \<Longrightarrow> cursor_wf dg g"
    by (simp add: cursor_wf_def continuation_error_def persistedGoalState_def)
  then show ?thesis by (auto simp: restorable_iff plain_goal_def)
qed

definition clock_after :: "time \<Rightarrow> goalState option \<Rightarrow> bool" where
  "clock_after now state \<longleftrightarrow> now \<noteq> 0 \<and> (case state of None \<Rightarrow> True | Some g \<Rightarrow> UpdatedAt g \<le> now)"

text \<open>Each part depends on its own fields only.\<close>

lemma identity_wf_frame [simp]:
  "identity_wf (g\<lparr>UsageLedgerRevision := x1\<rparr>) = identity_wf g"
  "identity_wf (g\<lparr>RootActiveTimeMillis := x2\<rparr>) = identity_wf g"
  "identity_wf (g\<lparr>ContinuationOrdinal := x3\<rparr>) = identity_wf g"
  "identity_wf (g\<lparr>Continuation := x4\<rparr>) = identity_wf g"
  "identity_wf (g\<lparr>LastGoalTurnID := x5\<rparr>) = identity_wf g"
  "identity_wf (g\<lparr>LastTerminalSequence := x6\<rparr>) = identity_wf g"
  "identity_wf (g\<lparr>PendingCompleteTurnID := x7\<rparr>) = identity_wf g"
  "identity_wf (g\<lparr>PendingCompleteObjectiveRevision := x8\<rparr>) = identity_wf g"
  "identity_wf (g\<lparr>PendingUsageAdmission := x9\<rparr>) = identity_wf g"
  "identity_wf (g\<lparr>BlockerKey := x10\<rparr>) = identity_wf g"
  "identity_wf (g\<lparr>BlockerTurnIDs := x11\<rparr>) = identity_wf g"
  "identity_wf (g\<lparr>CreatedAt := x12\<rparr>) = identity_wf g"
  "identity_wf (g\<lparr>UpdatedAt := x13\<rparr>) = identity_wf g"
  by (simp_all add: identity_wf_def)

lemma evidence_wf_frame [simp]:
  "evidence_wf (g\<lparr>GoalID := x14\<rparr>) = evidence_wf g"
  "evidence_wf (g\<lparr>Objective := x15\<rparr>) = evidence_wf g"
  "evidence_wf (g\<lparr>Status := x16\<rparr>) = evidence_wf g"
  "evidence_wf (g\<lparr>StatusReasonCode := x17\<rparr>) = evidence_wf g"
  "evidence_wf (g\<lparr>StatusReason := x18\<rparr>) = evidence_wf g"
  "evidence_wf (g\<lparr>Revision := x19\<rparr>) = evidence_wf g"
  "evidence_wf (g\<lparr>TokenBudget := x20\<rparr>) = evidence_wf g"
  "evidence_wf (g\<lparr>TokensUsed := x21\<rparr>) = evidence_wf g"
  "evidence_wf (g\<lparr>UsageLedgerRevision := x22\<rparr>) = evidence_wf g"
  "evidence_wf (g\<lparr>RootActiveTimeMillis := x23\<rparr>) = evidence_wf g"
  "evidence_wf (g\<lparr>ContinuationOrdinal := x24\<rparr>) = evidence_wf g"
  "evidence_wf (g\<lparr>Continuation := x25\<rparr>) = evidence_wf g"
  "evidence_wf (g\<lparr>LastTerminalSequence := x26\<rparr>) = evidence_wf g"
  "evidence_wf (g\<lparr>PendingUsageAdmission := x27\<rparr>) = evidence_wf g"
  "evidence_wf (g\<lparr>CreatedAt := x28\<rparr>) = evidence_wf g"
  "evidence_wf (g\<lparr>UpdatedAt := x29\<rparr>) = evidence_wf g"
  by (simp_all add: evidence_wf_def)

lemma time_wf_frame [simp]:
  "time_wf (g\<lparr>GoalID := x30\<rparr>) = time_wf g" "time_wf (g\<lparr>Objective := x31\<rparr>) = time_wf g"
  "time_wf (g\<lparr>ObjectiveRevision := x32\<rparr>) = time_wf g"
  "time_wf (g\<lparr>Status := x33\<rparr>) = time_wf g"
  "time_wf (g\<lparr>StatusReasonCode := x34\<rparr>) = time_wf g"
  "time_wf (g\<lparr>StatusReason := x35\<rparr>) = time_wf g"
  "time_wf (g\<lparr>Revision := x36\<rparr>) = time_wf g"
  "time_wf (g\<lparr>TokenBudget := x37\<rparr>) = time_wf g"
  "time_wf (g\<lparr>TokensUsed := x38\<rparr>) = time_wf g"
  "time_wf (g\<lparr>UsageLedgerRevision := x39\<rparr>) = time_wf g"
  "time_wf (g\<lparr>ContinuationOrdinal := x40\<rparr>) = time_wf g"
  "time_wf (g\<lparr>Continuation := x41\<rparr>) = time_wf g"
  "time_wf (g\<lparr>LastGoalTurnID := x42\<rparr>) = time_wf g"
  "time_wf (g\<lparr>LastTerminalSequence := x43\<rparr>) = time_wf g"
  "time_wf (g\<lparr>PendingCompleteTurnID := x44\<rparr>) = time_wf g"
  "time_wf (g\<lparr>PendingCompleteObjectiveRevision := x45\<rparr>) = time_wf g"
  "time_wf (g\<lparr>PendingUsageAdmission := x46\<rparr>) = time_wf g"
  "time_wf (g\<lparr>BlockerKey := x47\<rparr>) = time_wf g"
  "time_wf (g\<lparr>BlockerTurnIDs := x48\<rparr>) = time_wf g"
  by (simp_all add: time_wf_def)

lemma pending_wf_frame [simp]:
  "pending_wf (g\<lparr>Objective := x49\<rparr>) = pending_wf g"
  "pending_wf (g\<lparr>Status := x50\<rparr>) = pending_wf g"
  "pending_wf (g\<lparr>StatusReasonCode := x51\<rparr>) = pending_wf g"
  "pending_wf (g\<lparr>StatusReason := x52\<rparr>) = pending_wf g"
  "pending_wf (g\<lparr>Revision := x53\<rparr>) = pending_wf g"
  "pending_wf (g\<lparr>TokenBudget := x54\<rparr>) = pending_wf g"
  "pending_wf (g\<lparr>TokensUsed := x55\<rparr>) = pending_wf g"
  "pending_wf (g\<lparr>RootActiveTimeMillis := x56\<rparr>) = pending_wf g"
  "pending_wf (g\<lparr>ContinuationOrdinal := x57\<rparr>) = pending_wf g"
  "pending_wf (g\<lparr>Continuation := x58\<rparr>) = pending_wf g"
  "pending_wf (g\<lparr>LastTerminalSequence := x59\<rparr>) = pending_wf g"
  "pending_wf (g\<lparr>PendingCompleteTurnID := x60\<rparr>) = pending_wf g"
  "pending_wf (g\<lparr>PendingCompleteObjectiveRevision := x61\<rparr>) = pending_wf g"
  "pending_wf (g\<lparr>BlockerKey := x62\<rparr>) = pending_wf g"
  "pending_wf (g\<lparr>BlockerTurnIDs := x63\<rparr>) = pending_wf g"
  by (simp_all add: pending_wf_def split: option.split)

lemma reset_simps [simp]:
  "GoalID (resetGoalTurnEvidence g) = GoalID g" "Objective (resetGoalTurnEvidence g) = Objective g"
  "ObjectiveRevision (resetGoalTurnEvidence g) = ObjectiveRevision g" "Status (resetGoalTurnEvidence g) = Status g"
  "StatusReason (resetGoalTurnEvidence g) = StatusReason g" "StatusReasonCode (resetGoalTurnEvidence g) = StatusReasonCode g"
  "Revision (resetGoalTurnEvidence g) = Revision g" "TokenBudget (resetGoalTurnEvidence g) = TokenBudget g"
  "TokensUsed (resetGoalTurnEvidence g) = TokensUsed g" "UsageLedgerRevision (resetGoalTurnEvidence g) = UsageLedgerRevision g"
  "RootActiveTimeMillis (resetGoalTurnEvidence g) = RootActiveTimeMillis g"
  "Continuation (resetGoalTurnEvidence g) = Continuation g" "LastGoalTurnID (resetGoalTurnEvidence g) = LastGoalTurnID g"
  "PendingUsageAdmission (resetGoalTurnEvidence g) = PendingUsageAdmission g"
  "CreatedAt (resetGoalTurnEvidence g) = CreatedAt g" "UpdatedAt (resetGoalTurnEvidence g) = UpdatedAt g"
  "unavailable (resetGoalTurnEvidence g) = unavailable g" "unavailablePersisted (resetGoalTurnEvidence g) = unavailablePersisted g"
  by (simp_all add: resetGoalTurnEvidence_def)

lemma evidence_reset [simp]:
  "evidence_wf (resetGoalTurnEvidence g) \<longleftrightarrow> LastGoalTurnID g = [] \<or> \<not> bad_turn (LastGoalTurnID g)"
  by (simp add: evidence_wf_def resetGoalTurnEvidence_def)

lemma evidence_last: "evidence_wf g \<Longrightarrow> LastGoalTurnID g = [] \<or> \<not> bad_turn (LastGoalTurnID g)"
  by (simp add: evidence_wf_def)

lemma next_revision:
  assumes "nextGoalRevision g now = Inr g'" "plain_goal g" "clock_after now (Some g)"
  shows "plain_goal g' \<and> g' = g\<lparr>Revision := Revision g + 1, UpdatedAt := now\<rparr> \<and> UpdatedAt g' = now"
proof -
  have g': "g' = g\<lparr>Revision := Revision g + 1, UpdatedAt := now\<rparr>" "Revision g \<noteq> MaxUint64"
    using assms(1) by (auto simp: nextGoalRevision_def split: if_splits)
  have "unat (Revision g + 1) = Suc (unat (Revision g))" using g'(2) by (rule word_Suc)
  then have "identity_wf g'" using assms(2) g'(1) by (simp add: plain_goal_def identity_wf_def)
  moreover have "time_wf g'" using assms(2,3) g'(1) by (simp add: plain_goal_def time_wf_def clock_after_def)
  moreover have "pending_wf g'" using assms(2,3) g'(1)
    by (auto simp: plain_goal_def pending_wf_def clock_after_def split: option.splits)
  ultimately show ?thesis using assms(2) g'(1) by (simp add: plain_goal_def)
qed

lemma pending_reset [simp]: "pending_wf (resetGoalTurnEvidence g) = pending_wf g"
  and time_reset [simp]: "time_wf (resetGoalTurnEvidence g) = time_wf g"
  and identity_reset [simp]: "identity_wf (resetGoalTurnEvidence g) = identity_wf g"
  by (simp_all add: resetGoalTurnEvidence_def)

text \<open>A goal stopped by the engine, with a reason of its own.\<close>

lemma plain_stopped:
  assumes "plain_goal g" "knownGoalStatus st" "st \<noteq> goalStatusActive"
    and "normalizeGoalReason reason = Inr reason" "code = [] \<or> normalizeGoalBlockerKey code = Inr code"
  shows "plain_goal (resetGoalTurnEvidence (g\<lparr>Status := st, StatusReasonCode := code, StatusReason := reason\<rparr>))"
proof -
  have "identity_wf (g\<lparr>Status := st, StatusReasonCode := code, StatusReason := reason\<rparr>)"
    using assms by (simp add: plain_goal_def identity_wf_def)
  then show ?thesis using assms(1) evidence_last [of g] by (simp add: plain_goal_def)
qed

section \<open>Control operations\<close>

definition control_text :: "goal_control \<Rightarrow> string option" where
  "control_text op =
     (case op of ControlCreate x _ _ \<Rightarrow> Some x | ControlEdit x _ \<Rightarrow> Some x | _ \<Rightarrow> None)"

text \<open>The objective of the operation keeps no carriage return before a line feed when it is normalised.\<close>

definition stable_text :: "goal_control \<Rightarrow> bool" where
  "stable_text op \<longleftrightarrow>
     (case control_text op of None \<Rightarrow> True
      | Some x \<Rightarrow> (case normalizeGoalObjective x of Inl _ \<Rightarrow> True | Inr n \<Rightarrow> \<not> has_crlf n))"

lemma stable_objective:
  "normalizeGoalObjective x = Inr n \<Longrightarrow> \<not> has_crlf n \<Longrightarrow> normalizeGoalObjective n = Inr n"
  unfolding normalizeGoalObjective_def using normalizeGoalText_again by blast

lemma create_plain:
  assumes "create_build env n budget cur ph now = Inr g" "normalizeGoalObjective n = Inr n" "budget \<noteq> Some 0"
    and "\<not> bad_turn (gv_uuid env)" "now \<noteq> 0"
  shows "plain_goal g"
proof -
  have "goalBudgetHasRemaining budget 0" using assms(3)
    by (auto simp: goalBudgetHasRemaining_def word_gt_0 split: option.split)
  then show ?thesis using assms
    by (auto simp: create_build_def plain_goal_def wf_defs knownGoalStatus_def split: if_splits)
qed

lemma edit_plain:
  assumes "edit_build n (Some g0) ph now = Inr g" "normalizeGoalObjective n = Inr n" "plain_goal g0" "clock_after now (Some g0)"
  shows "plain_goal g"
proof -
  have g: "g = resetGoalTurnEvidence (g0\<lparr>Objective := n, ObjectiveRevision := ObjectiveRevision g0 + 1,
      Revision := Revision g0 + 1, UpdatedAt := now\<rparr>)"
    and r: "ObjectiveRevision g0 \<noteq> MaxUint64" "Revision g0 \<noteq> MaxUint64" "PendingUsageAdmission g0 = None"
    using assms(1) by (auto simp: edit_build_def mutableGoalStateError_def Let_def split: if_splits option.splits)
  have "identity_wf (g0\<lparr>Objective := n, ObjectiveRevision := ObjectiveRevision g0 + 1, Revision := Revision g0 + 1\<rparr>)"
    using assms(2,3) r word_Suc [OF r(1)] word_Suc [OF r(2)]
    by (simp add: plain_goal_def identity_wf_def) (metis add.commute eq_neg_iff_add_eq_0)
  moreover have "pending_wf (g0\<lparr>Objective := n, ObjectiveRevision := ObjectiveRevision g0 + 1, Revision := Revision g0 + 1, UpdatedAt := now\<rparr>)"
    using r(3) by (simp add: pending_wf_def)
  moreover have "time_wf (g0\<lparr>UpdatedAt := now\<rparr>)" using assms(3,4) by (simp add: plain_goal_def time_wf_def clock_after_def)
  ultimately show ?thesis using assms(3) g evidence_last [of g0]
    by (simp add: plain_goal_def time_wf_def)
qed

lemma pause_plain:
  "pause_build (Some g0) ph now = Inr g \<Longrightarrow> plain_goal g0 \<Longrightarrow> clock_after now (Some g0) \<Longrightarrow> plain_goal g"
  by (auto simp: pause_build_def Let_def knownGoalStatus_def dest!: next_revision intro!: plain_stopped
      split: option.splits if_splits sum.splits)

lemma resume_plain:
  assumes "resume_build (Some g0) ph now = Inr g" "plain_goal g0" "clock_after now (Some g0)"
  shows "plain_goal g"
proof (cases "g = g0")
  case False
  then obtain g1 where g1: "nextGoalRevision g0 now = Inr g1"
    and g: "g = resetGoalTurnEvidence (g1\<lparr>Status := goalStatusActive, StatusReasonCode := [], StatusReason := []\<rparr>)"
    and b: "\<not> (case TokenBudget g0 of None \<Rightarrow> False | Some b \<Rightarrow> b \<le> TokensUsed g0)"
    using assms(1) by (auto simp: resume_build_def Let_def split: option.splits if_splits sum.splits)
  have n: "plain_goal g1" "TokenBudget g1 = TokenBudget g0" "TokensUsed g1 = TokensUsed g0"
    using next_revision [OF g1 assms(2,3)] by auto
  have "goalBudgetHasRemaining (TokenBudget g0) (TokensUsed g0)"
    using b by (auto simp: goalBudgetHasRemaining_def split: option.splits)
  then have "identity_wf (g1\<lparr>Status := goalStatusActive, StatusReasonCode := [], StatusReason := []\<rparr>)"
    using n by (simp add: plain_goal_def identity_wf_def knownGoalStatus_def)
  then show ?thesis using n g evidence_last [of g1] by (simp add: plain_goal_def)
qed (use assms in simp)

lemma setBudget_plain:
  assumes "setBudget_build b (Some g0) ph now = Inr g" "plain_goal g0" "clock_after now (Some g0)" "b \<noteq> 0"
  shows "plain_goal g"
proof -
  obtain g1 where g1: "nextGoalRevision g0 now = Inr g1"
    and g: "g = (let g'' = g1\<lparr>TokenBudget := Some b\<rparr> in
      if Status g'' = goalStatusActive \<and> b \<le> TokensUsed g'' then budget_limited g'' else g'')"
    using assms(1) by (auto simp: setBudget_build_def Let_def split: option.splits if_splits sum.splits)
  have n: "plain_goal g1" "TokenBudget g1 = TokenBudget g0" "TokensUsed g1 = TokensUsed g0"
    using next_revision [OF g1 assms(2,3)] by auto
  show ?thesis
  proof (cases "Status g1 = goalStatusActive \<and> b \<le> TokensUsed g1")
    case True
    have "identity_wf (g1\<lparr>TokenBudget := Some b, Status := goalStatusBudgetLimited, StatusReasonCode := ''budget-exhausted'',
       StatusReason := ''the Goal token budget has been reached''\<rparr>)"
      using n assms(4) by (simp add: plain_goal_def identity_wf_def knownGoalStatus_def)
    then show ?thesis using n True g evidence_last [of g1] by (simp add: plain_goal_def budget_limited_def)
  next
    case False
    then have "identity_wf (g1\<lparr>TokenBudget := Some b\<rparr>)"
      using n assms(4) by (simp add: plain_goal_def identity_wf_def goalBudgetHasRemaining_def) (meson linorder_not_le)
    then show ?thesis using n False g by (auto simp: plain_goal_def Let_def)
  qed
qed

text \<open>
  Control keeps a goal restorable: when the goal (if there is one) passes the check of a saved
  goal and carries no continuation, the clock does not run backwards and the objective keeps no
  carriage return before a line feed, then the goal any control operation leaves passes it too.
\<close>

lemma control_keeps_restorable:
  assumes "ge_goal e = None \<or> (\<exists>g0. ge_goal e = Some g0 \<and> restorable dg g0 \<and> Continuation g0 = None)"
    and "clock_after (gv_now env) (ge_goal e)" "stable_text op" "\<not> bad_turn (gv_uuid env)"
    and "control env op e = (e', Inr g)"
  shows "restorable dg g \<and> Continuation g = None"
proof -
  have g0: "plain_goal g0 \<and> live_cursor g0 = None" if "ge_goal e = Some g0" for g0
    using assms(1) that plain_goal_restorable [of g0 dg] by (auto simp: live_cursor_def)
  obtain phase owner build where plan: "control_plan env op = Inr (phase, owner, build)"
    using assms(5) by (auto simp: control_transition split: sum.splits)
  have built: "plain_goal b" if "build (ge_goal e) ph (gv_now env) = Inr b" for ph b
  proof (cases op)
    case (ControlCreate x budget o')
    then show ?thesis using that plan assms(2-4) stable_objective
      by (auto simp: stable_text_def control_text_def clock_after_def split: sum.splits if_splits intro: create_plain)
  next
    case (ControlEdit x o')
    then show ?thesis using that plan assms(2,3) g0 stable_objective
      by (cases "ge_goal e") (auto simp: stable_text_def control_text_def edit_build_def [of _ None] mutableGoalStateError_def
          split: sum.splits intro: edit_plain)
  next
    case (ControlPause o')
    then show ?thesis using that plan assms(2) g0
      by (cases "ge_goal e") (auto simp: pause_build_def [of None] mutableGoalStateError_def intro: pause_plain)
  next
    case (ControlResume o')
    then show ?thesis using that plan assms(2) g0
      by (cases "ge_goal e") (auto simp: resume_build_def [of None] mutableGoalStateError_def intro: resume_plain)
  next
    case (ControlSetBudget b' o')
    then show ?thesis using that plan assms(2) g0
      by (cases "ge_goal e") (auto simp: setBudget_build_def [of _ None] mutableGoalStateError_def
          split: if_splits intro: setBudget_plain)
  qed
  have run: "transition env phase owner build e = (e', Inr g)" using assms(5) plan by (simp add: control_transition)
  have "plain_goal g"
  proof (cases rule: transition_cases [of env phase owner build e])
    case (published b)
    have "g = b" using publish_outcome [of env phase b e e' "Inr g"] run published g0
      by (cases "ge_goal e") auto
    then show ?thesis using built published(2) by simp
  qed (use run g0 in auto)
  then show ?thesis using plain_goal_restorable by blast
qed

lemma demo_uuid: "\<not> bad_turn ''g1''"
  by (simp add: bad_turn_def plain_eval)

lemma demo_plain: "plain_goal demo_goal"
  unfolding demo_goal_def
  by (rule create_plain [where env = demo_env and n = "''fix it''" and budget = "Some 100" and cur = None and
        ph = PlanPhaseInactive and now = 500])
     (simp_all add: create_build_def planPhaseRequiresContainment_def objective_example demo_env_def demo_uuid)

lemma control_keeps_restorable_witness:
  "\<exists>g. snd (control demo_env (ControlPause []) demo_engine) = Inr g \<and> restorable (\<lambda>_. ''d'') g"
proof -
  obtain e' g where c: "control demo_env (ControlPause []) demo_engine = (e', Inr g)"
    using demo_pause by (auto split: prod.splits sum.splits)
  have "restorable (\<lambda>_. ''d'') demo_goal \<and> Continuation demo_goal = None"
    using demo_plain plain_goal_restorable by blast
  then have "ge_goal demo_engine = None \<or>
      (\<exists>g0. ge_goal demo_engine = Some g0 \<and> restorable (\<lambda>_. ''d'') g0 \<and> Continuation g0 = None)"
    by (simp add: demo_engine_def)
  moreover have "clock_after (gv_now demo_env) (ge_goal demo_engine)"
    by (simp add: clock_after_def demo_defs create_build_def planPhaseRequiresContainment_def)
  moreover have "stable_text (ControlPause [])" by (simp add: stable_text_def control_text_def)
  moreover have "\<not> bad_turn (gv_uuid demo_env)" by (simp add: demo_env_def demo_uuid)
  ultimately have "restorable (\<lambda>_. ''d'') g \<and> Continuation g = None" using c by (rule control_keeps_restorable)
  then show ?thesis using c by simp
qed

section \<open>Operations of a turn\<close>

lemma stop_plain [simp]:
  assumes "plain_goal g"
  shows "plain_goal (snd (stopActiveIntervalLocked now rt g))"
proof -
  have nn: "0 \<le> m \<Longrightarrow> 0 \<le> add_active m since now" for m since
    by (auto simp: add_active_def Let_def MaxInt64_def)
  have "time_wf (g\<lparr>RootActiveTimeMillis := add_active (RootActiveTimeMillis g) since now\<rparr>)" for since
    using assms nn by (simp add: plain_goal_def time_wf_def)
  then show ?thesis using assms by (simp add: stopActiveIntervalLocked_def plain_goal_def split: option.split)
qed

lemma begin_plain:
  assumes "begin_plain_turn env turnID steering g = Inr g'" "plain_goal g" "clock_after (gv_now env) (Some g)"
    and "validateGoalTurnID turnID = None" "PendingUsageAdmission g = None"
  shows "plain_goal g'"
proof -
  obtain g1 where g1: "nextGoalRevision g (gv_now env) = Inr g1"
    using assms(1) by (auto simp: begin_plain_turn_def split: sum.splits)
  have n: "plain_goal g1" "PendingUsageAdmission g1 = None" using next_revision [OF g1 assms(2,3)] assms(5) by auto
  have "g' = (if steering then resetGoalTurnEvidence (g1\<lparr>LastGoalTurnID := turnID\<rparr>) else g1\<lparr>LastGoalTurnID := turnID\<rparr>)"
    using assms(1) g1 n(1)
    by (auto simp: begin_plain_turn_def Let_def live_cursor_def plain_goal_def split: option.splits if_splits)
  moreover have "evidence_wf (g1\<lparr>LastGoalTurnID := turnID\<rparr>)"
    using n(1) assms(4) by (auto simp: plain_goal_def evidence_wf_def validateGoalTurnID_bad)
  moreover have "pending_wf (g1\<lparr>LastGoalTurnID := turnID\<rparr>)" using n(2) by (simp add: pending_wf_def)
  ultimately show ?thesis using n(1) assms(4) by (simp add: plain_goal_def validateGoalTurnID_bad)
qed

lemma request_plain:
  assumes "plain_goal g" "validateGoalTurnID turnID = None"
  shows "plain_goal (g\<lparr>PendingCompleteTurnID := turnID, PendingCompleteObjectiveRevision := ObjectiveRevision g\<rparr>)"
proof -
  have "turnID \<noteq> []" using assms(2) by (auto simp: validateGoalTurnID_def)
  then have "evidence_wf (g\<lparr>PendingCompleteTurnID := turnID, PendingCompleteObjectiveRevision := ObjectiveRevision g\<rparr>)"
    using assms by (auto simp: plain_goal_def evidence_wf_def identity_wf_def validateGoalTurnID_bad)
  then show ?thesis using assms(1) by (simp add: plain_goal_def)
qed

lemma blocker_plain:
  assumes "plain_goal g" "normalizeGoalBlockerKey key = Inr key" "normalizeGoalReason reason = Inr reason" "key \<noteq> []"
    and "validateGoalTurnID turnID = None"
  shows "plain_goal (snd (blocker_evidence key reason turnID now rt g))"
proof -
  let ?g1 = "if BlockerKey g \<noteq> key then g\<lparr>BlockerKey := key, BlockerTurnIDs := []\<rparr> else g"
  let ?ids = "BlockerTurnIDs ?g1 @ [turnID]"
  have ok: "evidence_wf (?g1\<lparr>BlockerTurnIDs := drop n ?ids\<rparr>)"
    if "turnID \<notin> set (BlockerTurnIDs ?g1)" "length ?ids \<le> n + 3" "n < length ?ids" for n
    using assms that
    by (auto simp: plain_goal_def evidence_wf_def validateGoalTurnID_bad list_all_iff dest: in_set_dropD)
  have p: "plain_goal (?g1\<lparr>BlockerTurnIDs := drop n ?ids\<rparr>)"
    if "turnID \<notin> set (BlockerTurnIDs ?g1)" "length ?ids \<le> n + 3" "n < length ?ids" for n
    using ok [OF that] assms(1) by (cases "BlockerKey g = key") (simp_all add: plain_goal_def)
  have b: "plain_goal (h\<lparr>Status := goalStatusBlocked, StatusReasonCode := ''model-blocker'', StatusReason := reason\<rparr>)"
    if "plain_goal h" for h
  proof -
    have "identity_wf (h\<lparr>Status := goalStatusBlocked, StatusReasonCode := ''model-blocker'', StatusReason := reason\<rparr>)"
      using that assms(3) by (simp add: plain_goal_def identity_wf_def knownGoalStatus_def)
    then show ?thesis using that by (simp add: plain_goal_def)
  qed
  show ?thesis
  proof (cases "turnID \<in> set (BlockerTurnIDs ?g1)")
    case True
    then have "BlockerKey g = key" by (auto split: if_splits)
    then show ?thesis using True assms(1) by (simp add: blocker_evidence_def)
  next
    case new: False
    have ev: "snd (blocker_evidence key reason turnID now rt g) =
      (if length ?ids < 3 then ?g1\<lparr>BlockerTurnIDs := drop 0 ?ids\<rparr>
       else snd (stopActiveIntervalLocked now rt ((?g1\<lparr>BlockerTurnIDs := drop (length ?ids - 3) ?ids\<rparr>)
         \<lparr>Status := goalStatusBlocked, StatusReasonCode := ''model-blocker'', StatusReason := reason\<rparr>)))"
      using new by (simp add: blocker_evidence_def Let_def)
    show ?thesis unfolding ev using new p [of 0] p [of "length ?ids - 3"] b stop_plain by auto
  qed
qed

lemma evidence_plain:
  assumes "ge_goal e = Some g" "plain_goal g" "clock_after (gv_now env) (Some g)"
    and "\<And>now rt h. plain_goal h \<Longrightarrow> ObjectiveRevision h = objRev \<Longrightarrow> validateGoalTurnID turnID = None \<Longrightarrow> plain_goal (snd (mutate now rt h))"
    and "ge_goal (fst (commitTurnEvidence env phase goalID objRev turnID mutate e)) = Some g'"
  shows "plain_goal g'"
proof (cases "validateGoalTurnID turnID = None \<and> ObjectiveRevision g = objRev")
  case True
  show ?thesis
  proof (cases "nextGoalRevision g (gv_now env)")
    case (Inr g0)
    have g0: "plain_goal g0" "ObjectiveRevision g0 = objRev" using next_revision [OF Inr assms(2,3)] True by auto
    obtain rt h where m: "mutate (gv_now env) (ge_runtime e) g0 = (rt, h)" by fastforce
    have "plain_goal h" using assms(4) [OF g0] True m by (metis snd_conv)
    then show ?thesis using assms(1,2,5) Inr m
      by (auto simp: commitTurnEvidence_def Let_def projectGoalLifecycle_def split: option.splits if_splits)
  qed (use assms in \<open>auto simp: commitTurnEvidence_def Let_def split: option.splits if_splits\<close>)
qed (use assms in \<open>auto simp: commitTurnEvidence_def Let_def split: option.splits if_splits\<close>)

lemma terminal_plain:
  assumes "plain_goal g"
  shows "plain_goal (terminal_goal env identity reason seq r g)"
proof -
  have s: "plain_goal (h\<lparr>LastTerminalSequence := n\<rparr>)" if "plain_goal h" for h n using that by (simp add: plain_goal_def)
  have c: "plain_goal (h\<lparr>PendingCompleteTurnID := [], PendingCompleteObjectiveRevision := 0\<rparr>)" if "plain_goal h" for h
  proof -
    have "evidence_wf (h\<lparr>PendingCompleteTurnID := [], PendingCompleteObjectiveRevision := 0\<rparr>)"
      using that by (auto simp: plain_goal_def evidence_wf_def)
    then show ?thesis using that by (simp add: plain_goal_def)
  qed
  show ?thesis unfolding terminal_goal_def Let_def
    by (auto simp: assms s c knownGoalStatus_def intro!: plain_stopped)
qed

text \<open>A fresh cursor binds the goal it was derived from.\<close>

lemma new_cursor_restorable:
  assumes "plain_goal g" "newGoalContinuationCursor dg g scope reason seq at rrev = Inr c" "Status g = goalStatusActive"
    and "LastTerminalSequence g = seq"
  shows "restorable dg (g\<lparr>ContinuationOrdinal := gc_ContinuationOrdinal c, Continuation := Some c\<rparr>)"
proof -
  have c: "validateGoalContinuationCursor dg c = None" "gc_GoalID c = GoalID g" "gc_ObjectiveRevision c = ObjectiveRevision g"
    "gc_PredecessorTerminalSequence c = seq" "gc_TokenBudget c = TokenBudget g" "gc_TokensUsed c = TokensUsed g"
    "gc_UsageLedgerRevision c = UsageLedgerRevision g" "gc_Disposition c = DispositionPending"
    "gc_PredecessorGoalTurnID c = LastGoalTurnID g" "gc_GoalRevision c = Revision g"
    using assms(2) by (auto simp: newGoalContinuationCursor_def Let_def continuation_ids_def split: if_splits option.splits)
  have "cursor_wf dg (g\<lparr>ContinuationOrdinal := gc_ContinuationOrdinal c, Continuation := Some c\<rparr>)"
    using assms c by (auto simp: cursor_wf_def continuation_error_def persistedGoalState_def sameGoalTokenBudget_def
        plain_goal_def split: option.split)
  then show ?thesis using assms(1) by (simp add: restorable_iff plain_goal_def)
qed

definition stable_reason :: "turn_op \<Rightarrow> bool" where
  "stable_reason op \<longleftrightarrow>
     (case op of Turn_ReportBlocker _ _ _ reason _ \<Rightarrow>
        (case normalizeGoalReason reason of Inl _ \<Rightarrow> True | Inr n \<Rightarrow> \<not> has_crlf n)
      | _ \<Rightarrow> True)"

lemma plain_turn_quiet:
  assumes "ge_goal e = Some g" "plain_goal g" "clock_after (gv_now env) (Some g)"
    and "ge_goal (run_turn env op e) = Some g'"
    and "\<exists>reason. op \<in> {Turn_PauseFor reason, Turn_ResumeFor reason, Turn_Abandon reason, Turn_Cancel} \<or> (\<exists>i. op = Turn_Delivered i reason)"
  shows "plain_goal g'"
proof (cases "nextGoalRevision g (gv_now env)")
  case (Inr g0)
  have g0: "plain_goal g0" using next_revision [OF Inr assms(2,3)] by blast
  have lc: "live_cursor (snd (stopActiveIntervalLocked t rt h)) = live_cursor h" for t rt h
    by (simp add: live_cursor_def)
  have c: "live_cursor h = None" if "plain_goal h" for h using that by (simp add: plain_goal_def live_cursor_def)
  let ?paused = "resetGoalTurnEvidence (g0\<lparr>Status := goalStatusPaused, StatusReasonCode := ''user-cancelled'',
     StatusReason := ''automatic Goal continuation was cancelled by the user''\<rparr>)"
  have "plain_goal ?paused" using g0 by (intro plain_stopped) (simp_all add: knownGoalStatus_def)
  then have s: "plain_goal h \<and> live_cursor h = None" if "stopActiveIntervalLocked t rt ?paused = (rt', h)" for t rt rt' h
    using that stop_plain c by (metis snd_conv)
  have s0: "plain_goal h" if "stopActiveIntervalLocked t rt g0 = (rt', h)" for t rt rt' h
    using that stop_plain [OF g0] by (metis snd_conv)
  from assms(5) consider reason where "op = Turn_PauseFor reason" | reason where "op = Turn_ResumeFor reason"
    | reason where "op = Turn_Abandon reason" | "op = Turn_Cancel" | i reason where "op = Turn_Delivered i reason" by blast
  then show ?thesis
  proof cases
    case 1
    then show ?thesis using assms(1,2,4) Inr g0 s0
      by (auto simp: pauseTurnFor_def Let_def split: option.splits if_splits prod.splits)
  next
    case 2
    then show ?thesis using assms(1,2,4) Inr g0
      by (auto simp: resumeTurnFor_def Let_def split: option.splits if_splits)
  next
    case 3
    then show ?thesis using assms(1,2,4) by (auto simp: abandonTurn_def split: option.splits if_splits)
  next
    case 4
    then show ?thesis using assms(1,2,4) Inr s
      by (auto simp: pauseForCancellation_def Let_def projectGoalLifecycle_def split: option.splits if_splits prod.splits)
  next
    case 5
    then show ?thesis using assms(1,2,4) by (auto simp: markContinuationDelivered_def plain_goal_def split: option.splits)
  qed
next
  case (Inl err)
  then show ?thesis using assms
    by (auto simp: pauseTurnFor_def resumeTurnFor_def abandonTurn_def pauseForCancellation_def markContinuationDelivered_def
        Let_def plain_goal_def split: option.splits if_splits)
qed

lemma begin_turn_plain:
  assumes "ge_goal e = Some g" "plain_goal g" "clock_after (gv_now env) (Some g)"
    and "ge_goal (run_turn env (Turn_Begin turnID steering item) e) = Some g'"
  shows "plain_goal g'"
proof (cases item)
  case None
  show ?thesis using assms None
    by (auto simp: beginTurn_def split: option.splits sum.splits if_splits prod.splits
        dest!: start_runtime_goal intro: begin_plain)
next
  case (Some it)
  have "Continuation g = None" using assms(2) plain_goal_restorable by blast
  then have "validateGoalContinuationAdmission (Some g) it sc t = Some (Errorf ''goal continuation has no active owner'')" for sc t
    by (simp add: validateGoalContinuationAdmission_def)
  then show ?thesis using assms Some
    by (auto simp: beginTurn_def beginContinuationTurn_def split: option.splits if_splits)
qed

lemma report_turn_plain:
  assumes "ge_goal e = Some g" "plain_goal g" "clock_after (gv_now env) (Some g)"
    and "stable_reason (Turn_ReportBlocker goalID objRev turnID reason key)"
    and "ge_goal (run_turn env (Turn_ReportBlocker goalID objRev turnID reason key) e) = Some g'"
  shows "plain_goal g'"
proof (cases "\<exists>n k. normalizeGoalReason reason = Inr n \<and> normalizeGoalBlockerKey key = Inr k")
  case True
  then obtain n k where nk: "normalizeGoalReason reason = Inr n" "normalizeGoalBlockerKey key = Inr k" by blast
  have n: "normalizeGoalReason n = Inr n" using nk(1) assms(4) normalizeGoalText_again
    unfolding normalizeGoalReason_def by (fastforce simp: stable_reason_def normalizeGoalReason_def)
  note k = normalizeGoalBlockerKey_stable [OF nk(2)]
  show ?thesis
    by (rule evidence_plain [OF assms(1,2), where env = "goal_env.truncate env" and goalID = goalID and objRev = objRev
          and turnID = turnID and phase = GoalLifecycleBlockerReported and mutate = "blocker_evidence k n turnID"])
       (use assms(3,5) nk n k blocker_plain in \<open>auto simp: reportBlocker_def\<close>)
qed (use assms in \<open>auto simp: reportBlocker_def split: sum.splits\<close>)

lemma terminal_turn_restorable:
  assumes "ge_goal e = Some g" "plain_goal g" "clock_after (gv_now env) (Some g)"
    and "ge_goal (run_turn env (Turn_Terminal identity reason) e) = Some g'"
  shows "restorable (tv_digest env) g'"
proof (cases rule: terminal_cases [of env identity reason e])
  case (refused err)
  then show ?thesis using assms plain_goal_restorable by auto
next
  case (committed r h g0 h')
  then have [simp]: "h = g" "h' = g'" using assms(1,4) by auto
  let ?t = "terminal_goal env identity reason (tv_sequence env + 2) r g0"
  have "plain_goal g0" using next_revision [of g "gv_now env" g0] committed(3) assms(2,3) by auto
  then have t: "plain_goal ?t" by (rule terminal_plain)
  have seq: "LastTerminalSequence ?t = tv_sequence env + 2"
    by (simp add: terminal_goal_def Let_def resetGoalTurnEvidence_def)
  show ?thesis using committed(5) t seq plain_goal_restorable [of ?t "tv_digest env"] new_cursor_restorable [OF t]
    by (auto simp: terminal_next_def Let_def goalContinuationEligible_def split: if_splits option.splits sum.splits)
qed



section \<open>Restoring\<close>

lemma restore_current:
  assumes "restorable dg g" "TrimUnicode agentID = []"
  shows "restorePersistedGoalState dg (persistedGoalState (Some g)) agentID now =
    cold_pause (the (persistedGoalState (Some g))) now g [] False"
proof -
  obtain p where p: "persistedGoalState (Some g) = Some p" "ps_Version p = PersistedGoalStateVersion"
    "\<not> ps_invalidEncoding p" "ps_PendingUsageAdmission p = PendingUsageAdmission g" "ps_Continuation p = Continuation g"
    "goalStateFromPersisted p = g" "p\<lparr>ps_Version := PersistedGoalStateVersion\<rparr> = p"
    using assms(1) by (simp add: restorable_def persistedGoalState_def goalStateFromPersisted_def)
  have v: "validatePersistedGoalStateFromVersion dg p PersistedGoalStateVersion = None"
    using assms(1) p by (simp add: restorable_def validatePersistedGoalState_def)
  have a: "\<not> (case PendingUsageAdmission g of None \<Rightarrow> False | Some a \<Rightarrow> ua_Version a \<noteq> PersistedGoalUsageAdmissionVersion)"
    using assms(1) by (auto simp: restorable_iff pending_wf_def validateGoalUsageAdmission_def split: option.splits if_splits)
  have "PersistedGoalStateVersion \<noteq> PersistedGoalStateLegacyVersion" "PersistedGoalStateVersion \<noteq> PersistedGoalStateAccountingVersion"
    by (simp_all add: version_defs)
  then show ?thesis using p(1-6) v a assms(2)
    by (simp add: restorePersistedGoalState_def restorePersistedGoalStateWithUsage_def p(7) Let_def)
qed



lemma reconcile_available:
  "reconcileGoalUsageState g loaded now = (g', changed, err) \<Longrightarrow> unavailable g' = unavailable g"
  by (auto simp: reconcileGoalUsageState_def usageLimitedGoalState_def applyGoalUsageRecord_def nextGoalRevision_def
      usage_limited_def budget_limited_def Let_def split: sum.splits option.splits if_splits prod.splits)

text \<open>
  C25. Restoring fails closed and loses nothing: a restored goal is active only with a live
  continuation cursor, and a goal that cannot be used is saved again exactly as it was found,
  whatever is wrong with it.
\<close>

theorem restore_fails_closed:
  assumes "fst (restorePersistedGoalStateWithUsage dg (Some p) agentID now loaded reconcileUsage) = Some g"
  shows "(unavailable g \<longrightarrow> Status g = goalStatusPaused \<and> persistedGoalState (Some g) = Some p) \<and>
    (Status g = goalStatusActive \<longrightarrow> live_cursor g \<noteq> None)"
proof -
  have u: "fst (unavailable_with p code reason err) = Some h \<Longrightarrow>
      unavailable h \<and> Status h = goalStatusPaused \<and> persistedGoalState (Some h) = Some p" for code reason err h
    by (auto simp: unavailable_with_def unavailableGoalState_def persistedGoalState_def resetGoalTurnEvidence_def)
  have c: "fst (cold_pause p now h ws b) = Some g \<Longrightarrow> \<not> unavailable h \<Longrightarrow>
      (unavailable g \<longrightarrow> Status g = goalStatusPaused \<and> persistedGoalState (Some g) = Some p) \<and>
      (Status g = goalStatusActive \<longrightarrow> live_cursor g \<noteq> None)" for h ws b
    using u by (auto simp: cold_pause_def split: if_splits)
  have f: "\<not> unavailable (goalStateFromPersisted q)" for q by (simp add: goalStateFromPersisted_def)
  have r: "reconcileGoalUsageState (goalStateFromPersisted q) loaded now = (h, b, e) \<Longrightarrow> \<not> unavailable h" for q h b e
    using reconcile_available f by metis
  show ?thesis using assms unfolding restorePersistedGoalStateWithUsage_def option.case Let_def
    by (auto split: if_splits option.splits prod.splits dest!: u c simp: f r)
qed

theorem restore_fails_closed_witness:
  "\<exists>g. fst (restorePersistedGoalStateWithUsage (\<lambda>_. ''d'')
      (map_option (\<lambda>p. p\<lparr>ps_Version := 9\<rparr>) (persistedGoalState (Some demo_goal))) [] 9 None True) = Some g \<and>
    unavailable g \<and> Status g = goalStatusPaused"
proof -
  obtain p where p: "persistedGoalState (Some demo_goal) = Some p" "\<not> ps_invalidEncoding p" "ps_PendingUsageAdmission p = None"
    by (simp add: persistedGoalState_def demo_turn_defs)
  have t: "TrimUnicode [] = []" by (simp add: plain_eval)
  have r: "fst (restorePersistedGoalStateWithUsage (\<lambda>_. ''d'') (Some (p\<lparr>ps_Version := 9\<rparr>)) [] 9 None True) =
      Some (unavailableGoalState (p\<lparr>ps_Version := 9\<rparr>) ''unsupported-version''
        ''unsupported persisted Goal state version; Goal is unavailable'')"
    using p t by (simp add: restorePersistedGoalStateWithUsage_def unavailable_with_def version_defs)
  moreover have "unavailable (unavailableGoalState q c m)" for q c m
    by (simp add: unavailableGoalState_def)
  ultimately show ?thesis using restore_fails_closed [OF r] p(1) by auto
qed

section \<open>Cursors left behind\<close>

text \<open>
  The check ties a cursor of any disposition to the objective's revision and to the accounting of
  the goal.  Editing the goal, or accounting a provider call, moves those on and keeps the cursor.
\<close>

lemma invalid_unavailable:
  assumes "\<not> unavailable g" "continuation_error dg (the (persistedGoalState (Some g))) \<noteq> None" "TrimUnicode agentID = []"
  shows "case fst (restorePersistedGoalState dg (persistedGoalState (Some g)) agentID now) of
    None \<Rightarrow> False | Some h \<Rightarrow> unavailable h"
proof -
  obtain p where p: "persistedGoalState (Some g) = Some p" "ps_Version p = PersistedGoalStateVersion" "\<not> ps_invalidEncoding p"
    "p\<lparr>ps_Version := PersistedGoalStateVersion\<rparr> = p"
    using assms(1) by (simp add: persistedGoalState_def)
  have v: "validatePersistedGoalStateFromVersion dg p PersistedGoalStateVersion \<noteq> None"
    using assms(2) p by (simp add: validatePersistedGoalStateFromVersion_def)
  have u: "case fst (unavailable_with q code reason err) of None \<Rightarrow> False | Some h \<Rightarrow> unavailable h" for q code reason err
    by (simp add: unavailable_with_def unavailableGoalState_def)
  show ?thesis using p(1-3) v assms(3) u
    by (auto simp: restorePersistedGoalState_def restorePersistedGoalStateWithUsage_def p(4) Let_def
        split del: option.split split: if_split)
qed

lemma moved_on:
  assumes "restorable dg g" "Continuation g = Some c" "\<not> unavailable g'" "map_option gc_ObjectiveRevision (Continuation g') = Some (gc_ObjectiveRevision c)"
    and "map_option gc_UsageLedgerRevision (Continuation g') = Some (gc_UsageLedgerRevision c)"
    and "ObjectiveRevision g' \<noteq> ObjectiveRevision g \<or> UsageLedgerRevision g' \<noteq> UsageLedgerRevision g"
  shows "continuation_error dg (the (persistedGoalState (Some g'))) \<noteq> None"
proof -
  have "gc_ObjectiveRevision c = ObjectiveRevision g" "gc_UsageLedgerRevision c = UsageLedgerRevision g"
    using assms(1,2) by (auto simp: restorable_iff cursor_wf_def continuation_error_def persistedGoalState_def
        split: option.splits if_splits)
  then show ?thesis using assms(3-6)
    by (auto simp: continuation_error_def persistedGoalState_def split: option.splits)
qed

lemma edit_moves_on:
  assumes "ge_goal e = Some g" "Continuation g = Some c" "control env (ControlEdit x owner) e = (e', Inr g')"
  shows "\<not> unavailable g' \<and> map_option gc_ObjectiveRevision (Continuation g') = Some (gc_ObjectiveRevision c) \<and>
    map_option gc_UsageLedgerRevision (Continuation g') = Some (gc_UsageLedgerRevision c) \<and>
    ObjectiveRevision g' \<noteq> ObjectiveRevision g"
proof -
  obtain n where n: "normalizeGoalObjective x = Inr n" using assms(3) by (auto simp: edit_def split: sum.splits)
  have run: "transition env GoalLifecycleObjectiveEdited (firstGoalOwnerTurnID owner) (edit_build n) e = (e', Inr g')"
    using assms(3) n by (simp add: edit_def)
  have built: "h = resetGoalTurnEvidence (g\<lparr>Objective := n, ObjectiveRevision := ObjectiveRevision g + 1,
      Revision := Revision g + 1, UpdatedAt := now\<rparr>) \<and> \<not> unavailable g"
    if "edit_build n (Some g) ph now = Inr h" for ph now h
    using that by (auto simp: edit_build_def mutableGoalStateError_def Let_def split: option.splits if_splits)
  have ne: "Revision h \<noteq> Revision g" if "edit_build n (Some g) ph now = Inr h" for ph now h
    using built [OF that] by simp
  obtain b where b: "edit_build n (Some g) (ge_planPhase e) (gv_now env) = Inr b" "ge_runtime e = None"
    "publish env GoalLifecycleObjectiveEdited b e = (e', Inr g')"
    using run assms(1) ne by (auto simp: transition_def split: option.splits if_splits sum.splits)
  show ?thesis using publish_outcome [OF b(3,2)] built [OF b(1)] assms(1,2)
    by (auto simp: live_cursor_def rejected_cursor_def split: option.splits if_splits)
qed

lemma apply_moves_on:
  assumes "restorable dg g" "Continuation g = Some c" "applyGoalUsageRecord g r now = Inr g'"
  shows "\<not> unavailable g' \<and> Continuation g' = Some c \<and> UsageLedgerRevision g' \<noteq> UsageLedgerRevision g"
proof -
  obtain a where a: "PendingUsageAdmission g = Some a" "ur_LedgerRevision r = ua_LedgerRevision a"
    using assms(3) by (auto simp: applyGoalUsageRecord_def goalUsageRecordMatchesAdmission_def split: option.splits if_splits)
  then have "ua_LedgerRevision a = UsageLedgerRevision g + 1" using assms(1) by (simp add: restorable_iff pending_wf_def)
  then show ?thesis using assms a
    by (auto simp: applyGoalUsageRecord_def nextGoalRevision_def budget_limited_def Let_def restorable_def
        split: option.splits if_splits sum.splits)
qed

text \<open>
  A goal that carries a continuation cursor, of whatever disposition, is unavailable after the
  next restart once its objective is edited or a provider call is accounted to it, although every
  step succeeded: the check finds the cursor stale.
\<close>

lemma cursor_orphaned:
  assumes "restorable dg g" "Continuation g = Some c" "TrimUnicode agentID = []"
    and "ge_goal e = Some g \<and> control env (ControlEdit x owner) e = (e', Inr g') \<or> applyGoalUsageRecord g r at = Inr g'"
  shows "case fst (restorePersistedGoalState dg (persistedGoalState (Some g')) agentID now) of
    None \<Rightarrow> False | Some h \<Rightarrow> unavailable h"
  using assms(4)
proof
  assume "ge_goal e = Some g \<and> control env (ControlEdit x owner) e = (e', Inr g')"
  then have "\<not> unavailable g' \<and> map_option gc_ObjectiveRevision (Continuation g') = Some (gc_ObjectiveRevision c) \<and>
      map_option gc_UsageLedgerRevision (Continuation g') = Some (gc_UsageLedgerRevision c) \<and>
      ObjectiveRevision g' \<noteq> ObjectiveRevision g"
    using edit_moves_on assms(2) by blast
  then show ?thesis using invalid_unavailable moved_on assms(1-3) by metis
next
  assume "applyGoalUsageRecord g r at = Inr g'"
  note m = apply_moves_on [OF assms(1,2) this]
  then have "continuation_error dg (the (persistedGoalState (Some g'))) \<noteq> None"
    by (intro moved_on [OF assms(1,2)]) auto
  then show ?thesis using m invalid_unavailable assms(3) by blast
qed

definition demo_cursor :: goalContinuationCursor where
  "demo_cursor = projr (newGoalContinuationCursor (\<lambda>_. ''d'') (demo_goal\<lparr>LastGoalTurnID := ''t1'', LastTerminalSequence := 9\<rparr>)
     \<lparr>sc_SessionID = ''s'', sc_ThreadID = ''t'', sc_AgentID = []\<rparr> ''completed'' 9 700 4)"

definition cursor_goal :: goalState where
  "cursor_goal = demo_goal\<lparr>LastGoalTurnID := ''t1'', LastTerminalSequence := 9, ContinuationOrdinal := gc_ContinuationOrdinal demo_cursor,
     Continuation := Some demo_cursor\<rparr>"

lemma demo_cursor_new:
  "newGoalContinuationCursor (\<lambda>_. ''d'') (demo_goal\<lparr>LastGoalTurnID := ''t1'', LastTerminalSequence := 9\<rparr>)
     \<lparr>sc_SessionID = ''s'', sc_ThreadID = ''t'', sc_AgentID = []\<rparr> ''completed'' 9 700 4 = Inr demo_cursor"
  unfolding demo_cursor_def
  by (simp add: newGoalContinuationCursor_def Let_def continuation_ids_def validateGoalContinuationCursor_def
      cursor_version_error_def cursor_disposition_error_def expectedGoalContinuationIDs_def cursor_identity_def
      validateGoalTurnID_def goalBudgetHasRemaining_def version_defs demo_turn_defs plain_eval)

lemma cursor_goal_restorable: "restorable (\<lambda>_. ''d'') cursor_goal"
proof -
  have "evidence_wf (demo_goal\<lparr>LastGoalTurnID := ''t1''\<rparr>)"
    by (simp add: evidence_wf_def bad_turn_def plain_eval demo_turn_defs)
  moreover have "pending_wf (demo_goal\<lparr>LastGoalTurnID := ''t1''\<rparr>)" by (simp add: pending_wf_def demo_turn_defs)
  ultimately have "plain_goal (demo_goal\<lparr>LastGoalTurnID := ''t1'', LastTerminalSequence := 9\<rparr>)"
    using demo_plain by (simp add: plain_goal_def)
  from new_cursor_restorable [OF this demo_cursor_new] show ?thesis
    by (simp add: cursor_goal_def demo_turn_defs)
qed

lemma cursor_orphaned_witness:
  "\<exists>e' g'. control demo_env (ControlEdit ''fix it'' []) (demo_engine\<lparr>ge_goal := Some cursor_goal\<rparr>) = (e', Inr g') \<and>
     (case fst (restorePersistedGoalState (\<lambda>_. ''d'') (persistedGoalState (Some g')) [] 9) of None \<Rightarrow> False | Some h \<Rightarrow> unavailable h)"
proof -
  have "validateGoalScopeLocked (demo_engine\<lparr>ge_goal := Some cursor_goal\<rparr>) = None"
    using demo_scope [of None "Some cursor_goal"] by (simp add: demo_engine_def)
  moreover have "\<not> unavailable cursor_goal" "PendingUsageAdmission cursor_goal = None" "Status cursor_goal \<noteq> goalStatusComplete"
    "ObjectiveRevision cursor_goal = 1" "Revision cursor_goal = 1"
    by (simp_all add: cursor_goal_def demo_turn_defs)
  ultimately have "\<exists>e' g'. control demo_env (ControlEdit ''fix it'' []) (demo_engine\<lparr>ge_goal := Some cursor_goal\<rparr>) = (e', Inr g')"
    by (cases "live_cursor cursor_goal")
       (simp_all add: edit_def objective_example transition_def edit_build_def mutableGoalStateError_def publish_def Let_def
        demo_engine_def demo_env_def firstGoalOwnerTurnID_def)
  then obtain e' g' where c:
    "control demo_env (ControlEdit ''fix it'' []) (demo_engine\<lparr>ge_goal := Some cursor_goal\<rparr>) = (e', Inr g')"
    by blast
  have "TrimUnicode [] = []" by (simp add: plain_eval)
  moreover have "Continuation cursor_goal = Some demo_cursor" by (simp add: cursor_goal_def)
  ultimately show ?thesis using cursor_orphaned [OF cursor_goal_restorable, of demo_cursor "[]"
      "demo_engine\<lparr>ge_goal := Some cursor_goal\<rparr>" demo_env "''fix it''" "[]" e' g' undefined 0 9] c by auto
qed

end
