(* ===== verification/Goal_Ledger.thy ===== *)
theory Goal_Ledger
  imports Goal_Wf
begin

text \<open>
  The token ledger of a goal (Goal_Usage) as a system: calls admitted, completed, released or
  left ambiguous, control operations in between, writes that fail and restarts.  The goal's count
  is the sum of the ledger's records, and recovery from the ledger gives the goal the completed
  call would have left.
\<close>

section \<open>Normalised usage\<close>

definition int64_usage :: "TokenUsage \<Rightarrow> bool" where
  "int64_usage u \<longleftrightarrow>
     (\<forall>n\<in>{tu_PromptTokens u, tu_CachedTokens u, tu_CompletionTokens u, tu_TotalTokens u, tu_ReasoningTokens u}.
        - (2 ^ 63) \<le> n \<and> n < (2 ^ 63 :: int))"

lemma uint_count: "0 \<le> n \<Longrightarrow> n < 2 ^ 63 \<Longrightarrow> uint (word_of_int n :: uint64) = n"
  by (simp add: uint_word_of_int take_bit_int_eq_self)

lemma negative_count_None:
  "negative_count u = None \<longleftrightarrow> 0 \<le> tu_PromptTokens u \<and> 0 \<le> tu_CachedTokens u \<and> 0 \<le> tu_CompletionTokens u \<and>
     0 \<le> tu_TotalTokens u \<and> 0 \<le> tu_ReasoningTokens u"
  by (auto simp: negative_count_def)

text \<open>
  C27. Normalising the usage a provider reports never wraps: for any counts of 64-bit integers it
  succeeds exactly when they are not negative, the cached tokens are among the prompt tokens and
  the reasoning tokens among the completion tokens (so the sum never overflows); the total is then
  the larger of the reported total and of prompt plus completion, and the billable tokens are the
  total less the cached ones.
\<close>

theorem normalizeGoalProviderUsage_exact:
  assumes "int64_usage u"
  shows "case normalizeGoalProviderUsage (Some u) of
     Inl err \<Rightarrow> \<not> (0 \<le> tu_CachedTokens u \<and> tu_CachedTokens u \<le> tu_PromptTokens u \<and> 0 \<le> tu_ReasoningTokens u \<and>
        tu_ReasoningTokens u \<le> tu_CompletionTokens u \<and> 0 \<le> tu_TotalTokens u)
   | Inr n \<Rightarrow> 0 \<le> tu_CachedTokens u \<and> tu_CachedTokens u \<le> tu_PromptTokens u \<and> 0 \<le> tu_ReasoningTokens u \<and>
        tu_ReasoningTokens u \<le> tu_CompletionTokens u \<and> 0 \<le> tu_TotalTokens u \<and>
        uint (nu_TotalTokens n) = max (tu_TotalTokens u) (tu_PromptTokens u + tu_CompletionTokens u) \<and>
        uint (nu_BillableTokens n) = uint (nu_TotalTokens n) - tu_CachedTokens u"
proof (cases "negative_count u")
  case None
  note nn = None [unfolded negative_count_None]
  have b: "tu_PromptTokens u < 2 ^ 63" "tu_CachedTokens u < 2 ^ 63" "tu_CompletionTokens u < 2 ^ 63"
    "tu_TotalTokens u < 2 ^ 63" "tu_ReasoningTokens u < 2 ^ 63" using assms by (auto simp: int64_usage_def)
  let ?w = "word_of_int :: int \<Rightarrow> uint64"
  have w: "uint (?w (tu_PromptTokens u)) = tu_PromptTokens u" "uint (?w (tu_CachedTokens u)) = tu_CachedTokens u"
    "uint (?w (tu_CompletionTokens u)) = tu_CompletionTokens u" "uint (?w (tu_TotalTokens u)) = tu_TotalTokens u"
    "uint (?w (tu_ReasoningTokens u)) = tu_ReasoningTokens u"
    using nn b by (auto intro!: uint_count)
  have nocarry: "unat (?w (tu_PromptTokens u)) + unat (?w (tu_CompletionTokens u)) < 2 ^ 64"
    using w nn b by (simp add: unat_eq_nat_uint flip: nat_add_distrib)
  have sum: "uint (?w (tu_PromptTokens u) + ?w (tu_CompletionTokens u)) = tu_PromptTokens u + tu_CompletionTokens u"
    using w nn b by (simp add: uint_plus_if')
  have billable: "uint (t - ?w (tu_CachedTokens u)) = uint t - tu_CachedTokens u" if "tu_CachedTokens u \<le> uint t" for t :: uint64
    using that w by (simp add: uint_sub_if')
  show ?thesis using None nn nocarry
    by (auto simp: normalizeGoalProviderUsage_def Let_def Add64_def word_less_def word_le_def w sum billable)
qed (auto simp: normalizeGoalProviderUsage_def negative_count_def split: if_splits)

theorem normalizeGoalProviderUsage_exact_witness:
  "\<exists>n. normalizeGoalProviderUsage (Some \<lparr>tu_PromptTokens = 10, tu_CachedTokens = 4, tu_CompletionTokens = 5, tu_TotalTokens = 12,
      tu_ReasoningTokens = 2\<rparr>) = Inr n \<and> uint (nu_TotalTokens n) = 15 \<and> uint (nu_BillableTokens n) = 11"
  using normalizeGoalProviderUsage_exact [of "\<lparr>tu_PromptTokens = 10, tu_CachedTokens = 4, tu_CompletionTokens = 5,
      tu_TotalTokens = 12, tu_ReasoningTokens = 2\<rparr>"]
  by (auto simp: int64_usage_def split: sum.splits)

lemma unat_MaxUint64: "unat MaxUint64 = 2 ^ 64 - 1"
  by (simp add: unat_eq_nat_uint uint_word_ariths)

lemma unat_Suc_not_max: "unat w = Suc (unat v) \<Longrightarrow> v \<noteq> MaxUint64" for v w :: uint64
  using unsigned_less [of w, where ?'a = nat] unat_MaxUint64 by auto

lemma normalized_tokens:
  assumes "normalizeGoalProviderUsage usage = Inr u"
  shows "record_token_error (record_of a u) = None"
proof -
  have u: "nu_CachedPromptTokens u \<le> nu_PromptTokens u" "nu_ReasoningTokens u \<le> nu_CompletionTokens u"
    "unat (nu_PromptTokens u) + unat (nu_CompletionTokens u) < 2 ^ 64"
    "nu_TotalTokens u \<ge> nu_PromptTokens u + nu_CompletionTokens u"
    "nu_BillableTokens u = nu_TotalTokens u - nu_CachedPromptTokens u"
    using assms by (auto simp: normalizeGoalProviderUsage_def Let_def Add64_def split: option.splits if_splits)
  have s: "unat (nu_PromptTokens u + nu_CompletionTokens u) = unat (nu_PromptTokens u) + unat (nu_CompletionTokens u)"
    using u(3) by (simp add: unat_add_lem [THEN iffD1])
  have m: "unat (MaxUint64 - nu_CompletionTokens u) = 2 ^ 64 - 1 - unat (nu_CompletionTokens u)"
  proof -
    have "nu_CompletionTokens u \<le> MaxUint64" by simp
    then show ?thesis using unat_MaxUint64 unat_sub [of "nu_CompletionTokens u" MaxUint64] by simp
  qed
  have "nu_CachedPromptTokens u \<le> nu_TotalTokens u"
    using u(1,4) s by (simp add: word_le_nat_alt)
  moreover have "\<not> nu_PromptTokens u > MaxUint64 - nu_CompletionTokens u"
    using u(3) m by (simp add: word_less_nat_alt)
  ultimately show ?thesis using u by (simp add: record_token_error_def record_of_def linorder_not_less)
qed

text \<open>The record of an admitted call is always valid, so it reaches the ledger.\<close>

lemma record_of_valid:
  assumes "validateGoalUsageAdmission a = None" "normalizeGoalProviderUsage usage = Inr u"
  shows "ValidateGoalUsageRecord (record_of a u) = None"
proof -
  have "ValidateGoalUsageRecord (record_of a no_usage) = None"
    using assms(1) by (simp add: validateGoalUsageAdmission_def split: if_splits)
  then have "record_identity_error (record_of a no_usage) = None" "record_agent_error (record_of a no_usage) = None"
    by (auto simp: ValidateGoalUsageRecord_def split: if_splits)
  moreover have "record_identity_error (record_of a u) = record_identity_error (record_of a no_usage)"
    "record_agent_error (record_of a u) = record_agent_error (record_of a no_usage)"
    unfolding record_identity_error_def record_agent_error_def record_of_def GoalUsageRecord.select_convs by (rule refl)+
  ultimately show ?thesis using normalized_tokens [OF assms(2)] by (simp add: ValidateGoalUsageRecord_def)
qed

lemma record_of_matches [simp]: "goalUsageRecordMatchesAdmission (record_of a u) a"
  by (simp add: goalUsageRecordMatchesAdmission_def record_of_def)

lemma record_of_ids [simp]:
  "ur_GoalID (record_of a u) = ua_GoalID a" "ur_LedgerRevision (record_of a u) = ua_LedgerRevision a"
  "ur_ObjectiveRevision (record_of a u) = ua_ObjectiveRevision a" "ur_BillableTokens (record_of a u) = nu_BillableTokens u"
  by (simp_all add: record_of_def)

section \<open>The ledger of a goal\<close>

definition goal_records :: "goalState \<Rightarrow> GoalUsageRecord list \<Rightarrow> GoalUsageRecord list" where
  "goal_records g ledger = filter (\<lambda>r. ur_GoalID r = GoalID g) ledger"

definition numbered :: "GoalUsageRecord list \<Rightarrow> bool" where
  "numbered L \<longleftrightarrow> map (\<lambda>r. unat (ur_LedgerRevision r)) L = [1..<Suc (length L)]"

definition billable :: "GoalUsageRecord list \<Rightarrow> nat" where
  "billable L = sum_list (map (\<lambda>r. unat (ur_BillableTokens r)) L)"

text \<open>
  The accounting of a goal against its records: the first ones, as many as the goal's ledger
  revision says, are accounted; at most one more is there, that of the pending call.
\<close>

definition accounted :: "GoalUsageRecord list \<Rightarrow> goalState \<Rightarrow> bool" where
  "accounted ledger g \<longleftrightarrow>
     (let L = goal_records g ledger; n = unat (UsageLedgerRevision g) in
      numbered L \<and> list_all (\<lambda>r. ValidateGoalUsageRecord r = None \<and> ur_ObjectiveRevision r \<le> ObjectiveRevision g) L \<and>
      n \<le> length L \<and> unat (TokensUsed g) = billable (take n L) \<and>
      (case PendingUsageAdmission g of
         None \<Rightarrow> length L = n
       | Some a \<Rightarrow> Status g \<noteq> goalStatusComplete \<and> validateGoalUsageAdmission a = None \<and> ua_GoalID a = GoalID g \<and>
           unat (ua_LedgerRevision a) = Suc n \<and> ua_ObjectiveRevision a \<le> ObjectiveRevision g \<and>
           (length L = n \<or> length L = Suc n \<and> goalUsageRecordMatchesAdmission (last L) a)))"

lemma numbered_nth: "numbered L \<Longrightarrow> i < length L \<Longrightarrow> unat (ur_LedgerRevision (L ! i)) = Suc i"
proof -
  assume a: "numbered L" "i < length L"
  have "map (\<lambda>r. unat (ur_LedgerRevision r)) L ! i = [1..<Suc (length L)] ! i" using a(1) by (simp add: numbered_def)
  then show ?thesis using a(2) by (simp del: upt_Suc)
qed

lemma numbered_snoc: "numbered (L @ [r]) \<longleftrightarrow> numbered L \<and> unat (ur_LedgerRevision r) = Suc (length L)"
  by (simp add: numbered_def)

lemma numbered_filter: "numbered L \<Longrightarrow> filter (\<lambda>r. unat (ur_LedgerRevision r) \<le> n) L = take n L"
  by (induction L rule: rev_induct) (auto simp: numbered_snoc)

lemma numbered_revision_iff:
  "numbered L \<Longrightarrow> r \<in> set L \<Longrightarrow> 1 \<le> unat (ur_LedgerRevision r) \<and> unat (ur_LedgerRevision r) \<le> length L"
  by (metis Suc_le_eq in_set_conv_nth le_numeral_extra(4) numbered_nth One_nat_def Suc_leI zero_less_Suc)

lemma accounted_cong:
  assumes "GoalID h = GoalID g" "UsageLedgerRevision h = UsageLedgerRevision g" "TokensUsed h = TokensUsed g"
    and "PendingUsageAdmission h = PendingUsageAdmission g" "ObjectiveRevision g \<le> ObjectiveRevision h"
    and "PendingUsageAdmission g = None \<or> Status h \<noteq> goalStatusComplete \<or> Status h = Status g" "accounted ledger g"
  shows "accounted ledger h"
  using assms by (auto simp: accounted_def goal_records_def Let_def list_all_iff intro: order_trans split: option.splits)

subsection \<open>Inspection finds the ledger complete\<close>

lemma collect_goal_records:
  assumes "numbered (acc @ goal_records g rs)"
    and "list_all (\<lambda>r. ValidateGoalUsageRecord r = None \<and> ur_ObjectiveRevision r \<le> ObjectiveRevision g) (goal_records g rs)"
  shows "collect_records g acc rs = Inr (acc @ goal_records g rs)"
  using assms
proof (induction rs arbitrary: acc)
  case (Cons r rs)
  show ?case
  proof (cases "ur_GoalID r = GoalID g")
    case True
    then have L: "goal_records g (r # rs) = r # goal_records g rs" by (simp add: goal_records_def)
    have "find (\<lambda>x. ur_LedgerRevision x = ur_LedgerRevision r) acc = None"
    proof -
      have "ur_LedgerRevision x \<noteq> ur_LedgerRevision r" if x: "x \<in> set acc" for x
      proof -
        obtain i where i: "i < length acc" "acc ! i = x" using x by (auto simp: in_set_conv_nth)
        have "unat (ur_LedgerRevision x) = Suc i"
          using numbered_nth [OF Cons.prems(1), of i] i by (simp add: L nth_append)
        moreover have "unat (ur_LedgerRevision r) = Suc (length acc)"
          using numbered_nth [OF Cons.prems(1), of "length acc"] by (simp add: L nth_append)
        ultimately show ?thesis using i(1) by auto
      qed
      then show ?thesis by (simp add: find_None_iff)
    qed
    then show ?thesis using Cons.IH [of "acc @ [r]"] Cons.prems True L by (simp add: linorder_not_less)
  next
    case False
    then show ?thesis using Cons by (simp add: goal_records_def)
  qed
qed (simp add: goal_records_def)

lemma inspect_complete:
  assumes "accounted ledger g"
  shows "inspectGoalUsageLedger g (Some \<lparr>lr_corrupt = False, lr_records = ledger\<rparr>) = Inr (goal_records g ledger)"
proof -
  let ?L = "goal_records g ledger" and ?n = "unat (UsageLedgerRevision g)"
  have L: "numbered ?L" "?n \<le> length ?L"
    "list_all (\<lambda>r. ValidateGoalUsageRecord r = None \<and> ur_ObjectiveRevision r \<le> ObjectiveRevision g) ?L"
    using assms by (auto simp: accounted_def Let_def)
  have collect: "collect_records g [] ledger = Inr ?L" using collect_goal_records [of "[]" g ledger] L by simp
  have pend: "unat (ua_LedgerRevision a) = Suc ?n" "UsageLedgerRevision g \<noteq> MaxUint64" "ua_LedgerRevision a = UsageLedgerRevision g + 1"
    if "PendingUsageAdmission g = Some a" for a
  proof -
    show u: "unat (ua_LedgerRevision a) = Suc ?n" using assms that by (simp add: accounted_def Let_def)
    show m: "UsageLedgerRevision g \<noteq> MaxUint64" using unat_Suc_not_max [OF u] .
    show "ua_LedgerRevision a = UsageLedgerRevision g + 1" using u word_Suc [OF m] by (metis word_unat_eq_iff)
  qed
  have future: "\<not> list_ex (\<lambda>r. \<not> ur_LedgerRevision r \<le> UsageLedgerRevision g \<and>
      \<not> ((case PendingUsageAdmission g of None \<Rightarrow> 0 | Some a \<Rightarrow> ua_LedgerRevision a) \<noteq> 0 \<and>
         ur_LedgerRevision r = (case PendingUsageAdmission g of None \<Rightarrow> 0 | Some a \<Rightarrow> ua_LedgerRevision a))) ?L"
  proof (cases "PendingUsageAdmission g")
    case None
    then have "length ?L = ?n" using assms by (simp add: accounted_def Let_def)
    then show ?thesis using numbered_revision_iff [OF L(1)] by (auto simp: list_ex_iff word_le_nat_alt)
  next
    case (Some a)
    then have "length ?L \<le> Suc ?n" using assms by (auto simp: accounted_def Let_def)
    then have le: "unat (ur_LedgerRevision r) \<le> Suc ?n" if "r \<in> set ?L" for r using numbered_revision_iff [OF L(1) that] by simp
    have "ur_LedgerRevision r \<le> UsageLedgerRevision g \<or> ur_LedgerRevision r = ua_LedgerRevision a" if "r \<in> set ?L" for r
      using le [OF that] pend(1) [OF Some] by (metis le_SucE word_le_nat_alt word_unat_eq_iff)
    moreover have "ua_LedgerRevision a \<noteq> 0" using pend(1) [OF Some] by auto
    ultimately show ?thesis using Some by (auto simp: list_ex_iff)
  qed
  have count: "of_nat (length (filter (\<lambda>r. ur_LedgerRevision r \<le> UsageLedgerRevision g) ?L)) = UsageLedgerRevision g"
    using numbered_filter [OF L(1), of ?n] L(2) by (simp add: word_le_nat_alt)
  show ?thesis using collect future count pend
    by (auto simp: inspectGoalUsageLedger_def Let_def split: option.split)
qed

subsection \<open>Applying and reconciling keep the accounting\<close>

lemma apply_fields:
  assumes "applyGoalUsageRecord g r now = Inr g'"
  shows "GoalID g' = GoalID g \<and> ObjectiveRevision g' = ObjectiveRevision g \<and> PendingUsageAdmission g' = None \<and>
    UsageLedgerRevision g' = ur_LedgerRevision r \<and> unat (TokensUsed g') = unat (TokensUsed g) + unat (ur_BillableTokens r) \<and>
    unavailable g' = unavailable g \<and>
    Status g' = (if \<not> goalBudgetHasRemaining (TokenBudget g') (TokensUsed g') then goalStatusBudgetLimited else Status g) \<and>
    TokenBudget g' = TokenBudget g"
proof -
  have le: "TokensUsed g \<le> MaxUint64 - ur_BillableTokens r"
    using assms by (auto simp: applyGoalUsageRecord_def split: option.splits if_splits)
  have "unat (MaxUint64 - ur_BillableTokens r) = 2 ^ 64 - 1 - unat (ur_BillableTokens r)"
    using unat_MaxUint64 unat_sub [of "ur_BillableTokens r" MaxUint64] by simp
  then have "unat (TokensUsed g) + unat (ur_BillableTokens r) < 2 ^ 64"
    using le unsigned_less [of "ur_BillableTokens r", where ?'a = nat] by (simp add: word_le_nat_alt)
  then have "unat (TokensUsed g + ur_BillableTokens r) = unat (TokensUsed g) + unat (ur_BillableTokens r)"
    by (simp add: unat_add_lem [THEN iffD1])
  then show ?thesis using assms
    by (auto simp: applyGoalUsageRecord_def nextGoalRevision_def budget_limited_def resetGoalTurnEvidence_def Let_def
        goalBudgetHasRemaining_def linorder_not_less split: option.splits if_splits sum.splits)
qed

lemma usage_limited_fields [simp]:
  "GoalID (usage_limited m g) = GoalID g" "UsageLedgerRevision (usage_limited m g) = UsageLedgerRevision g"
  "TokensUsed (usage_limited m g) = TokensUsed g" "PendingUsageAdmission (usage_limited m g) = PendingUsageAdmission g"
  "ObjectiveRevision (usage_limited m g) = ObjectiveRevision g" "Status (usage_limited m g) = goalStatusUsageLimited"
  "TokenBudget (usage_limited m g) = TokenBudget g" "unavailable (usage_limited m g) = unavailable g"
  "unavailablePersisted (usage_limited m g) = unavailablePersisted g"
  by (simp_all add: usage_limited_def)

lemma next_fields:
  "nextGoalRevision g now = Inr g' \<Longrightarrow> g' = g\<lparr>Revision := Revision g + 1, UpdatedAt := now\<rparr>"
  by (auto simp: nextGoalRevision_def split: if_splits)

lemma accounted_limited: "accounted ledger g \<Longrightarrow> nextGoalRevision g now = Inr g' \<Longrightarrow> accounted ledger (usage_limited m g')"
  by (rule accounted_cong [of _ g]) (auto dest!: next_fields)

lemma accounted_usageLimited:
  "accounted ledger g \<Longrightarrow> usageLimitedGoalState g now m = (g', ch, err) \<Longrightarrow> accounted ledger g'"
  by (auto simp: usageLimitedGoalState_def split: if_splits sum.splits dest: accounted_limited)

lemma accounted_apply:
  assumes "accounted ledger g" "PendingUsageAdmission g = Some a" "applyGoalUsageRecord g r now = Inr g'"
    and "r \<in> set (goal_records g ledger)" "ur_LedgerRevision r = ua_LedgerRevision a"
  shows "accounted ledger g'"
proof -
  let ?L = "goal_records g ledger" and ?n = "unat (UsageLedgerRevision g)"
  note f = apply_fields [OF assms(3)]
  have acc: "numbered ?L" "unat (ua_LedgerRevision a) = Suc ?n" "unat (TokensUsed g) = billable (take ?n ?L)"
    "list_all (\<lambda>r. ValidateGoalUsageRecord r = None \<and> ur_ObjectiveRevision r \<le> ObjectiveRevision g) ?L"
    "length ?L \<le> Suc ?n"
    using assms(1,2) by (auto simp: accounted_def Let_def)
  obtain i where i: "i < length ?L" "?L ! i = r" using assms(4) by (auto simp: in_set_conv_nth)
  have "i = ?n" using numbered_nth [OF acc(1) i(1)] i(2) acc(2) assms(5) by simp
  then have len: "length ?L = Suc ?n" and r: "?L ! ?n = r" using i acc(5) by auto
  have t: "take (Suc ?n) ?L = take ?n ?L @ [r]" by (metis lessI len r take_Suc_conv_app_nth)
  have "billable (take (Suc ?n) ?L) = billable (take ?n ?L) + unat (ur_BillableTokens r)"
    unfolding t by (simp add: billable_def)
  then show ?thesis using f acc len assms(5)
    by (simp add: accounted_def Let_def goal_records_def)
qed

lemma accounted_reconcile:
  assumes "accounted ledger g"
    and "reconcileGoalUsageState g (Some \<lparr>lr_corrupt = False, lr_records = ledger\<rparr>) now = (g', ch, err)"
  shows "accounted ledger g'"
proof (cases "PendingUsageAdmission g")
  case None
  then show ?thesis using assms by (simp add: reconcileGoalUsageState_def inspect_complete)
next
  case (Some a)
  show ?thesis
  proof (cases "find (\<lambda>r. ur_LedgerRevision r = ua_LedgerRevision a) (goal_records g ledger)")
    case None
    then show ?thesis using assms Some accounted_limited
      by (auto simp: reconcileGoalUsageState_def inspect_complete split: sum.splits)
  next
    case found: (Some r)
    then have r: "r \<in> set (goal_records g ledger)" "ur_LedgerRevision r = ua_LedgerRevision a"
      by (auto simp: find_Some_iff in_set_conv_nth)
    show ?thesis using assms Some found accounted_apply [OF assms(1) Some _ r] accounted_usageLimited [OF assms(1)]
      by (auto simp: reconcileGoalUsageState_def inspect_complete split: sum.splits prod.splits)
  qed
qed

section \<open>The system\<close>

text \<open>
  The engine, the ledger in the transcript and the call that holds the gate.  A settlement appends
  its record when the write succeeds; when it fails the record may be there or not.  A restart
  drops the call and restores the goal from its saved form and the ledger.
\<close>

record usage_system =
  us_engine :: goal_engine
  us_ledger :: "GoalUsageRecord list"
  us_call :: "goalUsageAdmission option"

definition submitted :: "goalUsageAdmission \<Rightarrow> TokenUsage option \<Rightarrow> GoalUsageRecord option" where
  "submitted a usage =
     (case normalizeGoalProviderUsage usage of
        Inl _ \<Rightarrow> None
      | Inr u \<Rightarrow> if ValidateGoalUsageRecord (record_of a u) = None then Some (record_of a u) else None)"

definition ledger_after :: "usage_env \<Rightarrow> settlement \<Rightarrow> goalUsageAdmission \<Rightarrow> GoalUsageRecord list \<Rightarrow> GoalUsageRecord list \<Rightarrow> bool" where
  "ledger_after env how a l l' \<longleftrightarrow>
     (case how of
        Settle_Complete usage \<Rightarrow>
          (case submitted a usage of
             None \<Rightarrow> l' = l
           | Some r \<Rightarrow> l' = l @ [r] \<or> (uv_record env r \<noteq> None \<and> l' = l))
      | _ \<Rightarrow> l' = l)"

inductive usage_step :: "usage_system \<Rightarrow> usage_system \<Rightarrow> bool" where
  step_admit: "us_call s = None \<Longrightarrow> uv_loaded env = Some \<lparr>lr_corrupt = False, lr_records = us_ledger s\<rparr> \<Longrightarrow>
    AdmitProviderUsage env nextID rp d (us_engine s) = (e', r) \<Longrightarrow>
    usage_step s (s\<lparr>us_engine := e', us_call := (case r of Inl _ \<Rightarrow> None | Inr c \<Rightarrow> Some (pc_admission c))\<rparr>)"
| step_settle: "us_call s = Some a \<Longrightarrow>
    settle_call env how \<lparr>pc_admission = a, pc_settled = False\<rparr> (us_engine s) = (c, e', err) \<Longrightarrow>
    ledger_after env how a (us_ledger s) l' \<Longrightarrow>
    usage_step s \<lparr>us_engine = e', us_ledger = l', us_call = None\<rparr>"
| step_control: "control env op (us_engine s) = (e', r) \<Longrightarrow>
    gv_uuid env \<notin> ur_GoalID ` set (us_ledger s) \<Longrightarrow> usage_step s (s\<lparr>us_engine := e'\<rparr>)"
| step_clear: "clearForTurn env owner (us_engine s) = (e', err) \<Longrightarrow> usage_step s (s\<lparr>us_engine := e'\<rparr>)"
| step_turn: "usage_step s (s\<lparr>us_engine := run_turn env op (us_engine s)\<rparr>)"
| step_restart: "restorePersistedGoalStateWithUsage dg (persistedGoalState (ge_goal (us_engine s))) [] now
      (Some \<lparr>lr_corrupt = False, lr_records = us_ledger s\<rparr>) True = (g', warnings, checkpoint) \<Longrightarrow>
    usage_step s (s\<lparr>us_engine := (us_engine s)\<lparr>ge_goal := g', ge_runtime := None, ge_usageUncertain := False\<rparr>, us_call := None\<rparr>)"

text \<open>
  The invariant: the live goal is accounted, so is the saved form behind an unavailable goal, and
  a call that holds the gate is the pending one, with no record yet.
\<close>

definition usage_inv :: "usage_system \<Rightarrow> bool" where
  "usage_inv s \<longleftrightarrow>
     (case ge_goal (us_engine s) of
        None \<Rightarrow> us_call s = None
      | Some g \<Rightarrow> accounted (us_ledger s) g \<and>
          (unavailable g \<longrightarrow> (\<exists>p. unavailablePersisted g = Some p \<and> accounted (us_ledger s) (goalStateFromPersisted p))) \<and>
          (case us_call s of
             None \<Rightarrow> True
           | Some a \<Rightarrow> PendingUsageAdmission g = Some a \<and> \<not> unavailable g \<and>
               length (goal_records g (us_ledger s)) = unat (UsageLedgerRevision g)))"

text \<open>The operations of other components that leave the accounting alone.\<close>

definition kept_fields :: "goalState \<Rightarrow> goalState \<Rightarrow> bool" where
  "kept_fields g g' \<longleftrightarrow>
     GoalID g' = GoalID g \<and> UsageLedgerRevision g' = UsageLedgerRevision g \<and> TokensUsed g' = TokensUsed g \<and>
     PendingUsageAdmission g' = PendingUsageAdmission g \<and> ObjectiveRevision g \<le> ObjectiveRevision g' \<and>
     unavailable g' = unavailable g \<and> unavailablePersisted g' = unavailablePersisted g \<and>
     (PendingUsageAdmission g = None \<or> Status g' \<noteq> goalStatusComplete \<or> Status g' = Status g)"

definition accounting_kept :: "goalState option \<Rightarrow> goalState option \<Rightarrow> bool" where
  "accounting_kept before after = rel_option kept_fields before after"

lemma kept_fields_refl [simp]: "kept_fields g g"
  by (simp add: kept_fields_def)

lemma accounting_kept_refl [simp]: "accounting_kept x x"
  by (cases x) (simp_all add: accounting_kept_def)

lemma accounting_kept_Some [simp]: "accounting_kept (Some g) (Some g') = kept_fields g g'"
  by (simp add: accounting_kept_def)

lemma kept_fields_cursor [simp]: "kept_fields g (g'\<lparr>Continuation := c\<rparr>) = kept_fields g g'"
  by (simp add: kept_fields_def)

lemma accounted_kept: "kept_fields g h \<Longrightarrow> accounted ledger g \<Longrightarrow> accounted ledger h"
  by (rule accounted_cong [of h g]) (auto simp: kept_fields_def)

lemma inv_kept:
  assumes "usage_inv s" "accounting_kept (ge_goal (us_engine s)) (ge_goal e')"
  shows "usage_inv (s\<lparr>us_engine := e'\<rparr>)"
proof (cases "ge_goal (us_engine s)")
  case (Some g)
  then obtain g' where g': "ge_goal e' = Some g'" "kept_fields g g'"
    using assms(2) by (cases "ge_goal e'") (auto simp: accounting_kept_def)
  then have "goal_records g' (us_ledger s) = goal_records g (us_ledger s)" by (simp add: goal_records_def kept_fields_def)
  then show ?thesis using assms(1) Some g' accounted_kept [OF g'(2)]
    by (auto simp: usage_inv_def kept_fields_def split: option.splits)
qed (use assms in \<open>auto simp: usage_inv_def accounting_kept_def\<close>)

text \<open>What the ledger asks of a client that works on the goal at the same time.\<close>

locale accounting_client =
  fixes run :: "'env \<Rightarrow> 'op \<Rightarrow> goal_engine \<Rightarrow> goal_engine"
  assumes kept: "accounting_kept (ge_goal e) (ge_goal (run env op e))"
begin

lemma keeps_inv: "usage_inv s \<Longrightarrow> usage_inv (s\<lparr>us_engine := run env op (us_engine s)\<rparr>)"
  by (rule inv_kept) (auto simp: kept)

end

interpretation turns: accounting_client run_turn
proof unfold_locales
  fix e env op
  show "accounting_kept (ge_goal e) (ge_goal (run_turn env op e))"
    using run_turn_effect [of op env e]
    by (auto simp: turn_effect_def turn_change_def kept_fields_def)
qed

subsection \<open>Control operations\<close>

definition fresh_goal :: "string \<Rightarrow> goalState \<Rightarrow> bool" where
  "fresh_goal uuid g \<longleftrightarrow> GoalID g = uuid \<and> UsageLedgerRevision g = 0 \<and> TokensUsed g = 0 \<and>
     PendingUsageAdmission g = None \<and> \<not> unavailable g"

lemma word_le_Suc: "r \<noteq> MaxUint64 \<Longrightarrow> r \<le> r + 1" for r :: uint64
  by (simp add: word_le_nat_alt word_Suc)

lemma edit_kept: "edit_build n (Some g0) pl now = Inr g \<Longrightarrow> kept_fields g0 g"
  using word_le_Suc by (auto simp: edit_build_def mutableGoalStateError_def kept_fields_def Let_def split: if_splits option.splits)

lemma pause_kept: "pause_build (Some g0) pl now = Inr g \<Longrightarrow> kept_fields g0 g"
  by (auto simp: pause_build_def kept_fields_def Let_def dest!: next_fields split: if_splits option.splits sum.splits)

lemma resume_kept: "resume_build (Some g0) pl now = Inr g \<Longrightarrow> kept_fields g0 g"
  by (auto simp: resume_build_def kept_fields_def Let_def dest!: next_fields split: if_splits option.splits sum.splits)

lemma setBudget_kept: "setBudget_build b (Some g0) pl now = Inr g \<Longrightarrow> kept_fields g0 g"
  by (auto simp: setBudget_build_def kept_fields_def budget_limited_def Let_def dest!: next_fields
      split: if_splits option.splits sum.splits)

lemma no_goal_builds:
  "edit_build n None pl now = Inl errGoalNotFound" "pause_build None pl now = Inl errGoalNotFound"
  "resume_build None pl now = Inl errGoalNotFound" "setBudget_build b None pl now = Inl errGoalNotFound"
  by (simp_all add: edit_build_def pause_build_def resume_build_def setBudget_build_def mutableGoalStateError_def)

lemma create_fresh:
  "create_build env n b current pl now = Inr g \<Longrightarrow>
   fresh_goal (gv_uuid env) g \<and> (current = None \<or> (\<exists>g0. current = Some g0 \<and> Status g0 = goalStatusComplete))"
  by (auto simp: create_build_def fresh_goal_def split: if_splits option.splits)

lemma build_kept:
  assumes "control_plan env op = Inr (phase, owner, build)" "build current pl now = Inr g"
  shows "accounting_kept current (Some g) \<or>
    fresh_goal (gv_uuid env) g \<and> (current = None \<or> (\<exists>g0. current = Some g0 \<and> Status g0 = goalStatusComplete))"
  using assms
  by (cases op; cases current)
     (auto split: sum.splits if_splits simp: no_goal_builds
       dest: create_fresh edit_kept pause_kept resume_kept setBudget_kept)

lemma control_kept:
  assumes "control env op e = (e', r)"
  shows "accounting_kept (ge_goal e) (ge_goal e') \<or>
    (\<exists>g. ge_goal e' = Some g \<and> fresh_goal (gv_uuid env) g) \<and>
      (ge_goal e = None \<or> (\<exists>g0. ge_goal e = Some g0 \<and> Status g0 = goalStatusComplete))"
proof (cases "control_plan env op")
  case (Inl err)
  then show ?thesis using assms by (simp add: control_transition)
next
  case (Inr pob)
  obtain phase owner build where p: "pob = (phase, owner, build)" by (cases pob)
  show ?thesis
  proof (cases rule: transition_cases [of env phase owner build e])
    case (published built)
    have pub: "publish env phase built e = (e', r)" using published(1) assms Inr p by (simp add: control_transition)
    note b = build_kept [OF Inr [unfolded p] published(2)]
    show ?thesis
    proof (cases r)
      case r: (Inr g)
      have "ge_goal e' = Some g" "g = built \<or> (\<exists>c. g = built\<lparr>Continuation := c\<rparr>)"
        using publish_outcome [OF pub published(3)] r by (auto split: option.splits)
      then show ?thesis using b by (cases "ge_goal e") (auto simp: accounting_kept_def fresh_goal_def)
    qed (use publish_outcome [OF pub published(3)] in simp)
  qed (use assms Inr p in \<open>auto simp: control_transition\<close>)
qed

lemma accounted_fresh:
  assumes "fresh_goal uuid g" "uuid \<notin> ur_GoalID ` set ledger"
  shows "accounted ledger g"
proof -
  have "ur_GoalID r \<noteq> GoalID g" if "r \<in> set ledger" for r using assms that by (metis fresh_goal_def imageI)
  then have "goal_records g ledger = []" by (simp add: goal_records_def filter_empty_conv)
  then show ?thesis using assms(1) by (simp add: accounted_def Let_def fresh_goal_def numbered_def billable_def)
qed

lemma inv_control:
  assumes "usage_inv s" "control env op (us_engine s) = (e', r)" "gv_uuid env \<notin> ur_GoalID ` set (us_ledger s)"
  shows "usage_inv (s\<lparr>us_engine := e'\<rparr>)"
  using control_kept [OF assms(2)]
proof
  assume "accounting_kept (ge_goal (us_engine s)) (ge_goal e')"
  then show ?thesis using inv_kept assms(1) by blast
next
  assume f: "(\<exists>g. ge_goal e' = Some g \<and> fresh_goal (gv_uuid env) g) \<and>
    (ge_goal (us_engine s) = None \<or> (\<exists>g0. ge_goal (us_engine s) = Some g0 \<and> Status g0 = goalStatusComplete))"
  then have "us_call s = None" using assms(1)
    by (auto simp: usage_inv_def accounted_def Let_def split: option.splits)
  then show ?thesis using f accounted_fresh [OF _ assms(3)]
    by (auto simp: usage_inv_def fresh_goal_def)
qed

lemma inv_clear:
  assumes "usage_inv s" "clearForTurn env owner (us_engine s) = (e', err)"
  shows "usage_inv (s\<lparr>us_engine := e'\<rparr>)"
proof -
  have "accounting_kept (ge_goal (us_engine s)) (ge_goal e') \<or>
      ge_goal e' = None \<and> (\<exists>g. ge_goal (us_engine s) = Some g \<and> PendingUsageAdmission g = None)"
  proof (cases "ge_goal (us_engine s)")
    case (Some g)
    have rb: "accounting_kept (Some g) (ge_goal e1)" if "reject_before_clear env g (us_engine s) = (e1, er)" for e1 er
      using that Some
      by (auto simp: reject_before_clear_def kept_fields_def Let_def dest!: next_fields split: option.splits if_splits sum.splits)
    show ?thesis using assms(2) Some rb
      by (auto simp: clearForTurn_def Let_def projectGoalLifecycle_def split: option.splits if_splits prod.splits)
  qed (use assms(2) in \<open>auto simp: clearForTurn_def split: if_splits\<close>)
  then show ?thesis
  proof
    assume "ge_goal e' = None \<and> (\<exists>g. ge_goal (us_engine s) = Some g \<and> PendingUsageAdmission g = None)"
    then show ?thesis using assms(1) by (auto simp: usage_inv_def split: option.splits)
  qed (use inv_kept assms(1) in blast)
qed

subsection \<open>Settling a call\<close>

lemma ambiguous_kept:
  assumes "markProviderUsageAmbiguous env a cause e = (e', err)"
  shows "accounting_kept (ge_goal e) (ge_goal e')"
proof (cases "ge_goal e")
  case (Some g)
  have "kept_fields g (usage_limited m g1)" if "nextGoalRevision g (gv_now env) = Inr g1" for m g1
    using next_fields [OF that] by (simp add: kept_fields_def)
  then show ?thesis using assms Some
    by (auto simp: markProviderUsageAmbiguous_def Let_def projectGoalLifecycle_def split: if_splits sum.splits option.splits)
qed (use assms in \<open>auto simp: markProviderUsageAmbiguous_def\<close>)

lemma ambiguous_with_kept:
  assumes "ambiguous_with env a er e = (e', err)"
  shows "accounting_kept (ge_goal e) (ge_goal e')"
proof -
  obtain e1 err1 where "markProviderUsageAmbiguous env a (Some er) e = (e1, err1)" by fastforce
  then show ?thesis using assms ambiguous_kept by (simp add: ambiguous_with_def)
qed

lemma kept_accounted:
  assumes "accounting_kept (Some g) x" "accounted l g" "\<not> unavailable g"
  shows "\<exists>g'. x = Some g' \<and> accounted l g' \<and> \<not> unavailable g'"
proof (cases x)
  case (Some g')
  then have k: "kept_fields g g'" using assms(1) by simp
  then show ?thesis using Some accounted_kept [OF k assms(2)] assms(3) by (simp add: kept_fields_def)
qed (use assms in \<open>simp add: accounting_kept_def\<close>)

lemma accounted_append:
  assumes "accounted l g" "PendingUsageAdmission g = Some a" "length (goal_records g l) = unat (UsageLedgerRevision g)"
    and "ValidateGoalUsageRecord (record_of a u) = None"
  shows "accounted (l @ [record_of a u]) g \<and> record_of a u \<in> set (goal_records g (l @ [record_of a u]))"
proof -
  have "goal_records g (l @ [record_of a u]) = goal_records g l @ [record_of a u]"
    using assms(1,2) by (simp add: goal_records_def accounted_def Let_def)
  then show ?thesis using assms by (simp add: accounted_def Let_def numbered_snoc)
qed

definition call_state :: "GoalUsageRecord list \<Rightarrow> goalState \<Rightarrow> goalUsageAdmission \<Rightarrow> bool" where
  "call_state l g a \<longleftrightarrow> accounted l g \<and> PendingUsageAdmission g = Some a \<and> \<not> unavailable g \<and>
     length (goal_records g l) = unat (UsageLedgerRevision g)"

lemma complete_accounted:
  assumes "call_state l g a" "ge_goal e = Some g" "completeProviderUsage env a usage e = (e', err)"
    and "ledger_after env (Settle_Complete usage) a l l'"
  shows "\<exists>g'. ge_goal e' = Some g' \<and> accounted l' g' \<and> \<not> unavailable g'"
proof (cases "submitted a usage")
  case None
  have "\<exists>er. completeProviderUsage env a usage e = ambiguous_with (goal_env.truncate env) a er e"
    using None by (auto simp: submitted_def completeProviderUsage_def Let_def split: sum.splits if_splits option.splits)
  then have "accounting_kept (ge_goal e) (ge_goal e')"
    using assms(3) ambiguous_with_kept by metis
  then show ?thesis using assms(1,2,4) None kept_accounted by (simp add: ledger_after_def call_state_def)
next
  case (Some r)
  obtain u where u: "normalizeGoalProviderUsage usage = Inr u" "r = record_of a u" "ValidateGoalUsageRecord r = None"
    using Some by (auto simp: submitted_def split: sum.splits if_splits)
  have app: "accounted (l @ [r]) g" "r \<in> set (goal_records g (l @ [r]))"
    using accounted_append [of l g a u] assms(1) u by (auto simp: call_state_def)
  show ?thesis
  proof (cases "uv_record env r")
    case rec: (Some er)
    then have "accounting_kept (ge_goal e) (ge_goal e')" using assms(3) ambiguous_with_kept u
      by (simp add: completeProviderUsage_def Let_def)
    moreover have "accounted l' g" using assms(1,4) Some app(1) by (auto simp: ledger_after_def call_state_def)
    ultimately show ?thesis using assms(1,2) kept_accounted by (simp add: call_state_def)
  next
    case None
    then have l': "l' = l @ [r]" using assms(4) Some by (simp add: ledger_after_def)
    have pend: "PendingUsageAdmission g = Some a" "\<not> unavailable g" using assms(1) by (simp_all add: call_state_def)
    have "accounted (l @ [r]) g' \<and> \<not> unavailable g'" if "applyGoalUsageRecord g r now = Inr g'" for now g'
      using accounted_apply [OF app(1) pend(1) that app(2)] apply_fields [OF that] u(2) pend(2) by simp
    then show ?thesis using assms(2,3) None u app(1) pend l'
      by (auto simp: completeProviderUsage_def Let_def projectGoalLifecycle_def split: sum.splits option.splits)
  qed
qed

lemma inv_settle:
  assumes "usage_inv s" "us_call s = Some a" "ledger_after env how a (us_ledger s) l'"
    and "settle_call env how \<lparr>pc_admission = a, pc_settled = False\<rparr> (us_engine s) = (c, e', err)"
  shows "usage_inv \<lparr>us_engine = e', us_ledger = l', us_call = None\<rparr>"
proof -
  obtain g where g: "ge_goal (us_engine s) = Some g" "call_state (us_ledger s) g a"
    using assms(1,2) by (auto simp: usage_inv_def call_state_def split: option.splits)
  have "\<exists>g'. ge_goal e' = Some g' \<and> accounted l' g' \<and> \<not> unavailable g'"
  proof (cases how)
    case (Settle_Complete usage)
    then show ?thesis using complete_accounted [OF g(2,1)] assms(3,4) by (auto simp: settle_def)
  next
    case Settle_Release
    have "accounted (us_ledger s) (g1\<lparr>PendingUsageAdmission := None\<rparr>) \<and> \<not> unavailable g1"
      if "nextGoalRevision g now = Inr g1" for now g1
      using g(2) next_fields [OF that] by (auto simp: call_state_def accounted_def goal_records_def Let_def)
    then show ?thesis using g assms(3,4) Settle_Release
      by (auto simp: settle_def releaseProviderUsageBeforeDispatch_def ledger_after_def call_state_def Let_def
          projectGoalLifecycle_def split: sum.splits option.splits)
  next
    case (Settle_Ambiguous cause)
    then have "accounting_kept (ge_goal (us_engine s)) (ge_goal e')" using assms(4) ambiguous_kept
      by (auto simp: settle_def)
    then show ?thesis using g assms(3) Settle_Ambiguous kept_accounted by (simp add: ledger_after_def call_state_def)
  qed
  then show ?thesis by (auto simp: usage_inv_def)
qed

subsection \<open>Admitting a call\<close>

lemma reporter_goal:
  "validateGoalUsageReporter state rp = None \<Longrightarrow>
   \<exists>g. state = Some g \<and> \<not> unavailable g \<and> GoalID g = gi_GoalID (rp_binding rp) \<and>
     ObjectiveRevision g = gi_ObjectiveRevision (rp_binding rp)"
  by (auto simp: validateGoalUsageReporter_def Let_def split: option.splits if_splits)

lemma admit_fresh_state:
  assumes "ge_goal e = Some g" "accounted l g" "\<not> unavailable g" "admit_fresh env rp d callID e = (e', r)"
  shows "case r of Inl err \<Rightarrow> e' = e | Inr a \<Rightarrow> \<exists>g'. ge_goal e' = Some g' \<and> call_state l g' a"
proof (cases r)
  case (Inr a)
  have v: "validateGoalUsageReporter (ge_goal e) rp = None"
    using assms(4) Inr by (auto simp: admit_fresh_def split: option.splits)
  let ?a = "new_admission rp d callID (gv_now env) g"
  have st: "Status g = goalStatusActive" "PendingUsageAdmission g = None" "UsageLedgerRevision g \<noteq> MaxUint64"
    using assms(1,4) Inr v by (auto simp: admit_fresh_def split: if_splits)
  obtain g1 where n: "nextGoalRevision g (gv_now env) = Inr g1"
    using assms(1,4) Inr v st by (cases "nextGoalRevision g (gv_now env)") (auto simp: admit_fresh_def)
  have va: "validateGoalUsageAdmission ?a = None"
    using assms(1,4) Inr v st n by (cases "validateGoalUsageAdmission ?a") (auto simp: admit_fresh_def Let_def)
  have "gv_persist env (Some (g1\<lparr>PendingUsageAdmission := Some ?a\<rparr>)) = None"
    using assms(1,4) Inr v st n va
    by (cases "gv_persist env (Some (g1\<lparr>PendingUsageAdmission := Some ?a\<rparr>))") (auto simp: admit_fresh_def Let_def)
  then have "ge_goal e' = Some (g1\<lparr>PendingUsageAdmission := Some a\<rparr>)" "a = ?a"
    using assms(1,4) Inr v st n va by (auto simp: admit_fresh_def Let_def)
  note g1 = n this va [folded this(2)] st
  have a: "ua_GoalID a = GoalID g" "ua_ObjectiveRevision a = ObjectiveRevision g" "unat (ua_LedgerRevision a) = Suc (unat (UsageLedgerRevision g))"
    using reporter_goal [OF v] assms(1) word_Suc [OF g1(7)] unfolding g1(3) new_admission_def Let_def by simp_all
  have "call_state l (g1\<lparr>PendingUsageAdmission := Some a\<rparr>) a"
    using next_fields [OF g1(1)] assms(2,3) a g1(4-6)
    by (auto simp: call_state_def accounted_def goal_records_def Let_def)
  then show ?thesis using Inr g1(2) by simp
qed (use assms(4) in \<open>auto simp: admit_fresh_def Let_def split: option.splits if_splits sum.splits\<close>)

lemma admit_state:
  assumes "ge_goal e = Some g" "accounted l g" "\<not> unavailable g"
    and "uv_loaded env = Some \<lparr>lr_corrupt = False, lr_records = l\<rparr>" "admitProviderUsage env rp d callID e = (e', r)"
  shows "\<exists>g'. ge_goal e' = Some g' \<and> accounted l g' \<and> \<not> unavailable g' \<and> (case r of Inl err \<Rightarrow> True | Inr a \<Rightarrow> call_state l g' a)"
proof -
  have fresh: "\<exists>g'. ge_goal e2 = Some g' \<and> accounted l g' \<and> \<not> unavailable g' \<and> (case r of Inl err \<Rightarrow> True | Inr a \<Rightarrow> call_state l g' a)"
    if "ge_goal e1 = Some h" "accounted l h" "\<not> unavailable h" "admit_fresh env rp d callID e1 = (e2, r)" for e1 e2 h
    using admit_fresh_state [OF that] that by (cases r) (auto simp: call_state_def)
  obtain g1 ch er where rec: "reconcileGoalUsageState g (uv_loaded env) (gv_now env) = (g1, ch, er)" by (metis prod_cases3)
  have g1: "accounted l g1" "\<not> unavailable g1"
    using accounted_reconcile [OF assms(2)] reconcile_available rec assms(3,4) by auto
  show ?thesis
    using assms(1-3,5) rec g1 fresh [of e g] fresh [of "e\<lparr>ge_goal := Some g1\<rparr>" g1]
    by (auto simp: admitProviderUsage_def Let_def split: if_splits option.splits)
qed

lemma inv_admit:
  assumes "usage_inv s" "us_call s = None" "uv_loaded env = Some \<lparr>lr_corrupt = False, lr_records = us_ledger s\<rparr>"
    and "AdmitProviderUsage env nextID rp d (us_engine s) = (e', r)"
  shows "usage_inv (s\<lparr>us_engine := e', us_call := (case r of Inl _ \<Rightarrow> None | Inr c \<Rightarrow> Some (pc_admission c))\<rparr>)"
proof (cases "e' = us_engine s \<and> (\<exists>err. r = Inl err)")
  case True
  then show ?thesis using assms(1,2) by (auto simp: usage_inv_def split: option.splits)
next
  case False
  obtain r' where r': "admitProviderUsage env rp d nextID (us_engine s) = (e', r')"
    "(case r' of Inl err \<Rightarrow> r = Inl err | Inr a \<Rightarrow> r = Inr \<lparr>pc_admission = a, pc_settled = False\<rparr>)"
    using assms(4) False
    by (cases "admitProviderUsage env rp d nextID (us_engine s)") (auto simp: AdmitProviderUsage_def split: if_splits sum.splits)
  have "validateGoalUsageReporter (ge_goal (us_engine s)) rp = None"
    using r' False by (auto simp: admitProviderUsage_def split: if_splits option.splits)
  then obtain g where g: "ge_goal (us_engine s) = Some g" "\<not> unavailable g" using reporter_goal by blast
  moreover have "accounted (us_ledger s) g" using assms(1) g by (simp add: usage_inv_def)
  ultimately obtain g' where "ge_goal e' = Some g'" "accounted (us_ledger s) g'" "\<not> unavailable g'"
    "case r' of Inl err \<Rightarrow> True | Inr a \<Rightarrow> call_state (us_ledger s) g' a"
    using admit_state [of "us_engine s" g "us_ledger s" env rp d nextID e' r'] assms(3) r'(1) by blast
  then show ?thesis using r'(2) by (auto simp: usage_inv_def call_state_def split: sum.splits)
qed

subsection \<open>Restarting\<close>

definition restored_ok :: "GoalUsageRecord list \<Rightarrow> goalState option \<Rightarrow> bool" where
  "restored_ok l x \<longleftrightarrow> (\<exists>g. x = Some g \<and> accounted l g \<and>
     (unavailable g \<longrightarrow> (\<exists>p. unavailablePersisted g = Some p \<and> accounted l (goalStateFromPersisted p))))"

lemma restored_unavailable:
  assumes "accounted l (goalStateFromPersisted p)"
  shows "restored_ok l (fst (unavailable_with p code reason err))"
proof -
  have "accounted l (unavailableGoalState p code reason)"
    by (rule accounted_cong [OF _ _ _ _ _ _ assms]) (simp_all add: unavailableGoalState_def)
  then show ?thesis using assms by (simp add: restored_ok_def unavailable_with_def) (simp add: unavailableGoalState_def)
qed

lemma restored_cold:
  assumes "accounted l (goalStateFromPersisted p)" "accounted l st" "\<not> unavailable st"
  shows "restored_ok l (fst (cold_pause p now st ws b))"
proof -
  have "accounted l (resetGoalTurnEvidence (st\<lparr>Status := goalStatusPaused, StatusReasonCode := c, StatusReason := r,
      Revision := n, UpdatedAt := t\<rparr>))" for c r n t
    by (rule accounted_cong [OF _ _ _ _ _ _ assms(2)]) simp_all
  then show ?thesis using assms restored_unavailable [OF assms(1)]
    by (auto simp: cold_pause_def restored_ok_def)
qed

lemma restored_accounted:
  assumes "accounted l (goalStateFromPersisted p)"
  shows "restored_ok l (fst (restorePersistedGoalStateWithUsage dg (Some p) [] now (Some \<lparr>lr_corrupt = False, lr_records = l\<rparr>) True))"
proof -
  let ?w = "p\<lparr>ps_Version := PersistedGoalStateVersion\<rparr>"
  have w: "accounted l (goalStateFromPersisted ?w)" "\<not> unavailable (goalStateFromPersisted ?w)"
    using assms by (simp_all add: goalStateFromPersisted_def)
  obtain g ch err where rec:
    "reconcileGoalUsageState (goalStateFromPersisted ?w) (Some \<lparr>lr_corrupt = False, lr_records = l\<rparr>) now = (g, ch, err)"
    by (metis prod_cases3)
  have "accounted l (if ch then g else goalStateFromPersisted ?w)" "\<not> unavailable (if ch then g else goalStateFromPersisted ?w)"
    using accounted_reconcile [OF w(1) rec] reconcile_available [OF rec] w by auto
  then have cold: "restored_ok l (fst (cold_pause p now (if ch then g else goalStateFromPersisted ?w) ws b))" for ws b
    using restored_cold [OF assms] by blast
  have blank: "TrimUnicode [] = []" by (simp add: plain_eval)
  have ite: "restored_ok l (fst x) \<Longrightarrow> restored_ok l (fst y) \<Longrightarrow> restored_ok l (fst (if c then x else y))"
    for c and x y :: "goalState option \<times> warning list \<times> bool" by simp
  have opt: "restored_ok l (fst y) \<Longrightarrow> (\<And>er. restored_ok l (fst (f er))) \<Longrightarrow>
      restored_ok l (fst (case m of None \<Rightarrow> y | Some er \<Rightarrow> f er))"
    for m :: "goal_error option" and f and y :: "goalState option \<times> warning list \<times> bool" by (cases m) simp_all
  show ?thesis
    unfolding restorePersistedGoalStateWithUsage_def option.case Let_def rec prod.case blank
    by (simp only: simp_thms if_False if_True) (intro ite opt restored_unavailable [OF assms] cold)
qed

lemma inv_restart:
  assumes "usage_inv s"
    and "restorePersistedGoalStateWithUsage dg (persistedGoalState (ge_goal (us_engine s))) [] now
      (Some \<lparr>lr_corrupt = False, lr_records = us_ledger s\<rparr>) True = (g', warnings, checkpoint)"
  shows "usage_inv (s\<lparr>us_engine := (us_engine s)\<lparr>ge_goal := g', ge_runtime := None, ge_usageUncertain := False\<rparr>, us_call := None\<rparr>)"
proof (cases "ge_goal (us_engine s)")
  case None
  then show ?thesis using assms
    by (simp add: usage_inv_def restorePersistedGoalStateWithUsage_def persistedGoalState_def)
next
  case (Some g)
  have acc: "accounted (us_ledger s) g" using assms(1) Some by (simp add: usage_inv_def)
  obtain p where p: "persistedGoalState (Some g) = Some p" "accounted (us_ledger s) (goalStateFromPersisted p)"
  proof (cases "unavailable g")
    case True
    then show ?thesis using that assms(1) Some by (auto simp: usage_inv_def persistedGoalState_def)
  next
    case False
    have "accounted (us_ledger s) (goalStateFromPersisted (the (persistedGoalState (Some g))))"
      by (rule accounted_cong [OF _ _ _ _ _ _ acc]) (simp_all add: False persistedGoalState_def goalStateFromPersisted_def)
    then show ?thesis using that False by (simp add: persistedGoalState_def)
  qed
  from restored_accounted [OF p(2), of dg now] have "restored_ok (us_ledger s) g'" using assms(2) Some p(1) by simp
  then show ?thesis by (auto simp: usage_inv_def restored_ok_def)
qed

section \<open>Reachable sessions\<close>

inductive usage_reachable :: "usage_system \<Rightarrow> usage_system \<Rightarrow> bool" for s0 where
  start: "usage_reachable s0 s0"
| step: "usage_reachable s0 s \<Longrightarrow> usage_step s s' \<Longrightarrow> usage_reachable s0 s'"

lemma usage_step_inv: "usage_step s s' \<Longrightarrow> usage_inv s \<Longrightarrow> usage_inv s'"
  by (induction rule: usage_step.induct)
     (auto intro: inv_admit inv_settle inv_control inv_clear inv_restart turns.keeps_inv)

lemma reachable_inv: "usage_reachable s0 s \<Longrightarrow> usage_inv s0 \<Longrightarrow> usage_inv s"
  by (induction rule: usage_reachable.induct) (auto intro: usage_step_inv)

text \<open>
  C10. Every token is counted once: from a session without a goal, through any interleaving of
  calls admitted, completed, released or left ambiguous, control operations, turns, failing writes
  and restarts, the tokens a goal has used are the sum of the billable tokens of its accounted
  records, its ledger revision is their number, and every record of the goal in the ledger is
  accounted except at most the one of the pending call.
\<close>

theorem tokens_counted_once:
  assumes "usage_reachable s0 s" "ge_goal (us_engine s0) = None" "us_call s0 = None"
    and "ge_goal (us_engine s) = Some g"
  shows "unat (TokensUsed g) = billable (take (unat (UsageLedgerRevision g)) (goal_records g (us_ledger s))) \<and>
    numbered (goal_records g (us_ledger s)) \<and> unat (UsageLedgerRevision g) \<le> length (goal_records g (us_ledger s)) \<and>
    length (goal_records g (us_ledger s)) \<le> unat (UsageLedgerRevision g) + (if PendingUsageAdmission g = None then 0 else 1)"
proof -
  have "usage_inv s0" using assms(2,3) by (simp add: usage_inv_def)
  then have "accounted (us_ledger s) g" using reachable_inv [OF assms(1)] assms(4) by (simp add: usage_inv_def)
  then show ?thesis by (auto simp: accounted_def Let_def split: option.splits)
qed

definition empty_session :: usage_system where
  "empty_session = \<lparr>us_engine = demo_engine\<lparr>ge_goal := None\<rparr>, us_ledger = [], us_call = None\<rparr>"

lemma demo_create:
  "\<exists>e' g. control demo_env (ControlCreate ''fix it'' (Some 100) []) (demo_engine\<lparr>ge_goal := None\<rparr>) = (e', Inr g) \<and>
     ge_goal e' = Some g \<and> GoalID g = ''g1'' \<and> UsageLedgerRevision g = 0"
  using demo_scope [of None None]
  by (simp add: create_def objective_example transition_def create_build_def publish_def demo_engine_def demo_env_def
      planPhaseRequiresContainment_def firstGoalOwnerTurnID_def projectGoalLifecycle_def)

theorem tokens_counted_once_witness:
  "\<exists>s g. usage_reachable empty_session s \<and> ge_goal (us_engine s) = Some g \<and> TokensUsed g = 0"
proof -
  obtain e' g where c: "control demo_env (ControlCreate ''fix it'' (Some 100) []) (us_engine empty_session) = (e', Inr g)"
    "ge_goal e' = Some g" "UsageLedgerRevision g = 0"
    using demo_create by (auto simp: empty_session_def)
  let ?s = "empty_session\<lparr>us_engine := e'\<rparr>"
  have "usage_step empty_session ?s" by (rule step_control [OF c(1)]) (simp add: empty_session_def)
  then have r: "usage_reachable empty_session ?s" using usage_reachable.intros by blast
  have "ge_goal (us_engine empty_session) = None" "us_call empty_session = None" "ge_goal (us_engine ?s) = Some g"
    using c(2) by (simp_all add: empty_session_def)
  from tokens_counted_once [OF r this] show ?thesis using r c
    by (intro exI [of _ ?s] exI [of _ g]) (simp add: billable_def unat_eq_0)
qed

section \<open>Recovery\<close>

lemma find_snoc: "find P xs = None \<Longrightarrow> P x \<Longrightarrow> find P (xs @ [x]) = Some x"
  by (induction xs) (auto split: if_splits)

text \<open>
  C11. Recovery finishes what a crash interrupted: when a call's record is in the ledger but the
  checkpoint after it was lost, reconciling with the ledger gives exactly the goal that the
  completed call leaves when nothing fails, with no error.
\<close>

theorem recovery_completes_call:
  assumes "usage_reachable s0 s" "ge_goal (us_engine s0) = None" "us_call s0 = None"
    and "us_call s = Some a" "ge_goal (us_engine s) = Some g" "normalizeGoalProviderUsage usage = Inr u"
    and "uv_record env (record_of a u) = None" "completeProviderUsage env a usage (us_engine s) = (e', None)"
    and "ge_goal e' = Some g'"
  shows "reconcileGoalUsageState g (Some \<lparr>lr_corrupt = False, lr_records = us_ledger s @ [record_of a u]\<rparr>) (gv_now env) =
    (g', True, None)"
proof -
  let ?r = "record_of a u"
  have "usage_inv s0" using assms(2,3) by (simp add: usage_inv_def)
  then have cs: "call_state (us_ledger s) g a"
    using reachable_inv [OF assms(1)] assms(4,5) by (simp add: usage_inv_def call_state_def)
  have p: "PendingUsageAdmission g = Some a" "validateGoalUsageAdmission a = None"
    using cs by (auto simp: call_state_def accounted_def Let_def)
  have v: "ValidateGoalUsageRecord ?r = None" by (rule record_of_valid [OF p(2) assms(6)])
  have app: "accounted (us_ledger s @ [?r]) g" "?r \<in> set (goal_records g (us_ledger s @ [?r]))"
    using accounted_append [of "us_ledger s" g a u] cs v by (auto simp: call_state_def)
  have "applyGoalUsageRecord g ?r (gv_now env) = Inr g'"
    using assms(5-9) v p
    by (auto simp: completeProviderUsage_def Let_def projectGoalLifecycle_def split: sum.splits option.splits)
  moreover have "find (\<lambda>r. ur_LedgerRevision r = ua_LedgerRevision a) (goal_records g (us_ledger s @ [?r])) = Some ?r"
  proof -
    have L: "goal_records g (us_ledger s @ [?r]) = goal_records g (us_ledger s) @ [?r]"
      using cs by (auto simp: goal_records_def call_state_def accounted_def Let_def)
    have "ur_LedgerRevision r \<noteq> ua_LedgerRevision a" if "r \<in> set (goal_records g (us_ledger s))" for r
      using numbered_revision_iff [of "goal_records g (us_ledger s)" r] that cs
      by (auto simp: call_state_def accounted_def Let_def)
    then have "find (\<lambda>r. ur_LedgerRevision r = ua_LedgerRevision a) (goal_records g (us_ledger s)) = None"
      by (simp add: find_None_iff)
    then show ?thesis unfolding L by (rule find_snoc) simp
  qed
  ultimately show ?thesis using inspect_complete [OF app(1)] p by (simp add: reconcileGoalUsageState_def)
qed

text \<open>A session with a call under way.\<close>

definition turn_session :: usage_system where
  "turn_session = \<lparr>us_engine = demo_engine\<lparr>ge_goal := None, ge_planActiveTurnID := ''t1''\<rparr>, us_ledger = [], us_call = None\<rparr>"

definition demo_usage_env :: usage_env where
  "demo_usage_env = \<lparr>gv_now = 2000, gv_uuid = ''g1'', gv_persist = (\<lambda>_. None), gv_coordinatorErr = None,
     gv_reject = (\<lambda>_ _ _. None), gv_settle = (\<lambda>_. None), uv_loaded = Some \<lparr>lr_corrupt = False, lr_records = []\<rparr>,
     uv_record = (\<lambda>_. None)\<rparr>"

definition demo_reporter :: goalUsageReporter where
  "demo_reporter = \<lparr>rp_binding = tr_identity demo_runtime,
     rp_subject = \<lparr>su_SessionID = ''s'', su_ThreadID = ''t'', su_AgentID = [], su_AgentGeneration = 0\<rparr>, rp_revoked = False\<rparr>"

definition demo_descriptor :: ProviderUsageDescriptor where
  "demo_descriptor = \<lparr>pd_LogicalRoundID = ''r'', pd_LogicalRequestID = [], pd_ModelAttemptID = [], pd_ModelAttemptIndex = 0,
     pd_ModelProfile = [], pd_ModelRetryIndex = 0\<rparr>"

definition ready_goal :: "goalState \<Rightarrow> bool" where
  "ready_goal g \<longleftrightarrow> GoalID g = ''g1'' \<and> ObjectiveRevision g = 1 \<and> LastGoalTurnID g = ''t1'' \<and> Status g = goalStatusActive \<and>
     PendingUsageAdmission g = None \<and> UsageLedgerRevision g = 0 \<and> unat (Revision g) \<le> 2 \<and> \<not> unavailable g \<and> TokensUsed g = 0"

lemma demo_texts:
  "TrimUnicode [] = []" "TrimUnicode ''t1'' = ''t1''" "TrimUnicode ''r'' = ''r''" "TrimUnicode ''c1'' = ''c1''" "TrimUnicode ''s'' = ''s''"
  "TrimUnicode ''t'' = ''t''" "TrimUnicode ''g1'' = ''g1''" "ValidString ''g1''" "ValidString ''s''" "ValidString ''t''" "ValidString ''t1''"
  by (simp_all add: plain_eval)

lemma demo_begin:
  "\<exists>e1 e2 g1 g2. control demo_env (ControlCreate ''fix it'' (Some 100) [''t1'']) (us_engine turn_session) = (e1, Inr g1) \<and>
     run_turn demo_turn_env (Turn_Begin ''t1'' True None) e1 = e2 \<and> ge_goal e2 = Some g2 \<and> ready_goal g2 \<and> \<not> ge_usageUncertain e2"
proof -
  have sc: "validateGoalScopeLocked (demo_engine\<lparr>ge_goal := g, ge_planActiveTurnID := p, ge_projected := x\<rparr>) = None" for g p x
    by (simp add: validateGoalScopeLocked_def demo_engine_def plain_eval)
  obtain g1 x where c: "control demo_env (ControlCreate ''fix it'' (Some 100) [''t1'']) (us_engine turn_session) =
      (demo_engine\<lparr>ge_goal := Some g1, ge_planActiveTurnID := ''t1'', ge_projected := x\<rparr>, Inr g1)"
    and g1: "g1 = projr (create_build demo_env ''fix it'' (Some 100) None PlanPhaseInactive 1000)"
    using sc [where g = None and p = "''t1''" and x = "[]"]
    by (simp add: turn_session_def create_def objective_example transition_def create_build_def publish_def demo_engine_def demo_env_def
        planPhaseRequiresContainment_def firstGoalOwnerTurnID_def projectGoalLifecycle_def demo_texts)
  have f: "\<not> unavailable g1" "Status g1 = goalStatusActive" "PendingUsageAdmission g1 = None" "Revision g1 = 1" "Continuation g1 = None"
    "GoalID g1 = ''g1''" "ObjectiveRevision g1 = 1" "UsageLedgerRevision g1 = 0" "TokensUsed g1 = 0"
    unfolding g1 by (simp_all add: create_build_def planPhaseRequiresContainment_def demo_env_def)
  have v: "validateGoalTurnID ''t1'' = None" by (simp add: validateGoalTurnID_def demo_texts)
  let ?e1 = "demo_engine\<lparr>ge_goal := Some g1, ge_planActiveTurnID := ''t1'', ge_projected := x\<rparr>"
  have "\<exists>g2. ge_goal (run_turn demo_turn_env (Turn_Begin ''t1'' True None) ?e1) = Some g2 \<and> ready_goal g2 \<and>
      \<not> ge_usageUncertain (run_turn demo_turn_env (Turn_Begin ''t1'' True None) ?e1)"
    using f v sc [where g = "Some g1" and p = "''t1''" and x = x]
    by (simp add: beginTurn_def begin_plain_turn_def nextGoalRevision_def live_cursor_def start_runtime_def Let_def
        demo_turn_env_def demo_engine_def ready_goal_def)
  then show ?thesis using c by blast
qed

lemma demo_admit:
  assumes "ge_goal e = Some g" "ready_goal g" "\<not> ge_usageUncertain e"
  shows "\<exists>e' c g'. AdmitProviderUsage demo_usage_env ''c1'' demo_reporter demo_descriptor e = (e', Inr c) \<and>
     ge_goal e' = Some g' \<and> PendingUsageAdmission g' = Some (pc_admission c) \<and> TokensUsed g' = 0 \<and> unat (Revision g') \<le> 3 \<and>
     validateGoalUsageAdmission (pc_admission c) = None"
proof -
  have r: "validateGoalUsageReporter (ge_goal e) demo_reporter = None"
    using assms by (simp add: validateGoalUsageReporter_def ready_goal_def identity_valid_def validGoalBindingText_def
        validateGoalTurnID_def demo_reporter_def demo_runtime_def demo_texts)
  have a: "validateGoalUsageAdmission (new_admission demo_reporter demo_descriptor ''c1'' 2000 g) = None"
    using assms(2) by (simp add: validateGoalUsageAdmission_def ValidateGoalUsageRecord_def record_identity_error_def
        record_agent_error_def record_token_error_def record_of_def no_usage_def new_admission_def demo_reporter_def
        demo_descriptor_def demo_runtime_def bad_field_def bad_text_def ready_goal_def version_defs GoalUsageRecordVersion_def demo_texts)
  have m: "Revision g \<noteq> MaxUint64" using assms(2) unat_MaxUint64 by (auto simp: ready_goal_def)
  then have "unat (Revision g + 1) \<le> 3" using assms(2) word_Suc [OF m] by (simp add: ready_goal_def)
  then show ?thesis using assms r a m
    by (simp add: AdmitProviderUsage_def admitProviderUsage_def admit_fresh_def nextGoalRevision_def ready_goal_def Let_def
        demo_usage_env_def) (simp add: demo_reporter_def demo_descriptor_def demo_texts)
qed

definition demo_usage :: TokenUsage where
  "demo_usage = \<lparr>tu_PromptTokens = 10, tu_CachedTokens = 4, tu_CompletionTokens = 5, tu_TotalTokens = 12, tu_ReasoningTokens = 2\<rparr>"

lemma demo_complete:
  assumes "ge_goal e = Some g" "PendingUsageAdmission g = Some a" "TokensUsed g = 0" "unat (Revision g) \<le> 3"
    and "validateGoalUsageAdmission a = None" "normalizeGoalProviderUsage (Some demo_usage) = Inr u"
  shows "\<exists>e' g'. completeProviderUsage demo_usage_env a (Some demo_usage) e = (e', None) \<and> ge_goal e' = Some g'"
proof -
  have m: "Revision g \<noteq> MaxUint64" using assms(4) unat_MaxUint64 by auto
  have v: "ValidateGoalUsageRecord (record_of a u) = None" by (rule record_of_valid [OF assms(5,6)])
  have "\<exists>g'. applyGoalUsageRecord g (record_of a u) 2000 = Inr g'"
    using assms(2,3) m v by (simp add: applyGoalUsageRecord_def nextGoalRevision_def Let_def)
  then show ?thesis using assms(1,2,6) v
    by (auto simp: completeProviderUsage_def demo_usage_env_def Let_def projectGoalLifecycle_def)
qed

theorem recovery_completes_call_witness:
  "\<exists>s a g u. usage_reachable turn_session s \<and> us_call s = Some a \<and> ge_goal (us_engine s) = Some g \<and>
     (case reconcileGoalUsageState g (Some \<lparr>lr_corrupt = False, lr_records = us_ledger s @ [record_of a u]\<rparr>) 2000 of
        (g', changed, err) \<Rightarrow> changed \<and> err = None)"
proof -
  obtain e1 e2 g1 g2 where b: "control demo_env (ControlCreate ''fix it'' (Some 100) [''t1'']) (us_engine turn_session) = (e1, Inr g1)"
    "run_turn demo_turn_env (Turn_Begin ''t1'' True None) e1 = e2" "ge_goal e2 = Some g2" "ready_goal g2" "\<not> ge_usageUncertain e2"
    using demo_begin by blast
  obtain e3 c g3 where adm: "AdmitProviderUsage demo_usage_env ''c1'' demo_reporter demo_descriptor e2 = (e3, Inr c)"
    "ge_goal e3 = Some g3" "PendingUsageAdmission g3 = Some (pc_admission c)" "TokensUsed g3 = 0" "unat (Revision g3) \<le> 3"
    "validateGoalUsageAdmission (pc_admission c) = None"
    using demo_admit [OF b(3-5)] by blast
  let ?s1 = "turn_session\<lparr>us_engine := e1\<rparr>"
  let ?s2 = "?s1\<lparr>us_engine := run_turn demo_turn_env (Turn_Begin ''t1'' True None) (us_engine ?s1)\<rparr>"
  let ?s3 = "?s2\<lparr>us_engine := e3, us_call := Some (pc_admission c)\<rparr>"
  have "usage_step turn_session ?s1" by (rule step_control [OF b(1)]) (simp add: turn_session_def)
  moreover have "usage_step ?s1 ?s2" by (rule step_turn)
  moreover have "usage_step ?s2 ?s3"
    using step_admit [of ?s2 demo_usage_env "''c1''" demo_reporter demo_descriptor e3 "Inr c"] adm(1) b(2)
    by (simp add: turn_session_def demo_usage_env_def)
  ultimately have r: "usage_reachable turn_session ?s3" by (meson usage_reachable.intros)
  obtain u where u: "normalizeGoalProviderUsage (Some demo_usage) = Inr u"
    by (auto simp: normalizeGoalProviderUsage_def negative_count_def demo_usage_def Add64_def Let_def)
  obtain e' g' where fin: "completeProviderUsage demo_usage_env (pc_admission c) (Some demo_usage) e3 = (e', None)" "ge_goal e' = Some g'"
    using demo_complete [OF adm(2-6) u] by blast
  have start: "ge_goal (us_engine turn_session) = None" "us_call turn_session = None" by (simp_all add: turn_session_def)
  have "reconcileGoalUsageState g3 (Some \<lparr>lr_corrupt = False, lr_records = us_ledger ?s3 @ [record_of (pc_admission c) u]\<rparr>)
      (gv_now demo_usage_env) = (g', True, None)"
    by (rule recovery_completes_call [OF r start _ _ u _ _ fin(2)]) (use adm(2) fin(1) in \<open>simp_all add: demo_usage_env_def\<close>)
  then show ?thesis using r adm(2)
    by (intro exI [of _ ?s3] exI [of _ "pc_admission c"] exI [of _ g3] exI [of _ u]) (simp add: demo_usage_env_def)
qed

end
