(* ===== verification/Input_Coordinator.thy ===== *)
theory Input_Coordinator
  imports Input_Item
begin

text \<open>
  The runtime input coordinator, src/engine/input_coordinator.go and the coordinator's part of
  runtime_prompt_persistence.go.  The coordinator is the single buffer in front of the query
  loop: items are enqueued, claimed, released, rejected, cancelled and settled.  Every change is
  written to a ledger file before it is made in memory; the file is the field \<open>rc_ledger\<close>.  Its
  replacement is atomic, so a failed write leaves the old contents.  The mutex makes each
  operation one step; the two notification channels hold at most one signal each.
\<close>

section \<open>State\<close>

text \<open>The admission receipts are a map; here the list of its entries.\<close>

record RuntimeInputCoordinator =
  rc_scope :: RuntimeInputScope
  rc_path :: string
  rc_revision :: uint64
  rc_nextSequence :: uint64
  rc_items :: "RuntimeItem list"
  rc_admissionReceipts :: "(string \<times> runtimeInputAdmissionReceipt) list"
  rc_delivered :: "string set"
  rc_mediaStore :: bool
  rc_promptWriter :: nat
  rc_submitting :: "string set"
  rc_recoveryPending :: bool
  rc_notify :: bool
  rc_goalNotify :: bool
  rc_ledger :: "runtimeInputEnvelope option"

abbreviation in_scope :: "RuntimeInputCoordinator \<Rightarrow> RuntimeInputScope \<Rightarrow> RuntimeItem \<Rightarrow> bool" where
  "in_scope c scope item \<equiv> runtimeScopesEqual (ri_Scope item) (normalizeScope (rc_scope c) scope)"

definition persistStateLocked ::
  "input_env \<Rightarrow> RuntimeItem list \<Rightarrow> uint64 \<Rightarrow> uint64 \<Rightarrow> (string \<times> runtimeInputAdmissionReceipt) list \<Rightarrow>
   RuntimeInputCoordinator \<Rightarrow> input_error + RuntimeInputCoordinator" where
  "persistStateLocked env items nextSequence revision receipts c =
     (if rc_path c = [] then Inr c
      else let envelope = \<lparr>en_Version = runtimeInputEnvelopeVersion, en_Revision = revision, en_NextSequence = nextSequence,
             en_Items = items, en_AdmissionReceipts = orderedRuntimeInputAdmissionReceipts receipts\<rparr>
        in case iv_write env envelope of
             Some err \<Rightarrow> Inl err
           | None \<Rightarrow> Inr (c\<lparr>rc_ledger := Some (envelope\<lparr>en_Items := map wire_item items\<rparr>)\<rparr>))"

definition persistLocked ::
  "input_env \<Rightarrow> RuntimeItem list \<Rightarrow> uint64 \<Rightarrow> uint64 \<Rightarrow> RuntimeInputCoordinator \<Rightarrow> input_error + RuntimeInputCoordinator" where
  "persistLocked env items nextSequence revision c =
     persistStateLocked env items nextSequence revision (rc_admissionReceipts c) c"

definition signal :: "RuntimeInputCoordinator \<Rightarrow> RuntimeInputCoordinator" where
  "signal c = c\<lparr>rc_notify := True\<rparr>"

definition signalGoal :: "RuntimeInputCoordinator \<Rightarrow> RuntimeInputCoordinator" where
  "signalGoal c = c\<lparr>rc_goalNotify := True\<rparr>"

text \<open>The common end of the operations that replace the items.\<close>

definition commit_items :: "input_env \<Rightarrow> RuntimeItem list \<Rightarrow> RuntimeInputCoordinator \<Rightarrow> input_error + RuntimeInputCoordinator" where
  "commit_items env candidate c =
     (case persistLocked env candidate (rc_nextSequence c) (rc_revision c + 1) c of
        Inl err \<Rightarrow> Inl err
      | Inr c' \<Rightarrow> Inr (c'\<lparr>rc_items := candidate, rc_revision := rc_revision c + 1\<rparr>))"

section \<open>Enqueueing\<close>

definition prepare_item :: "RuntimeInputCoordinator \<Rightarrow> RuntimeItem \<Rightarrow> RuntimeItem" where
  "prepare_item c item =
     (let i = fst (normalizeRuntimeItemPayload (item\<lparr>ri_ID := TrimUnicode (ri_ID item)\<rparr>)) in
      i\<lparr>ri_Version := (if ri_Delivery i \<noteq> PromptDeliveryDefault then runtimeItemDeliveryVersion else runtimeItemVersion),
        ri_Priority := normalizedRuntimePriority (ri_Priority i), ri_Scope := normalizeScope (rc_scope c) (ri_Scope i)\<rparr>)"

definition same_payload :: "input_env \<Rightarrow> RuntimeItem \<Rightarrow> RuntimeItem \<Rightarrow> bool" where
  "same_payload env existing item =
     runtimeItemsEqual (iv_json env) existing (item\<lparr>ri_Version := ri_Version existing, ri_Sequence := ri_Sequence existing,
       ri_EnqueuedAt := ri_EnqueuedAt existing, ri_State := ri_State existing\<rparr>)"

text \<open>What a batch has collected so far.\<close>

record enqueue_state =
  es_candidate :: "RuntimeItem list"
  es_receipts :: "(string \<times> runtimeInputAdmissionReceipt) list"
  es_nextSequence :: uint64
  es_accepted :: "RuntimeItem list"
  es_changed :: bool

definition accept :: "RuntimeItem \<Rightarrow> enqueue_state \<Rightarrow> enqueue_state" where
  "accept item s = s\<lparr>es_accepted := es_accepted s @ [item]\<rparr>"

definition retry_receipt ::
  "input_env \<Rightarrow> RuntimeInputCoordinator \<Rightarrow> runtimeInputAdmissionReceipt \<Rightarrow> RuntimeItem \<Rightarrow> enqueue_state \<Rightarrow> input_error + enqueue_state" where
  "retry_receipt env c receipt item s =
     (case runtimeInputAdmissionReceiptMatches env receipt item of
        Inl err \<Rightarrow> Inl err
      | Inr False \<Rightarrow> Inl (RuntimeInputConflictError (ri_ID item))
      | Inr True \<Rightarrow>
         (case runtimeItemByID (es_candidate s) (ri_ID item) of
            Some existing \<Rightarrow>
             (if \<not> same_payload env existing item then Inl (RuntimeInputConflictError (ri_ID item)) else Inr (accept existing s))
          | None \<Rightarrow>
             (let i = item\<lparr>ri_Sequence := ar_Sequence receipt, ri_EnqueuedAt := ar_EnqueuedAt receipt, ri_State := RuntimeItemProcessing\<rparr>
              in case validateItem env (rc_scope c) (rc_promptWriter c) i of Some err \<Rightarrow> Inl err | None \<Rightarrow> Inr (accept i s))))"

definition retry_existing ::
  "input_env \<Rightarrow> bool \<Rightarrow> RuntimeItem \<Rightarrow> RuntimeItem \<Rightarrow> enqueue_state \<Rightarrow> input_error + enqueue_state" where
  "retry_existing env recordAdmission existing item s =
     (if \<not> same_payload env existing item then Inl (RuntimeInputConflictError (ri_ID item))
      else if recordAdmission then
        (case runtimeInputAdmissionReceiptFor env existing of
           Inl err \<Rightarrow> Inl err
         | Inr receipt \<Rightarrow>
            Inr (accept existing (s\<lparr>es_receipts := AList.update (ri_ID item) receipt (es_receipts s), es_changed := True\<rparr>)))
      else Inr (accept existing s))"

definition pending_count :: "RuntimeItemKind \<Rightarrow> RuntimeInputScope \<Rightarrow> RuntimeItem list \<Rightarrow> nat" where
  "pending_count kind scope items =
     length (filter (\<lambda>i. ri_State i = RuntimeItemPending \<and> ri_Kind i = kind \<and> runtimeScopesEqual (ri_Scope i) scope) items)"

definition admit_new ::
  "input_env \<Rightarrow> RuntimeInputCoordinator \<Rightarrow> bool \<Rightarrow> RuntimeItem \<Rightarrow> enqueue_state \<Rightarrow> input_error + enqueue_state" where
  "admit_new env c recordAdmission item s =
     (let i = item\<lparr>ri_Sequence := es_nextSequence s + 1,
            ri_EnqueuedAt := (if ri_EnqueuedAt item = 0 then iv_now env else ri_EnqueuedAt item), ri_State := RuntimeItemPending\<rparr>;
          s' = accept i (s\<lparr>es_candidate := es_candidate s @ [i], es_nextSequence := es_nextSequence s + 1, es_changed := True\<rparr>)
      in case validateItem env (rc_scope c) (rc_promptWriter c) i of
           Some err \<Rightarrow> Inl err
         | None \<Rightarrow>
           (if \<not> recordAdmission then Inr s'
            else case runtimeInputAdmissionReceiptFor env i of
              Inl err \<Rightarrow> Inl err
            | Inr receipt \<Rightarrow> Inr (s'\<lparr>es_receipts := AList.update (ri_ID i) receipt (es_receipts s)\<rparr>)))"

text \<open>The empty bounded kind of a plain batch is \<open>None\<close>.\<close>

definition enqueue_one ::
  "input_env \<Rightarrow> RuntimeInputCoordinator \<Rightarrow> RuntimeItemKind option \<Rightarrow> nat \<Rightarrow> bool \<Rightarrow> RuntimeItem \<Rightarrow> enqueue_state \<Rightarrow> input_error + enqueue_state" where
  "enqueue_one env c boundedKind maxPending recordAdmission raw s =
     (if TrimUnicode (ri_ID raw) = [] then Inl (InputError ''item ID is required'')
      else let item = prepare_item c raw in
        if (case ri_UserPrompt item of None \<Rightarrow> False | Some p \<Rightarrow> up_Images p \<noteq> []) then Inl (InputError ''inline user images are decode-only'')
        else case (if recordAdmission then map_of (es_receipts s) (ri_ID item) else None) of
          Some receipt \<Rightarrow> retry_receipt env c receipt item s
        | None \<Rightarrow>
           (if ri_ID item \<in> rc_delivered c then
              (if recordAdmission then Inl (RuntimeInputConflictError (ri_ID item))
               else case validateRuntimeItemUserImages env item of
                 Some err \<Rightarrow> Inl err
               | None \<Rightarrow> Inr (accept (item\<lparr>ri_State := RuntimeItemProcessing\<rparr>) s))
            else case runtimeItemByID (es_candidate s) (ri_ID item) of
              Some existing \<Rightarrow> retry_existing env recordAdmission existing item s
            | None \<Rightarrow>
               (if boundedKind = Some (ri_Kind item) \<and> pending_count (ri_Kind item) (ri_Scope item) (es_candidate s) \<ge> maxPending
                then Inl (InputError ''runtime input coordinator is full'')
                else admit_new env c recordAdmission item s)))"

fun enqueue_loop ::
  "input_env \<Rightarrow> RuntimeInputCoordinator \<Rightarrow> RuntimeItemKind option \<Rightarrow> nat \<Rightarrow> bool \<Rightarrow> RuntimeItem list \<Rightarrow> enqueue_state \<Rightarrow> input_error + enqueue_state" where
  "enqueue_loop env c boundedKind maxPending recordAdmission [] s = Inr s"
| "enqueue_loop env c boundedKind maxPending recordAdmission (item # items) s =
     (case enqueue_one env c boundedKind maxPending recordAdmission item s of
        Inl err \<Rightarrow> Inl err
      | Inr s' \<Rightarrow> enqueue_loop env c boundedKind maxPending recordAdmission items s')"

definition enqueueBatchLocked ::
  "input_env \<Rightarrow> RuntimeItem list \<Rightarrow> RuntimeItemKind option \<Rightarrow> nat \<Rightarrow> bool \<Rightarrow> bool \<Rightarrow> RuntimeInputCoordinator \<Rightarrow>
   RuntimeInputCoordinator \<times> (input_error + RuntimeItem list)" where
  "enqueueBatchLocked env items boundedKind maxPending publishSignal recordAdmission c =
     (case enqueue_loop env c boundedKind maxPending recordAdmission items
        \<lparr>es_candidate = rc_items c, es_receipts = rc_admissionReceipts c, es_nextSequence = rc_nextSequence c,
         es_accepted = [], es_changed = False\<rparr> of
        Inl err \<Rightarrow> (c, Inl err)
      | Inr s \<Rightarrow>
         (if \<not> es_changed s then (c, Inr (es_accepted s))
          else case persistStateLocked env (es_candidate s) (es_nextSequence s) (rc_revision c + 1) (es_receipts s) c of
            Inl err \<Rightarrow> (c, Inl err)
          | Inr c1 \<Rightarrow>
             (let c2 = c1\<lparr>rc_items := es_candidate s, rc_admissionReceipts := es_receipts s, rc_nextSequence := es_nextSequence s,
                    rc_revision := rc_revision c + 1\<rparr>
              in (if publishSignal \<and> hasTransportEligiblePending (es_candidate s) then signal c2 else c2, Inr (es_accepted s)))))"

definition EnqueueBatch :: "input_env \<Rightarrow> RuntimeItem list \<Rightarrow> RuntimeInputCoordinator \<Rightarrow>
   RuntimeInputCoordinator \<times> (input_error + RuntimeItem list)" where
  "EnqueueBatch env items c =
     (if items = [] then (c, Inr []) else enqueueBatchLocked env items None 0 True False c)"

text \<open>The single-item forms check that one item came back.\<close>

definition single :: "RuntimeInputCoordinator \<times> (input_error + RuntimeItem list) \<Rightarrow> RuntimeInputCoordinator \<times> (input_error + RuntimeItem)" where
  "single r =
     (case r of
        (c, Inl err) \<Rightarrow> (c, Inl err)
      | (c, Inr [item]) \<Rightarrow> (c, Inr item)
      | (c, Inr _) \<Rightarrow> (c, Inl (InputError ''enqueue returned an unexpected number of items'')))"

definition Enqueue :: "input_env \<Rightarrow> RuntimeItem \<Rightarrow> RuntimeInputCoordinator \<Rightarrow> RuntimeInputCoordinator \<times> (input_error + RuntimeItem)" where
  "Enqueue env item c = single (EnqueueBatch env [item] c)"

definition EnqueueBounded ::
  "input_env \<Rightarrow> RuntimeItem \<Rightarrow> int \<Rightarrow> RuntimeInputCoordinator \<Rightarrow> RuntimeInputCoordinator \<times> (input_error + RuntimeItem)" where
  "EnqueueBounded env item maxPending c =
     (if maxPending \<le> 0 then (c, Inl (InputError ''max pending must be positive''))
      else single (enqueueBatchLocked env [item]
        (if ri_Kind item = RuntimeItemOtherKind [] then None else Some (ri_Kind item)) (nat maxPending) True False c))"

definition EnqueueBoundedWithAdmissionReceipt ::
  "input_env \<Rightarrow> RuntimeItem \<Rightarrow> int \<Rightarrow> RuntimeInputCoordinator \<Rightarrow> RuntimeInputCoordinator \<times> (input_error + RuntimeItem)" where
  "EnqueueBoundedWithAdmissionReceipt env item maxPending c =
     (if maxPending \<le> 0 then (c, Inl (InputError ''max pending must be positive''))
      else single (enqueueBatchLocked env [item] (Some RuntimeItemUserPrompt) (nat maxPending) True True c))"

definition enqueueDormantGoalContinuation ::
  "input_env \<Rightarrow> RuntimeItem \<Rightarrow> RuntimeInputCoordinator \<Rightarrow> RuntimeInputCoordinator \<times> (input_error + RuntimeItem)" where
  "enqueueDormantGoalContinuation env item c =
     (if ri_Kind item \<noteq> RuntimeItemGoalContinuation then (c, Inl (InputError ''dormant enqueue requires a Goal continuation''))
      else case single (enqueueBatchLocked env [item] (Some RuntimeItemGoalContinuation) 1 False False c) of
        (c', Inl err) \<Rightarrow> (c', Inl err)
      | (c', Inr i) \<Rightarrow> (signalGoal c', Inr i))"

definition enqueueDurableUserPrompt ::
  "input_env \<Rightarrow> RuntimeItem \<Rightarrow> promptRecord \<Rightarrow> int \<Rightarrow> RuntimeInputCoordinator \<Rightarrow> RuntimeInputCoordinator \<times> (input_error + RuntimeItem)" where
  "enqueueDurableUserPrompt env item r maxPending c =
     (if rc_path c = [] \<or> \<not> rc_mediaStore c then (c, Inl (InputError ''durable prompt writer is unavailable''))
      else case (if ri_Kind item = RuntimeItemUserPrompt then ri_UserPrompt item else None) of
        None \<Rightarrow> (c, Inl (InputError ''durable prompt requires a user item''))
      | Some p \<Rightarrow>
         (case EnqueueBounded env (item\<lparr>ri_UserPrompt := Some (p\<lparr>up_Prompt := [], up_Images := [], up_durablePrompt := Some r,
              up_materializedInput := None, up_writer := Some (rc_promptWriter c), up_writerItemID := ri_ID item\<rparr>)\<rparr>) maxPending c of
            (c', Inl err) \<Rightarrow> (c', Inl (InputError ''durable queued prompt ledger commit failed''))
          | (c', Inr i) \<Rightarrow> (c', Inr i)))"

definition HasAdmissionReceipt :: "input_env \<Rightarrow> RuntimeItem \<Rightarrow> RuntimeInputCoordinator \<Rightarrow> input_error + bool" where
  "HasAdmissionReceipt env raw c =
     (let item = prepare_item c raw in
      case map_of (rc_admissionReceipts c) (ri_ID item) of
        None \<Rightarrow> Inr False
      | Some receipt \<Rightarrow>
         (case runtimeInputAdmissionReceiptMatches env receipt item of
            Inl err \<Rightarrow> Inl err
          | Inr False \<Rightarrow> Inl (RuntimeInputConflictError (ri_ID item))
          | Inr True \<Rightarrow> Inr True))"

section \<open>Claiming\<close>

definition materializeRuntimePrompt :: "input_env \<Rightarrow> RuntimeInputCoordinator \<Rightarrow> RuntimeItem \<Rightarrow> input_error + RuntimeItem" where
  "materializeRuntimePrompt env c item =
     (case ri_UserPrompt item of
        None \<Rightarrow> Inr item
      | Some p \<Rightarrow>
         (case up_durablePrompt p of
            None \<Rightarrow> Inr item
          | Some r \<Rightarrow>
             (if \<not> rc_mediaStore c then Inl (InputError ''durable prompt media is unavailable'')
              else case (if iv_validPrompt env r then iv_resolve env r else None) of
                None \<Rightarrow> Inl (InputError ''durable prompt materialization failed'')
              | Some input \<Rightarrow> Inr (item\<lparr>ri_UserPrompt := Some (p\<lparr>up_materializedInput := Some input\<rparr>)\<rparr>))))"

definition mark :: "RuntimeItemState \<Rightarrow> nat \<Rightarrow> RuntimeItem list \<Rightarrow> RuntimeItem list" where
  "mark st i items = items[i := (items ! i)\<lparr>ri_State := st\<rparr>]"

fun claim_loop :: "input_env \<Rightarrow> RuntimeInputCoordinator \<Rightarrow> nat list \<Rightarrow> RuntimeItem list \<Rightarrow> input_error + RuntimeItem list \<times> RuntimeItem list" where
  "claim_loop env c [] items = Inr (items, [])"
| "claim_loop env c (i # is) items =
     (let items' = mark RuntimeItemProcessing i items in
      case materializeRuntimePrompt env c (items' ! i) of
        Inl err \<Rightarrow> Inl err
      | Inr m \<Rightarrow>
         (case claim_loop env c is items' of Inl err \<Rightarrow> Inl err | Inr (candidate, claimed) \<Rightarrow> Inr (candidate, m # claimed)))"

definition schedule_key :: "RuntimeItem \<Rightarrow> nat \<times> uint64" where
  "schedule_key item = (runtimePriorityOrdinal (ri_Priority item), ri_Sequence item)"

definition safe_point_eligible :: "RuntimeInputCoordinator \<Rightarrow> RuntimeInputScope \<Rightarrow> bool \<Rightarrow> bool \<Rightarrow> RuntimeItem \<Rightarrow> bool" where
  "safe_point_eligible c scope includeUser allowLater item \<longleftrightarrow>
     \<not> (ri_State item \<noteq> RuntimeItemPending \<or> ri_Kind item = RuntimeItemStop \<or> ri_Kind item = RuntimeItemGoalContinuation \<or>
        \<not> in_scope c scope item) \<and>
     \<not> (ri_Kind item = RuntimeItemUserPrompt \<and>
        (ri_Delivery item = PromptDeliveryNextTurn \<or> \<not> includeUser \<and> ri_Delivery item \<noteq> PromptDeliverySteer)) \<and>
     \<not> (ri_Priority item = RuntimePriorityLater \<and> \<not> allowLater)"

definition ClaimSafePoint ::
  "input_env \<Rightarrow> RuntimeInputScope \<Rightarrow> bool \<Rightarrow> bool \<Rightarrow> RuntimeInputCoordinator \<Rightarrow> RuntimeInputCoordinator \<times> (input_error + RuntimeItem list)" where
  "ClaimSafePoint env scope includeUser allowLater c =
     (let items = rc_items c;
          indexes = filter (\<lambda>i. safe_point_eligible c scope includeUser allowLater (items ! i)) [0..<length items]
      in if indexes = [] then (c, Inr [])
         else case claim_loop env c (sort_key (\<lambda>i. schedule_key (items ! i)) indexes) items of
           Inl err \<Rightarrow> (c, Inl err)
         | Inr (candidate, claimed) \<Rightarrow>
            (case commit_items env candidate c of Inl err \<Rightarrow> (c, Inl err) | Inr c' \<Rightarrow> (c', Inr claimed)))"

text \<open>The first index that no later eligible one beats, as the loops over the items keep it.\<close>

definition pick_index :: "(RuntimeItem \<Rightarrow> bool) \<Rightarrow> (RuntimeItem \<Rightarrow> RuntimeItem \<Rightarrow> bool) \<Rightarrow> RuntimeItem list \<Rightarrow> nat option" where
  "pick_index eligible better items =
     fold (\<lambda>i best. if \<not> eligible (items ! i) then best
       else case best of None \<Rightarrow> Some i | Some b \<Rightarrow> if better (items ! i) (items ! b) then Some i else best) [0..<length items] None"

definition claim_at :: "input_env \<Rightarrow> nat option \<Rightarrow> RuntimeInputCoordinator \<Rightarrow> RuntimeInputCoordinator \<times> (input_error + RuntimeItem option)" where
  "claim_at env index c =
     (case index of
        None \<Rightarrow> (c, Inr None)
      | Some i \<Rightarrow>
         (let candidate = mark RuntimeItemProcessing i (rc_items c) in
          case materializeRuntimePrompt env c (candidate ! i) of
            Inl err \<Rightarrow> (c, Inl err)
          | Inr m \<Rightarrow> (case commit_items env candidate c of Inl err \<Rightarrow> (c, Inl err) | Inr c' \<Rightarrow> (c', Inr (Some m)))))"

definition idle_eligible :: "RuntimeInputCoordinator \<Rightarrow> RuntimeInputScope \<Rightarrow> RuntimeItem \<Rightarrow> bool" where
  "idle_eligible c scope item \<longleftrightarrow>
     \<not> (ri_State item \<noteq> RuntimeItemPending \<or> ri_Kind item = RuntimeItemStop \<or> ri_Kind item = RuntimeItemGoalContinuation \<or>
        \<not> in_scope c scope item)"

definition ClaimNextIdle ::
  "input_env \<Rightarrow> RuntimeInputScope \<Rightarrow> RuntimeInputCoordinator \<Rightarrow> RuntimeInputCoordinator \<times> (input_error + RuntimeItem option)" where
  "ClaimNextIdle env scope c =
     claim_at env (pick_index (idle_eligible c scope) (\<lambda>a b. schedule_key a < schedule_key b) (rc_items c)) c"

definition user_input_pending :: "RuntimeInputCoordinator \<Rightarrow> RuntimeInputScope \<Rightarrow> bool" where
  "user_input_pending c scope =
     list_ex (\<lambda>item. ri_State item = RuntimeItemPending \<and> in_scope c scope item \<and> is_prompt (ri_Kind item)) (rc_items c)"

definition last_index :: "(RuntimeItem \<Rightarrow> bool) \<Rightarrow> RuntimeItem list \<Rightarrow> nat option" where
  "last_index f items = find (\<lambda>i. f (items ! i)) (rev [0..<length items])"

definition first_index :: "(RuntimeItem \<Rightarrow> bool) \<Rightarrow> RuntimeItem list \<Rightarrow> nat option" where
  "first_index f items = find (\<lambda>i. f (items ! i)) [0..<length items]"

definition claimGoalContinuation ::
  "input_env \<Rightarrow> string \<Rightarrow> RuntimeInputScope \<Rightarrow> RuntimeInputCoordinator \<Rightarrow> RuntimeInputCoordinator \<times> (input_error + RuntimeItem option)" where
  "claimGoalContinuation env itemID scope c =
     (if TrimUnicode itemID = [] \<or> user_input_pending c scope then (c, Inr None)
      else claim_at env (last_index (\<lambda>item. ri_State item = RuntimeItemPending \<and> ri_ID item = TrimUnicode itemID \<and>
        ri_Kind item = RuntimeItemGoalContinuation \<and> in_scope c scope item) (rc_items c)) c)"

text \<open>What the admission callback is called with, under the coordinator's lock.\<close>

definition withGoalContinuationAdmission ::
  "string \<Rightarrow> RuntimeInputScope \<Rightarrow> RuntimeInputCoordinator \<Rightarrow> goal_error + RuntimeItem \<times> uint64" where
  "withGoalContinuationAdmission itemID scope c =
     (if user_input_pending c scope then Inl (Wrapped ''explicit user input is pending'' errGoalContinuationPermanentlyRejected)
      else case last_index (\<lambda>item. ri_ID item = TrimUnicode itemID \<and> ri_Kind item = RuntimeItemGoalContinuation \<and>
          ri_State item = RuntimeItemProcessing \<and> in_scope c scope item) (rc_items c) of
        None \<Rightarrow> Inl (Errorf ''goal continuation is not the claimed processing item'')
      | Some i \<Rightarrow> Inr (rc_items c ! i, rc_revision c))"

definition claimByID :: "input_env \<Rightarrow> string \<Rightarrow> RuntimeInputCoordinator \<Rightarrow> RuntimeInputCoordinator \<times> (input_error + RuntimeItem option)" where
  "claimByID env itemID c =
     (if TrimUnicode itemID = [] then (c, Inr None)
      else claim_at env (first_index (\<lambda>item. ri_ID item = itemID \<and> ri_State item = RuntimeItemPending) (rc_items c)) c)"

definition ClaimStop :: "input_env \<Rightarrow> RuntimeInputScope \<Rightarrow> RuntimeInputCoordinator \<Rightarrow> RuntimeInputCoordinator \<times> (input_error + RuntimeItem option)" where
  "ClaimStop env scope c =
     (case pick_index (\<lambda>item. \<not> (ri_State item \<noteq> RuntimeItemPending \<or> ri_Kind item \<noteq> RuntimeItemStop \<or> \<not> in_scope c scope item))
        (\<lambda>a b. ri_Sequence a < ri_Sequence b) (rc_items c) of
        None \<Rightarrow> (c, Inr None)
      | Some i \<Rightarrow>
         (let candidate = mark RuntimeItemProcessing i (rc_items c) in
          case commit_items env candidate c of Inl err \<Rightarrow> (c, Inl err) | Inr c' \<Rightarrow> (c', Inr (Some (candidate ! i)))))"

section \<open>Releasing, rejecting, settling, cancelling\<close>

definition Release :: "input_env \<Rightarrow> string \<Rightarrow> RuntimeInputCoordinator \<Rightarrow> RuntimeInputCoordinator \<times> (input_error + bool)" where
  "Release env itemID c =
     (if TrimUnicode itemID = [] then (c, Inr False)
      else case first_index (\<lambda>item. ri_ID item = itemID \<and> ri_State item = RuntimeItemProcessing) (rc_items c) of
        None \<Rightarrow> (c, Inr False)
      | Some i \<Rightarrow>
         (let candidate = mark RuntimeItemPending i (rc_items c) in
          case commit_items env candidate c of
            Inl err \<Rightarrow> (c, Inl err)
          | Inr c1 \<Rightarrow>
             (let c2 = c1\<lparr>rc_submitting := rc_submitting c1 - {itemID}\<rparr> in
              (if ri_Kind (candidate ! i) = RuntimeItemGoalContinuation then signalGoal c2 else signal c2, Inr True))))"

definition rejectGoalContinuation ::
  "input_env \<Rightarrow> string \<Rightarrow> string \<Rightarrow> time \<Rightarrow> RuntimeInputCoordinator \<Rightarrow> RuntimeInputCoordinator \<times> input_error option" where
  "rejectGoalContinuation env itemID rawCode at c =
     (if TrimUnicode itemID = [] then (c, None)
      else let code = TrimUnicode rawCode in
        if code = [] then (c, Some (InputError ''Goal continuation rejection code is required''))
        else case first_index (\<lambda>item. ri_ID item = TrimUnicode itemID \<and> ri_Kind item = RuntimeItemGoalContinuation) (rc_items c) of
          None \<Rightarrow> (c, None)
        | Some i \<Rightarrow>
           (let existing = rc_items c ! i in
            if ri_State existing = RuntimeItemRejected then
              (c, case ri_Rejection existing of
                    None \<Rightarrow> Some (InputError ''Goal continuation has corrupt rejection'')
                  | Some r \<Rightarrow> if rj_Version r \<noteq> runtimeItemRejectionVersion
                      then Some (InputError ''Goal continuation has corrupt rejection'') else None)
            else if ri_State existing \<noteq> RuntimeItemPending \<and> ri_State existing \<noteq> RuntimeItemProcessing
            then (c, Some (InputError ''Goal continuation cannot be rejected''))
            else case commit_items env ((rc_items c)[i := existing\<lparr>ri_State := RuntimeItemRejected,
                ri_Rejection := Some \<lparr>rj_Version = runtimeItemRejectionVersion, rj_Code = code,
                  rj_RejectedAt = (if at = 0 then iv_now env else at)\<rparr>\<rparr>]) c of
              Inl err \<Rightarrow> (c, Some err)
            | Inr c' \<Rightarrow> (c', None)))"

definition identities :: "string list \<Rightarrow> string set" where
  "identities ids = {t \<in> set (map TrimUnicode ids). t \<noteq> []}"

definition Settle :: "input_env \<Rightarrow> string list \<Rightarrow> RuntimeInputCoordinator \<Rightarrow> RuntimeInputCoordinator \<times> input_error option" where
  "Settle env ids c =
     (let settled = identities ids;
          mark_delivered = (\<lambda>c. c\<lparr>rc_delivered := rc_delivered c \<union> settled, rc_submitting := rc_submitting c - settled\<rparr>)
      in if settled = {} then (c, None)
         else if \<not> list_ex (\<lambda>item. ri_ID item \<in> settled) (rc_items c) then (mark_delivered c, None)
         else case commit_items env (filter (\<lambda>item. ri_ID item \<notin> settled) (rc_items c)) c of
           Inl err \<Rightarrow> (c, Some err)
         | Inr c' \<Rightarrow> (mark_delivered c', None))"

definition settleStopRequests :: "input_env \<Rightarrow> RuntimeInputScope \<Rightarrow> RuntimeInputCoordinator \<Rightarrow> RuntimeInputCoordinator \<times> input_error option" where
  "settleStopRequests env scope c =
     Settle env (map ri_ID (filter (\<lambda>item. ri_Kind item = RuntimeItemStop \<and> in_scope c scope item) (rc_items c))) c"

definition Cancel :: "input_env \<Rightarrow> string \<Rightarrow> RuntimeInputCoordinator \<Rightarrow> RuntimeInputCoordinator \<times> (input_error + bool)" where
  "Cancel env itemID c =
     (let cancelled = (\<lambda>item. ri_ID item = itemID \<and> ri_State item = RuntimeItemPending) in
      if TrimUnicode itemID = [] \<or> \<not> list_ex cancelled (rc_items c) then (c, Inr False)
      else case commit_items env (filter (\<lambda>item. \<not> cancelled item) (rc_items c)) c of
        Inl err \<Rightarrow> (c, Inl err)
      | Inr c' \<Rightarrow> (c', Inr True))"

text \<open>The draft handed back is made from the item by \<open>draft\<close>, which may fail.\<close>

definition editPendingUserPrompt ::
  "input_env \<Rightarrow> (RuntimeItem \<Rightarrow> input_error + 'd) \<Rightarrow> string \<Rightarrow> RuntimeInputScope \<Rightarrow> RuntimeInputCoordinator \<Rightarrow>
   RuntimeInputCoordinator \<times> (input_error + 'd option)" where
  "editPendingUserPrompt env draft itemID scope c =
     (if TrimUnicode itemID = [] then (c, Inr None)
      else case first_index (\<lambda>item. ri_ID item = TrimUnicode itemID \<and> ri_Kind item = RuntimeItemUserPrompt \<and>
          ri_State item = RuntimeItemPending \<and> in_scope c scope item) (rc_items c) of
        None \<Rightarrow> (c, Inr None)
      | Some i \<Rightarrow>
         (case materializeRuntimePrompt env c (rc_items c ! i) of
            Inl err \<Rightarrow> (c, Inl err)
          | Inr selected \<Rightarrow>
             (case draft selected of
                Inl err \<Rightarrow> (c, Inl err)
              | Inr d \<Rightarrow>
                 (case commit_items env (take i (rc_items c) @ drop (Suc i) (rc_items c)) c of
                    Inl err \<Rightarrow> (c, Inl err)
                  | Inr c' \<Rightarrow> (c', Inr (Some d))))))"

section \<open>Inspection and delivery\<close>

definition snapshotWithRevision :: "RuntimeInputScope \<Rightarrow> RuntimeInputCoordinator \<Rightarrow> RuntimeItem list \<times> uint64" where
  "snapshotWithRevision scope c =
     (sort_key schedule_key (filter (\<lambda>item. ri_State item = RuntimeItemPending \<and> in_scope c scope item) (rc_items c)), rc_revision c)"

definition Known :: "string \<Rightarrow> RuntimeInputCoordinator \<Rightarrow> bool" where
  "Known rawID c \<longleftrightarrow>
     (let t = TrimUnicode rawID in t \<noteq> [] \<and> (t \<in> rc_delivered c \<or> list_ex (\<lambda>item. ri_ID item = t) (rc_items c)))"

definition resolveDelivered :: "input_env \<Rightarrow> string list \<Rightarrow> RuntimeInputCoordinator \<Rightarrow> RuntimeInputCoordinator \<times> (input_error + string set)" where
  "resolveDelivered env ids c =
     (let requested = identities ids; covered = requested \<inter> rc_delivered c; unresolved = requested - rc_delivered c in
      case (if unresolved = {} then None else iv_lookup env) of
        None \<Rightarrow> (c, Inr covered)
      | Some lookup \<Rightarrow>
         (case lookup unresolved of
            Inl err \<Rightarrow> (c, Inl err)
          | Inr found \<Rightarrow> (c\<lparr>rc_delivered := rc_delivered c \<union> (found \<inter> requested)\<rparr>, Inr (covered \<union> (found \<inter> requested)))))"

definition claimed_durable :: "string \<Rightarrow> RuntimeItem \<Rightarrow> promptRecord option" where
  "claimed_durable itemID item =
     (if ri_ID item = itemID \<and> ri_Kind item = RuntimeItemUserPrompt \<and> ri_State item = RuntimeItemProcessing
      then Option.bind (ri_UserPrompt item) up_durablePrompt else None)"

definition processingDurableRuntimePrompt ::
  "input_env \<Rightarrow> RuntimeItem \<Rightarrow> RuntimeInputCoordinator \<Rightarrow> RuntimeInputCoordinator \<times> (input_error + RuntimeItem)" where
  "processingDurableRuntimePrompt env item c =
     (case Option.bind (ri_UserPrompt item) up_durablePrompt of
        None \<Rightarrow> (c, Inl (InputError ''runtime item is not a durable prompt''))
      | Some r \<Rightarrow>
         (if ri_ID item \<in> rc_submitting c then (c, Inl (InputError ''durable prompt is already submitting''))
          else case find (\<lambda>i. map_option pr_TurnID (claimed_durable (ri_ID item) i) = Some (pr_TurnID r)) (rc_items c) of
            None \<Rightarrow> (c, Inl (InputError ''durable prompt is not the claimed item''))
          | Some current \<Rightarrow>
             (case materializeRuntimePrompt env c current of
                Inl err \<Rightarrow> (c, Inl err)
              | Inr m \<Rightarrow> (c\<lparr>rc_submitting := insert (ri_ID item) (rc_submitting c)\<rparr>, Inr m))))"

definition durablePromptRecord :: "string \<Rightarrow> RuntimeInputCoordinator \<Rightarrow> promptRecord option" where
  "durablePromptRecord rawID c =
     (if TrimUnicode rawID = [] then None
      else Option.bind (find (\<lambda>i. claimed_durable (TrimUnicode rawID) i \<noteq> None) (rc_items c)) (claimed_durable (TrimUnicode rawID)))"

section \<open>Recovery\<close>

text \<open>The configuration, with the writer capability allocated for the new coordinator.\<close>

record RuntimeInputCoordinatorConfig =
  cf_SessionID :: string
  cf_ThreadID :: string
  cf_AgentID :: string
  cf_Path :: string
  cf_DeferRecoveryPersistence :: bool
  cf_mediaStore :: bool
  cf_promptWriter :: nat

definition loadRuntimeInputEnvelope :: "runtimeInputEnvelope option \<Rightarrow> input_error + runtimeInputEnvelope" where
  "loadRuntimeInputEnvelope file =
     (case file of
        None \<Rightarrow> Inr \<lparr>en_Version = runtimeInputEnvelopeVersion, en_Revision = 0, en_NextSequence = 0, en_Items = [], en_AdmissionReceipts = []\<rparr>
      | Some envelope \<Rightarrow>
         (if en_Version envelope \<noteq> runtimeInputEnvelopeLegacyVersion \<and> en_Version envelope \<noteq> runtimeInputEnvelopeVersion
          then Inl (InputError ''unsupported ledger version'') else Inr envelope))"

fun recover_receipts ::
  "RuntimeInputCoordinator \<Rightarrow> runtimeInputAdmissionReceipt list \<Rightarrow> (string \<times> runtimeInputAdmissionReceipt) list \<Rightarrow>
   input_error + (string \<times> runtimeInputAdmissionReceipt) list" where
  "recover_receipts c [] known = Inr known"
| "recover_receipts c (r # rs) known =
     (if validateRuntimeInputAdmissionReceipt r \<noteq> None then Inl (InputError ''recover admission receipt'')
      else if \<not> runtimeScopesEqual (ar_Scope r) (rc_scope c) then Inl (InputError ''admission receipt has invalid scope'')
      else if ar_Sequence r > rc_nextSequence c then Inl (InputError ''admission receipt exceeds next sequence'')
      else if list_ex (\<lambda>p. ar_Sequence (snd p) = ar_Sequence r) known then Inl (InputError ''admission receipts share a sequence'')
      else if map_of known (ar_ID r) \<noteq> None then Inl (InputError ''duplicate admission receipt'')
      else recover_receipts c rs (AList.update (ar_ID r) r known))"

record recovery_state =
  vs_receipts :: "(string \<times> runtimeInputAdmissionReceipt) list"
  vs_changed :: bool
  vs_items :: "RuntimeItem list"

definition recover_receipt :: "input_env \<Rightarrow> RuntimeItem \<Rightarrow> recovery_state \<Rightarrow> input_error + recovery_state" where
  "recover_receipt env item s =
     (case map_of (vs_receipts s) (ri_ID item) of
        Some r \<Rightarrow>
         (if runtimeInputAdmissionReceiptMatches env r item \<noteq> Inr True \<or> ar_Sequence r \<noteq> ri_Sequence item \<or>
            ar_EnqueuedAt r \<noteq> ri_EnqueuedAt item
          then Inl (InputError ''item does not match its admission receipt'') else Inr s)
      | None \<Rightarrow>
         (case runtimeInputAdmissionReceiptFor env item of
            Inl _ \<Rightarrow> Inr s
          | Inr r \<Rightarrow> Inr (s\<lparr>vs_receipts := AList.update (ri_ID item) r (vs_receipts s), vs_changed := True\<rparr>)))"

definition recovered_item :: "RuntimeInputCoordinator \<Rightarrow> RuntimeItem \<Rightarrow> RuntimeItem" where
  "recovered_item c item =
     item\<lparr>ri_UserPrompt := map_option (\<lambda>p. if up_durablePrompt p \<noteq> None
       then p\<lparr>up_writer := Some (rc_promptWriter c), up_writerItemID := ri_ID item\<rparr> else p) (ri_UserPrompt item)\<rparr>"

definition recover_item :: "input_env \<Rightarrow> RuntimeInputCoordinator \<Rightarrow> string set \<Rightarrow> RuntimeItem \<Rightarrow> recovery_state \<Rightarrow> input_error + recovery_state" where
  "recover_item env c covered raw s =
     (case normalizeRuntimeItemPayload (recovered_item c raw) of
        (item, renamed) \<Rightarrow>
          (if validateItem env (rc_scope c) (rc_promptWriter c) item \<noteq> None then Inl (InputError ''recover item'')
           else case recover_receipt env item (s\<lparr>vs_changed := vs_changed s \<or> renamed\<rparr>) of
             Inl err \<Rightarrow> Inl err
           | Inr s' \<Rightarrow>
              (if ri_State item = RuntimeItemRejected \<or> ri_ID item \<in> covered \<or> ri_Kind item = RuntimeItemStop
               then Inr (s'\<lparr>vs_changed := True\<rparr>)
               else if ri_State item = RuntimeItemProcessing
               then Inr (s'\<lparr>vs_changed := True, vs_items := vs_items s' @ [item\<lparr>ri_State := RuntimeItemPending\<rparr>]\<rparr>)
               else Inr (s'\<lparr>vs_items := vs_items s' @ [item]\<rparr>))))"

fun recover_items :: "input_env \<Rightarrow> RuntimeInputCoordinator \<Rightarrow> string set \<Rightarrow> RuntimeItem list \<Rightarrow> recovery_state \<Rightarrow> input_error + recovery_state" where
  "recover_items env c covered [] s = Inr s"
| "recover_items env c covered (item # items) s =
     (case recover_item env c covered item s of Inl err \<Rightarrow> Inl err | Inr s' \<Rightarrow> recover_items env c covered items s')"

definition new_coordinator :: "RuntimeInputCoordinatorConfig \<Rightarrow> string set \<Rightarrow> runtimeInputEnvelope option \<Rightarrow> RuntimeInputCoordinator" where
  "new_coordinator config deliveredIDs file =
     \<lparr>rc_scope = \<lparr>sc_SessionID = TrimUnicode (cf_SessionID config), sc_ThreadID = TrimUnicode (cf_ThreadID config),
        sc_AgentID = TrimUnicode (cf_AgentID config)\<rparr>,
      rc_path = TrimUnicode (cf_Path config), rc_revision = 0, rc_nextSequence = 0, rc_items = [], rc_admissionReceipts = [],
      rc_delivered = deliveredIDs, rc_mediaStore = cf_mediaStore config, rc_promptWriter = cf_promptWriter config,
      rc_submitting = {}, rc_recoveryPending = False, rc_notify = False, rc_goalNotify = False, rc_ledger = file\<rparr>"

definition persist_recovery :: "input_env \<Rightarrow> RuntimeInputCoordinator \<Rightarrow> input_error + RuntimeInputCoordinator" where
  "persist_recovery env c =
     (case persistLocked env (rc_items c) (rc_nextSequence c) (rc_revision c + 1) c of
        Inl err \<Rightarrow> Inl err
      | Inr c' \<Rightarrow> Inr (c'\<lparr>rc_revision := rc_revision c + 1\<rparr>))"

definition store_recovery :: "input_env \<Rightarrow> bool \<Rightarrow> bool \<Rightarrow> RuntimeInputCoordinator \<Rightarrow> input_error + RuntimeInputCoordinator" where
  "store_recovery env deferred changed c =
     (if \<not> changed then Inr c
      else if deferred then Inr (c\<lparr>rc_recoveryPending := True\<rparr>)
      else persist_recovery env c)"

definition signal_ready :: "RuntimeInputCoordinator \<Rightarrow> RuntimeInputCoordinator" where
  "signal_ready c =
     (let c1 = (if hasTransportEligiblePending (rc_items c) then signal c else c)
      in if hasPendingGoalContinuation (rc_items c) then signalGoal c1 else c1)"

definition NewRuntimeInputCoordinator ::
  "input_env \<Rightarrow> RuntimeInputCoordinatorConfig \<Rightarrow> string set \<Rightarrow> runtimeInputEnvelope option \<Rightarrow> input_error + RuntimeInputCoordinator" where
  "NewRuntimeInputCoordinator env config deliveredIDs file =
     (let c0 = new_coordinator config deliveredIDs file in
      if rc_path c0 = [] then Inr c0
      else case loadRuntimeInputEnvelope file of
        Inl err \<Rightarrow> Inl err
      | Inr envelope \<Rightarrow>
         (let c1 = c0\<lparr>rc_revision := en_Revision envelope, rc_nextSequence := en_NextSequence envelope, rc_items := en_Items envelope\<rparr> in
          case recover_receipts c1 (en_AdmissionReceipts envelope) [] of
            Inl err \<Rightarrow> Inl err
          | Inr receipts \<Rightarrow>
             (case resolveDelivered env (map ri_ID (en_Items envelope)) c1 of
                (_, Inl err) \<Rightarrow> Inl err
              | (c2, Inr covered) \<Rightarrow>
                 (case recover_items env c2 covered (en_Items envelope)
                    \<lparr>vs_receipts = receipts, vs_changed = en_Version envelope \<noteq> runtimeInputEnvelopeVersion, vs_items = []\<rparr> of
                    Inl err \<Rightarrow> Inl err
                  | Inr s \<Rightarrow>
                     map_sum (\<lambda>err. err) signal_ready (store_recovery env (cf_DeferRecoveryPersistence config) (vs_changed s)
                       (c2\<lparr>rc_items := vs_items s, rc_admissionReceipts := vs_receipts s\<rparr>))))))"

definition commitDeferredRecovery :: "input_env \<Rightarrow> RuntimeInputCoordinator \<Rightarrow> RuntimeInputCoordinator \<times> input_error option" where
  "commitDeferredRecovery env c =
     (if \<not> rc_recoveryPending c then (c, None)
      else case persist_recovery env c of Inl err \<Rightarrow> (c, Some err) | Inr c' \<Rightarrow> (c'\<lparr>rc_recoveryPending := False\<rparr>, None))"

end
