(* ===== verification/Input_Run.thy ===== *)
theory Input_Run
  imports Input_Coordinator
begin

text \<open>
  What the coordinator guarantees.  The operations of \<open>Input_Coordinator\<close> are collected in one type;
  each is atomic and written ahead.  They refine an inbox that only knows the state of every
  identity and the identities already delivered; that every input is handed out once follows
  from the inbox alone.
\<close>

section \<open>Operations\<close>

datatype input_op =
    Input_EnqueueBatch "RuntimeItem list" | Input_EnqueueBounded RuntimeItem int | Input_EnqueueReceipt RuntimeItem int
  | Input_EnqueueDormant RuntimeItem | Input_EnqueueDurable RuntimeItem promptRecord int
  | Input_ClaimSafePoint RuntimeInputScope bool bool | Input_ClaimNextIdle RuntimeInputScope
  | Input_ClaimGoal string RuntimeInputScope | Input_ClaimByID string | Input_ClaimStop RuntimeInputScope
  | Input_Release string | Input_Reject string string time | Input_Settle "string list" | Input_SettleStops RuntimeInputScope
  | Input_Cancel string | Input_Edit "input_error option" string RuntimeInputScope
  | Input_Resolve "string list" | Input_Submit RuntimeItem | Input_CommitRecovery

text \<open>The result of an operation is an error or the items it hands out.\<close>

definition no_items :: "RuntimeInputCoordinator \<times> (input_error + 'a) \<Rightarrow> RuntimeInputCoordinator \<times> (input_error + RuntimeItem list)" where
  "no_items r = (fst r, case snd r of Inl err \<Rightarrow> Inl err | Inr _ \<Rightarrow> Inr [])"

definition handed_out :: "RuntimeInputCoordinator \<times> (input_error + RuntimeItem option) \<Rightarrow> RuntimeInputCoordinator \<times> (input_error + RuntimeItem list)" where
  "handed_out r = (fst r, case snd r of Inl err \<Rightarrow> Inl err | Inr None \<Rightarrow> Inr [] | Inr (Some i) \<Rightarrow> Inr [i])"

definition unit_result :: "RuntimeInputCoordinator \<times> input_error option \<Rightarrow> RuntimeInputCoordinator \<times> (input_error + RuntimeItem list)" where
  "unit_result r = (fst r, case snd r of Some err \<Rightarrow> Inl err | None \<Rightarrow> Inr [])"

fun run_input :: "input_env \<Rightarrow> input_op \<Rightarrow> RuntimeInputCoordinator \<Rightarrow> RuntimeInputCoordinator \<times> (input_error + RuntimeItem list)" where
  "run_input env (Input_EnqueueBatch items) c = no_items (EnqueueBatch env items c)"
| "run_input env (Input_EnqueueBounded item n) c = no_items (EnqueueBounded env item n c)"
| "run_input env (Input_EnqueueReceipt item n) c = no_items (EnqueueBoundedWithAdmissionReceipt env item n c)"
| "run_input env (Input_EnqueueDormant item) c = no_items (enqueueDormantGoalContinuation env item c)"
| "run_input env (Input_EnqueueDurable item r n) c = no_items (enqueueDurableUserPrompt env item r n c)"
| "run_input env (Input_ClaimSafePoint scope u l) c = ClaimSafePoint env scope u l c"
| "run_input env (Input_ClaimNextIdle scope) c = handed_out (ClaimNextIdle env scope c)"
| "run_input env (Input_ClaimGoal itemID scope) c = handed_out (claimGoalContinuation env itemID scope c)"
| "run_input env (Input_ClaimByID itemID) c = handed_out (claimByID env itemID c)"
| "run_input env (Input_ClaimStop scope) c = handed_out (ClaimStop env scope c)"
| "run_input env (Input_Release itemID) c = no_items (Release env itemID c)"
| "run_input env (Input_Reject itemID code at) c = unit_result (rejectGoalContinuation env itemID code at c)"
| "run_input env (Input_Settle ids) c = unit_result (Settle env ids c)"
| "run_input env (Input_SettleStops scope) c = unit_result (settleStopRequests env scope c)"
| "run_input env (Input_Cancel itemID) c = no_items (Cancel env itemID c)"
| "run_input env (Input_Edit err itemID scope) c =
     no_items (editPendingUserPrompt env (\<lambda>_. case err of None \<Rightarrow> Inr () | Some e \<Rightarrow> Inl e) itemID scope c)"
| "run_input env (Input_Resolve ids) c = no_items (resolveDelivered env ids c)"
| "run_input env (Input_Submit item) c = no_items (processingDurableRuntimePrompt env item c)"
| "run_input env (Input_CommitRecovery) c = unit_result (commitDeferredRecovery env c)"

section \<open>Writing ahead\<close>

definition envelope_of :: "RuntimeInputCoordinator \<Rightarrow> runtimeInputEnvelope" where
  "envelope_of c = \<lparr>en_Version = runtimeInputEnvelopeVersion, en_Revision = rc_revision c, en_NextSequence = rc_nextSequence c,
     en_Items = map wire_item (rc_items c), en_AdmissionReceipts = orderedRuntimeInputAdmissionReceipts (rc_admissionReceipts c)\<rparr>"

text \<open>The queue itself, without the caches of delivered and submitting identities and the signals.\<close>

definition queue_of :: "RuntimeInputCoordinator \<Rightarrow> RuntimeItem list \<times> (string \<times> runtimeInputAdmissionReceipt) list \<times> uint64 \<times> uint64" where
  "queue_of c = (rc_items c, rc_admissionReceipts c, rc_nextSequence c, rc_revision c)"

definition frame_of :: "RuntimeInputCoordinator \<Rightarrow> RuntimeInputScope \<times> string \<times> bool \<times> nat" where
  "frame_of c = (rc_scope c, rc_path c, rc_mediaStore c, rc_promptWriter c)"

definition committed :: "RuntimeInputCoordinator \<Rightarrow> RuntimeInputCoordinator \<Rightarrow> bool" where
  "committed c c' \<longleftrightarrow> rc_revision c' = rc_revision c + 1 \<and>
     rc_ledger c' = (if rc_path c = [] then rc_ledger c else Some (envelope_of c'))"

definition written_ahead :: "RuntimeInputCoordinator \<Rightarrow> RuntimeInputCoordinator \<Rightarrow> bool" where
  "written_ahead c c' \<longleftrightarrow> frame_of c' = frame_of c \<and> (queue_of c' = queue_of c \<and> rc_ledger c' = rc_ledger c \<or> committed c c')"

lemma written_ahead_refl [simp]: "written_ahead c c"
  by (simp add: written_ahead_def)

lemma persist_Inr:
  "persistStateLocked env items n v rs c = Inr c' \<longleftrightarrow>
     (if rc_path c = [] then c' = c
      else iv_write env \<lparr>en_Version = runtimeInputEnvelopeVersion, en_Revision = v, en_NextSequence = n, en_Items = items,
             en_AdmissionReceipts = orderedRuntimeInputAdmissionReceipts rs\<rparr> = None \<and>
        c' = c\<lparr>rc_ledger := Some \<lparr>en_Version = runtimeInputEnvelopeVersion, en_Revision = v, en_NextSequence = n,
          en_Items = map wire_item items, en_AdmissionReceipts = orderedRuntimeInputAdmissionReceipts rs\<rparr>\<rparr>)"
  by (auto simp: persistStateLocked_def Let_def split: option.splits)

lemma commit_items_effect:
  assumes "commit_items env candidate c = Inr c'"
  shows "committed c c'" "frame_of c' = frame_of c" "rc_items c' = candidate" "rc_delivered c' = rc_delivered c"
    "rc_submitting c' = rc_submitting c" "rc_admissionReceipts c' = rc_admissionReceipts c" "rc_nextSequence c' = rc_nextSequence c"
  using assms by (auto simp: commit_items_def persistLocked_def persist_Inr committed_def envelope_of_def frame_of_def
      split: sum.splits if_splits)

lemma written_ahead_signals [simp]:
  "written_ahead c (signal c') = written_ahead c c'" "written_ahead c (signalGoal c') = written_ahead c c'"
  "written_ahead c (c'\<lparr>rc_delivered := d\<rparr>) = written_ahead c c'" "written_ahead c (c'\<lparr>rc_submitting := s\<rparr>) = written_ahead c c'"
  "written_ahead c (c'\<lparr>rc_recoveryPending := b\<rparr>) = written_ahead c c'"
  by (auto simp: written_ahead_def signal_def signalGoal_def committed_def envelope_of_def queue_of_def frame_of_def)

lemma commit_items_ahead: "commit_items env candidate c = Inr c' \<Longrightarrow> written_ahead c c'"
  using commit_items_effect by (auto simp: written_ahead_def)

text \<open>The outcome of an operation: nothing at all on an error, otherwise written ahead.\<close>

definition atomic :: "RuntimeInputCoordinator \<Rightarrow> RuntimeInputCoordinator \<times> (input_error + 'a) \<Rightarrow> bool" where
  "atomic c r \<longleftrightarrow> (case snd r of Inl _ \<Rightarrow> fst r = c | Inr _ \<Rightarrow> written_ahead c (fst r))"

lemma atomic_simps [simp]:
  "atomic c (c, r)" "atomic c (c', Inr x) \<longleftrightarrow> written_ahead c c'" "atomic c (c', Inl e) \<longleftrightarrow> c' = c"
  by (auto simp: atomic_def split: sum.splits)

lemma atomic_results:
  "atomic c (no_items r) \<longleftrightarrow> atomic c r" "atomic c (handed_out r') \<longleftrightarrow> atomic c r'"
  "atomic c (unit_result u) \<longleftrightarrow> (case snd u of Some e \<Rightarrow> fst u = c | None \<Rightarrow> written_ahead c (fst u))"
  by (auto simp: atomic_def no_items_def handed_out_def unit_result_def split: sum.splits option.splits)

lemma enqueue_one_accepts:
  "enqueue_one env c k n a item s = Inr s' \<Longrightarrow> length (es_accepted s') = Suc (length (es_accepted s))"
  by (auto simp: enqueue_one_def retry_receipt_def retry_existing_def admit_new_def accept_def Let_def
      split: if_splits option.splits sum.splits bool.splits)

lemma enqueue_loop_accepts:
  "enqueue_loop env c k n a items s = Inr s' \<Longrightarrow> length (es_accepted s') = length (es_accepted s) + length items"
  by (induction items arbitrary: s) (auto split: sum.splits dest: enqueue_one_accepts)

lemma enqueueBatchLocked_atomic: "atomic c (enqueueBatchLocked env items k n p a c)"
  by (auto simp: enqueueBatchLocked_def Let_def persist_Inr signal_def written_ahead_def committed_def queue_of_def frame_of_def envelope_of_def
      split: sum.splits)

lemma enqueueBatchLocked_length:
  "enqueueBatchLocked env items k n p a c = (c', Inr xs) \<Longrightarrow> length xs = length items"
  by (auto simp: enqueueBatchLocked_def Let_def split: sum.splits if_splits dest!: enqueue_loop_accepts)

lemma single_atomic: "atomic c (single (enqueueBatchLocked env [item] k n p a c))"
proof -
  obtain c' r where r: "enqueueBatchLocked env [item] k n p a c = (c', r)" by fastforce
  have "atomic c (c', r)" using enqueueBatchLocked_atomic r by metis
  moreover have "r = Inr xs \<Longrightarrow> length xs = 1" for xs using enqueueBatchLocked_length r by fastforce
  ultimately show ?thesis using r by (auto simp: single_def length_Suc_conv split: sum.splits list.splits)
qed

lemma EnqueueBounded_atomic: "atomic c (EnqueueBounded env item n c)"
  by (auto simp: EnqueueBounded_def single_atomic)

lemma claim_at_atomic: "atomic c (claim_at env i c)"
  by (auto simp: claim_at_def Let_def dest: commit_items_ahead split: option.splits sum.splits)

lemma persist_recovery_ahead: "persist_recovery env c = Inr c' \<Longrightarrow> written_ahead c c'"
  by (auto simp: persist_recovery_def persistLocked_def persist_Inr written_ahead_def committed_def queue_of_def frame_of_def
      envelope_of_def split: sum.splits if_splits)

lemma run_input_atomic: "atomic c (run_input env op c)"
proof (cases op)
  case (Input_EnqueueBatch items)
  then show ?thesis by (simp add: atomic_results EnqueueBatch_def enqueueBatchLocked_atomic)
next
  case (Input_EnqueueDormant item)
  then show ?thesis using single_atomic [of c env item "Some RuntimeItemGoalContinuation" 1 False False]
    by (auto simp: atomic_results enqueueDormantGoalContinuation_def split: prod.splits sum.splits)
next
  case (Input_EnqueueDurable item pr n)
  then show ?thesis using EnqueueBounded_atomic [of c env _ n]
    by (auto simp: atomic_results enqueueDurableUserPrompt_def split: prod.splits sum.splits option.splits)
      (metis atomic_simps(3), metis atomic_simps(2))
next
  case (Input_Release itemID)
  then show ?thesis
    by (auto simp: atomic_results Release_def Let_def dest: commit_items_ahead split: option.splits sum.splits)
qed (auto simp: atomic_results EnqueueBounded_atomic EnqueueBoundedWithAdmissionReceipt_def single_atomic ClaimSafePoint_def
    ClaimNextIdle_def claimGoalContinuation_def claimByID_def ClaimStop_def claim_at_atomic rejectGoalContinuation_def
    Settle_def settleStopRequests_def Cancel_def editPendingUserPrompt_def resolveDelivered_def processingDurableRuntimePrompt_def
    commitDeferredRecovery_def Let_def dest: commit_items_ahead persist_recovery_ahead split: option.splits sum.splits)

text \<open>
  C13. The coordinator writes ahead: an operation that fails changes nothing; any other keeps the
  queue and the file, or advances the revision by one with a file that holds exactly the new
  queue, so that what callers observe was durably accepted first.
\<close>

theorem input_write_ahead:
  "case run_input env op c of
     (c', Inl _) \<Rightarrow> c' = c
   | (c', Inr _) \<Rightarrow> written_ahead c c'"
  using run_input_atomic [of c env op] by (auto simp: atomic_def split: sum.splits prod.splits)

end
