(* ===== verification/Input_Inbox.thy ===== *)
theory Input_Inbox
  imports Input_Run
begin

text \<open>
  The inbox the coordinator implements.  An inbox knows for every identity whether its input is
  pending, processing or rejected, and which identities were delivered.  Every operation of the
  coordinator is one event of the inbox; that no input is handed out twice, and none again after
  it was settled, is shown of the inbox and carried over.
\<close>

section \<open>The abstract inbox\<close>

record inbox =
  ib_status :: "string \<rightharpoonup> RuntimeItemState"
  ib_delivered :: "string set"

datatype inbox_event =
    Inbox_Quiet | Inbox_Accept "string list" | Inbox_Claim "string list" | Inbox_Release string | Inbox_Reject string
  | Inbox_Withdraw string | Inbox_Settle "string set" | Inbox_Learn "string set"

inductive inbox_step :: "inbox \<Rightarrow> inbox_event \<Rightarrow> inbox \<Rightarrow> bool" where
  quiet: "inbox_step b Inbox_Quiet b"
| accept: "distinct ids \<Longrightarrow> set ids \<inter> (dom (ib_status b) \<union> ib_delivered b) = {} \<Longrightarrow>
    inbox_step b (Inbox_Accept ids) (b\<lparr>ib_status := (\<lambda>x. if x \<in> set ids then Some RuntimeItemPending else ib_status b x)\<rparr>)"
| claim: "distinct ids \<Longrightarrow> \<forall>x\<in>set ids. ib_status b x = Some RuntimeItemPending \<Longrightarrow>
    inbox_step b (Inbox_Claim ids) (b\<lparr>ib_status := (\<lambda>x. if x \<in> set ids then Some RuntimeItemProcessing else ib_status b x)\<rparr>)"
| release: "ib_status b x = Some RuntimeItemProcessing \<Longrightarrow>
    inbox_step b (Inbox_Release x) (b\<lparr>ib_status := (ib_status b)(x \<mapsto> RuntimeItemPending)\<rparr>)"
| reject: "ib_status b x = Some RuntimeItemPending \<or> ib_status b x = Some RuntimeItemProcessing \<Longrightarrow>
    inbox_step b (Inbox_Reject x) (b\<lparr>ib_status := (ib_status b)(x \<mapsto> RuntimeItemRejected)\<rparr>)"
| withdraw: "ib_status b x = Some RuntimeItemPending \<Longrightarrow>
    inbox_step b (Inbox_Withdraw x) (b\<lparr>ib_status := (ib_status b)(x := None)\<rparr>)"
| settle: "inbox_step b (Inbox_Settle S) (b\<lparr>ib_status := (\<lambda>x. if x \<in> S then None else ib_status b x), ib_delivered := ib_delivered b \<union> S\<rparr>)"
| learn: "inbox_step b (Inbox_Learn S) (b\<lparr>ib_delivered := ib_delivered b \<union> S\<rparr>)"

inductive_cases inbox_stepE: "inbox_step b ev b'"

definition claims :: "inbox_event \<Rightarrow> string list" where
  "claims ev = (case ev of Inbox_Claim ids \<Rightarrow> ids | _ \<Rightarrow> [])"

definition is_release :: "inbox_event \<Rightarrow> bool" where
  "is_release ev = (case ev of Inbox_Release _ \<Rightarrow> True | _ \<Rightarrow> False)"

inductive inbox_run :: "inbox \<Rightarrow> inbox_event list \<Rightarrow> inbox \<Rightarrow> bool" where
  Nil: "inbox_run b [] b"
| Cons: "inbox_step b ev b1 \<Longrightarrow> inbox_run b1 evs b' \<Longrightarrow> inbox_run b (ev # evs) b'"

text \<open>Identities that were handed out: not pending, and gone only when delivered.\<close>

definition taken :: "string set \<Rightarrow> inbox \<Rightarrow> bool" where
  "taken X b \<longleftrightarrow> (\<forall>x\<in>X. ib_status b x \<noteq> Some RuntimeItemPending \<and> (ib_status b x = None \<longrightarrow> x \<in> ib_delivered b))"

lemma taken_step:
  assumes "inbox_step b ev b'" "taken X b" "\<not> is_release ev"
  shows "taken (X \<union> set (claims ev)) b' \<and> distinct (claims ev) \<and> set (claims ev) \<inter> X = {}"
  using assms by (cases rule: inbox_step.cases) (auto simp: taken_def claims_def is_release_def dom_def)

lemma inbox_claims_once:
  assumes "inbox_run b evs b'" "taken X b" "\<forall>ev\<in>set evs. \<not> is_release ev"
  shows "distinct (concat (map claims evs)) \<and> set (concat (map claims evs)) \<inter> X = {}"
  using assms
proof (induction arbitrary: X)
  case (Cons b ev b1 evs b')
  have s: "taken (X \<union> set (claims ev)) b1" "distinct (claims ev)" "set (claims ev) \<inter> X = {}"
    using taken_step [OF Cons.hyps(1) Cons.prems(1)] Cons.prems(2) by auto
  then show ?case using Cons.IH [OF s(1)] Cons.prems(2) by auto
qed simp

section \<open>The coordinator as an inbox\<close>

definition status_of :: "RuntimeItem list \<Rightarrow> string \<rightharpoonup> RuntimeItemState" where
  "status_of items = map_of (map (\<lambda>i. (ri_ID i, ri_State i)) items)"

definition inbox_of :: "RuntimeInputCoordinator \<Rightarrow> inbox" where
  "inbox_of c = \<lparr>ib_status = status_of (rc_items c), ib_delivered = rc_delivered c\<rparr>"

definition canonical :: "string \<Rightarrow> bool" where
  "canonical x \<longleftrightarrow> x \<noteq> [] \<and> TrimUnicode x = x"

definition queue_ok :: "RuntimeInputCoordinator \<Rightarrow> bool" where
  "queue_ok c \<longleftrightarrow> distinct (map ri_ID (rc_items c)) \<and> (\<forall>i\<in>set (rc_items c). canonical (ri_ID i))"

lemma status_of_Some:
  "distinct (map ri_ID items) \<Longrightarrow> status_of items x = Some s \<longleftrightarrow> (\<exists>i\<in>set items. ri_ID i = x \<and> ri_State i = s)"
  unfolding status_of_def by (subst map_of_eq_Some_iff) (auto simp: o_def)

lemma status_of_None: "status_of items x = None \<longleftrightarrow> x \<notin> ri_ID ` set items"
  by (auto simp: status_of_def map_of_eq_None_iff image_image)

lemma status_of_eq_Some: "status_of items x = Some s \<Longrightarrow> x \<in> ri_ID ` set items"
  using status_of_None [of items x] by auto

lemma status_of_mem: "distinct (map ri_ID items) \<Longrightarrow> i \<in> set items \<Longrightarrow> status_of items (ri_ID i) = Some (ri_State i)"
  by (subst status_of_Some) auto

lemma status_of_nth: "distinct (map ri_ID items) \<Longrightarrow> i < length items \<Longrightarrow> status_of items (ri_ID (items ! i)) = Some (ri_State (items ! i))"
  by (subst status_of_Some) auto

lemma mark_ids [simp]: "map ri_ID (mark st i items) = map ri_ID items"
  by (simp add: mark_def map_update list_update_same_conv [symmetric] del: list_update_same_conv)
     (metis list_update_beyond list_update_id map_update nth_map not_le)

lemma status_mark:
  assumes "distinct (map ri_ID items)" "i < length items"
  shows "status_of (mark st i items) = (status_of items)(ri_ID (items ! i) \<mapsto> st)"
  using assms
proof (induction items arbitrary: i)
  case (Cons a items)
  show ?case
  proof (cases i)
    case (Suc n)
    then have "ri_ID a \<noteq> ri_ID (items ! n)" using Cons.prems by (metis distinct.simps(2) length_Cons length_map list.simps(9) nth_map nth_mem Suc_less_eq)
    then show ?thesis using Cons Suc by (auto simp: mark_def status_of_def)
  qed (auto simp: mark_def status_of_def)
qed simp

lemma status_filter:
  assumes "distinct (map ri_ID items)"
  shows "status_of (filter P items) x = (if \<exists>i\<in>set items. ri_ID i = x \<and> P i then status_of items x else None)"
proof -
  have inj: "i \<in> set items \<Longrightarrow> j \<in> set items \<Longrightarrow> ri_ID i = ri_ID j \<Longrightarrow> i = j" for i j
    using assms by (auto simp: distinct_map inj_on_def)
  have "status_of (filter P items) x = Some s \<longleftrightarrow>
      (if \<exists>i\<in>set items. ri_ID i = x \<and> P i then status_of items x else None) = Some s" for s
    using status_of_Some [OF assms] status_of_Some [OF distinct_map_filter [OF assms], of P] inj
    by auto (metis inj)
  then show ?thesis by (metis option.exhaust)
qed

lemma status_append:
  "status_of (items @ news) x = (case status_of items x of None \<Rightarrow> status_of news x | Some s \<Rightarrow> Some s)"
  by (simp add: status_of_def map_add_def split: option.splits)

section \<open>Selections\<close>

lemma first_indexD: "first_index f items = Some i \<Longrightarrow> i < length items \<and> f (items ! i)"
  by (auto simp: first_index_def find_Some_iff)

lemma last_indexD: "last_index f items = Some i \<Longrightarrow> i < length items \<and> f (items ! i)"
  by (auto simp: last_index_def find_Some_iff rev_nth)

text \<open>What the loop over the items keeps: an eligible index that no eligible one before it beats.\<close>

lemma pick_index_loop:
  fixes better :: "RuntimeItem \<Rightarrow> RuntimeItem \<Rightarrow> bool"
  assumes "\<And>a b. better a b \<longleftrightarrow> key a < (key b :: 'k :: linorder)" "n \<le> length items"
  shows "case fold (\<lambda>i best. if \<not> eligible (items ! i) then best
      else case best of None \<Rightarrow> Some i | Some b \<Rightarrow> if better (items ! i) (items ! b) then Some i else best) [0..<n] None of
    None \<Rightarrow> \<forall>i<n. \<not> eligible (items ! i)
  | Some b \<Rightarrow> b < n \<and> eligible (items ! b) \<and> (\<forall>i<n. eligible (items ! i) \<longrightarrow> key (items ! b) \<le> key (items ! i))"
  using assms(2)
proof (induction n)
  case (Suc n)
  then show ?case by (auto simp: assms(1) less_Suc_eq split: option.splits if_splits)
qed simp

lemma pick_indexD:
  assumes "\<And>a b. better a b \<longleftrightarrow> key a < (key b :: 'k :: linorder)" "pick_index eligible better items = r"
  shows "case r of None \<Rightarrow> \<forall>i\<in>set items. \<not> eligible i
    | Some b \<Rightarrow> b < length items \<and> eligible (items ! b) \<and> (\<forall>i\<in>set items. eligible i \<longrightarrow> key (items ! b) \<le> key i)"
  using pick_index_loop [where better = better and key = key and n = "length items" and items = items and eligible = eligible,
      OF assms(1)] assms(2)
  by (auto simp: pick_index_def in_set_conv_nth split: option.splits)

section \<open>Simulation\<close>

text \<open>One operation as one event.\<close>

definition simulated :: "RuntimeInputCoordinator \<Rightarrow> inbox_event \<Rightarrow> RuntimeInputCoordinator \<Rightarrow> bool" where
  "simulated c ev c' \<longleftrightarrow> queue_ok c' \<and> inbox_step (inbox_of c) ev (inbox_of c')"

text \<open>An operation that releases nothing and hands out the given identities.\<close>

definition simulated_by :: "RuntimeInputCoordinator \<Rightarrow> string list \<Rightarrow> RuntimeInputCoordinator \<Rightarrow> bool" where
  "simulated_by c ids c' \<longleftrightarrow> (\<exists>ev. simulated c ev c' \<and> claims ev = ids \<and> \<not> is_release ev)"

lemma simulated_byI: "simulated c ev c' \<Longrightarrow> claims ev = ids \<Longrightarrow> \<not> is_release ev \<Longrightarrow> simulated_by c ids c'"
  by (auto simp: simulated_by_def)

lemma simulated_quiet:
  assumes "queue_ok c" "rc_items c' = rc_items c" "rc_delivered c' = rc_delivered c"
  shows "simulated c Inbox_Quiet c'"
  using assms by (auto simp: simulated_def queue_ok_def inbox_of_def intro: inbox_step.quiet)

lemma simulated_by_quiet: "queue_ok c \<Longrightarrow> rc_items c' = rc_items c \<Longrightarrow> rc_delivered c' = rc_delivered c \<Longrightarrow> simulated_by c [] c'"
  using simulated_quiet [of c c'] by (auto simp: claims_def is_release_def intro: simulated_byI)

lemma simulated_mark:
  assumes "queue_ok c" "i < length (rc_items c)" "rc_items c' = mark st i (rc_items c)" "rc_delivered c' = rc_delivered c"
  shows "queue_ok c'"
    "inbox_of c' = (inbox_of c)\<lparr>ib_status := (ib_status (inbox_of c))(ri_ID (rc_items c ! i) \<mapsto> st)\<rparr>"
    "ib_status (inbox_of c) (ri_ID (rc_items c ! i)) = Some (ri_State (rc_items c ! i))"
proof -
  have "ri_ID ` set (rc_items c') = ri_ID ` set (rc_items c)" using mark_ids assms(3) by (metis list.set_map)
  then have "\<forall>x\<in>ri_ID ` set (rc_items c'). canonical x" using assms(1) by (auto simp: queue_ok_def)
  then show "queue_ok c'" using assms(1,3) by (simp add: queue_ok_def)
qed (use assms in \<open>auto simp: queue_ok_def inbox_of_def status_mark status_of_nth\<close>)

lemma materialize_ID: "materializeRuntimePrompt env c item = Inr m \<Longrightarrow> ri_ID m = ri_ID item"
  by (auto simp: materializeRuntimePrompt_def split: option.splits if_splits)

lemma mark_nth: "i < length items \<Longrightarrow> mark st i items ! i = (items ! i)\<lparr>ri_State := st\<rparr>"
  by (simp add: mark_def)

lemma claim_one:
  assumes "queue_ok c" "i < length (rc_items c)" "ri_State (rc_items c ! i) = RuntimeItemPending"
    "rc_items c' = mark RuntimeItemProcessing i (rc_items c)" "rc_delivered c' = rc_delivered c"
  shows "simulated c (Inbox_Claim [ri_ID (rc_items c ! i)]) c'"
proof -
  note m = simulated_mark [OF assms(1,2,4,5)]
  have "inbox_step (inbox_of c) (Inbox_Claim [ri_ID (rc_items c ! i)])
    ((inbox_of c)\<lparr>ib_status := (\<lambda>x. if x \<in> set [ri_ID (rc_items c ! i)] then Some RuntimeItemProcessing else ib_status (inbox_of c) x)\<rparr>)"
    by (rule inbox_step.claim) (use m(3) assms(3) in auto)
  then show ?thesis using m(1,2) by (simp add: simulated_def fun_upd_def)
qed

lemma claim_at_simulated:
  assumes "queue_ok c" "claim_at env idx c = (c', Inr r)"
    and "\<And>i. idx = Some i \<Longrightarrow> i < length (rc_items c) \<and> ri_State (rc_items c ! i) = RuntimeItemPending"
  shows "simulated_by c (map ri_ID (case r of None \<Rightarrow> [] | Some m \<Rightarrow> [m])) c'"
proof (cases idx)
  case None
  then show ?thesis using assms simulated_by_quiet [of c c]
    by (auto simp: claim_at_def claims_def is_release_def)
next
  case (Some i)
  note i = assms(3) [OF Some]
  obtain m where m: "materializeRuntimePrompt env c (mark RuntimeItemProcessing i (rc_items c) ! i) = Inr m"
    "commit_items env (mark RuntimeItemProcessing i (rc_items c)) c = Inr c'" "r = Some m"
    using assms(2) Some by (auto simp: claim_at_def Let_def split: sum.splits)
  then have "ri_ID m = ri_ID (rc_items c ! i)" using materialize_ID [OF m(1)] i by (simp add: mark_nth)
  moreover have "simulated c (Inbox_Claim [ri_ID (rc_items c ! i)]) c'"
    using claim_one assms(1) i commit_items_effect [OF m(2)] by blast
  ultimately show ?thesis using m(3) by (auto simp: claims_def is_release_def intro: simulated_byI)
qed

lemma mark_ID_nth [simp]: "j < length items \<Longrightarrow> ri_ID (mark st i items ! j) = ri_ID (items ! j)"
  by (cases "i = j") (simp_all add: mark_def)

lemma length_mark [simp]: "length (mark st i items) = length items"
  by (simp add: mark_def)

lemma claim_loop_effect:
  assumes "claim_loop env c is items = Inr (ys, ms)" "distinct (map ri_ID items)" "\<forall>i\<in>set is. i < length items"
  shows "map ri_ID ys = map ri_ID items \<and> map ri_ID ms = map (\<lambda>i. ri_ID (items ! i)) is \<and>
    status_of ys = (\<lambda>x. if x \<in> set (map (\<lambda>i. ri_ID (items ! i)) is) then Some RuntimeItemProcessing else status_of items x)"
  using assms
proof (induction "is" arbitrary: items ys ms)
  case (Cons i "is")
  let ?items = "mark RuntimeItemProcessing i items"
  obtain m ms' where r: "materializeRuntimePrompt env c (?items ! i) = Inr m" "claim_loop env c is ?items = Inr (ys, ms')" "ms = m # ms'"
    using Cons.prems(1) by (auto simp: Let_def split: sum.splits)
  have "ri_ID m = ri_ID (items ! i)" using materialize_ID [OF r(1)] Cons.prems(3) by simp
  moreover have "map (\<lambda>i. ri_ID (?items ! i)) is = map (\<lambda>i. ri_ID (items ! i)) is" using Cons.prems(3) by simp
  ultimately show ?case using Cons.IH [OF r(2)] Cons.prems(2,3) r(3) by (auto simp: status_mark)
qed simp

lemma ids_distinct:
  assumes "distinct (map ri_ID items)" "distinct is" "\<forall>i\<in>set is. i < length items"
  shows "distinct (map (\<lambda>i. ri_ID (items ! i)) is)"
  using assms nth_eq_iff_index_eq [OF assms(1)] by (auto simp: distinct_map inj_on_def)

lemma queue_ok_ids:
  "queue_ok c \<Longrightarrow> map ri_ID (rc_items c') = map ri_ID (rc_items c) \<Longrightarrow> queue_ok c'"
  unfolding queue_ok_def by (metis (mono_tags, lifting) image_iff list.set_map)

lemma ClaimSafePoint_simulated:
  assumes "queue_ok c" "ClaimSafePoint env scope u l c = (c', Inr xs)"
  shows "simulated_by c (map ri_ID xs) c'"
proof -
  define idx where "idx = sort_key (\<lambda>i. schedule_key (rc_items c ! i))
    (filter (\<lambda>i. safe_point_eligible c scope u l (rc_items c ! i)) [0..<length (rc_items c)])"
  consider (none) "xs = []" "c' = c"
    | (some) ys where "claim_loop env c idx (rc_items c) = Inr (ys, xs)" "commit_items env ys c = Inr c'"
    using assms(2) by (auto simp: ClaimSafePoint_def Let_def idx_def split: if_splits sum.splits)
  then show ?thesis
  proof cases
    case none
    then show ?thesis using assms(1) simulated_by_quiet [of c c]
      by (auto simp: claims_def is_release_def)
  next
    case some
    let ?ids = "map (\<lambda>i. ri_ID (rc_items c ! i)) idx"
    have d: "distinct (map ri_ID (rc_items c))" using assms(1) by (simp add: queue_ok_def)
    have i: "\<forall>i\<in>set idx. i < length (rc_items c) \<and> ri_State (rc_items c ! i) = RuntimeItemPending" "distinct idx"
      by (auto simp: idx_def safe_point_eligible_def)
    note l = claim_loop_effect [OF some(1) d] and e = commit_items_effect [OF some(2)]
    have "inbox_step (inbox_of c) (Inbox_Claim ?ids)
      ((inbox_of c)\<lparr>ib_status := (\<lambda>x. if x \<in> set ?ids then Some RuntimeItemProcessing else ib_status (inbox_of c) x)\<rparr>)"
      by (rule inbox_step.claim) (use i d ids_distinct in \<open>auto simp: inbox_of_def status_of_nth\<close>)
    moreover have "inbox_of c' =
      (inbox_of c)\<lparr>ib_status := (\<lambda>x. if x \<in> set ?ids then Some RuntimeItemProcessing else ib_status (inbox_of c) x)\<rparr>"
      using l i e by (auto simp: inbox_of_def fun_eq_iff)
    ultimately have "simulated c (Inbox_Claim ?ids) c'"
      using l i e queue_ok_ids [OF assms(1), of c'] by (simp add: simulated_def)
    then show ?thesis using l i by (auto simp: claims_def is_release_def intro: simulated_byI)
  qed
qed

subsection \<open>Enqueueing\<close>

lemma prepare_item_ID: "ri_ID (prepare_item c item) = TrimUnicode (ri_ID item)"
  by (auto simp: prepare_item_def normalizeRuntimeItemPayload_def Let_def split: option.splits)

lemma canonical_TrimUnicode: "TrimUnicode x \<noteq> [] \<Longrightarrow> canonical (TrimUnicode x)"
  by (simp add: canonical_def TrimUnicode_iff utrimmed_TrimUnicode)

lemma accept_candidate [simp]: "es_candidate (accept i s) = es_candidate s"
  by (simp add: accept_def)

lemma retry_candidate:
  "retry_receipt env c r item s = Inr s' \<Longrightarrow> es_candidate s' = es_candidate s"
  "retry_existing env a existing item s = Inr s' \<Longrightarrow> es_candidate s' = es_candidate s"
  by (auto simp: retry_receipt_def retry_existing_def Let_def split: if_splits option.splits sum.splits bool.splits)

lemma admit_new_candidate:
  assumes "admit_new env c a item s = Inr s'"
  obtains i where "es_candidate s' = es_candidate s @ [i]" "ri_State i = RuntimeItemPending" "ri_ID i = ri_ID item"
proof -
  let ?i = "item\<lparr>ri_Sequence := es_nextSequence s + 1,
    ri_EnqueuedAt := (if ri_EnqueuedAt item = 0 then iv_now env else ri_EnqueuedAt item), ri_State := RuntimeItemPending\<rparr>"
  have "es_candidate s' = es_candidate s @ [?i]"
    using assms by (auto simp: admit_new_def Let_def split: if_splits option.splits sum.splits)
  then show ?thesis using that [of ?i] by simp
qed

lemma enqueue_one_candidate:
  assumes "enqueue_one env c k n a raw s = Inr s'"
  shows "es_candidate s' = es_candidate s \<or>
    (\<exists>i. es_candidate s' = es_candidate s @ [i] \<and> ri_State i = RuntimeItemPending \<and> canonical (ri_ID i) \<and>
       ri_ID i \<notin> rc_delivered c \<and> ri_ID i \<notin> ri_ID ` set (es_candidate s))"
proof -
  let ?item = "prepare_item c raw"
  have ne: "TrimUnicode (ri_ID raw) \<noteq> []" using assms by (auto simp: enqueue_one_def)
  consider (same) "es_candidate s' = es_candidate s"
    | (new) "admit_new env c a ?item s = Inr s'" "ri_ID ?item \<notin> rc_delivered c" "runtimeItemByID (es_candidate s) (ri_ID ?item) = None"
    using assms unfolding enqueue_one_def Let_def
    by (auto split: if_splits option.splits sum.splits dest: retry_candidate)
  then show ?thesis
  proof cases
    case new
    obtain i where "es_candidate s' = es_candidate s @ [i]" "ri_State i = RuntimeItemPending" "ri_ID i = ri_ID ?item"
      using admit_new_candidate [OF new(1)] .
    then show ?thesis using new(2,3) canonical_TrimUnicode [OF ne]
      by (auto simp: prepare_item_ID runtimeItemByID_def find_None_iff)
  qed simp
qed

lemma enqueue_loop_candidate:
  assumes "enqueue_loop env c k n a items s = Inr s'" "distinct (map ri_ID (es_candidate s))"
  shows "\<exists>news. es_candidate s' = es_candidate s @ news \<and> distinct (map ri_ID (es_candidate s')) \<and>
    (\<forall>i\<in>set news. ri_State i = RuntimeItemPending \<and> canonical (ri_ID i) \<and> ri_ID i \<notin> rc_delivered c)"
  using assms
proof (induction items arbitrary: s)
  case (Cons item items)
  obtain s1 where s1: "enqueue_one env c k n a item s = Inr s1" "enqueue_loop env c k n a items s1 = Inr s'"
    using Cons.prems(1) by (auto split: sum.splits)
  have "distinct (map ri_ID (es_candidate s1))" using enqueue_one_candidate [OF s1(1)] Cons.prems(2) by auto
  from Cons.IH [OF s1(2) this] show ?case using enqueue_one_candidate [OF s1(1)] by auto
qed simp

lemma status_of_pending:
  "\<forall>i\<in>set news. ri_State i = RuntimeItemPending \<Longrightarrow>
   status_of news x = (if x \<in> ri_ID ` set news then Some RuntimeItemPending else None)"
  by (induction news) (auto simp: status_of_def)

lemma enqueueBatchLocked_simulated:
  assumes "queue_ok c" "enqueueBatchLocked env items k n p a c = (c', Inr xs)"
  shows "simulated_by c [] c'"
proof -
  let ?s = "\<lparr>es_candidate = rc_items c, es_receipts = rc_admissionReceipts c, es_nextSequence = rc_nextSequence c,
    es_accepted = [], es_changed = False\<rparr>"
  obtain s where s: "enqueue_loop env c k n a items ?s = Inr s"
    "c' = c \<or> rc_items c' = es_candidate s \<and> rc_delivered c' = rc_delivered c"
    using assms(2) by (auto simp: enqueueBatchLocked_def Let_def persist_Inr signal_def split: sum.splits if_splits)
  obtain news where news: "es_candidate s = rc_items c @ news" "distinct (map ri_ID (rc_items c @ news))"
    "\<forall>i\<in>set news. ri_State i = RuntimeItemPending \<and> canonical (ri_ID i) \<and> ri_ID i \<notin> rc_delivered c"
    using enqueue_loop_candidate [OF s(1)] assms(1) by (auto simp: queue_ok_def)
  from s(2) show ?thesis
  proof
    assume "c' = c"
    then show ?thesis using assms(1) simulated_by_quiet [of c c]
      by (auto simp: claims_def is_release_def)
  next
    assume c': "rc_items c' = es_candidate s \<and> rc_delivered c' = rc_delivered c"
    have "inbox_step (inbox_of c) (Inbox_Accept (map ri_ID news)) ((inbox_of c)\<lparr>ib_status :=
        (\<lambda>x. if x \<in> set (map ri_ID news) then Some RuntimeItemPending else ib_status (inbox_of c) x)\<rparr>)"
      by (rule inbox_step.accept) (use news in \<open>auto simp: inbox_of_def dom_def dest!: status_of_eq_Some\<close>)
    moreover have "inbox_of c' = (inbox_of c)\<lparr>ib_status :=
        (\<lambda>x. if x \<in> set (map ri_ID news) then Some RuntimeItemPending else ib_status (inbox_of c) x)\<rparr>"
      using c' news by (auto simp: inbox_of_def status_append status_of_pending fun_eq_iff split: option.splits dest!: status_of_eq_Some)
    moreover have "queue_ok c'" using assms(1) c' news by (auto simp: queue_ok_def)
    ultimately have "simulated c (Inbox_Accept (map ri_ID news)) c'" by (simp add: simulated_def)
    then show ?thesis by (auto simp: claims_def is_release_def intro: simulated_byI)
  qed
qed

subsection \<open>Removing\<close>

lemma queue_ok_filter: "queue_ok c \<Longrightarrow> rc_items c' = filter P (rc_items c) \<Longrightarrow> queue_ok c'"
  by (auto simp: queue_ok_def distinct_map_filter)

lemma filter_other: "x \<notin> ri_ID ` set items \<Longrightarrow> filter (\<lambda>y. ri_ID y \<noteq> x) items = items"
  by (induction items) auto

lemma remove_nth_filter:
  assumes "distinct (map ri_ID items)" "i < length items"
  shows "take i items @ drop (Suc i) items = filter (\<lambda>y. ri_ID y \<noteq> ri_ID (items ! i)) items"
proof -
  have d: "distinct (map ri_ID (take i items @ items ! i # drop (Suc i) items))" using assms id_take_nth_drop by metis
  then have "ri_ID (items ! i) \<notin> ri_ID ` set (take i items)" "ri_ID (items ! i) \<notin> ri_ID ` set (drop (Suc i) items)" by auto
  then have "filter (\<lambda>y. ri_ID y \<noteq> ri_ID (items ! i)) (take i items @ items ! i # drop (Suc i) items) =
      take i items @ drop (Suc i) items"
    by (simp add: filter_other)
  then show ?thesis using id_take_nth_drop [OF assms(2)] by simp
qed

lemma status_without:
  assumes "distinct (map ri_ID items)"
  shows "status_of (filter (\<lambda>i. ri_ID i \<notin> S) items) = (\<lambda>x. if x \<in> S then None else status_of items x)"
proof
  fix x
  show "status_of (filter (\<lambda>i. ri_ID i \<notin> S) items) x = (if x \<in> S then None else status_of items x)"
    using status_of_None [of items x] by (cases "x \<in> ri_ID ` set items") (auto simp: status_filter [OF assms])
qed

lemma withdraw_simulated:
  assumes "queue_ok c" "status_of (rc_items c) x = Some RuntimeItemPending"
    and "rc_items c' = filter (\<lambda>i. ri_ID i \<notin> {x}) (rc_items c)" "rc_delivered c' = rc_delivered c"
  shows "simulated c (Inbox_Withdraw x) c'"
proof -
  have "inbox_step (inbox_of c) (Inbox_Withdraw x) ((inbox_of c)\<lparr>ib_status := (ib_status (inbox_of c))(x := None)\<rparr>)"
    by (rule inbox_step.withdraw) (simp add: inbox_of_def assms(2))
  moreover have "inbox_of c' = (inbox_of c)\<lparr>ib_status := (ib_status (inbox_of c))(x := None)\<rparr>"
    using assms status_without [of "rc_items c" "{x}"] by (auto simp: inbox_of_def queue_ok_def fun_eq_iff)
  ultimately show ?thesis using queue_ok_filter [OF assms(1,3)] by (simp add: simulated_def)
qed

lemma Cancel_simulated:
  assumes "queue_ok c" "Cancel env x c = (c', Inr b)"
  shows "simulated c (if b then Inbox_Withdraw x else Inbox_Quiet) c'"
proof (cases b)
  case False
  then show ?thesis using assms simulated_quiet [of c c] by (auto simp: Cancel_def Let_def split: if_splits sum.splits)
next
  case True
  let ?P = "\<lambda>i. ri_ID i = x \<and> ri_State i = RuntimeItemPending"
  have c: "list_ex ?P (rc_items c)" "commit_items env (filter (\<lambda>i. \<not> ?P i) (rc_items c)) c = Inr c'"
    using assms(2) True by (auto simp: Cancel_def Let_def split: if_splits sum.splits)
  have d: "distinct (map ri_ID (rc_items c))" using assms(1) by (simp add: queue_ok_def)
  have s: "status_of (rc_items c) x = Some RuntimeItemPending" using c(1) status_of_Some [OF d] by (auto simp: list_ex_iff)
  have "filter (\<lambda>i. \<not> ?P i) (rc_items c) = filter (\<lambda>i. ri_ID i \<notin> {x}) (rc_items c)"
    by (rule filter_cong) (use s status_of_mem [OF d] in auto)
  then show ?thesis using withdraw_simulated [OF assms(1) s] commit_items_effect [OF c(2)] True by simp
qed

lemma Edit_simulated:
  assumes "queue_ok c" "editPendingUserPrompt env draft x scope c = (c', Inr r)"
  shows "simulated_by c [] c'"
proof (cases r)
  case None
  then show ?thesis using assms simulated_by_quiet [of c c]
    by (auto simp: editPendingUserPrompt_def claims_def is_release_def split: if_splits option.splits sum.splits)
next
  case (Some a)
  then obtain i where i: "first_index (\<lambda>item. ri_ID item = TrimUnicode x \<and> ri_Kind item = RuntimeItemUserPrompt \<and>
      ri_State item = RuntimeItemPending \<and> in_scope c scope item) (rc_items c) = Some i"
    "commit_items env (take i (rc_items c) @ drop (Suc i) (rc_items c)) c = Inr c'"
    using assms(2) by (auto simp: editPendingUserPrompt_def split: if_splits option.splits sum.splits)
  have d: "distinct (map ri_ID (rc_items c))" using assms(1) by (simp add: queue_ok_def)
  note f = first_indexD [OF i(1)]
  have "simulated c (Inbox_Withdraw (ri_ID (rc_items c ! i))) c'"
    using withdraw_simulated [OF assms(1), of "ri_ID (rc_items c ! i)" c'] status_of_nth [OF d, of i] f commit_items_effect [OF i(2)]
      remove_nth_filter [OF d, of i] by simp
  then show ?thesis by (auto simp: claims_def is_release_def intro: simulated_byI)
qed

lemma Settle_simulated:
  assumes "queue_ok c" "Settle env ids c = (c', None)"
  shows "simulated c (Inbox_Settle (identities ids)) c'"
proof -
  have d: "distinct (map ri_ID (rc_items c))" using assms(1) by (simp add: queue_ok_def)
  have "rc_items c' = filter (\<lambda>i. ri_ID i \<notin> identities ids) (rc_items c) \<and> rc_delivered c' = rc_delivered c \<union> identities ids"
  proof (cases "list_ex (\<lambda>i. ri_ID i \<in> identities ids) (rc_items c)")
    case True
    then obtain c1 where "commit_items env (filter (\<lambda>i. ri_ID i \<notin> identities ids) (rc_items c)) c = Inr c1"
      "rc_items c' = rc_items c1" "rc_delivered c' = rc_delivered c1 \<union> identities ids"
      using assms(2) by (auto simp: Settle_def Let_def list_ex_iff split: if_splits sum.splits)
    then show ?thesis using commit_items_effect by simp
  next
    case False
    then have "filter (\<lambda>i. ri_ID i \<notin> identities ids) (rc_items c) = rc_items c" by (auto simp: filter_id_conv list_ex_iff)
    then show ?thesis using assms(2) False by (auto simp: Settle_def Let_def split: if_splits)
  qed
  note e = this
  then have "inbox_of c' = (inbox_of c)\<lparr>ib_status := (\<lambda>x. if x \<in> identities ids then None else ib_status (inbox_of c) x),
      ib_delivered := ib_delivered (inbox_of c) \<union> identities ids\<rparr>"
    by (auto simp: inbox_of_def status_without [OF d] fun_eq_iff)
  then show ?thesis using inbox_step.settle [of "inbox_of c"] queue_ok_filter [OF assms(1)] e by (simp add: simulated_def)
qed

subsection \<open>Releasing and rejecting\<close>

lemma Release_simulated:
  assumes "queue_ok c" "Release env x c = (c', Inr b)"
  shows "simulated c (if b then Inbox_Release x else Inbox_Quiet) c'"
proof (cases b)
  case False
  then show ?thesis using assms simulated_quiet [of c c]
    by (auto simp: Release_def Let_def split: if_splits option.splits sum.splits)
next
  case True
  then obtain i c1 where i: "first_index (\<lambda>item. ri_ID item = x \<and> ri_State item = RuntimeItemProcessing) (rc_items c) = Some i"
    "commit_items env (mark RuntimeItemPending i (rc_items c)) c = Inr c1" "rc_items c' = rc_items c1" "rc_delivered c' = rc_delivered c1"
    using assms(2) by (auto simp: Release_def Let_def signal_def signalGoal_def split: if_splits option.splits sum.splits)
  have "i < length (rc_items c)" "rc_items c' = mark RuntimeItemPending i (rc_items c)" "rc_delivered c' = rc_delivered c"
    using first_indexD [OF i(1)] commit_items_effect [OF i(2)] i(3,4) by auto
  note m = simulated_mark [OF assms(1) this]
  have "inbox_step (inbox_of c) (Inbox_Release x) ((inbox_of c)\<lparr>ib_status := (ib_status (inbox_of c))(x \<mapsto> RuntimeItemPending)\<rparr>)"
    by (rule inbox_step.release) (use m(3) first_indexD [OF i(1)] in auto)
  then show ?thesis using m(1,2) True first_indexD [OF i(1)] by (simp add: simulated_def)
qed

lemma rejected_status:
  assumes "distinct (map ri_ID items)" "i < length items"
  shows "status_of (items[i := (items ! i)\<lparr>ri_State := st, ri_Rejection := r\<rparr>]) = (status_of items)(ri_ID (items ! i) \<mapsto> st)"
    "map ri_ID (items[i := (items ! i)\<lparr>ri_State := st, ri_Rejection := r\<rparr>]) = map ri_ID items"
proof -
  show "map ri_ID (items[i := (items ! i)\<lparr>ri_State := st, ri_Rejection := r\<rparr>]) = map ri_ID items"
    by (rule nth_equalityI) (use assms(2) in \<open>auto simp: nth_list_update\<close>)
  have "map (\<lambda>i. (ri_ID i, ri_State i)) (items[i := (items ! i)\<lparr>ri_State := st, ri_Rejection := r\<rparr>]) =
      map (\<lambda>i. (ri_ID i, ri_State i)) (mark st i items)"
    by (rule nth_equalityI) (use assms(2) in \<open>auto simp: nth_list_update mark_def\<close>)
  then show "status_of (items[i := (items ! i)\<lparr>ri_State := st, ri_Rejection := r\<rparr>]) = (status_of items)(ri_ID (items ! i) \<mapsto> st)"
    using status_mark [OF assms] by (simp add: status_of_def)
qed

lemma Reject_simulated:
  assumes "queue_ok c" "rejectGoalContinuation env x code at c = (c', None)"
  shows "simulated_by c [] c'"
proof (cases "c' = c")
  case True
  then show ?thesis using assms(1) simulated_by_quiet [of c c]
    by (auto simp: claims_def is_release_def)
next
  case False
  then obtain i r where i: "i < length (rc_items c)"
    "ri_State (rc_items c ! i) = RuntimeItemPending \<or> ri_State (rc_items c ! i) = RuntimeItemProcessing"
    "commit_items env ((rc_items c)[i := (rc_items c ! i)\<lparr>ri_State := RuntimeItemRejected, ri_Rejection := r\<rparr>]) c = Inr c'"
    using assms(2) by (auto simp: rejectGoalContinuation_def Let_def dest!: first_indexD split: if_splits option.splits sum.splits)
  let ?x = "ri_ID (rc_items c ! i)"
  have d: "distinct (map ri_ID (rc_items c))" using assms(1) by (simp add: queue_ok_def)
  note e = commit_items_effect [OF i(3)] and s = rejected_status [OF d i(1), where st = RuntimeItemRejected and r = r]
  have "inbox_step (inbox_of c) (Inbox_Reject ?x) ((inbox_of c)\<lparr>ib_status := (ib_status (inbox_of c))(?x \<mapsto> RuntimeItemRejected)\<rparr>)"
    by (rule inbox_step.reject) (use status_of_nth [OF d i(1)] i(2) in \<open>simp add: inbox_of_def\<close>)
  moreover have "inbox_of c' = (inbox_of c)\<lparr>ib_status := (ib_status (inbox_of c))(?x \<mapsto> RuntimeItemRejected)\<rparr>"
    using e(3,4) s(1) by (simp add: inbox_of_def)
  moreover have "queue_ok c'" using queue_ok_ids [OF assms(1)] e(3) s(2) by simp
  ultimately have "simulated c (Inbox_Reject ?x) c'" by (simp add: simulated_def)
  then show ?thesis by (auto simp: claims_def is_release_def intro: simulated_byI)
qed

section \<open>Examples\<close>

definition demo_input_scope :: RuntimeInputScope where
  "demo_input_scope = \<lparr>sc_SessionID = ''s'', sc_ThreadID = ''t'', sc_AgentID = []\<rparr>"

definition demo_input_env :: input_env where
  "demo_input_env = \<lparr>iv_now = 5, iv_write = (\<lambda>_. None), iv_json = (\<lambda>i. Some (ri_ID i)),
     iv_digest = (\<lambda>p. replicate 64 (CHR ''0'')), iv_goalDigest = (\<lambda>_. ''d''), iv_validPrompt = (\<lambda>_. True), iv_imagesErr = (\<lambda>_. None),
     iv_resolve = (\<lambda>_. None), iv_lookup = None\<rparr>"

definition demo_prompt :: "string \<Rightarrow> uint64 \<Rightarrow> RuntimeItem" where
  "demo_prompt x n = \<lparr>ri_Version = 1, ri_ID = x, ri_Kind = RuntimeItemUserPrompt, ri_Priority = RuntimePriorityNext,
     ri_Delivery = PromptDeliveryDefault, ri_Scope = demo_input_scope, ri_Sequence = n, ri_EnqueuedAt = 3, ri_State = RuntimeItemPending,
     ri_IsMeta = False, ri_Origin = ''user'', ri_Provenance = ''tui'',
     ri_UserPrompt = Some \<lparr>up_Display = ''hi'', up_Prompt = ''hi'', up_Images = [], up_durablePrompt = None,
       up_materializedInput = None, up_writer = None, up_writerItemID = []\<rparr>,
     ri_AgentMessage = None, ri_AgentNotification = None, ri_AsyncRewake = None, ri_PermissionDecision = None,
     ri_GoalContinuation = None, ri_Stop = None, ri_Rejection = None\<rparr>"

definition demo_coordinator :: RuntimeInputCoordinator where
  "demo_coordinator = \<lparr>rc_scope = demo_input_scope, rc_path = ''p'', rc_revision = 4, rc_nextSequence = 2,
     rc_items = [demo_prompt ''a'' 1, demo_prompt ''b'' 2], rc_admissionReceipts = [], rc_delivered = {}, rc_mediaStore = False,
     rc_promptWriter = 0, rc_submitting = {}, rc_recoveryPending = False, rc_notify = True, rc_goalNotify = False, rc_ledger = None\<rparr>"

lemmas demo_input_defs = demo_input_scope_def demo_input_env_def demo_prompt_def demo_coordinator_def

lemma demo_queue_ok: "queue_ok demo_coordinator"
  by (simp add: queue_ok_def demo_input_defs canonical_def plain_eval)

section \<open>Refinement\<close>

lemma singleD: "single r = (c', Inr i) \<Longrightarrow> r = (c', Inr [i])"
  by (auto simp: single_def split: prod.splits sum.splits list.splits)

lemma result_simps:
  "no_items r = (c', Inr xs) \<longleftrightarrow> xs = [] \<and> (\<exists>y. r = (c', Inr y))"
  "handed_out r' = (c', Inr xs) \<longleftrightarrow> (\<exists>y. r' = (c', Inr y) \<and> xs = (case y of None \<Rightarrow> [] | Some m \<Rightarrow> [m]))"
  "unit_result u = (c', Inr xs) \<longleftrightarrow> u = (c', None) \<and> xs = []"
  by (cases r, auto simp: no_items_def split: sum.splits)
     (cases r', auto simp: handed_out_def split: sum.splits option.splits,
      cases u, auto simp: unit_result_def split: option.splits)

lemma single_simulated:
  "queue_ok c \<Longrightarrow> single (enqueueBatchLocked env [item] k n p a c) = (c', Inr i) \<Longrightarrow> simulated_by c [] c'"
  using enqueueBatchLocked_simulated singleD by blast

lemma enqueue_simulated:
  assumes "queue_ok c"
  shows "EnqueueBatch env items c = (c', Inr xs) \<Longrightarrow> simulated_by c [] c'"
    and "EnqueueBounded env item n c = (c', Inr i) \<Longrightarrow> simulated_by c [] c'"
    and "EnqueueBoundedWithAdmissionReceipt env item n c = (c', Inr i) \<Longrightarrow> simulated_by c [] c'"
  using assms enqueueBatchLocked_simulated single_simulated simulated_by_quiet [of c c]
  by (auto simp: EnqueueBatch_def EnqueueBounded_def EnqueueBoundedWithAdmissionReceipt_def split: if_splits)

lemma simulated_signal: "simulated_by c ids (signalGoal c') = simulated_by c ids c'"
  by (simp add: simulated_by_def simulated_def signalGoal_def queue_ok_def inbox_of_def)

lemma dormant_simulated:
  assumes "queue_ok c" "enqueueDormantGoalContinuation env item c = (c', Inr i)"
  shows "simulated_by c [] c'"
proof -
  obtain c1 where "single (enqueueBatchLocked env [item] (Some RuntimeItemGoalContinuation) 1 False False c) = (c1, Inr i)"
    "c' = signalGoal c1"
    using assms(2) by (auto simp: enqueueDormantGoalContinuation_def split: if_splits prod.splits sum.splits)
  then show ?thesis using single_simulated [OF assms(1)] simulated_signal by blast
qed

lemma durable_simulated:
  assumes "queue_ok c" "enqueueDurableUserPrompt env item r n c = (c', Inr i)"
  shows "simulated_by c [] c'"
  using assms enqueue_simulated(2) [OF assms(1)]
  by (auto simp: enqueueDurableUserPrompt_def split: if_splits option.splits prod.splits sum.splits)

lemma learn_simulated:
  assumes "queue_ok c" "resolveDelivered env ids c = (c', Inr S)"
  shows "simulated_by c [] c'"
proof -
  have "rc_items c' = rc_items c \<and> (rc_delivered c' = rc_delivered c \<or> (\<exists>F. rc_delivered c' = rc_delivered c \<union> F))"
    using assms(2) by (auto simp: resolveDelivered_def Let_def split: option.splits sum.splits)
  then obtain F where "inbox_of c' = (inbox_of c)\<lparr>ib_delivered := ib_delivered (inbox_of c) \<union> F\<rparr>" "rc_items c' = rc_items c"
    by (auto simp: inbox_of_def)
  then have "simulated c (Inbox_Learn F) c'"
    using assms(1) inbox_step.learn [of "inbox_of c" F] by (simp add: simulated_def queue_ok_def)
  then show ?thesis by (auto simp: claims_def is_release_def intro: simulated_byI)
qed

lemma quiet_simulated:
  assumes "queue_ok c"
  shows "processingDurableRuntimePrompt env item c = (c', Inr m) \<Longrightarrow> simulated_by c [] c'"
    and "commitDeferredRecovery env c = (c', None) \<Longrightarrow> simulated_by c [] c'"
  using assms
  by (auto simp: processingDurableRuntimePrompt_def commitDeferredRecovery_def persist_recovery_def persistLocked_def persist_Inr
      intro!: simulated_by_quiet split: option.splits if_splits sum.splits)

lemma claims_simulated:
  assumes "queue_ok c"
  shows "ClaimNextIdle env scope c = (c', Inr r) \<Longrightarrow>
      simulated_by c (map ri_ID (case r of None \<Rightarrow> [] | Some m \<Rightarrow> [m])) c'"
    and "claimGoalContinuation env x scope c = (c', Inr r) \<Longrightarrow>
      simulated_by c (map ri_ID (case r of None \<Rightarrow> [] | Some m \<Rightarrow> [m])) c'"
    and "claimByID env x c = (c', Inr r) \<Longrightarrow>
      simulated_by c (map ri_ID (case r of None \<Rightarrow> [] | Some m \<Rightarrow> [m])) c'"
proof -
  assume g: "ClaimNextIdle env scope c = (c', Inr r)"
  have "i < length (rc_items c) \<and> ri_State (rc_items c ! i) = RuntimeItemPending"
    if "pick_index (idle_eligible c scope) (\<lambda>a b. schedule_key a < schedule_key b) (rc_items c) = Some i" for i
    using pick_indexD [where key = schedule_key, OF refl that] by (auto simp: idle_eligible_def)
  then show "simulated_by c (map ri_ID (case r of None \<Rightarrow> [] | Some m \<Rightarrow> [m])) c'"
    using claim_at_simulated [OF assms] g unfolding ClaimNextIdle_def by blast
next
  assume g: "claimGoalContinuation env x scope c = (c', Inr r)"
  show "simulated_by c (map ri_ID (case r of None \<Rightarrow> [] | Some m \<Rightarrow> [m])) c'"
  proof (cases "TrimUnicode x = [] \<or> user_input_pending c scope")
    case True
    then show ?thesis using g assms simulated_by_quiet [of c c]
      by (auto simp: claimGoalContinuation_def claims_def is_release_def)
  next
    case False
    then show ?thesis using claim_at_simulated [OF assms] g
      by (auto simp: claimGoalContinuation_def dest!: last_indexD)
  qed
next
  assume g: "claimByID env x c = (c', Inr r)"
  show "simulated_by c (map ri_ID (case r of None \<Rightarrow> [] | Some m \<Rightarrow> [m])) c'"
  proof (cases "TrimUnicode x = []")
    case True
    then show ?thesis using g assms simulated_by_quiet [of c c]
      by (auto simp: claimByID_def claims_def is_release_def)
  next
    case False
    then show ?thesis using claim_at_simulated [OF assms] g by (auto simp: claimByID_def dest!: first_indexD)
  qed
qed

lemma stop_simulated:
  assumes "queue_ok c" "ClaimStop env scope c = (c', Inr r)"
  shows "simulated_by c (map ri_ID (case r of None \<Rightarrow> [] | Some m \<Rightarrow> [m])) c'"
proof (cases r)
  case None
  then show ?thesis using assms simulated_by_quiet [of c c]
    by (auto simp: ClaimStop_def Let_def split: option.splits sum.splits)
next
  case (Some m)
  let ?eligible = "\<lambda>item. \<not> (ri_State item \<noteq> RuntimeItemPending \<or> ri_Kind item \<noteq> RuntimeItemStop \<or> \<not> in_scope c scope item)"
  obtain i where i: "pick_index ?eligible (\<lambda>a b. ri_Sequence a < ri_Sequence b) (rc_items c) = Some i"
    "commit_items env (mark RuntimeItemProcessing i (rc_items c)) c = Inr c'" "m = mark RuntimeItemProcessing i (rc_items c) ! i"
    using assms(2) Some by (auto simp: ClaimStop_def Let_def split: option.splits sum.splits)
  have l: "i < length (rc_items c)" "ri_State (rc_items c ! i) = RuntimeItemPending"
    using pick_indexD [where key = ri_Sequence, OF refl i(1)] by auto
  have "simulated c (Inbox_Claim [ri_ID (rc_items c ! i)]) c'" using claim_one [OF assms(1) l] commit_items_effect [OF i(2)] by blast
  then show ?thesis using Some i(3) l by (auto simp: claims_def is_release_def intro: simulated_byI)
qed

definition releases :: "input_op \<Rightarrow> bool" where
  "releases op = (case op of Input_Release _ \<Rightarrow> True | _ \<Rightarrow> False)"

lemma settle_simulated_by: "queue_ok c \<Longrightarrow> Settle env ids c = (c', None) \<Longrightarrow> simulated_by c [] c'"
  by (rule simulated_byI [OF Settle_simulated]) (auto simp: claims_def is_release_def)

lemma run_input_simulated:
  assumes "queue_ok c" "run_input env op c = (c', Inr xs)" "\<not> releases op"
  shows "simulated_by c (map ri_ID xs) c'"
proof (cases op)
  case (Input_Settle ids)
  then have "Settle env ids c = (c', None)" "xs = []" using assms(2) by (auto simp: result_simps)
  then show ?thesis using settle_simulated_by [OF assms(1)] by simp
next
  case (Input_SettleStops scope)
  then obtain ids where "Settle env ids c = (c', None)" "xs = []" using assms(2) by (auto simp: result_simps settleStopRequests_def)
  then show ?thesis using settle_simulated_by [OF assms(1)] by simp
next
  case (Input_Cancel x)
  then obtain b where "Cancel env x c = (c', Inr b)" "xs = []" using assms(2) by (auto simp: result_simps)
  then show ?thesis using simulated_byI [OF Cancel_simulated [OF assms(1)]] by (simp add: claims_def is_release_def)
qed (use assms enqueue_simulated [OF assms(1)] dormant_simulated [OF assms(1)] durable_simulated [OF assms(1)]
      ClaimSafePoint_simulated [OF assms(1)] claims_simulated [OF assms(1)] stop_simulated [OF assms(1)] Reject_simulated [OF assms(1)]
      Edit_simulated [OF assms(1)] learn_simulated [OF assms(1)] quiet_simulated [OF assms(1)] in \<open>auto simp: result_simps releases_def\<close>)

lemma run_input_refines:
  assumes "queue_ok c" "run_input env op c = (c', Inr xs)"
  shows "queue_ok c' \<and> (\<exists>ev. inbox_step (inbox_of c) ev (inbox_of c') \<and> claims ev = map ri_ID xs \<and> (is_release ev \<longrightarrow> releases op))"
proof (cases "releases op")
  case True
  then obtain x b where "Release env x c = (c', Inr b)" "xs = []"
    using assms(2) by (auto simp: releases_def result_simps split: input_op.splits)
  then have "simulated c (if b then Inbox_Release x else Inbox_Quiet) c'" "claims (if b then Inbox_Release x else Inbox_Quiet) = map ri_ID xs"
    using Release_simulated [OF assms(1)] by (auto simp: claims_def)
  then show ?thesis using True by (auto simp: simulated_def)
next
  case False
  then show ?thesis using run_input_simulated [OF assms] by (auto simp: simulated_by_def simulated_def)
qed

text \<open>
  C17. The coordinator refines the inbox: over a queue of distinct canonical identities every
  successful operation is one event of the inbox, it hands out exactly the identities the event
  claims, only a release puts one back, and the queue stays well formed.
\<close>

theorem coordinator_refines_inbox:
  assumes "queue_ok c" "run_input env op c = (c', Inr xs)"
  shows "queue_ok c' \<and> (\<exists>ev. inbox_step (inbox_of c) ev (inbox_of c') \<and> claims ev = map ri_ID xs \<and> (is_release ev \<longrightarrow> releases op))"
  using assms by (rule run_input_refines)

theorem coordinator_refines_inbox_witness:
  "\<exists>c' xs. run_input demo_input_env (Input_ClaimNextIdle demo_input_scope) demo_coordinator = (c', Inr xs) \<and>
     map ri_ID xs = [''a''] \<and> queue_ok c'"
proof -
  have "case snd (run_input demo_input_env (Input_ClaimNextIdle demo_input_scope) demo_coordinator) of
      Inl _ \<Rightarrow> False | Inr xs \<Rightarrow> map ri_ID xs = [''a'']"
    by code_simp
  then obtain xs where xs: "snd (run_input demo_input_env (Input_ClaimNextIdle demo_input_scope) demo_coordinator) = Inr xs"
    "map ri_ID xs = [''a'']"
    by (auto split: sum.splits)
  obtain c' where c': "run_input demo_input_env (Input_ClaimNextIdle demo_input_scope) demo_coordinator = (c', Inr xs)"
    using xs(1) by (metis prod.collapse)
  show ?thesis using coordinator_refines_inbox [OF demo_queue_ok c'] c' xs(2) by (intro exI [of _ c'] exI [of _ xs]) simp
qed

section \<open>Handing out once\<close>

text \<open>
  What follows for any machine whose steps are events of the inbox.  \<open>run_steps\<close> collects the
  identities handed out by a sequence of steps.
\<close>

fun run_steps :: "('o \<Rightarrow> 's \<Rightarrow> 's \<times> string list) \<Rightarrow> 'o list \<Rightarrow> 's \<Rightarrow> 's \<times> string list" where
  "run_steps step [] s = (s, [])"
| "run_steps step (x # xs) s = (case step x s of (s1, ids) \<Rightarrow> (case run_steps step xs s1 of (s2, out) \<Rightarrow> (s2, ids @ out)))"

locale inbox_provider =
  fixes ok :: "'s \<Rightarrow> bool" and view :: "'s \<Rightarrow> inbox" and step :: "'o \<Rightarrow> 's \<Rightarrow> 's \<times> string list" and frees :: "'o \<Rightarrow> bool"
  assumes refines: "ok s \<Longrightarrow> step x s = (s', ids) \<Longrightarrow>
    ok s' \<and> (\<exists>ev. inbox_step (view s) ev (view s') \<and> claims ev = ids \<and> (is_release ev \<longrightarrow> frees x))"
begin

lemma run_is_inbox_run:
  "ok s \<Longrightarrow> run_steps step xs s = (s', out) \<Longrightarrow>
   ok s' \<and> (\<exists>evs. inbox_run (view s) evs (view s') \<and> concat (map claims evs) = out \<and>
     (list_all (\<lambda>x. \<not> frees x) xs \<longrightarrow> (\<forall>ev\<in>set evs. \<not> is_release ev)))"
proof (induction xs arbitrary: s out)
  case Nil
  then show ?case using inbox_run.Nil [of "view s"] by (intro conjI exI [of _ "[]"]) auto
next
  case (Cons x xs)
  obtain s1 ids out1 where r: "step x s = (s1, ids)" "run_steps step xs s1 = (s', out1)" "out = ids @ out1"
    using Cons.prems(2) by (auto split: prod.splits)
  obtain ev where e: "ok s1" "inbox_step (view s) ev (view s1)" "claims ev = ids" "is_release ev \<longrightarrow> frees x"
    using refines [OF Cons.prems(1) r(1)] by blast
  obtain evs where es: "ok s'" "inbox_run (view s1) evs (view s')" "concat (map claims evs) = out1"
    "list_all (\<lambda>x. \<not> frees x) xs \<longrightarrow> (\<forall>ev\<in>set evs. \<not> is_release ev)"
    using Cons.IH [OF e(1) r(2)] by blast
  have "inbox_run (view s) (ev # evs) (view s')" using e(2) es(2) by (rule inbox_run.Cons)
  then show ?case using e es r(3) by (intro conjI exI [of _ "ev # evs"]) auto
qed

lemma handed_out_once:
  assumes "ok s" "list_all (\<lambda>x. \<not> frees x) xs" "run_steps step xs s = (s', out)"
  shows "distinct out"
  using run_is_inbox_run [OF assms(1,3)] assms(2) inbox_claims_once [where X = "{}"] by (fastforce simp: taken_def)

end

definition coordinator_step :: "input_env \<times> input_op \<Rightarrow> RuntimeInputCoordinator \<Rightarrow> RuntimeInputCoordinator \<times> string list" where
  "coordinator_step x c =
     (case run_input (fst x) (snd x) c of (c', Inl _) \<Rightarrow> (c', []) | (c', Inr items) \<Rightarrow> (c', map ri_ID items))"

lemma failed_is_quiet: "run_input env op c = (c', Inl err) \<Longrightarrow> c' = c"
  using run_input_atomic [of c env op] by simp

interpretation coordinator: inbox_provider queue_ok inbox_of coordinator_step "\<lambda>x. releases (snd x)"
proof
  fix s x s' ids
  assume s: "queue_ok s" "coordinator_step x s = (s', ids)"
  show "queue_ok s' \<and> (\<exists>ev. inbox_step (inbox_of s) ev (inbox_of s') \<and> claims ev = ids \<and> (is_release ev \<longrightarrow> releases (snd x)))"
  proof (cases "run_input (fst x) (snd x) s")
    case (Pair c r)
    then show ?thesis
    proof (cases r)
      case (Inl err)
      then have "s' = s" "ids = []" using s(2) Pair failed_is_quiet [of "fst x" "snd x" s c err] by (auto simp: coordinator_step_def)
      then show ?thesis using s(1) inbox_step.quiet [of "inbox_of s"]
        by (intro conjI exI [of _ Inbox_Quiet]) (auto simp: claims_def is_release_def)
    next
      case (Inr items)
      then show ?thesis using run_input_refines [OF s(1)] s(2) Pair by (auto simp: coordinator_step_def)
    qed
  qed
qed

lemma demo_claims:
  "snd (run_steps coordinator_step [(demo_input_env, Input_ClaimNextIdle demo_input_scope),
     (demo_input_env, Input_ClaimSafePoint demo_input_scope True True)] demo_coordinator) = [''a'', ''b'']"
  by code_simp

text \<open>
  C16. Without a release no input is handed out twice: over any sequence of operations, whatever
  writes fail, the identities handed out by all claims together are distinct.
\<close>

theorem claimed_once:
  assumes "queue_ok c" "list_all (\<lambda>x. \<not> releases (snd x)) steps"
  shows "distinct (snd (run_steps coordinator_step steps c))"
  using coordinator.handed_out_once [OF assms] by (metis prod.collapse)

theorem claimed_once_witness:
  "snd (run_steps coordinator_step [(demo_input_env, Input_ClaimNextIdle demo_input_scope),
       (demo_input_env, Input_ClaimSafePoint demo_input_scope True True)] demo_coordinator) = [''a'', ''b''] \<and>
   distinct (snd (run_steps coordinator_step [(demo_input_env, Input_ClaimNextIdle demo_input_scope),
       (demo_input_env, Input_ClaimSafePoint demo_input_scope True True)] demo_coordinator))"
proof
  show "distinct (snd (run_steps coordinator_step [(demo_input_env, Input_ClaimNextIdle demo_input_scope),
       (demo_input_env, Input_ClaimSafePoint demo_input_scope True True)] demo_coordinator))"
    by (rule claimed_once [OF demo_queue_ok]) (simp add: releases_def)
qed (rule demo_claims)

text \<open>
  An idle claim takes the best input: when the ledger can be written and prompts can be read,
  it hands out a pending item of the scope that no other eligible item precedes in priority and
  then in arrival, exactly when there is one.
\<close>

lemma ClaimNextIdle_best:
  assumes "\<And>e. iv_write env e = None" "\<And>i. i \<in> set (rc_items c) \<Longrightarrow> \<exists>m. materializeRuntimePrompt env c (i\<lparr>ri_State := RuntimeItemProcessing\<rparr>) = Inr m"
  shows "case snd (ClaimNextIdle env scope c) of
      Inl _ \<Rightarrow> False
    | Inr None \<Rightarrow> \<not> list_ex (idle_eligible c scope) (rc_items c)
    | Inr (Some m) \<Rightarrow> \<exists>i\<in>set (rc_items c). idle_eligible c scope i \<and> ri_ID m = ri_ID i \<and>
        (\<forall>j\<in>set (rc_items c). idle_eligible c scope j \<longrightarrow> schedule_key i \<le> schedule_key j)"
proof -
  let ?p = "pick_index (idle_eligible c scope) (\<lambda>a b. schedule_key a < schedule_key b) (rc_items c)"
  have p: "case ?p of None \<Rightarrow> \<forall>i\<in>set (rc_items c). \<not> idle_eligible c scope i
    | Some b \<Rightarrow> b < length (rc_items c) \<and> idle_eligible c scope (rc_items c ! b) \<and>
        (\<forall>i\<in>set (rc_items c). idle_eligible c scope i \<longrightarrow> schedule_key (rc_items c ! b) \<le> schedule_key i)"
    by (rule pick_indexD [OF refl refl])
  have w: "\<exists>c'. commit_items env xs c = Inr c'" for xs
    using assms(1) by (auto simp: commit_items_def persistLocked_def persistStateLocked_def Let_def)
  show ?thesis
  proof (cases ?p)
    case None
    then show ?thesis using p by (auto simp: ClaimNextIdle_def claim_at_def list_ex_iff)
  next
    case (Some b)
    then have b: "b < length (rc_items c)" using p by simp
    obtain m where m: "materializeRuntimePrompt env c ((rc_items c ! b)\<lparr>ri_State := RuntimeItemProcessing\<rparr>) = Inr m"
      using assms(2) b nth_mem by blast
    obtain c' where "commit_items env (mark RuntimeItemProcessing b (rc_items c)) c = Inr c'" using w by blast
    then have "snd (ClaimNextIdle env scope c) = Inr (Some m)" using Some m b by (simp add: ClaimNextIdle_def claim_at_def mark_nth)
    moreover have "ri_ID m = ri_ID (rc_items c ! b)" using materialize_ID [OF m] by simp
    ultimately show ?thesis using p Some b by (auto intro!: bexI [of _ "rc_items c ! b"])
  qed
qed

lemma ClaimNextIdle_best_witness:
  "case snd (ClaimNextIdle demo_input_env demo_input_scope demo_coordinator) of
      Inl _ \<Rightarrow> False
    | Inr None \<Rightarrow> False
    | Inr (Some m) \<Rightarrow> \<exists>i\<in>set (rc_items demo_coordinator). ri_ID m = ri_ID i"
proof -
  have "list_ex (idle_eligible demo_coordinator demo_input_scope) (rc_items demo_coordinator)" by code_simp
  moreover have "iv_write demo_input_env e = None" for e by (simp add: demo_input_env_def)
  moreover have "\<exists>m. materializeRuntimePrompt demo_input_env demo_coordinator (i\<lparr>ri_State := RuntimeItemProcessing\<rparr>) = Inr m"
    if "i \<in> set (rc_items demo_coordinator)" for i
    using that by (auto simp: demo_coordinator_def demo_prompt_def materializeRuntimePrompt_def)
  ultimately show ?thesis using ClaimNextIdle_best [of demo_input_env demo_coordinator demo_input_scope]
    by (auto split: sum.splits option.splits)
qed

end
