(* ===== verification/Input_Recovery.thy ===== *)
theory Input_Recovery
  imports Input_Inbox
begin

text \<open>
  Crashes of the process around the coordinator.  A history mixes operations, whose writes may
  fail, with restarts that read the ledger file back.  Recovery returns exactly the items that
  were not rejected, delivered or stop requests; settled input never comes back, and accepted
  input is not lost.
\<close>

section \<open>What recovery returns\<close>

definition recovered :: "RuntimeInputCoordinator \<Rightarrow> RuntimeItem \<Rightarrow> RuntimeItem" where
  "recovered c raw = (fst (normalizeRuntimeItemPayload (recovered_item c raw)))\<lparr>ri_State := RuntimeItemPending\<rparr>"

definition survives :: "string set \<Rightarrow> RuntimeItem \<Rightarrow> bool" where
  "survives covered i \<longleftrightarrow> ri_State i \<noteq> RuntimeItemRejected \<and> ri_ID i \<notin> covered \<and> ri_Kind i \<noteq> RuntimeItemStop"

lemma normalize_keeps:
  "ri_ID (fst (normalizeRuntimeItemPayload i)) = ri_ID i" "ri_State (fst (normalizeRuntimeItemPayload i)) = ri_State i"
  "ri_Kind (fst (normalizeRuntimeItemPayload i)) = ri_Kind i" "ri_Scope (fst (normalizeRuntimeItemPayload i)) = ri_Scope i"
  by (auto simp: normalizeRuntimeItemPayload_def Let_def split: option.splits)

lemma recovered_item_keeps [simp]:
  "ri_ID (recovered_item c i) = ri_ID i" "ri_State (recovered_item c i) = ri_State i" "ri_Kind (recovered_item c i) = ri_Kind i"
  by (simp_all add: recovered_item_def)

lemma recovered_keeps [simp]: "ri_ID (recovered c i) = ri_ID i" "ri_State (recovered c i) = RuntimeItemPending" "ri_Kind (recovered c i) = ri_Kind i"
  by (simp_all add: recovered_def normalize_keeps)

lemma valid_state: "validateItem env own w i = None \<Longrightarrow> ri_State i \<in> {RuntimeItemPending, RuntimeItemProcessing, RuntimeItemRejected}"
proof -
  assume "validateItem env own w i = None"
  then have "validate_state i = None" by (auto simp: validateItem_def split: if_splits)
  then show ?thesis by (cases "ri_State i") (auto simp: validate_state_def)
qed

lemma recover_receipt_items: "recover_receipt env i s = Inr s' \<Longrightarrow> vs_items s' = vs_items s"
  by (auto simp: recover_receipt_def split: option.splits if_splits sum.splits)

lemma recover_item_items:
  assumes "recover_item env c covered raw s = Inr s'"
  shows "vs_items s' = vs_items s @ (if survives covered raw then [recovered c raw] else [])"
proof -
  obtain i b where n: "normalizeRuntimeItemPayload (recovered_item c raw) = (i, b)" by fastforce
  have i: "ri_ID i = ri_ID raw" "ri_State i = ri_State raw" "ri_Kind i = ri_Kind raw" "recovered c raw = i\<lparr>ri_State := RuntimeItemPending\<rparr>"
    using normalize_keeps [of "recovered_item c raw"] n by (auto simp: recovered_def)
  obtain s1 where s1: "validateItem env (rc_scope c) (rc_promptWriter c) i = None" "vs_items s1 = vs_items s"
    "s' = (if ri_State i = RuntimeItemRejected \<or> ri_ID i \<in> covered \<or> ri_Kind i = RuntimeItemStop then s1\<lparr>vs_changed := True\<rparr>
       else if ri_State i = RuntimeItemProcessing
       then s1\<lparr>vs_changed := True, vs_items := vs_items s1 @ [i\<lparr>ri_State := RuntimeItemPending\<rparr>]\<rparr>
       else s1\<lparr>vs_items := vs_items s1 @ [i]\<rparr>)"
    using assms n by (auto simp: recover_item_def dest: recover_receipt_items split: if_splits sum.splits)
  have "ri_State i = RuntimeItemPending \<Longrightarrow> i\<lparr>ri_State := RuntimeItemPending\<rparr> = i" by (cases i) simp
  then show ?thesis using s1 i valid_state [OF s1(1)] by (auto simp: survives_def)
qed

lemma recover_items_items:
  "recover_items env c covered items s = Inr s' \<Longrightarrow>
   vs_items s' = vs_items s @ map (recovered c) (filter (survives covered) items)"
  by (induction items arbitrary: s) (auto split: sum.splits dest!: recover_item_items)

lemma recovered_cong: "rc_promptWriter c = rc_promptWriter c' \<Longrightarrow> recovered c = recovered c'"
  unfolding recovered_def recovered_item_def by (simp cong: if_cong)

definition transcript_finds :: "input_env \<Rightarrow> string \<Rightarrow> bool" where
  "transcript_finds env x \<longleftrightarrow> (\<exists>f S F. iv_lookup env = Some f \<and> f S = Inr F \<and> x \<in> F)"

text \<open>The outcome of a successful recovery from an envelope.\<close>

lemma recovery_effect:
  assumes "NewRuntimeInputCoordinator env config D file = Inr c'" "TrimUnicode (cf_Path config) \<noteq> []"
  obtains e where "loadRuntimeInputEnvelope file = Inr e" "D \<subseteq> rc_delivered c'"
    "rc_delivered c' \<subseteq> D \<union> {x. transcript_finds env x}"
    "rc_items c' = map (recovered c') (filter (survives (identities (map ri_ID (en_Items e)) \<inter> rc_delivered c')) (en_Items e))"
    "rc_ledger c' = file \<or> rc_ledger c' = Some (envelope_of c')"
proof -
  let ?c0 = "new_coordinator config D file"
  obtain e where e: "loadRuntimeInputEnvelope file = Inr e"
    using assms by (auto simp: NewRuntimeInputCoordinator_def Let_def new_coordinator_def split: sum.splits)
  let ?c1 = "?c0\<lparr>rc_revision := en_Revision e, rc_nextSequence := en_NextSequence e, rc_items := en_Items e\<rparr>"
  let ?ids = "identities (map ri_ID (en_Items e))"
  obtain rs c2 covered s where r: "recover_receipts ?c1 (en_AdmissionReceipts e) [] = Inr rs"
    "resolveDelivered env (map ri_ID (en_Items e)) ?c1 = (c2, Inr covered)"
    "recover_items env c2 covered (en_Items e) \<lparr>vs_receipts = rs, vs_changed = en_Version e \<noteq> runtimeInputEnvelopeVersion, vs_items = []\<rparr> = Inr s"
    using assms e by (auto simp: NewRuntimeInputCoordinator_def Let_def new_coordinator_def split: sum.splits prod.splits)
  let ?c3 = "c2\<lparr>rc_items := vs_items s, rc_admissionReceipts := vs_receipts s\<rparr>"
  obtain c4 where c4: "store_recovery env (cf_DeferRecoveryPersistence config) (vs_changed s) ?c3 = Inr c4" "c' = signal_ready c4"
    using assms e r by (auto simp: NewRuntimeInputCoordinator_def Let_def new_coordinator_def map_sum.simps
        split: sum.splits elim!: map_sum_InrE)
  have c2: "rc_ledger c2 = file" "rc_promptWriter c2 = cf_promptWriter config" "D \<subseteq> rc_delivered c2"
    "rc_delivered c2 \<subseteq> D \<union> {x. transcript_finds env x}" "covered = ?ids \<inter> rc_delivered c2"
    using r(2) by (auto simp: resolveDelivered_def new_coordinator_def transcript_finds_def Let_def split: option.splits sum.splits if_splits) blast
  have keep: "rc_items c' = rc_items c4" "rc_delivered c' = rc_delivered c4" "rc_ledger c' = rc_ledger c4" "rc_promptWriter c' = rc_promptWriter c4"
    "envelope_of c' = envelope_of c4"
    using c4(2) by (auto simp: signal_ready_def Let_def signal_def signalGoal_def envelope_of_def)
  have "rc_items c4 = vs_items s \<and> rc_delivered c4 = rc_delivered c2 \<and> rc_promptWriter c4 = rc_promptWriter c2 \<and>
      (rc_ledger c4 = file \<or> rc_ledger c4 = Some (envelope_of c4))"
    using c4(1) c2(1) by (auto simp: store_recovery_def persist_recovery_def persistLocked_def persist_Inr envelope_of_def split: sum.splits if_splits)
  moreover have "vs_items s = map (recovered c') (filter (survives covered) (en_Items e))"
    using recover_items_items [OF r(3)] recovered_cong [of c2 c'] keep(4) calculation by simp
  ultimately show ?thesis using that [OF e] c2 keep by auto
qed

section \<open>Histories with restarts\<close>

datatype input_event = Input_Op input_env input_op | Input_Restart input_env RuntimeInputCoordinatorConfig "string set"

text \<open>A restart reads the file the crashed process left; one that fails leaves no coordinator.\<close>

inductive input_step :: "RuntimeInputCoordinator \<Rightarrow> input_event \<Rightarrow> string list \<Rightarrow> RuntimeInputCoordinator \<Rightarrow> bool" where
  operate: "coordinator_step (env, op) c = (c', ids) \<Longrightarrow> input_step c (Input_Op env op) ids c'"
| restart: "NewRuntimeInputCoordinator env config D (rc_ledger c) = Inr c' \<Longrightarrow> input_step c (Input_Restart env config D) [] c'"

inductive_cases input_stepE: "input_step c ev ids c'"

inductive input_history :: "RuntimeInputCoordinator \<Rightarrow> input_event list \<Rightarrow> string list \<Rightarrow> RuntimeInputCoordinator \<Rightarrow> bool" where
  Nil: "input_history c [] [] c"
| Cons: "input_step c ev ids c1 \<Longrightarrow> input_history c1 evs out c' \<Longrightarrow> input_history c (ev # evs) (ids @ out) c'"

lemma history_invariant:
  assumes "input_history c evs out c'" "P c" "\<forall>ev\<in>set evs. Q ev"
    and "\<And>c ev ids c'. input_step c ev ids c' \<Longrightarrow> P c \<Longrightarrow> Q ev \<Longrightarrow> P c' \<and> R ids"
    and "R []" "\<And>xs ys. R xs \<Longrightarrow> R ys \<Longrightarrow> R (xs @ ys)"
  shows "P c' \<and> R out"
  using assms(1-3)
proof induction
  case (Cons c ev ids c1 evs out c')
  then show ?case using assms(4) [OF Cons.hyps(1)] assms(6) by auto
qed (simp add: assms(5))

text \<open>The file names distinct canonical identities too.\<close>

definition ledger_ok :: "RuntimeInputCoordinator \<Rightarrow> bool" where
  "ledger_ok c \<longleftrightarrow> (case rc_ledger c of None \<Rightarrow> True
     | Some e \<Rightarrow> distinct (map ri_ID (en_Items e)) \<and> (\<forall>i\<in>set (en_Items e). canonical (ri_ID i)))"

definition sound :: "RuntimeInputCoordinator \<Rightarrow> bool" where
  "sound c \<longleftrightarrow> queue_ok c \<and> ledger_ok c"

lemma wire_ID [simp]: "ri_ID (wire_item i) = ri_ID i" "ri_State (wire_item i) = ri_State i" "ri_Kind (wire_item i) = ri_Kind i"
  by (simp_all add: wire_item_def)

lemma ledger_ok_current: "queue_ok c \<Longrightarrow> rc_ledger c = Some (envelope_of c) \<Longrightarrow> ledger_ok c"
  by (auto simp: ledger_ok_def queue_ok_def envelope_of_def o_def)

lemma operate_ahead: "coordinator_step (env, op) c = (c', ids) \<Longrightarrow> written_ahead c c'"
  using run_input_atomic [of c env op] by (auto simp: coordinator_step_def atomic_def split: prod.splits sum.splits)

lemma ahead_ledger: "written_ahead c c' \<Longrightarrow> rc_ledger c' = rc_ledger c \<or> rc_ledger c' = Some (envelope_of c')"
  by (auto simp: written_ahead_def committed_def split: if_splits)

lemma sound_operate:
  assumes "sound c" "coordinator_step (env, op) c = (c', ids)"
  shows "sound c'"
proof -
  have "queue_ok c'" using coordinator.refines [OF _ assms(2)] assms(1) by (auto simp: sound_def)
  then show ?thesis using ahead_ledger [OF operate_ahead [OF assms(2)]] assms(1) ledger_ok_current
    by (auto simp: sound_def ledger_ok_def)
qed

lemma new_without_path:
  "TrimUnicode (cf_Path config) = [] \<Longrightarrow> NewRuntimeInputCoordinator env config D file = Inr c' \<Longrightarrow> c' = new_coordinator config D file"
  by (simp add: NewRuntimeInputCoordinator_def new_coordinator_def)

lemma load_items:
  "loadRuntimeInputEnvelope file = Inr e \<Longrightarrow> (case file of None \<Rightarrow> en_Items e = [] | Some f \<Rightarrow> e = f)"
  by (auto simp: loadRuntimeInputEnvelope_def split: option.splits if_splits)

lemma sound_restart:
  assumes "sound c" "NewRuntimeInputCoordinator env config D (rc_ledger c) = Inr c'"
  shows "sound c'"
proof (cases "TrimUnicode (cf_Path config) = []")
  case True
  then show ?thesis using new_without_path [OF True assms(2)] assms(1)
    by (auto simp: sound_def queue_ok_def ledger_ok_def new_coordinator_def)
next
  case False
  obtain e where e: "loadRuntimeInputEnvelope (rc_ledger c) = Inr e"
    "rc_items c' = map (recovered c') (filter (survives (identities (map ri_ID (en_Items e)) \<inter> rc_delivered c')) (en_Items e))"
    "rc_ledger c' = rc_ledger c \<or> rc_ledger c' = Some (envelope_of c')"
    using recovery_effect [OF assms(2) False] by metis
  have "distinct (map ri_ID (en_Items e))" "\<forall>i\<in>set (en_Items e). canonical (ri_ID i)"
    using load_items [OF e(1)] assms(1) by (auto simp: sound_def ledger_ok_def split: option.splits)
  then have "queue_ok c'" using e(2) by (auto simp: queue_ok_def o_def distinct_map_filter)
  then show ?thesis using e(3) assms(1) ledger_ok_current by (auto simp: sound_def ledger_ok_def)
qed

lemma sound_step: "input_step c ev ids c' \<Longrightarrow> sound c \<Longrightarrow> sound c'"
  by (elim input_stepE) (auto intro: sound_operate sound_restart)

section \<open>Examples\<close>

definition demo_config :: RuntimeInputCoordinatorConfig where
  "demo_config = \<lparr>cf_SessionID = ''s'', cf_ThreadID = ''t'', cf_AgentID = [], cf_Path = ''p'',
     cf_DeferRecoveryPersistence = False, cf_mediaStore = False, cf_promptWriter = 1\<rparr>"

text \<open>The first prompt is claimed; the process crashes; the new one finds both prompts pending.\<close>

definition demo_crashed :: RuntimeInputCoordinator where
  "demo_crashed = fst (run_input demo_input_env (Input_ClaimNextIdle demo_input_scope) demo_coordinator)"

lemma demo_restart:
  "case NewRuntimeInputCoordinator demo_input_env demo_config {} (rc_ledger demo_crashed) of
     Inl _ \<Rightarrow> False
   | Inr c \<Rightarrow> map ri_ID (rc_items c) = [''a'', ''b''] \<and> map fst (rc_admissionReceipts c) = [''a'', ''b'']"
  by code_simp

lemma demo_ledger: "rc_ledger demo_crashed = Some (envelope_of demo_crashed)"
  by code_simp

lemma demo_path: "TrimUnicode (cf_Path demo_config) \<noteq> []"
  by (simp add: demo_config_def plain_eval)

lemma demo_sound: "sound demo_coordinator"
  using demo_queue_ok by (simp add: sound_def ledger_ok_def demo_coordinator_def)

lemma demo_crashed_sound: "sound demo_crashed"
proof -
  obtain c' ids where s: "coordinator_step (demo_input_env, Input_ClaimNextIdle demo_input_scope) demo_coordinator = (c', ids)" by fastforce
  then have "c' = demo_crashed" by (auto simp: coordinator_step_def demo_crashed_def split: prod.splits sum.splits)
  then show ?thesis using sound_operate [OF demo_sound s] by simp
qed

section \<open>Settled input\<close>

definition gone :: "string \<Rightarrow> RuntimeInputCoordinator \<Rightarrow> bool" where
  "gone x c \<longleftrightarrow> x \<in> rc_delivered c \<and> x \<notin> ri_ID ` set (rc_items c)"

text \<open>A restart that reads a transcript holding the identity.\<close>

definition remembers :: "string \<Rightarrow> input_event \<Rightarrow> bool" where
  "remembers x ev = (case ev of Input_Restart _ _ D \<Rightarrow> x \<in> D | _ \<Rightarrow> True)"

lemma gone_inbox: "gone x c \<longleftrightarrow> x \<in> ib_delivered (inbox_of c) \<and> ib_status (inbox_of c) x = None"
  by (simp add: gone_def inbox_of_def status_of_None)

lemma gone_operate:
  assumes "sound c" "coordinator_step (env, op) c = (c', ids)" "gone x c"
  shows "gone x c' \<and> x \<notin> set ids"
proof -
  obtain ev where "inbox_step (inbox_of c) ev (inbox_of c')" "claims ev = ids"
    using coordinator.refines [OF _ assms(2)] assms(1) by (auto simp: sound_def)
  then show ?thesis using assms(3) unfolding gone_inbox
    by (cases rule: inbox_step.cases) (auto simp: claims_def dom_def)
qed

lemma identities_mem: "x \<in> identities ids \<longleftrightarrow> x \<noteq> [] \<and> (\<exists>y\<in>set ids. x = TrimUnicode y)"
  by (auto simp: identities_def)

lemma gone_restart:
  assumes "sound c" "NewRuntimeInputCoordinator env config D (rc_ledger c) = Inr c'" "x \<in> D"
  shows "gone x c'"
proof (cases "TrimUnicode (cf_Path config) = []")
  case True
  then show ?thesis using new_without_path [OF True assms(2)] assms(3) by (auto simp: gone_def new_coordinator_def)
next
  case False
  obtain e where e: "loadRuntimeInputEnvelope (rc_ledger c) = Inr e" "D \<subseteq> rc_delivered c'"
    "rc_items c' = map (recovered c') (filter (survives (identities (map ri_ID (en_Items e)) \<inter> rc_delivered c')) (en_Items e))"
    using recovery_effect [OF assms(2) False] by metis
  have "canonical (ri_ID i)" if "i \<in> set (en_Items e)" for i
    using that load_items [OF e(1)] assms(1) by (auto simp: sound_def ledger_ok_def split: option.splits)
  then have "x \<notin> ri_ID ` set (rc_items c')"
    using e(2,3) assms(3) by (auto simp: survives_def identities_mem canonical_def)
  then show ?thesis using e(2) assms(3) by (auto simp: gone_def)
qed

text \<open>
  C15. Settled input never comes back: after an operation settled an identity, no later claim hands
  it out and no enqueue brings it back, through failing writes and through restarts whose
  transcript holds the identity.
\<close>

theorem settled_never_again:
  assumes "sound c" "run_input env (Input_Settle ids) c = (c1, Inr [])" "x \<in> identities ids"
    and "input_history c1 evs out c'" "\<forall>ev\<in>set evs. remembers x ev"
  shows "x \<notin> set out \<and> x \<notin> ri_ID ` set (rc_items c')"
proof -
  have s: "coordinator_step (env, Input_Settle ids) c = (c1, [])" using assms(2) by (simp add: coordinator_step_def)
  have q: "queue_ok c" using assms(1) by (simp add: sound_def)
  have "Settle env ids c = (c1, None)" using assms(2) by (simp add: result_simps)
  from Settle_simulated [OF q this] have "gone x c1" using assms(3) unfolding simulated_def gone_inbox
    by (auto elim!: inbox_stepE)
  then have p: "sound c1 \<and> gone x c1" using sound_operate [OF assms(1) s] by simp
  have step: "(sound c' \<and> gone x c') \<and> x \<notin> set ids"
    if "input_step c ev ids c'" "sound c \<and> gone x c" "remembers x ev" for c ev ids c'
    using that gone_operate gone_restart sound_step [OF that(1)] by (auto simp: remembers_def elim!: input_stepE)
  have "(sound c' \<and> gone x c') \<and> x \<notin> set out"
    using assms(4) p assms(5) step by (rule history_invariant [where R = "\<lambda>ids. x \<notin> set ids"]) auto
  then show ?thesis by (simp add: gone_def)
qed

lemma demo_settled:
  "snd (run_input demo_input_env (Input_Settle [''a'']) demo_coordinator) = Inr []"
  "case NewRuntimeInputCoordinator demo_input_env demo_config {''a''}
      (rc_ledger (fst (run_input demo_input_env (Input_Settle [''a'']) demo_coordinator))) of
     Inl _ \<Rightarrow> False | Inr c \<Rightarrow> map ri_ID (rc_items c) = [''b'']"
  by code_simp+

theorem settled_never_again_witness:
  "\<exists>c1 c'. run_input demo_input_env (Input_Settle [''a'']) demo_coordinator = (c1, Inr []) \<and>
     input_history c1 [Input_Restart demo_input_env demo_config {''a''}] [] c' \<and>
     map ri_ID (rc_items c') = [''b''] \<and> ''a'' \<notin> ri_ID ` set (rc_items c')"
proof -
  obtain c1 where c1: "run_input demo_input_env (Input_Settle [''a'']) demo_coordinator = (c1, Inr [])"
    using demo_settled(1) by (metis prod.collapse)
  obtain c' where c': "NewRuntimeInputCoordinator demo_input_env demo_config {''a''} (rc_ledger c1) = Inr c'" "map ri_ID (rc_items c') = [''b'']"
    using demo_settled(2) c1 by (auto split: sum.splits)
  have h: "input_history c1 [Input_Restart demo_input_env demo_config {''a''}] [] c'"
    using input_history.Cons [OF input_step.restart [OF c'(1)] input_history.Nil] by simp
  have "''a'' \<in> identities [''a'']" by (simp add: identities_def plain_eval)
  from settled_never_again [OF demo_sound c1 this h] show ?thesis using c1 c'(2) h by (auto simp: remembers_def)
qed

section \<open>Accepted input\<close>

text \<open>What an item carries, apart from its state and from fields the file does not hold.\<close>

definition payload_of :: "RuntimeItem \<Rightarrow> RuntimeItem" where
  "payload_of i = (fst (normalizeRuntimeItemPayload (wire_item i)))\<lparr>ri_State := RuntimeItemPending, ri_Rejection := None\<rparr>"

lemma payload_of_state: "payload_of (i\<lparr>ri_State := s\<rparr>) = payload_of i"
  by (auto simp: payload_of_def wire_item_def normalizeRuntimeItemPayload_def Let_def split: option.splits)

lemma wire_prompt_idem [simp]: "wire_prompt (wire_prompt p) = wire_prompt p"
  by (simp add: wire_prompt_def)

lemma payload_of_wire: "payload_of (wire_item i) = payload_of i"
  by (simp add: payload_of_def wire_item_def option.map_comp o_def)

lemma wire_recovered_item: "wire_item (recovered_item c i) = wire_item i"
  by (cases "ri_UserPrompt i") (auto simp: wire_item_def recovered_item_def wire_prompt_def)

lemma wire_normalize: "wire_item (fst (normalizeRuntimeItemPayload i)) = fst (normalizeRuntimeItemPayload (wire_item i))"
  by (auto simp: wire_item_def normalizeRuntimeItemPayload_def wire_prompt_def Let_def split: option.splits)

lemma trim_trim: "TrimUnicode (TrimUnicode s) = TrimUnicode s"
  by (simp add: TrimUnicode_iff utrimmed_TrimUnicode)

lemma normalize_idem: "fst (normalizeRuntimeItemPayload (fst (normalizeRuntimeItemPayload i))) = fst (normalizeRuntimeItemPayload i)"
proof -
  have untouched: "normalizeRuntimeItemPayload i = (i, False)"
    if "is_prompt (ri_Kind i) \<Longrightarrow> ri_UserPrompt i = None" "ri_Kind i = RuntimeItemAgentNotification \<Longrightarrow> ri_AgentNotification i = None"
    using that by (simp add: normalizeRuntimeItemPayload_def)
  consider (prompt) p where "is_prompt (ri_Kind i)" "ri_UserPrompt i = Some p"
    | (notification) n where "ri_Kind i = RuntimeItemAgentNotification" "ri_AgentNotification i = Some n"
    | (other) "normalizeRuntimeItemPayload i = (i, False)"
    using untouched by (metis not_None_eq)
  then show ?thesis
  proof cases
    case prompt
    then show ?thesis by (simp add: normalizeRuntimeItemPayload_def o_def)
  next
    case notification
    define m where "m = n\<lparr>an_ReceiptVersion := (if an_ReceiptVersion n = 0 then AgentCompletionReceiptVersion else an_ReceiptVersion n),
      an_CompletionID := (if TrimUnicode (an_CompletionID n) = [] then TrimUnicode (ri_ID i) else an_CompletionID n),
      an_Generation := (if an_Generation n \<le> 0 then 1 else an_Generation n),
      an_TerminalSequence := (if an_TerminalSequence n = 0 then word_of_int (if an_Generation n \<le> 0 then 1 else an_Generation n)
        else an_TerminalSequence n)\<rparr>"
    have m: "an_ReceiptVersion m \<noteq> 0" "an_Generation m > 0" "TrimUnicode (an_CompletionID m) = [] \<Longrightarrow> an_CompletionID m = TrimUnicode (ri_ID i)"
      "an_TerminalSequence m = 0 \<Longrightarrow> word_of_int (an_Generation m) = (0 :: uint64)"
      by (auto simp: m_def AgentCompletionReceiptVersion_def trim_trim split: if_splits)
    have "fst (normalizeRuntimeItemPayload i) = i\<lparr>ri_AgentNotification := Some m\<rparr>"
      using notification by (simp add: normalizeRuntimeItemPayload_def is_prompt_def Let_def m_def)
    moreover have "fst (normalizeRuntimeItemPayload (i\<lparr>ri_AgentNotification := Some m\<rparr>)) = i\<lparr>ri_AgentNotification := Some m\<rparr>"
      using notification(1) m by (simp add: normalizeRuntimeItemPayload_def is_prompt_def Let_def)
    ultimately show ?thesis by simp
  next
    case other
    then show ?thesis by simp
  qed
qed

lemma payload_of_recovered: "payload_of (recovered c i) = payload_of i"
  by (simp add: recovered_def payload_of_state) (simp add: payload_of_def wire_normalize wire_recovered_item normalize_idem)

definition carries :: "string \<Rightarrow> RuntimeItem \<Rightarrow> RuntimeItem list \<Rightarrow> bool" where
  "carries x p items \<longleftrightarrow> (\<exists>i\<in>set items. ri_ID i = x \<and> payload_of i = p \<and> ri_State i \<noteq> RuntimeItemRejected)"

text \<open>An input is held when both the queue and the file carry it.\<close>

definition held :: "string \<Rightarrow> RuntimeItem \<Rightarrow> RuntimeInputCoordinator \<Rightarrow> bool" where
  "held x p c \<longleftrightarrow> carries x p (rc_items c) \<and> (case rc_ledger c of None \<Rightarrow> False | Some e \<Rightarrow> carries x p (en_Items e))"

text \<open>The operations that take an input out of the queue or reject it.\<close>

definition removes :: "string \<Rightarrow> input_op \<Rightarrow> bool" where
  "removes x op = (case op of
     Input_Settle ids \<Rightarrow> x \<in> identities ids
   | Input_Cancel y \<Rightarrow> y = x
   | Input_Edit _ y _ \<Rightarrow> TrimUnicode y = x
   | Input_Reject y _ _ \<Rightarrow> TrimUnicode y = x
   | _ \<Rightarrow> False)"

lemma payload_of_ID: "ri_ID (payload_of i) = ri_ID i" "ri_Kind (payload_of i) = ri_Kind i"
  by (simp_all add: payload_of_def normalize_keeps)

lemma carries_append: "carries x p items \<Longrightarrow> carries x p (items @ news)"
  by (auto simp: carries_def)

lemma carries_filter:
  "carries x p items \<Longrightarrow> (\<And>i. i \<in> set items \<Longrightarrow> ri_ID i = x \<Longrightarrow> payload_of i = p \<Longrightarrow> P i) \<Longrightarrow> carries x p (filter P items)"
  by (auto simp: carries_def)

lemma carries_update:
  assumes "carries x p items" "i < length items \<Longrightarrow> ri_ID (items ! i) = x \<Longrightarrow> ri_ID v = x \<and> payload_of v = payload_of (items ! i) \<and> ri_State v \<noteq> RuntimeItemRejected"
  shows "carries x p (items[i := v])"
proof -
  obtain k where k: "k < length items" "ri_ID (items ! k) = x" "payload_of (items ! k) = p" "ri_State (items ! k) \<noteq> RuntimeItemRejected"
    using assms(1) by (auto simp: carries_def in_set_conv_nth)
  then have "items[i := v] ! k \<in> set (items[i := v])" by simp
  moreover have "ri_ID (items[i := v] ! k) = x \<and> payload_of (items[i := v] ! k) = p \<and> ri_State (items[i := v] ! k) \<noteq> RuntimeItemRejected"
    using k assms(2) by (cases "k = i") auto
  ultimately show ?thesis unfolding carries_def by blast
qed

lemma carries_mark: "carries x p items \<Longrightarrow> st \<noteq> RuntimeItemRejected \<Longrightarrow> carries x p (mark st i items)"
  unfolding mark_def by (rule carries_update) (auto simp: payload_of_state)

lemma carries_claimed: "carries x p items \<Longrightarrow> carries x p (mark RuntimeItemProcessing i items)"
  by (simp add: carries_mark)

lemma carries_claims: "carries x p items \<Longrightarrow> claim_loop env c is items = Inr (ys, ms) \<Longrightarrow> carries x p ys"
  by (induction "is" arbitrary: items ms) (auto simp: Let_def split: sum.splits, blast intro: carries_claimed)

lemma commit_carries: "commit_items env items c = Inr c' \<Longrightarrow> carries x p items \<Longrightarrow> carries x p (rc_items c')"
  using commit_items_effect(3) by simp

lemma claim_at_carries: "carries x p (rc_items c) \<Longrightarrow> claim_at env i c = (c', Inr r) \<Longrightarrow> carries x p (rc_items c')"
  by (auto simp: claim_at_def Let_def split: option.splits sum.splits dest!: commit_carries [OF _ carries_claimed])

lemma enqueue_carries:
  assumes "carries x p (rc_items c)" "enqueueBatchLocked env items k n b a c = (c', Inr xs)"
  shows "carries x p (rc_items c')"
proof -
  have one: "carries x p (es_candidate s')" if "enqueue_one env c k n a i s = Inr s'" "carries x p (es_candidate s)" for i s s'
    using enqueue_one_candidate [OF that(1)] that(2) carries_append by auto
  have "enqueue_loop env c k n a items s = Inr s' \<Longrightarrow> carries x p (es_candidate s) \<Longrightarrow> carries x p (es_candidate s')" for s s'
    by (induction items arbitrary: s) (auto split: sum.splits dest: one)
  then show ?thesis using assms by (auto simp: enqueueBatchLocked_def Let_def persist_Inr signal_def split: sum.splits if_splits)
qed

lemma Settle_carries:
  assumes "carries x p (rc_items c)" "Settle env ids c = (c', None)" "x \<notin> identities ids"
  shows "carries x p (rc_items c')"
  using assms carries_filter [of x p "rc_items c" "\<lambda>i. ri_ID i \<notin> identities ids"]
  by (auto simp: Settle_def Let_def split: if_splits sum.splits dest: commit_carries)

lemma Settle_stops_carries:
  assumes "carries x p (rc_items c)" "settleStopRequests env scope c = (c', None)" "ri_Kind p \<noteq> RuntimeItemStop" "queue_ok c"
  shows "carries x p (rc_items c')"
proof -
  let ?ids = "map ri_ID (filter (\<lambda>i. ri_Kind i = RuntimeItemStop \<and> in_scope c scope i) (rc_items c))"
  obtain k where k: "k \<in> set (rc_items c)" "ri_ID k = x" "ri_Kind k \<noteq> RuntimeItemStop"
    using assms(1,3) payload_of_ID(2) by (auto simp: carries_def)
  have "x \<notin> identities ?ids"
  proof
    assume "x \<in> identities ?ids"
    then obtain i where i: "i \<in> set (rc_items c)" "ri_Kind i = RuntimeItemStop" "x = TrimUnicode (ri_ID i)" by (auto simp: identities_mem)
    then have "ri_ID i = ri_ID k" using assms(4) k(2) by (auto simp: queue_ok_def canonical_def)
    then have "i = k" using assms(4) i(1) k(1) by (auto simp: queue_ok_def distinct_map inj_on_def)
    then show False using i(2) k(3) by simp
  qed
  then show ?thesis using Settle_carries [OF assms(1)] assms(2) by (auto simp: settleStopRequests_def)
qed

lemma Edit_carries:
  assumes "carries x p (rc_items c)" "editPendingUserPrompt env draft y scope c = (c', Inr r)" "TrimUnicode y \<noteq> x" "queue_ok c"
  shows "carries x p (rc_items c')"
proof (cases r)
  case None
  then show ?thesis using assms by (auto simp: editPendingUserPrompt_def split: if_splits option.splits sum.splits)
next
  case (Some a)
  then obtain i where i: "first_index (\<lambda>item. ri_ID item = TrimUnicode y \<and> ri_Kind item = RuntimeItemUserPrompt \<and>
      ri_State item = RuntimeItemPending \<and> in_scope c scope item) (rc_items c) = Some i"
    "commit_items env (take i (rc_items c) @ drop (Suc i) (rc_items c)) c = Inr c'"
    using assms(2) by (auto simp: editPendingUserPrompt_def split: if_splits option.splits sum.splits)
  have "take i (rc_items c) @ drop (Suc i) (rc_items c) = filter (\<lambda>j. ri_ID j \<noteq> TrimUnicode y) (rc_items c)"
    using remove_nth_filter [of "rc_items c" i] first_indexD [OF i(1)] assms(4) by (simp add: queue_ok_def)
  then show ?thesis using commit_carries [OF i(2)] carries_filter [OF assms(1)] assms(3) by auto
qed

lemma Reject_carries:
  assumes "carries x p (rc_items c)" "rejectGoalContinuation env y code at c = (c', None)" "TrimUnicode y \<noteq> x"
  shows "carries x p (rc_items c')"
proof (cases "c' = c")
  case False
  then obtain i v where i: "i < length (rc_items c)" "ri_ID (rc_items c ! i) = TrimUnicode y" "commit_items env ((rc_items c)[i := v]) c = Inr c'"
    using assms(2) by (auto simp: rejectGoalContinuation_def Let_def dest!: first_indexD split: if_splits option.splits sum.splits)
  then show ?thesis using commit_carries [OF i(3)] carries_update [OF assms(1), of i v] assms(3) by auto
qed (use assms in simp)

lemma run_input_carries:
  assumes "carries x p (rc_items c)" "run_input env op c = (c', Inr xs)" "\<not> removes x op" "ri_Kind p \<noteq> RuntimeItemStop" "queue_ok c"
  shows "carries x p (rc_items c')"
proof -
  note enq = enqueue_carries [OF assms(1)] and claim = claim_at_carries [OF assms(1)]
  have one: "carries x p (rc_items c')" if "single (enqueueBatchLocked env [i] k n b a c) = (c', Inr j)" for i k n b a c' j
    using enq singleD [OF that] by blast
  have bounded: "carries x p (rc_items c')" if "EnqueueBounded env i n c = (c', Inr j)" for i n c' j
    using that one by (auto simp: EnqueueBounded_def split: if_splits)
  show ?thesis
  proof (cases op)
    case (Input_ClaimSafePoint scope u l)
    then show ?thesis using assms(1,2) carries_claims commit_carries
      by (fastforce simp: ClaimSafePoint_def Let_def split: if_splits sum.splits)
  next
    case (Input_EnqueueDormant item)
    then show ?thesis using assms(2) one
      by (auto simp: result_simps enqueueDormantGoalContinuation_def signalGoal_def split: if_splits prod.splits sum.splits)
  next
    case (Input_EnqueueDurable item r n)
    then show ?thesis using assms(2) bounded
      by (auto simp: result_simps enqueueDurableUserPrompt_def split: if_splits option.splits prod.splits sum.splits)
  next
    case (Input_ClaimStop scope)
    then show ?thesis using assms(1,2) commit_carries [OF _ carries_claimed]
      by (auto simp: result_simps ClaimStop_def Let_def split: option.splits sum.splits)
  next
    case (Input_Release y)
    then show ?thesis using assms(1,2) commit_carries [OF _ carries_mark]
      by (auto simp: result_simps Release_def Let_def signal_def signalGoal_def split: if_splits option.splits sum.splits)
  next
    case (Input_Cancel y)
    then show ?thesis using assms(1-3) commit_carries [OF _ carries_filter]
      by (auto simp: result_simps removes_def Cancel_def Let_def split: if_splits sum.splits)
  qed (use assms one bounded enq claim Settle_carries [OF assms(1)] Settle_stops_carries [OF assms(1) _ assms(4,5)]
      Edit_carries [OF assms(1) _ _ assms(5)] Reject_carries [OF assms(1)] in
      \<open>auto simp: result_simps removes_def EnqueueBatch_def EnqueueBoundedWithAdmissionReceipt_def ClaimNextIdle_def claimGoalContinuation_def
        claimByID_def resolveDelivered_def processingDurableRuntimePrompt_def commitDeferredRecovery_def persist_recovery_def
        persistLocked_def persist_Inr Let_def split: if_splits option.splits sum.splits\<close>)
qed

lemma held_ledger:
  assumes "carries x p (rc_items c')" "rc_ledger c' = rc_ledger c \<or> rc_ledger c' = Some (envelope_of c')" "held x p c"
  shows "held x p c'"
proof -
  have "carries x p (en_Items (envelope_of c'))"
    using assms(1) by (auto simp: carries_def envelope_of_def payload_of_wire)
  then show ?thesis using assms by (auto simp: held_def)
qed

lemma held_operate:
  assumes "sound c" "held x p c" "coordinator_step (env, op) c = (c', ids)" "\<not> removes x op" "ri_Kind p \<noteq> RuntimeItemStop"
  shows "held x p c'"
proof -
  obtain r where r: "run_input env op c = (c', r)" using assms(3) by (auto simp: coordinator_step_def split: prod.splits sum.splits)
  have "carries x p (rc_items c')"
  proof (cases r)
    case (Inl err)
    then show ?thesis using failed_is_quiet [of env op c c' err] r assms(2) by (simp add: held_def)
  next
    case (Inr xs)
    then show ?thesis using run_input_carries r assms(1,2,4,5) by (auto simp: held_def sound_def)
  qed
  then show ?thesis using held_ledger ahead_ledger [OF operate_ahead [OF assms(3)]] assms(2) by blast
qed

definition harmless :: "string \<Rightarrow> input_event \<Rightarrow> bool" where
  "harmless x ev \<longleftrightarrow> (case ev of
     Input_Op _ op \<Rightarrow> \<not> removes x op
   | Input_Restart env config D \<Rightarrow> TrimUnicode (cf_Path config) \<noteq> [] \<and> x \<notin> D \<and> \<not> transcript_finds env x)"

lemma held_restart:
  assumes "held x p c" "NewRuntimeInputCoordinator env config D (rc_ledger c) = Inr c'" "harmless x (Input_Restart env config D)"
    and "ri_Kind p \<noteq> RuntimeItemStop"
  shows "held x p c'"
proof -
  have path: "TrimUnicode (cf_Path config) \<noteq> []" "x \<notin> D" "\<not> transcript_finds env x" using assms(3) by (auto simp: harmless_def)
  obtain e where e: "loadRuntimeInputEnvelope (rc_ledger c) = Inr e" "rc_delivered c' \<subseteq> D \<union> {x. transcript_finds env x}"
    "rc_items c' = map (recovered c') (filter (survives (identities (map ri_ID (en_Items e)) \<inter> rc_delivered c')) (en_Items e))"
    "rc_ledger c' = rc_ledger c \<or> rc_ledger c' = Some (envelope_of c')"
    using recovery_effect [OF assms(2) path(1)] by metis
  obtain i where i: "i \<in> set (en_Items e)" "ri_ID i = x" "payload_of i = p" "ri_State i \<noteq> RuntimeItemRejected"
    using load_items [OF e(1)] assms(1) by (auto simp: held_def carries_def split: option.splits)
  then have "survives (identities (map ri_ID (en_Items e)) \<inter> rc_delivered c') i"
    using path e(2) assms(4) payload_of_ID(2) [of i] by (auto simp: survives_def)
  then have "recovered c' i \<in> set (rc_items c')" using e(3) i(1) by simp
  then have "carries x p (rc_items c')" using i by (auto simp: carries_def payload_of_recovered intro!: bexI [of _ "recovered c' i"])
  then show ?thesis using held_ledger e(4) assms(1) by blast
qed

lemma held_step:
  assumes "input_step c ev ids c'" "sound c" "held x p c" "harmless x ev" "ri_Kind p \<noteq> RuntimeItemStop"
  shows "held x p c'"
  using assms(1)
proof (cases rule: input_step.cases)
  case (operate env op)
  then show ?thesis using held_operate [OF assms(2,3) _ _ assms(5)] assms(4) by (auto simp: harmless_def)
next
  case (restart env config D)
  then show ?thesis using held_restart [OF assms(3) _ _ assms(5)] assms(4) by blast
qed

text \<open>
  C14. Accepted input is not lost: an item in the queue that is neither a stop request nor rejected
  stays in the queue with the payload it was accepted with until an operation settles, cancels,
  edits or rejects it, through failing writes and through crashes after which the transcript does
  not hold it.
\<close>

theorem accepted_not_lost:
  assumes "sound c" "rc_ledger c = Some (envelope_of c)" "i \<in> set (rc_items c)" "ri_State i \<noteq> RuntimeItemRejected"
    and "ri_Kind i \<noteq> RuntimeItemStop" "input_history c evs out c'" "\<forall>ev\<in>set evs. harmless (ri_ID i) ev"
  shows "\<exists>j\<in>set (rc_items c'). ri_ID j = ri_ID i \<and> payload_of j = payload_of i \<and> ri_State j \<noteq> RuntimeItemRejected"
proof -
  let ?P = "\<lambda>c. sound c \<and> held (ri_ID i) (payload_of i) c"
  have k: "ri_Kind (payload_of i) \<noteq> RuntimeItemStop" using assms(5) by (simp add: payload_of_ID)
  have c: "carries (ri_ID i) (payload_of i) (rc_items c)" using assms(3,4) by (auto simp: carries_def)
  then have "carries (ri_ID i) (payload_of i) (en_Items (envelope_of c))" by (auto simp: carries_def envelope_of_def payload_of_wire)
  then have p: "?P c" using assms(1,2) c by (simp add: held_def)
  have step: "?P c' \<and> True" if "input_step c ev ids c'" "?P c" "harmless (ri_ID i) ev" for c ev ids c'
    using held_step [OF that(1) _ _ that(3) k] that(2) sound_step [OF that(1)] by blast
  have "?P c' \<and> True" using assms(6) p assms(7) step by (rule history_invariant [where R = "\<lambda>_. True"]) auto
  then show ?thesis by (auto simp: held_def carries_def)
qed

lemma demo_first:
  "ri_ID (hd (rc_items demo_crashed)) = ''a''" "ri_State (hd (rc_items demo_crashed)) \<noteq> RuntimeItemRejected"
  "ri_Kind (hd (rc_items demo_crashed)) \<noteq> RuntimeItemStop" "rc_items demo_crashed \<noteq> []"
  by code_simp+

theorem accepted_not_lost_witness:
  "\<exists>c'. input_history demo_crashed [Input_Restart demo_input_env demo_config {}] [] c' \<and>
     (\<exists>j\<in>set (rc_items c'). ri_ID j = ''a'' \<and> payload_of j = payload_of (hd (rc_items demo_crashed)))"
proof -
  obtain c' where c': "NewRuntimeInputCoordinator demo_input_env demo_config {} (rc_ledger demo_crashed) = Inr c'"
    using demo_restart by (auto split: sum.splits)
  have h: "input_history demo_crashed [Input_Restart demo_input_env demo_config {}] [] c'"
    using input_history.Cons [OF input_step.restart [OF c'] input_history.Nil] by simp
  have "\<forall>ev\<in>set [Input_Restart demo_input_env demo_config {}]. harmless (ri_ID (hd (rc_items demo_crashed))) ev"
    using demo_path by (simp add: harmless_def transcript_finds_def demo_input_env_def)
  from accepted_not_lost [OF demo_crashed_sound demo_ledger hd_in_set [OF demo_first(4)] demo_first(2,3) h this]
  show ?thesis using h demo_first(1) by auto
qed

text \<open>
  Recovery is exact: the recovered queue holds, in the order of the file, exactly the items
  that are not rejected, not delivered according to the transcript and no stop requests, and all
  of them are pending again.
\<close>

lemma recovery_exact:
  assumes "NewRuntimeInputCoordinator env config D (Some e) = Inr c'" "TrimUnicode (cf_Path config) \<noteq> []"
  shows "rc_items c' = map (recovered c') (filter (survives (identities (map ri_ID (en_Items e)) \<inter> rc_delivered c')) (en_Items e)) \<and>
    D \<subseteq> rc_delivered c' \<and> list_all (\<lambda>i. ri_State i = RuntimeItemPending) (rc_items c')"
proof -
  obtain f where f: "loadRuntimeInputEnvelope (Some e) = Inr f" "D \<subseteq> rc_delivered c'"
    "rc_items c' = map (recovered c') (filter (survives (identities (map ri_ID (en_Items f)) \<inter> rc_delivered c')) (en_Items f))"
    using recovery_effect [OF assms] by metis
  then have "f = e" using load_items [OF f(1)] by simp
  moreover have "list_all (\<lambda>i. ri_State i = RuntimeItemPending) (map (recovered c') xs)" for xs by (simp add: list_all_iff)
  ultimately show ?thesis using f(2,3) by metis
qed

lemma recovery_exact_witness:
  "\<exists>e c'. rc_ledger demo_crashed = Some e \<and> NewRuntimeInputCoordinator demo_input_env demo_config {} (Some e) = Inr c' \<and>
     map ri_ID (rc_items c') = [''a'', ''b''] \<and> list_all (\<lambda>i. ri_State i = RuntimeItemPending) (rc_items c')"
proof -
  obtain c' where c': "NewRuntimeInputCoordinator demo_input_env demo_config {} (rc_ledger demo_crashed) = Inr c'"
    "map ri_ID (rc_items c') = [''a'', ''b'']"
    using demo_restart by (auto split: sum.splits)
  have n: "NewRuntimeInputCoordinator demo_input_env demo_config {} (Some (envelope_of demo_crashed)) = Inr c'"
    using c'(1) demo_ledger by simp
  have "list_all (\<lambda>i. ri_State i = RuntimeItemPending) (rc_items c')" using recovery_exact [OF n demo_path] by blast
  with c'(2) demo_ledger n show ?thesis by (intro exI conjI)
qed

end
