(* ===== verification/Tool_Schedule.thy ===== *)
theory Tool_Schedule
  imports Go_Text Tool_Input
begin

text \<open>
  The schedule of a round of tool calls (src/engine/tool_schedule.go) and the partition of calls
  into batches (src/engine/tool_orchestration.go).  A round freezes the calls of one model reply
  in their order: adjacent calls that are safe to run concurrently share a batch, any other call
  is a batch of its own.  After the round, one decision says whether the loop continues, returns
  or is interrupted.

  Of a \<open>schema.ToolCall\<close> the code reads the ID and the name and arguments of the function.  A
  classifier that panics is one whose answer is \<open>None\<close>.  SHA-256 (in hexadecimal), the JSON text
  of the calls and the JSON decoder of arguments are arguments of the definitions.
\<close>

section \<open>Data\<close>

record ToolCall =
  tl_ID :: string
  tl_Name :: string
  tl_Arguments :: string

record toolScheduleCall =
  ts_Ordinal :: int
  ts_CallID :: string
  ts_ToolName :: string
  ts_ArgumentsDigest :: string
  ts_Batch :: int
  ts_ConcurrencySafe :: bool

record toolSchedule =
  td_RoundID :: string
  td_Calls :: "toolScheduleCall list"

datatype schedule_error =
    NoCalls
  | NilCall int
  | NoCallID int
  | NonCanonicalID int
  | DuplicateCallID string
  | NoToolName string
  | NonCanonicalToolName string
  | InvalidRoundID
  | OrdinalOutOfOrder int
  | IncompleteCall int
  | NonCanonicalIdentity int
  | InvalidArgumentsDigest string
  | FirstBatchNotZero
  | SafeCallStartsBatch string
  | NoSerialBarrier string
  | RoundIDMismatch
  | OutcomesIncomplete
  | OutcomeOutOfOrder int
  | DuplicateOutcome string
  | NotExactlyOne string
  | NoPrimaryResult string
  | MismatchedResult string

record schedule_env =
  sv_sha256 :: "string \<Rightarrow> string"
  sv_json :: "toolScheduleCall list \<Rightarrow> string"

section \<open>Building a schedule\<close>

definition toolArgumentsDigest :: "schedule_env \<Rightarrow> string \<Rightarrow> string" where
  "toolArgumentsDigest env arguments = sv_sha256 env arguments"

definition toolScheduleRoundID :: "schedule_env \<Rightarrow> toolScheduleCall list \<Rightarrow> string" where
  "toolScheduleRoundID env calls = sv_sha256 env (sv_json env calls)"

type_synonym classifier = "(ToolCall \<Rightarrow> bool option) option"

definition classifyToolScheduleCall :: "classifier \<Rightarrow> ToolCall \<Rightarrow> bool" where
  "classifyToolScheduleCall classifier call =
     (case classifier of None \<Rightarrow> False | Some f \<Rightarrow> (case f call of None \<Rightarrow> False | Some b \<Rightarrow> b))"

definition scheduled_call :: "schedule_env \<Rightarrow> classifier \<Rightarrow> int \<Rightarrow> int \<Rightarrow> bool \<Rightarrow> ToolCall \<Rightarrow> toolScheduleCall" where
  "scheduled_call env classifier ordinal batch previousSafe call =
     (let safe = classifyToolScheduleCall classifier call in
      \<lparr>ts_Ordinal = ordinal, ts_CallID = tl_ID call, ts_ToolName = tl_Name call,
       ts_ArgumentsDigest = toolArgumentsDigest env (tl_Arguments call),
       ts_Batch = (if ordinal = 0 \<or> \<not> safe \<or> \<not> previousSafe then batch + 1 else batch), ts_ConcurrencySafe = safe\<rparr>)"

fun schedule_loop ::
  "schedule_env \<Rightarrow> classifier \<Rightarrow> string set \<Rightarrow> int \<Rightarrow> int \<Rightarrow> bool \<Rightarrow> ToolCall option list \<Rightarrow> schedule_error + toolScheduleCall list" where
  "schedule_loop env classifier seen ordinal batch previousSafe [] = Inr []"
| "schedule_loop env classifier seen ordinal batch previousSafe (None # calls) = Inl (NilCall ordinal)"
| "schedule_loop env classifier seen ordinal batch previousSafe (Some call # calls) =
     (let callID = TrimUnicode (tl_ID call); toolName = TrimUnicode (tl_Name call) in
      if callID = [] then Inl (NoCallID ordinal)
      else if tl_ID call \<noteq> callID then Inl (NonCanonicalID ordinal)
      else if callID \<in> seen then Inl (DuplicateCallID callID)
      else if toolName = [] then Inl (NoToolName callID)
      else if tl_Name call \<noteq> toolName then Inl (NonCanonicalToolName callID)
      else let c = scheduled_call env classifier ordinal batch previousSafe call in
        map_sum id ((#) c) (schedule_loop env classifier (insert callID seen) (ordinal + 1) (ts_Batch c) (ts_ConcurrencySafe c) calls))"

text \<open>
  \<open>strings.EqualFold\<close>, on the hexadecimal strings it is reached with.
\<close>

definition EqualFold_hex :: "string \<Rightarrow> string \<Rightarrow> bool" where
  "EqualFold_hex s t \<longleftrightarrow> ToLower s = ToLower t"

definition batch_error :: "toolScheduleCall option \<Rightarrow> toolScheduleCall \<Rightarrow> schedule_error option" where
  "batch_error previous call =
     (case previous of
        None \<Rightarrow> if ts_Batch call \<noteq> 0 then Some FirstBatchNotZero else None
      | Some p \<Rightarrow>
         if ts_ConcurrencySafe call \<and> ts_ConcurrencySafe p
         then (if ts_Batch call \<noteq> ts_Batch p then Some (SafeCallStartsBatch (ts_CallID call)) else None)
         else if ts_Batch call \<noteq> ts_Batch p + 1 then Some (NoSerialBarrier (ts_CallID call))
         else None)"

fun validate_calls ::
  "string set \<Rightarrow> int \<Rightarrow> toolScheduleCall option \<Rightarrow> toolScheduleCall list \<Rightarrow> schedule_error option" where
  "validate_calls seen i previous [] = None"
| "validate_calls seen i previous (call # calls) =
     (if ts_Ordinal call \<noteq> i then Some (OrdinalOutOfOrder (ts_Ordinal call))
      else if TrimUnicode (ts_CallID call) = [] \<or> TrimUnicode (ts_ToolName call) = [] then Some (IncompleteCall i)
      else if ts_CallID call \<noteq> TrimUnicode (ts_CallID call) \<or> ts_ToolName call \<noteq> TrimUnicode (ts_ToolName call)
      then Some (NonCanonicalIdentity i)
      else if ts_CallID call \<in> seen then Some (DuplicateCallID (ts_CallID call))
      else if \<not> hex_digest (ts_ArgumentsDigest call) then Some (InvalidArgumentsDigest (ts_CallID call))
      else case batch_error previous call of
        Some err \<Rightarrow> Some err
      | None \<Rightarrow> validate_calls (insert (ts_CallID call) seen) (i + 1) (Some call) calls)"

definition validateToolSchedule :: "schedule_env \<Rightarrow> toolSchedule \<Rightarrow> schedule_error option" where
  "validateToolSchedule env schedule =
     (if td_Calls schedule = [] then Some NoCalls
      else if \<not> hex_digest (td_RoundID schedule) then Some InvalidRoundID
      else case validate_calls {} 0 None (td_Calls schedule) of
        Some err \<Rightarrow> Some err
      | None \<Rightarrow>
         if EqualFold_hex (toolScheduleRoundID env (td_Calls schedule)) (td_RoundID schedule) then None
         else Some RoundIDMismatch)"

definition newToolSchedule :: "schedule_env \<Rightarrow> ToolCall option list \<Rightarrow> classifier \<Rightarrow> schedule_error + toolSchedule" where
  "newToolSchedule env toolCalls classifier =
     (if toolCalls = [] then Inl NoCalls
      else case schedule_loop env classifier {} 0 (- 1) False toolCalls of
        Inl err \<Rightarrow> Inl err
      | Inr calls \<Rightarrow>
         let schedule = \<lparr>td_RoundID = toolScheduleRoundID env calls, td_Calls = calls\<rparr> in
         (case validateToolSchedule env schedule of Some err \<Rightarrow> Inl err | None \<Rightarrow> Inr schedule))"

section \<open>The decision after a round\<close>

text \<open>Of a tool message and its outcome: the fields the decision reads.\<close>

record toolExecutionOutcome =
  oc_Result :: "string option"  \<comment> \<open>the \<open>ToolCallID\<close> of the primary result\<close>
  oc_PreventContinuation :: bool

record toolRoundOutcome =
  ro_CallID :: string
  ro_Outcome :: "toolExecutionOutcome option"
  ro_InterruptID :: string

text \<open>A return carries the reason \<open>hook_stopped\<close>, the others none.\<close>

datatype afterToolDecision =
    afterToolContinue
  | afterToolReturn string
  | afterToolInterrupt string

fun check_outcomes :: "string set \<Rightarrow> int \<Rightarrow> toolScheduleCall list \<Rightarrow> toolRoundOutcome list \<Rightarrow> schedule_error option" where
  "check_outcomes seen i (planned # calls) (outcome # outcomes) =
     (let hasInterrupt = TrimUnicode (ro_InterruptID outcome) \<noteq> [] in
      if ro_CallID outcome \<noteq> ts_CallID planned then Some (OutcomeOutOfOrder i)
      else if ro_CallID outcome \<in> seen then Some (DuplicateOutcome (ro_CallID outcome))
      else if hasInterrupt = (ro_Outcome outcome \<noteq> None) then Some (NotExactlyOne (ro_CallID outcome))
      else case ro_Outcome outcome of
        None \<Rightarrow> check_outcomes (insert (ro_CallID outcome) seen) (i + 1) calls outcomes
      | Some r \<Rightarrow>
         (case oc_Result r of
            None \<Rightarrow> Some (NoPrimaryResult (ro_CallID outcome))
          | Some callID \<Rightarrow>
             (if callID \<noteq> ro_CallID outcome then Some (MismatchedResult (ro_CallID outcome))
              else check_outcomes (insert (ro_CallID outcome) seen) (i + 1) calls outcomes)))"
| "check_outcomes seen i _ _ = None"

definition interrupted :: "toolRoundOutcome \<Rightarrow> bool" where
  "interrupted outcome \<longleftrightarrow> TrimUnicode (ro_InterruptID outcome) \<noteq> []"

definition prevents :: "toolRoundOutcome \<Rightarrow> bool" where
  "prevents outcome \<longleftrightarrow> (case ro_Outcome outcome of None \<Rightarrow> False | Some r \<Rightarrow> oc_PreventContinuation r)"

definition decideAfterToolRound :: "schedule_env \<Rightarrow> toolSchedule \<Rightarrow> toolRoundOutcome list \<Rightarrow> schedule_error + afterToolDecision" where
  "decideAfterToolRound env schedule outcomes =
     (case validateToolSchedule env schedule of
        Some err \<Rightarrow> Inl err
      | None \<Rightarrow>
         if length outcomes \<noteq> length (td_Calls schedule) then Inl OutcomesIncomplete
         else case check_outcomes {} 0 (td_Calls schedule) outcomes of
           Some err \<Rightarrow> Inl err
         | None \<Rightarrow>
            Inr (case find interrupted outcomes of
                Some outcome \<Rightarrow> afterToolInterrupt (TrimUnicode (ro_InterruptID outcome))
              | None \<Rightarrow>
                 (case find prevents outcomes of
                    Some outcome \<Rightarrow> afterToolReturn (ro_CallID outcome)
                  | None \<Rightarrow> afterToolContinue)))"

section \<open>Batches\<close>

record ToolImpl =
  im_IsConcurrencySafe :: "(tool_input \<Rightarrow> bool option) option"
  im_IsPlanModeTransition :: bool
  im_InterruptBehavior :: string

type_synonym registry = "(string \<Rightarrow> ToolImpl option) option"

text \<open>Unmarshalling into a map accepts an object, and leaves the map nil on \<open>null\<close>.\<close>

definition parseToolInput :: "(string \<Rightarrow> jval option) \<Rightarrow> string \<Rightarrow> tool_input option" where
  "parseToolInput unmarshal raw =
     (case unmarshal (if raw = [] then ''{}'' else raw) of
        Some (JObj inp) \<Rightarrow> Some inp
      | Some JNull \<Rightarrow> Some []
      | _ \<Rightarrow> None)"

definition isToolConcurrencySafe :: "(string \<Rightarrow> jval option) \<Rightarrow> ToolCall option \<Rightarrow> registry \<Rightarrow> bool" where
  "isToolConcurrencySafe unmarshal toolCall registry =
     (case (toolCall, registry) of
        (Some call, Some get) \<Rightarrow>
          (case get (tl_Name call) of
             None \<Rightarrow> False
           | Some impl \<Rightarrow>
              (case im_IsConcurrencySafe impl of
                 None \<Rightarrow> False
               | Some safe \<Rightarrow>
                  (case parseToolInput unmarshal (tl_Arguments call) of
                     None \<Rightarrow> False
                   | Some inp \<Rightarrow> (case safe inp of None \<Rightarrow> False | Some b \<Rightarrow> b))))
      | _ \<Rightarrow> False)"

definition canonicalToolInterruptBehavior :: "registry \<Rightarrow> string \<Rightarrow> string" where
  "canonicalToolInterruptBehavior registry toolName =
     (case registry of
        None \<Rightarrow> ''block''
      | Some get \<Rightarrow>
         (case get toolName of
            None \<Rightarrow> ''block''
          | Some impl \<Rightarrow>
             if im_IsPlanModeTransition impl \<or> im_InterruptBehavior impl = ''cancel'' then ''cancel'' else ''block''))"

record toolBatch =
  tb_IsConcurrencySafe :: bool
  tb_ToolCalls :: "ToolCall option list"

definition add_call :: "(ToolCall option \<Rightarrow> bool) \<Rightarrow> ToolCall option \<Rightarrow> toolBatch list \<Rightarrow> toolBatch list" where
  "add_call safe call batches =
     (if safe call \<and> batches \<noteq> [] \<and> tb_IsConcurrencySafe (last batches)
      then butlast batches @ [(last batches)\<lparr>tb_ToolCalls := tb_ToolCalls (last batches) @ [call]\<rparr>]
      else batches @ [\<lparr>tb_IsConcurrencySafe = safe call, tb_ToolCalls = [call]\<rparr>])"

definition partitionToolCalls :: "(string \<Rightarrow> jval option) \<Rightarrow> ToolCall option list \<Rightarrow> registry \<Rightarrow> toolBatch list" where
  "partitionToolCalls unmarshal toolCalls registry =
     fold (add_call (\<lambda>call. isToolConcurrencySafe unmarshal call registry)) toolCalls []"

section \<open>What a schedule is\<close>

definition canonical_call :: "ToolCall \<Rightarrow> bool" where
  "canonical_call c \<longleftrightarrow> tl_ID c \<noteq> [] \<and> TrimUnicode (tl_ID c) = tl_ID c \<and> tl_Name c \<noteq> [] \<and> TrimUnicode (tl_Name c) = tl_Name c"

definition schedulable :: "ToolCall option list \<Rightarrow> bool" where
  "schedulable calls \<longleftrightarrow>
     list_all (\<lambda>c. case c of None \<Rightarrow> False | Some call \<Rightarrow> canonical_call call) calls \<and> distinct (map (tl_ID \<circ> the) calls)"

lemma schedule_loop_Cons:
  "schedule_loop env cl seen n b p (Some c # calls) =
     (if canonical_call c \<and> tl_ID c \<notin> seen
      then map_sum id ((#) (scheduled_call env cl n b p c))
        (schedule_loop env cl (insert (tl_ID c) seen) (n + 1) (ts_Batch (scheduled_call env cl n b p c))
          (ts_ConcurrencySafe (scheduled_call env cl n b p c)) calls)
      else Inl (projl (schedule_loop env cl seen n b p (Some c # calls))))"
  by (auto simp: canonical_call_def Let_def)

declare schedule_loop.simps(3) [simp del]

lemma schedule_loop_ConsE:
  assumes "schedule_loop env cl seen n b p (call # calls) = Inr cs"
  obtains c cs' where "call = Some c" "canonical_call c" "tl_ID c \<notin> seen" "cs = scheduled_call env cl n b p c # cs'"
    "schedule_loop env cl (insert (tl_ID c) seen) (n + 1) (ts_Batch (scheduled_call env cl n b p c))
       (ts_ConcurrencySafe (scheduled_call env cl n b p c)) calls = Inr cs'"
  using assms by (cases call) (auto simp: schedule_loop_Cons split: if_splits elim!: map_sum_InrE)

lemma scheduled_call_fields [simp]:
  "ts_Ordinal (scheduled_call env cl n b p c) = n" "ts_CallID (scheduled_call env cl n b p c) = tl_ID c"
  "ts_ToolName (scheduled_call env cl n b p c) = tl_Name c"
  "ts_ConcurrencySafe (scheduled_call env cl n b p c) = classifyToolScheduleCall cl c"
  by (simp_all add: scheduled_call_def Let_def)

lemma schedule_loop_succeeds:
  "(\<exists>cs. schedule_loop env cl seen n b p calls = Inr cs) \<longleftrightarrow> schedulable calls \<and> seen \<inter> set (map (tl_ID \<circ> the) calls) = {}"
proof (induction calls arbitrary: seen n b p)
  case (Cons call calls)
  have map_Inr: "(\<exists>cs. map_sum id f r = Inr cs) \<longleftrightarrow> (\<exists>cs. r = Inr cs)"
    for f :: "toolScheduleCall list \<Rightarrow> toolScheduleCall list" and r :: "schedule_error + toolScheduleCall list"
    by (cases r) auto
  show ?case
  proof (cases call)
    case (Some c)
    show ?thesis using Cons.IH by (subst Some, subst schedule_loop_Cons) (auto simp: Some map_Inr schedulable_def)
  qed (simp add: schedulable_def)
qed (simp add: schedulable_def)

lemma schedule_loop_validates:
  assumes "\<And>s. hex_digest (sv_sha256 env s)" "schedule_loop env cl seen n b p calls = Inr cs"
    and "case previous of None \<Rightarrow> n = 0 \<and> b = - 1 | Some q \<Rightarrow> n > 0 \<and> ts_Batch q = b \<and> ts_ConcurrencySafe q = p"
  shows "validate_calls seen n previous cs = None"
  using assms(2,3)
proof (induction calls arbitrary: seen n b p previous cs)
  case (Cons call calls)
  from Cons.prems(1) obtain c cs' where c: "canonical_call c" "tl_ID c \<notin> seen" "cs = scheduled_call env cl n b p c # cs'"
    "schedule_loop env cl (insert (tl_ID c) seen) (n + 1) (ts_Batch (scheduled_call env cl n b p c))
       (ts_ConcurrencySafe (scheduled_call env cl n b p c)) calls = Inr cs'"
    by (rule schedule_loop_ConsE)
  have n: "n \<ge> 0" using Cons.prems(2) by (auto split: option.splits)
  have "validate_calls (insert (tl_ID c) seen) (n + 1) (Some (scheduled_call env cl n b p c)) cs' = None"
    using Cons.IH [OF c(4), of "Some (scheduled_call env cl n b p c)"] n by simp
  moreover have "batch_error previous (scheduled_call env cl n b p c) = None"
    using Cons.prems(2) by (auto simp: batch_error_def scheduled_call_def Let_def split: option.splits)
  moreover have "hex_digest (ts_ArgumentsDigest (scheduled_call env cl n b p c))"
    using assms(1) by (simp add: toolArgumentsDigest_def scheduled_call_def Let_def)
  ultimately show ?case using c(1,2) by (simp add: c(3) canonical_call_def)
qed simp

lemma schedule_loop_calls:
  "schedule_loop env cl seen n b p calls = Inr cs \<Longrightarrow>
     map ts_CallID cs = map (tl_ID \<circ> the) calls \<and> map ts_Ordinal cs = map (\<lambda>i. n + int i) [0..<length calls]"
proof (induction calls arbitrary: seen n b p cs)
  case (Cons call calls)
  from Cons.prems obtain c cs' where c: "call = Some c" "cs = scheduled_call env cl n b p c # cs'"
    "schedule_loop env cl (insert (tl_ID c) seen) (n + 1) (ts_Batch (scheduled_call env cl n b p c))
       (ts_ConcurrencySafe (scheduled_call env cl n b p c)) calls = Inr cs'"
    by (rule schedule_loop_ConsE)
  show ?case using Cons.IH [OF c(3)] by (simp add: c map_upt_Suc ac_simps del: upt_Suc)
qed simp

lemma newToolSchedule_Inr:
  assumes "newToolSchedule env calls cl = Inr s"
  shows "calls \<noteq> [] \<and> schedule_loop env cl {} 0 (- 1) False calls = Inr (td_Calls s) \<and> validateToolSchedule env s = None"
  using assms by (auto simp: newToolSchedule_def Let_def split: if_splits sum.splits option.splits)

lemma schedule_made:
  assumes "\<And>s. hex_digest (sv_sha256 env s)" "calls \<noteq> []" "schedulable calls"
  shows "\<exists>s. newToolSchedule env calls cl = Inr s"
proof -
  obtain cs where cs: "schedule_loop env cl {} 0 (- 1) False calls = Inr cs" using schedule_loop_succeeds assms(3) by blast
  let ?s = "\<lparr>td_RoundID = toolScheduleRoundID env cs, td_Calls = cs\<rparr>"
  have "validate_calls {} 0 None cs = None" using schedule_loop_validates [OF assms(1) cs, of None] by simp
  moreover have "cs \<noteq> []" using schedule_loop_calls [OF cs] assms(2) by auto
  moreover have "hex_digest (toolScheduleRoundID env cs)" using assms(1) by (simp add: toolScheduleRoundID_def)
  ultimately have "validateToolSchedule env ?s = None" by (simp add: validateToolSchedule_def EqualFold_hex_def)
  then show ?thesis using assms(2) cs by (simp add: newToolSchedule_def)
qed

text \<open>
  A schedule is made exactly for a non-empty list of calls with non-empty canonical names and
  distinct canonical identities; it then passes its own validation and lists the calls in the
  order of the model.
\<close>

lemma newToolSchedule_exact:
  assumes "\<And>s. hex_digest (sv_sha256 env s)"
  shows "case newToolSchedule env calls cl of
      Inl _ \<Rightarrow> calls = [] \<or> \<not> schedulable calls
    | Inr s \<Rightarrow> calls \<noteq> [] \<and> schedulable calls \<and> validateToolSchedule env s = None \<and>
        map ts_CallID (td_Calls s) = map (tl_ID \<circ> the) calls \<and> map ts_Ordinal (td_Calls s) = map int [0..<length calls]"
proof (cases "calls \<noteq> [] \<and> schedulable calls")
  case True
  then obtain s where s: "newToolSchedule env calls cl = Inr s" using schedule_made [OF assms] by blast
  then show ?thesis using True newToolSchedule_Inr [OF s] schedule_loop_calls [of env cl "{}" 0 "- 1" False calls "td_Calls s"] by simp
next
  case False
  show ?thesis
  proof (cases "newToolSchedule env calls cl")
    case (Inr s)
    then have "schedulable calls" using newToolSchedule_Inr [OF Inr] schedule_loop_succeeds [of env cl "{}" 0 "- 1" False calls] by blast
    then show ?thesis using False newToolSchedule_Inr [OF Inr] by blast
  qed (use False in auto)
qed

section \<open>Batches of a schedule\<close>

definition schedule_batches :: "toolSchedule \<Rightarrow> string list list" where
  "schedule_batches s =
     map (\<lambda>k. map ts_CallID (filter (\<lambda>c. ts_Batch c = int k) (td_Calls s))) [0..<nat (ts_Batch (last (td_Calls s)) + 1)]"

definition batch_ids :: "toolBatch list \<Rightarrow> nat \<Rightarrow> string list" where
  "batch_ids bs k = (if k < length bs then map (tl_ID \<circ> the) (tb_ToolCalls (bs ! k)) else [])"

lemma batch_ids_add:
  "batch_ids (add_call safe call bs) k =
     batch_ids bs k @ (if k = (if safe call \<and> bs \<noteq> [] \<and> tb_IsConcurrencySafe (last bs) then length bs - 1 else length bs) then [tl_ID (the call)] else [])"
  by (cases bs rule: rev_cases) (auto simp: batch_ids_def add_call_def nth_append)

lemma add_call_shape:
  "length (add_call safe call bs) = (if safe call \<and> bs \<noteq> [] \<and> tb_IsConcurrencySafe (last bs) then length bs else Suc (length bs))"
  "add_call safe call bs \<noteq> []" "tb_IsConcurrencySafe (last (add_call safe call bs)) = safe call"
  by (cases bs rule: rev_cases; simp add: add_call_def)+

text \<open>The loop and the partition advance together.\<close>

lemma loop_partition:
  assumes "\<And>c. safe (Some c) = classifyToolScheduleCall cl c"
  shows "schedule_loop env cl seen n b p calls = Inr cs \<Longrightarrow> n \<ge> 0 \<Longrightarrow> (n = 0 \<longleftrightarrow> bs = []) \<Longrightarrow> int (length bs) = b + 1 \<Longrightarrow>
     (bs \<noteq> [] \<Longrightarrow> tb_IsConcurrencySafe (last bs) = p) \<Longrightarrow>
     (\<forall>k. batch_ids (fold (add_call safe) calls bs) k = batch_ids bs k @ map ts_CallID (filter (\<lambda>c. ts_Batch c = int k) cs)) \<and>
     int (length (fold (add_call safe) calls bs)) = (if cs = [] then b else ts_Batch (last cs)) + 1"
proof (induction calls arbitrary: seen n b p bs cs)
  case (Cons call calls)
  from Cons.prems(1) obtain c cs' where c: "call = Some c" "cs = scheduled_call env cl n b p c # cs'"
    and rest: "schedule_loop env cl (insert (tl_ID c) seen) (n + 1) (ts_Batch (scheduled_call env cl n b p c))
       (ts_ConcurrencySafe (scheduled_call env cl n b p c)) calls = Inr cs'"
    by (rule schedule_loop_ConsE)
  let ?c = "scheduled_call env cl n b p c" and ?bs = "add_call safe (Some c) bs"
  have batch: "ts_Batch ?c = (if safe (Some c) \<and> bs \<noteq> [] \<and> tb_IsConcurrencySafe (last bs) then b else b + 1)"
    using Cons.prems(3,5) by (auto simp: scheduled_call_def Let_def assms)
  have len: "int (length ?bs) = ts_Batch ?c + 1" using Cons.prems(4) by (simp add: batch add_call_shape)
  have "batch_ids ?bs k = batch_ids bs k @ (if ts_Batch ?c = int k then [tl_ID c] else [])" for k
    using Cons.prems(4) by (cases bs) (auto simp: batch_ids_add batch)
  then show ?case using Cons.IH [OF rest, of ?bs] Cons.prems(2) len by (simp add: c add_call_shape assms)
qed simp

text \<open>
  The batches of a schedule are the batches into which the calls are partitioned for
  execution: the same groups of calls in the same order.
\<close>

lemma schedule_batches_partition:
  assumes "newToolSchedule env calls (Some (\<lambda>c. Some (isToolConcurrencySafe unmarshal (Some c) registry))) = Inr s"
  shows "schedule_batches s = map (\<lambda>b. map (tl_ID \<circ> the) (tb_ToolCalls b)) (partitionToolCalls unmarshal calls registry)"
proof -
  let ?cl = "Some (\<lambda>c. Some (isToolConcurrencySafe unmarshal (Some c) registry))"
  let ?bs = "partitionToolCalls unmarshal calls registry"
  have loop: "schedule_loop env ?cl {} 0 (- 1) False calls = Inr (td_Calls s)" and ne: "calls \<noteq> []"
    using newToolSchedule_Inr [OF assms] by auto
  have "td_Calls s \<noteq> []" using schedule_loop_calls [OF loop] ne by auto
  then have *: "batch_ids ?bs k = map ts_CallID (filter (\<lambda>c. ts_Batch c = int k) (td_Calls s))"
    "int (length ?bs) = ts_Batch (last (td_Calls s)) + 1" for k
    using loop_partition [OF _ loop, of "\<lambda>c. isToolConcurrencySafe unmarshal c registry" "[]"]
    by (auto simp: classifyToolScheduleCall_def partitionToolCalls_def batch_ids_def)
  show ?thesis
    by (rule nth_equalityI) (auto simp: schedule_batches_def * [symmetric] batch_ids_def)
qed

section \<open>Decisions\<close>

definition delivered_plain :: "toolScheduleCall \<Rightarrow> toolRoundOutcome \<Rightarrow> bool" where
  "delivered_plain call outcome \<longleftrightarrow>
     ro_CallID outcome = ts_CallID call \<and> \<not> interrupted outcome \<and>
     (case ro_Outcome outcome of None \<Rightarrow> False | Some r \<Rightarrow> oc_Result r = Some (ts_CallID call) \<and> \<not> oc_PreventContinuation r)"

lemma check_outcomes_plain:
  "length outcomes = length calls \<Longrightarrow> validate_calls seen i previous calls = None \<Longrightarrow>
     check_outcomes seen i calls outcomes = None \<and> \<not> list_ex interrupted outcomes \<and> \<not> list_ex prevents outcomes \<longleftrightarrow>
     list_all2 delivered_plain calls outcomes"
proof (induction calls arbitrary: seen i previous outcomes)
  case (Cons call calls)
  then obtain r rs where r: "outcomes = r # rs" by (cases outcomes) auto
  have c: "ts_CallID call \<notin> seen" "validate_calls (insert (ts_CallID call) seen) (i + 1) (Some call) calls = None"
    using Cons.prems(2) by (auto split: if_splits option.splits)
  have "length rs = length calls" using Cons.prems(1) by (simp add: r)
  from Cons.IH [OF this c(2)] show ?case using c(1)
    by (cases "ro_Outcome r")
       (auto simp: r delivered_plain_def [of call r] interrupted_def [of r] prevents_def [of r] Let_def split: option.splits)
qed simp

text \<open>
  The loop continues after a round exactly when the schedule is valid and every scheduled call
  has, in order, its own result, without an interruption and without a hook that stops it.
\<close>

lemma continue_iff_complete:
  "decideAfterToolRound env schedule outcomes = Inr afterToolContinue \<longleftrightarrow>
     validateToolSchedule env schedule = None \<and> list_all2 delivered_plain (td_Calls schedule) outcomes"
proof (cases "validateToolSchedule env schedule = None \<and> length outcomes = length (td_Calls schedule)")
  case True
  then have v: "validate_calls {} 0 None (td_Calls schedule) = None" by (auto simp: validateToolSchedule_def split: if_splits option.splits)
  have f: "find P xs = None \<longleftrightarrow> \<not> list_ex P xs" for P :: "toolRoundOutcome \<Rightarrow> bool" and xs by (auto simp: find_None_iff list_ex_iff)
  have "decideAfterToolRound env schedule outcomes = Inr afterToolContinue \<longleftrightarrow>
    check_outcomes {} 0 (td_Calls schedule) outcomes = None \<and> find interrupted outcomes = None \<and> find prevents outcomes = None"
    using True by (auto simp: decideAfterToolRound_def split: option.splits)
  then show ?thesis using check_outcomes_plain [OF _ v] True by (simp add: f)
next
  case False
  then show ?thesis by (auto simp: decideAfterToolRound_def dest: list_all2_lengthD split: option.splits if_splits)
qed

section \<open>An example\<close>

definition demo_schedule_env :: schedule_env where
  "demo_schedule_env = \<lparr>sv_sha256 = \<lambda>_. replicate 64 (CHR ''0''), sv_json = \<lambda>_. ''[]''\<rparr>"

definition demo_registry :: registry where
  "demo_registry = Some (\<lambda>name. if name = ''Read''
     then Some \<lparr>im_IsConcurrencySafe = Some (\<lambda>_. Some True), im_IsPlanModeTransition = False, im_InterruptBehavior = ''cancel''\<rparr>
     else None)"

definition demo_calls :: "ToolCall option list" where
  "demo_calls = [Some \<lparr>tl_ID = ''a'', tl_Name = ''Read'', tl_Arguments = []\<rparr>, Some \<lparr>tl_ID = ''b'', tl_Name = ''Read'', tl_Arguments = []\<rparr>,
     Some \<lparr>tl_ID = ''c'', tl_Name = ''Bash'', tl_Arguments = []\<rparr>]"

definition demo_classifier :: classifier where
  "demo_classifier = Some (\<lambda>c. Some (isToolConcurrencySafe (\<lambda>_. Some JNull) (Some c) demo_registry))"

lemma demo_hex: "hex_digest (sv_sha256 demo_schedule_env s)"
proof -
  have "hex_digest (replicate 64 (CHR ''0''))" by code_simp
  then show ?thesis by (simp add: demo_schedule_env_def)
qed

lemma demo_partition: "map (\<lambda>b. map (tl_ID \<circ> the) (tb_ToolCalls b)) (partitionToolCalls (\<lambda>_. Some JNull) demo_calls demo_registry) = [[''a'', ''b''], [''c'']]"
  by code_simp

lemma demo_schedulable: "schedulable demo_calls \<and> demo_calls \<noteq> []"
  by code_simp

lemma newToolSchedule_exact_witness:
  "\<exists>s. newToolSchedule demo_schedule_env demo_calls demo_classifier = Inr s \<and> map ts_CallID (td_Calls s) = [''a'', ''b'', ''c'']"
  using newToolSchedule_exact [of demo_schedule_env demo_calls demo_classifier, OF demo_hex] demo_schedulable
  by (auto simp: demo_calls_def split: sum.splits)

lemma schedule_batches_partition_witness:
  "\<exists>s. newToolSchedule demo_schedule_env demo_calls demo_classifier = Inr s \<and> schedule_batches s = [[''a'', ''b''], [''c'']]"
proof -
  have "case newToolSchedule demo_schedule_env demo_calls demo_classifier of Inl _ \<Rightarrow> False | Inr _ \<Rightarrow> True" by code_simp
  then obtain s where s: "newToolSchedule demo_schedule_env demo_calls demo_classifier = Inr s" by (auto split: sum.splits)
  then have "schedule_batches s = [[''a'', ''b''], [''c'']]"
    using schedule_batches_partition [of demo_schedule_env demo_calls "\<lambda>_. Some JNull" demo_registry s] demo_partition
    by (simp add: demo_classifier_def)
  with s show ?thesis by blast
qed

end
