(* ===== verification/Tool_Executor.thy ===== *)
theory Tool_Executor
  imports Tool_Schedule
begin

text \<open>
  The executor of tool calls (src/engine/execution/streaming.go).  It collects the calls of a
  model reply while it streams, releases them when the reply is committed, runs calls that are
  safe concurrently with each other and any other call alone, and yields the results in the order
  of the model.

  Every method holds the lock, so each is a state transformer.  \<open>ex_running\<close> holds the goroutines
  that run a call and have not reported yet, with the safety flag of the call they run, and
  \<open>ex_started\<close> the calls handed to the execution function, in order.  A wait on the condition
  variable ends a method with \<open>Waits\<close>; \<open>ex_woken\<close> is set by every broadcast, and the loop of the
  waiter is \<open>remaining_loop\<close>.  The entries of \<open>tools\<close> and their calls are never nil, since only
  \<open>AddTool\<close> makes them; \<open>index\<close> is the position of an identity in \<open>tools\<close>, since the two are only
  changed together.  Of a message the fields the code sets are kept, its \<open>is_error\<close> mark included.
  The result of a call to a context modifier (an error, or what publishes the change) is part of
  the result that carries it.
\<close>

section \<open>Data\<close>

record Message =
  ms_Role :: string
  ms_Content :: string
  ms_ToolCallID :: string
  ms_ToolName :: string
  ms_is_error :: bool

record ToolResult =
  tr_ToolCallID :: string
  tr_ToolName :: string
  tr_Result :: string
  tr_Message :: "Message option"
  tr_IsError :: bool
  tr_BeforeMessages :: "Message list"
  tr_AfterMessages :: "Message list"
  tr_PreventContinuation :: bool
  tr_ContextModifier :: "(string + string option) option"
  tr_ContextPublisher :: "string option"

datatype toolCommitState = toolCommitPending | toolCommitCommitted | toolCommitRejected

datatype toolStatus = toolStatusQueued | toolStatusExecuting | toolStatusCompleted | toolStatusYielded

record trackedTool =
  tt_ID :: string
  tt_ToolCall :: ToolCall
  tt_Message :: "Message option"
  tt_Result :: "ToolResult option"
  tt_Status :: toolStatus
  tt_IsConcurrencySafe :: bool
  tt_cancelFunc :: bool

record goroutine =
  gr_ID :: string
  gr_ToolCall :: ToolCall
  gr_safe :: bool

record StreamingToolExecutor =
  ex_tools :: "trackedTool list"
  ex_discard :: bool
  ex_commitState :: toolCommitState
  ex_maxConcurrency :: int
  ex_deferExecution :: bool
  ex_bashErrored :: bool
  ex_siblingCancelled :: bool
  ex_running :: "goroutine list"
  ex_started :: "string list"
  ex_cancelled :: "string list"
  ex_notified :: "ToolCall list"
  ex_woken :: bool

record StreamingToolExecutorConfig =
  xc_execute :: bool  \<comment> \<open>one of \<open>Execute\<close> and \<open>ExecuteWithContext\<close> is set\<close>
  xc_isSafe :: classifier
  xc_MaxConcurrency :: int
  xc_DeferExecution :: bool
  xc_prepare :: "ToolCall \<Rightarrow> ToolCall option"
  xc_getInterruptBehavior :: "(string \<Rightarrow> string) option"
  xc_onInterrupt :: bool
  xc_jsonValid :: "string \<Rightarrow> bool"
  xc_getenv :: string

section \<open>Results\<close>

definition newToolResult :: "string \<Rightarrow> string \<Rightarrow> string \<Rightarrow> bool \<Rightarrow> ToolResult" where
  "newToolResult toolCallID toolName result isError =
     \<lparr>tr_ToolCallID = toolCallID, tr_ToolName = toolName, tr_Result = result,
      tr_Message = Some \<lparr>ms_Role = ''tool'', ms_Content = result, ms_ToolCallID = toolCallID, ms_ToolName = toolName, ms_is_error = isError\<rparr>,
      tr_IsError = isError, tr_BeforeMessages = [], tr_AfterMessages = [], tr_PreventContinuation = False,
      tr_ContextModifier = None, tr_ContextPublisher = None\<rparr>"

definition normalize_message :: "ToolResult \<Rightarrow> Message" where
  "normalize_message r =
     (case tr_Message r of
        None \<Rightarrow> \<lparr>ms_Role = ''tool'', ms_Content = tr_Result r, ms_ToolCallID = tr_ToolCallID r, ms_ToolName = tr_ToolName r, ms_is_error = tr_IsError r\<rparr>
      | Some m \<Rightarrow>
         m\<lparr>ms_ToolCallID := (if ms_ToolCallID m = [] then tr_ToolCallID r else ms_ToolCallID m),
           ms_ToolName := (if ms_ToolName m = [] then tr_ToolName r else ms_ToolName m),
           ms_Role := (if ms_Role m = [] then ''tool'' else ms_Role m),
           ms_is_error := ms_is_error m \<or> tr_IsError r\<rparr>)"

definition normalizeToolResult :: "string \<Rightarrow> ToolCall \<Rightarrow> ToolResult \<Rightarrow> ToolResult" where
  "normalizeToolResult toolID toolCall result =
     (let r = result\<lparr>tr_ToolCallID := (if tr_ToolCallID result = [] then toolID else tr_ToolCallID result),
                     tr_ToolName := (if tr_ToolName result = [] then tl_Name toolCall else tr_ToolName result)\<rparr>
      in r\<lparr>tr_Message := Some (normalize_message r)\<rparr>)"

definition commitToolResultContextModifier :: "ToolResult \<Rightarrow> ToolResult" where
  "commitToolResultContextModifier result =
     (case tr_ContextModifier result of
        None \<Rightarrow> result
      | Some (Inr publish) \<Rightarrow> result\<lparr>tr_ContextModifier := None, tr_ContextPublisher := publish\<rparr>
      | Some (Inl err) \<Rightarrow>
         (let text = ''tool state transition failed: '' @ err;
              m = (case tr_Message result of
                     None \<Rightarrow> \<lparr>ms_Role = ''tool'', ms_Content = [], ms_ToolCallID = tr_ToolCallID result, ms_ToolName = tr_ToolName result, ms_is_error = False\<rparr>
                   | Some m \<Rightarrow> m)
          in result\<lparr>tr_ContextModifier := None, tr_ContextPublisher := None, tr_IsError := True, tr_Result := text,
                    tr_Message := Some (m\<lparr>ms_Content := text, ms_is_error := True\<rparr>)\<rparr>))"

section \<open>Registration\<close>

definition maxStreamingToolUseConcurrency :: "string \<Rightarrow> int" where
  "maxStreamingToolUseConcurrency env =
     (let raw = TrimUnicode env in
      if raw = [] then 10
      else case Atoi raw of None \<Rightarrow> 10 | Some parsed \<Rightarrow> if parsed \<le> 0 then 10 else parsed)"

definition NewStreamingToolExecutor :: "StreamingToolExecutorConfig \<Rightarrow> StreamingToolExecutor" where
  "NewStreamingToolExecutor cfg =
     \<lparr>ex_tools = [], ex_discard = False, ex_commitState = toolCommitPending,
      ex_maxConcurrency = (if xc_MaxConcurrency cfg \<le> 0 then maxStreamingToolUseConcurrency (xc_getenv cfg) else xc_MaxConcurrency cfg),
      ex_deferExecution = xc_DeferExecution cfg, ex_bashErrored = False, ex_siblingCancelled = False,
      ex_running = [], ex_started = [], ex_cancelled = [], ex_notified = [], ex_woken = False\<rparr>"

definition Broadcast :: "StreamingToolExecutor \<Rightarrow> StreamingToolExecutor" where
  "Broadcast e = e\<lparr>ex_woken := True\<rparr>"

definition toolCallKey :: "ToolCall \<Rightarrow> string" where
  "toolCallKey tc = (if tl_ID tc \<noteq> [] then tl_ID tc else if tl_Name tc \<noteq> [] then ''name:'' @ tl_Name tc else [])"

definition toolConcurrencySafe :: "StreamingToolExecutorConfig \<Rightarrow> ToolCall \<Rightarrow> bool" where
  "toolConcurrencySafe cfg toolCall =
     (case xc_isSafe cfg of None \<Rightarrow> False | Some f \<Rightarrow> (case f toolCall of None \<Rightarrow> False | Some b \<Rightarrow> b))"

fun tool_index :: "string \<Rightarrow> trackedTool list \<Rightarrow> nat option" where
  "tool_index toolID [] = None"
| "tool_index toolID (t # ts) = (if tt_ID t = toolID then Some 0 else map_option Suc (tool_index toolID ts))"

definition set_tool :: "nat \<Rightarrow> trackedTool \<Rightarrow> StreamingToolExecutor \<Rightarrow> StreamingToolExecutor" where
  "set_tool i t e = e\<lparr>ex_tools := (ex_tools e)[i := t]\<rparr>"

definition AddTool :: "StreamingToolExecutorConfig \<Rightarrow> ToolCall option \<Rightarrow> Message option \<Rightarrow> StreamingToolExecutor \<Rightarrow> StreamingToolExecutor" where
  "AddTool cfg toolCall assistantMessage e =
     (case toolCall of
        None \<Rightarrow> e
      | Some call \<Rightarrow>
         if ex_discard e \<or> ex_commitState e \<noteq> toolCommitPending \<or> toolCallKey call = [] then e
         else case tool_index (toolCallKey call) (ex_tools e) of
           Some i \<Rightarrow>
             (let t = ex_tools e ! i;
                  t1 = (if tt_Status t = toolStatusQueued then t\<lparr>tt_ToolCall := call, tt_IsConcurrencySafe := toolConcurrencySafe cfg call\<rparr> else t);
                  t2 = (if assistantMessage \<noteq> None then t1\<lparr>tt_Message := assistantMessage\<rparr> else t1)
              in set_tool i t2 e)
         | None \<Rightarrow>
             e\<lparr>ex_tools := ex_tools e @
               [\<lparr>tt_ID = toolCallKey call, tt_ToolCall = call, tt_Message = assistantMessage, tt_Result = None,
                 tt_Status = toolStatusQueued, tt_IsConcurrencySafe = toolConcurrencySafe cfg call, tt_cancelFunc = False\<rparr>]\<rparr>)"

section \<open>Scheduling\<close>

definition toolCallReadyForExecution :: "StreamingToolExecutorConfig \<Rightarrow> ToolCall \<Rightarrow> bool" where
  "toolCallReadyForExecution cfg toolCall =
     (let args = TrimUnicode (tl_Arguments toolCall) in
      if TrimUnicode (tl_Name toolCall) = [] then False
      else if args = [] then False
      else if args = ''{}'' then False
      else xc_jsonValid cfg args)"

definition executing :: "StreamingToolExecutor \<Rightarrow> trackedTool list" where
  "executing e = filter (\<lambda>t. tt_Status t = toolStatusExecuting) (ex_tools e)"

definition canExecuteLocked :: "bool \<Rightarrow> StreamingToolExecutor \<Rightarrow> bool" where
  "canExecuteLocked isConcurrencySafe e =
     (if list_ex (\<lambda>t. \<not> tt_IsConcurrencySafe t) (executing e) then False
      else if executing e = [] then True
      else if \<not> isConcurrencySafe then False
      else int (length (executing e)) < ex_maxConcurrency e)"

definition startToolLocked :: "StreamingToolExecutorConfig \<Rightarrow> nat \<Rightarrow> StreamingToolExecutor \<Rightarrow> StreamingToolExecutor" where
  "startToolLocked cfg i e =
     (let t = ex_tools e ! i;
          call = (case xc_prepare cfg (tt_ToolCall t) of None \<Rightarrow> tt_ToolCall t | Some prepared \<Rightarrow> prepared)
      in if tt_Status t \<noteq> toolStatusQueued then e
         else (set_tool i (t\<lparr>tt_Status := toolStatusExecuting, tt_cancelFunc := True\<rparr>) e)
           \<lparr>ex_running := ex_running e @ [\<lparr>gr_ID = tt_ID t, gr_ToolCall = call, gr_safe = tt_IsConcurrencySafe t\<rparr>],
            ex_started := ex_started e @ [tt_ID t]\<rparr>)"

fun start_loop :: "StreamingToolExecutorConfig \<Rightarrow> bool \<Rightarrow> nat list \<Rightarrow> StreamingToolExecutor \<Rightarrow> StreamingToolExecutor" where
  "start_loop cfg force [] e = e"
| "start_loop cfg force (i # is) e =
     (let t = ex_tools e ! i in
      if tt_Status t \<noteq> toolStatusQueued then start_loop cfg force is e
      else if \<not> force \<and> \<not> toolCallReadyForExecution cfg (tt_ToolCall t) then e
      else if \<not> canExecuteLocked (tt_IsConcurrencySafe t) e then e
      else if \<not> tt_IsConcurrencySafe t then startToolLocked cfg i e
      else start_loop cfg force is (startToolLocked cfg i e))"

definition startRunnableLocked :: "StreamingToolExecutorConfig \<Rightarrow> bool \<Rightarrow> StreamingToolExecutor \<Rightarrow> StreamingToolExecutor" where
  "startRunnableLocked cfg force e =
     (if ex_discard e \<or> ex_commitState e \<noteq> toolCommitCommitted \<or> \<not> xc_execute cfg then e
      else start_loop cfg force [0..<length (ex_tools e)] e)"

section \<open>Commit, rejection and interruption\<close>

definition result_ID :: "trackedTool \<Rightarrow> string" where
  "result_ID t = (if tl_ID (tt_ToolCall t) \<noteq> [] then tl_ID (tt_ToolCall t) else tt_ID t)"

definition complete_with :: "string \<Rightarrow> string \<Rightarrow> trackedTool \<Rightarrow> trackedTool" where
  "complete_with callID message t =
     t\<lparr>tt_Result := Some (newToolResult callID (tl_Name (tt_ToolCall t)) message True), tt_Status := toolStatusCompleted\<rparr>"

definition rejectPendingLocked :: "string \<Rightarrow> StreamingToolExecutor \<Rightarrow> StreamingToolExecutor \<times> bool" where
  "rejectPendingLocked message e =
     (if ex_discard e \<or> ex_commitState e \<noteq> toolCommitPending then (e, False)
      else (Broadcast (e\<lparr>ex_tools := map (\<lambda>t. if tt_Status t = toolStatusYielded then t else complete_with (result_ID t) message t) (ex_tools e),
              ex_commitState := toolCommitRejected\<rparr>), True))"

definition blocks :: "StreamingToolExecutorConfig \<Rightarrow> trackedTool \<Rightarrow> bool" where
  "blocks cfg t \<longleftrightarrow>
     (case xc_getInterruptBehavior cfg of
        None \<Rightarrow> False
      | Some behavior \<Rightarrow> tl_Name (tt_ToolCall t) \<noteq> [] \<and> behavior (tl_Name (tt_ToolCall t)) = ''block'')"

definition cancels :: "StreamingToolExecutorConfig \<Rightarrow> trackedTool \<Rightarrow> bool" where
  "cancels cfg t \<longleftrightarrow> \<not> (tt_Status t = toolStatusYielded \<or> tt_Result t \<noteq> None) \<and> \<not> blocks cfg t"

definition synthesizeCancelBehaviorLocked :: "StreamingToolExecutorConfig \<Rightarrow> string \<Rightarrow> StreamingToolExecutor \<Rightarrow> StreamingToolExecutor" where
  "synthesizeCancelBehaviorLocked cfg message e =
     Broadcast (e\<lparr>ex_tools := map (\<lambda>t. if cancels cfg t then (complete_with (result_ID t) message t)\<lparr>tt_cancelFunc := False\<rparr> else t) (ex_tools e),
       ex_cancelled := ex_cancelled e @ map tt_ID (filter (\<lambda>t. cancels cfg t \<and> tt_cancelFunc t) (ex_tools e)),
       ex_notified := ex_notified e @ (if xc_onInterrupt cfg then map tt_ToolCall (filter (cancels cfg) (ex_tools e)) else [])\<rparr>)"

definition complete_queued :: "(trackedTool \<Rightarrow> string) \<Rightarrow> string \<Rightarrow> trackedTool \<Rightarrow> trackedTool" where
  "complete_queued callID message t = (if tt_Status t = toolStatusQueued then complete_with (callID t) message t else t)"

definition interruptRemainingLocked :: "StreamingToolExecutorConfig \<Rightarrow> StreamingToolExecutor \<Rightarrow> StreamingToolExecutor" where
  "interruptRemainingLocked cfg e =
     (if ex_discard e then e
      else if ex_commitState e = toolCommitPending then fst (rejectPendingLocked ''Interrupted by user'' e)
      else if ex_commitState e \<noteq> toolCommitCommitted then e
      else Broadcast (synthesizeCancelBehaviorLocked cfg ''Interrupted by user''
             (e\<lparr>ex_tools := map (complete_queued result_ID ''Interrupted by user'') (ex_tools e)\<rparr>)))"

definition synthesizeQueuedSiblingsLocked :: "string \<Rightarrow> StreamingToolExecutor \<Rightarrow> StreamingToolExecutor" where
  "synthesizeQueuedSiblingsLocked errorSource e =
     e\<lparr>ex_tools := map (complete_queued tt_ID (''Cancelled: parallel tool call '' @ errorSource @ '' errored'')) (ex_tools e)\<rparr>"

definition commit :: "StreamingToolExecutorConfig \<Rightarrow> bool \<Rightarrow> StreamingToolExecutor \<Rightarrow> StreamingToolExecutor \<times> bool" where
  "commit cfg ctxErr e =
     (if ex_discard e \<or> ex_commitState e = toolCommitRejected then (e, False)
      else if ex_commitState e = toolCommitCommitted then (e, True)
      else if ctxErr then (fst (rejectPendingLocked ''Interrupted by user'' e), False)
      else let e1 = e\<lparr>ex_commitState := toolCommitCommitted\<rparr> in
        (Broadcast (if ex_deferExecution e then e1 else startRunnableLocked cfg False e1), True))"

definition Discard :: "StreamingToolExecutor \<Rightarrow> StreamingToolExecutor" where
  "Discard e =
     Broadcast (e\<lparr>ex_discard := True, ex_tools := [], ex_siblingCancelled := True,
       ex_cancelled := ex_cancelled e @ map tt_ID (filter tt_cancelFunc (ex_tools e))\<rparr>)"

section \<open>Completion\<close>

definition Complete :: "StreamingToolExecutorConfig \<Rightarrow> string \<Rightarrow> string \<Rightarrow> bool \<Rightarrow> StreamingToolExecutor \<Rightarrow> StreamingToolExecutor" where
  "Complete cfg toolCallID result isError e =
     (if ex_discard e \<or> ex_commitState e = toolCommitRejected then e
      else case tool_index toolCallID (ex_tools e) of
        None \<Rightarrow> e
      | Some i \<Rightarrow>
         (let t = ex_tools e ! i in
          if tt_Result t \<noteq> None \<or> tt_Status t = toolStatusYielded then e
          else startRunnableLocked cfg False (Broadcast (set_tool i
                 (t\<lparr>tt_Result := Some (newToolResult toolCallID (tl_Name (tt_ToolCall t)) result isError), tt_Status := toolStatusCompleted\<rparr>) e))))"

definition settle_tool :: "StreamingToolExecutorConfig \<Rightarrow> nat \<Rightarrow> ToolResult \<Rightarrow> StreamingToolExecutor \<Rightarrow> StreamingToolExecutor" where
  "settle_tool cfg i result e =
     (let t = ex_tools e ! i;
          r = commitToolResultContextModifier (normalizeToolResult (tt_ID t) (tt_ToolCall t) result);
          e1 = set_tool i (t\<lparr>tt_Result := Some r, tt_Status := toolStatusCompleted, tt_cancelFunc := False\<rparr>) e;
          e2 = (if tr_IsError r \<and> tr_ToolName r = ''Bash'' \<and> \<not> ex_bashErrored e
                then synthesizeQueuedSiblingsLocked (tr_ToolName r) (e1\<lparr>ex_bashErrored := True, ex_siblingCancelled := True\<rparr>)
                else e1)
      in startRunnableLocked cfg False (Broadcast e2))"

definition finish :: "StreamingToolExecutorConfig \<Rightarrow> string \<Rightarrow> ToolResult \<Rightarrow> bool \<Rightarrow> StreamingToolExecutor \<Rightarrow> StreamingToolExecutor" where
  "finish cfg toolID result isInterrupted e =
     (if ex_discard e \<or> ex_commitState e \<noteq> toolCommitCommitted then e
      else case tool_index toolID (ex_tools e) of
        None \<Rightarrow> e
      | Some i \<Rightarrow>
         (let t = ex_tools e ! i in
          if tt_Result t \<noteq> None \<or> tt_Status t = toolStatusYielded then Broadcast e
          else let e1 = (if isInterrupted then interruptRemainingLocked cfg e else e) in
            if isInterrupted \<and> tt_Result (ex_tools e1 ! i) \<noteq> None then e1
            else settle_tool cfg i result e1))"

text \<open>The end of a goroutine: what its call returned, nil included, is reported under the lock.\<close>

definition report_result :: "StreamingToolExecutorConfig \<Rightarrow> nat \<Rightarrow> ToolResult option \<Rightarrow> bool \<Rightarrow> StreamingToolExecutor \<Rightarrow> StreamingToolExecutor" where
  "report_result cfg k result isInterrupted e =
     (if k < length (ex_running e) then
        let g = ex_running e ! k;
            r = (case result of None \<Rightarrow> newToolResult (gr_ID g) (tl_Name (gr_ToolCall g)) ''tool execution returned no result'' True | Some r \<Rightarrow> r)
        in finish cfg (gr_ID g) r isInterrupted (e\<lparr>ex_running := take k (ex_running e) @ drop (Suc k) (ex_running e)\<rparr>)
      else e)"

section \<open>Collecting results\<close>

fun ready_loop :: "bool \<Rightarrow> trackedTool list \<Rightarrow> trackedTool list \<times> ToolResult list" where
  "ready_loop stopOnPending [] = ([], [])"
| "ready_loop stopOnPending (t # ts) =
     (if tt_Status t = toolStatusYielded
      then (case ready_loop stopOnPending ts of (ts', rs) \<Rightarrow> (t # ts', rs))
      else case (if tt_Status t = toolStatusCompleted then tt_Result t else None) of
        None \<Rightarrow>
          (if stopOnPending then (t # ts, [])
           else case ready_loop stopOnPending ts of (ts', rs) \<Rightarrow> (t # ts', rs))
      | Some r \<Rightarrow> (case ready_loop stopOnPending ts of (ts', rs) \<Rightarrow> (t\<lparr>tt_Status := toolStatusYielded\<rparr> # ts', r # rs)))"

definition collectReadyResultsLocked :: "bool \<Rightarrow> StreamingToolExecutor \<Rightarrow> StreamingToolExecutor \<times> ToolResult list" where
  "collectReadyResultsLocked stopOnPending e =
     (case ready_loop stopOnPending (ex_tools e) of (ts, rs) \<Rightarrow> (e\<lparr>ex_tools := ts\<rparr>, rs))"

definition GetCompleted :: "StreamingToolExecutor \<Rightarrow> StreamingToolExecutor \<times> ToolResult list" where
  "GetCompleted e = (if ex_commitState e = toolCommitPending then (e, []) else collectReadyResultsLocked True e)"

definition settled :: "trackedTool \<Rightarrow> bool" where
  "settled t \<longleftrightarrow> \<not> (tt_Status t = toolStatusQueued \<or> tt_Status t = toolStatusExecuting)"

definition allSettledLocked :: "StreamingToolExecutor \<Rightarrow> bool" where
  "allSettledLocked e = list_all settled (ex_tools e)"

datatype collected = Waits | Returned "ToolResult list"

definition collect_all :: "StreamingToolExecutor \<Rightarrow> StreamingToolExecutor \<times> collected" where
  "collect_all e = (case collectReadyResultsLocked True e of (e', rs) \<Rightarrow> (e', Returned rs))"

text \<open>One turn of a waiting loop: it returns, or waits for the next broadcast.\<close>

definition remaining_loop :: "StreamingToolExecutorConfig \<Rightarrow> bool \<Rightarrow> StreamingToolExecutor \<Rightarrow> StreamingToolExecutor \<times> collected" where
  "remaining_loop cfg starts e =
     (let e1 = (if starts then startRunnableLocked cfg True e else e) in
      if allSettledLocked e1 then collect_all e1 else (e1\<lparr>ex_woken := False\<rparr>, Waits))"

definition reject_uncommitted :: "bool \<Rightarrow> StreamingToolExecutor \<Rightarrow> StreamingToolExecutor" where
  "reject_uncommitted ctxDone e =
     (if ex_commitState e = toolCommitPending
      then fst (rejectPendingLocked (if ctxDone then ''Interrupted by user'' else ''Tool call rejected: model stream did not commit'') e)
      else e)"

definition GetRemainingResults :: "StreamingToolExecutorConfig \<Rightarrow> bool \<Rightarrow> StreamingToolExecutor \<Rightarrow> StreamingToolExecutor \<times> collected" where
  "GetRemainingResults cfg ctxDone e =
     (if ex_discard e then (e, Returned [])
      else let e1 = reject_uncommitted ctxDone e in
        if ex_commitState e1 = toolCommitRejected then collect_all e1
        else if ctxDone then remaining_loop cfg False (synthesizeCancelBehaviorLocked cfg ''Interrupted by user'' e1)
        else if \<not> xc_execute cfg then collect_all e1
        else remaining_loop cfg True e1)"

definition GetRemainingResultsContext :: "StreamingToolExecutorConfig \<Rightarrow> bool \<Rightarrow> StreamingToolExecutor \<Rightarrow> StreamingToolExecutor \<times> collected" where
  "GetRemainingResultsContext cfg ctxErr e =
     (if ex_discard e then (e, Returned [])
      else let e1 = reject_uncommitted ctxErr e in
        if ex_commitState e1 = toolCommitRejected then collect_all e1
        else let e2 = (if ctxErr then interruptRemainingLocked cfg e1 else e1) in
          if \<not> xc_execute cfg then collect_all e2
          else remaining_loop cfg True e2)"

text \<open>
  \<open>ExecuteCommittedToolCalls\<close> up to its first wait or return; \<open>commitErr\<close> and \<open>waitErr\<close> say
  whether the context is done at the commit and at the wait.
\<close>

definition ExecuteCommittedToolCalls ::
  "StreamingToolExecutorConfig \<Rightarrow> bool \<Rightarrow> bool \<Rightarrow> ToolCall option list \<Rightarrow> StreamingToolExecutor \<times> collected" where
  "ExecuteCommittedToolCalls cfg commitErr waitErr toolCalls =
     (let e = fold (\<lambda>call. AddTool cfg call None) toolCalls (NewStreamingToolExecutor cfg) in
      case commit cfg commitErr e of
        (e1, False) \<Rightarrow> GetRemainingResults cfg waitErr e1
      | (e1, True) \<Rightarrow> GetRemainingResultsContext cfg waitErr e1)"

end
