(* ===== verification/Tool_Run.thy ===== *)
theory Tool_Run
  imports Tool_Executor
begin

text \<open>
  Runs of the tool executor.  \<open>run_executor\<close> is one operation of any caller or goroutine;
  \<open>executor_step\<close> is an abstract specification: the elementary changes a call can go through.
  Every operation is a sequence of such changes (\<open>run_executor_refines\<close>), so that invariants are
  proved once per change.
\<close>

section \<open>Operations\<close>

datatype executor_op =
    Op_AddTool "ToolCall option" "Message option"
  | Op_commit bool
  | Op_reject string
  | Op_Complete string string bool
  | Op_GetCompleted
  | Op_GetRemaining bool
  | Op_GetRemainingContext bool
  | Op_wake bool
  | Op_report nat "ToolResult option" bool
  | Op_interrupt
  | Op_Discard

definition results_of :: "StreamingToolExecutor \<times> collected \<Rightarrow> StreamingToolExecutor \<times> ToolResult list" where
  "results_of p = (fst p, case snd p of Waits \<Rightarrow> [] | Returned rs \<Rightarrow> rs)"

text \<open>A waiter goes on only after a broadcast.\<close>

fun run_executor :: "StreamingToolExecutorConfig \<Rightarrow> executor_op \<Rightarrow> StreamingToolExecutor \<Rightarrow> StreamingToolExecutor \<times> ToolResult list" where
  "run_executor cfg (Op_AddTool call m) e = (AddTool cfg call m e, [])"
| "run_executor cfg (Op_commit ctxErr) e = (fst (commit cfg ctxErr e), [])"
| "run_executor cfg (Op_reject message) e = (fst (rejectPendingLocked message e), [])"
| "run_executor cfg (Op_Complete callID r isError) e = (Complete cfg callID r isError e, [])"
| "run_executor cfg Op_GetCompleted e = GetCompleted e"
| "run_executor cfg (Op_GetRemaining ctxDone) e = results_of (GetRemainingResults cfg ctxDone e)"
| "run_executor cfg (Op_GetRemainingContext ctxErr) e = results_of (GetRemainingResultsContext cfg ctxErr e)"
| "run_executor cfg (Op_wake starts) e = (if ex_woken e then results_of (remaining_loop cfg starts e) else (e, []))"
| "run_executor cfg (Op_report k r isInterrupted) e = (report_result cfg k r isInterrupted e, [])"
| "run_executor cfg Op_interrupt e = (interruptRemainingLocked cfg e, [])"
| "run_executor cfg Op_Discard e = (Discard e, [])"

fun run_executor_all :: "StreamingToolExecutorConfig \<Rightarrow> executor_op list \<Rightarrow> StreamingToolExecutor \<Rightarrow> StreamingToolExecutor \<times> ToolResult list" where
  "run_executor_all cfg [] e = (e, [])"
| "run_executor_all cfg (op # ops) e =
     (case run_executor cfg op e of (e', rs) \<Rightarrow> (case run_executor_all cfg ops e' of (e'', rs') \<Rightarrow> (e'', rs @ rs')))"

text \<open>
  The engine itself never completes a running call by hand and never collects with
  \<open>GetRemainingResults\<close> after an interruption while calls are committed.
\<close>

definition engine_op :: "executor_op \<Rightarrow> bool" where
  "engine_op op \<longleftrightarrow> (case op of Op_Complete _ _ _ \<Rightarrow> False | Op_GetRemaining ctxDone \<Rightarrow> \<not> ctxDone | _ \<Rightarrow> True)"

section \<open>Elementary changes\<close>

definition first_queued :: "StreamingToolExecutor \<Rightarrow> nat \<Rightarrow> bool" where
  "first_queued e i \<longleftrightarrow> i < length (ex_tools e) \<and> tt_Status (ex_tools e ! i) = toolStatusQueued \<and>
     (\<forall>j<i. tt_Status (ex_tools e ! j) \<noteq> toolStatusQueued)"

definition nothing_queued :: "StreamingToolExecutor \<Rightarrow> bool" where
  "nothing_queued e \<longleftrightarrow> ex_commitState e \<noteq> toolCommitPending \<and> list_all (\<lambda>t. tt_Status t \<noteq> toolStatusQueued) (ex_tools e)"

text \<open>
  A call is completed when its goroutine has reported or has never been started; with \<open>strict\<close> a
  running call is completed early only when no call waits.
\<close>

inductive executor_step :: "bool \<Rightarrow> StreamingToolExecutorConfig \<Rightarrow> StreamingToolExecutor \<Rightarrow> ToolResult list \<Rightarrow> StreamingToolExecutor \<Rightarrow> bool"
  for strict cfg where
  step_add: "\<not> ex_discard e \<Longrightarrow> ex_commitState e = toolCommitPending \<Longrightarrow> tt_ID t \<notin> tt_ID ` set (ex_tools e) \<Longrightarrow>
     tt_Status t = toolStatusQueued \<Longrightarrow> tt_Result t = None \<Longrightarrow> executor_step strict cfg e [] (e\<lparr>ex_tools := ex_tools e @ [t]\<rparr>)"
| step_revise: "i < length (ex_tools e) \<Longrightarrow> t = ex_tools e ! i \<Longrightarrow> tt_Status t' = tt_Status t \<Longrightarrow> tt_ID t' = tt_ID t \<Longrightarrow> tt_Result t' = tt_Result t \<Longrightarrow>
     tt_Status t = toolStatusQueued \<or> tt_IsConcurrencySafe t' = tt_IsConcurrencySafe t \<Longrightarrow> executor_step strict cfg e [] (set_tool i t' e)"
| step_state: "\<not> ex_discard e \<Longrightarrow> ex_commitState e = toolCommitPending \<Longrightarrow> executor_step strict cfg e [] (e\<lparr>ex_commitState := c\<rparr>)"
| step_complete: "i < length (ex_tools e) \<Longrightarrow> t = ex_tools e ! i \<Longrightarrow> tt_Status t \<noteq> toolStatusYielded \<Longrightarrow>
     (strict \<Longrightarrow> tt_Status t = toolStatusExecuting \<Longrightarrow> tt_ID t \<in> gr_ID ` set (ex_running e) \<Longrightarrow> nothing_queued e) \<Longrightarrow>
     executor_step strict cfg e [] (set_tool i (t\<lparr>tt_Result := Some r, tt_Status := toolStatusCompleted, tt_cancelFunc := c\<rparr>) e)"
| step_start: "\<not> ex_discard e \<Longrightarrow> ex_commitState e = toolCommitCommitted \<Longrightarrow> xc_execute cfg \<Longrightarrow> first_queued e i \<Longrightarrow>
     canExecuteLocked (tt_IsConcurrencySafe (ex_tools e ! i)) e \<Longrightarrow> executor_step strict cfg e [] (startToolLocked cfg i e)"
| step_yield: "i < length (ex_tools e) \<Longrightarrow> t = ex_tools e ! i \<Longrightarrow> tt_Status t = toolStatusCompleted \<Longrightarrow> tt_Result t = Some r \<Longrightarrow>
     \<forall>j<i. tt_Status (ex_tools e ! j) = toolStatusYielded \<Longrightarrow> executor_step strict cfg e [r] (set_tool i (t\<lparr>tt_Status := toolStatusYielded\<rparr>) e)"
| step_report: "executor_step strict cfg e [] (e\<lparr>ex_running := take k (ex_running e) @ drop (Suc k) (ex_running e)\<rparr>)"
| step_discard: "executor_step strict cfg e [] (e\<lparr>ex_discard := True, ex_tools := []\<rparr>)"
| step_other: "executor_step strict cfg e [] (e\<lparr>ex_bashErrored := b, ex_siblingCancelled := s, ex_cancelled := cs, ex_notified := ns, ex_woken := w\<rparr>)"

inductive executor_steps :: "bool \<Rightarrow> StreamingToolExecutorConfig \<Rightarrow> StreamingToolExecutor \<Rightarrow> ToolResult list \<Rightarrow> StreamingToolExecutor \<Rightarrow> bool"
  for strict cfg where
  steps_refl [intro!]: "executor_steps strict cfg e [] e"
| steps_step: "executor_step strict cfg e rs e' \<Longrightarrow> executor_steps strict cfg e' rs' e'' \<Longrightarrow> executor_steps strict cfg e (rs @ rs') e''"

lemma steps_single: "executor_step strict cfg e rs e' \<Longrightarrow> executor_steps strict cfg e rs e'"
  using steps_step [OF _ steps_refl] by fastforce

lemma steps_trans:
  "executor_steps strict cfg e rs e' \<Longrightarrow> executor_steps strict cfg e' rs' e'' \<Longrightarrow> executor_steps strict cfg e (rs @ rs') e''"
  by (induction rule: executor_steps.induct) (auto intro: steps_step)

lemma steps_silent:
  "executor_steps strict cfg e [] e' \<Longrightarrow> executor_steps strict cfg e' rs e'' \<Longrightarrow> executor_steps strict cfg e rs e''"
  using steps_trans by fastforce

lemma steps_then:
  "executor_steps strict cfg e rs e' \<Longrightarrow> executor_steps strict cfg e' [] e'' \<Longrightarrow> executor_steps strict cfg e rs e''"
  using steps_trans by fastforce

lemma steps_other:
  "executor_steps strict cfg e [] (e\<lparr>ex_woken := w\<rparr>)" "executor_steps strict cfg e [] (Broadcast e)"
  "executor_steps strict cfg e [] (e\<lparr>ex_bashErrored := b, ex_siblingCancelled := s\<rparr>)"
  using step_other [where e = e and b = "ex_bashErrored e" and s = "ex_siblingCancelled e" and cs = "ex_cancelled e" and ns = "ex_notified e"]
    step_other [where e = e and cs = "ex_cancelled e" and ns = "ex_notified e" and w = "ex_woken e"]
  by (auto intro!: steps_single simp: Broadcast_def)

section \<open>Every operation is a sequence of changes\<close>

text \<open>Changing tools one after the other.\<close>

lemma map_tools_steps:
  assumes "\<And>e i. K e \<Longrightarrow> i < length (ex_tools e) \<Longrightarrow> executor_steps strict cfg e [] (set_tool i (f (ex_tools e ! i)) e) \<and> K (set_tool i (f (ex_tools e ! i)) e)"
    and "K e"
  shows "executor_steps strict cfg e [] (e\<lparr>ex_tools := map f (ex_tools e)\<rparr>)"
proof -
  have "executor_steps strict cfg e [] (e\<lparr>ex_tools := map f (take n (ex_tools e)) @ drop n (ex_tools e)\<rparr>) \<and>
    K (e\<lparr>ex_tools := map f (take n (ex_tools e)) @ drop n (ex_tools e)\<rparr>)" if "n \<le> length (ex_tools e)" for n
    using that
  proof (induction n)
    case 0
    then show ?case using assms(2) by (simp add: steps_refl)
  next
    case (Suc n)
    let ?e = "e\<lparr>ex_tools := map f (take n (ex_tools e)) @ drop n (ex_tools e)\<rparr>"
    have n: "n < length (ex_tools e)" using Suc.prems by simp
    have "set_tool n (f (ex_tools ?e ! n)) ?e = e\<lparr>ex_tools := map f (take (Suc n) (ex_tools e)) @ drop (Suc n) (ex_tools e)\<rparr>"
      using n by (simp add: set_tool_def nth_append list_update_append take_Suc_conv_app_nth Cons_nth_drop_Suc [symmetric] min_absorb2)
    then show ?case using Suc assms(1) [of ?e n] n by (auto intro: steps_silent)
  qed
  from this [of "length (ex_tools e)"] show ?thesis by simp
qed

lemma set_tool_simps [simp]:
  "ex_tools (set_tool i t e) = (ex_tools e)[i := t]" "ex_discard (set_tool i t e) = ex_discard e"
  "ex_commitState (set_tool i t e) = ex_commitState e" "ex_running (set_tool i t e) = ex_running e"
  "ex_started (set_tool i t e) = ex_started e" "ex_maxConcurrency (set_tool i t e) = ex_maxConcurrency e"
  "ex_bashErrored (set_tool i t e) = ex_bashErrored e" "ex_deferExecution (set_tool i t e) = ex_deferExecution e"
  by (simp_all add: set_tool_def)

lemma set_tool_id: "i < length (ex_tools e) \<Longrightarrow> set_tool i (ex_tools e ! i) e = e"
  by (simp add: set_tool_def)

lemma Broadcast_simps [simp]:
  "ex_tools (Broadcast e) = ex_tools e" "ex_discard (Broadcast e) = ex_discard e" "ex_commitState (Broadcast e) = ex_commitState e"
  "ex_running (Broadcast e) = ex_running e" "ex_started (Broadcast e) = ex_started e" "ex_maxConcurrency (Broadcast e) = ex_maxConcurrency e"
  "ex_bashErrored (Broadcast e) = ex_bashErrored e" "ex_woken (Broadcast e)"
  by (simp_all add: Broadcast_def)

lemma complete_queued_steps:
  "executor_steps strict cfg e [] (e\<lparr>ex_tools := map (complete_queued callID message) (ex_tools e)\<rparr>)"
proof (rule map_tools_steps [where K = "\<lambda>_. True"])
  fix e :: StreamingToolExecutor and i assume i: "i < length (ex_tools e)"
  let ?t = "ex_tools e ! i"
  show "executor_steps strict cfg e [] (set_tool i (complete_queued callID message ?t) e) \<and> True"
    using i step_complete [OF i refl, where r = "newToolResult (callID ?t) (tl_Name (tt_ToolCall ?t)) message True" and c = "tt_cancelFunc ?t" and strict = strict and cfg = cfg]
    by (auto simp: complete_queued_def complete_with_def set_tool_id intro!: steps_single)
qed simp

lemma reject_steps:
  assumes "\<not> ex_discard e" "ex_commitState e = toolCommitPending" "\<And>t. t \<in> set (ex_tools e) \<Longrightarrow> strict \<Longrightarrow> tt_Status t \<noteq> toolStatusExecuting"
  shows "executor_steps strict cfg e [] (fst (rejectPendingLocked message e))"
proof -
  let ?f = "\<lambda>t. if tt_Status t = toolStatusYielded then t else complete_with (result_ID t) message t"
  have "executor_steps strict cfg e [] (e\<lparr>ex_tools := map ?f (ex_tools e)\<rparr>)"
  proof (rule map_tools_steps [where K = "\<lambda>e. strict \<longrightarrow> list_all (\<lambda>t. tt_Status t \<noteq> toolStatusExecuting) (ex_tools e)"])
    fix e :: StreamingToolExecutor and i assume i: "i < length (ex_tools e)" and s: "strict \<longrightarrow> list_all (\<lambda>t. tt_Status t \<noteq> toolStatusExecuting) (ex_tools e)"
    let ?t = "ex_tools e ! i"
    have "executor_steps strict cfg e [] (set_tool i (?f ?t) e)"
      using i s step_complete [OF i refl, where r = "newToolResult (result_ID ?t) (tl_Name (tt_ToolCall ?t)) message True" and c = "tt_cancelFunc ?t" and strict = strict and cfg = cfg]
      by (auto simp: complete_with_def set_tool_id list_all_length intro!: steps_single)
    moreover have "strict \<longrightarrow> list_all (\<lambda>t. tt_Status t \<noteq> toolStatusExecuting) (ex_tools (set_tool i (?f ?t) e))"
      using i s by (auto simp: complete_with_def list_all_length nth_list_update)
    ultimately show "executor_steps strict cfg e [] (set_tool i (?f ?t) e) \<and>
      (strict \<longrightarrow> list_all (\<lambda>t. tt_Status t \<noteq> toolStatusExecuting) (ex_tools (set_tool i (?f ?t) e)))" by blast
  qed (use assms(3) in \<open>auto simp: list_all_iff\<close>)
  moreover have "executor_steps strict cfg (e\<lparr>ex_tools := map ?f (ex_tools e)\<rparr>) [] (e\<lparr>ex_tools := map ?f (ex_tools e), ex_commitState := toolCommitRejected\<rparr>)"
    using step_state [of "e\<lparr>ex_tools := map ?f (ex_tools e)\<rparr>" strict cfg toolCommitRejected] assms(1,2) by (auto intro: steps_single)
  ultimately show ?thesis using assms(1,2) steps_other(2)
    by (auto simp: rejectPendingLocked_def intro: steps_silent)
qed

lemma synthesize_steps:
  assumes "strict \<Longrightarrow> nothing_queued e"
  shows "executor_steps strict cfg e [] (synthesizeCancelBehaviorLocked cfg message e)"
proof -
  let ?f = "\<lambda>t. if cancels cfg t then (complete_with (result_ID t) message t)\<lparr>tt_cancelFunc := False\<rparr> else t"
  have 1: "executor_steps strict cfg e [] (e\<lparr>ex_tools := map ?f (ex_tools e)\<rparr>)"
  proof (rule map_tools_steps [where K = "\<lambda>e. strict \<longrightarrow> nothing_queued e"])
    fix e :: StreamingToolExecutor and i assume i: "i < length (ex_tools e)" and s: "strict \<longrightarrow> nothing_queued e"
    let ?t = "ex_tools e ! i"
    have "executor_steps strict cfg e [] (set_tool i (?f ?t) e)"
      using i s step_complete [OF i refl, where r = "newToolResult (result_ID ?t) (tl_Name (tt_ToolCall ?t)) message True" and c = False and strict = strict and cfg = cfg]
      by (auto simp: complete_with_def cancels_def set_tool_id intro!: steps_single)
    moreover have "strict \<longrightarrow> nothing_queued (set_tool i (?f ?t) e)"
      using i s by (auto simp: nothing_queued_def complete_with_def list_all_length nth_list_update)
    ultimately show "executor_steps strict cfg e [] (set_tool i (?f ?t) e) \<and> (strict \<longrightarrow> nothing_queued (set_tool i (?f ?t) e))" by blast
  qed (use assms in auto)
  have 2: "executor_steps strict cfg e1 [] (Broadcast (e1\<lparr>ex_cancelled := cs, ex_notified := ns\<rparr>))" for e1 ns cs
    using step_other [where e = e1 and b = "ex_bashErrored e1" and s = "ex_siblingCancelled e1" and cs = cs and ns = ns and w = True] by (auto simp: Broadcast_def intro: steps_single)
  show ?thesis unfolding synthesizeCancelBehaviorLocked_def by (rule steps_silent [OF 1 2])
qed

lemma interrupt_steps:
  assumes "\<And>t. ex_commitState e = toolCommitPending \<Longrightarrow> t \<in> set (ex_tools e) \<Longrightarrow> strict \<Longrightarrow> tt_Status t \<noteq> toolStatusExecuting"
  shows "executor_steps strict cfg e [] (interruptRemainingLocked cfg e)"
proof (cases "ex_discard e \<or> ex_commitState e \<noteq> toolCommitCommitted")
  case True
  then show ?thesis using reject_steps [of e strict cfg "''Interrupted by user''"] assms by (auto simp: interruptRemainingLocked_def)
next
  case False
  let ?e = "e\<lparr>ex_tools := map (complete_queued result_ID ''Interrupted by user'') (ex_tools e)\<rparr>"
  have "nothing_queued ?e" using False by (auto simp: nothing_queued_def list_all_iff complete_queued_def complete_with_def)
  then have "executor_steps strict cfg e [] (Broadcast (synthesizeCancelBehaviorLocked cfg ''Interrupted by user'' ?e))"
    by (rule steps_silent [OF complete_queued_steps steps_silent [OF synthesize_steps steps_other(2)]])
  then show ?thesis using False by (simp add: interruptRemainingLocked_def)
qed

lemma startToolLocked_simps [simp]:
  "ex_discard (startToolLocked cfg i e) = ex_discard e" "ex_commitState (startToolLocked cfg i e) = ex_commitState e"
  "length (ex_tools (startToolLocked cfg i e)) = length (ex_tools e)" "ex_maxConcurrency (startToolLocked cfg i e) = ex_maxConcurrency e"
  by (auto simp: startToolLocked_def Let_def)

lemma startToolLocked_status:
  "i < length (ex_tools e) \<Longrightarrow> j < length (ex_tools e) \<Longrightarrow> tt_Status (ex_tools e ! i) = toolStatusQueued \<Longrightarrow>
     tt_Status (ex_tools (startToolLocked cfg i e) ! j) = (if j = i then toolStatusExecuting else tt_Status (ex_tools e ! j))"
  by (auto simp: startToolLocked_def Let_def nth_list_update)

lemma start_loop_steps:
  "\<not> ex_discard e \<Longrightarrow> ex_commitState e = toolCommitCommitted \<Longrightarrow> xc_execute cfg \<Longrightarrow>
     \<forall>j<m. tt_Status (ex_tools e ! j) \<noteq> toolStatusQueued \<Longrightarrow> n = length (ex_tools e) \<Longrightarrow>
     executor_steps strict cfg e [] (start_loop cfg force [m..<n] e)"
proof (induction "n - m" arbitrary: m e)
  case (Suc k)
  then have m: "m < n" by simp
  have up: "[m..<n] = m # [Suc m..<n]" using m by (simp add: upt_conv_Cons)
  let ?t = "ex_tools e ! m" and ?e = "startToolLocked cfg m e"
  have next_prefix: "\<forall>j<Suc m. tt_Status (ex_tools e' ! j) \<noteq> toolStatusQueued"
    if "\<forall>j<m. tt_Status (ex_tools e' ! j) \<noteq> toolStatusQueued" "tt_Status (ex_tools e' ! m) \<noteq> toolStatusQueued" for e'
    using that less_Suc_eq by auto
  show ?case
  proof (cases "tt_Status ?t = toolStatusQueued \<and> canExecuteLocked (tt_IsConcurrencySafe ?t) e")
    case True
    then have "first_queued e m" using Suc.prems m by (auto simp: first_queued_def)
    then have s: "executor_steps strict cfg e [] ?e" using step_start [of e cfg m strict] Suc.prems True by (auto intro: steps_single)
    have "executor_steps strict cfg ?e [] (start_loop cfg force [Suc m..<n] ?e)"
      using Suc.hyps(1) [of "Suc m" ?e] Suc.hyps(2) Suc.prems m True
      by (auto simp: startToolLocked_status less_Suc_eq)
    note steps_silent [OF s this]
    moreover have "start_loop cfg force [m..<n] e \<in> {e, ?e, start_loop cfg force [Suc m..<n] ?e}" using True by (simp add: up Let_def)
    ultimately show ?thesis using s steps_refl [of strict cfg e] by auto
  next
    case False
    have "executor_steps strict cfg e [] (start_loop cfg force [Suc m..<n] e)" if "tt_Status ?t \<noteq> toolStatusQueued"
      using Suc.hyps(1) [of "Suc m" e] Suc.hyps(2) Suc.prems next_prefix [of e] that by simp
    moreover have "start_loop cfg force [m..<n] e = (if tt_Status ?t \<noteq> toolStatusQueued then start_loop cfg force [Suc m..<n] e else e)"
      using False by (simp add: up Let_def)
    ultimately show ?thesis using steps_refl [of strict cfg e] by auto
  qed
qed auto

lemma startRunnable_steps: "executor_steps strict cfg e [] (startRunnableLocked cfg force e)"
  using start_loop_steps [of e cfg 0 "length (ex_tools e)" strict force] by (auto simp: startRunnableLocked_def)

lemma collect_steps:
  "ready_loop True (drop m (ex_tools e)) = (ts, rs) \<Longrightarrow> m \<le> length (ex_tools e) \<Longrightarrow>
     \<forall>j<m. tt_Status (ex_tools e ! j) = toolStatusYielded \<Longrightarrow>
     executor_steps strict cfg e rs (e\<lparr>ex_tools := take m (ex_tools e) @ ts\<rparr>)"
proof (induction "length (ex_tools e) - m" arbitrary: m e ts rs)
  case 0
  then show ?case by auto
next
  case (Suc k)
  then have m: "m < length (ex_tools e)" by simp
  let ?t = "ex_tools e ! m" and ?rest = "drop (Suc m) (ex_tools e)"
  have d: "drop m (ex_tools e) = ?t # ?rest" using m by (simp add: Cons_nth_drop_Suc)
  obtain ts' rs' where r: "ready_loop True ?rest = (ts', rs')" by fastforce
  have tk: "take (Suc m) xs = take m xs @ [xs ! m]" if "m < length xs" for xs :: "trackedTool list" using that by (simp add: take_Suc_conv_app_nth)
  consider (yielded) "tt_Status ?t = toolStatusYielded"
    | (ready) x where "tt_Status ?t = toolStatusCompleted" "tt_Result ?t = Some x"
    | (pending) "tt_Status ?t \<noteq> toolStatusYielded" "(if tt_Status ?t = toolStatusCompleted then tt_Result ?t else None) = None"
    by (cases "tt_Status ?t"; cases "tt_Result ?t") auto
  then show ?case
  proof cases
    case yielded
    then have "ts = ?t # ts'" "rs = rs'" using Suc.prems(1) r by (auto simp: d)
    then show ?thesis using Suc.hyps(1) [of e "Suc m" ts' rs'] Suc.hyps(2) Suc.prems(3) yielded m r by (auto simp: tk less_Suc_eq)
  next
    case ready
    let ?e = "set_tool m (?t\<lparr>tt_Status := toolStatusYielded\<rparr>) e"
    have "ts = ?t\<lparr>tt_Status := toolStatusYielded\<rparr> # ts'" "rs = x # rs'" using Suc.prems(1) r ready by (auto simp: d)
    moreover have "executor_step strict cfg e [x] ?e" using step_yield [OF m refl ready Suc.prems(3)] .
    moreover have "executor_steps strict cfg ?e rs' (?e\<lparr>ex_tools := take (Suc m) (ex_tools ?e) @ ts'\<rparr>)"
      using Suc.hyps(1) [of ?e "Suc m" ts' rs'] Suc.hyps(2) Suc.prems(3) m r by (auto simp: less_Suc_eq)
    moreover have "?e\<lparr>ex_tools := take (Suc m) (ex_tools ?e) @ ts'\<rparr> = e\<lparr>ex_tools := take m (ex_tools e) @ ts\<rparr>"
      using m calculation(1) by (simp add: set_tool_def tk)
    ultimately show ?thesis using steps_step by fastforce
  next
    case pending
    then have "ts = drop m (ex_tools e)" "rs = []" using Suc.prems(1) by (auto simp: d)
    then show ?thesis by auto
  qed
qed

lemma collectReady_steps:
  "collectReadyResultsLocked True e = (e', rs) \<Longrightarrow> executor_steps strict cfg e rs e'"
  using collect_steps [of 0 e] by (auto simp: collectReadyResultsLocked_def split: prod.splits)

lemma tool_index_Some:
  "tool_index x ts = Some i \<Longrightarrow> i < length ts \<and> tt_ID (ts ! i) = x"
  by (induction ts arbitrary: i) (auto split: if_splits)

lemma tool_index_None: "tool_index x ts = None \<longleftrightarrow> x \<notin> tt_ID ` set ts"
  by (induction ts) auto

lemma AddTool_steps: "executor_steps strict cfg e [] (AddTool cfg call m e)"
proof (cases "call = None \<or> ex_discard e \<or> ex_commitState e \<noteq> toolCommitPending \<or> toolCallKey (the call) = []")
  case False
  then obtain c where c: "call = Some c" by auto
  show ?thesis
  proof (cases "tool_index (toolCallKey c) (ex_tools e)")
    case None
    then have "toolCallKey c \<notin> tt_ID ` set (ex_tools e)" by (simp add: tool_index_None)
    then show ?thesis using False None by (auto simp: c AddTool_def intro!: steps_single step_add)
  next
    case (Some i)
    then show ?thesis using False tool_index_Some [OF Some] by (auto simp: c AddTool_def Let_def intro!: steps_single step_revise)
  qed
qed (auto simp: AddTool_def split: option.splits)

lemma commit_steps:
  assumes "\<And>t. ex_commitState e = toolCommitPending \<Longrightarrow> t \<in> set (ex_tools e) \<Longrightarrow> strict \<Longrightarrow> tt_Status t \<noteq> toolStatusExecuting"
  shows "executor_steps strict cfg e [] (fst (commit cfg ctxErr e))"
proof (cases "ex_discard e \<or> ex_commitState e \<noteq> toolCommitPending \<or> ctxErr")
  case True
  then show ?thesis using reject_steps [of e strict cfg "''Interrupted by user''"] assms
    by (cases "ex_commitState e") (auto simp: commit_def)
next
  case False
  let ?e = "e\<lparr>ex_commitState := toolCommitCommitted\<rparr>"
  have s: "executor_steps strict cfg e [] ?e" using False step_state by (auto intro: steps_single)
  have "executor_steps strict cfg e [] (Broadcast ?e)" "executor_steps strict cfg e [] (Broadcast (startRunnableLocked cfg False ?e))"
    by (rule steps_silent [OF s steps_other(2)], rule steps_silent [OF s steps_silent [OF startRunnable_steps steps_other(2)]])
  then show ?thesis using False by (simp add: commit_def Let_def)
qed

lemma settle_steps:
  assumes i: "i < length (ex_tools e)" "tt_Status (ex_tools e ! i) \<noteq> toolStatusYielded"
    and s: "strict \<Longrightarrow> tt_Status (ex_tools e ! i) = toolStatusExecuting \<Longrightarrow> tt_ID (ex_tools e ! i) \<in> gr_ID ` set (ex_running e) \<Longrightarrow> nothing_queued e"
  shows "executor_steps strict cfg e [] (settle_tool cfg i result e)"
proof -
  let ?t = "ex_tools e ! i"
  let ?r = "commitToolResultContextModifier (normalizeToolResult (tt_ID ?t) (tt_ToolCall ?t) result)"
  let ?e1 = "set_tool i (?t\<lparr>tt_Result := Some ?r, tt_Status := toolStatusCompleted, tt_cancelFunc := False\<rparr>) e"
  have 1: "executor_steps strict cfg e [] ?e1" using step_complete [OF i(1) refl i(2) s, where r = ?r and c = False] by (auto intro: steps_single)
  have 2: "executor_steps strict cfg ?e1 [] (synthesizeQueuedSiblingsLocked src (?e1\<lparr>ex_bashErrored := True, ex_siblingCancelled := True\<rparr>))" for src
    using complete_queued_steps unfolding synthesizeQueuedSiblingsLocked_def by (rule steps_silent [OF steps_other(3)])
  have 3: "executor_steps strict cfg e2 [] (startRunnableLocked cfg False (Broadcast e2))" for e2
    by (rule steps_silent [OF steps_other(2) startRunnable_steps])
  show ?thesis
    using steps_silent [OF 1 3] steps_silent [OF steps_silent [OF 1 2] 3] by (simp add: settle_tool_def Let_def)
qed

lemma Complete_steps: "\<not> strict \<Longrightarrow> executor_steps strict cfg e [] (Complete cfg callID r isError e)"
proof (cases "ex_discard e \<or> ex_commitState e = toolCommitRejected \<or> tool_index callID (ex_tools e) = None")
  case False
  assume n: "\<not> strict"
  obtain i where i: "tool_index callID (ex_tools e) = Some i" using False by auto
  let ?t = "ex_tools e ! i"
  let ?e1 = "set_tool i (?t\<lparr>tt_Result := Some (newToolResult callID (tl_Name (tt_ToolCall ?t)) r isError), tt_Status := toolStatusCompleted\<rparr>) e"
  show ?thesis
  proof (cases "tt_Result ?t \<noteq> None \<or> tt_Status ?t = toolStatusYielded")
    case False
    then have "executor_step strict cfg e [] ?e1"
      using step_complete [OF _ refl, where e = e and i = i and r = "newToolResult callID (tl_Name (tt_ToolCall ?t)) r isError" and c = "tt_cancelFunc ?t" and cfg = cfg and strict = strict]
        n tool_index_Some [OF i] by auto
    then have "executor_steps strict cfg e [] (startRunnableLocked cfg False (Broadcast ?e1))"
      by (rule steps_silent [OF steps_single steps_silent [OF steps_other(2) startRunnable_steps]])
    then show ?thesis using False \<open>\<not> (ex_discard e \<or> _)\<close> by (simp add: Complete_def i Let_def)
  qed (use i in \<open>auto simp: Complete_def\<close>)
qed (auto simp: Complete_def)

section \<open>Well-formed executors\<close>

definition executor_wf :: "StreamingToolExecutor \<Rightarrow> bool" where
  "executor_wf e \<longleftrightarrow>
     distinct (map tt_ID (ex_tools e)) \<and> distinct (map gr_ID (ex_running e)) \<and>
     (ex_commitState e \<noteq> toolCommitCommitted \<longrightarrow> ex_running e = [] \<and> ex_started e = [] \<and> executing e = []) \<and>
     (\<forall>g\<in>set (ex_running e). \<forall>t\<in>set (ex_tools e). tt_ID t = gr_ID g \<longrightarrow> tt_Status t \<noteq> toolStatusQueued)"

lemma executing_set_tool:
  "executing e = [] \<Longrightarrow> tt_Status t \<noteq> toolStatusExecuting \<Longrightarrow> executing (set_tool i t e) = []"
  by (auto simp: executing_def filter_empty_conv dest: set_update_subset_insert [THEN subsetD])

lemma map_tt_ID_update: "tt_ID t = tt_ID (ts ! i) \<Longrightarrow> map tt_ID (ts[i := t]) = map tt_ID ts"
  by (metis list_update_id map_update)

lemma wf_set_tool:
  assumes "executor_wf e" "i < length (ex_tools e)" "tt_ID t = tt_ID (ex_tools e ! i)"
    and "tt_Status t \<noteq> toolStatusExecuting \<or> tt_Status (ex_tools e ! i) = toolStatusExecuting"
    and "tt_Status t = toolStatusQueued \<longrightarrow> tt_Status (ex_tools e ! i) = toolStatusQueued"
  shows "executor_wf (set_tool i t e)"
proof -
  have "executing (set_tool i t e) = []" if "executing e = []"
    using that assms(2,4) executing_set_tool [OF that] by (auto simp: executing_def filter_empty_conv)
  moreover have "\<forall>u\<in>set ((ex_tools e)[i := t]). tt_ID u = x \<longrightarrow> tt_Status u \<noteq> toolStatusQueued"
    if "\<forall>u\<in>set (ex_tools e). tt_ID u = x \<longrightarrow> tt_Status u \<noteq> toolStatusQueued" for x
    using that assms(2,3,5) by (auto dest!: set_update_subset_insert [THEN subsetD])
  ultimately show ?thesis using assms(1,3) by (auto simp: executor_wf_def map_tt_ID_update)
qed

lemma queued_not_running:
  "executor_wf e \<Longrightarrow> i < length (ex_tools e) \<Longrightarrow> tt_Status (ex_tools e ! i) = toolStatusQueued \<Longrightarrow> tt_ID (ex_tools e ! i) \<notin> gr_ID ` set (ex_running e)"
  by (auto simp: executor_wf_def)

lemma wf_start:
  assumes "executor_wf e" "first_queued e i" "ex_commitState e = toolCommitCommitted"
  shows "executor_wf (startToolLocked cfg i e)"
proof -
  let ?t = "ex_tools e ! i"
  have i: "i < length (ex_tools e)" "tt_Status ?t = toolStatusQueued" using assms(2) by (auto simp: first_queued_def)
  have "\<forall>u\<in>set ((ex_tools e)[i := ?t\<lparr>tt_Status := toolStatusExecuting, tt_cancelFunc := True\<rparr>]). tt_ID u = tt_ID ?t \<longrightarrow> tt_Status u \<noteq> toolStatusQueued"
  proof (intro ballI impI)
    fix u assume u: "u \<in> set ((ex_tools e)[i := ?t\<lparr>tt_Status := toolStatusExecuting, tt_cancelFunc := True\<rparr>])" "tt_ID u = tt_ID ?t"
    then obtain j where j: "j < length (ex_tools e)" "u = (ex_tools e)[i := ?t\<lparr>tt_Status := toolStatusExecuting, tt_cancelFunc := True\<rparr>] ! j" by (auto simp: in_set_conv_nth)
    show "tt_Status u \<noteq> toolStatusQueued"
    proof (cases "j = i")
      case False
      then have "u = ex_tools e ! j" using j by simp
      then have "j = i" using u(2) assms(1) i(1) j(1) by (simp add: executor_wf_def distinct_conv_nth) metis
      with False show ?thesis by simp
    qed (use i j in simp)
  qed
  moreover have "\<forall>u\<in>set ((ex_tools e)[i := ?t\<lparr>tt_Status := toolStatusExecuting, tt_cancelFunc := True\<rparr>]). tt_ID u = gr_ID g \<longrightarrow> tt_Status u \<noteq> toolStatusQueued"
    if "g \<in> set (ex_running e)" for g using assms(1) that by (auto simp: executor_wf_def dest!: set_update_subset_insert [THEN subsetD])
  ultimately show ?thesis using assms(1,3) i queued_not_running [OF assms(1) i]
    by (auto simp: executor_wf_def startToolLocked_def Let_def map_tt_ID_update)
qed

lemma distinct_remove_nth:
  assumes "distinct (map f xs)"
  shows "distinct (map f (take k xs @ drop (Suc k) xs)) \<and> (k < length xs \<longrightarrow> f (xs ! k) \<notin> f ` set (take k xs @ drop (Suc k) xs))"
proof (cases "k < length xs")
  case True
  then have "map f xs = map f (take k xs) @ f (xs ! k) # map f (drop (Suc k) xs)" by (metis id_take_nth_drop list.simps(9) map_append)
  with assms show ?thesis by auto
qed (use assms in simp)

lemma wf_step: "executor_step strict cfg e rs e' \<Longrightarrow> executor_wf e \<Longrightarrow> executor_wf e'"
proof (induction rule: executor_step.induct)
  case (step_add e t)
  then show ?case by (auto simp: executor_wf_def executing_def)
next
  case (step_report e k)
  have "distinct (map gr_ID (take k (ex_running e) @ drop (Suc k) (ex_running e)))"
    using step_report distinct_remove_nth [of gr_ID "ex_running e" k] by (simp add: executor_wf_def)
  then show ?case using step_report by (auto simp: executor_wf_def executing_def dest: in_set_takeD in_set_dropD)
next
  case (step_state e c)
  then show ?case by (auto simp: executor_wf_def executing_def)
next
  case (step_discard e)
  then show ?case by (auto simp: executor_wf_def executing_def)
next
  case (step_other e b s cs ns w)
  then show ?case by (auto simp: executor_wf_def executing_def)
qed (auto intro!: wf_set_tool wf_start)

lemma wf_steps: "executor_steps strict cfg e rs e' \<Longrightarrow> executor_wf e \<Longrightarrow> executor_wf e'"
  by (induction rule: executor_steps.induct) (auto intro: wf_step)

lemma pending_idle: "executor_wf e \<Longrightarrow> ex_commitState e \<noteq> toolCommitCommitted \<Longrightarrow> t \<in> set (ex_tools e) \<Longrightarrow> tt_Status t \<noteq> toolStatusExecuting"
  by (auto simp: executor_wf_def executing_def filter_empty_conv)

lemma interrupt_keeps:
  "ex_running (interruptRemainingLocked cfg e) = ex_running e"
  "ex_commitState e = toolCommitCommitted \<Longrightarrow> length (ex_tools (interruptRemainingLocked cfg e)) = length (ex_tools e)"
  "ex_commitState e = toolCommitCommitted \<Longrightarrow> i < length (ex_tools e) \<Longrightarrow> tt_Result (ex_tools (interruptRemainingLocked cfg e) ! i) = None \<Longrightarrow>
     ex_tools (interruptRemainingLocked cfg e) ! i = ex_tools e ! i"
  by (auto simp: interruptRemainingLocked_def rejectPendingLocked_def synthesizeCancelBehaviorLocked_def complete_queued_def complete_with_def
      split: if_splits)

lemma finish_steps:
  assumes "strict \<Longrightarrow> toolID \<notin> gr_ID ` set (ex_running e)"
  shows "executor_steps strict cfg e [] (finish cfg toolID r isInterrupted e)"
proof (cases "ex_discard e \<or> ex_commitState e \<noteq> toolCommitCommitted \<or> tool_index toolID (ex_tools e) = None")
  case False
  then obtain i where i: "tool_index toolID (ex_tools e) = Some i" and c: "ex_commitState e = toolCommitCommitted" "\<not> ex_discard e" by auto
  note ti = tool_index_Some [OF i]
  let ?t = "ex_tools e ! i" and ?e1 = "if isInterrupted then interruptRemainingLocked cfg e else e"
  show ?thesis
  proof (cases "tt_Result ?t \<noteq> None \<or> tt_Status ?t = toolStatusYielded")
    case True
    then show ?thesis using i c steps_other(2) by (auto simp: finish_def)
  next
    case False
    have 1: "executor_steps strict cfg e [] ?e1" using interrupt_steps [of e strict cfg] c by auto
    have "executor_steps strict cfg ?e1 [] (settle_tool cfg i r ?e1)" if "\<not> (isInterrupted \<and> tt_Result (ex_tools ?e1 ! i) \<noteq> None)"
    proof (rule settle_steps)
      have "ex_tools ?e1 ! i = ?t" using that interrupt_keeps(3) [OF c(1), of i cfg] ti by auto
      then show "tt_Status (ex_tools ?e1 ! i) \<noteq> toolStatusYielded"
        "strict \<Longrightarrow> tt_Status (ex_tools ?e1 ! i) = toolStatusExecuting \<Longrightarrow> tt_ID (ex_tools ?e1 ! i) \<in> gr_ID ` set (ex_running ?e1) \<Longrightarrow> nothing_queued ?e1"
        using False assms ti by (auto simp: interrupt_keeps(1) split: if_splits)
    qed (use ti interrupt_keeps(2) [OF c(1), of cfg] in auto)
    from steps_silent [OF 1 this] 1 show ?thesis using False i c by (simp add: finish_def Let_def split: if_splits)
  qed
qed (auto simp: finish_def)

lemma report_steps:
  assumes "executor_wf e"
  shows "executor_steps strict cfg e [] (report_result cfg k r isInterrupted e)"
proof (cases "k < length (ex_running e)")
  case True
  let ?e = "e\<lparr>ex_running := take k (ex_running e) @ drop (Suc k) (ex_running e)\<rparr>"
  have "gr_ID (ex_running e ! k) \<notin> gr_ID ` set (ex_running ?e)"
    using assms True distinct_remove_nth [of gr_ID "ex_running e" k] by (simp add: executor_wf_def)
  then have "executor_steps strict cfg e [] (finish cfg (gr_ID (ex_running e ! k)) x isInterrupted ?e)" for x
    by (rule steps_silent [OF steps_single [OF step_report] finish_steps])
  with True show ?thesis by (simp add: report_result_def Let_def)
qed (auto simp: report_result_def)

lemma collect_all_steps: "executor_steps strict cfg e (snd (results_of (collect_all e))) (fst (results_of (collect_all e)))"
  using collectReady_steps [of e] by (auto simp: collect_all_def results_of_def split: prod.splits)

lemma remaining_loop_steps:
  "executor_steps strict cfg e (snd (results_of (remaining_loop cfg starts e))) (fst (results_of (remaining_loop cfg starts e)))"
proof -
  let ?e = "if starts then startRunnableLocked cfg True e else e"
  have 1: "executor_steps strict cfg e [] ?e" using startRunnable_steps by auto
  show ?thesis using steps_silent [OF 1 collect_all_steps] steps_silent [OF 1 steps_other(1)]
    by (simp add: remaining_loop_def results_of_def Let_def)
qed

lemma reject_uncommitted_steps:
  "executor_wf e \<Longrightarrow> \<not> ex_discard e \<Longrightarrow> executor_steps strict cfg e [] (reject_uncommitted b e)"
  using reject_steps [of e strict cfg] pending_idle [of e] by (auto simp: reject_uncommitted_def)

lemma GetRemaining_steps:
  assumes "executor_wf e" "strict \<Longrightarrow> \<not> ctxDone"
  shows "executor_steps strict cfg e (snd (results_of (GetRemainingResults cfg ctxDone e))) (fst (results_of (GetRemainingResults cfg ctxDone e)))"
proof (cases "ex_discard e")
  case False
  note 1 = reject_uncommitted_steps [OF assms(1) False, of strict cfg ctxDone]
  have "executor_steps strict cfg (reject_uncommitted ctxDone e) [] (synthesizeCancelBehaviorLocked cfg m (reject_uncommitted ctxDone e))" if ctxDone for m
    using synthesize_steps assms(2) that by blast
  note 2 = steps_silent [OF this remaining_loop_steps]
  show ?thesis using False steps_silent [OF 1 collect_all_steps] steps_silent [OF 1 remaining_loop_steps] steps_silent [OF 1 2]
    by (cases ctxDone) (simp_all add: GetRemainingResults_def Let_def)
qed (auto simp: GetRemainingResults_def results_of_def)

lemma GetRemainingContext_steps:
  assumes "executor_wf e"
  shows "executor_steps strict cfg e (snd (results_of (GetRemainingResultsContext cfg ctxErr e))) (fst (results_of (GetRemainingResultsContext cfg ctxErr e)))"
proof (cases "ex_discard e")
  case False
  let ?e1 = "reject_uncommitted ctxErr e"
  let ?e2 = "if ctxErr then interruptRemainingLocked cfg ?e1 else ?e1"
  note 1 = reject_uncommitted_steps [OF assms False, of strict cfg ctxErr]
  have "executor_steps strict cfg ?e1 [] ?e2"
    using interrupt_steps [of ?e1 strict cfg] pending_idle [OF wf_steps [OF 1 assms]] by auto
  note 2 = steps_silent [OF 1 this]
  show ?thesis using False steps_silent [OF 1 collect_all_steps] steps_silent [OF 2 collect_all_steps] steps_silent [OF 2 remaining_loop_steps]
    by (simp add: GetRemainingResultsContext_def Let_def)
qed (auto simp: GetRemainingResultsContext_def results_of_def)

lemma Discard_steps: "executor_steps strict cfg e [] (Discard e)"
proof -
  have "executor_steps strict cfg (e\<lparr>ex_discard := True, ex_tools := []\<rparr>) [] (Broadcast (e\<lparr>ex_discard := True, ex_tools := [], ex_siblingCancelled := True, ex_cancelled := cs\<rparr>))" for cs
    using step_other [where e = "e\<lparr>ex_discard := True, ex_tools := []\<rparr>" and b = "ex_bashErrored e" and s = True and cs = cs and ns = "ex_notified e" and w = True]
    by (auto simp: Broadcast_def intro: steps_single)
  from steps_silent [OF steps_single [OF step_discard] this] show ?thesis by (simp add: Discard_def)
qed

lemma run_executor_refines:
  assumes "executor_wf e" "strict \<Longrightarrow> engine_op op"
  shows "executor_steps strict cfg e (snd (run_executor cfg op e)) (fst (run_executor cfg op e))"
proof (cases op)
  case (Op_Complete callID r isError)
  then have "\<not> strict" using assms(2) by (auto simp: engine_op_def)
  from Complete_steps [OF this] show ?thesis by (simp add: Op_Complete)
next
  case (Op_GetRemaining ctxDone)
  then show ?thesis using assms GetRemaining_steps by (auto simp: engine_op_def)
next
  case (Op_reject m)
  then show ?thesis using reject_steps [of e strict cfg m] pending_idle [OF assms(1)] by (auto simp: rejectPendingLocked_def)
next
  case Op_interrupt
  then show ?thesis using interrupt_steps [of e strict cfg] pending_idle [OF assms(1)] by auto
next
  case (Op_commit b)
  then show ?thesis using commit_steps [of e strict cfg b] pending_idle [OF assms(1)] by auto
next
  case Op_GetCompleted
  then show ?thesis using collectReady_steps [of e] by (cases "collectReadyResultsLocked True e") (auto simp: GetCompleted_def)
qed (use AddTool_steps report_steps [OF assms(1)] GetRemainingContext_steps [OF assms(1)] remaining_loop_steps Discard_steps in auto)

end
