(* ===== verification/Tool_Order.thy ===== *)
theory Tool_Order
  imports Tool_Run "HOL-Library.Sublist"
begin

text \<open>
  What the tool executor promises.  The locale \<open>executor_invariant\<close> lifts a property kept by every
  elementary change to all sequences of operations; it is interpreted for exclusive execution, for
  the order of results and for the order of starts.
\<close>

section \<open>Invariants of runs\<close>

locale executor_invariant =
  fixes strict :: bool and cfg :: StreamingToolExecutorConfig and I :: "ToolResult list \<Rightarrow> StreamingToolExecutor \<Rightarrow> bool"
  assumes initially: "I [] (NewStreamingToolExecutor cfg)"
    and kept: "executor_step strict cfg e rs e' \<Longrightarrow> executor_wf e \<Longrightarrow> I out e \<Longrightarrow> I (out @ rs) e'"
begin

lemma kept_steps: "executor_steps strict cfg e rs e' \<Longrightarrow> executor_wf e \<Longrightarrow> I out e \<Longrightarrow> I (out @ rs) e'"
proof (induction arbitrary: out rule: executor_steps.induct)
  case (steps_step e rs e' rs' e'')
  then show ?case using kept wf_step by (metis append_assoc)
qed simp

lemma kept_run:
  "executor_wf e \<Longrightarrow> I out e \<Longrightarrow> (strict \<Longrightarrow> list_all engine_op ops) \<Longrightarrow> run_executor_all cfg ops e = (e', rs) \<Longrightarrow> I (out @ rs) e' \<and> executor_wf e'"
proof (induction ops arbitrary: e out rs)
  case (Cons op ops)
  obtain e1 rs1 where 1: "run_executor cfg op e = (e1, rs1)" by fastforce
  then obtain rs2 where 2: "run_executor_all cfg ops e1 = (e', rs2)" "rs = rs1 @ rs2" using Cons.prems(4) by (auto split: prod.splits)
  have "executor_steps strict cfg e rs1 e1" using run_executor_refines [of e strict op cfg] Cons.prems 1 by auto
  then have "I (out @ rs1) e1" "executor_wf e1" using Cons.prems(1,2) kept_steps wf_steps by blast+
  then show ?case using Cons.IH [of e1 "out @ rs1" rs2] Cons.prems(3) 2 by auto
qed auto

lemma holds:
  assumes "strict \<Longrightarrow> list_all engine_op ops" "run_executor_all cfg ops (NewStreamingToolExecutor cfg) = (e, rs)"
  shows "I rs e \<and> executor_wf e"
proof -
  have "executor_wf (NewStreamingToolExecutor cfg)" by (simp add: executor_wf_def NewStreamingToolExecutor_def executing_def)
  from kept_run [OF this initially _ assms(2)] assms(1) show ?thesis by auto
qed

end

lemma update_other: "u \<in> set xs \<Longrightarrow> u \<noteq> xs ! i \<Longrightarrow> u \<in> set (xs[i := t])"
  by (metis in_set_conv_nth length_list_update nth_list_update_neq)

section \<open>Exclusive execution\<close>

definition exclusive :: "StreamingToolExecutor \<Rightarrow> bool" where
  "exclusive e \<longleftrightarrow> int (length (ex_running e)) \<le> ex_maxConcurrency e \<and> ex_maxConcurrency e \<ge> 1 \<and>
     (\<forall>g\<in>set (ex_running e). \<not> gr_safe g \<longrightarrow> ex_running e = [g])"

definition accounted :: "StreamingToolExecutor \<Rightarrow> goroutine \<Rightarrow> bool" where
  "accounted e g \<longleftrightarrow> (\<exists>t\<in>set (executing e). tt_ID t = gr_ID g \<and> tt_IsConcurrencySafe t = gr_safe g)"

definition running_ok :: "StreamingToolExecutor \<Rightarrow> bool" where
  "running_ok e \<longleftrightarrow> exclusive e \<and> (ex_discard e \<or> nothing_queued e \<or> list_all (accounted e) (ex_running e))"

lemma accounted_set_tool:
  assumes "accounted e g"
    and "tt_Status (ex_tools e ! i) \<noteq> toolStatusExecuting \<or> tt_ID (ex_tools e ! i) \<noteq> gr_ID g \<or>
      tt_Status t = toolStatusExecuting \<and> tt_ID t = tt_ID (ex_tools e ! i) \<and> tt_IsConcurrencySafe t = tt_IsConcurrencySafe (ex_tools e ! i)"
    and "i < length (ex_tools e)"
  shows "accounted (set_tool i t e) g"
proof -
  obtain u where u: "u \<in> set (ex_tools e)" "tt_Status u = toolStatusExecuting" "tt_ID u = gr_ID g" "tt_IsConcurrencySafe u = gr_safe g"
    using assms(1) by (auto simp: accounted_def executing_def)
  show ?thesis
  proof (cases "u = ex_tools e ! i")
    case True
    then have "t \<in> set ((ex_tools e)[i := t])" using assms(3) by (simp add: set_update_memI)
    then show ?thesis using True u assms(2) by (auto simp: accounted_def executing_def)
  qed (use u update_other in \<open>fastforce simp: accounted_def executing_def\<close>)
qed

lemma nothing_queued_set_tool:
  "nothing_queued e \<Longrightarrow> i < length (ex_tools e) \<Longrightarrow> tt_Status t \<noteq> toolStatusQueued \<or> tt_Status t = tt_Status (ex_tools e ! i) \<Longrightarrow> nothing_queued (set_tool i t e)"
  by (auto simp: nothing_queued_def list_all_length nth_list_update)

lemma running_ok_set_tool:
  assumes "running_ok e" "i < length (ex_tools e)" "tt_Status t \<noteq> toolStatusQueued \<or> tt_Status t = tt_Status (ex_tools e ! i)"
    and "tt_Status (ex_tools e ! i) = toolStatusExecuting \<Longrightarrow> tt_ID (ex_tools e ! i) \<in> gr_ID ` set (ex_running e) \<Longrightarrow> nothing_queued e \<or>
      tt_Status t = toolStatusExecuting \<and> tt_ID t = tt_ID (ex_tools e ! i) \<and> tt_IsConcurrencySafe t = tt_IsConcurrencySafe (ex_tools e ! i)"
  shows "running_ok (set_tool i t e)"
  using assms nothing_queued_set_tool [of e i t] accounted_set_tool [of e _ i t]
  by (fastforce simp: running_ok_def exclusive_def list_all_iff)

lemma running_ok_start:
  assumes "running_ok e" "executor_wf e" "\<not> ex_discard e" "first_queued e i" "canExecuteLocked (tt_IsConcurrencySafe (ex_tools e ! i)) e"
  shows "running_ok (startToolLocked cfg i e)"
proof -
  let ?t = "ex_tools e ! i" and ?t' = "(ex_tools e ! i)\<lparr>tt_Status := toolStatusExecuting, tt_cancelFunc := True\<rparr>"
  have i: "i < length (ex_tools e)" "tt_Status ?t = toolStatusQueued" using assms(4) by (auto simp: first_queued_def)
  have "\<not> nothing_queued e" using i by (auto simp: nothing_queued_def list_all_length)
  then have all: "list_all (accounted e) (ex_running e)" using assms(1,3) by (auto simp: running_ok_def)
  have "gr_ID ` set (ex_running e) \<subseteq> tt_ID ` set (executing e)" using all by (force simp: list_all_iff accounted_def)
  then have "card (gr_ID ` set (ex_running e)) \<le> card (tt_ID ` set (executing e))" by (simp add: card_mono)
  also have "\<dots> \<le> length (executing e)" using card_image_le card_length le_trans by (metis List.finite_set)
  finally have len: "length (ex_running e) \<le> length (executing e)"
    using assms(2) distinct_card [of "map gr_ID (ex_running e)"] by (simp add: executor_wf_def)
  have e: "ex_running (startToolLocked cfg i e) = ex_running e @ [\<lparr>gr_ID = tt_ID ?t,
      gr_ToolCall = (case xc_prepare cfg (tt_ToolCall ?t) of None \<Rightarrow> tt_ToolCall ?t | Some p \<Rightarrow> p), gr_safe = tt_IsConcurrencySafe ?t\<rparr>]"
    "ex_tools (startToolLocked cfg i e) = (ex_tools e)[i := ?t']" using i by (auto simp: startToolLocked_def Let_def)
  have "accounted (startToolLocked cfg i e) g" if "g \<in> set (ex_running e)" for g
    using accounted_set_tool [of e g i ?t'] all that i e(2) by (auto simp: list_all_iff accounted_def executing_def)
  moreover have "?t' \<in> set (executing (startToolLocked cfg i e))" using i by (simp add: executing_def e set_update_memI)
  moreover have "exclusive (startToolLocked cfg i e)"
  proof (cases "executing e = []")
    case True
    then show ?thesis using len assms(1) e by (auto simp: exclusive_def running_ok_def)
  next
    case False
    then have s: "tt_IsConcurrencySafe ?t" "list_all tt_IsConcurrencySafe (executing e)" "int (length (executing e)) < ex_maxConcurrency e"
      using assms(5) by (auto simp: canExecuteLocked_def list_all_iff list_ex_iff split: if_splits)
    have "list_all gr_safe (ex_running e)" using all s(2) by (auto simp: list_all_iff accounted_def)
    then show ?thesis using len s assms(1) e by (auto simp: exclusive_def running_ok_def list_all_iff)
  qed
  ultimately show ?thesis by (auto simp: running_ok_def e list_all_iff) (auto simp: accounted_def)
qed

lemma accounted_other [simp]:
  "accounted (e\<lparr>ex_bashErrored := b, ex_siblingCancelled := s, ex_cancelled := cs, ex_notified := ns, ex_woken := w\<rparr>) = accounted e"
  by (simp add: accounted_def executing_def fun_eq_iff)

lemma running_ok_step:
  "executor_step strict cfg e rs e' \<Longrightarrow> strict \<Longrightarrow> executor_wf e \<Longrightarrow> running_ok e \<Longrightarrow> running_ok e'"
proof (induction rule: executor_step.induct)
  case (step_add e t)
  then have "ex_running e = []" by (simp add: executor_wf_def)
  then show ?case using step_add by (simp add: running_ok_def exclusive_def)
next
  case (step_state e c)
  then have "ex_running e = []" by (simp add: executor_wf_def)
  then show ?case using step_state by (simp add: running_ok_def exclusive_def)
next
  case (step_report e k)
  let ?e = "e\<lparr>ex_running := take k (ex_running e) @ drop (Suc k) (ex_running e)\<rparr>"
  have sub: "set (ex_running ?e) \<subseteq> set (ex_running e)" by (auto dest: in_set_takeD in_set_dropD)
  have single: "ex_running ?e = [g]" if "ex_running e = [g]" "g \<in> set (ex_running ?e)" for g
    using that by (cases k) auto
  have acc: "accounted ?e = accounted e" by (simp add: accounted_def executing_def fun_eq_iff)
  show ?case using step_report(2-) sub single
    unfolding running_ok_def exclusive_def acc by (auto simp: nothing_queued_def list_all_iff)
qed (auto intro!: running_ok_set_tool running_ok_start, auto simp: running_ok_def exclusive_def nothing_queued_def)

lemma maxStreaming_positive: "maxStreamingToolUseConcurrency s \<ge> 1"
  by (auto simp: maxStreamingToolUseConcurrency_def Let_def split: option.splits)

lemma running_ok_new: "running_ok (NewStreamingToolExecutor cfg)"
  using maxStreaming_positive [of "xc_getenv cfg"] by (auto simp: running_ok_def NewStreamingToolExecutor_def exclusive_def)

interpretation exclusive: executor_invariant True cfg "\<lambda>_. running_ok" for cfg
  by unfold_locales (auto intro: running_ok_new running_ok_step)

text \<open>
  C18. Calls run exclusively: through any interleaving of operations of the engine, interruptions
  and reports of goroutines, no more goroutines run than the limit, and one that runs a call that
  is not safe to run concurrently runs alone.
\<close>

theorem exclusive_execution:
  assumes "list_all engine_op ops" "run_executor_all cfg ops (NewStreamingToolExecutor cfg) = (e, rs)"
  shows "int (length (ex_running e)) \<le> ex_maxConcurrency e \<and> (\<forall>g\<in>set (ex_running e). \<not> gr_safe g \<longrightarrow> ex_running e = [g])"
  using exclusive.holds [of ops cfg e rs] assms by (simp add: running_ok_def exclusive_def)

definition demo_executor_config :: StreamingToolExecutorConfig where
  "demo_executor_config =
     \<lparr>xc_execute = True, xc_isSafe = Some (\<lambda>c. Some (tl_Name c = ''Read'')), xc_MaxConcurrency = 2, xc_DeferExecution = False,
      xc_prepare = (\<lambda>_. None), xc_getInterruptBehavior = Some (\<lambda>_. ''block''), xc_onInterrupt = False, xc_jsonValid = (\<lambda>_. True), xc_getenv = []\<rparr>"

definition demo_call :: "string \<Rightarrow> string \<Rightarrow> ToolCall" where
  "demo_call callID name = \<lparr>tl_ID = callID, tl_Name = name, tl_Arguments = ''[1]''\<rparr>"

definition demo_ops :: "executor_op list" where
  "demo_ops = [Op_AddTool (Some (demo_call ''a'' ''Read'')) None, Op_AddTool (Some (demo_call ''b'' ''Read'')) None,
     Op_AddTool (Some (demo_call ''c'' ''Bash'')) None, Op_commit False]"

lemma demo_started: "map gr_ID (ex_running (fst (run_executor_all demo_executor_config demo_ops (NewStreamingToolExecutor demo_executor_config)))) = [''a'', ''b'']"
  by code_simp

theorem exclusive_execution_witness:
  "\<exists>e rs. run_executor_all demo_executor_config demo_ops (NewStreamingToolExecutor demo_executor_config) = (e, rs) \<and>
     map gr_ID (ex_running e) = [''a'', ''b''] \<and> list_all gr_safe (ex_running e)"
proof -
  obtain e rs where r: "run_executor_all demo_executor_config demo_ops (NewStreamingToolExecutor demo_executor_config) = (e, rs)" by fastforce
  have "list_all engine_op demo_ops" by code_simp
  from exclusive_execution [OF this r] have "\<forall>g\<in>set (ex_running e). \<not> gr_safe g \<longrightarrow> ex_running e = [g]" by blast
  moreover have "map gr_ID (ex_running e) = [''a'', ''b'']" using demo_started r by simp
  ultimately have "list_all gr_safe (ex_running e)" by (auto simp: list_all_iff)
  with r \<open>map gr_ID (ex_running e) = _\<close> show ?thesis by (intro exI conjI)
qed

section \<open>Results in order\<close>

definition yielded_prefix :: "ToolResult list \<Rightarrow> StreamingToolExecutor \<Rightarrow> bool" where
  "yielded_prefix out e \<longleftrightarrow> ex_discard e \<or>
     length out \<le> length (ex_tools e) \<and> map Some out = map tt_Result (take (length out) (ex_tools e)) \<and>
     (\<forall>j<length (ex_tools e). tt_Status (ex_tools e ! j) = toolStatusYielded \<longleftrightarrow> j < length out)"

lemma yielded_prefix_set_tool:
  assumes "yielded_prefix out e" "i < length (ex_tools e)" "tt_Status (ex_tools e ! i) = toolStatusYielded \<longleftrightarrow> tt_Status t = toolStatusYielded"
    and "tt_Status t = toolStatusYielded \<Longrightarrow> tt_Result t = tt_Result (ex_tools e ! i)"
  shows "yielded_prefix out (set_tool i t e)"
proof (cases "ex_discard e")
  case False
  let ?n = "length out"
  have p: "?n \<le> length (ex_tools e)" "map Some out = map tt_Result (take ?n (ex_tools e))"
    "\<And>j. j < length (ex_tools e) \<Longrightarrow> tt_Status (ex_tools e ! j) = toolStatusYielded \<longleftrightarrow> j < ?n"
    using assms(1) False by (auto simp: yielded_prefix_def)
  have "map tt_Result (take ?n ((ex_tools e)[i := t])) = map tt_Result (take ?n (ex_tools e))"
    using assms(2-4) p(1,3) by (intro nth_equalityI) (auto simp: nth_list_update)
  then show ?thesis using p assms(2,3) by (auto simp: yielded_prefix_def nth_list_update)
qed (use assms(1) in \<open>simp add: yielded_prefix_def\<close>)

lemma yielded_prefix_step:
  "executor_step strict cfg e rs e' \<Longrightarrow> yielded_prefix out e \<Longrightarrow> yielded_prefix (out @ rs) e'"
proof (induction rule: executor_step.induct)
  case (step_add e t)
  then show ?case by (auto simp: yielded_prefix_def nth_append)
next
  case (step_start e i)
  then have i: "i < length (ex_tools e)" "tt_Status (ex_tools e ! i) = toolStatusQueued" by (auto simp: first_queued_def)
  have "yielded_prefix out (set_tool i ((ex_tools e ! i)\<lparr>tt_Status := toolStatusExecuting, tt_cancelFunc := True\<rparr>) e)"
    using step_start.prems i by (intro yielded_prefix_set_tool) auto
  then show ?case using i by (simp add: startToolLocked_def Let_def yielded_prefix_def)
next
  case (step_yield i e t r)
  show ?case
  proof (cases "ex_discard e")
    case False
    have p: "length out \<le> length (ex_tools e)" "map Some out = map tt_Result (take (length out) (ex_tools e))"
      "\<And>j. j < length (ex_tools e) \<Longrightarrow> tt_Status (ex_tools e ! j) = toolStatusYielded \<longleftrightarrow> j < length out"
      using step_yield.prems False by (auto simp: yielded_prefix_def)
    have i: "i = length out"
      using p(3) [of i] p(3) [of "length out"] step_yield.hyps(1,2,3,5) by (cases i "length out" rule: linorder_cases) auto
    have "take (Suc i) (ex_tools e) = take i (ex_tools e) @ [t]" using step_yield by (simp add: take_Suc_conv_app_nth)
    then show ?thesis using p step_yield i
      by (auto simp: yielded_prefix_def nth_list_update less_Suc_eq take_update_swap)
        (simp add: list_update_append)
  qed (simp add: yielded_prefix_def)
qed (auto intro!: yielded_prefix_set_tool, auto simp: yielded_prefix_def)

lemma prefix_new: "yielded_prefix [] (NewStreamingToolExecutor cfg)"
  by (simp add: yielded_prefix_def NewStreamingToolExecutor_def)

interpretation results: executor_invariant False cfg yielded_prefix for cfg
  by unfold_locales (auto intro: yielded_prefix_step prefix_new)

text \<open>
  C20. Results come out in the order of the model and once: whatever operations run in whatever
  order, the results handed out so far are those of the first calls, in their order, and exactly
  these calls are marked as yielded.
\<close>

theorem results_in_order:
  assumes "run_executor_all cfg ops (NewStreamingToolExecutor cfg) = (e, rs)" "\<not> ex_discard e"
  shows "map Some rs = map tt_Result (take (length rs) (ex_tools e)) \<and> length rs \<le> length (ex_tools e) \<and>
    (\<forall>j<length (ex_tools e). tt_Status (ex_tools e ! j) = toolStatusYielded \<longleftrightarrow> j < length rs)"
  using results.holds [OF _ assms(1)] assms(2) by (auto simp: yielded_prefix_def)

definition demo_more :: "executor_op list" where
  "demo_more = demo_ops @ [Op_report 1 None False, Op_GetCompleted, Op_report 0 (Some (newToolResult [] [] ''ok'' False)) False, Op_GetCompleted]"

lemma demo_more_run:
  "case run_executor_all demo_executor_config demo_more (NewStreamingToolExecutor demo_executor_config) of (e, rs) \<Rightarrow>
     \<not> ex_discard e \<and> map tr_ToolCallID rs = [''a'', ''b''] \<and> ex_started e = [''a'', ''b'', ''c''] \<and> map tt_ID (ex_tools e) = [''a'', ''b'', ''c'']"
  by code_simp

theorem results_in_order_witness:
  "\<exists>e rs. run_executor_all demo_executor_config demo_more (NewStreamingToolExecutor demo_executor_config) = (e, rs) \<and>
     map tr_ToolCallID rs = [''a'', ''b''] \<and> map Some rs = map tt_Result (take 2 (ex_tools e))"
proof -
  obtain e rs where r: "run_executor_all demo_executor_config demo_more (NewStreamingToolExecutor demo_executor_config) = (e, rs)" by fastforce
  have d: "\<not> ex_discard e" "map tr_ToolCallID rs = [''a'', ''b'']" using demo_more_run r by simp_all
  have "length rs = 2" using arg_cong [OF d(2), of length] by simp
  then have "map Some rs = map tt_Result (take 2 (ex_tools e))" using results_in_order [OF r d(1)] by simp
  with r d(2) show ?thesis by (intro exI conjI)
qed

section \<open>Starts\<close>

definition started_prefix :: "StreamingToolExecutor \<Rightarrow> bool" where
  "started_prefix e \<longleftrightarrow> distinct (ex_started e) \<and>
     (ex_discard e \<or> (\<exists>k\<le>length (ex_tools e). subseq (ex_started e) (map tt_ID (take k (ex_tools e))) \<and>
        (\<forall>j<k. tt_Status (ex_tools e ! j) \<noteq> toolStatusQueued)))"

lemma started_prefix_set_tool:
  assumes "started_prefix e" "i < length (ex_tools e)" "tt_ID t = tt_ID (ex_tools e ! i)"
    and "tt_Status t = toolStatusQueued \<Longrightarrow> tt_Status (ex_tools e ! i) = toolStatusQueued"
  shows "started_prefix (set_tool i t e)"
proof (cases "ex_discard e")
  case False
  then obtain k where k: "k \<le> length (ex_tools e)" "subseq (ex_started e) (map tt_ID (take k (ex_tools e)))"
    "\<forall>j<k. tt_Status (ex_tools e ! j) \<noteq> toolStatusQueued" using assms(1) by (auto simp: started_prefix_def)
  have "map tt_ID (take k ((ex_tools e)[i := t])) = map tt_ID (take k (ex_tools e))"
    using map_tt_ID_update [OF assms(3)] by (metis take_map)
  then show ?thesis using assms k by (auto simp: started_prefix_def nth_list_update intro!: exI [of _ k])
qed (use assms(1) in \<open>simp add: started_prefix_def\<close>)

lemma started_prefix_start:
  assumes "started_prefix e" "executor_wf e" "\<not> ex_discard e" "first_queued e i"
  shows "started_prefix (startToolLocked cfg i e)"
proof -
  let ?t = "(ex_tools e ! i)\<lparr>tt_Status := toolStatusExecuting, tt_cancelFunc := True\<rparr>"
  obtain k where k: "k \<le> length (ex_tools e)" "subseq (ex_started e) (map tt_ID (take k (ex_tools e)))"
    "\<forall>j<k. tt_Status (ex_tools e ! j) \<noteq> toolStatusQueued" using assms(1,3) by (auto simp: started_prefix_def)
  have i: "i < length (ex_tools e)" "tt_Status (ex_tools e ! i) = toolStatusQueued" "\<forall>j<i. tt_Status (ex_tools e ! j) \<noteq> toolStatusQueued"
    using assms(4) by (auto simp: first_queued_def)
  have "k \<le> i" using k(3) i(2) not_le_imp_less by blast
  then have "take k (ex_tools e) = take k (take i (ex_tools e))" by (simp add: min_absorb2 min.commute)
  then have "subseq (ex_started e) (map tt_ID (take i (ex_tools e)))" using k(2) by (metis list_emb_prefix prefix_def append_take_drop_id take_map)
  then have sub: "subseq (ex_started e @ [tt_ID (ex_tools e ! i)]) (map tt_ID (take (Suc i) (ex_tools e)))"
    using i(1) by (simp add: take_Suc_conv_app_nth list_emb_append_mono)
  have "distinct (map tt_ID (take (Suc i) (ex_tools e)))" using assms(2) by (simp add: executor_wf_def flip: take_map)
  then have "distinct (ex_started e @ [tt_ID (ex_tools e ! i)])" using subseqs_distinctD sub by fastforce
  moreover have "map tt_ID (take (Suc i) ((ex_tools e)[i := ?t])) = map tt_ID (take (Suc i) (ex_tools e))"
    using map_tt_ID_update [of ?t "ex_tools e" i] by (simp flip: take_map)
  ultimately show ?thesis using sub i
    by (auto simp: started_prefix_def startToolLocked_def Let_def nth_list_update less_Suc_eq intro!: exI [of _ "Suc i"])
qed

lemma started_prefix_step:
  "executor_step strict cfg e rs e' \<Longrightarrow> executor_wf e \<Longrightarrow> started_prefix e \<Longrightarrow> started_prefix e'"
proof (induction rule: executor_step.induct)
  case (step_add e t)
  then have "ex_started e = []" by (simp add: executor_wf_def)
  then show ?case by (auto simp: started_prefix_def)
qed (auto intro!: started_prefix_set_tool started_prefix_start, auto simp: started_prefix_def)

lemma started_new: "started_prefix (NewStreamingToolExecutor cfg)"
  by (simp add: started_prefix_def NewStreamingToolExecutor_def)

interpretation starts: executor_invariant False cfg "\<lambda>_. started_prefix" for cfg
  by unfold_locales (auto intro: started_prefix_step started_new)

text \<open>
  A call is started at most once, in the order of the model, and only after the reply was
  committed: nothing is executed for a reply that is pending or rejected.
\<close>

lemma started_once:
  assumes "run_executor_all cfg ops (NewStreamingToolExecutor cfg) = (e, rs)"
  shows "distinct (ex_started e) \<and> (ex_commitState e \<noteq> toolCommitCommitted \<longrightarrow> ex_started e = [] \<and> ex_running e = []) \<and>
    (ex_discard e \<or> subseq (ex_started e) (map tt_ID (ex_tools e)))"
proof -
  have h: "started_prefix e" "executor_wf e" using starts.holds [OF _ assms] by auto
  have "subseq (ex_started e) (map tt_ID (ex_tools e))" if nd: "\<not> ex_discard e"
  proof -
    obtain k where "subseq (ex_started e) (take k (map tt_ID (ex_tools e)))" using h(1) nd by (auto simp: started_prefix_def take_map)
    then show ?thesis by (metis append_take_drop_id list_emb_prefix)
  qed
  then show ?thesis using h by (auto simp: started_prefix_def executor_wf_def)
qed

lemma started_once_witness:
  "\<exists>e rs. run_executor_all demo_executor_config demo_more (NewStreamingToolExecutor demo_executor_config) = (e, rs) \<and>
     ex_started e = [''a'', ''b'', ''c''] \<and> subseq (ex_started e) (map tt_ID (ex_tools e))"
proof -
  obtain e rs where r: "run_executor_all demo_executor_config demo_more (NewStreamingToolExecutor demo_executor_config) = (e, rs)" by fastforce
  have "\<not> ex_discard e" "ex_started e = [''a'', ''b'', ''c'']" using demo_more_run r by simp_all
  moreover from this have "subseq (ex_started e) (map tt_ID (ex_tools e))" using started_once [OF r] by blast
  ultimately show ?thesis using r by (intro exI conjI)
qed

end
