(* ===== verification/Tool_Round.thy ===== *)
theory Tool_Round
  imports Tool_Order
begin

text \<open>
  A round of tool calls to its end.  \<open>drive\<close> lets a scheduler choose which goroutine reports next,
  with what result and whether the round is interrupted by then; after every report the waiting
  collector goes on if it was woken.  The lemmas show that it always is, that some goroutine runs
  whenever it waits, and that each report brings the round nearer to its end.
\<close>

section \<open>Driving a round\<close>

type_synonym round_scheduler = "nat \<Rightarrow> nat \<times> (goroutine \<Rightarrow> ToolResult option) \<times> bool"

definition next_report :: "StreamingToolExecutorConfig \<Rightarrow> nat \<times> (goroutine \<Rightarrow> ToolResult option) \<times> bool \<Rightarrow> StreamingToolExecutor \<Rightarrow> StreamingToolExecutor" where
  "next_report cfg choice e =
     (case choice of (n, result, isInterrupted) \<Rightarrow>
        let k = n mod length (ex_running e) in report_result cfg k (result (ex_running e ! k)) isInterrupted e)"

fun drive :: "StreamingToolExecutorConfig \<Rightarrow> round_scheduler \<Rightarrow> nat \<Rightarrow> nat \<Rightarrow> StreamingToolExecutor \<times> collected \<Rightarrow> ToolResult list option" where
  "drive cfg sched n fuel (e, Returned rs) = Some rs"
| "drive cfg sched n 0 (e, Waits) = None"
| "drive cfg sched n (Suc fuel) (e, Waits) =
     (if ex_running e = [] then None
      else let e' = next_report cfg (sched n) e in
        if ex_woken e' then drive cfg sched (Suc n) fuel (remaining_loop cfg True e') else None)"

definition execute_round :: "StreamingToolExecutorConfig \<Rightarrow> round_scheduler \<Rightarrow> bool \<Rightarrow> bool \<Rightarrow> nat \<Rightarrow> ToolCall option list \<Rightarrow> ToolResult list option" where
  "execute_round cfg sched commitErr waitErr fuel calls = drive cfg sched 0 fuel (ExecuteCommittedToolCalls cfg commitErr waitErr calls)"

section \<open>Live executors\<close>

definition result_for :: "string \<Rightarrow> ToolResult \<Rightarrow> bool" where
  "result_for callID r \<longleftrightarrow> tr_ToolCallID r = callID \<and> (\<exists>m. tr_Message r = Some m \<and> ms_ToolCallID m = callID)"

definition tool_ok :: "trackedTool \<Rightarrow> bool" where
  "tool_ok t \<longleftrightarrow> tt_ID t = toolCallKey (tt_ToolCall t) \<and> tt_Status t \<noteq> toolStatusYielded \<and> (tt_Result t = None \<longleftrightarrow> \<not> settled t) \<and>
     (\<forall>r. tt_Result t = Some r \<longrightarrow> result_for (tt_ID t) r)"

text \<open>A tool answers for its own call: it leaves the identity open or gives that of the call.\<close>

definition answers :: "string \<Rightarrow> ToolResult \<Rightarrow> bool" where
  "answers callID r \<longleftrightarrow> (tr_ToolCallID r = [] \<or> tr_ToolCallID r = callID) \<and>
     (case tr_Message r of None \<Rightarrow> True | Some m \<Rightarrow> ms_ToolCallID m = [] \<or> ms_ToolCallID m = callID)"

text \<open>Every running call has a goroutine, but for the one that is just reporting.\<close>

definition live_but :: "string set \<Rightarrow> StreamingToolExecutor \<Rightarrow> bool" where
  "live_but X e \<longleftrightarrow> \<not> ex_discard e \<and> ex_commitState e = toolCommitCommitted \<and> distinct (map tt_ID (ex_tools e)) \<and> list_all tool_ok (ex_tools e) \<and>
     (\<forall>t\<in>set (executing e). tt_ID t \<in> X \<union> gr_ID ` set (ex_running e)) \<and> gr_ID ` set (ex_running e) \<subseteq> tt_ID ` set (ex_tools e)"

abbreviation live :: "StreamingToolExecutor \<Rightarrow> bool" where
  "live \<equiv> live_but {}"

definition queued :: "StreamingToolExecutor \<Rightarrow> trackedTool list" where
  "queued e = filter (\<lambda>t. tt_Status t = toolStatusQueued) (ex_tools e)"

definition work :: "StreamingToolExecutor \<Rightarrow> nat" where
  "work e = 2 * length (queued e) + length (ex_running e)"

lemma tool_ok_settled: "tool_ok t \<Longrightarrow> tt_Result t \<noteq> None \<Longrightarrow> settled t"
  by (auto simp: tool_ok_def)

lemma result_ID_ok: "tt_ID t = toolCallKey (tt_ToolCall t) \<Longrightarrow> result_ID t = tt_ID t"
  by (auto simp: result_ID_def toolCallKey_def)

lemma complete_with_ok: "tt_ID t = toolCallKey (tt_ToolCall t) \<Longrightarrow> tool_ok (complete_with (tt_ID t) m t) \<and> tool_ok ((complete_with (tt_ID t) m t)\<lparr>tt_cancelFunc := c\<rparr>)"
  by (simp add: tool_ok_def result_for_def complete_with_def newToolResult_def settled_def)

definition only_settles :: "(trackedTool \<Rightarrow> trackedTool) \<Rightarrow> trackedTool \<Rightarrow> bool" where
  "only_settles f t \<longleftrightarrow> tt_ID (f t) = tt_ID t \<and> tool_ok (f t) \<and> (settled (f t) \<or> f t = t)"

lemma filter_map_le: "(\<And>x. x \<in> set xs \<Longrightarrow> P (f x) \<Longrightarrow> P x) \<Longrightarrow> length (filter (P \<circ> f) xs) \<le> length (filter P xs)"
  by (induction xs) (auto intro: le_SucI)

lemma live_map:
  assumes "live_but X e" "\<And>t. t \<in> set (ex_tools e) \<Longrightarrow> only_settles f t"
  shows "live_but X (e\<lparr>ex_tools := map f (ex_tools e)\<rparr>) \<and> work (e\<lparr>ex_tools := map f (ex_tools e)\<rparr>) \<le> work e"
proof -
  have ids: "map (\<lambda>t. tt_ID (f t)) (ex_tools e) = map tt_ID (ex_tools e)" using assms(2) by (simp add: only_settles_def)
  have "t \<in> set (executing e)" if "t \<in> set (executing (e\<lparr>ex_tools := map f (ex_tools e)\<rparr>))" for t
    using that assms(2) by (fastforce simp: executing_def only_settles_def settled_def)
  moreover have "gr_ID ` set (ex_running e) \<subseteq> (\<lambda>t. tt_ID (f t)) ` set (ex_tools e)"
    using assms(1) ids by (metis live_but_def list.set_map)
  moreover have "length (queued (e\<lparr>ex_tools := map f (ex_tools e)\<rparr>)) \<le> length (queued e)"
    using assms(2) unfolding queued_def by simp (rule filter_map_le, fastforce simp: only_settles_def settled_def)
  ultimately show ?thesis using assms by (auto simp: live_but_def work_def ids comp_def list_all_iff only_settles_def image_image)
qed

lemma live_cong:
  assumes "live_but X e" "ex_tools e' = ex_tools e" "ex_discard e' = ex_discard e" "ex_commitState e' = ex_commitState e" "ex_running e' = ex_running e"
  shows "live_but X e' \<and> work e' = work e"
  using assms by (simp add: live_but_def work_def executing_def queued_def)

lemma live_interrupt: "live_but X e \<Longrightarrow> live_but X (interruptRemainingLocked cfg e) \<and> work (interruptRemainingLocked cfg e) \<le> work e \<and> ex_woken (interruptRemainingLocked cfg e)"
proof -
  assume l: "live_but X e"
  let ?m = "''Interrupted by user''"
  let ?f = "complete_queued result_ID ?m" and ?g = "\<lambda>t. if cancels cfg t then (complete_with (result_ID t) ?m t)\<lparr>tt_cancelFunc := False\<rparr> else t"
  let ?e1 = "e\<lparr>ex_tools := map ?f (ex_tools e)\<rparr>"
  have ok: "tool_ok t" if "t \<in> set (ex_tools e)" "live_but X e" for t e using that by (simp add: live_but_def list_all_iff)
  have f: "only_settles ?f t" if "t \<in> set (ex_tools e)" for t
    using ok [OF that l] complete_with_ok [of t ?m] by (auto simp: only_settles_def complete_queued_def tool_ok_def [of t] result_ID_ok complete_with_def settled_def)
  note 1 = live_map [OF l f]
  have g: "only_settles ?g t" if "t \<in> set (ex_tools ?e1)" for t
    using ok [OF that] 1 complete_with_ok [of t ?m False] by (auto simp: only_settles_def tool_ok_def [of t] result_ID_ok complete_with_def settled_def)
  have 2: "live_but X (?e1\<lparr>ex_tools := map ?g (ex_tools ?e1)\<rparr>) \<and> work (?e1\<lparr>ex_tools := map ?g (ex_tools ?e1)\<rparr>) \<le> work ?e1"
    using live_map [OF conjunct1 [OF 1] g] by blast
  have i: "interruptRemainingLocked cfg e = Broadcast (synthesizeCancelBehaviorLocked cfg ?m ?e1)"
    using l by (simp add: interruptRemainingLocked_def live_but_def)
  have "live_but X (Broadcast (synthesizeCancelBehaviorLocked cfg ?m ?e1)) \<and>
    work (Broadcast (synthesizeCancelBehaviorLocked cfg ?m ?e1)) = work (?e1\<lparr>ex_tools := map ?g (ex_tools ?e1)\<rparr>)"
    by (rule live_cong [OF conjunct1 [OF 2]]) (simp_all add: synthesizeCancelBehaviorLocked_def)
  then show ?thesis using 1 2 by (simp add: i)
qed

lemma length_filter_update:
  "i < length xs \<Longrightarrow> length (filter P (xs[i := y])) + (if P (xs ! i) then 1 else 0) = length (filter P xs) + (if P y then 1 else 0)"
proof -
  assume i: "i < length xs"
  have "filter P xs = filter P (take i xs @ xs ! i # drop (Suc i) xs)" using id_take_nth_drop [OF i] by simp
  then show ?thesis using i by (simp add: upd_conv_take_nth_drop)
qed

lemma live_start:
  assumes "live e" "i < length (ex_tools e)" "tt_Status (ex_tools e ! i) = toolStatusQueued"
  shows "live (startToolLocked cfg i e) \<and> work (startToolLocked cfg i e) \<le> work e \<and> executing (startToolLocked cfg i e) \<noteq> []"
proof -
  let ?t = "ex_tools e ! i" and ?t' = "(ex_tools e ! i)\<lparr>tt_Status := toolStatusExecuting, tt_cancelFunc := True\<rparr>"
  have "?t \<in> set (ex_tools e)" using assms(2) by simp
  then have ok: "tool_ok ?t'" using assms(1,3) by (auto simp: live_but_def list_all_iff tool_ok_def settled_def)
  have ids: "map tt_ID ((ex_tools e)[i := ?t']) = map tt_ID (ex_tools e)" by (simp add: map_tt_ID_update)
  have s: "set ((ex_tools e)[i := ?t']) \<subseteq> insert ?t' (set (ex_tools e))" by (rule set_update_subset_insert)
  have ids': "tt_ID ` set ((ex_tools e)[i := ?t']) = tt_ID ` set (ex_tools e)" using arg_cong [OF ids, of set] by simp
  have e: "ex_tools (startToolLocked cfg i e) = (ex_tools e)[i := ?t']" "gr_ID ` set (ex_running (startToolLocked cfg i e)) = insert (tt_ID ?t) (gr_ID ` set (ex_running e))"
    "length (ex_running (startToolLocked cfg i e)) = Suc (length (ex_running e))"
    using assms(3) by (simp_all add: startToolLocked_def Let_def)
  have "live (startToolLocked cfg i e)"
    using assms(1) ok s ids' \<open>?t \<in> set (ex_tools e)\<close> by (auto simp: live_but_def e ids list_all_iff executing_def)
  moreover have "length (queued (startToolLocked cfg i e)) + 1 = length (queued e)"
    using length_filter_update [OF assms(2), of "\<lambda>t. tt_Status t = toolStatusQueued" ?t'] assms(3) by (simp add: queued_def e)
  moreover have "?t' \<in> set (executing (startToolLocked cfg i e))" using assms(2) by (simp add: executing_def e set_update_memI)
  ultimately show ?thesis using e by (auto simp: work_def)
qed

lemma live_start_loop:
  assumes "live e" "\<And>i. i \<in> set is \<Longrightarrow> i < length (ex_tools e)"
  shows "live (start_loop cfg force is e) \<and> work (start_loop cfg force is e) \<le> work e \<and> (executing e \<noteq> [] \<longrightarrow> executing (start_loop cfg force is e) \<noteq> [])"
  using assms
proof (induction "is" arbitrary: e)
  case (Cons i "is")
  have "live (startToolLocked cfg i e) \<and> work (startToolLocked cfg i e) \<le> work e \<and> executing (startToolLocked cfg i e) \<noteq> []"
    if "tt_Status (ex_tools e ! i) = toolStatusQueued" using live_start [OF Cons.prems(1) _ that] Cons.prems(2) by simp
  moreover have "\<And>j. j \<in> set is \<Longrightarrow> j < length (ex_tools (startToolLocked cfg i e))" using Cons.prems(2) by simp
  ultimately show ?case using Cons.IH [of e] Cons.IH [of "startToolLocked cfg i e"] Cons.prems
    by (auto simp: Let_def)
qed simp

lemma start_loop_progress:
  assumes "live e" "\<And>i. i \<in> set is \<Longrightarrow> i < length (ex_tools e)" "executing e = []" "\<exists>i\<in>set is. tt_Status (ex_tools e ! i) = toolStatusQueued"
  shows "executing (start_loop cfg True is e) \<noteq> []"
  using assms
proof (induction "is" arbitrary: e)
  case (Cons i "is")
  show ?case
  proof (cases "tt_Status (ex_tools e ! i) = toolStatusQueued")
    case True
    have s: "live (startToolLocked cfg i e)" "executing (startToolLocked cfg i e) \<noteq> []" using live_start [OF Cons.prems(1) _ True] Cons.prems(2) by auto
    have "executing (start_loop cfg True is (startToolLocked cfg i e)) \<noteq> []"
      using live_start_loop [OF s(1), of "is" cfg True] s(2) Cons.prems(2) by simp
    then show ?thesis using True s Cons.prems(3) by (simp add: Let_def canExecuteLocked_def)
  qed (use Cons in \<open>auto simp: Let_def\<close>)
qed simp

lemma live_startRunnable:
  "live e \<Longrightarrow> live (startRunnableLocked cfg force e) \<and> work (startRunnableLocked cfg force e) \<le> work e"
  using live_start_loop [of e "[0..<length (ex_tools e)]" cfg force] by (auto simp: startRunnableLocked_def)

lemma live_running:
  assumes "live e" "xc_execute cfg" "\<not> allSettledLocked (startRunnableLocked cfg True e)"
  shows "ex_running (startRunnableLocked cfg True e) \<noteq> []"
proof -
  let ?e = "startRunnableLocked cfg True e" and ?is = "[0..<length (ex_tools e)]"
  have s: "?e = start_loop cfg True ?is e" using assms(1,2) by (simp add: startRunnableLocked_def live_but_def)
  have l: "live ?e" using live_startRunnable [OF assms(1)] by blast
  have "executing ?e \<noteq> []"
  proof (cases "executing e = []")
    case True
    show ?thesis
    proof (cases "\<exists>i\<in>set ?is. tt_Status (ex_tools e ! i) = toolStatusQueued")
      case True
      then show ?thesis using start_loop_progress [OF assms(1) _ \<open>executing e = []\<close> True] s by simp
    next
      case False
      have keep: "start_loop cfg True js e = e" if "\<And>i. i \<in> set js \<Longrightarrow> tt_Status (ex_tools e ! i) \<noteq> toolStatusQueued" for js
        using that by (induction js) (auto simp: Let_def)
      have "?e = e" unfolding s by (rule keep) (use False in blast)
      then have "allSettledLocked ?e" using True False
        by (auto simp: allSettledLocked_def settled_def executing_def filter_empty_conv list_all_length)
      with assms(3) show ?thesis by simp
    qed
  qed (use live_start_loop [OF assms(1), of ?is cfg True] s in simp)
  then obtain t where "t \<in> set (executing ?e)" by (cases "executing ?e") auto
  then have "tt_ID t \<in> gr_ID ` set (ex_running ?e)" using l by (simp add: live_but_def)
  then show ?thesis by auto
qed

lemma startTool_woken [simp]: "ex_woken (startToolLocked cfg i e) = ex_woken e"
  by (simp add: startToolLocked_def Let_def set_tool_def)

lemma start_loop_frame: "ex_woken (start_loop cfg force is e) = ex_woken e"
  by (cases force; induction "is" arbitrary: e) (simp_all add: Let_def)

lemma same_tool: "live_but X e \<Longrightarrow> i < length (ex_tools e) \<Longrightarrow> j < length (ex_tools e) \<Longrightarrow> tt_ID (ex_tools e ! i) = tt_ID (ex_tools e ! j) \<Longrightarrow> i = j"
  using nth_eq_iff_index_eq [of "map tt_ID (ex_tools e)" i j] by (simp add: live_but_def)

lemma startRunnable_woken: "ex_woken (startRunnableLocked cfg force e) = ex_woken e"
  by (simp add: startRunnableLocked_def start_loop_frame)

lemma normalize_for: "answers callID r \<Longrightarrow> result_for callID (normalizeToolResult callID call r)"
  by (cases "tr_Message r") (auto simp: answers_def result_for_def normalizeToolResult_def normalize_message_def Let_def)

lemma modifier_for: "result_for callID r \<Longrightarrow> result_for callID (commitToolResultContextModifier r)"
  by (cases "tr_ContextModifier r") (auto simp: result_for_def commitToolResultContextModifier_def Let_def split: sum.splits)

lemmas settled_result = modifier_for [OF normalize_for]

lemma live_settle:
  assumes "live_but {tt_ID (ex_tools e ! i)} e" "i < length (ex_tools e)" "answers (tt_ID (ex_tools e ! i)) r"
    and "\<not> settled (ex_tools e ! i)"
  shows "live (settle_tool cfg i r e) \<and> work (settle_tool cfg i r e) \<le> work e \<and> ex_woken (settle_tool cfg i r e)"
proof -
  let ?t = "ex_tools e ! i"
  let ?r = "commitToolResultContextModifier (normalizeToolResult (tt_ID ?t) (tt_ToolCall ?t) r)"
  let ?t' = "?t\<lparr>tt_Result := Some ?r, tt_Status := toolStatusCompleted, tt_cancelFunc := False\<rparr>"
  let ?e1 = "set_tool i ?t' e"
  have t: "?t \<in> set (ex_tools e)" using assms(2) by simp
  then have "tool_ok ?t" using assms(1) by (simp add: live_but_def list_all_iff)
  then have ok: "tool_ok ?t'" using settled_result [OF assms(3), of "tt_ToolCall ?t"] by (auto simp: tool_ok_def settled_def)
  have ids: "map tt_ID ((ex_tools e)[i := ?t']) = map tt_ID (ex_tools e)" by (simp add: map_tt_ID_update)
  have ids': "tt_ID ` set ((ex_tools e)[i := ?t']) = tt_ID ` set (ex_tools e)" using arg_cong [OF ids, of set] by simp
  have s: "set ((ex_tools e)[i := ?t']) \<subseteq> insert ?t' (set (ex_tools e))" by (rule set_update_subset_insert)
  have other: "u \<in> set (executing e) \<and> tt_ID u \<noteq> tt_ID ?t" if u: "u \<in> set (executing ?e1)" for u
  proof -
    obtain j where j: "j < length (ex_tools e)" "u = (ex_tools e)[i := ?t'] ! j" "tt_Status u = toolStatusExecuting"
      using u by (auto simp: executing_def in_set_conv_nth)
    have "j \<noteq> i" using j assms(2) by auto
    then have "u = ex_tools e ! j" using j by simp
    then show ?thesis using j \<open>j \<noteq> i\<close> same_tool [OF assms(1) j(1) assms(2)] by (auto simp: executing_def)
  qed
  have "\<forall>u\<in>set (executing ?e1). tt_ID u \<in> gr_ID ` set (ex_running e)" using other assms(1) by (auto simp: live_but_def)
  moreover have "list_all tool_ok ((ex_tools e)[i := ?t'])" using assms(1) ok s by (auto simp: live_but_def list_all_iff)
  ultimately have 1: "live ?e1" using assms(1) by (simp add: live_but_def ids ids')
  have "length (queued ?e1) \<le> length (queued e)"
    using length_filter_update [OF assms(2), of "\<lambda>t. tt_Status t = toolStatusQueued" ?t'] by (simp add: queued_def)
  then have w: "work ?e1 \<le> work e" by (simp add: work_def)
  let ?e1' = "?e1\<lparr>ex_bashErrored := True, ex_siblingCancelled := True\<rparr>"
  have cong1: "live ?e1' \<and> work ?e1' = work ?e1" by (rule live_cong [OF 1]) simp_all
  have "only_settles (complete_queued tt_ID m) u" if "u \<in> set (ex_tools ?e1')" for u m
  proof -
    have "tool_ok u" using 1 that by (simp add: live_but_def list_all_iff)
    then show ?thesis using complete_with_ok [of u m] by (auto simp: only_settles_def complete_queued_def tool_ok_def [of u] complete_with_def settled_def)
  qed
  then have 2: "live (synthesizeQueuedSiblingsLocked src ?e1') \<and> work (synthesizeQueuedSiblingsLocked src ?e1') \<le> work ?e1" for src
    using live_map [of "{}" ?e1'] cong1 by (auto simp: synthesizeQueuedSiblingsLocked_def)
  have 3: "live (startRunnableLocked cfg False (Broadcast e2)) \<and> work (startRunnableLocked cfg False (Broadcast e2)) \<le> work e2" if "live e2" for e2
    using live_startRunnable [of "Broadcast e2" cfg False] live_cong [OF that, of "Broadcast e2"] by simp
  have "settle_tool cfg i r e = startRunnableLocked cfg False (Broadcast ?e1) \<or>
    settle_tool cfg i r e = startRunnableLocked cfg False (Broadcast (synthesizeQueuedSiblingsLocked (tr_ToolName ?r) ?e1'))"
    by (simp add: settle_tool_def Let_def)
  then show ?thesis using w 2 [of "tr_ToolName ?r"] 3 [OF 1] 3 [of "synthesizeQueuedSiblingsLocked (tr_ToolName ?r) ?e1'"]
    by (elim disjE) (simp_all add: startRunnable_woken)
qed

lemma live_report:
  assumes "live e" "executor_wf e" "k < length (ex_running e)"
    and "\<And>x. r = Some x \<Longrightarrow> answers (gr_ID (ex_running e ! k)) x"
  shows "live (report_result cfg k r b e) \<and> work (report_result cfg k r b e) < work e \<and> ex_woken (report_result cfg k r b e)"
proof -
  let ?g = "ex_running e ! k" and ?e0 = "e\<lparr>ex_running := take k (ex_running e) @ drop (Suc k) (ex_running e)\<rparr>"
  let ?r = "case r of None \<Rightarrow> newToolResult (gr_ID ?g) (tl_Name (gr_ToolCall ?g)) ''tool execution returned no result'' True | Some r \<Rightarrow> r"
  have run: "set (ex_running e) = insert ?g (set (ex_running ?e0))" "length (ex_running e) = Suc (length (ex_running ?e0))"
    using assms(3) arg_cong [OF id_take_nth_drop [OF assms(3)], of set] by auto
  have 0: "live_but {gr_ID ?g} ?e0" using assms(1) run(1) by (auto simp: live_but_def executing_def)
  have w0: "work ?e0 < work e" using run(2) by (simp add: work_def queued_def)
  have "gr_ID ?g \<in> tt_ID ` set (ex_tools e)" using assms(1) run(1) by (auto simp: live_but_def)
  then obtain i where i: "tool_index (gr_ID ?g) (ex_tools e) = Some i" using tool_index_None [of "gr_ID ?g" "ex_tools e"] by (cases "tool_index (gr_ID ?g) (ex_tools e)") auto
  note ti = tool_index_Some [OF i]
  let ?t = "ex_tools e ! i"
  have ok: "tool_ok ?t" using assms(1) ti by (simp add: live_but_def list_all_length)
  have c: "ex_commitState e = toolCommitCommitted" "\<not> ex_discard e" using assms(1) by (simp_all add: live_but_def)
  have rep: "report_result cfg k r b e = finish cfg (gr_ID ?g) ?r b ?e0" using assms(3) by (simp add: report_result_def Let_def)
  have except: "live e'" if "live_but {gr_ID ?g} e'" "i < length (ex_tools e')" "tt_ID (ex_tools e' ! i) = gr_ID ?g" "settled (ex_tools e' ! i)" for e'
  proof -
    have "tt_ID u \<noteq> gr_ID ?g" if u: "u \<in> set (executing e')" for u
    proof
      assume "tt_ID u = gr_ID ?g"
      moreover obtain j where j: "j < length (ex_tools e')" and "u = ex_tools e' ! j" "tt_Status u = toolStatusExecuting"
        using u by (auto simp: executing_def in_set_conv_nth)
      ultimately have "j = i" using same_tool [OF \<open>live_but _ e'\<close> j \<open>i < _\<close>] \<open>tt_ID (ex_tools e' ! i) = _\<close> by simp
      with \<open>settled _\<close> \<open>u = _\<close> \<open>tt_Status u = _\<close> show False by (simp add: settled_def)
    qed
    then show ?thesis using that(1) by (auto simp: live_but_def)
  qed
  show ?thesis
  proof (cases "tt_Result ?t \<noteq> None \<or> tt_Status ?t = toolStatusYielded")
    case True
    then have "settled ?t" using ok by (auto simp: tool_ok_def settled_def)
    then have "live ?e0" using except [OF 0] ti by simp
    moreover have "finish cfg (gr_ID ?g) ?r b ?e0 = Broadcast ?e0" using True i c by (auto simp: finish_def)
    ultimately show ?thesis using live_cong [of "{}" ?e0 "Broadcast ?e0"] w0 by (simp add: rep)
  next
    case False
    let ?e1 = "if b then interruptRemainingLocked cfg ?e0 else ?e0"
    have 1: "live_but {gr_ID ?g} ?e1" "work ?e1 \<le> work ?e0" "b \<Longrightarrow> ex_woken ?e1" using live_interrupt [OF 0, of cfg] 0 by auto
    have len: "length (ex_tools ?e1) = length (ex_tools e)" using interrupt_keeps(2) [of ?e0 cfg] c by auto
    have id1: "tt_ID (ex_tools ?e1 ! i) = gr_ID ?g"
      using ti c by (auto simp: interruptRemainingLocked_def synthesizeCancelBehaviorLocked_def complete_queued_def complete_with_def)
    show ?thesis
    proof (cases "b \<and> tt_Result (ex_tools ?e1 ! i) \<noteq> None")
      case True
      have "tool_ok (ex_tools ?e1 ! i)" using 1(1) ti len by (simp add: live_but_def list_all_length)
      then have "settled (ex_tools ?e1 ! i)" using True tool_ok_settled by blast
      then have "live ?e1" using except [OF 1(1)] ti len id1 by simp
      moreover have "finish cfg (gr_ID ?g) ?r b ?e0 = ?e1" using True False i c by (auto simp: finish_def Let_def)
      ultimately show ?thesis using 1 w0 True unfolding rep by auto
    next
      case nb: False
      have "ex_tools ?e1 ! i = ?t" using nb interrupt_keeps(3) [of ?e0 i cfg] c ti by auto
      moreover have "\<not> settled ?t" using False ok by (auto simp: tool_ok_def)
      moreover have "answers (gr_ID ?g) ?r" using assms(4) by (cases r) (auto simp: answers_def newToolResult_def)
      ultimately have "live (settle_tool cfg i ?r ?e1) \<and> work (settle_tool cfg i ?r ?e1) \<le> work ?e1 \<and> ex_woken (settle_tool cfg i ?r ?e1)"
        using live_settle [of ?e1 i ?r cfg] 1(1) ti len by simp
      moreover have "finish cfg (gr_ID ?g) ?r b ?e0 = settle_tool cfg i ?r ?e1" using nb False i c by (auto simp: finish_def Let_def)
      ultimately show ?thesis using 1(2) w0 by (simp add: rep)
    qed
  qed
qed

section \<open>The end of a round\<close>

definition well_behaved :: "round_scheduler \<Rightarrow> bool" where
  "well_behaved sched \<longleftrightarrow> (\<forall>n g. case fst (snd (sched n)) g of None \<Rightarrow> True | Some r \<Rightarrow> answers (gr_ID g) r)"

lemma ready_loop_all:
  "list_all tool_ok ts \<Longrightarrow> list_all settled ts \<Longrightarrow> snd (ready_loop True ts) = map (\<lambda>t. the (tt_Result t)) ts"
proof (induction ts)
  case (Cons t ts)
  then have "tt_Status t = toolStatusCompleted" by (cases "tt_Status t") (auto simp: tool_ok_def settled_def)
  moreover obtain r where "tt_Result t = Some r" using Cons.prems by (auto simp: tool_ok_def)
  ultimately show ?case using Cons by (simp split: prod.splits) (metis snd_conv)
qed simp

lemma collect_all_live:
  assumes "live e" "allSettledLocked e"
  obtains e' rs where "collect_all e = (e', Returned rs)" "list_all2 result_for (map tt_ID (ex_tools e)) rs"
proof -
  obtain ts rs where c: "ready_loop True (ex_tools e) = (ts, rs)" by fastforce
  have "list_all tool_ok (ex_tools e)" "list_all settled (ex_tools e)" using assms by (simp_all add: live_but_def allSettledLocked_def)
  moreover from this have "rs = map (\<lambda>t. the (tt_Result t)) (ex_tools e)" using ready_loop_all c by fastforce
  ultimately have "list_all2 result_for (map tt_ID (ex_tools e)) rs"
    by (auto simp: list_all2_conv_all_nth list_all_length tool_ok_def)
  then show thesis using that c by (simp add: collect_all_def collectReadyResultsLocked_def)
qed

lemma ids_step:
  "executor_step strict cfg e rs e' \<Longrightarrow> ex_commitState e = toolCommitCommitted \<Longrightarrow> \<not> ex_discard e' \<Longrightarrow>
     \<not> ex_discard e \<and> ex_commitState e' = toolCommitCommitted \<and> map tt_ID (ex_tools e') = map tt_ID (ex_tools e)"
  by (induction rule: executor_step.induct) (auto simp: map_tt_ID_update startToolLocked_def Let_def)

lemma ids_steps:
  "executor_steps strict cfg e rs e' \<Longrightarrow> ex_commitState e = toolCommitCommitted \<Longrightarrow> \<not> ex_discard e' \<Longrightarrow>
     \<not> ex_discard e \<and> ex_commitState e' = toolCommitCommitted \<and> map tt_ID (ex_tools e') = map tt_ID (ex_tools e)"
proof (induction rule: executor_steps.induct)
  case (steps_step e rs e' rs' e'')
  show ?case
  proof (cases "ex_discard e'")
    case True
    have "ex_discard b" if "executor_steps strict cfg a xs b" "ex_discard a" for a xs b
      using that by (induction rule: executor_steps.induct) (auto elim!: executor_step.cases simp: startToolLocked_def Let_def)
    then show ?thesis using steps_step True by blast
  next
    case False
    then show ?thesis using steps_step ids_step by metis
  qed
qed simp

lemma drive_completes:
  assumes "well_behaved sched" "xc_execute cfg"
  shows "live e \<Longrightarrow> executor_wf e \<Longrightarrow> work e \<le> fuel \<Longrightarrow>
     \<exists>rs. drive cfg sched n fuel (remaining_loop cfg True e) = Some rs \<and> list_all2 result_for (map tt_ID (ex_tools e)) rs"
proof (induction fuel arbitrary: e n)
  case (0 e n)
  let ?e = "startRunnableLocked cfg True e"
  have l: "live ?e" "work ?e = 0" using live_startRunnable [OF 0(1), of cfg True] 0(3) by auto
  have ids: "map tt_ID (ex_tools ?e) = map tt_ID (ex_tools e)"
    using ids_steps [OF startRunnable_steps, of e cfg True] 0(1) l by (simp add: live_but_def)
  have "allSettledLocked ?e" using live_running [OF 0(1) assms(2)] l(2) by (auto simp: work_def)
  then obtain e' rs where "collect_all ?e = (e', Returned rs)" "list_all2 result_for (map tt_ID (ex_tools ?e)) rs"
    using collect_all_live [OF l(1)] by blast
  then show ?case using \<open>allSettledLocked ?e\<close> ids by (simp add: remaining_loop_def Let_def)
next
  case (Suc fuel e n)
  let ?e = "startRunnableLocked cfg True e"
  have l: "live ?e" "work ?e \<le> Suc fuel" using live_startRunnable [OF Suc.prems(1), of cfg True] Suc.prems(3) by auto
  have wf: "executor_wf ?e" using wf_steps [OF startRunnable_steps Suc.prems(2)] .
  have ids: "map tt_ID (ex_tools ?e) = map tt_ID (ex_tools e)"
    using ids_steps [OF startRunnable_steps, of e cfg True] Suc.prems(1) l by (simp add: live_but_def)
  show ?case
  proof (cases "allSettledLocked ?e")
    case True
    then obtain e' rs where "collect_all ?e = (e', Returned rs)" "list_all2 result_for (map tt_ID (ex_tools ?e)) rs"
      using collect_all_live [OF l(1)] by blast
    then show ?thesis using True ids by (simp add: remaining_loop_def Let_def)
  next
    case False
    let ?w = "?e\<lparr>ex_woken := False\<rparr>" and ?n = "fst (sched n)" and ?f = "fst (snd (sched n))" and ?b = "snd (snd (sched n))"
    let ?k = "?n mod length (ex_running ?e)"
    let ?r = "report_result cfg ?k (?f (ex_running ?e ! ?k)) ?b ?w"
    have lw: "live ?w \<and> work ?w = work ?e" by (rule live_cong [OF l(1)]) simp_all
    have ww: "executor_wf ?w" using wf_steps [OF steps_other(1) wf] .
    have run: "ex_running ?e \<noteq> []" using live_running [OF Suc.prems(1) assms(2) False] .
    have "answers (gr_ID (ex_running ?w ! ?k)) x" if "?f (ex_running ?e ! ?k) = Some x" for x
      using assms(1) that by (auto simp: well_behaved_def split: option.splits)
    then have r: "live ?r" "work ?r < work ?w" "ex_woken ?r"
      using live_report [of ?w ?k "?f (ex_running ?e ! ?k)" cfg ?b] lw ww run by simp_all
    have st: "executor_steps True cfg ?w [] ?r" using report_steps [OF ww] .
    have "map tt_ID (ex_tools ?r) = map tt_ID (ex_tools ?w)" using ids_steps [OF st] lw r(1) by (simp add: live_but_def)
    moreover obtain rs where "drive cfg sched (Suc n) fuel (remaining_loop cfg True ?r) = Some rs" "list_all2 result_for (map tt_ID (ex_tools ?r)) rs"
      using Suc.IH [OF r(1) wf_steps [OF st ww], of "Suc n"] r(2) l(2) lw by auto
    moreover have "next_report cfg (sched n) ?w = ?r" by (simp add: next_report_def Let_def split: prod.splits)
    ultimately show ?thesis using False run r(3) ids by (simp add: remaining_loop_def Let_def)
  qed
qed

definition fresh_tool :: "StreamingToolExecutorConfig \<Rightarrow> ToolCall \<Rightarrow> trackedTool" where
  "fresh_tool cfg call = \<lparr>tt_ID = tl_ID call, tt_ToolCall = call, tt_Message = None, tt_Result = None,
     tt_Status = toolStatusQueued, tt_IsConcurrencySafe = toolConcurrencySafe cfg call, tt_cancelFunc = False\<rparr>"

lemma add_calls:
  "schedulable calls \<Longrightarrow> \<not> ex_discard e \<Longrightarrow> ex_commitState e = toolCommitPending \<Longrightarrow>
     tt_ID ` set (ex_tools e) \<inter> set (map (tl_ID \<circ> the) calls) = {} \<Longrightarrow>
     fold (\<lambda>call. AddTool cfg call None) calls e = e\<lparr>ex_tools := ex_tools e @ map (fresh_tool cfg \<circ> the) calls\<rparr>"
proof (induction calls arbitrary: e)
  case (Cons call calls)
  then obtain c where c: "call = Some c" "canonical_call c" "schedulable calls" "tl_ID c \<notin> set (map (tl_ID \<circ> the) calls)"
    by (cases call) (auto simp: schedulable_def)
  have "tool_index (tl_ID c) (ex_tools e) = None" using Cons.prems(4) c(1) by (auto simp: tool_index_None)
  then have "AddTool cfg call None e = e\<lparr>ex_tools := ex_tools e @ [fresh_tool cfg c]\<rparr>"
    using Cons.prems(2,3) c(1,2) by (simp add: AddTool_def toolCallKey_def canonical_call_def fresh_tool_def)
  then show ?case using Cons.IH [OF c(3), of "e\<lparr>ex_tools := ex_tools e @ [fresh_tool cfg c]\<rparr>"] Cons.prems c by (auto simp: fresh_tool_def)
qed simp

lemma committed_live:
  assumes "schedulable calls" "e = NewStreamingToolExecutor cfg\<lparr>ex_tools := map (fresh_tool cfg \<circ> the) calls, ex_commitState := toolCommitCommitted\<rparr>"
  shows "live e \<and> executor_wf e \<and> work e = 2 * length calls \<and> map tt_ID (ex_tools e) = map (tl_ID \<circ> the) calls"
proof -
  have c: "canonical_call (the c)" if "c \<in> set calls" for c using assms(1) that by (auto simp: schedulable_def list_all_iff split: option.splits)
  have ids: "map tt_ID (ex_tools e) = map (tl_ID \<circ> the) calls" by (simp add: assms(2) fresh_tool_def)
  have "list_all tool_ok (ex_tools e)" using c by (auto simp: assms(2) list_all_iff tool_ok_def fresh_tool_def settled_def toolCallKey_def canonical_call_def)
  moreover have q: "list_all (\<lambda>t. tt_Status t = toolStatusQueued) (ex_tools e)" by (simp add: assms(2) list_all_iff fresh_tool_def)
  then have "executing e = []" "queued e = ex_tools e" by (auto simp: executing_def queued_def filter_empty_conv list_all_iff)
  ultimately show ?thesis using assms(1) ids
    by (auto simp: live_but_def executor_wf_def work_def schedulable_def) (simp_all add: assms(2) NewStreamingToolExecutor_def)
qed

lemma committed_round_completes:
  assumes "schedulable calls" "xc_execute cfg" "well_behaved sched"
  shows "\<exists>rs. execute_round cfg sched False waitErr (2 * length calls) calls = Some rs \<and> list_all2 result_for (map (tl_ID \<circ> the) calls) rs"
proof -
  let ?e0 = "NewStreamingToolExecutor cfg"
  let ?e1 = "?e0\<lparr>ex_tools := map (fresh_tool cfg \<circ> the) calls, ex_commitState := toolCommitCommitted\<rparr>"
  have fold: "fold (\<lambda>call. AddTool cfg call None) calls ?e0 = ?e0\<lparr>ex_tools := map (fresh_tool cfg \<circ> the) calls\<rparr>"
    using add_calls [OF assms(1), of ?e0 cfg] by (simp add: NewStreamingToolExecutor_def)
  have 1: "live ?e1" "executor_wf ?e1" "work ?e1 = 2 * length calls" "map tt_ID (ex_tools ?e1) = map (tl_ID \<circ> the) calls"
    using committed_live [OF assms(1) refl] by blast+
  let ?e2 = "Broadcast (if xc_DeferExecution cfg then ?e1 else startRunnableLocked cfg False ?e1)"
  have s2: "executor_steps True cfg ?e1 [] ?e2" using steps_silent [OF startRunnable_steps steps_other(2)] steps_other(2) by simp
  have "live (if xc_DeferExecution cfg then ?e1 else startRunnableLocked cfg False ?e1) \<and>
    work (if xc_DeferExecution cfg then ?e1 else startRunnableLocked cfg False ?e1) \<le> 2 * length calls"
    using live_startRunnable [OF 1(1), of cfg False] 1(1,3) by auto
  then have 2: "live ?e2" "work ?e2 \<le> 2 * length calls" using live_cong [of "{}" _ ?e2] by fastforce+
  have com: "commit cfg False (?e0\<lparr>ex_tools := map (fresh_tool cfg \<circ> the) calls\<rparr>) = (?e2, True)"
    by (simp add: commit_def NewStreamingToolExecutor_def)
  let ?e3 = "if waitErr then interruptRemainingLocked cfg ?e2 else ?e2"
  have s3: "executor_steps True cfg ?e2 [] ?e3" using interrupt_steps [of ?e2 True cfg] 2(1) by (auto simp: live_but_def)
  have 3: "live ?e3" "work ?e3 \<le> 2 * length calls" using live_interrupt [OF 2(1), of cfg] 2 by auto
  have st: "executor_steps True cfg ?e1 [] ?e3" using steps_silent [OF s2 s3] .
  have "map tt_ID (ex_tools ?e3) = map (tl_ID \<circ> the) calls" using ids_steps [OF st] 1(4) 3(1) by (simp add: live_but_def)
  moreover obtain rs where "drive cfg sched 0 (2 * length calls) (remaining_loop cfg True ?e3) = Some rs" "list_all2 result_for (map tt_ID (ex_tools ?e3)) rs"
    using drive_completes [OF assms(3,2) 3(1) wf_steps [OF st 1(2)] 3(2)] by blast
  moreover have "ExecuteCommittedToolCalls cfg False waitErr calls = remaining_loop cfg True ?e3"
    using 2(1) assms(2) by (simp add: ExecuteCommittedToolCalls_def Let_def fold com GetRemainingResultsContext_def reject_uncommitted_def live_but_def)
  ultimately show ?thesis by (simp add: execute_round_def)
qed

lemma rejected_round_completes:
  assumes "schedulable calls"
  shows "\<exists>rs. execute_round cfg sched True waitErr fuel calls = Some rs \<and> list_all2 result_for (map (tl_ID \<circ> the) calls) rs"
proof -
  let ?e0 = "NewStreamingToolExecutor cfg" and ?ts = "map (fresh_tool cfg \<circ> the) calls"
  let ?f = "\<lambda>t. if tt_Status t = toolStatusYielded then t else complete_with (result_ID t) ''Interrupted by user'' t"
  let ?e1 = "Broadcast (?e0\<lparr>ex_tools := map ?f ?ts, ex_commitState := toolCommitRejected\<rparr>)"
  have fold: "fold (\<lambda>call. AddTool cfg call None) calls ?e0 = ?e0\<lparr>ex_tools := ?ts\<rparr>"
    using add_calls [OF assms, of ?e0 cfg] by (simp add: NewStreamingToolExecutor_def)
  have com: "commit cfg True (?e0\<lparr>ex_tools := ?ts\<rparr>) = (?e1, False)"
    by (simp add: commit_def rejectPendingLocked_def NewStreamingToolExecutor_def)
  have key: "tt_ID t = toolCallKey (tt_ToolCall t) \<and> tt_Status t = toolStatusQueued" if "t \<in> set ?ts" for t
    using assms that by (auto simp: schedulable_def list_all_iff fresh_tool_def toolCallKey_def canonical_call_def split: option.splits)
  have each: "list_all tool_ok (map f xs) \<and> list_all settled (map f xs) \<and> map tt_ID (map f xs) = map tt_ID xs"
    if "\<And>t. t \<in> set xs \<Longrightarrow> tool_ok (f t) \<and> settled (f t) \<and> tt_ID (f t) = tt_ID t" for f xs
    using that by (auto simp: list_all_iff)
  have "tool_ok (?f t) \<and> settled (?f t) \<and> tt_ID (?f t) = tt_ID t" if "t \<in> set ?ts" for t
    using key [OF that] complete_with_ok [of t "''Interrupted by user''"] by (simp add: result_ID_ok) (simp add: complete_with_def settled_def)
  then have ok: "list_all tool_ok (map ?f ?ts)" "list_all settled (map ?f ?ts)" "map tt_ID (map ?f ?ts) = map tt_ID ?ts"
    using each [of ?ts ?f] by blast+
  have ids: "map tt_ID (map ?f ?ts) = map (tl_ID \<circ> the) calls" unfolding ok(3) by (simp add: fresh_tool_def)
  obtain ts rs where c: "ready_loop True (map ?f ?ts) = (ts, rs)" by fastforce
  have rs: "rs = map (\<lambda>t. the (tt_Result t)) (map ?f ?ts)" using ready_loop_all [OF ok(1,2)] c by simp
  have "list_all2 result_for (map tt_ID xs) (map (\<lambda>t. the (tt_Result t)) xs)" if "list_all tool_ok xs" "list_all settled xs" for xs
    using that by (auto simp: list_all2_conv_all_nth list_all_length tool_ok_def)
  from this [OF ok(1,2)] have "list_all2 result_for (map (tl_ID \<circ> the) calls) rs" unfolding ids rs .
  moreover have "ExecuteCommittedToolCalls cfg True waitErr calls = ((Broadcast (?e0\<lparr>ex_tools := ts, ex_commitState := toolCommitRejected\<rparr>)), Returned rs)"
  proof -
    have "GetRemainingResults cfg waitErr ?e1 = collect_all ?e1"
      by (simp add: GetRemainingResults_def reject_uncommitted_def Let_def) (simp add: NewStreamingToolExecutor_def)
    then show ?thesis using c
      by (simp add: ExecuteCommittedToolCalls_def Let_def fold com collect_all_def collectReadyResultsLocked_def) (simp add: Broadcast_def)
  qed
  ultimately show ?thesis by (simp add: execute_round_def)
qed

lemma any_round_completes:
  assumes "schedulable calls" "xc_execute cfg" "well_behaved sched"
  shows "\<exists>rs. execute_round cfg sched commitErr waitErr (2 * length calls) calls = Some rs \<and> list_all2 result_for (map (tl_ID \<circ> the) calls) rs"
  by (cases commitErr) (simp_all only: committed_round_completes [OF assms] rejected_round_completes [OF assms(1)])

lemma result_ids: "list_all2 result_for xs rs \<Longrightarrow> map tr_ToolCallID rs = xs"
  by (induction rule: list_all2_induct) (auto simp: result_for_def)

text \<open>
  C19. A round comes to its end: for calls that can be scheduled, whatever goroutine reports next,
  whatever tools that answer for their own call return and whenever the round is interrupted, the
  collector is never stuck, and after at most twice as many reports as there are calls it returns
  one result per call, in the order of the calls, each carrying the identity of its call.
\<close>

theorem round_completes:
  assumes "schedulable calls" "xc_execute cfg" "well_behaved sched"
  shows "\<exists>rs. execute_round cfg sched commitErr waitErr (2 * length calls) calls = Some rs \<and> map tr_ToolCallID rs = map (tl_ID \<circ> the) calls"
proof -
  obtain rs where rs: "execute_round cfg sched commitErr waitErr (2 * length calls) calls = Some rs" "list_all2 result_for (map (tl_ID \<circ> the) calls) rs"
    using any_round_completes [OF assms] by blast
  from rs(2) have "map tr_ToolCallID rs = map (tl_ID \<circ> the) calls" by (rule result_ids)
  with rs(1) show ?thesis by blast
qed

definition demo_scheduler :: round_scheduler where
  "demo_scheduler n = (n, \<lambda>g. if gr_ID g = ''b'' then None else Some (newToolResult (gr_ID g) [] ''ok'' False), n = 5)"

lemma demo_round: "map_option (map tr_Result) (execute_round demo_executor_config demo_scheduler False False 6
    [Some (demo_call ''a'' ''Read''), Some (demo_call ''b'' ''Read''), Some (demo_call ''c'' ''Bash'')]) =
  Some [''ok'', ''tool execution returned no result'', ''ok'']"
  by code_simp

theorem round_completes_witness:
  "\<exists>rs. execute_round demo_executor_config demo_scheduler False False 6
     [Some (demo_call ''a'' ''Read''), Some (demo_call ''b'' ''Read''), Some (demo_call ''c'' ''Bash'')] = Some rs \<and>
     map tr_ToolCallID rs = [''a'', ''b'', ''c''] \<and> map tr_Result rs = [''ok'', ''tool execution returned no result'', ''ok'']"
proof -
  let ?calls = "[Some (demo_call ''a'' ''Read''), Some (demo_call ''b'' ''Read''), Some (demo_call ''c'' ''Bash'')]"
  have "schedulable ?calls" by code_simp
  moreover have "xc_execute demo_executor_config" by (simp add: demo_executor_config_def)
  moreover have "well_behaved demo_scheduler" by (auto simp: well_behaved_def demo_scheduler_def answers_def newToolResult_def)
  ultimately obtain rs where "execute_round demo_executor_config demo_scheduler False False (2 * length ?calls) ?calls = Some rs"
    "map tr_ToolCallID rs = map (tl_ID \<circ> the) ?calls"
    using round_completes by blast
  then show ?thesis using demo_round by (auto simp: demo_call_def)
qed

section \<open>The round of the engine\<close>

text \<open>
  \<open>runCanonicalToolRound\<close> (src/engine/tool_round.go) schedules the calls, executes them with a
  configuration made from the schedule and the registry, checks the results against the schedule
  and takes the decision.  \<open>outcomeByID\<close> holds the outcomes the tools left behind.  The abort
  controller (aborted, with a reason) and the contexts are read at the end; the events on the way
  and the accounting error that accompanies a decision are left out.
\<close>

datatype round_error = RoundEmpty | RoundSchedule schedule_error | ResultCount | WrongResult string | ContextDone

definition planned_safe :: "schedule_env \<Rightarrow> toolSchedule \<Rightarrow> ToolCall \<Rightarrow> bool" where
  "planned_safe env schedule call =
     (case find (\<lambda>c. ts_CallID c = tl_ID call) (td_Calls schedule) of
        None \<Rightarrow> False
      | Some planned \<Rightarrow> ts_ToolName planned = tl_Name call \<and>
          ts_ArgumentsDigest planned = toolArgumentsDigest env (tl_Arguments call) \<and> ts_ConcurrencySafe planned)"

record round_env =
  rv_schedule :: schedule_env
  rv_unmarshal :: "string \<Rightarrow> jval option"
  rv_registry :: registry
  rv_prepare :: "ToolCall \<Rightarrow> ToolCall option"
  rv_jsonValid :: "string \<Rightarrow> bool"
  rv_getenv :: string

definition round_config :: "round_env \<Rightarrow> toolSchedule \<Rightarrow> StreamingToolExecutorConfig" where
  "round_config env schedule =
     \<lparr>xc_execute = True, xc_isSafe = Some (\<lambda>call. Some (planned_safe (rv_schedule env) schedule call)), xc_MaxConcurrency = 0,
      xc_DeferExecution = False, xc_prepare = rv_prepare env,
      xc_getInterruptBehavior = Some (canonicalToolInterruptBehavior (rv_registry env)), xc_onInterrupt = True,
      xc_jsonValid = rv_jsonValid env, xc_getenv = rv_getenv env\<rparr>"

definition canonicalOutcomeFromExecutionResult :: "ToolResult \<Rightarrow> toolExecutionOutcome" where
  "canonicalOutcomeFromExecutionResult r =
     \<lparr>oc_Result = map_option ms_ToolCallID (tr_Message r), oc_PreventContinuation = tr_PreventContinuation r\<rparr>"

definition round_outcome :: "(string \<Rightarrow> toolExecutionOutcome option) \<Rightarrow> toolScheduleCall \<Rightarrow> ToolResult \<Rightarrow> toolRoundOutcome" where
  "round_outcome outcomeByID planned r =
     \<lparr>ro_CallID = ts_CallID planned,
      ro_Outcome = Some (case outcomeByID (ts_CallID planned) of None \<Rightarrow> canonicalOutcomeFromExecutionResult r | Some outcome \<Rightarrow> outcome),
      ro_InterruptID = []\<rparr>"

fun wrong_result :: "toolScheduleCall list \<Rightarrow> ToolResult list \<Rightarrow> string option" where
  "wrong_result (planned # calls) (r # rs) =
     (if tr_ToolCallID r \<noteq> ts_CallID planned then Some (ts_CallID planned) else wrong_result calls rs)"
| "wrong_result _ _ = None"

definition round_decision ::
  "schedule_env \<Rightarrow> toolSchedule \<Rightarrow> (string \<Rightarrow> toolExecutionOutcome option) \<Rightarrow> string option \<Rightarrow> bool \<Rightarrow> ToolResult list \<Rightarrow> round_error + afterToolDecision" where
  "round_decision env schedule outcomeByID aborted ctxErr completed =
     (if length completed \<noteq> length (td_Calls schedule) then Inl ResultCount
      else case wrong_result (td_Calls schedule) completed of
        Some callID \<Rightarrow> Inl (WrongResult callID)
      | None \<Rightarrow>
         (case decideAfterToolRound env schedule (map2 (round_outcome outcomeByID) (td_Calls schedule) completed) of
            Inl err \<Rightarrow> Inl (RoundSchedule err)
          | Inr decision \<Rightarrow>
             (case aborted of
                Some reason \<Rightarrow> Inr (afterToolInterrupt (if TrimUnicode reason = [] then ''abort_tools'' else TrimUnicode reason))
              | None \<Rightarrow> if ctxErr then Inl ContextDone else Inr decision)))"

definition runCanonicalToolRound ::
  "round_env \<Rightarrow> round_scheduler \<Rightarrow> bool \<Rightarrow> bool \<Rightarrow> nat \<Rightarrow> (string \<Rightarrow> toolExecutionOutcome option) \<Rightarrow> string option \<Rightarrow> bool \<Rightarrow>
   ToolCall option list \<Rightarrow> (round_error + afterToolDecision) option" where
  "runCanonicalToolRound env sched commitErr waitErr fuel outcomeByID aborted ctxErr calls =
     (if calls = [] then Some (Inl RoundEmpty)
      else case newToolSchedule (rv_schedule env) calls
          (Some (\<lambda>call. Some (isToolConcurrencySafe (rv_unmarshal env) (Some call) (rv_registry env)))) of
        Inl err \<Rightarrow> Some (Inl (RoundSchedule err))
      | Inr schedule \<Rightarrow>
         map_option (round_decision (rv_schedule env) schedule outcomeByID aborted ctxErr)
           (execute_round (round_config env schedule) sched commitErr waitErr fuel calls))"

lemma wrong_result_None: "map tr_ToolCallID rs = map ts_CallID calls \<Longrightarrow> wrong_result calls rs = None"
  by (induction calls rs rule: wrong_result.induct) auto

lemma complete_outcomes:
  "list_all2 result_for (map ts_CallID calls) rs \<Longrightarrow> validate_calls seen i previous calls = None \<Longrightarrow>
     (\<And>callID oc. outcomeByID callID = Some oc \<Longrightarrow> oc_Result oc = Some callID) \<Longrightarrow>
     check_outcomes seen i calls (map2 (round_outcome outcomeByID) calls rs) = None"
proof (induction calls arbitrary: seen i previous rs)
  case (Cons call calls)
  then obtain r rs' where r: "rs = r # rs'" "result_for (ts_CallID call) r" "list_all2 result_for (map ts_CallID calls) rs'"
    by (cases rs) auto
  have c: "ts_CallID call \<notin> seen" "validate_calls (insert (ts_CallID call) seen) (i + 1) (Some call) calls = None"
    using Cons.prems(2) by (auto split: if_splits option.splits)
  have "oc_Result (case outcomeByID (ts_CallID call) of None \<Rightarrow> canonicalOutcomeFromExecutionResult r | Some oc \<Rightarrow> oc) = Some (ts_CallID call)"
    using Cons.prems(3) r(2) by (auto simp: result_for_def canonicalOutcomeFromExecutionResult_def split: option.splits)
  moreover have "TrimUnicode [] = []" by code_simp
  ultimately show ?case using Cons.IH [OF r(3) c(2) Cons.prems(3)] c(1) by (simp add: r(1) round_outcome_def [of outcomeByID call r] Let_def)
qed simp

text \<open>
  A round never fails from within: for schedulable calls and tools that answer for their own
  calls, the round ends within its bound with a decision for the complete set of results, whatever
  the order of reports and whenever it is interrupted; the only error left is a context that is
  done without an abort.
\<close>

lemma tool_round_total:
  assumes "calls \<noteq> []" "schedulable calls" "well_behaved sched" "\<And>s. hex_digest (sv_sha256 (rv_schedule env) s)"
    and "\<And>callID oc. outcomeByID callID = Some oc \<Longrightarrow> oc_Result oc = Some callID"
  shows "\<exists>d. runCanonicalToolRound env sched commitErr waitErr (2 * length calls) outcomeByID aborted ctxErr calls =
    Some (if aborted = None \<and> ctxErr then Inl ContextDone else Inr d)"
proof -
  let ?cl = "Some (\<lambda>call. Some (isToolConcurrencySafe (rv_unmarshal env) (Some call) (rv_registry env)))"
  obtain s where s: "newToolSchedule (rv_schedule env) calls ?cl = Inr s"
    using schedule_made [OF assms(4,1,2)] by blast
  have v: "validateToolSchedule (rv_schedule env) s = None" and loop: "schedule_loop (rv_schedule env) ?cl {} 0 (- 1) False calls = Inr (td_Calls s)"
    using newToolSchedule_Inr [OF s] by auto
  have ids: "map ts_CallID (td_Calls s) = map (tl_ID \<circ> the) calls" using schedule_loop_calls [OF loop] by blast
  have "validate_calls {} 0 None (td_Calls s) = None" using v by (auto simp: validateToolSchedule_def split: if_splits option.splits)
  moreover obtain rs where rs: "execute_round (round_config env s) sched commitErr waitErr (2 * length calls) calls = Some rs"
    "list_all2 result_for (map ts_CallID (td_Calls s)) rs"
    using any_round_completes [OF assms(2) _ assms(3), of "round_config env s" commitErr waitErr] by (auto simp: round_config_def ids)
  ultimately have "check_outcomes {} 0 (td_Calls s) (map2 (round_outcome outcomeByID) (td_Calls s) rs) = None"
    using complete_outcomes assms(5) by blast
  moreover have len: "length rs = length (td_Calls s)" using list_all2_lengthD [OF rs(2)] by simp
  ultimately obtain d where "decideAfterToolRound (rv_schedule env) s (map2 (round_outcome outcomeByID) (td_Calls s) rs) = Inr d"
    by (auto simp: decideAfterToolRound_def v)
  moreover have "wrong_result (td_Calls s) rs = None" using wrong_result_None result_ids [OF rs(2)] by blast
  ultimately show ?thesis using assms(1) len by (auto simp: runCanonicalToolRound_def s rs(1) round_decision_def split: option.splits)
qed

definition demo_round_env :: round_env where
  "demo_round_env = \<lparr>rv_schedule = demo_schedule_env, rv_unmarshal = (\<lambda>_. Some JNull), rv_registry = demo_registry,
     rv_prepare = (\<lambda>_. None), rv_jsonValid = (\<lambda>_. True), rv_getenv = []\<rparr>"

lemma demo_scheduler_ok: "well_behaved demo_scheduler"
  by (auto simp: well_behaved_def demo_scheduler_def answers_def newToolResult_def)

lemma tool_round_total_witness:
  "runCanonicalToolRound demo_round_env demo_scheduler False False 6 (\<lambda>_. None) (Some ''stop'') True demo_calls = Some (Inr (afterToolInterrupt ''stop''))"
proof -
  obtain d where d: "runCanonicalToolRound demo_round_env demo_scheduler False False (2 * length demo_calls) (\<lambda>_. None) (Some ''stop'') True demo_calls = Some (Inr d)"
    using tool_round_total [of demo_calls demo_scheduler demo_round_env "\<lambda>_. None" False False "Some ''stop''" True]
      demo_schedulable demo_scheduler_ok demo_hex by (auto simp: demo_round_env_def)
  moreover have "runCanonicalToolRound demo_round_env demo_scheduler False False 6 (\<lambda>_. None) (Some ''stop'') True demo_calls \<in>
    {None, Some (Inr (afterToolInterrupt ''stop''))}" by code_simp
  moreover have "2 * length demo_calls = 6" by (simp add: demo_calls_def)
  ultimately show ?thesis by auto
qed

section \<open>A collector that waits for ever\<close>

text \<open>
  \<open>GetRemainingResults\<close> after an interruption completes only the calls with cancel behaviour and
  then waits without starting what is queued: a committed call with block behaviour that was not
  ready to start is never started, no goroutine runs, and nothing wakes the collector.
\<close>

lemma interrupted_collection_stuck:
  "let e = fst (run_executor_all demo_executor_config
       [Op_AddTool (Some ((demo_call ''c'' ''Bash'')\<lparr>tl_Arguments := ''{}''\<rparr>)) None, Op_commit False] (NewStreamingToolExecutor demo_executor_config))
   in case GetRemainingResults demo_executor_config True e of (e', r) \<Rightarrow> r = Waits \<and> ex_running e' = [] \<and> \<not> ex_woken e'"
  by code_simp

end
