(* ===== verification/Cron_Expr.thy ===== *)
theory Cron_Expr
  imports Go_Text Tool_Input
begin

text \<open>
  Cron expressions (src/engine/cron/cron.go): the parser of the five fields, the matching of a time
  and the search for the next run.

  Go's int has 64 bits and wraps, so the loops that expand a range may never end: they are partial
  functions, and \<open>None\<close> is a call that does not return.  Times are milliseconds since 1970, as in
  \<open>time.UnixMilli\<close>; \<open>off\<close> gives the offset of local time in seconds at an instant, which is data of
  the time zone.  The civil date of a day is the one of package time (proleptic Gregorian).
\<close>

section \<open>Text\<close>

text \<open>\<open>strings.Fields\<close>, \<open>strings.Split\<close> with a one-byte separator, \<open>strings.SplitN\<close> with limit 2.\<close>

function fields_loop :: "string \<Rightarrow> string \<Rightarrow> string list" where
  "fields_loop cur s =
     (case space_at s of
        Some p \<Rightarrow> (if cur = [] then [] else [cur]) @ fields_loop [] (drop (length p) s)
      | None \<Rightarrow> (case s of [] \<Rightarrow> if cur = [] then [] else [cur] | c # s' \<Rightarrow> fields_loop (cur @ [c]) s'))"
  by pat_completeness auto
termination
  by (relation "measure (\<lambda>(cur, s). length s)") (auto dest!: space_atD uspaces_nonempty simp: HasPrefix_iff)

declare fields_loop.simps [simp del]

definition FieldsUnicode :: "string \<Rightarrow> string list" where
  "FieldsUnicode s = fields_loop [] s"

fun Split_byte :: "char \<Rightarrow> string \<Rightarrow> string list" where
  "Split_byte sep [] = [[]]"
| "Split_byte sep (c # s) =
     (if c = sep then [] # Split_byte sep s
      else case Split_byte sep s of [] \<Rightarrow> [[c]] | x # xs \<Rightarrow> (c # x) # xs)"

fun SplitN2 :: "char \<Rightarrow> string \<Rightarrow> string \<times> string option" where
  "SplitN2 sep [] = ([], None)"
| "SplitN2 sep (c # s) = (if c = sep then ([], Some s) else case SplitN2 sep s of (a, b) \<Rightarrow> (c # a, b))"

definition wrap64 :: "int \<Rightarrow> int" where
  "wrap64 x = (x + 2 ^ 63) mod 2 ^ 64 - 2 ^ 63"

section \<open>Fields\<close>

datatype cron_error =
    FieldCount nat
  | InField string cron_error
  | InvalidStep string
  | InvalidRangeStart string
  | InvalidRangeEnd string
  | InvalidValue string
  | OutOfRange int int int

text \<open>\<open>for i := start; i <= stop; i += step\<close>, appending each \<open>i\<close>.\<close>

partial_function (option) range_loop :: "int \<Rightarrow> int \<Rightarrow> int \<Rightarrow> int list option" where
  "range_loop i stop step =
     (if i \<le> stop then Option.bind (range_loop (wrap64 (i + step)) stop step) (\<lambda>xs. Some (i # xs)) else Some [])"

declare range_loop.simps [code]

definition step_part :: "int \<Rightarrow> int \<Rightarrow> string \<Rightarrow> (cron_error + int list) option" where
  "step_part lo hi part =
     (case SplitN2 (CHR ''/'') part of
        (span, rest) \<Rightarrow>
          (case Option.bind rest Atoi of
             None \<Rightarrow> Some (Inl (InvalidStep part))
           | Some step \<Rightarrow>
              (if step \<le> 0 then Some (Inl (InvalidStep part))
               else if span = ''*'' then map_option Inr (range_loop lo hi step)
               else case SplitN2 (CHR ''-'') span of
                 (a, b) \<Rightarrow>
                   (case Atoi a of
                      None \<Rightarrow> Some (Inl (InvalidRangeStart part))
                    | Some start \<Rightarrow>
                       (case b of
                          None \<Rightarrow> map_option Inr (range_loop start hi step)
                        | Some b' \<Rightarrow>
                           (case Atoi b' of
                              None \<Rightarrow> Some (Inl (InvalidRangeEnd part))
                            | Some stop \<Rightarrow> map_option Inr (range_loop start stop step)))))))"

definition range_part :: "string \<Rightarrow> (cron_error + int list) option" where
  "range_part part =
     (case SplitN2 (CHR ''-'') part of
        (a, b) \<Rightarrow>
          (case Atoi a of
             None \<Rightarrow> Some (Inl (InvalidRangeStart part))
           | Some start \<Rightarrow>
              (case Option.bind b Atoi of
                 None \<Rightarrow> Some (Inl (InvalidRangeEnd part))
               | Some stop \<Rightarrow> map_option Inr (range_loop start stop 1))))"

definition value_part :: "int \<Rightarrow> int \<Rightarrow> string \<Rightarrow> (cron_error + int list) option" where
  "value_part lo hi part =
     (case Atoi part of
        None \<Rightarrow> Some (Inl (InvalidValue part))
      | Some val \<Rightarrow> if val < lo \<or> val > hi then Some (Inl (OutOfRange val lo hi)) else Some (Inr [val]))"

definition parse_part :: "int \<Rightarrow> int \<Rightarrow> string \<Rightarrow> (cron_error + int list) option" where
  "parse_part lo hi part =
     (if CHR ''/'' \<in> set part then step_part lo hi part
      else if CHR ''-'' \<in> set part then range_part part
      else value_part lo hi part)"

fun parse_parts :: "int \<Rightarrow> int \<Rightarrow> string list \<Rightarrow> (cron_error + int list) option" where
  "parse_parts lo hi [] = Some (Inr [])"
| "parse_parts lo hi (part # parts) =
     (case parse_part lo hi part of
        None \<Rightarrow> None
      | Some (Inl err) \<Rightarrow> Some (Inl err)
      | Some (Inr xs) \<Rightarrow>
         (case parse_parts lo hi parts of
            None \<Rightarrow> None
          | Some (Inl err) \<Rightarrow> Some (Inl err)
          | Some (Inr ys) \<Rightarrow> Some (Inr (xs @ ys))))"

definition parseCronField :: "string \<Rightarrow> int \<Rightarrow> int \<Rightarrow> (cron_error + int list) option" where
  "parseCronField field lo hi =
     (if field = ''*'' then Some (Inr [lo..hi]) else parse_parts lo hi (Split_byte (CHR '','') field))"

record CronExpression =
  ce_Minute :: "int list"
  ce_Hour :: "int list"
  ce_DayMonth :: "int list"
  ce_Month :: "int list"
  ce_DayWeek :: "int list"

definition field_then :: "string \<Rightarrow> (cron_error + int list) option \<Rightarrow> (int list \<Rightarrow> (cron_error + 'a) option) \<Rightarrow> (cron_error + 'a) option" where
  "field_then name r k =
     (case r of None \<Rightarrow> None | Some (Inl err) \<Rightarrow> Some (Inl (InField name err)) | Some (Inr xs) \<Rightarrow> k xs)"

definition ParseCronExpression :: "string \<Rightarrow> (cron_error + CronExpression) option" where
  "ParseCronExpression expr =
     (case FieldsUnicode (TrimUnicode expr) of
        [f0, f1, f2, f3, f4] \<Rightarrow>
          field_then ''minute'' (parseCronField f0 0 59) (\<lambda>minute.
          field_then ''hour'' (parseCronField f1 0 23) (\<lambda>hour.
          field_then ''day of month'' (parseCronField f2 1 31) (\<lambda>dayMonth.
          field_then ''month'' (parseCronField f3 1 12) (\<lambda>month.
          field_then ''day of week'' (parseCronField f4 0 6) (\<lambda>dayWeek.
            Some (Inr \<lparr>ce_Minute = minute, ce_Hour = hour, ce_DayMonth = dayMonth, ce_Month = month, ce_DayWeek = dayWeek\<rparr>))))))
      | xs \<Rightarrow> Some (Inl (FieldCount (length xs))))"

section \<open>Dates\<close>

text \<open>The date of a day counted from 1970-01-01, by eras of 400 years that start in March.\<close>

definition civil :: "int \<Rightarrow> int \<times> int \<times> int" where
  "civil days =
     (let z = days + 719468; era = z div 146097; doe = z mod 146097;
          yoe = (doe - doe div 1460 + doe div 36524 - doe div 146096) div 365;
          doy = doe - (365 * yoe + yoe div 4 - yoe div 100);
          mp = (5 * doy + 2) div 153;
          day = doy - (153 * mp + 2) div 5 + 1;
          month = (if mp < 10 then mp + 3 else mp - 9);
          year = yoe + era * 400 + (if month \<le> 2 then 1 else 0)
      in (year, month, day))"

record clock_time =
  ct_Minute :: int
  ct_Hour :: int
  ct_Day :: int
  ct_Month :: int
  ct_Weekday :: int

definition local_time :: "(int \<Rightarrow> int) \<Rightarrow> int \<Rightarrow> clock_time" where
  "local_time off ms =
     (let wall = ms div 1000 + off ms; days = wall div 86400 in
      case civil days of (year, month, day) \<Rightarrow>
        \<lparr>ct_Minute = (wall div 60) mod 60, ct_Hour = (wall div 3600) mod 24, ct_Day = day, ct_Month = month, ct_Weekday = (days + 4) mod 7\<rparr>)"

section \<open>Matching\<close>

definition fieldContains :: "int list \<Rightarrow> int \<Rightarrow> bool" where
  "fieldContains f val \<longleftrightarrow> list_ex (\<lambda>v. v = val) f"

definition cronMatches :: "(int \<Rightarrow> int) \<Rightarrow> CronExpression \<Rightarrow> int \<Rightarrow> bool" where
  "cronMatches off expr t =
     (let c = local_time off t;
          dayOfMonthMatch = fieldContains (ce_DayMonth expr) (ct_Day c);
          dayOfWeekMatch = fieldContains (ce_DayWeek expr) (ct_Weekday c)
      in if \<not> fieldContains (ce_Minute expr) (ct_Minute c) then False
         else if \<not> fieldContains (ce_Hour expr) (ct_Hour c) then False
         else if \<not> fieldContains (ce_Month expr) (ct_Month c) then False
         else if length (ce_DayMonth expr) = 31 then dayOfWeekMatch
         else if length (ce_DayWeek expr) = 7 then dayOfMonthMatch
         else dayOfMonthMatch \<or> dayOfWeekMatch)"

function next_loop :: "(int \<Rightarrow> bool) \<Rightarrow> int \<Rightarrow> int \<Rightarrow> int option" where
  "next_loop matches i t =
     (if i < 525960 then (if matches t then Some t else next_loop matches (i + 1) (t + 60000)) else None)"
  by pat_completeness auto
termination
  by (relation "measure (\<lambda>(m, i, t). nat (525960 - i))") auto

declare next_loop.simps [simp del]

definition first_minute :: "int \<Rightarrow> int" where
  "first_minute after = (after + 60000) div 60000 * 60000"

definition ComputeNextCronRun :: "(int \<Rightarrow> int) \<Rightarrow> CronExpression \<Rightarrow> int \<Rightarrow> int" where
  "ComputeNextCronRun off expr after =
     (case next_loop (cronMatches off expr) 0 (first_minute after) of
        Some t \<Rightarrow> t
      | None \<Rightarrow> after + 365 * 24 * 3600 * 1000)"

text \<open>\<open>%02d\<close>; the parser yields no negative values.\<close>

definition two_digits :: "int \<Rightarrow> string" where
  "two_digits n = (if n < 10 then ''0'' else []) @ nat_string (nat n)"

definition CronToHuman :: "string \<Rightarrow> string option" where
  "CronToHuman expr =
     (case ParseCronExpression expr of
        None \<Rightarrow> None
      | Some (Inl _) \<Rightarrow> Some expr
      | Some (Inr parsed) \<Rightarrow>
         (let allMinutes = length (ce_Minute parsed) = 60; allHours = length (ce_Hour parsed) = 24;
              allDays = length (ce_DayMonth parsed) = 31; allMonths = length (ce_Month parsed) = 12; allWeekdays = length (ce_DayWeek parsed) = 7
          in if allMinutes \<and> allHours \<and> allDays \<and> allMonths \<and> allWeekdays then Some ''every minute''
             else if \<not> allMinutes \<and> allHours \<and> allDays \<and> allMonths \<and> allWeekdays \<and> length (ce_Minute parsed) = 1 \<and> hd (ce_Minute parsed) = 0 then Some ''every hour''
             else if length (ce_Minute parsed) = 1 \<and> length (ce_Hour parsed) = 1 \<and> allDays \<and> allMonths \<and> allWeekdays
             then Some (''daily at '' @ two_digits (hd (ce_Hour parsed)) @ '':'' @ two_digits (hd (ce_Minute parsed)))
             else Some (''on schedule: '' @ expr)))"

section \<open>Ranges\<close>

definition int64 :: "int \<Rightarrow> bool" where
  "int64 x \<longleftrightarrow> MinInt64 \<le> x \<and> x \<le> MaxInt64"

lemma wrap64_id: "int64 x \<Longrightarrow> wrap64 x = x"
  by (simp add: wrap64_def int64_def MinInt64_def MaxInt64_def)

lemma wrap64_int64: "int64 (wrap64 x)"
proof -
  have "0 \<le> (x + 2 ^ 63) mod 2 ^ 64" "(x + 2 ^ 63) mod 2 ^ 64 < 2 ^ 64" by simp_all
  then show ?thesis by (simp add: wrap64_def int64_def MinInt64_def MaxInt64_def)
qed

text \<open>What a range means: every \<open>step\<close>-th number from its start to its end.\<close>

function steps :: "int \<Rightarrow> int \<Rightarrow> int \<Rightarrow> int list" where
  "steps i stop step = (if i \<le> stop \<and> step > 0 then i # steps (i + step) stop step else [])"
  by pat_completeness auto
termination by (relation "measure (\<lambda>(i, stop, step). nat (stop + 1 - i))") auto

declare steps.simps [simp del]

lemma steps_mem: "step > 0 \<Longrightarrow> x \<in> set (steps i stop step) \<longleftrightarrow> i \<le> x \<and> x \<le> stop \<and> step dvd (x - i)"
proof (induction i stop step rule: steps.induct)
  case (1 i stop step)
  have "step dvd x - (i + step) \<longleftrightarrow> step dvd x - i" using dvd_add_triv_right_iff [of step "x - (i + step)"] by simp
  moreover have "i \<le> x \<longrightarrow> step dvd x - i \<longrightarrow> x \<noteq> i \<longrightarrow> i + step \<le> x"
    using zdvd_imp_le [of step "x - i"] by auto
  ultimately show ?case using 1 by (subst steps.simps) auto
qed

lemma range_loop_steps:
  "step > 0 \<Longrightarrow> int64 i \<Longrightarrow> stop + step \<le> MaxInt64 \<Longrightarrow> range_loop i stop step = Some (steps i stop step)"
proof (induction i stop step rule: steps.induct)
  case (1 i stop step)
  show ?case
  proof (cases "i \<le> stop")
    case True
    then have "int64 (i + step)" using 1 by (auto simp: int64_def)
    then show ?thesis using 1 True by (subst range_loop.simps, subst steps.simps) (simp add: wrap64_id)
  next
    case False
    then show ?thesis by (subst range_loop.simps, subst steps.simps) simp
  qed
qed

text \<open>A range that ends at the largest integer never ends.\<close>

lemma range_loop_returns:
  assumes "range_loop i stop step = Some xs"
  shows "int64 i \<longrightarrow> stop < MaxInt64"
proof (rule range_loop.raw_induct [where P = "\<lambda>i stop step xs. int64 i \<longrightarrow> stop < MaxInt64", OF _ assms])
  fix loop i stop step xs
  assume IH: "\<And>i stop step xs. loop i stop step = Some xs \<Longrightarrow> int64 i \<longrightarrow> stop < MaxInt64"
    and body: "(if i \<le> stop then Option.bind (loop (wrap64 (i + step)) stop step) (\<lambda>xs. Some (i # xs)) else Some []) = Some xs"
  show "int64 i \<longrightarrow> stop < MaxInt64"
  proof (cases "i \<le> stop")
    case True
    then obtain ys where "loop (wrap64 (i + step)) stop step = Some ys" using body by (auto split: Option.bind_splits)
    then show ?thesis using IH wrap64_int64 by blast
  qed (auto simp: int64_def)
qed

lemma range_loop_diverges: "int64 i \<Longrightarrow> range_loop i MaxInt64 step = None"
  using range_loop_returns [of i MaxInt64 step] by (cases "range_loop i MaxInt64 step") auto

section \<open>Termination of the parser\<close>

lemma decimal_bound: "decimal acc s = Some n \<Longrightarrow> acc \<ge> 0 \<Longrightarrow> 0 \<le> n \<and> n < (acc + 1) * 10 ^ length s"
proof (induction acc s rule: decimal.induct)
  case (2 acc c s)
  let ?d = "int (of_char c) - 48"
  have d: "0 \<le> ?d" "?d \<le> 9" "decimal (10 * acc + ?d) s = Some n" using 2 by (auto simp: byte_in_def Let_def split: if_splits)
  then have n: "0 \<le> n \<and> n < (10 * acc + ?d + 1) * 10 ^ length s" using 2 by (auto split: if_splits)
  have "(10 * acc + ?d + 1) * 10 ^ length s \<le> ((acc + 1) * 10) * 10 ^ length s" using d by (intro mult_right_mono) auto
  with n have "n < ((acc + 1) * 10) * 10 ^ length s" by linarith
  then show ?case using n by (simp only: mult.assoc power_Suc list.size add_0 add_Suc add_Suc_right) simp
qed auto

lemma Atoi_bound: "Atoi s = Some n \<Longrightarrow> int64 n \<and> \<bar>n\<bar> < 10 ^ length s"
proof -
  assume a: "Atoi s = Some n"
  let ?d = "if s \<noteq> [] \<and> (hd s = CHR ''-'' \<or> hd s = CHR ''+'') then tl s else s"
  obtain m where m: "decimal 0 ?d = Some m" "n = m \<or> n = - m" "int64 n"
    using a by (auto simp: Atoi_def Let_def int64_def split: if_splits option.splits)
  have b: "0 \<le> m" "m < 10 ^ length ?d" using decimal_bound [OF m(1)] by auto
  have "m < 10 ^ length s" by (rule order_less_le_trans [OF b(2) power_increasing]) auto
  then show ?thesis using m b(1) by auto
qed

lemma SplitN2_length: "SplitN2 c s = (a, b) \<Longrightarrow> length a \<le> length s \<and> (\<forall>x. b = Some x \<longrightarrow> length x \<le> length s)"
  by (induction c s arbitrary: a rule: SplitN2.induct) (auto split: if_splits prod.splits)

text \<open>Eighteen digits are below half of the largest 64-bit integer.\<close>

lemma small_number: "Atoi s = Some n \<Longrightarrow> length s \<le> 18 \<Longrightarrow> int64 n \<and> n < 10 ^ 18"
proof -
  assume a: "Atoi s = Some n" "length s \<le> 18"
  have "(10::int) ^ length s \<le> 10 ^ 18" using a(2) by (intro power_increasing) auto
  then show ?thesis using Atoi_bound [OF a(1)] by auto
qed

lemma small_range: "int64 i \<Longrightarrow> 0 < step \<Longrightarrow> step < 10 ^ 18 \<Longrightarrow> stop < 10 ^ 18 \<Longrightarrow> range_loop i stop step = Some (steps i stop step)"
  by (rule range_loop_steps) (auto simp: MaxInt64_def)

definition field_limits :: "int \<Rightarrow> int \<Rightarrow> bool" where
  "field_limits lo hi \<longleftrightarrow> 0 \<le> lo \<and> lo \<le> hi \<and> hi < 1000"

lemma parse_part_returns:
  assumes "length part \<le> 18" "field_limits lo hi"
  shows "\<exists>r. parse_part lo hi part = Some r"
proof -
  obtain a b where ab: "SplitN2 (CHR ''/'') part = (a, b)" by fastforce
  obtain c d where cd: "SplitN2 (CHR ''-'') a = (c, d)" by fastforce
  obtain e f where ef: "SplitN2 (CHR ''-'') part = (e, f)" by fastforce
  have len: "length a \<le> 18" "\<And>x. b = Some x \<Longrightarrow> length x \<le> 18" "length e \<le> 18" "\<And>x. f = Some x \<Longrightarrow> length x \<le> 18"
    using SplitN2_length [OF ab] SplitN2_length [OF ef] assms(1) by auto
  then have len': "length c \<le> 18" "\<And>x. d = Some x \<Longrightarrow> length x \<le> 18" using SplitN2_length [OF cd] by auto
  have lim: "int64 lo" "hi < 10 ^ 18" using assms(2) by (auto simp: field_limits_def int64_def MinInt64_def MaxInt64_def)
  have step: "\<exists>r. step_part lo hi part = Some r"
  proof (cases "Option.bind b Atoi")
    case (Some st)
    then obtain b' where b': "b = Some b'" "Atoi b' = Some st" by (cases b) auto
    have st: "st < 10 ^ 18" using small_number [OF b'(2)] len(2) [OF b'(1)] by blast
    have "range_loop i stop st = Some (steps i stop st)" if "int64 i" "stop < 10 ^ 18" "0 < st" for i stop
      using small_range [OF that(1,3) st that(2)] .
    moreover have "int64 i" if "Atoi c = Some i" for i using small_number [OF that len'(1)] by blast
    moreover have "j < 10 ^ 18" if "Atoi d' = Some j" "d = Some d'" for d' j using small_number [OF that(1) len'(2) [OF that(2)]] by blast
    ultimately show ?thesis using lim by (auto simp: step_part_def ab cd b' split: option.splits)
  qed (simp add: step_part_def ab)
  have ran: "\<exists>r. range_part part = Some r"
  proof (cases "Option.bind f Atoi")
    case (Some stop)
    then obtain f' where f': "f = Some f'" "Atoi f' = Some stop" by (cases f) auto
    have "stop < 10 ^ 18" using small_number [OF f'(2)] len(4) [OF f'(1)] by blast
    then have "range_loop i stop 1 = Some (steps i stop 1)" if "int64 i" for i using small_range [OF that, of 1 stop] by simp
    moreover have "int64 i" if "Atoi e = Some i" for i using small_number [OF that len(3)] by blast
    ultimately show ?thesis by (auto simp: range_part_def ef f' split: option.splits)
  qed (auto simp: range_part_def ef split: option.splits)
  have "\<exists>r. value_part lo hi part = Some r" by (auto simp: value_part_def split: option.splits)
  then show ?thesis using step ran by (simp add: parse_part_def)
qed

lemma Split_byte_length: "x \<in> set (Split_byte c s) \<Longrightarrow> length x \<le> length s"
  by (induction s arbitrary: x) (fastforce split: list.splits if_splits)+

lemma parse_parts_returns:
  "list_all (\<lambda>p. length p \<le> 18) parts \<Longrightarrow> field_limits lo hi \<Longrightarrow> \<exists>r. parse_parts lo hi parts = Some r"
proof (induction parts)
  case (Cons part parts)
  then obtain r r' where "parse_part lo hi part = Some r" "parse_parts lo hi parts = Some r'" using parse_part_returns by fastforce
  then show ?case by (cases r; cases r') auto
qed simp

lemma parseCronField_returns:
  assumes "list_all (\<lambda>p. length p \<le> 18) (Split_byte (CHR '','') field)" "field_limits lo hi"
  shows "\<exists>r. parseCronField field lo hi = Some r"
  using parse_parts_returns [OF assms] by (simp add: parseCronField_def)

text \<open>
  C30. Parsing returns: an expression whose comma-separated parts have at most eighteen characters
  is accepted or refused after finitely many steps.
\<close>

theorem ParseCronExpression_returns:
  assumes "list_all (\<lambda>f. list_all (\<lambda>p. length p \<le> 18) (Split_byte (CHR '','') f)) (FieldsUnicode (TrimUnicode expr))"
  shows "\<exists>r. ParseCronExpression expr = Some r"
proof -
  have lim: "field_limits 0 59" "field_limits 0 23" "field_limits 1 31" "field_limits 1 12" "field_limits 0 6" by (simp_all add: field_limits_def)
  have seq: "\<exists>r. field_then name x k = Some r" if "\<exists>r. x = Some r" "\<And>xs. \<exists>r. k xs = Some r"
    for name x and k :: "int list \<Rightarrow> (cron_error + CronExpression) option"
    using that by (auto simp: field_then_def split: sum.splits)
  show ?thesis
  proof (cases "\<exists>f0 f1 f2 f3 f4. FieldsUnicode (TrimUnicode expr) = [f0, f1, f2, f3, f4]")
    case True
    then show ?thesis using assms lim by (auto simp: ParseCronExpression_def intro!: seq parseCronField_returns)
  qed (auto simp: ParseCronExpression_def split: list.splits)
qed

theorem ParseCronExpression_returns_witness: "\<exists>r. ParseCronExpression ''*/15 0-6,12 1 * 1-5'' = Some r"
  by (rule ParseCronExpression_returns) code_simp

lemma largest_range_never_ends: "ParseCronExpression ''0-9223372036854775807 * * * *'' = None"
proof -
  have f: "FieldsUnicode (TrimUnicode ''0-9223372036854775807 * * * *'') = [''0-9223372036854775807'', ''*'', ''*'', ''*'', ''*'']" by code_simp
  have s: "SplitN2 (CHR ''-'') ''0-9223372036854775807'' = (''0'', Some ''9223372036854775807'')" by code_simp
  have a: "Atoi ''0'' = Some 0" "Atoi ''9223372036854775807'' = Some MaxInt64" by code_simp+
  have c: "Split_byte (CHR '','') ''0-9223372036854775807'' = [''0-9223372036854775807'']" by code_simp
  have "range_loop 0 MaxInt64 1 = None" by (rule range_loop_diverges) (simp add: int64_def MinInt64_def MaxInt64_def)
  then have "range_part ''0-9223372036854775807'' = None" by (simp add: range_part_def s a)
  then have "parseCronField ''0-9223372036854775807'' 0 59 = None" by (simp add: parseCronField_def c parse_part_def)
  then show ?thesis unfolding ParseCronExpression_def f by (simp add: field_then_def)
qed

section \<open>The next run\<close>

lemma next_loop_search:
  "case next_loop m i t of
     Some u \<Rightarrow> \<exists>k. i + int k < 525960 \<and> u = t + 60000 * int k \<and> m u \<and> (\<forall>j<k. \<not> m (t + 60000 * int j))
   | None \<Rightarrow> \<forall>j. i + int j < 525960 \<longrightarrow> \<not> m (t + 60000 * int j)"
proof (induction m i t rule: next_loop.induct)
  case (1 m i t)
  let ?r = "next_loop m (i + 1) (t + 60000)"
  consider (over) "\<not> i < 525960" | (hit) "i < 525960" "m t" | (miss) "i < 525960" "\<not> m t" by blast
  then show ?case
  proof cases
    case miss
    have r: "next_loop m i t = ?r" using miss by (subst next_loop.simps) simp
    have shift: "t + 60000 * int (Suc j) = (t + 60000) + 60000 * int j" for j by simp
    show ?thesis
    proof (cases ?r)
      case None
      have "\<not> m (t + 60000 * int j)" if "i + int j < 525960" for j
        using 1 [OF miss] None miss(2) that by (cases j) (auto simp: shift simp del: of_nat_Suc)
      then show ?thesis by (simp add: r None)
    next
      case (Some u)
      then obtain k where k: "i + 1 + int k < 525960" "u = (t + 60000) + 60000 * int k" "m u" "\<forall>j<k. \<not> m ((t + 60000) + 60000 * int j)"
        using 1 [OF miss] by auto
      have "\<not> m (t + 60000 * int j)" if "j < Suc k" for j
        using k(4) miss(2) that by (cases j) (auto simp: shift simp del: of_nat_Suc)
      then show ?thesis using k(1-3) unfolding r Some option.case by (intro exI [of _ "Suc k"]) auto
    qed
  qed (subst next_loop.simps, auto)+
qed

lemma first_minute_bounds: "after < first_minute after \<and> first_minute after \<le> after + 60000 \<and> 60000 dvd first_minute after"
proof -
  have "(after + 60000) div 60000 * 60000 + (after + 60000) mod 60000 = after + 60000" by (rule div_mult_mod_eq)
  moreover have "0 \<le> (after + 60000) mod 60000" "(after + 60000) mod 60000 < 60000" by simp_all
  ultimately show ?thesis unfolding first_minute_def by (intro conjI dvd_triv_right) linarith+
qed

text \<open>
  C29. The next run is the first matching whole minute after the given time, within a year and a
  quarter of a day; when there is none, it is a year after that time.  It always lies in the
  future.
\<close>

theorem ComputeNextCronRun_least:
  "after < ComputeNextCronRun off expr after \<and>
   ((\<exists>k<525960. ComputeNextCronRun off expr after = first_minute after + 60000 * int k \<and>
       cronMatches off expr (ComputeNextCronRun off expr after) \<and> (\<forall>j<k. \<not> cronMatches off expr (first_minute after + 60000 * int j))) \<or>
    (\<forall>j<525960. \<not> cronMatches off expr (first_minute after + 60000 * int j)) \<and>
       ComputeNextCronRun off expr after = after + 365 * 24 * 3600 * 1000)"
proof (cases "next_loop (cronMatches off expr) 0 (first_minute after)")
  case None
  then show ?thesis using next_loop_search [where m = "cronMatches off expr" and i = 0 and t = "first_minute after"] by (auto simp: ComputeNextCronRun_def)
next
  case (Some u)
  then obtain k where k: "int k < 525960" "u = first_minute after + 60000 * int k" "cronMatches off expr u"
    "\<forall>j<k. \<not> cronMatches off expr (first_minute after + 60000 * int j)"
    using next_loop_search [where m = "cronMatches off expr" and i = 0 and t = "first_minute after"] by auto
  have "after < u" using k(2) first_minute_bounds [of after] by linarith
  moreover have "ComputeNextCronRun off expr after = u" by (simp add: ComputeNextCronRun_def Some)
  moreover have "k < 525960" using k(1) by linarith
  ultimately show ?thesis using k(2-4) by blast
qed

definition demo_cron :: CronExpression where
  "demo_cron = \<lparr>ce_Minute = [0], ce_Hour = [0..23], ce_DayMonth = [1..31], ce_Month = [1..12], ce_DayWeek = [0..6]\<rparr>"

lemma demo_next: "ComputeNextCronRun (\<lambda>_. 0) demo_cron 3480500 = 3600000"
  by code_simp

theorem ComputeNextCronRun_least_witness: "3480500 < ComputeNextCronRun (\<lambda>_. 0) demo_cron 3480500 \<and> ComputeNextCronRun (\<lambda>_. 0) demo_cron 3480500 = 3600000"
  using ComputeNextCronRun_least [of 3480500 "\<lambda>_. 0" demo_cron] demo_next by simp

text \<open>
  A range is not checked against the limits of its field: minutes 60 to 119 are accepted, are
  described as every minute, match at no time, and yet give a next run a year later.
\<close>

definition impossible_cron :: CronExpression where
  "impossible_cron = \<lparr>ce_Minute = [60..119], ce_Hour = [0..23], ce_DayMonth = [1..31], ce_Month = [1..12], ce_DayWeek = [0..6]\<rparr>"

lemma impossible_minutes:
  "ParseCronExpression ''60-119 * * * *'' = Some (Inr impossible_cron)" "CronToHuman ''60-119 * * * *'' = Some ''every minute''"
  by code_simp+

lemma impossible_cron_fires:
  "\<not> cronMatches off impossible_cron t" "ComputeNextCronRun off impossible_cron after = after + 365 * 24 * 3600 * 1000"
proof -
  have "ct_Minute (local_time off t) < 60" for t by (simp add: local_time_def Let_def split: prod.splits)
  moreover have "\<not> fieldContains [60..119] x" if "x < 60" for x
    using that unfolding fieldContains_def list_ex_iff set_upto by auto
  ultimately have no: "\<not> cronMatches off impossible_cron t" for t
    by (simp add: cronMatches_def impossible_cron_def Let_def del: upto_rec_numeral)
  then show "\<not> cronMatches off impossible_cron t" .
  show "ComputeNextCronRun off impossible_cron after = after + 365 * 24 * 3600 * 1000"
    using next_loop_search [where m = "cronMatches off impossible_cron" and i = 0 and t = "first_minute after"] no
    by (auto simp: ComputeNextCronRun_def split: option.splits)
qed

end
