(* ===== verification/Cron_Tasks.thy ===== *)
theory Cron_Tasks
  imports Cron_Expr
begin

text \<open>
  Scheduled tasks and their scheduler (src/engine/cron/cron.go).  The task file is absent, malformed
  or holds tasks, as JSON decodes it (exact on valid UTF-8); the fields that are never persisted
  are lost when it is written.  Reading and replacing it may fail.  The clock, the random jitter
  and the fresh identity are arguments.  Milliseconds are 64-bit integers that wrap.
  A parse that never returns is \<open>None\<close>, as in \<open>Cron_Expr\<close>.
\<close>

section \<open>Data\<close>

record Task =
  tk_ID :: string
  tk_Cron :: string
  tk_Prompt :: string
  tk_CreatedAt :: int
  tk_LastFiredAt :: "int option"
  tk_Recurring :: bool
  tk_Permanent :: bool
  tk_Durable :: bool
  tk_AgentID :: string

record JitterConfig =
  jc_Min :: int
  jc_Max :: int
  jc_RecurringMaxAge :: int

definition DefaultJitterConfig :: JitterConfig where
  "DefaultJitterConfig = \<lparr>jc_Min = 0, jc_Max = 60000, jc_RecurringMaxAge = 7 * 24 * 60 * 60 * 1000\<rparr>"

definition NoJitter :: JitterConfig where
  "NoJitter = \<lparr>jc_Min = 0, jc_Max = 0, jc_RecurringMaxAge = 0\<rparr>"

datatype task_error = ReadError | WriteError | InvalidCron cron_error

record cron_env =
  cv_now :: int
  cv_off :: "int \<Rightarrow> int"
  cv_readErr :: bool
  cv_writeErr :: bool

datatype cron_content = Malformed | Tasks "Task list"

type_synonym cron_file = "cron_content option"

definition stored :: "Task \<Rightarrow> Task" where
  "stored t = t\<lparr>tk_Durable := False, tk_AgentID := []\<rparr>"

section \<open>The task file\<close>

fun valid_tasks :: "Task list \<Rightarrow> Task list option" where
  "valid_tasks [] = Some []"
| "valid_tasks (t # ts) =
     (case ParseCronExpression (tk_Cron t) of
        None \<Rightarrow> None
      | Some (Inl _) \<Rightarrow> valid_tasks ts
      | Some (Inr _) \<Rightarrow> map_option ((#) t) (valid_tasks ts))"

definition ReadTasks :: "cron_env \<Rightarrow> cron_file \<Rightarrow> (task_error + Task list) option" where
  "ReadTasks env file =
     (if cv_readErr env then Some (Inl ReadError)
      else case file of
        None \<Rightarrow> Some (Inr [])
      | Some Malformed \<Rightarrow> Some (Inr [])
      | Some (Tasks tasks) \<Rightarrow> map_option Inr (valid_tasks tasks))"

definition WriteTasks :: "cron_env \<Rightarrow> Task list \<Rightarrow> cron_file \<Rightarrow> cron_file \<times> task_error option" where
  "WriteTasks env tasks file = (if cv_writeErr env then (file, Some WriteError) else (Some (Tasks (map stored tasks)), None))"

definition CreateTask :: "cron_env \<Rightarrow> string \<Rightarrow> string \<Rightarrow> string \<Rightarrow> bool \<Rightarrow> cron_file \<Rightarrow> (cron_file \<times> (task_error + Task)) option" where
  "CreateTask env uuid cronExpr prompt recurring file =
     (case ParseCronExpression cronExpr of
        None \<Rightarrow> None
      | Some (Inl err) \<Rightarrow> Some (file, Inl (InvalidCron err))
      | Some (Inr _) \<Rightarrow>
         (let task = \<lparr>tk_ID = uuid, tk_Cron = cronExpr, tk_Prompt = prompt, tk_CreatedAt = cv_now env, tk_LastFiredAt = None,
                tk_Recurring = recurring, tk_Permanent = False, tk_Durable = False, tk_AgentID = []\<rparr> in
          case ReadTasks env file of
            None \<Rightarrow> None
          | Some r \<Rightarrow>
             (case WriteTasks env ((case r of Inl _ \<Rightarrow> [] | Inr tasks \<Rightarrow> tasks) @ [task]) file of
                (file', Some err) \<Rightarrow> Some (file', Inl err)
              | (file', None) \<Rightarrow> Some (file', Inr task))))"

definition rewrite_tasks :: "cron_env \<Rightarrow> (Task list \<Rightarrow> Task list) \<Rightarrow> cron_file \<Rightarrow> (cron_file \<times> task_error option) option" where
  "rewrite_tasks env f file =
     (case ReadTasks env file of
        None \<Rightarrow> None
      | Some (Inl err) \<Rightarrow> Some (file, Some err)
      | Some (Inr tasks) \<Rightarrow> Some (WriteTasks env (f tasks) file))"

definition RemoveTasks :: "cron_env \<Rightarrow> string list \<Rightarrow> cron_file \<Rightarrow> (cron_file \<times> task_error option) option" where
  "RemoveTasks env ids = rewrite_tasks env (filter (\<lambda>t. tk_ID t \<notin> set ids))"

fun mark_fired :: "int \<Rightarrow> string \<Rightarrow> Task list \<Rightarrow> Task list" where
  "mark_fired now taskID [] = []"
| "mark_fired now taskID (t # ts) =
     (if tk_ID t = taskID
      then (if tk_Recurring t then t\<lparr>tk_LastFiredAt := Some now\<rparr> # mark_fired now taskID ts else mark_fired now taskID ts)
      else t # mark_fired now taskID ts)"

definition MarkFired :: "cron_env \<Rightarrow> string \<Rightarrow> cron_file \<Rightarrow> (cron_file \<times> task_error option) option" where
  "MarkFired env taskID = rewrite_tasks env (mark_fired (cv_now env) taskID)"

section \<open>Due times\<close>

definition IsRecurringTaskAged :: "Task \<Rightarrow> int \<Rightarrow> int \<Rightarrow> bool" where
  "IsRecurringTaskAged t nowMs maxAgeMs =
     (if maxAgeMs = 0 then False else tk_Recurring t \<and> \<not> tk_Permanent t \<and> wrap64 (nowMs - tk_CreatedAt t) \<ge> maxAgeMs)"

definition anchor :: "Task \<Rightarrow> int" where
  "anchor t = (case tk_LastFiredAt t of None \<Rightarrow> tk_CreatedAt t | Some fired \<Rightarrow> fired)"

text \<open>\<open>rand.Int63n\<close> panics on a bound that is not positive; \<open>random\<close> is what it returns otherwise.\<close>

datatype fire_at = FireAt int | Panics

definition NextFireAt :: "cron_env \<Rightarrow> int \<Rightarrow> Task \<Rightarrow> JitterConfig \<Rightarrow> fire_at option" where
  "NextFireAt env random t config =
     (case ParseCronExpression (tk_Cron t) of
        None \<Rightarrow> None
      | Some (Inl _) \<Rightarrow> Some (FireAt 0)
      | Some (Inr expr) \<Rightarrow>
         (let nextMs = wrap64 (ComputeNextCronRun (cv_off env) expr (anchor t)) in
          if jc_Max config > jc_Min config then
            (if wrap64 (jc_Max config - jc_Min config) \<le> 0 then Some Panics
             else Some (FireAt (wrap64 (nextMs + wrap64 (jc_Min config + random)))))
          else Some (FireAt (wrap64 (nextMs + jc_Min config)))))"

fun FindMissedTasks :: "cron_env \<Rightarrow> Task list \<Rightarrow> int \<Rightarrow> Task list option" where
  "FindMissedTasks env [] nowMs = Some []"
| "FindMissedTasks env (t # ts) nowMs =
     (case ParseCronExpression (tk_Cron t) of
        None \<Rightarrow> None
      | Some (Inl _) \<Rightarrow> FindMissedTasks env ts nowMs
      | Some (Inr expr) \<Rightarrow>
         map_option (if wrap64 (ComputeNextCronRun (cv_off env) expr (anchor t)) \<le> nowMs then (#) t else (\<lambda>xs. xs)) (FindMissedTasks env ts nowMs))"

section \<open>The scheduler\<close>

text \<open>
  \<open>sd_loops\<close> counts the goroutines that run the loop; the loop ends when the stop channel is
  closed.  \<open>sd_fired\<close> is what was handed to the callback.  Closing a closed channel panics.
\<close>

record Scheduler =
  sd_file :: cron_file
  sd_sessionTasks :: "Task list"
  sd_running :: bool
  sd_stopped :: bool
  sd_loops :: nat
  sd_fired :: "Task list"
  sd_panic :: bool

definition NewScheduler :: "cron_file \<Rightarrow> Scheduler" where
  "NewScheduler file = \<lparr>sd_file = file, sd_sessionTasks = [], sd_running = False, sd_stopped = False, sd_loops = 0, sd_fired = [], sd_panic = False\<rparr>"

definition Start :: "Scheduler \<Rightarrow> Scheduler" where
  "Start s = (if sd_running s then s else s\<lparr>sd_running := True, sd_loops := sd_loops s + 1\<rparr>)"

definition Stop :: "Scheduler \<Rightarrow> Scheduler" where
  "Stop s = (if \<not> sd_running s then s else s\<lparr>sd_running := False, sd_panic := sd_panic s \<or> sd_stopped s, sd_stopped := True\<rparr>)"

text \<open>A loop that sees the closed channel returns.\<close>

definition loop_exits :: "Scheduler \<Rightarrow> Scheduler" where
  "loop_exits s = (if sd_stopped s \<and> sd_loops s > 0 then s\<lparr>sd_loops := sd_loops s - 1\<rparr> else s)"

definition AddSessionTask :: "Task \<Rightarrow> Scheduler \<Rightarrow> Scheduler" where
  "AddSessionTask t s = s\<lparr>sd_sessionTasks := sd_sessionTasks s @ [t\<lparr>tk_Durable := False\<rparr>]\<rparr>"

definition RemoveSessionTasks :: "string list \<Rightarrow> Scheduler \<Rightarrow> Scheduler" where
  "RemoveSessionTasks ids s = s\<lparr>sd_sessionTasks := filter (\<lambda>t. tk_ID t \<notin> set ids) (sd_sessionTasks s)\<rparr>"

definition shouldFire :: "cron_env \<Rightarrow> Task \<Rightarrow> int \<Rightarrow> Scheduler \<Rightarrow> (Scheduler \<times> bool) option" where
  "shouldFire env t nowMs s =
     (if IsRecurringTaskAged t nowMs (jc_RecurringMaxAge DefaultJitterConfig)
      then map_option (\<lambda>(file, _). (s\<lparr>sd_file := file\<rparr>, False)) (RemoveTasks env [tk_ID t] (sd_file s))
      else map_option (\<lambda>next. (s, case next of FireAt at \<Rightarrow> at \<le> nowMs | Panics \<Rightarrow> False)) (NextFireAt env 0 t NoJitter))"

definition fire :: "cron_env \<Rightarrow> Task \<Rightarrow> Scheduler \<Rightarrow> Scheduler option" where
  "fire env t s =
     (let s1 = s\<lparr>sd_fired := sd_fired s @ [t]\<rparr> in
      if tk_Durable t \<or> tk_ID t \<noteq> []
      then map_option (\<lambda>(file, _). s1\<lparr>sd_file := file\<rparr>) (MarkFired env (tk_ID t) (sd_file s1))
      else Some s1)"

fun check_tasks :: "cron_env \<Rightarrow> int \<Rightarrow> Task list \<Rightarrow> Scheduler \<Rightarrow> Scheduler option" where
  "check_tasks env nowMs [] s = Some s"
| "check_tasks env nowMs (t # ts) s =
     (case shouldFire env t nowMs s of
        None \<Rightarrow> None
      | Some (s1, False) \<Rightarrow> check_tasks env nowMs ts s1
      | Some (s1, True) \<Rightarrow> (case fire env t s1 of None \<Rightarrow> None | Some s2 \<Rightarrow> check_tasks env nowMs ts s2))"

text \<open>The clock is read once for the tests and again when a task is marked; \<open>cv_now\<close> is both.\<close>

definition check :: "cron_env \<Rightarrow> Scheduler \<Rightarrow> Scheduler option" where
  "check env s =
     (case ReadTasks env (sd_file s) of
        None \<Rightarrow> None
      | Some r \<Rightarrow>
         (case check_tasks env (cv_now env) (case r of Inl _ \<Rightarrow> [] | Inr tasks \<Rightarrow> tasks) s of
            None \<Rightarrow> None
          | Some s1 \<Rightarrow> check_tasks env (cv_now env) (sd_sessionTasks s1) s1))"

section \<open>A tick\<close>

definition readable :: "Task \<Rightarrow> bool" where
  "readable t \<longleftrightarrow> stored t = t \<and> tk_ID t \<noteq> [] \<and> (\<exists>expr. ParseCronExpression (tk_Cron t) = Some (Inr expr))"

definition file_ok :: "cron_env \<Rightarrow> bool" where
  "file_ok env \<longleftrightarrow> \<not> cv_readErr env \<and> \<not> cv_writeErr env"

definition aged :: "cron_env \<Rightarrow> Task \<Rightarrow> bool" where
  "aged env t \<longleftrightarrow> IsRecurringTaskAged t (cv_now env) (jc_RecurringMaxAge DefaultJitterConfig)"

definition due :: "cron_env \<Rightarrow> Task \<Rightarrow> bool" where
  "due env t \<longleftrightarrow> (case NextFireAt env 0 t NoJitter of Some (FireAt at) \<Rightarrow> at \<le> cv_now env | _ \<Rightarrow> False)"

definition fires :: "cron_env \<Rightarrow> Task \<Rightarrow> bool" where
  "fires env t \<longleftrightarrow> \<not> aged env t \<and> due env t"

definition after_tick :: "cron_env \<Rightarrow> Task \<Rightarrow> Task list" where
  "after_tick env t =
     (if aged env t then [] else if \<not> due env t then [t]
      else if tk_Recurring t then [t\<lparr>tk_LastFiredAt := Some (cv_now env)\<rparr>] else [])"

lemma readable_fired: "readable t \<Longrightarrow> readable (t\<lparr>tk_LastFiredAt := x\<rparr>)"
  by (cases t) (simp add: readable_def stored_def)

lemma valid_tasks_id: "list_all readable ts \<Longrightarrow> valid_tasks ts = Some ts"
  by (induction ts) (auto simp: readable_def)

lemma rewrite_contents:
  assumes "file_ok env" "ReadTasks env file = Some (Inr ts)" "list_all readable (f ts)"
  obtains file' where "rewrite_tasks env f file = Some (file', None)" "ReadTasks env file' = Some (Inr (f ts))"
proof
  have "map stored (f ts) = f ts" using assms(3) by (auto simp: list_all_iff readable_def intro: map_idI)
  then show "ReadTasks env (Some (Tasks (f ts))) = Some (Inr (f ts))" "rewrite_tasks env f file = Some (Some (Tasks (f ts)), None)"
    using assms by (simp_all add: ReadTasks_def [of env "Some (Tasks (f ts))"] file_ok_def valid_tasks_id rewrite_tasks_def WriteTasks_def)
qed

lemma NextFireAt_readable:
  "readable t \<Longrightarrow> \<exists>expr. ParseCronExpression (tk_Cron t) = Some (Inr expr) \<and>
     NextFireAt env 0 t NoJitter = Some (FireAt (wrap64 (wrap64 (ComputeNextCronRun (cv_off env) expr (anchor t)))))"
  by (auto simp: readable_def NextFireAt_def NoJitter_def Let_def)

lemma shouldFire_cases:
  assumes "readable t"
  shows "\<not> aged env t \<Longrightarrow> shouldFire env t (cv_now env) s = Some (s, due env t)"
    and "aged env t \<Longrightarrow> shouldFire env t (cv_now env) s = map_option (\<lambda>(file, _). (s\<lparr>sd_file := file\<rparr>, False)) (RemoveTasks env [tk_ID t] (sd_file s))"
  using NextFireAt_readable [OF assms, of env] by (auto simp: shouldFire_def aged_def due_def)

lemma mark_fired_other: "taskID \<notin> tk_ID ` set ts \<Longrightarrow> mark_fired now taskID (ts @ us) = ts @ mark_fired now taskID us"
  by (induction ts) auto

lemma mark_fired_id: "taskID \<notin> tk_ID ` set ts \<Longrightarrow> mark_fired now taskID ts = ts"
  by (induction ts) auto

lemma after_tick_ids: "u \<in> set (after_tick env t) \<Longrightarrow> tk_ID u = tk_ID t" "readable t \<Longrightarrow> list_all readable (after_tick env t)"
  by (auto simp: after_tick_def readable_fired split: if_splits)

text \<open>Processing one task of the file changes its entry and no other.\<close>

lemma check_one:
  assumes "file_ok env" "ReadTasks env (sd_file s) = Some (Inr (xs @ t # ts))" "list_all readable (xs @ t # ts)"
    and "tk_ID t \<notin> tk_ID ` set (xs @ ts)"
  obtains file' where "\<And>us. check_tasks env (cv_now env) (t # us) s =
      check_tasks env (cv_now env) us (s\<lparr>sd_file := file', sd_fired := sd_fired s @ (if fires env t then [t] else [])\<rparr>)"
    "ReadTasks env file' = Some (Inr (xs @ after_tick env t @ ts))"
proof -
  have r: "readable t" "list_all readable xs" "list_all readable ts" using assms(3) by auto
  consider (aged) "aged env t" | (quiet) "\<not> aged env t" "\<not> due env t" | (fires) "\<not> aged env t" "due env t" by blast
  then show thesis
  proof cases
    case aged
    let ?f = "filter (\<lambda>u. tk_ID u \<notin> set [tk_ID t])"
    have "?f us = us" if "set us \<subseteq> set (xs @ ts)" for us using assms(4) that by (intro filter_True) (simp add: image_iff, metis UnE subsetD)
    then have f: "?f (xs @ t # ts) = xs @ ts" by simp
    obtain file' where *: "rewrite_tasks env ?f (sd_file s) = Some (file', None)" "ReadTasks env file' = Some (Inr (?f (xs @ t # ts)))"
    proof (rule rewrite_contents [OF assms(1,2), of ?f])
      show "list_all readable (?f (xs @ t # ts))" unfolding f using r by simp
    qed
    have "ReadTasks env file' = Some (Inr (xs @ after_tick env t @ ts))" using *(2) unfolding f using aged by (simp add: after_tick_def)
    moreover have "shouldFire env t (cv_now env) s = Some (s\<lparr>sd_file := file'\<rparr>, False)"
      using *(1) shouldFire_cases(2) [OF r(1) aged, of s] by (simp add: RemoveTasks_def)
    ultimately show ?thesis using that [of file'] aged by (simp add: fires_def)
  next
    case quiet
    then show ?thesis using that [of "sd_file s"] assms(2) shouldFire_cases(1) [OF r(1) quiet(1), of s]
      by (simp add: fires_def after_tick_def)
  next
    case fires
    let ?f = "mark_fired (cv_now env) (tk_ID t)"
    have f: "?f (xs @ t # ts) = xs @ after_tick env t @ ts"
      using assms(4) fires by (simp add: image_Un mark_fired_other mark_fired_id after_tick_def)
    moreover have "list_all readable (xs @ after_tick env t @ ts)" using r after_tick_ids(2) by simp
    ultimately obtain file' where *: "rewrite_tasks env ?f (sd_file s) = Some (file', None)" "ReadTasks env file' = Some (Inr (?f (xs @ t # ts)))"
      using rewrite_contents [OF assms(1,2), of ?f] by auto
    have "tk_ID t \<noteq> []" using r(1) by (simp add: readable_def)
    then have "fire env t s = Some (s\<lparr>sd_file := file', sd_fired := sd_fired s @ [t]\<rparr>)"
      using * by (simp add: fire_def MarkFired_def)
    then show ?thesis using that [of file'] fires *(2) shouldFire_cases(1) [OF r(1) fires(1), of s]
      by (simp add: f fires_def)
  qed
qed

lemma check_tasks_effect:
  assumes "file_ok env" "distinct (map tk_ID ts)"
  shows "ReadTasks env (sd_file s) = Some (Inr (xs @ ts)) \<Longrightarrow> list_all readable (xs @ ts) \<Longrightarrow> tk_ID ` set xs \<inter> tk_ID ` set ts = {} \<Longrightarrow>
    \<exists>file'. check_tasks env (cv_now env) ts s = Some (s\<lparr>sd_file := file', sd_fired := sd_fired s @ filter (fires env) ts\<rparr>) \<and>
      ReadTasks env file' = Some (Inr (xs @ concat (map (after_tick env) ts)))"
  using assms(2)
proof (induction ts arbitrary: xs s)
  case Nil
  then show ?case by (auto intro!: exI [of _ "sd_file s"])
next
  case (Cons t ts)
  have "tk_ID t \<notin> tk_ID ` set (xs @ ts)" using Cons.prems by auto
  then obtain file' where 1: "\<And>us. check_tasks env (cv_now env) (t # us) s =
      check_tasks env (cv_now env) us (s\<lparr>sd_file := file', sd_fired := sd_fired s @ (if fires env t then [t] else [])\<rparr>)"
    "ReadTasks env file' = Some (Inr (xs @ after_tick env t @ ts))"
    using check_one [OF assms(1) Cons.prems(1,2)] by blast
  let ?s = "s\<lparr>sd_file := file', sd_fired := sd_fired s @ (if fires env t then [t] else [])\<rparr>"
  have "list_all readable ((xs @ after_tick env t) @ ts)" using Cons.prems(2) after_tick_ids(2) by simp
  moreover have "tk_ID ` set (xs @ after_tick env t) \<inter> tk_ID ` set ts = {}" using Cons.prems(3,4) after_tick_ids(1) by fastforce
  ultimately obtain f2 where "check_tasks env (cv_now env) ts ?s = Some (?s\<lparr>sd_file := f2, sd_fired := sd_fired ?s @ filter (fires env) ts\<rparr>)"
    "ReadTasks env f2 = Some (Inr ((xs @ after_tick env t) @ concat (map (after_tick env) ts)))"
    using Cons.IH [of ?s "xs @ after_tick env t"] 1(2) Cons.prems(4) by auto
  then show ?case unfolding 1(1) by (auto intro!: exI [of _ f2])
qed

lemma check_quiet:
  "list_all readable ts \<Longrightarrow> list_all (\<lambda>t. \<not> aged env t \<and> \<not> due env t) ts \<Longrightarrow> check_tasks env (cv_now env) ts s = Some s"
  by (induction ts) (auto simp: shouldFire_cases(1))

lemma next_run_bounds: "after < ComputeNextCronRun off expr after \<and> ComputeNextCronRun off expr after \<le> after + 32000000000"
  using next_loop_search [where m = "cronMatches off expr" and i = 0 and t = "first_minute after"] first_minute_bounds [of after]
  by (auto simp: ComputeNextCronRun_def split: option.splits)

lemma after_tick_quiet:
  assumes "readable t" "0 \<le> cv_now env" "cv_now env \<le> 2 ^ 62" "u \<in> set (after_tick env t)"
  shows "readable u \<and> \<not> aged env u \<and> \<not> due env u"
proof (cases "aged env t \<or> \<not> due env t")
  case True
  then show ?thesis using assms(1,4) by (auto simp: after_tick_def split: if_splits)
next
  case False
  then have u: "u = t\<lparr>tk_LastFiredAt := Some (cv_now env)\<rparr>" using assms(4) by (auto simp: after_tick_def split: if_splits)
  have r: "readable u" using assms(1) by (simp add: u readable_fired)
  obtain expr where n: "NextFireAt env 0 u NoJitter = Some (FireAt (wrap64 (wrap64 (ComputeNextCronRun (cv_off env) expr (cv_now env)))))"
    using NextFireAt_readable [OF r, of env] by (auto simp: u anchor_def)
  have b: "cv_now env < ComputeNextCronRun (cv_off env) expr (cv_now env)" "int64 (ComputeNextCronRun (cv_off env) expr (cv_now env))"
    using next_run_bounds [of "cv_now env" "cv_off env" expr] assms(2,3) by (auto simp: int64_def MinInt64_def MaxInt64_def)
  then have "\<not> due env u" by (simp add: due_def n wrap64_id)
  moreover have "\<not> aged env u" using False by (auto simp: aged_def IsRecurringTaskAged_def u split: if_splits)
  ultimately show ?thesis using r by blast
qed


definition demo_task :: Task where
  "demo_task = \<lparr>tk_ID = ''a'', tk_Cron = ''* * * * *'', tk_Prompt = ''p'', tk_CreatedAt = 0, tk_LastFiredAt = None, tk_Recurring = True,
     tk_Permanent = False, tk_Durable = False, tk_AgentID = []\<rparr>"

text \<open>Session tasks are never marked: one that is due fires again on every tick.\<close>

definition demo_cron_env :: cron_env where
  "demo_cron_env = \<lparr>cv_now = 60000, cv_off = (\<lambda>_. 0), cv_readErr = False, cv_writeErr = False\<rparr>"

lemma session_task_refires:
  "map_option (\<lambda>s. length (sd_fired s)) (Option.bind (check demo_cron_env (AddSessionTask (demo_task\<lparr>tk_Recurring := False\<rparr>) (NewScheduler None)))
     (check demo_cron_env)) = Some 2"
  by code_simp

lemma every_minute: "ParseCronExpression ''* * * * *'' = Some (Inr \<lparr>ce_Minute = [0..59], ce_Hour = [0..23], ce_DayMonth = [1..31], ce_Month = [1..12], ce_DayWeek = [0..6]\<rparr>)"
  by code_simp


text \<open>After a stop the closed channel ends every later loop at once, and a second stop panics.\<close>

lemma restart_is_dead:
  "let s = loop_exits (Start (loop_exits (Stop (Start (NewScheduler file))))) in sd_running s \<and> sd_loops s = 0 \<and> sd_panic (Stop s)"
  by (simp add: Let_def NewScheduler_def Start_def Stop_def loop_exits_def)

text \<open>Creating a task ignores a failed read and replaces the file by the new task alone.\<close>

lemma create_drops_unreadable_tasks:
  assumes "cv_readErr env" "\<not> cv_writeErr env"
  shows "\<exists>t. CreateTask env uuid ''* * * * *'' prompt recurring file = Some (Some (Tasks [t]), Inr t)"
  using assms by (simp add: CreateTask_def every_minute ReadTasks_def WriteTasks_def stored_def Let_def)

end
