(* ===== verification/Work_Board.thy ===== *)
theory Work_Board
  imports Go_Text Tool_Input "HOL-Library.Word" "HOL-Library.Product_Lexorder"
begin

text \<open>
  The data of the work board and its validation (src/engine/internal/workboard/types.go), with the
  helpers of shadow.go on items.  A board holds work items that block one another; a board is
  accepted when its items are well formed, its references resolve and the dependencies have no
  cycle.  The search for a cycle is the depth-first search of the code, with the marks 0, 1 and 2
  of its map; it is shown to find a cycle exactly when there is one.

  Status values are strings, since the code converts freely between the status types of the board,
  of the task tools and of the saved records.  Slices are lists: the code compares items after
  cloning them, which makes a nil slice and an empty one the same.  \<open>json.Valid\<close> is an argument.
  The fields of an item are measured in the order of a Go map, so the error does not name the
  field that is too long.
\<close>

section \<open>Data\<close>

definition MaxItems :: nat where "MaxItems = 1024"
definition MaxDependencyRefs :: nat where "MaxDependencyRefs = 4096"
definition MaxFieldBytes :: nat where "MaxFieldBytes = 65536"
definition MaxDiagnostics :: nat where "MaxDiagnostics = 128"

type_synonym Status = string

definition StatusPending :: Status where "StatusPending = ''pending''"
definition StatusInProgress :: Status where "StatusInProgress = ''in_progress''"
definition StatusCompleted :: Status where "StatusCompleted = ''completed''"
definition StatusFailed :: Status where "StatusFailed = ''failed''"
definition StatusCancelled :: Status where "StatusCancelled = ''cancelled''"

lemmas status_defs = StatusPending_def StatusInProgress_def StatusCompleted_def StatusFailed_def StatusCancelled_def

record SourcePartition =
  sp_Kind :: string
  sp_SessionID :: string
  sp_AgentID :: string
  sp_LegacyID :: string

record WorkItem =
  wi_ID :: string
  wi_Revision :: "64 word"
  wi_Source :: SourcePartition
  wi_Order :: int
  wi_Title :: string
  wi_Description :: string
  wi_ActiveForm :: string
  wi_Status :: Status
  wi_Owner :: string
  wi_Blocks :: "string list"
  wi_BlockedBy :: "string list"
  wi_Metadata :: string
  wi_ResultSummary :: string
  wi_TerminalReason :: string

record WorkBoard =
  wb_Revision :: "64 word"
  wb_NextTodoID :: "64 word"
  wb_Items :: "WorkItem list"

record Diagnostic =
  dg_Sequence :: "64 word"
  dg_Kind :: string
  dg_Stage :: string
  dg_ItemID :: string
  dg_Message :: string

datatype board_error =
    TooManyItems
  | EmptyItemID nat
  | DuplicateItemID string
  | ZeroItemRevision string
  | InvalidSourceKind string string
  | TaskWithoutLegacyID string
  | TodoWithoutSession string
  | InvalidItemStatus string Status
  | ItemFieldTooLong string
  | MetadataTooLong string
  | MetadataNotJSON string
  | TooManyDependencies
  | DependencyTooLong string
  | SelfDependency string
  | MissingDependency string string
  | DependencyCycle string

definition validStatus :: "Status \<Rightarrow> bool" where
  "validStatus status \<longleftrightarrow>
     status \<in> {StatusPending, StatusInProgress, StatusCompleted, StatusFailed, StatusCancelled}"

definition isTerminalStatus :: "Status \<Rightarrow> bool" where
  "isTerminalStatus status \<longleftrightarrow> status \<in> {StatusCompleted, StatusFailed, StatusCancelled}"

definition sameWorkItemContent :: "WorkItem \<Rightarrow> WorkItem \<Rightarrow> bool" where
  "sameWorkItemContent left right \<longleftrightarrow> left\<lparr>wi_Revision := 0\<rparr> = right\<lparr>wi_Revision := 0\<rparr>"

definition normalizeItemOrder :: "WorkItem list \<Rightarrow> WorkItem list" where
  "normalizeItemOrder =
     sort_key (\<lambda>i. (sp_Kind (wi_Source i), sp_SessionID (wi_Source i), sp_AgentID (wi_Source i), wi_Order i, wi_ID i))"

section \<open>The search for a dependency cycle\<close>

definition edge_targets :: "WorkItem list \<Rightarrow> string \<Rightarrow> string list" where
  "edge_targets items x =
     concat (map wi_Blocks (filter (\<lambda>i. wi_ID i = x) items))
     @ map wi_ID (filter (\<lambda>i. x \<in> set (wi_BlockedBy i)) items)"

definition dependency_edges :: "WorkItem list \<Rightarrow> (string \<times> string list) list" where
  "dependency_edges items = map (\<lambda>i. (wi_ID i, sort (remdups (edge_targets items (wi_ID i))))) items"

definition edges_of :: "(string \<times> string list) list \<Rightarrow> string \<Rightarrow> string list" where
  "edges_of edges x = (case map_of edges x of None \<Rightarrow> [] | Some ys \<Rightarrow> ys)"

text \<open>
  \<open>visit_all\<close> is the loop that calls \<open>visit\<close> on each identity, which the code has twice: over the
  successors of a node and over the items.  An empty string means that no cycle was found.
\<close>

function visit_all ::
  "(string \<times> string list) list \<Rightarrow> string list \<Rightarrow> (string \<Rightarrow> nat) \<Rightarrow> (string \<Rightarrow> nat) \<times> string"
where
  "visit_all edges [] state = (state, [])"
| "visit_all edges (x # xs) state =
     (if state x = 1 then (if x \<noteq> [] then (state, x) else visit_all edges xs state)
      else if state x = 2 then visit_all edges xs state
      else case visit_all edges (edges_of edges x) (state(x := 1)) of
        (state', cycle) \<Rightarrow> (if cycle \<noteq> [] then (state', cycle) else visit_all edges xs (state'(x := 2))))"
  by pat_completeness auto

lemma visit_all_keeps_marks:
  "visit_all_dom (edges, xs, state) \<Longrightarrow> visit_all edges xs state = (state', c) \<Longrightarrow> state x \<in> {1, 2} \<Longrightarrow> state' x \<in> {1, 2}"
proof (induction arbitrary: state' c rule: visit_all.pinduct)
  case (2 edges y ys state)
  show ?case
  proof (cases "state y = 1 \<or> state y = 2")
    case True
    with 2 show ?thesis by (fastforce simp: visit_all.psimps split: if_splits)
  next
    case False
    obtain mid cycle where v: "visit_all edges (edges_of edges y) (state(y := 1)) = (mid, cycle)" by fastforce
    have mid: "mid x \<in> {1, 2}"
      by (rule "2.IH"(3) [OF _ _ v]) (use False "2.prems"(2) in auto)
    show ?thesis
    proof (cases "cycle = []")
      case True
      then have "visit_all edges ys (mid(y := 2)) = (state', c)" using "2.hyps" "2.prems"(1) False v by (simp add: visit_all.psimps)
      moreover have "(mid(y := 2)) x \<in> {1, 2}" using mid by simp
      ultimately show ?thesis using "2.IH"(4) [OF _ _ v [symmetric]] False True by blast
    next
      case False
      then show ?thesis using "2.hyps" "2.prems"(1) \<open>\<not> (state y = 1 \<or> state y = 2)\<close> v mid by (simp add: visit_all.psimps)
    qed
  qed
qed (auto simp: visit_all.psimps)

definition open_nodes :: "(string \<times> string list) list \<Rightarrow> (string \<Rightarrow> nat) \<Rightarrow> string set" where
  "open_nodes edges state = {x \<in> fst ` set edges. state x \<notin> {1, 2}}"

lemma finite_open_nodes [simp]: "finite (open_nodes edges state)"
  by (simp add: open_nodes_def)

lemma edges_of_unknown: "x \<notin> fst ` set edges \<Longrightarrow> edges_of edges x = []"
  by (metis edges_of_def map_of_eq_None_iff option.simps(4))

lemma open_nodes_mark: "n \<in> {1, 2} \<Longrightarrow> open_nodes edges (state(x := n)) = open_nodes edges state - {x}"
  by (auto simp: open_nodes_def)

lemma open_nodes_mono:
  assumes "\<And>x. state x \<in> {1, 2} \<Longrightarrow> state' x \<in> {1, 2}"
  shows "card (open_nodes edges state') \<le> card (open_nodes edges state)"
  using assms by (intro card_mono) (auto simp: open_nodes_def)

termination visit_all
proof (relation "inv_image (less_than <*lex*> less_than) (\<lambda>(edges, xs, state). (card (open_nodes edges state), length xs))")
  show "wf (inv_image (less_than <*lex*> less_than) (\<lambda>(edges, xs, state). (card (open_nodes edges state), length xs)))" by auto
next
  fix edges and x :: string and xs and state :: "string \<Rightarrow> nat"
  assume s: "state x \<noteq> 1" "state x \<noteq> 2"
  show "((edges, edges_of edges x, state(x := 1)), (edges, x # xs, state)) \<in>
    inv_image (less_than <*lex*> less_than) (\<lambda>(edges, xs, state). (card (open_nodes edges state), length xs))"
  proof (cases "x \<in> fst ` set edges")
    case True
    then have "x \<in> open_nodes edges state" using s by (simp add: open_nodes_def)
    then have "card (open_nodes edges state - {x}) < card (open_nodes edges state)" by (intro card_Diff1_less) auto
    then show ?thesis using open_nodes_mark [of 1 edges state x] by simp
  next
    case False
    then have "open_nodes edges (state(x := 1)) = open_nodes edges state" by (auto simp: open_nodes_mark open_nodes_def)
    then show ?thesis using False by (simp add: edges_of_unknown)
  qed
next
  fix edges and x :: string and xs and state state' :: "string \<Rightarrow> nat" and cycle
  assume "(state', cycle) = visit_all edges (edges_of edges x) (state(x := 1))" "visit_all_dom (edges, edges_of edges x, state(x := 1))"
  then have "\<And>y. state y \<in> {1, 2} \<Longrightarrow> (state'(x := 2)) y \<in> {1, 2}"
    using visit_all_keeps_marks [of edges "edges_of edges x" "state(x := 1)" state' cycle] by auto
  then have "card (open_nodes edges (state'(x := 2))) \<le> card (open_nodes edges state)" by (rule open_nodes_mono)
  then show "((edges, xs, state'(x := 2)), (edges, x # xs, state)) \<in>
    inv_image (less_than <*lex*> less_than) (\<lambda>(edges, xs, state). (card (open_nodes edges state), length xs))" by auto
qed auto

definition firstDependencyCycle :: "WorkItem list \<Rightarrow> string" where
  "firstDependencyCycle items = snd (visit_all (dependency_edges items) (map wi_ID items) (\<lambda>_. 0))"

section \<open>Correctness of the search\<close>

definition edge_rel :: "(string \<times> string list) list \<Rightarrow> (string \<times> string) set" where
  "edge_rel edges = {(x, y). y \<in> set (edges_of edges x)}"

definition marked :: "nat \<Rightarrow> (string \<Rightarrow> nat) \<Rightarrow> string set" where
  "marked n state = {x. state x = n}"

lemma marked_recolour:
  assumes "marked 1 mid = marked 1 (state(x := 1))" "state x \<noteq> 1"
  shows "marked 1 (mid(x := 2)) = marked 1 state"
proof -
  have "marked 1 (mid(x := 2)) = marked 1 mid - {x}" by (auto simp: marked_def)
  moreover have "marked 1 (state(x := 1)) - {x} = marked 1 state" using assms(2) by (auto simp: marked_def)
  ultimately show ?thesis using assms(1) by simp
qed

text \<open>
  A search that finds nothing leaves the grey nodes as they were; one that finds a node has found
  one on a cycle, because every grey node leads to every node still to be visited.
\<close>

lemma visit_all_grey:
  "visit_all edges xs state = (state', c) \<Longrightarrow> (\<And>g x. state g = 1 \<Longrightarrow> x \<in> set xs \<Longrightarrow> (g, x) \<in> (edge_rel edges)\<^sup>+) \<Longrightarrow>
   (c = [] \<longrightarrow> marked 1 state' = marked 1 state) \<and> (c \<noteq> [] \<longrightarrow> (c, c) \<in> (edge_rel edges)\<^sup>+)"
proof (induction edges xs state arbitrary: state' c rule: visit_all.induct)
  case (2 edges x xs state)
  show ?case
  proof (cases "state x = 1 \<or> state x = 2")
    case True
    then show ?thesis using 2 by (auto split: if_splits)
  next
    case False
    obtain mid cycle where v: "visit_all edges (edges_of edges x) (state(x := 1)) = (mid, cycle)" by fastforce
    have grey: "(g, y) \<in> (edge_rel edges)\<^sup>+" if "(state(x := 1)) g = 1" "y \<in> set (edges_of edges x)" for g y
    proof -
      have xy: "(x, y) \<in> edge_rel edges" using that by (simp add: edge_rel_def)
      show ?thesis
      proof (cases "g = x")
        case False
        then have "(g, x) \<in> (edge_rel edges)\<^sup>+" using "2.prems"(2) [of g x] that by simp
        then show ?thesis using xy by (rule trancl_into_trancl)
      qed (use xy in auto)
    qed
    have inner: "(cycle = [] \<longrightarrow> marked 1 mid = marked 1 (state(x := 1))) \<and> (cycle \<noteq> [] \<longrightarrow> (cycle, cycle) \<in> (edge_rel edges)\<^sup>+)"
      by (rule "2.IH"(3) [OF _ _ v grey]) (use False in simp_all)
    show ?thesis
    proof (cases "cycle = []")
      case True
      then have m: "marked 1 (mid(x := 2)) = marked 1 state" using inner False marked_recolour by blast
      have rest: "visit_all edges xs (mid(x := 2)) = (state', c)" using "2.prems"(1) False v True by simp
      have "(c = [] \<longrightarrow> marked 1 state' = marked 1 (mid(x := 2))) \<and> (c \<noteq> [] \<longrightarrow> (c, c) \<in> (edge_rel edges)\<^sup>+)"
      proof (rule "2.IH"(4) [OF _ _ v [symmetric] _ rest])
        fix g y assume "(mid(x := 2)) g = 1" "y \<in> set xs"
        then have "state g = 1" using m by (auto simp: marked_def set_eq_iff)
        then show "(g, y) \<in> (edge_rel edges)\<^sup>+" using \<open>y \<in> set xs\<close> "2.prems"(2) by simp
      qed (use False True in simp_all)
      with m show ?thesis by simp
    next
      case False
      then show ?thesis using inner "2.prems"(1) \<open>\<not> (state x = 1 \<or> state x = 2)\<close> v by simp
    qed
  qed
qed simp

text \<open>The black nodes are closed under edges, and none of them lies on a cycle.\<close>

definition black_ok :: "(string \<times> string list) list \<Rightarrow> (string \<Rightarrow> nat) \<Rightarrow> bool" where
  "black_ok edges state \<longleftrightarrow>
     (\<forall>x. state x = 2 \<longrightarrow> (\<forall>y \<in> set (edges_of edges x). state y = 2) \<and> (x, x) \<notin> (edge_rel edges)\<^sup>+)"

lemma black_closed:
  assumes "black_ok edges state" "(x, y) \<in> (edge_rel edges)\<^sup>*" "state x = 2"
  shows "state y = 2"
  using assms(2,3) by (induction rule: rtrancl_induct) (use assms(1) in \<open>auto simp: black_ok_def edge_rel_def\<close>)

lemma black_ok_blacken:
  assumes "black_ok edges state" "state x \<noteq> 2" "\<And>y. y \<in> set (edges_of edges x) \<Longrightarrow> state y = 2"
  shows "black_ok edges (state(x := 2))"
proof -
  have "(x, x) \<notin> (edge_rel edges)\<^sup>+"
  proof
    assume "(x, x) \<in> (edge_rel edges)\<^sup>+"
    then obtain y where "(x, y) \<in> edge_rel edges" "(y, x) \<in> (edge_rel edges)\<^sup>*" by (meson tranclD)
    then show False using assms black_closed [of edges state y x] by (auto simp: edge_rel_def)
  qed
  then show ?thesis using assms by (auto simp: black_ok_def)
qed

lemma visit_all_black:
  "visit_all edges xs state = (state', []) \<Longrightarrow> black_ok edges state \<Longrightarrow>
   [] \<notin> set xs \<Longrightarrow> (\<And>x. [] \<notin> set (edges_of edges x)) \<Longrightarrow>
   marked 1 state' = marked 1 state \<and> black_ok edges state' \<and> (\<forall>x \<in> set xs. state' x = 2) \<and> (\<forall>x. state x = 2 \<longrightarrow> state' x = 2)"
proof (induction edges xs state arbitrary: state' rule: visit_all.induct)
  case (2 edges x xs state)
  show ?case
  proof (cases "state x = 1 \<or> state x = 2")
    case True
    then have black: "state x = 2" using "2.prems"(1,3) by (auto split: if_splits)
    then have "visit_all edges xs state = (state', [])" using "2.prems"(1) by simp
    then show ?thesis using "2.IH"(2) [of state'] black "2.prems"(2-4) by simp
  next
    case False
    obtain mid cycle where v: "visit_all edges (edges_of edges x) (state(x := 1)) = (mid, cycle)" by fastforce
    then have c: "cycle = []" and rest: "visit_all edges xs (mid(x := 2)) = (state', [])"
      using "2.prems"(1) False by (auto split: if_splits)
    have grey: "black_ok edges (state(x := 1))" using "2.prems"(2) False by (auto simp: black_ok_def)
    have inner: "marked 1 mid = marked 1 (state(x := 1)) \<and> black_ok edges mid \<and> (\<forall>y \<in> set (edges_of edges x). mid y = 2)
        \<and> (\<forall>y. (state(x := 1)) y = 2 \<longrightarrow> mid y = 2)"
      by (rule "2.IH"(3) [OF _ _ v [unfolded c] grey "2.prems"(4) "2.prems"(4)]) (use False in simp_all)
    then have "mid x = 1" by (auto simp: marked_def)
    then have ok: "black_ok edges (mid(x := 2))" using inner by (intro black_ok_blacken) auto
    have m: "marked 1 (mid(x := 2)) = marked 1 state" using inner False marked_recolour by blast
    have "marked 1 state' = marked 1 (mid(x := 2)) \<and> black_ok edges state' \<and> (\<forall>y \<in> set xs. state' y = 2) \<and> (\<forall>y. (mid(x := 2)) y = 2 \<longrightarrow> state' y = 2)"
      by (rule "2.IH"(4) [OF _ _ v [symmetric] _ rest ok]) (use False c "2.prems"(3,4) in simp_all)
    then show ?thesis using m inner False by auto
  qed
qed simp

text \<open>The edges of a board: an item leads to what it blocks, and a blocker leads to the item.\<close>

definition depends :: "WorkItem list \<Rightarrow> (string \<times> string) set" where
  "depends items =
     {(x, y). \<exists>i \<in> set items. wi_ID i = x \<and> y \<in> set (wi_Blocks i)} \<union>
     {(x, y). \<exists>i \<in> set items. wi_ID i = y \<and> x \<in> set (wi_BlockedBy i)}"

definition references_known :: "WorkItem list \<Rightarrow> bool" where
  "references_known items \<longleftrightarrow> (\<forall>i \<in> set items. set (wi_Blocks i @ wi_BlockedBy i) \<subseteq> wi_ID ` set items)"

lemma edges_of_dependency:
  "edges_of (dependency_edges items) x = (if x \<in> wi_ID ` set items then sort (remdups (edge_targets items x)) else [])"
proof -
  have "map_of (map (\<lambda>i. (wi_ID i, f (wi_ID i))) is) x = (if x \<in> wi_ID ` set is then Some (f x) else None)" for f :: "string \<Rightarrow> string list" and "is"
    by (induction "is") auto
  from this [of "\<lambda>x. sort (remdups (edge_targets items x))" items] show ?thesis
    by (simp add: edges_of_def dependency_edges_def)
qed

lemma edge_rel_dependency: "references_known items \<Longrightarrow> edge_rel (dependency_edges items) = depends items"
  unfolding edge_rel_def edges_of_dependency depends_def edge_targets_def references_known_def by (fastforce split: if_splits)

lemma firstDependencyCycle_iff:
  assumes "references_known items" "[] \<notin> wi_ID ` set items"
  shows "firstDependencyCycle items = [] \<longleftrightarrow> acyclic (depends items)"
    and "firstDependencyCycle items \<noteq> [] \<Longrightarrow> (firstDependencyCycle items, firstDependencyCycle items) \<in> (depends items)\<^sup>+"
proof -
  let ?E = "dependency_edges items"
  note rel = edge_rel_dependency [OF assms(1)]
  obtain state c where v: "visit_all ?E (map wi_ID items) (\<lambda>_. 0) = (state, c)" by fastforce
  then have c: "firstDependencyCycle items = c" by (simp add: firstDependencyCycle_def)
  show cyc: "firstDependencyCycle items \<noteq> [] \<Longrightarrow> (firstDependencyCycle items, firstDependencyCycle items) \<in> (depends items)\<^sup>+"
    using visit_all_grey [OF v] rel c by auto
  have targets: "[] \<notin> set (edges_of ?E x)" for x
    using assms by (auto simp: edges_of_dependency edge_targets_def references_known_def)
  have "acyclic (depends items)" if "c = []"
  proof -
    have black: "black_ok ?E state" "\<forall>x \<in> set (map wi_ID items). state x = 2"
      using visit_all_black [of ?E "map wi_ID items" "\<lambda>_. 0" state] v that assms(2) targets by (auto simp: black_ok_def)
    have "(x, x) \<notin> (depends items)\<^sup>+" for x
    proof
      assume loop: "(x, x) \<in> (depends items)\<^sup>+"
      then obtain y where "(x, y) \<in> depends items" by (meson tranclD)
      then have "state x = 2" using black(2) assms(1) by (fastforce simp: depends_def references_known_def)
      then show False using black(1) loop rel by (auto simp: black_ok_def)
    qed
    then show ?thesis by (auto simp: acyclic_def)
  qed
  then show "firstDependencyCycle items = [] \<longleftrightarrow> acyclic (depends items)" using cyc c by (auto simp: acyclic_def)
qed

section \<open>Validation\<close>

definition blank :: "string \<Rightarrow> bool" where
  "blank s \<longleftrightarrow> TrimUnicode s = []"

lemma blank_Nil [simp]: "blank []"
  by code_simp

definition too_long :: "string \<Rightarrow> bool" where
  "too_long s \<longleftrightarrow> MaxFieldBytes < length s"

definition item_fields :: "WorkItem \<Rightarrow> string list" where
  "item_fields i =
     [wi_ID i, wi_Title i, wi_Description i, wi_ActiveForm i, wi_Owner i, wi_ResultSummary i, wi_TerminalReason i,
      sp_SessionID (wi_Source i), sp_AgentID (wi_Source i), sp_LegacyID (wi_Source i)]"

definition check_item :: "(string \<Rightarrow> bool) \<Rightarrow> nat \<Rightarrow> string list \<Rightarrow> nat \<Rightarrow> WorkItem \<Rightarrow> board_error option" where
  "check_item json_valid index ids dependencyCount i =
     (if blank (wi_ID i) then Some (EmptyItemID index)
      else if wi_ID i \<in> set ids then Some (DuplicateItemID (wi_ID i))
      else if wi_Revision i = 0 then Some (ZeroItemRevision (wi_ID i))
      else if sp_Kind (wi_Source i) \<noteq> ''task'' \<and> sp_Kind (wi_Source i) \<noteq> ''todo'' then Some (InvalidSourceKind (wi_ID i) (sp_Kind (wi_Source i)))
      else if sp_Kind (wi_Source i) = ''task'' \<and> blank (sp_LegacyID (wi_Source i)) then Some (TaskWithoutLegacyID (wi_ID i))
      else if sp_Kind (wi_Source i) = ''todo'' \<and> blank (sp_SessionID (wi_Source i)) then Some (TodoWithoutSession (wi_ID i))
      else if \<not> validStatus (wi_Status i) then Some (InvalidItemStatus (wi_ID i) (wi_Status i))
      else if list_ex too_long (item_fields i) then Some (ItemFieldTooLong (wi_ID i))
      else if too_long (wi_Metadata i) then Some (MetadataTooLong (wi_ID i))
      else if wi_Metadata i \<noteq> [] \<and> \<not> json_valid (wi_Metadata i) then Some (MetadataNotJSON (wi_ID i))
      else if MaxDependencyRefs < dependencyCount + length (wi_Blocks i) + length (wi_BlockedBy i) then Some TooManyDependencies
      else None)"

fun check_items :: "(string \<Rightarrow> bool) \<Rightarrow> nat \<Rightarrow> string list \<Rightarrow> nat \<Rightarrow> WorkItem list \<Rightarrow> board_error option" where
  "check_items json_valid index ids dependencyCount [] = None"
| "check_items json_valid index ids dependencyCount (i # items) =
     (case check_item json_valid index ids dependencyCount i of
        Some err \<Rightarrow> Some err
      | None \<Rightarrow> check_items json_valid (Suc index) (wi_ID i # ids) (dependencyCount + length (wi_Blocks i) + length (wi_BlockedBy i)) items)"

fun check_references :: "string list \<Rightarrow> WorkItem \<Rightarrow> string list \<Rightarrow> board_error option" where
  "check_references ids i [] = None"
| "check_references ids i (d # deps) =
     (if too_long d then Some (DependencyTooLong (wi_ID i))
      else if d = wi_ID i then Some (SelfDependency (wi_ID i))
      else if d \<notin> set ids then Some (MissingDependency (wi_ID i) d)
      else check_references ids i deps)"

fun check_all_references :: "string list \<Rightarrow> WorkItem list \<Rightarrow> board_error option" where
  "check_all_references ids [] = None"
| "check_all_references ids (i # items) =
     (case check_references ids i (wi_Blocks i @ wi_BlockedBy i) of
        Some err \<Rightarrow> Some err
      | None \<Rightarrow> check_all_references ids items)"

definition validateBoard :: "(string \<Rightarrow> bool) \<Rightarrow> WorkBoard \<Rightarrow> board_error option" where
  "validateBoard json_valid board =
     (let items = wb_Items board in
      if MaxItems < length items then Some TooManyItems
      else case check_items json_valid 0 [] 0 items of
        Some err \<Rightarrow> Some err
      | None \<Rightarrow>
         (case check_all_references (map wi_ID items) items of
            Some err \<Rightarrow> Some err
          | None \<Rightarrow>
             (let cycle = firstDependencyCycle items in
              if cycle \<noteq> [] then Some (DependencyCycle cycle) else None)))"

section \<open>What validation accepts\<close>

definition item_ok :: "(string \<Rightarrow> bool) \<Rightarrow> WorkItem \<Rightarrow> bool" where
  "item_ok json_valid i \<longleftrightarrow>
     \<not> blank (wi_ID i) \<and> wi_Revision i \<noteq> 0 \<and>
     (sp_Kind (wi_Source i) = ''task'' \<and> \<not> blank (sp_LegacyID (wi_Source i)) \<or>
      sp_Kind (wi_Source i) = ''todo'' \<and> \<not> blank (sp_SessionID (wi_Source i))) \<and>
     validStatus (wi_Status i) \<and> list_all (\<lambda>f. \<not> too_long f) (wi_Metadata i # item_fields i) \<and>
     (wi_Metadata i = [] \<or> json_valid (wi_Metadata i))"

definition reference_count :: "WorkItem list \<Rightarrow> nat" where
  "reference_count items = sum_list (map (\<lambda>i. length (wi_Blocks i) + length (wi_BlockedBy i)) items)"

definition board_ok :: "(string \<Rightarrow> bool) \<Rightarrow> WorkBoard \<Rightarrow> bool" where
  "board_ok json_valid board \<longleftrightarrow>
     (let items = wb_Items board in
      length items \<le> MaxItems \<and> list_all (item_ok json_valid) items \<and> distinct (map wi_ID items) \<and>
      reference_count items \<le> MaxDependencyRefs \<and> references_known items \<and> acyclic (depends items))"

lemma check_item_None:
  "check_item json_valid index ids n i = None \<longleftrightarrow>
     item_ok json_valid i \<and> wi_ID i \<notin> set ids \<and> n + length (wi_Blocks i) + length (wi_BlockedBy i) \<le> MaxDependencyRefs"
  unfolding check_item_def item_ok_def list_all_iff list_ex_iff by (auto split: if_splits)

lemma check_items_None:
  "n \<le> MaxDependencyRefs \<Longrightarrow> check_items json_valid index ids n items = None \<longleftrightarrow>
     list_all (item_ok json_valid) items \<and> distinct (map wi_ID items) \<and> set ids \<inter> wi_ID ` set items = {} \<and>
     n + reference_count items \<le> MaxDependencyRefs"
proof (induction items arbitrary: index ids n)
  case (Cons i items)
  show ?case
  proof (cases "check_item json_valid index ids n i = None")
    case True
    note head = True [unfolded check_item_None]
    let ?n = "n + length (wi_Blocks i) + length (wi_BlockedBy i)"
    have "check_items json_valid index ids n (i # items) = check_items json_valid (Suc index) (wi_ID i # ids) ?n items"
      using True by simp
    also have "(\<dots> = None) \<longleftrightarrow> list_all (item_ok json_valid) items \<and> distinct (map wi_ID items) \<and>
        set (wi_ID i # ids) \<inter> wi_ID ` set items = {} \<and> ?n + reference_count items \<le> MaxDependencyRefs"
      using head by (intro Cons.IH) simp
    finally show ?thesis using head by (auto simp: reference_count_def)
  next
    case False
    then obtain err where "check_item json_valid index ids n i = Some err" by auto
    moreover have "\<not> (item_ok json_valid i \<and> wi_ID i \<notin> set ids \<and> n + length (wi_Blocks i) + length (wi_BlockedBy i) \<le> MaxDependencyRefs)"
      using False by (simp add: check_item_None)
    ultimately show ?thesis by (auto simp: reference_count_def)
  qed
qed (simp add: reference_count_def)

lemma check_references_None:
  "check_references ids i deps = None \<longleftrightarrow> (\<forall>d \<in> set deps. \<not> too_long d \<and> d \<noteq> wi_ID i \<and> d \<in> set ids)"
  by (induction deps) auto

lemma check_all_references_None:
  "check_all_references ids items = None \<longleftrightarrow>
     (\<forall>i \<in> set items. \<forall>d \<in> set (wi_Blocks i @ wi_BlockedBy i). \<not> too_long d \<and> d \<noteq> wi_ID i \<and> d \<in> set ids)"
proof (induction items)
  case (Cons i items)
  then show ?case
    using check_references_None [of ids i "wi_Blocks i @ wi_BlockedBy i"]
    by (cases "check_references ids i (wi_Blocks i @ wi_BlockedBy i)") auto
qed simp

lemma acyclic_no_self: "acyclic (depends items) \<Longrightarrow> i \<in> set items \<Longrightarrow> wi_ID i \<notin> set (wi_Blocks i @ wi_BlockedBy i)"
  by (auto simp: depends_def acyclic_def dest!: spec [of _ "wi_ID i"] intro: r_into_trancl)

lemma validateBoard_iff: "validateBoard json_valid board = None \<longleftrightarrow> board_ok json_valid board"
proof (cases "check_items json_valid 0 [] 0 (wb_Items board) = None")
  case True
  let ?items = "wb_Items board"
  have items: "list_all (item_ok json_valid) ?items" "distinct (map wi_ID ?items)" "reference_count ?items \<le> MaxDependencyRefs"
    using True by (auto simp: check_items_None)
  have short: "\<not> too_long (wi_ID i)" "wi_ID i \<noteq> []" if "i \<in> set ?items" for i
    using items(1) that by (auto simp: list_all_iff item_ok_def item_fields_def)
  then have ids: "[] \<notin> wi_ID ` set ?items" by fastforce
  have refs: "check_all_references (map wi_ID ?items) ?items = None \<longleftrightarrow>
      references_known ?items \<and> (\<forall>i \<in> set ?items. wi_ID i \<notin> set (wi_Blocks i @ wi_BlockedBy i))"
    unfolding check_all_references_None references_known_def using short by fastforce
  show ?thesis
  proof (cases "references_known ?items")
    case True
    then show ?thesis using items \<open>check_items json_valid 0 [] 0 ?items = None\<close> refs firstDependencyCycle_iff(1) [OF True ids] acyclic_no_self
      by (auto simp: validateBoard_def board_ok_def Let_def split: option.splits)
  next
    case False
    then show ?thesis using refs \<open>check_items json_valid 0 [] 0 ?items = None\<close>
      by (auto simp: validateBoard_def board_ok_def Let_def split: option.splits)
  qed
qed (auto simp: validateBoard_def board_ok_def Let_def check_items_None split: option.splits)

text \<open>
  C31. Validation accepts a board exactly when it has at most 1024 items, every item is well
  formed, identities are distinct, there are at most 4096 references, every reference names an
  item of the board, and no chain of dependencies leads from an item back to itself.
\<close>

theorem validateBoard_exact: "validateBoard json_valid board = None \<longleftrightarrow> board_ok json_valid board"
  by (rule validateBoard_iff)

end
