(* ===== verification/Work_Record.thy ===== *)
theory Work_Record
  imports Work_Board
begin

text \<open>
  The authority record of the work board (src/engine/internal/workboard/authority.go): the board
  with the task and todo projections it must agree with, the execution links, the marker and the
  backup, and their validation.  The pure parts of adapter.go that build items from tasks, apply
  updates and replace todo lists are here too.

  A time is its distance in nanoseconds from Go's zero time, so \<open>IsZero\<close> is zero; of the location
  of a time the code only tests whether it is UTC, on the admission time of a link.  Metadata is
  its JSON text in a record and a decoded object in a task; the JSON parser is the argument
  \<open>json_env\<close>, the printer is \<open>Marshal\<close> of \<open>Tool_Input\<close>.
\<close>

section \<open>Data\<close>

record TaskCompatibility =
  tc_ID :: string
  tc_Subject :: string
  tc_Description :: string
  tc_ActiveForm :: string
  tc_LegacyStatus :: string
  tc_Owner :: string
  tc_Blocks :: "string list"
  tc_BlockedBy :: "string list"
  tc_UnresolvedBlocks :: "string list"
  tc_UnresolvedBlockedBy :: "string list"
  tc_Metadata :: string
  tc_Output :: string
  tc_CreatedAt :: int
  tc_UpdatedAt :: int

record TodoScopeCompatibility =
  sc_SessionID :: string
  sc_AgentID :: string
  sc_CurrentItemIDs :: "string list"

record CompatibilityPayload =
  cp_NextTaskID :: int
  cp_Tasks :: "TaskCompatibility list"
  cp_TodoScopes :: "TodoScopeCompatibility list"

record ExecutionLink =
  el_BoardID :: string
  el_WorkItemID :: string
  el_WorkItemRevision :: "64 word"
  el_AgentID :: string
  el_Generation :: "64 word"
  el_Actor :: string
  el_ParentSessionID :: string
  el_ParentThreadID :: string
  el_ParentAgentID :: string
  el_ParentToolUseID :: string
  el_AdmittedAt :: int
  el_UTC :: bool

record AuthorityRecord =
  ar_Version :: int
  ar_SessionID :: string
  ar_BoardID :: string
  ar_Board :: WorkBoard
  ar_Compatibility :: CompatibilityPayload
  ar_Diagnostics :: "Diagnostic list"
  ar_ExecutionLinks :: "ExecutionLink list"

record AuthorityMarker =
  am_Version :: int
  am_SessionID :: string
  am_MinimumReader :: string

record LegacyBackup =
  lb_Version :: int
  lb_SessionID :: string
  lb_BoardID :: string
  lb_Board :: WorkBoard
  lb_Compatibility :: CompatibilityPayload

definition AuthorityRecordVersion :: int where "AuthorityRecordVersion = 2"
definition AuthorityRecordVersionV3 :: int where "AuthorityRecordVersionV3 = 3"
definition AuthorityMarkerVersion :: int where "AuthorityMarkerVersion = 1"
definition AuthorityMarkerVersionV2 :: int where "AuthorityMarkerVersionV2 = 2"
definition LegacyBackupVersion :: int where "LegacyBackupVersion = 1"
definition MinimumReaderV2 :: string where "MinimumReaderV2 = ''workboard/v2''"
definition MinimumReaderV3 :: string where "MinimumReaderV3 = ''workboard/v3''"
definition MaxExecutionLinks :: nat where "MaxExecutionLinks = 4096"

lemmas version_defs = AuthorityRecordVersion_def AuthorityRecordVersionV3_def AuthorityMarkerVersion_def
  AuthorityMarkerVersionV2_def LegacyBackupVersion_def MinimumReaderV2_def MinimumReaderV3_def

record json_env =
  js_Valid :: "string \<Rightarrow> bool"
  js_Object :: "string \<Rightarrow> tool_input option"

datatype authority_error =
    UnsupportedRecordVersion int
  | UnsupportedBackupVersion int
  | UnsupportedMarkerVersion int
  | UnsupportedMinimumReader string
  | EmptySessionID
  | SessionIDMismatch string
  | EmptyBoardID
  | IdentityTooLong
  | ZeroBoardRevision
  | BoardError board_error
  | NextTaskIDNotPositive
  | TooManyCompatibilityTasks
  | EmptyTaskID nat
  | DuplicateTask string
  | TaskIDNotNumeric string
  | NextTaskIDTooSmall
  | TaskWithoutItem string
  | TaskStatusMismatch string
  | TaskFieldTooLong string
  | TaskTimestampZero string
  | TaskMetadataTooLong string
  | TaskMetadataInvalid string
  | TaskMetadataNotObject string
  | TaskEmptyDependency string
  | TaskDependencyTooLong string
  | TaskDuplicateDependency string string
  | TaskUnresolvedUnknown string
  | TaskItemMismatch string
  | TooManyTaskDependencies
  | TaskCompatibilityIncomplete
  | TodoScopeEmptySession
  | DuplicateTodoScope string
  | TodoScopeTooLong
  | TodoItemEmpty
  | TodoItemTooLong
  | DuplicateTodoItem string
  | TodoItemNotInScope string
  | TodoItemWithoutScope string
  | TooManyDiagnostics
  | DiagnosticSequenceZero
  | DiagnosticKindEmpty
  | DiagnosticTooLong
  | V2RecordHasLinks
  | V3RecordHasNoLinks
  | TooManyLinks
  | InvalidLink
  | LinkTooLong
  | LinkItemMismatch
  | LinkKeyConflict
  | LinkKeyDuplicate
  | InvalidTodoStatus string

section \<open>Items of tasks\<close>

definition taskWorkItemID :: "string \<Rightarrow> string" where
  "taskWorkItemID legacyID = ''task:'' @ legacyID"

definition canonicalStatusForLegacy :: "string \<Rightarrow> Status" where
  "canonicalStatusForLegacy status =
     (if status = StatusPending then StatusPending
      else if status = StatusInProgress \<or> status = ''running'' then StatusInProgress
      else if status = StatusCompleted then StatusCompleted
      else if status = StatusFailed then StatusFailed
      else StatusCancelled)"

definition terminal_reason :: "string \<Rightarrow> string" where
  "terminal_reason status =
     (if status = ''killed'' then ''legacy_task_stopped''
      else if status \<in> {StatusPending, StatusInProgress, StatusCompleted, StatusFailed, ''running''} then []
      else ''legacy_status'')"

definition workItemFromTask :: "TaskCompatibility \<Rightarrow> int \<Rightarrow> WorkItem" where
  "workItemFromTask task order =
     \<lparr>wi_ID = taskWorkItemID (tc_ID task), wi_Revision = 1,
      wi_Source = \<lparr>sp_Kind = ''task'', sp_SessionID = [], sp_AgentID = [], sp_LegacyID = tc_ID task\<rparr>,
      wi_Order = order, wi_Title = tc_Subject task, wi_Description = tc_Description task, wi_ActiveForm = tc_ActiveForm task,
      wi_Status = canonicalStatusForLegacy (tc_LegacyStatus task), wi_Owner = tc_Owner task,
      wi_Blocks = map taskWorkItemID (filter (\<lambda>d. d \<notin> set (tc_UnresolvedBlocks task)) (tc_Blocks task)),
      wi_BlockedBy = map taskWorkItemID (filter (\<lambda>d. d \<notin> set (tc_UnresolvedBlockedBy task)) (tc_BlockedBy task)),
      wi_Metadata = tc_Metadata task, wi_ResultSummary = tc_Output task,
      wi_TerminalReason = terminal_reason (tc_LegacyStatus task)\<rparr>"

section \<open>Validation\<close>

definition validateAuthorityIdentity :: "string \<Rightarrow> string \<Rightarrow> string \<Rightarrow> authority_error option" where
  "validateAuthorityIdentity sessionID boardID expectedSessionID =
     (if blank sessionID then Some EmptySessionID
      else if expectedSessionID \<noteq> [] \<and> sessionID \<noteq> expectedSessionID then Some (SessionIDMismatch sessionID)
      else if blank boardID then Some EmptyBoardID
      else if too_long sessionID \<or> too_long boardID then Some IdentityTooLong
      else None)"

fun check_task_ids :: "nat \<Rightarrow> string list \<Rightarrow> int \<Rightarrow> TaskCompatibility list \<Rightarrow> authority_error + int" where
  "check_task_ids index seen maxTaskID [] = Inr maxTaskID"
| "check_task_ids index seen maxTaskID (t # tasks) =
     (if blank (tc_ID t) then Inl (EmptyTaskID index)
      else if tc_ID t \<in> set seen then Inl (DuplicateTask (tc_ID t))
      else case Atoi (tc_ID t) of
        None \<Rightarrow> Inl (TaskIDNotNumeric (tc_ID t))
      | Some n \<Rightarrow>
         (if n \<le> 0 then Inl (TaskIDNotNumeric (tc_ID t))
          else check_task_ids (Suc index) (tc_ID t # seen) (max maxTaskID n) tasks))"

definition task_item :: "WorkItem list \<Rightarrow> string \<Rightarrow> WorkItem option" where
  "task_item items ident = find (\<lambda>i. sp_Kind (wi_Source i) = ''task'' \<and> sp_LegacyID (wi_Source i) = ident) (rev items)"

definition stringSubset :: "string list \<Rightarrow> string list \<Rightarrow> bool" where
  "stringSubset values xs \<longleftrightarrow> list_all (\<lambda>v. v \<in> set xs) values"

fun check_dependencies :: "string \<Rightarrow> string list \<Rightarrow> string list \<Rightarrow> authority_error option" where
  "check_dependencies ident seen [] = None"
| "check_dependencies ident seen (d # deps) =
     (if blank d then Some (TaskEmptyDependency ident)
      else if too_long d then Some (TaskDependencyTooLong ident)
      else if d \<in> set seen then Some (TaskDuplicateDependency ident d)
      else check_dependencies ident (d # seen) deps)"

definition first_error :: "'e option list \<Rightarrow> 'e option" where
  "first_error es = (case dropWhile (\<lambda>e. e = None) es of [] \<Rightarrow> None | e # _ \<Rightarrow> e)"

definition task_fields :: "TaskCompatibility \<Rightarrow> string list" where
  "task_fields t = [tc_ID t, tc_Subject t, tc_Description t, tc_ActiveForm t, tc_LegacyStatus t, tc_Owner t, tc_Output t]"

definition check_metadata :: "json_env \<Rightarrow> TaskCompatibility \<Rightarrow> authority_error option" where
  "check_metadata js t =
     (if too_long (tc_Metadata t) then Some (TaskMetadataTooLong (tc_ID t))
      else if tc_Metadata t = [] then None
      else if \<not> js_Valid js (tc_Metadata t) then Some (TaskMetadataInvalid (tc_ID t))
      else let body = TrimUnicode (tc_Metadata t) in
        if body = [] \<or> hd body \<noteq> CHR ''{'' \<or> js_Object js (tc_Metadata t) = None then Some (TaskMetadataNotObject (tc_ID t))
        else None)"

definition check_task :: "json_env \<Rightarrow> WorkItem list \<Rightarrow> TaskCompatibility \<Rightarrow> authority_error option" where
  "check_task js items t =
     (case task_item items (tc_ID t) of
        None \<Rightarrow> Some (TaskWithoutItem (tc_ID t))
      | Some item \<Rightarrow>
         first_error
           ([if wi_Status item \<noteq> canonicalStatusForLegacy (tc_LegacyStatus t) then Some (TaskStatusMismatch (tc_ID t)) else None,
             if list_ex too_long (task_fields t) then Some (TaskFieldTooLong (tc_ID t)) else None,
             if tc_CreatedAt t = 0 \<or> tc_UpdatedAt t = 0 then Some (TaskTimestampZero (tc_ID t)) else None,
             check_metadata js t]
            @ map (check_dependencies (tc_ID t) []) [tc_Blocks t, tc_BlockedBy t, tc_UnresolvedBlocks t, tc_UnresolvedBlockedBy t]
            @ [if \<not> stringSubset (tc_UnresolvedBlocks t) (tc_Blocks t) \<or> \<not> stringSubset (tc_UnresolvedBlockedBy t) (tc_BlockedBy t)
               then Some (TaskUnresolvedUnknown (tc_ID t)) else None,
               if \<not> sameWorkItemContent item ((workItemFromTask t (wi_Order item))\<lparr>wi_Revision := wi_Revision item\<rparr>)
               then Some (TaskItemMismatch (tc_ID t)) else None]))"

definition task_dependency_count :: "TaskCompatibility list \<Rightarrow> nat" where
  "task_dependency_count tasks =
     sum_list (map (\<lambda>t. length (tc_Blocks t) + length (tc_BlockedBy t) + length (tc_UnresolvedBlocks t) + length (tc_UnresolvedBlockedBy t)) tasks)"

definition scope_key :: "string \<Rightarrow> string \<Rightarrow> string" where
  "scope_key sessionID agentID = sessionID @ CHR 0x00 # agentID"

definition item_by_id :: "WorkItem list \<Rightarrow> string \<Rightarrow> WorkItem option" where
  "item_by_id items ident = find (\<lambda>i. wi_ID i = ident) (rev items)"

fun check_current :: "WorkItem list \<Rightarrow> TodoScopeCompatibility \<Rightarrow> string list \<Rightarrow> string list \<Rightarrow> authority_error option" where
  "check_current items scope seen [] = None"
| "check_current items scope seen (ident # ids) =
     (if blank ident then Some TodoItemEmpty
      else if too_long ident then Some TodoItemTooLong
      else if ident \<in> set seen then Some (DuplicateTodoItem ident)
      else case item_by_id items ident of
        None \<Rightarrow> Some (TodoItemNotInScope ident)
      | Some i \<Rightarrow>
         (if sp_Kind (wi_Source i) \<noteq> ''todo'' \<or> sp_SessionID (wi_Source i) \<noteq> sc_SessionID scope \<or> sp_AgentID (wi_Source i) \<noteq> sc_AgentID scope
          then Some (TodoItemNotInScope ident)
          else check_current items scope (ident # seen) ids))"

fun check_scopes :: "WorkItem list \<Rightarrow> string list \<Rightarrow> TodoScopeCompatibility list \<Rightarrow> authority_error option" where
  "check_scopes items seen [] = None"
| "check_scopes items seen (s # scopes) =
     (let key = scope_key (sc_SessionID s) (sc_AgentID s) in
      if blank (sc_SessionID s) then Some TodoScopeEmptySession
      else if key \<in> set seen then Some (DuplicateTodoScope key)
      else if too_long (sc_SessionID s) \<or> too_long (sc_AgentID s) then Some TodoScopeTooLong
      else case check_current items s [] (sc_CurrentItemIDs s) of
        Some err \<Rightarrow> Some err
      | None \<Rightarrow> check_scopes items (key # seen) scopes)"

definition check_todo_items :: "WorkItem list \<Rightarrow> TodoScopeCompatibility list \<Rightarrow> authority_error option" where
  "check_todo_items items scopes =
     (case find (\<lambda>i. sp_Kind (wi_Source i) = ''todo'' \<and>
                 scope_key (sp_SessionID (wi_Source i)) (sp_AgentID (wi_Source i)) \<notin> set (map (\<lambda>s. scope_key (sc_SessionID s) (sc_AgentID s)) scopes)) items of
        None \<Rightarrow> None
      | Some i \<Rightarrow> Some (TodoItemWithoutScope (wi_ID i)))"

definition validateCompatibility :: "json_env \<Rightarrow> WorkBoard \<Rightarrow> CompatibilityPayload \<Rightarrow> authority_error option" where
  "validateCompatibility js board payload =
     (let items = wb_Items board; tasks = cp_Tasks payload in
      if cp_NextTaskID payload \<le> 0 then Some NextTaskIDNotPositive
      else if MaxItems < length tasks then Some TooManyCompatibilityTasks
      else case check_task_ids 0 [] 0 tasks of
        Inl err \<Rightarrow> Some err
      | Inr maxTaskID \<Rightarrow>
         (if cp_NextTaskID payload \<le> maxTaskID then Some NextTaskIDTooSmall
          else first_error
            (map (check_task js items) tasks
             @ [if MaxDependencyRefs < task_dependency_count tasks then Some TooManyTaskDependencies else None,
                if length (remdups (map (\<lambda>i. sp_LegacyID (wi_Source i)) (filter (\<lambda>i. sp_Kind (wi_Source i) = ''task'') items))) \<noteq> length tasks
                then Some TaskCompatibilityIncomplete else None,
                check_scopes items [] (cp_TodoScopes payload),
                check_todo_items items (cp_TodoScopes payload)])))"

definition check_diagnostic :: "Diagnostic \<Rightarrow> authority_error option" where
  "check_diagnostic d =
     (if dg_Sequence d = 0 then Some DiagnosticSequenceZero
      else if blank (dg_Kind d) then Some DiagnosticKindEmpty
      else if list_ex too_long [dg_Kind d, dg_Stage d, dg_ItemID d, dg_Message d] then Some DiagnosticTooLong
      else None)"

definition validateAuthorityDiagnostics :: "Diagnostic list \<Rightarrow> authority_error option" where
  "validateAuthorityDiagnostics diagnostics =
     (if MaxDiagnostics < length diagnostics then Some TooManyDiagnostics
      else first_error (map check_diagnostic diagnostics))"

definition link_key :: "ExecutionLink \<Rightarrow> string" where
  "link_key link = el_AgentID link @ CHR 0x00 # nat_string (unat (el_Generation link))"

definition link_fields :: "ExecutionLink \<Rightarrow> string list" where
  "link_fields l =
     [el_BoardID l, el_WorkItemID l, el_AgentID l, el_Actor l, el_ParentSessionID l, el_ParentThreadID l, el_ParentAgentID l, el_ParentToolUseID l]"

definition link_ok :: "AuthorityRecord \<Rightarrow> ExecutionLink \<Rightarrow> bool" where
  "link_ok record l \<longleftrightarrow>
     el_BoardID l = ar_BoardID record \<and> el_Actor l = ''agent_launch_admission'' \<and> el_Generation l \<noteq> 0 \<and>
     el_AdmittedAt l \<noteq> 0 \<and> el_UTC l \<and>
     list_all (\<lambda>s. \<not> blank s) [el_WorkItemID l, el_AgentID l, el_ParentSessionID l, el_ParentThreadID l, el_ParentToolUseID l]"

fun check_links :: "AuthorityRecord \<Rightarrow> (string \<times> ExecutionLink) list \<Rightarrow> ExecutionLink list \<Rightarrow> authority_error option" where
  "check_links record keys [] = None"
| "check_links record keys (l # links) =
     (if \<not> link_ok record l then Some InvalidLink
      else if list_ex too_long (link_fields l) then Some LinkTooLong
      else if item_by_id (wb_Items (ar_Board record)) (el_WorkItemID l) = None \<or> el_WorkItemRevision l = 0 then Some LinkItemMismatch
      else case map_of keys (link_key l) of
        Some prior \<Rightarrow> Some (if prior \<noteq> l then LinkKeyConflict else LinkKeyDuplicate)
      | None \<Rightarrow> check_links record ((link_key l, l) # keys) links)"

definition validateExecutionLinks :: "AuthorityRecord \<Rightarrow> authority_error option" where
  "validateExecutionLinks record =
     (if ar_Version record = AuthorityRecordVersion then (if ar_ExecutionLinks record \<noteq> [] then Some V2RecordHasLinks else None)
      else if ar_ExecutionLinks record = [] then Some V3RecordHasNoLinks
      else if MaxExecutionLinks < length (ar_ExecutionLinks record) then Some TooManyLinks
      else check_links record [] (ar_ExecutionLinks record))"

definition validateAuthorityRecord :: "json_env \<Rightarrow> AuthorityRecord \<Rightarrow> string \<Rightarrow> authority_error option" where
  "validateAuthorityRecord js record expectedSessionID =
     (if ar_Version record \<noteq> AuthorityRecordVersion \<and> ar_Version record \<noteq> AuthorityRecordVersionV3
      then Some (UnsupportedRecordVersion (ar_Version record))
      else first_error
        [validateAuthorityIdentity (ar_SessionID record) (ar_BoardID record) expectedSessionID,
         if wb_Revision (ar_Board record) = 0 then Some ZeroBoardRevision else None,
         map_option BoardError (validateBoard (js_Valid js) (ar_Board record)),
         validateCompatibility js (ar_Board record) (ar_Compatibility record),
         validateAuthorityDiagnostics (ar_Diagnostics record),
         validateExecutionLinks record])"

definition validateLegacyBackup :: "json_env \<Rightarrow> LegacyBackup \<Rightarrow> string \<Rightarrow> authority_error option" where
  "validateLegacyBackup js backup expectedSessionID =
     (if lb_Version backup \<noteq> LegacyBackupVersion then Some (UnsupportedBackupVersion (lb_Version backup))
      else first_error
        [validateAuthorityIdentity (lb_SessionID backup) (lb_BoardID backup) expectedSessionID,
         if wb_Revision (lb_Board backup) = 0 then Some ZeroBoardRevision else None,
         map_option BoardError (validateBoard (js_Valid js) (lb_Board backup)),
         validateCompatibility js (lb_Board backup) (lb_Compatibility backup)])"

definition validateAuthorityMarker :: "AuthorityMarker \<Rightarrow> string \<Rightarrow> authority_error option" where
  "validateAuthorityMarker marker expectedSessionID =
     (if am_Version marker \<noteq> AuthorityMarkerVersion \<and> am_Version marker \<noteq> AuthorityMarkerVersionV2
      then Some (UnsupportedMarkerVersion (am_Version marker))
      else if blank (am_SessionID marker) then Some EmptySessionID
      else if expectedSessionID \<noteq> [] \<and> am_SessionID marker \<noteq> expectedSessionID then Some (SessionIDMismatch (am_SessionID marker))
      else if too_long (am_SessionID marker) then Some IdentityTooLong
      else if am_Version marker = AuthorityMarkerVersion \<and> am_MinimumReader marker \<noteq> MinimumReaderV2 \<or>
              am_Version marker = AuthorityMarkerVersionV2 \<and> am_MinimumReader marker \<noteq> MinimumReaderV3
      then Some (UnsupportedMinimumReader (am_MinimumReader marker))
      else None)"

definition backupFromRecord :: "AuthorityRecord \<Rightarrow> LegacyBackup" where
  "backupFromRecord record =
     \<lparr>lb_Version = LegacyBackupVersion, lb_SessionID = ar_SessionID record, lb_BoardID = ar_BoardID record,
      lb_Board = ar_Board record, lb_Compatibility = ar_Compatibility record\<rparr>"

section \<open>Tasks\<close>

record TaskRecord =
  tr_ID :: string
  tr_Subject :: string
  tr_Description :: string
  tr_ActiveForm :: string
  tr_Status :: string
  tr_Owner :: string
  tr_Blocks :: "string list"
  tr_BlockedBy :: "string list"
  tr_Metadata :: tool_input
  tr_Output :: string
  tr_CreatedAt :: int
  tr_UpdatedAt :: int

text \<open>A pointer of an update that is nil leaves the field; a nil value removes a metadata key.\<close>

record TaskUpdate =
  tu_TaskID :: string
  tu_Subject :: "string option"
  tu_Description :: "string option"
  tu_ActiveForm :: "string option"
  tu_Status :: "string option"
  tu_Owner :: "string option"
  tu_AddBlocks :: "string list"
  tu_AddBlockedBy :: "string list"
  tu_Metadata :: "(string \<times> jval) list option"
  tu_Output :: "string option"

record TaskManagerSnapshot =
  ms_NextID :: int
  ms_Tasks :: "TaskRecord option list"

definition canonicalMetadata :: "tool_input \<Rightarrow> string" where
  "canonicalMetadata metadata = (if metadata = [] then [] else Marshal metadata)"

definition taskCompatibilityFromRecord :: "TaskRecord \<Rightarrow> string list \<Rightarrow> TaskCompatibility" where
  "taskCompatibilityFromRecord t known =
     \<lparr>tc_ID = tr_ID t, tc_Subject = tr_Subject t, tc_Description = tr_Description t, tc_ActiveForm = tr_ActiveForm t,
      tc_LegacyStatus = tr_Status t, tc_Owner = tr_Owner t, tc_Blocks = tr_Blocks t, tc_BlockedBy = tr_BlockedBy t,
      tc_UnresolvedBlocks = filter (\<lambda>d. d \<notin> set known) (tr_Blocks t),
      tc_UnresolvedBlockedBy = filter (\<lambda>d. d \<notin> set known) (tr_BlockedBy t),
      tc_Metadata = canonicalMetadata (tr_Metadata t), tc_Output = tr_Output t,
      tc_CreatedAt = tr_CreatedAt t, tc_UpdatedAt = tr_UpdatedAt t\<rparr>"

definition taskRecordFromCompatibility :: "json_env \<Rightarrow> TaskCompatibility \<Rightarrow> TaskRecord option" where
  "taskRecordFromCompatibility js t =
     map_option (\<lambda>metadata.
       \<lparr>tr_ID = tc_ID t, tr_Subject = tc_Subject t, tr_Description = tc_Description t, tr_ActiveForm = tc_ActiveForm t,
        tr_Status = tc_LegacyStatus t, tr_Owner = tc_Owner t, tr_Blocks = tc_Blocks t, tr_BlockedBy = tc_BlockedBy t,
        tr_Metadata = metadata, tr_Output = tc_Output t, tr_CreatedAt = tc_CreatedAt t, tr_UpdatedAt = tc_UpdatedAt t\<rparr>)
       (if tc_Metadata t = [] then Some [] else js_Object js (tc_Metadata t))"

fun appendUniqueStrings :: "string list \<Rightarrow> string list \<Rightarrow> string list" where
  "appendUniqueStrings existing [] = existing"
| "appendUniqueStrings existing (v # values) =
     (if v = [] \<or> v \<in> set existing then appendUniqueStrings existing values
      else appendUniqueStrings (existing @ [v]) values)"

definition unresolvedTaskDependencies :: "string list \<Rightarrow> string list \<Rightarrow> string list" where
  "unresolvedTaskDependencies deps known = filter (\<lambda>d. d \<notin> set known) deps"

definition merge_metadata :: "(string \<times> jval) list \<Rightarrow> tool_input \<Rightarrow> tool_input" where
  "merge_metadata update current =
     fold (\<lambda>(key, v) m. if v = JNull then filter (\<lambda>e. fst e \<noteq> key) m else (key, v) # filter (\<lambda>e. fst e \<noteq> key) m) update current"

text \<open>One optional field of an update: the new value and the name to report, when it changes.\<close>

definition set_field :: "string option \<Rightarrow> string \<Rightarrow> string \<Rightarrow> string \<times> string list" where
  "set_field input old name = (case input of Some v \<Rightarrow> (if v \<noteq> old then (v, [name]) else (old, [])) | None \<Rightarrow> (old, []))"

definition set_status :: "string option \<Rightarrow> string \<Rightarrow> string \<times> string list" where
  "set_status input old =
     (case input of
        Some v \<Rightarrow> (if v \<noteq> old then (if v = ''running'' then StatusInProgress else v, [''status'']) else (old, []))
      | None \<Rightarrow> (old, []))"

definition updateTaskCompatibility ::
  "json_env \<Rightarrow> TaskCompatibility \<Rightarrow> TaskUpdate \<Rightarrow> string list \<Rightarrow> TaskCompatibility \<times> string list"
where
  "updateTaskCompatibility js task input known =
     (let (subject, f1) = set_field (tu_Subject input) (tc_Subject task) ''subject'';
          (description, f2) = set_field (tu_Description input) (tc_Description task) ''description'';
          (activeForm, f3) = set_field (tu_ActiveForm input) (tc_ActiveForm task) ''active_form'';
          (status, f4) = set_status (tu_Status input) (tc_LegacyStatus task);
          (owner, f5) = set_field (tu_Owner input) (tc_Owner task) ''owner'';
          blocks = appendUniqueStrings (tc_Blocks task) (tu_AddBlocks input);
          blockedBy = appendUniqueStrings (tc_BlockedBy task) (tu_AddBlockedBy input);
          f6 = (if tu_AddBlocks input \<noteq> [] then [''blocks''] else []);
          f7 = (if tu_AddBlockedBy input \<noteq> [] then [''blocked_by''] else []);
          (metadata, f8) =
            (case tu_Metadata input of
               None \<Rightarrow> (tc_Metadata task, [])
             | Some update \<Rightarrow>
                 (let current = (if tc_Metadata task = [] then [] else case js_Object js (tc_Metadata task) of None \<Rightarrow> [] | Some m \<Rightarrow> m)
                  in (canonicalMetadata (merge_metadata update current), [''metadata''])));
          (output, f9) =
            (case tu_Output input of
               None \<Rightarrow> (tc_Output task, [])
             | Some out \<Rightarrow>
                 (if out = [] then (tc_Output task, [])
                  else ((if tc_Output task \<noteq> [] then tc_Output task @ [CHR 0x0A] else []) @ out, [''output''])))
      in (task\<lparr>tc_Subject := subject, tc_Description := description, tc_ActiveForm := activeForm, tc_LegacyStatus := status,
               tc_Owner := owner, tc_Blocks := blocks, tc_BlockedBy := blockedBy, tc_Metadata := metadata, tc_Output := output,
               tc_UnresolvedBlocks := (if tu_AddBlocks input \<noteq> [] then unresolvedTaskDependencies blocks known else tc_UnresolvedBlocks task),
               tc_UnresolvedBlockedBy :=
                 (if tu_AddBlockedBy input \<noteq> [] then unresolvedTaskDependencies blockedBy known else tc_UnresolvedBlockedBy task)\<rparr>,
          f1 @ f2 @ f3 @ f4 @ f5 @ f6 @ f7 @ f8 @ f9))"

section \<open>Todo lists\<close>

record TodoItem =
  td_Content :: string
  td_Status :: string
  td_ActiveForm :: string

record TodoScope =
  to_SessionID :: string
  to_AgentID :: string

definition sameTodoPartition :: "SourcePartition \<Rightarrow> SourcePartition \<Rightarrow> bool" where
  "sameTodoPartition l r \<longleftrightarrow> sp_Kind l = sp_Kind r \<and> sp_SessionID l = sp_SessionID r \<and> sp_AgentID l = sp_AgentID r"

definition todoContentKey :: "string \<Rightarrow> string \<Rightarrow> string" where
  "todoContentKey content activeForm = content @ CHR 0x00 # activeForm"

text \<open>
  The loop counts up until it meets an unused identity; as many steps as there are used ones, and
  one more, are enough.
\<close>

fun next_todo :: "nat \<Rightarrow> 64 word \<Rightarrow> string list \<Rightarrow> 64 word \<times> string" where
  "next_todo 0 n used = (n, ''todo:'' @ nat_string (unat n))"
| "next_todo (Suc k) n used =
     (let n' = n + 1; ident = ''todo:'' @ nat_string (unat n') in
      if ident \<notin> set used then (n', ident) else next_todo k n' used)"

definition nextTodoWorkItemID :: "64 word \<Rightarrow> string list \<Rightarrow> 64 word \<times> string" where
  "nextTodoWorkItemID n used = next_todo (Suc (length used)) n used"

definition todo_partition :: "TodoScope \<Rightarrow> SourcePartition" where
  "todo_partition scope = \<lparr>sp_Kind = ''todo'', sp_SessionID = to_SessionID scope, sp_AgentID = to_AgentID scope, sp_LegacyID = []\<rparr>"

definition todo_key :: "TodoItem \<Rightarrow> string" where
  "todo_key todo = todoContentKey (td_Content todo) (td_ActiveForm todo)"

definition item_key :: "WorkItem \<Rightarrow> string" where
  "item_key i = todoContentKey (wi_Title i) (wi_ActiveForm i)"

text \<open>The previous item a todo continues: the only one with its text, unless it would be reopened.\<close>

definition previous_item :: "WorkItem list \<Rightarrow> TodoItem list \<Rightarrow> TodoItem \<Rightarrow> WorkItem option" where
  "previous_item prior todos todo =
     (case filter (\<lambda>i. item_key i = todo_key todo) prior of
        [i] \<Rightarrow>
          (if length (filter (\<lambda>t. todo_key t = todo_key todo) todos) \<noteq> 1 then None
           else if isTerminalStatus (wi_Status i) \<and> \<not> isTerminalStatus (td_Status todo) then None
           else Some i)
      | _ \<Rightarrow> None)"

definition todo_item :: "TodoScope \<Rightarrow> string \<Rightarrow> 64 word \<Rightarrow> int \<Rightarrow> TodoItem \<Rightarrow> WorkItem" where
  "todo_item scope ident revision order todo =
     \<lparr>wi_ID = ident, wi_Revision = revision, wi_Source = todo_partition scope, wi_Order = order, wi_Title = td_Content todo,
      wi_Description = [], wi_ActiveForm = td_ActiveForm todo, wi_Status = td_Status todo, wi_Owner = [], wi_Blocks = [],
      wi_BlockedBy = [], wi_Metadata = [], wi_ResultSummary = [], wi_TerminalReason = []\<rparr>"

text \<open>
  The loop over the new list: the new items, the matched previous ones, and the counter and used
  identities it advances.  An invalid status stops it; the counter keeps what it has advanced.
\<close>

fun place_todos ::
  "TodoScope \<Rightarrow> WorkItem list \<Rightarrow> TodoItem list \<Rightarrow> int \<Rightarrow> 64 word \<Rightarrow> string list \<Rightarrow> TodoItem list
   \<Rightarrow> 64 word \<times> (string + WorkItem list \<times> string list)"
where
  "place_todos scope prior todos order n used [] = (n, Inr ([], []))"
| "place_todos scope prior todos order n used (todo # rest) =
     (let status = td_Status todo in
      if \<not> validStatus status \<or> status = StatusFailed \<or> status = StatusCancelled then (n, Inl status)
      else
        let (n', item, match) =
          (case previous_item prior todos todo of
             Some previous \<Rightarrow>
               (let item = todo_item scope (wi_ID previous) (wi_Revision previous) order todo in
                (n, if sameWorkItemContent previous item then item else item\<lparr>wi_Revision := wi_Revision item + 1\<rparr>, [wi_ID previous]))
           | None \<Rightarrow> (case nextTodoWorkItemID n used of (n', ident) \<Rightarrow> (n', todo_item scope ident 1 order todo, [])))
        in case place_todos scope prior todos (order + 1) n' (wi_ID item # used) rest of
             (n'', Inl err) \<Rightarrow> (n'', Inl err)
           | (n'', Inr (items, matched)) \<Rightarrow> (n'', Inr (item # items, match @ matched)))"

definition cancel_omitted :: "WorkItem \<Rightarrow> WorkItem" where
  "cancel_omitted i =
     (if isTerminalStatus (wi_Status i) then i
      else i\<lparr>wi_Status := StatusCancelled, wi_TerminalReason := ''legacy_full_replacement_omission'', wi_Revision := wi_Revision i + 1\<rparr>)"

definition scope_matches :: "TodoScope \<Rightarrow> TodoScopeCompatibility \<Rightarrow> bool" where
  "scope_matches scope s \<longleftrightarrow> sc_SessionID s = to_SessionID scope \<and> sc_AgentID s = to_AgentID scope"

definition empty_scope :: "TodoScope \<Rightarrow> TodoScopeCompatibility" where
  "empty_scope scope = \<lparr>sc_SessionID = to_SessionID scope, sc_AgentID = to_AgentID scope, sc_CurrentItemIDs = []\<rparr>"

definition with_scope :: "TodoScope \<Rightarrow> TodoScopeCompatibility list \<Rightarrow> TodoScopeCompatibility list" where
  "with_scope scope scopes = (if list_ex (scope_matches scope) scopes then scopes else scopes @ [empty_scope scope])"

fun set_current :: "TodoScope \<Rightarrow> string list \<Rightarrow> TodoScopeCompatibility list \<Rightarrow> TodoScopeCompatibility list" where
  "set_current scope ids [] = []"
| "set_current scope ids (s # scopes) =
     (if scope_matches scope s then s\<lparr>sc_CurrentItemIDs := ids\<rparr> # scopes else s # set_current scope ids scopes)"

definition replaceTodos :: "AuthorityRecord \<Rightarrow> TodoScope \<Rightarrow> TodoItem list \<Rightarrow> AuthorityRecord \<times> authority_error option" where
  "replaceTodos record scope todos =
     (let scopes = with_scope scope (cp_TodoScopes (ar_Compatibility record));
          record1 = record\<lparr>ar_Compatibility := (ar_Compatibility record)\<lparr>cp_TodoScopes := scopes\<rparr>\<rparr>;
          board = ar_Board record; items = wb_Items board;
          prior = filter (\<lambda>i. sameTodoPartition (wi_Source i) (todo_partition scope)) items;
          retained = filter (\<lambda>i. \<not> sameTodoPartition (wi_Source i) (todo_partition scope)) items
      in case place_todos scope prior todos 0 (wb_NextTodoID board) (map wi_ID items) todos of
           (n, Inl status) \<Rightarrow> (record1\<lparr>ar_Board := board\<lparr>wb_NextTodoID := n\<rparr>\<rparr>, Some (InvalidTodoStatus status))
         | (n, Inr (new, matched)) \<Rightarrow>
             (let omitted = map cancel_omitted (filter (\<lambda>i. wi_ID i \<notin> set matched) prior);
                  allCompleted = todos \<noteq> [] \<and> list_all (\<lambda>t. td_Status t = StatusCompleted) todos;
                  ids = (if allCompleted then [] else map wi_ID new)
              in (record1\<lparr>ar_Board := board\<lparr>wb_NextTodoID := n, wb_Items := normalizeItemOrder (retained @ new @ omitted)\<rparr>,
                          ar_Compatibility := (ar_Compatibility record)\<lparr>cp_TodoScopes := set_current scope ids scopes\<rparr>\<rparr>, None)))"

definition seedTodoScope :: "AuthorityRecord \<Rightarrow> TodoScope \<Rightarrow> TodoItem list \<Rightarrow> AuthorityRecord \<times> authority_error option" where
  "seedTodoScope record scope todos =
     (if blank (to_SessionID scope) then (record, Some TodoScopeEmptySession)
      else replaceTodos (record\<lparr>ar_Compatibility := (ar_Compatibility record)\<lparr>cp_TodoScopes := cp_TodoScopes (ar_Compatibility record) @ [empty_scope scope]\<rparr>\<rparr>)
        scope todos)"

definition seed_tasks :: "string list \<Rightarrow> TaskRecord list \<Rightarrow> TaskCompatibility list" where
  "seed_tasks known tasks = map (\<lambda>t. taskCompatibilityFromRecord t known) tasks"

definition number_items :: "TaskCompatibility list \<Rightarrow> WorkItem list" where
  "number_items tasks = map (\<lambda>(order, t). workItemFromTask t (int order)) (enumerate 0 tasks)"

definition seedAuthorityRecord ::
  "json_env \<Rightarrow> string \<Rightarrow> string \<Rightarrow> TaskManagerSnapshot \<Rightarrow> TodoScope \<Rightarrow> TodoItem list \<Rightarrow> authority_error + AuthorityRecord"
where
  "seedAuthorityRecord js sessionID boardID snapshot leaderScope leaderTodos =
     (if list_ex (\<lambda>t. case t of None \<Rightarrow> True | Some r \<Rightarrow> blank (tr_ID r)) (ms_Tasks snapshot) then Inl (EmptyTaskID 0)
      else
        let records = map the (ms_Tasks snapshot);
            tasks = seed_tasks (map tr_ID records) records;
            record0 =
              \<lparr>ar_Version = AuthorityRecordVersion, ar_SessionID = sessionID, ar_BoardID = boardID,
               ar_Board = \<lparr>wb_Revision = 1, wb_NextTodoID = 0, wb_Items = number_items tasks\<rparr>,
               ar_Compatibility =
                 \<lparr>cp_NextTaskID = (if ms_NextID snapshot \<le> 0 then 1 else ms_NextID snapshot), cp_Tasks = tasks, cp_TodoScopes = []\<rparr>,
               ar_Diagnostics = [], ar_ExecutionLinks = []\<rparr>
        in case seedTodoScope record0 leaderScope leaderTodos of
             (_, Some err) \<Rightarrow> Inl err
           | (record1, None) \<Rightarrow>
               (let record = record1\<lparr>ar_Board := (ar_Board record1)\<lparr>wb_Items := normalizeItemOrder (wb_Items (ar_Board record1))\<rparr>\<rparr> in
                case validateAuthorityRecord js record sessionID of Some err \<Rightarrow> Inl err | None \<Rightarrow> Inr record))"

end
