(* ===== verification/Work_Store.thy ===== *)
theory Work_Store
  imports Work_Record
begin

text \<open>
  The durable store of the work board: the codecs (authority_codec.go), the artifact files
  (secure_store.go) and the store (store.go) under src/engine/internal/workboard.

  A session has three files: the record, the backup and the marker, which is written last and
  makes the other two authoritative.  A file is absent, has content, or is unusable: a link, a
  directory, or a file with other permissions, among them a file that was quarantined.  The disk
  carries the outcomes of the coming writes and reads, so that a definition covers every way they
  can fail.  A write that fails before or at the rename, or whose rollback succeeds, leaves the
  file as it was; a write whose rollback fails is uncertain: the new content or the old one is
  visible, and the marker, or the file itself when there is no marker, may have been quarantined.
  A crash between two writes leaves what a write that fails there leaves.

  The JSON encoders and decoders are arguments.  \<open>reflect.DeepEqual\<close> also compares how Go
  represents a value (nil slices, the monotonic reading of a time); \<open>we_identical\<close> says whether
  the representations agree.  The checks of the directory are one argument.
\<close>

section \<open>Files\<close>

datatype ArtifactKind = ArtifactAuthority | ArtifactMarker | ArtifactBackup

datatype wfile = Absent | Content string | Unusable

datatype write_outcome = WriteOk | WriteFails | WriteUncertain bool bool

record disk =
  dk_Authority :: wfile
  dk_Marker :: wfile
  dk_Backup :: wfile
  dk_writes :: "write_outcome list"
  dk_readFaults :: "bool list"

datatype StoreStage =
    StageBackupEncode | StageAuthorityEncode | StageMarkerEncode | StageMarkerReread | StageInstall | StageFirstMutation

datatype store_error =
    Authority authority_error
  | EncodeFailed ArtifactKind
  | EncodedTooLarge ArtifactKind
  | DecodeFailed ArtifactKind
  | ReadFailed ArtifactKind
  | WriteFailed ArtifactKind
  | DurabilityUncertain ArtifactKind
  | UnsafeArtifact ArtifactKind
  | DirectoryUnsafe
  | HookFailed StoreStage
  | BackupNotOfSeed
  | LineageMismatch
  | VersionMismatch
  | UpgradeLoops
  | BoardChanged
  | VersionTransition
  | InvalidNextBoard
  | InvalidLinkUpgrade
  | RecoveryMismatch
  | RecoveryRejectsLinks
  | RecoveryNeedsFreshBoard

record work_env =
  we_json :: json_env
  we_SessionID :: string
  we_encRecord :: "AuthorityRecord \<Rightarrow> string option"
  we_decRecord :: "string \<Rightarrow> AuthorityRecord option"
  we_encMarker :: "AuthorityMarker \<Rightarrow> string option"
  we_decMarker :: "string \<Rightarrow> AuthorityMarker option"
  we_encBackup :: "LegacyBackup \<Rightarrow> string option"
  we_decBackup :: "string \<Rightarrow> LegacyBackup option"
  we_hook :: "StoreStage \<Rightarrow> bool"
  we_identical :: bool
  we_directory :: bool

definition MaxEncodedJSONBytes :: nat where "MaxEncodedJSONBytes = 4194304"

fun disk_file :: "ArtifactKind \<Rightarrow> disk \<Rightarrow> wfile" where
  "disk_file ArtifactAuthority d = dk_Authority d"
| "disk_file ArtifactMarker d = dk_Marker d"
| "disk_file ArtifactBackup d = dk_Backup d"

fun set_file :: "ArtifactKind \<Rightarrow> wfile \<Rightarrow> disk \<Rightarrow> disk" where
  "set_file ArtifactAuthority f d = d\<lparr>dk_Authority := f\<rparr>"
| "set_file ArtifactMarker f d = d\<lparr>dk_Marker := f\<rparr>"
| "set_file ArtifactBackup f d = d\<lparr>dk_Backup := f\<rparr>"

definition artifact_read :: "ArtifactKind \<Rightarrow> disk \<Rightarrow> (store_error + string) \<times> disk" where
  "artifact_read kind d =
     (let faults = dk_readFaults d; d' = d\<lparr>dk_readFaults := tl faults\<rparr> in
      if faults \<noteq> [] \<and> hd faults then (Inl (ReadFailed kind), d')
      else case disk_file kind d of
        Content data \<Rightarrow> (if MaxEncodedJSONBytes < length data then Inl (EncodedTooLarge kind) else Inr data, d')
      | _ \<Rightarrow> (Inl (ReadFailed kind), d'))"

text \<open>
  The file that \<open>quarantineAfterRollbackFailure\<close> makes unreadable: the marker when there is one,
  otherwise the file itself, as long as it still is the installed one.
\<close>

definition quarantineAfterRollbackFailure :: "ArtifactKind \<Rightarrow> bool \<Rightarrow> disk \<Rightarrow> disk" where
  "quarantineAfterRollbackFailure kind installed d =
     (if kind \<noteq> ArtifactMarker \<and> dk_Marker d = Unusable then d
      else if kind \<noteq> ArtifactMarker \<and> dk_Marker d \<noteq> Absent then d\<lparr>dk_Marker := Unusable\<rparr>
      else if installed then set_file kind Unusable d
      else d)"

definition too_large :: "wfile \<Rightarrow> bool" where
  "too_large f = (case f of Content old \<Rightarrow> MaxEncodedJSONBytes < length old | _ \<Rightarrow> False)"

definition artifact_write :: "ArtifactKind \<Rightarrow> string \<Rightarrow> disk \<Rightarrow> (store_error + unit) \<times> disk" where
  "artifact_write kind data d =
     (if MaxEncodedJSONBytes < length data then (Inl (EncodedTooLarge kind), d)
      else if disk_file kind d = Unusable then (Inl (UnsafeArtifact kind), d)
      else if too_large (disk_file kind d) then (Inl (EncodedTooLarge kind), d)
      else
        let d' = d\<lparr>dk_writes := tl (dk_writes d)\<rparr> in
        case (if dk_writes d = [] then WriteOk else hd (dk_writes d)) of
          WriteOk \<Rightarrow> (Inr (), set_file kind (Content data) d')
        | WriteFails \<Rightarrow> (Inl (WriteFailed kind), d')
        | WriteUncertain visible quarantined \<Rightarrow>
            (let d'' = (if visible then set_file kind (Content data) d' else d') in
             (Inl (DurabilityUncertain kind), if quarantined then quarantineAfterRollbackFailure kind visible d'' else d'')))"

definition artifact_remove :: "ArtifactKind \<Rightarrow> disk \<Rightarrow> (store_error + bool) \<times> disk" where
  "artifact_remove kind d =
     (case disk_file kind d of
        Absent \<Rightarrow> (Inr False, d)
      | Unusable \<Rightarrow> (Inl (UnsafeArtifact kind), d)
      | Content _ \<Rightarrow>
         (let d' = d\<lparr>dk_writes := tl (dk_writes d)\<rparr> in
          if dk_writes d \<noteq> [] \<and> hd (dk_writes d) \<noteq> WriteOk then (Inl (WriteFailed kind), d')
          else (Inr True, set_file kind Absent d')))"

definition IsDurabilityUncertain :: "store_error option \<Rightarrow> bool" where
  "IsDurabilityUncertain err \<longleftrightarrow> (case err of Some (DurabilityUncertain _) \<Rightarrow> True | _ \<Rightarrow> False)"

section \<open>Codecs\<close>

definition encodeAuthorityJSON :: "ArtifactKind \<Rightarrow> string option \<Rightarrow> store_error + string" where
  "encodeAuthorityJSON kind marshalled =
     (case marshalled of
        None \<Rightarrow> Inl (EncodeFailed kind)
      | Some data \<Rightarrow> (if MaxEncodedJSONBytes < length data + 1 then Inl (EncodedTooLarge kind) else Inr (data @ [CHR 0x0A])))"

definition decodeAuthorityJSON :: "ArtifactKind \<Rightarrow> (string \<Rightarrow> 'a option) \<Rightarrow> string \<Rightarrow> store_error + 'a" where
  "decodeAuthorityJSON kind decode data =
     (if MaxEncodedJSONBytes < length data then Inl (EncodedTooLarge kind)
      else case decode data of None \<Rightarrow> Inl (DecodeFailed kind) | Some v \<Rightarrow> Inr v)"

definition EncodeAuthorityRecord :: "work_env \<Rightarrow> AuthorityRecord \<Rightarrow> store_error + string" where
  "EncodeAuthorityRecord env record =
     (case validateAuthorityRecord (we_json env) record (ar_SessionID record) of
        Some err \<Rightarrow> Inl (Authority err)
      | None \<Rightarrow> encodeAuthorityJSON ArtifactAuthority (we_encRecord env record))"

definition DecodeAuthorityRecord :: "work_env \<Rightarrow> string \<Rightarrow> store_error + AuthorityRecord" where
  "DecodeAuthorityRecord env data =
     (case decodeAuthorityJSON ArtifactAuthority (we_decRecord env) data of
        Inl err \<Rightarrow> Inl err
      | Inr record \<Rightarrow>
         (case validateAuthorityRecord (we_json env) record (we_SessionID env) of
            Some err \<Rightarrow> Inl (Authority err)
          | None \<Rightarrow> Inr record))"

definition EncodeAuthorityMarker :: "work_env \<Rightarrow> AuthorityMarker \<Rightarrow> store_error + string" where
  "EncodeAuthorityMarker env marker =
     (case validateAuthorityMarker marker (am_SessionID marker) of
        Some err \<Rightarrow> Inl (Authority err)
      | None \<Rightarrow> encodeAuthorityJSON ArtifactMarker (we_encMarker env marker))"

definition DecodeAuthorityMarker :: "work_env \<Rightarrow> string \<Rightarrow> store_error + AuthorityMarker" where
  "DecodeAuthorityMarker env data =
     (case decodeAuthorityJSON ArtifactMarker (we_decMarker env) data of
        Inl err \<Rightarrow> Inl err
      | Inr marker \<Rightarrow>
         (case validateAuthorityMarker marker (we_SessionID env) of
            Some err \<Rightarrow> Inl (Authority err)
          | None \<Rightarrow> Inr marker))"

definition EncodeLegacyBackup :: "work_env \<Rightarrow> LegacyBackup \<Rightarrow> store_error + string" where
  "EncodeLegacyBackup env backup =
     (case validateLegacyBackup (we_json env) backup (lb_SessionID backup) of
        Some err \<Rightarrow> Inl (Authority err)
      | None \<Rightarrow> encodeAuthorityJSON ArtifactBackup (we_encBackup env backup))"

definition DecodeLegacyBackup :: "work_env \<Rightarrow> string \<Rightarrow> store_error + LegacyBackup" where
  "DecodeLegacyBackup env data =
     (case decodeAuthorityJSON ArtifactBackup (we_decBackup env) data of
        Inl err \<Rightarrow> Inl err
      | Inr backup \<Rightarrow>
         (case validateLegacyBackup (we_json env) backup (we_SessionID env) of
            Some err \<Rightarrow> Inl (Authority err)
          | None \<Rightarrow> Inr backup))"

section \<open>Store\<close>

datatype AuthorityState = NoState | LegacyState | WorkBoardState AuthorityRecord LegacyBackup

definition and_then :: "('e + 'a) \<times> 's \<Rightarrow> ('a \<Rightarrow> 's \<Rightarrow> ('e + 'b) \<times> 's) \<Rightarrow> ('e + 'b) \<times> 's" where
  "and_then m f = (case m of (Inl err, d) \<Rightarrow> (Inl err, d) | (Inr x, d) \<Rightarrow> f x d)"

definition marker_v1 :: "work_env \<Rightarrow> AuthorityMarker" where
  "marker_v1 env = \<lparr>am_Version = AuthorityMarkerVersion, am_SessionID = we_SessionID env, am_MinimumReader = MinimumReaderV2\<rparr>"

definition marker_v2 :: "work_env \<Rightarrow> AuthorityMarker" where
  "marker_v2 env = \<lparr>am_Version = AuthorityMarkerVersionV2, am_SessionID = we_SessionID env, am_MinimumReader = MinimumReaderV3\<rparr>"

definition load_files :: "work_env \<Rightarrow> disk \<Rightarrow> (store_error + AuthorityMarker \<times> AuthorityRecord \<times> LegacyBackup) \<times> disk" where
  "load_files env d =
     and_then (artifact_read ArtifactMarker d) (\<lambda>markerData d.
     and_then (DecodeAuthorityMarker env markerData, d) (\<lambda>marker d.
     and_then (artifact_read ArtifactAuthority d) (\<lambda>recordData d.
     and_then (DecodeAuthorityRecord env recordData, d) (\<lambda>record d.
     and_then (artifact_read ArtifactBackup d) (\<lambda>backupData d.
     and_then (DecodeLegacyBackup env backupData, d) (\<lambda>backup d.
       if lb_BoardID backup \<noteq> ar_BoardID record \<or> lb_SessionID backup \<noteq> ar_SessionID record \<or>
          wb_Revision (ar_Board record) < wb_Revision (lb_Board backup)
       then (Inl LineageMismatch, d)
       else (Inr (marker, record, backup), d)))))))"

text \<open>
  A record of version 3 under a marker of version 1 is an upgrade that stopped before its marker:
  the code writes the marker and loads again.  The second load finds the new marker, so two
  rounds are enough; running out of them stands for a recursion that does not end.
\<close>

fun load_rounds :: "nat \<Rightarrow> work_env \<Rightarrow> disk \<Rightarrow> (store_error + AuthorityRecord \<times> LegacyBackup) \<times> disk" where
  "load_rounds 0 env d = (Inl UpgradeLoops, d)"
| "load_rounds (Suc n) env d =
     and_then (load_files env d) (\<lambda>(marker, record, backup) d.
       if am_Version marker = AuthorityMarkerVersion \<and> ar_Version record = AuthorityRecordVersionV3 then
         and_then (EncodeAuthorityMarker env (marker_v2 env), d) (\<lambda>data d.
         and_then (artifact_write ArtifactMarker data d) (\<lambda>_ d. load_rounds n env d))
       else if am_Version marker = AuthorityMarkerVersion \<and> ar_Version record \<noteq> AuthorityRecordVersion \<or>
               am_Version marker = AuthorityMarkerVersionV2 \<and> ar_Version record \<noteq> AuthorityRecordVersionV3
       then (Inl VersionMismatch, d)
       else (Inr (record, backup), d))"

definition loadCommitted :: "work_env \<Rightarrow> disk \<Rightarrow> (store_error + AuthorityRecord \<times> LegacyBackup) \<times> disk" where
  "loadCommitted env d = load_rounds 2 env d"

definition Inspect :: "work_env \<Rightarrow> disk \<Rightarrow> (store_error + AuthorityState) \<times> disk" where
  "Inspect env d =
     (case dk_Marker d of
        Absent \<Rightarrow>
          (if dk_Authority d = Unusable then (Inl (UnsafeArtifact ArtifactAuthority), d)
           else if dk_Backup d = Unusable then (Inl (UnsafeArtifact ArtifactBackup), d)
           else if (dk_Authority d \<noteq> Absent \<or> dk_Backup d \<noteq> Absent) \<and> \<not> we_directory env then (Inl DirectoryUnsafe, d)
           else (Inr LegacyState, d))
      | Unusable \<Rightarrow> (Inl (UnsafeArtifact ArtifactMarker), d)
      | Content _ \<Rightarrow>
          (if \<not> we_directory env then (Inl DirectoryUnsafe, d)
           else and_then (loadCommitted env d) (\<lambda>(record, backup) d. (Inr (WorkBoardState record backup), d))))"

definition stage_fails :: "work_env \<Rightarrow> StoreStage \<Rightarrow> disk \<Rightarrow> (store_error + unit) \<times> disk" where
  "stage_fails env stage d = (if we_hook env stage then Inl (HookFailed stage) else Inr (), d)"

text \<open>The writes of a cutover, in their order; the state of an error is what the code returns with it.\<close>

definition cutover_writes :: "work_env \<Rightarrow> AuthorityRecord \<Rightarrow> LegacyBackup \<Rightarrow> disk \<Rightarrow> (store_error + unit) \<times> disk" where
  "cutover_writes env seed backup d =
     and_then (stage_fails env StageBackupEncode d) (\<lambda>_ d.
     and_then (EncodeLegacyBackup env backup, d) (\<lambda>backupData d.
     and_then (artifact_write ArtifactBackup backupData d) (\<lambda>_ d.
     and_then (stage_fails env StageAuthorityEncode d) (\<lambda>_ d.
     and_then (EncodeAuthorityRecord env seed, d) (\<lambda>recordData d.
       artifact_write ArtifactAuthority recordData d)))))"

definition cutover_marker :: "work_env \<Rightarrow> disk \<Rightarrow> (store_error + string) \<times> disk" where
  "cutover_marker env d = and_then (stage_fails env StageMarkerEncode d) (\<lambda>_ d. (EncodeAuthorityMarker env (marker_v1 env), d))"

definition Cutover :: "work_env \<Rightarrow> AuthorityRecord \<Rightarrow> LegacyBackup \<Rightarrow> disk \<Rightarrow> AuthorityState \<times> store_error option \<times> disk" where
  "Cutover env seed backup d =
     (case validateAuthorityRecord (we_json env) seed (we_SessionID env) of
        Some err \<Rightarrow> (LegacyState, Some (Authority err), d)
      | None \<Rightarrow>
     (case validateLegacyBackup (we_json env) backup (we_SessionID env) of
        Some err \<Rightarrow> (LegacyState, Some (Authority err), d)
      | None \<Rightarrow>
      if \<not> (backupFromRecord seed = backup \<and> we_identical env) then (LegacyState, Some BackupNotOfSeed, d)
      else if \<not> we_directory env then (NoState, Some DirectoryUnsafe, d)
      else case cutover_writes env seed backup d of
        (Inl err, d1) \<Rightarrow> (LegacyState, Some err, d1)
      | (Inr _, d1) \<Rightarrow>
     (case cutover_marker env d1 of
        (Inl err, d2) \<Rightarrow> (LegacyState, Some err, d2)
      | (Inr markerData, d2) \<Rightarrow>
     (case artifact_write ArtifactMarker markerData d2 of
        (Inl err, d3) \<Rightarrow>
          (case Inspect env d3 of
             (Inr (WorkBoardState record b), d4) \<Rightarrow> (WorkBoardState record b, Some err, d4)
           | (_, d4) \<Rightarrow> (LegacyState, Some err, d4))
      | (Inr _, d3) \<Rightarrow>
      if we_hook env StageMarkerReread then (WorkBoardState seed backup, Some (HookFailed StageMarkerReread), d3)
      else case loadCommitted env d3 of
        (Inl err, d4) \<Rightarrow> (WorkBoardState seed backup, Some err, d4)
      | (Inr (record, b), d4) \<Rightarrow>
          (WorkBoardState record b, if we_hook env StageInstall then Some (HookFailed StageInstall) else None, d4)))))"

text \<open>
  The write of a record that may replace another: on an error the code reads back, and returns the
  record with the error when it is the one that is visible.
\<close>

definition write_record :: "work_env \<Rightarrow> AuthorityRecord \<Rightarrow> disk \<Rightarrow> AuthorityRecord option \<times> store_error option \<times> disk" where
  "write_record env next d =
     (case and_then (stage_fails env StageAuthorityEncode d) (\<lambda>_ d. (EncodeAuthorityRecord env next, d)) of
        (Inl err, d) \<Rightarrow> (None, Some err, d)
      | (Inr data, d) \<Rightarrow>
     (case artifact_write ArtifactAuthority data d of
        (Inr _, d) \<Rightarrow> (Some next, None, d)
      | (Inl err, d) \<Rightarrow>
     (case loadCommitted env d of
        (Inr (record, _), d) \<Rightarrow> (if record = next \<and> we_identical env then Some next else None, Some err, d)
      | (Inl _, d) \<Rightarrow> (None, Some err, d))))"

definition with_committed ::
  "work_env \<Rightarrow> disk \<Rightarrow> (AuthorityRecord \<Rightarrow> LegacyBackup \<Rightarrow> disk \<Rightarrow> AuthorityRecord option \<times> store_error option \<times> disk)
   \<Rightarrow> AuthorityRecord option \<times> store_error option \<times> disk"
where
  "with_committed env d f =
     (if \<not> we_directory env then (None, Some DirectoryUnsafe, d)
      else case loadCommitted env d of
        (Inl err, d) \<Rightarrow> (None, Some err, d)
      | (Inr (record, backup), d) \<Rightarrow> f record backup d)"

definition Commit ::
  "work_env \<Rightarrow> string \<Rightarrow> 64 word \<Rightarrow> AuthorityRecord \<Rightarrow> disk \<Rightarrow> AuthorityRecord option \<times> store_error option \<times> disk"
where
  "Commit env expectedBoardID expectedRevision next d =
     with_committed env d (\<lambda>current _ d.
       if ar_BoardID current \<noteq> expectedBoardID \<or> wb_Revision (ar_Board current) \<noteq> expectedRevision then (None, Some BoardChanged, d)
       else if ar_Version current \<noteq> ar_Version next then (None, Some VersionTransition, d)
       else if ar_SessionID next \<noteq> we_SessionID env \<or> ar_BoardID next \<noteq> expectedBoardID \<or>
               wb_Revision (ar_Board next) \<noteq> expectedRevision + 1
       then (None, Some InvalidNextBoard, d)
       else write_record env next d)"

definition UpgradeExecutionLinks ::
  "work_env \<Rightarrow> string \<Rightarrow> 64 word \<Rightarrow> AuthorityRecord \<Rightarrow> disk \<Rightarrow> AuthorityRecord option \<times> store_error option \<times> disk"
where
  "UpgradeExecutionLinks env expectedBoardID expectedRevision next d =
     with_committed env d (\<lambda>current _ d.
       if ar_Version current \<noteq> AuthorityRecordVersion \<or> ar_BoardID current \<noteq> expectedBoardID \<or>
          wb_Revision (ar_Board current) \<noteq> expectedRevision \<or> ar_Version next \<noteq> AuthorityRecordVersionV3 \<or>
          wb_Revision (ar_Board next) \<noteq> expectedRevision + 1
       then (None, Some InvalidLinkUpgrade, d)
       else case and_then (and_then (stage_fails env StageAuthorityEncode d) (\<lambda>_ d. (EncodeAuthorityRecord env next, d)))
                   (artifact_write ArtifactAuthority) of
         (Inl err, d) \<Rightarrow> (None, Some err, d)
       | (Inr _, d) \<Rightarrow>
      (case and_then (and_then (stage_fails env StageMarkerEncode d) (\<lambda>_ d. (EncodeAuthorityMarker env (marker_v2 env), d)))
              (artifact_write ArtifactMarker) of
         (Inl err, d) \<Rightarrow> (Some next, Some err, d)
       | (Inr _, d) \<Rightarrow>
      (case and_then (stage_fails env StageMarkerReread d) (\<lambda>_ d. loadCommitted env d) of
         (Inl err, d) \<Rightarrow> (Some next, Some err, d)
       | (Inr (record, _), d) \<Rightarrow> (Some record, None, d))))"

definition recovered_record :: "work_env \<Rightarrow> LegacyBackup \<Rightarrow> string \<Rightarrow> AuthorityRecord" where
  "recovered_record env backup newBoardID =
     (let board = lb_Board backup in
      \<lparr>ar_Version = AuthorityRecordVersion, ar_SessionID = we_SessionID env, ar_BoardID = newBoardID,
       ar_Board = (if wb_Revision board = 0 then board\<lparr>wb_Revision := 1\<rparr> else board),
       ar_Compatibility = lb_Compatibility backup, ar_Diagnostics = [], ar_ExecutionLinks = []\<rparr>)"

definition Recover ::
  "work_env \<Rightarrow> string \<Rightarrow> 64 word \<Rightarrow> string \<Rightarrow> disk \<Rightarrow> AuthorityRecord option \<times> store_error option \<times> disk"
where
  "Recover env expectedBoardID expectedRevision newBoardID d =
     with_committed env d (\<lambda>current backup d.
       if ar_BoardID current \<noteq> expectedBoardID \<or> wb_Revision (ar_Board current) \<noteq> expectedRevision then (None, Some RecoveryMismatch, d)
       else if ar_Version current = AuthorityRecordVersionV3 then (None, Some RecoveryRejectsLinks, d)
       else if newBoardID = [] \<or> newBoardID = ar_BoardID current then (None, Some RecoveryNeedsFreshBoard, d)
       else write_record env (recovered_record env backup newBoardID) d)"

fun remove_kinds :: "ArtifactKind list \<Rightarrow> nat \<Rightarrow> disk \<Rightarrow> nat \<times> store_error option \<times> disk" where
  "remove_kinds [] removed d = (removed, None, d)"
| "remove_kinds (kind # kinds) removed d =
     (case artifact_remove kind d of
        (Inl err, d) \<Rightarrow> (removed, Some err, d)
      | (Inr didRemove, d) \<Rightarrow> remove_kinds kinds (if didRemove then Suc removed else removed) d)"

definition RemoveOwnedArtifacts :: "work_env \<Rightarrow> disk \<Rightarrow> nat \<times> store_error option \<times> disk" where
  "RemoveOwnedArtifacts env d =
     (if \<not> we_directory env then (0, Some DirectoryUnsafe, d)
      else remove_kinds [ArtifactMarker, ArtifactAuthority, ArtifactBackup] 0 d)"

section \<open>What a disk holds\<close>

definition contents :: "work_env \<Rightarrow> disk \<Rightarrow> AuthorityMarker \<Rightarrow> AuthorityRecord \<Rightarrow> LegacyBackup \<Rightarrow> bool" where
  "contents env d m r b \<longleftrightarrow>
     (\<exists>md. dk_Marker d = Content md \<and> DecodeAuthorityMarker env md = Inr m) \<and>
     (\<exists>rd. dk_Authority d = Content rd \<and> DecodeAuthorityRecord env rd = Inr r) \<and>
     (\<exists>bd. dk_Backup d = Content bd \<and> DecodeLegacyBackup env bd = Inr b) \<and>
     lb_BoardID b = ar_BoardID r \<and> lb_SessionID b = ar_SessionID r \<and> wb_Revision (lb_Board b) \<le> wb_Revision (ar_Board r)"

text \<open>
  \<open>exact\<close>: the versions of marker and record agree.  \<open>holds\<close>: they do, or an upgrade stopped
  before its marker, which the next load completes.
\<close>

definition exact :: "work_env \<Rightarrow> disk \<Rightarrow> AuthorityRecord \<Rightarrow> LegacyBackup \<Rightarrow> bool" where
  "exact env d r b \<longleftrightarrow> (\<exists>m. contents env d m r b \<and> (am_Version m = 1 \<and> ar_Version r = 2 \<or> am_Version m = 2 \<and> ar_Version r = 3))"

definition holds :: "work_env \<Rightarrow> disk \<Rightarrow> AuthorityRecord \<Rightarrow> LegacyBackup \<Rightarrow> bool" where
  "holds env d r b \<longleftrightarrow> exact env d r b \<or> (\<exists>m. contents env d m r b \<and> am_Version m = 1 \<and> ar_Version r = 3)"

definition same_files :: "disk \<Rightarrow> disk \<Rightarrow> bool" where
  "same_files d d' \<longleftrightarrow>
     dk_Authority d' = dk_Authority d \<and> dk_Marker d' = dk_Marker d \<and> dk_Backup d' = dk_Backup d \<and> dk_writes d' = dk_writes d"

text \<open>What was encoded decodes to itself: the law of the JSON codecs on valid UTF-8 text.\<close>

definition record_codec :: "work_env \<Rightarrow> AuthorityRecord \<Rightarrow> bool" where
  "record_codec env r \<longleftrightarrow> (\<forall>data. EncodeAuthorityRecord env r = Inr data \<longrightarrow> DecodeAuthorityRecord env data = Inr r)"

definition backup_codec :: "work_env \<Rightarrow> LegacyBackup \<Rightarrow> bool" where
  "backup_codec env b \<longleftrightarrow> (\<forall>data. EncodeLegacyBackup env b = Inr data \<longrightarrow> DecodeLegacyBackup env data = Inr b)"

definition marker_codec :: "work_env \<Rightarrow> bool" where
  "marker_codec env \<longleftrightarrow>
     we_SessionID env \<noteq> [] \<and>
     (\<forall>m \<in> {marker_v1 env, marker_v2 env}. \<forall>data. EncodeAuthorityMarker env m = Inr data \<longrightarrow> DecodeAuthorityMarker env data = Inr m)"

lemma same_files_refl [simp]: "same_files d d"
  by (simp add: same_files_def)

lemma same_files_trans: "same_files d d' \<Longrightarrow> same_files d' d'' \<Longrightarrow> same_files d d''"
  by (simp add: same_files_def)

lemma contents_same: "same_files d d' \<Longrightarrow> contents env d' m r b = contents env d m r b"
  by (simp add: same_files_def contents_def)

lemma exact_same: "same_files d d' \<Longrightarrow> exact env d' r b = exact env d r b"
  by (simp add: exact_def contents_same)

lemma holds_same: "same_files d d' \<Longrightarrow> holds env d' r b = holds env d r b"
  by (simp add: holds_def exact_same contents_same)

lemma exact_holds: "exact env d r b \<Longrightarrow> holds env d r b"
  by (simp add: holds_def)

lemma decode_length:
  "DecodeAuthorityMarker env data = Inr m \<Longrightarrow> length data \<le> MaxEncodedJSONBytes"
  "DecodeAuthorityRecord env data = Inr r \<Longrightarrow> length data \<le> MaxEncodedJSONBytes"
  "DecodeLegacyBackup env data = Inr b \<Longrightarrow> length data \<le> MaxEncodedJSONBytes"
  by (auto simp: DecodeAuthorityMarker_def DecodeAuthorityRecord_def DecodeLegacyBackup_def decodeAuthorityJSON_def split: if_splits sum.splits)

lemma contents_not_too_large: "contents env d m r b \<Longrightarrow> \<not> too_large (disk_file kind d)"
  by (cases kind) (auto simp: contents_def too_large_def dest: decode_length)

lemma artifact_read_file:
  assumes "disk_file kind d = Content data" "length data \<le> MaxEncodedJSONBytes"
  shows "\<exists>d'. same_files d d' \<and> (artifact_read kind d = (Inr data, d') \<or> artifact_read kind d = (Inl (ReadFailed kind), d'))"
  using assms by (auto simp: artifact_read_def Let_def same_files_def)

lemma artifact_read_same: "artifact_read kind d = (x, d') \<Longrightarrow> same_files d d'"
  by (auto simp: artifact_read_def Let_def same_files_def split: if_splits wfile.splits)

lemma disk_file_same: "same_files d d' \<Longrightarrow> disk_file kind d' = disk_file kind d"
  by (cases kind) (auto simp: same_files_def)

lemma load_files_contents:
  assumes "contents env d m r b"
  shows "\<exists>d'. same_files d d' \<and> (load_files env d = (Inr (m, r, b), d') \<or> (\<exists>k. load_files env d = (Inl (ReadFailed k), d')))"
proof -
  from assms obtain md rd bd where f: "disk_file ArtifactMarker d = Content md" "DecodeAuthorityMarker env md = Inr m"
    "disk_file ArtifactAuthority d = Content rd" "DecodeAuthorityRecord env rd = Inr r"
    "disk_file ArtifactBackup d = Content bd" "DecodeLegacyBackup env bd = Inr b" by (auto simp: contents_def)
  have lin: "\<not> (lb_BoardID b \<noteq> ar_BoardID r \<or> lb_SessionID b \<noteq> ar_SessionID r \<or> wb_Revision (ar_Board r) < wb_Revision (lb_Board b))"
    using assms by (auto simp: contents_def)
  obtain d1 where d1: "same_files d d1"
    "artifact_read ArtifactMarker d = (Inr md, d1) \<or> artifact_read ArtifactMarker d = (Inl (ReadFailed ArtifactMarker), d1)"
    using artifact_read_file [OF f(1) decode_length(1) [OF f(2)]] by blast
  have "disk_file ArtifactAuthority d1 = Content rd" using f(3) disk_file_same [OF d1(1)] by simp
  from artifact_read_file [OF this decode_length(2) [OF f(4)]] obtain d2 where d2: "same_files d1 d2"
    "artifact_read ArtifactAuthority d1 = (Inr rd, d2) \<or> artifact_read ArtifactAuthority d1 = (Inl (ReadFailed ArtifactAuthority), d2)" by blast
  have "disk_file ArtifactBackup d2 = Content bd" using f(5) disk_file_same [OF d1(1)] disk_file_same [OF d2(1)] by simp
  from artifact_read_file [OF this decode_length(3) [OF f(6)]] obtain d3 where d3: "same_files d2 d3"
    "artifact_read ArtifactBackup d2 = (Inr bd, d3) \<or> artifact_read ArtifactBackup d2 = (Inl (ReadFailed ArtifactBackup), d3)" by blast
  have s: "same_files d d2" "same_files d d3" using d1(1) d2(1) d3(1) by (auto intro: same_files_trans)
  show ?thesis using d1(2)
  proof
    assume 1: "artifact_read ArtifactMarker d = (Inr md, d1)"
    show ?thesis using d2(2)
    proof
      assume 2: "artifact_read ArtifactAuthority d1 = (Inr rd, d2)"
      show ?thesis using d3(2) by (elim disjE; intro exI [of _ d3]) (use 1 2 f lin s(2) in \<open>simp_all add: load_files_def and_then_def\<close>)
    qed (use 1 f s(1) in \<open>intro exI [of _ d2], simp add: load_files_def and_then_def\<close>)
  qed (use d1(1) in \<open>intro exI [of _ d1], simp add: load_files_def and_then_def\<close>)
qed

lemma exact_load:
  assumes "exact env d r b"
  shows "\<exists>d'. same_files d d' \<and> (loadCommitted env d = (Inr (r, b), d') \<or> (\<exists>k. loadCommitted env d = (Inl (ReadFailed k), d')))"
proof -
  from assms obtain m where m: "contents env d m r b" "am_Version m = 1 \<and> ar_Version r = 2 \<or> am_Version m = 2 \<and> ar_Version r = 3"
    by (auto simp: exact_def)
  from load_files_contents [OF m(1)] obtain d' where "same_files d d'"
    "load_files env d = (Inr (m, r, b), d') \<or> (\<exists>k. load_files env d = (Inl (ReadFailed k), d'))" by blast
  then show ?thesis using m(2) by (intro exI [of _ d'])
    (auto simp: loadCommitted_def numeral_2_eq_2 and_then_def version_defs)
qed

section \<open>Writes\<close>

definition lineage :: "AuthorityRecord \<Rightarrow> LegacyBackup \<Rightarrow> bool" where
  "lineage r b \<longleftrightarrow> lb_BoardID b = ar_BoardID r \<and> lb_SessionID b = ar_SessionID r \<and> wb_Revision (lb_Board b) \<le> wb_Revision (ar_Board r)"

definition uncertain :: "store_error \<Rightarrow> bool" where
  "uncertain err \<longleftrightarrow> IsDurabilityUncertain (Some err)"

lemma uncertain_simps [simp]:
  "uncertain (DurabilityUncertain k)" "\<not> uncertain (WriteFailed k)" "\<not> uncertain (ReadFailed k)" "\<not> uncertain (UnsafeArtifact k)"
  "\<not> uncertain (EncodedTooLarge k)" "\<not> uncertain (EncodeFailed k)" "\<not> uncertain (Authority e)" "\<not> uncertain (HookFailed s)"
  "\<not> uncertain DirectoryUnsafe" "\<not> uncertain BoardChanged" "\<not> uncertain VersionTransition" "\<not> uncertain InvalidNextBoard"
  "\<not> uncertain InvalidLinkUpgrade" "\<not> uncertain RecoveryMismatch" "\<not> uncertain RecoveryRejectsLinks" "\<not> uncertain RecoveryNeedsFreshBoard"
  "\<not> uncertain BackupNotOfSeed" "\<not> uncertain LineageMismatch" "\<not> uncertain VersionMismatch" "\<not> uncertain UpgradeLoops" "\<not> uncertain (DecodeFailed k)"
  by (auto simp: uncertain_def IsDurabilityUncertain_def)

lemma IsDurabilityUncertain_simps [simp]:
  "IsDurabilityUncertain (Some err) = uncertain err" "\<not> IsDurabilityUncertain None"
  by (auto simp: uncertain_def IsDurabilityUncertain_def)

lemma encode_errors_plain:
  "EncodeAuthorityRecord env r = Inl err \<Longrightarrow> \<not> uncertain err"
  "EncodeAuthorityMarker env m = Inl err \<Longrightarrow> \<not> uncertain err"
  "EncodeLegacyBackup env b = Inl err \<Longrightarrow> \<not> uncertain err"
  by (auto simp: EncodeAuthorityRecord_def EncodeAuthorityMarker_def EncodeLegacyBackup_def encodeAuthorityJSON_def split: option.splits if_splits)

lemma write_record_file:
  assumes "contents env d m r b" "DecodeAuthorityRecord env data = Inr r'" "lineage r' b" "artifact_write ArtifactAuthority data d = (res, d')"
  shows "res = Inr () \<and> contents env d' m r' b \<or>
    (\<exists>err. res = Inl err \<and> \<not> uncertain err \<and> contents env d' m r b) \<or>
    (\<exists>err. res = Inl err \<and> uncertain err \<and> (contents env d' m r b \<or> contents env d' m r' b \<or> dk_Marker d' = Unusable))"
  using assms
  by (auto simp: artifact_write_def Let_def contents_def lineage_def quarantineAfterRollbackFailure_def
    split: if_splits write_outcome.splits)

lemma write_marker_file:
  assumes "contents env d m r b" "DecodeAuthorityMarker env data = Inr m'" "artifact_write ArtifactMarker data d = (res, d')"
  shows "res = Inr () \<and> contents env d' m' r b \<or>
    (\<exists>err. res = Inl err \<and> \<not> uncertain err \<and> contents env d' m r b) \<or>
    (\<exists>err. res = Inl err \<and> uncertain err \<and> (contents env d' m r b \<or> contents env d' m' r b \<or> dk_Marker d' = Unusable))"
  using assms
  by (auto simp: artifact_write_def Let_def contents_def quarantineAfterRollbackFailure_def split: if_splits write_outcome.splits)

lemma decode_valid:
  "DecodeAuthorityMarker env data = Inr m \<Longrightarrow> validateAuthorityMarker m (we_SessionID env) = None"
  "DecodeAuthorityRecord env data = Inr r \<Longrightarrow> validateAuthorityRecord (we_json env) r (we_SessionID env) = None"
  "DecodeLegacyBackup env data = Inr bk \<Longrightarrow> validateLegacyBackup (we_json env) bk (we_SessionID env) = None"
  by (simp_all add: DecodeAuthorityMarker_def DecodeAuthorityRecord_def DecodeLegacyBackup_def split: sum.splits option.splits)

lemma encode_valid:
  "EncodeAuthorityRecord env r = Inr data \<Longrightarrow> validateAuthorityRecord (we_json env) r (ar_SessionID r) = None"
  by (simp add: EncodeAuthorityRecord_def split: option.splits)

lemma marker_decodes:
  assumes "marker_codec env"
  shows "EncodeAuthorityMarker env (marker_v1 env) = Inr data \<Longrightarrow> DecodeAuthorityMarker env data = Inr (marker_v1 env)"
    and "EncodeAuthorityMarker env (marker_v2 env) = Inr data \<Longrightarrow> DecodeAuthorityMarker env data = Inr (marker_v2 env)"
  using assms by (auto simp: marker_codec_def)

lemma load_upgrade:
  assumes "load_files env d = (Inr (m, r, b), d1)" "am_Version m = 1" "ar_Version r = 3" "EncodeAuthorityMarker env (marker_v2 env) = Inr data"
  shows "loadCommitted env d = and_then (artifact_write ArtifactMarker data d1) (\<lambda>_ d. load_rounds (Suc 0) env d)"
  unfolding loadCommitted_def numeral_2_eq_2 load_rounds.simps(2) [of "Suc 0"] using assms
  by (simp add: and_then_def version_defs del: load_rounds.simps)

text \<open>A load gives what the disk holds, and completes an upgrade that stopped before its marker.\<close>

lemma holds_load:
  assumes "holds env d r b" "marker_codec env" "loadCommitted env d = (res, d')"
  shows "res = Inr (r, b) \<and> exact env d' r b \<or>
    (\<exists>err. res = Inl err \<and> \<not> uncertain err \<and> holds env d' r b) \<or>
    (\<exists>err. res = Inl err \<and> uncertain err \<and> (holds env d' r b \<or> dk_Marker d' = Unusable))"
proof (cases "exact env d r b")
  case True
  from exact_load [OF this] show ?thesis using assms(3) True by (auto simp: exact_same exact_holds)
next
  case False
  with assms(1) obtain m where m: "contents env d m r b" "am_Version m = 1" "ar_Version r = 3" by (auto simp: holds_def)
  then have hold: "holds env x r b" if "contents env x m r b" for x using that by (auto simp: holds_def)
  have hold2: "exact env x r b" if "contents env x (marker_v2 env) r b" for x
    using that m(3) by (auto simp: exact_def marker_v2_def version_defs)
  from load_files_contents [OF m(1)] obtain d1 where d1: "same_files d d1"
    "load_files env d = (Inr (m, r, b), d1) \<or> (\<exists>k. load_files env d = (Inl (ReadFailed k), d1))" by blast
  have c1: "contents env d1 m r b" using m(1) d1(1) by (simp add: contents_same)
  show ?thesis using d1(2)
  proof
    assume l: "load_files env d = (Inr (m, r, b), d1)"
    show ?thesis
    proof (cases "EncodeAuthorityMarker env (marker_v2 env)")
      case (Inl err)
      then show ?thesis using l m(2,3) assms(3) c1 hold encode_errors_plain(2)
        by (auto simp: loadCommitted_def numeral_2_eq_2 and_then_def version_defs)
    next
      case (Inr data)
      obtain w d2 where w: "artifact_write ArtifactMarker data d1 = (w, d2)" by fastforce
      have res: "(res, d') = and_then (w, d2) (\<lambda>_ d. load_rounds (Suc 0) env d)"
        using load_upgrade [OF l m(2,3) Inr] assms(3) w by simp
      have step: "w = Inr () \<and> contents env d2 (marker_v2 env) r b \<or>
          (\<exists>err. w = Inl err \<and> \<not> uncertain err \<and> contents env d2 m r b) \<or>
          (\<exists>err. w = Inl err \<and> uncertain err \<and> (contents env d2 m r b \<or> contents env d2 (marker_v2 env) r b \<or> dk_Marker d2 = Unusable))"
        using write_marker_file [OF c1 marker_decodes(2) [OF assms(2) Inr] w] .
      show ?thesis
      proof (cases w)
        case (Inr u)
        then have c2: "contents env d2 (marker_v2 env) r b" using step by auto
        from load_files_contents [OF c2] obtain d3 where "same_files d2 d3"
          "load_files env d2 = (Inr (marker_v2 env, r, b), d3) \<or> (\<exists>k. load_files env d2 = (Inl (ReadFailed k), d3))" by blast
        then show ?thesis using res Inr m(3) hold2 [OF c2]
          by (auto simp: and_then_def version_defs marker_v2_def exact_same exact_holds)
      next
        case (Inl err)
        then show ?thesis using res step hold hold2 exact_holds by (auto simp: and_then_def)
      qed
    qed
  qed (use assms(3) c1 hold in \<open>auto simp: loadCommitted_def numeral_2_eq_2 and_then_def\<close>)
qed

section \<open>Atomicity\<close>

lemma first_error_None: "first_error es = None \<longleftrightarrow> list_all (\<lambda>e. e = None) es"
  by (induction es) (auto simp: first_error_def)

lemma valid_record_facts:
  assumes "validateAuthorityRecord js r sid = None"
  shows "ar_Version r \<in> {2, 3}" "wb_Revision (ar_Board r) \<noteq> 0" "sid \<noteq> [] \<Longrightarrow> ar_SessionID r = sid"
  using assms
  by (auto simp: validateAuthorityRecord_def first_error_None version_defs validateAuthorityIdentity_def split: if_splits)

lemma holds_session: "holds env d r b \<Longrightarrow> we_SessionID env \<noteq> [] \<Longrightarrow> ar_SessionID r = we_SessionID env \<and> lb_SessionID b = we_SessionID env"
  by (auto simp: holds_def exact_def contents_def dest!: decode_valid(2) valid_record_facts(3))

lemma successor_revision:
  fixes x y :: "64 word"
  assumes "x \<le> y" "y + 1 \<noteq> 0"
  shows "x \<le> y + 1"
proof -
  have "y < y + 1" using assms(2) unatSuc [of y] by (simp add: word_less_nat_alt add.commute)
  then show ?thesis using assms(1) by order
qed

lemma next_lineage:
  assumes "holds env d r b" "we_SessionID env \<noteq> []" "ar_BoardID next = ar_BoardID r" "ar_SessionID next = we_SessionID env"
    "wb_Revision (ar_Board next) = wb_Revision (ar_Board r) + 1" "wb_Revision (ar_Board next) \<noteq> 0"
  shows "lineage next b"
proof -
  have "wb_Revision (lb_Board b) \<le> wb_Revision (ar_Board r)" "lb_BoardID b = ar_BoardID r"
    using assms(1) by (auto simp: holds_def exact_def contents_def)
  then show ?thesis using assms holds_session [OF assms(1,2)] successor_revision [of "wb_Revision (lb_Board b)" "wb_Revision (ar_Board r)"]
    by (auto simp: lineage_def)
qed

lemma unusable_load: "dk_Marker d = Unusable \<Longrightarrow> loadCommitted env d = (res, d') \<Longrightarrow> (\<exists>err. res = Inl err) \<and> dk_Marker d' = Unusable"
  by (auto simp: loadCommitted_def numeral_2_eq_2 and_then_def load_files_def artifact_read_def Let_def split: if_splits)

text \<open>Writing a record of the same version over an exact disk is atomic.\<close>

lemma write_record_atomic:
  assumes "exact env d r b" "marker_codec env" "record_codec env next" "lineage next b" "ar_Version next = ar_Version r"
    "write_record env next d = (res, err, d')"
  shows "err = None \<and> res = Some next \<and> exact env d' next b \<or>
    (\<exists>e. err = Some e \<and> \<not> uncertain e \<and> exact env d' r b \<and> (res = None \<or> res = Some next \<and> next = r)) \<or>
    (\<exists>e. err = Some e \<and> uncertain e \<and>
       (exact env d' r b \<and> (res = None \<or> res = Some next \<and> next = r) \<or> exact env d' next b \<and> (res = None \<or> res = Some next) \<or>
        dk_Marker d' = Unusable \<and> res = None))"
proof (cases "and_then (stage_fails env StageAuthorityEncode d) (\<lambda>_ d. (EncodeAuthorityRecord env next, d))")
  case (Pair x d1)
  then have d1: "d1 = d" by (auto simp: and_then_def stage_fails_def split: if_splits)
  show ?thesis
  proof (cases x)
    case (Inl e)
    then have "\<not> uncertain e" using Pair encode_errors_plain(1) by (auto simp: and_then_def stage_fails_def split: if_splits)
    then show ?thesis using assms(1,6) Pair Inl d1 by (auto simp: write_record_def)
  next
    case (Inr data)
    then have "EncodeAuthorityRecord env next = Inr data" using Pair by (auto simp: and_then_def stage_fails_def split: if_splits)
    then have dec: "DecodeAuthorityRecord env data = Inr next" using assms(3) by (simp add: record_codec_def)
    obtain m where m: "contents env d m r b" "am_Version m = 1 \<and> ar_Version r = 2 \<or> am_Version m = 2 \<and> ar_Version r = 3"
      using assms(1) by (auto simp: exact_def)
    have ex: "exact env y r b" if "contents env y m r b" for y using that m(2) by (auto simp: exact_def)
    have ex': "exact env y next b" if "contents env y m next b" for y using that m(2) assms(5) by (auto simp: exact_def)
    obtain w d2 where w: "artifact_write ArtifactAuthority data d = (w, d2)" by fastforce
    note cases = write_record_file [OF m(1) dec assms(4) w]
    show ?thesis
    proof (cases w)
      case (Inr u)
      then show ?thesis using cases ex' assms(6) Pair \<open>x = Inr data\<close> d1 w by (auto simp: write_record_def)
    next
      case (Inl e)
      obtain l d3 where l: "loadCommitted env d2 = (l, d3)" by fastforce
      have out: "err = Some e" "d' = d3" "res = (case l of Inr (record, _) \<Rightarrow> if record = next \<and> we_identical env then Some next else None | Inl _ \<Rightarrow> None)"
        using assms(6) Pair \<open>x = Inr data\<close> d1 w Inl l by (auto simp: write_record_def split: sum.splits)
      have keep: "exact env d3 y b \<and> (l = Inr (y, b) \<or> (\<exists>k. l = Inl (ReadFailed k)))" if "exact env d2 y b" for y
        using exact_load [OF that] l that by (auto simp: exact_same)
      from cases Inl consider "contents env d2 m r b" | "uncertain e" "contents env d2 m next b" | "uncertain e" "dk_Marker d2 = Unusable" by auto
      then show ?thesis
      proof cases
        case 1
        then show ?thesis using keep [OF ex [OF 1]] out by (cases "uncertain e") (auto split: if_splits)
      next
        case 2
        then show ?thesis using keep [OF ex' [OF 2(2)]] out by (auto split: if_splits)
      next
        case 3
        then show ?thesis using unusable_load [OF 3(2) l] out by auto
      qed
    qed
  qed
qed

lemma Commit_outcome:
  assumes "holds env d r b" "marker_codec env" "record_codec env next"
    "Commit env boardID revision next d = (res, err, d')"
  shows "err = None \<and> res = Some next \<and> boardID = ar_BoardID r \<and> revision = wb_Revision (ar_Board r) \<and>
      ar_BoardID next = boardID \<and> wb_Revision (ar_Board next) = revision + 1 \<and> holds env d' next b \<or>
    (\<exists>e. err = Some e \<and> \<not> uncertain e \<and> holds env d' r b \<and> (res = None \<or> res = Some next \<and> next = r)) \<or>
    (\<exists>e. err = Some e \<and> uncertain e \<and> (holds env d' r b \<or> holds env d' next b \<or> dk_Marker d' = Unusable))"
proof (cases "we_directory env")
  case True
  obtain l d1 where l: "loadCommitted env d = (l, d1)" by fastforce
  note cases = holds_load [OF assms(1,2) l]
  show ?thesis
  proof (cases l)
    case (Inl e)
    then show ?thesis using cases assms(4) l True by (auto simp: Commit_def with_committed_def)
  next
    case (Inr x)
    then have x: "x = (r, b)" and ex: "exact env d1 r b" using cases by auto
    show ?thesis
    proof (cases "ar_BoardID r = boardID \<and> wb_Revision (ar_Board r) = revision \<and> ar_Version r = ar_Version next \<and>
        ar_SessionID next = we_SessionID env \<and> ar_BoardID next = boardID \<and> wb_Revision (ar_Board next) = revision + 1")
      case False
      then show ?thesis using assms(4) l Inr x True exact_holds [OF ex]
        by (auto simp: Commit_def with_committed_def split: if_splits)
    next
      case match: True
      then have w: "write_record env next d1 = (res, err, d')" using assms(4) l Inr x True by (simp add: Commit_def with_committed_def)
      show ?thesis
      proof (cases "wb_Revision (ar_Board next) = 0")
        case True
        then have "validateAuthorityRecord (we_json env) next (ar_SessionID next) \<noteq> None" using valid_record_facts(2) by blast
        then have "\<exists>e. err = Some e \<and> \<not> uncertain e \<and> d' = d1 \<and> res = None"
          using w by (auto simp: write_record_def and_then_def stage_fails_def EncodeAuthorityRecord_def split: option.splits if_splits)
        then show ?thesis using exact_holds [OF ex] by auto
      next
        case False
        have "lineage next b" using match False assms(2) by (intro next_lineage [OF exact_holds [OF ex]]) (auto simp: marker_codec_def)
        from write_record_atomic [OF ex assms(2,3) this _ w] show ?thesis using match exact_holds by auto
      qed
    qed
  qed
qed (use assms in \<open>auto simp: Commit_def with_committed_def\<close>)

text \<open>
  C32. A commit compares and swaps, atomically.  When it succeeds, the caller named the board and
  revision the disk held, the new record has the next revision, and the disk now holds it.  When it
  fails with an ordinary error, the disk still holds the old record.  Only when the durability of a
  write is uncertain may the disk hold either, or be quarantined, and then the error says so.
\<close>

theorem Commit_atomic:
  assumes "holds env d r b" "marker_codec env" "record_codec env next"
    "Commit env boardID revision next d = (res, err, d')"
  shows "err = None \<and> res = Some next \<and> boardID = ar_BoardID r \<and> revision = wb_Revision (ar_Board r) \<and>
      ar_BoardID next = boardID \<and> wb_Revision (ar_Board next) = revision + 1 \<and> holds env d' next b \<or>
    err \<noteq> None \<and> \<not> IsDurabilityUncertain err \<and> holds env d' r b \<or>
    IsDurabilityUncertain err \<and> (holds env d' r b \<or> holds env d' next b \<or> dk_Marker d' = Unusable)"
  using Commit_outcome [OF assms] by auto

text \<open>The upgrade writes the record first and the marker last; in between the disk holds the new record.\<close>

lemma Upgrade_outcome:
  assumes "holds env d r b" "marker_codec env" "record_codec env next" "lineage next b"
    "UpgradeExecutionLinks env boardID revision next d = (res, err, d')"
  shows "err = None \<and> res = Some next \<and> holds env d' next b \<or>
    (\<exists>e. err = Some e \<and> \<not> uncertain e \<and> (res = None \<and> holds env d' r b \<or> res = Some next \<and> holds env d' next b)) \<or>
    (\<exists>e. err = Some e \<and> uncertain e)"
proof (cases "we_directory env")
  case True
  obtain l d1 where l: "loadCommitted env d = (l, d1)" by fastforce
  note cases = holds_load [OF assms(1,2) l]
  show ?thesis
  proof (cases l)
    case (Inl e)
    then show ?thesis using cases assms(5) l True by (auto simp: UpgradeExecutionLinks_def with_committed_def)
  next
    case (Inr x)
    then have x: "x = (r, b)" and ex: "exact env d1 r b" using cases by auto
    show ?thesis
    proof (cases "ar_Version r = 2 \<and> ar_BoardID r = boardID \<and> wb_Revision (ar_Board r) = revision \<and> ar_Version next = 3 \<and>
        wb_Revision (ar_Board next) = revision + 1")
      case False
      then show ?thesis using assms(5) l Inr x True exact_holds [OF ex]
        by (auto simp: UpgradeExecutionLinks_def with_committed_def version_defs split: if_splits)
    next
      case match: True
      obtain m where m: "contents env d1 m r b" "am_Version m = 1" using ex match by (auto simp: exact_def)
      have old: "holds env y r b" if "contents env y m r b" for y using that m(2) match by (auto simp: holds_def exact_def)
      have mid: "holds env y next b" if "contents env y m next b" for y using that m(2) match by (auto simp: holds_def)
      have new: "exact env y next b" if "contents env y (marker_v2 env) next b" for y
        using that match by (auto simp: exact_def marker_v2_def version_defs)
      obtain w1 d2 where w1: "and_then (and_then (stage_fails env StageAuthorityEncode d1) (\<lambda>_ d. (EncodeAuthorityRecord env next, d)))
          (artifact_write ArtifactAuthority) = (w1, d2)" by fastforce
      have s1: "w1 = Inr () \<and> contents env d2 m next b \<or> (\<exists>e. w1 = Inl e \<and> \<not> uncertain e \<and> contents env d2 m r b) \<or> (\<exists>e. w1 = Inl e \<and> uncertain e)"
      proof (cases "we_hook env StageAuthorityEncode \<or> (\<exists>e. EncodeAuthorityRecord env next = Inl e)")
        case True
        then show ?thesis using w1 m(1) encode_errors_plain(1) by (auto simp: and_then_def stage_fails_def split: if_splits)
      next
        case False
        then obtain data where data: "EncodeAuthorityRecord env next = Inr data" by (cases "EncodeAuthorityRecord env next") auto
        then have "artifact_write ArtifactAuthority data d1 = (w1, d2)" using w1 False by (simp add: and_then_def stage_fails_def)
        moreover have "DecodeAuthorityRecord env data = Inr next" using data assms(3) by (simp add: record_codec_def)
        ultimately show ?thesis using write_record_file [OF m(1) _ assms(4)] by blast
      qed
      obtain w2 d3 where w2: "and_then (and_then (stage_fails env StageMarkerEncode d2) (\<lambda>_ d. (EncodeAuthorityMarker env (marker_v2 env), d)))
          (artifact_write ArtifactMarker) = (w2, d3)" by fastforce
      have s2: "w2 = Inr () \<and> contents env d3 (marker_v2 env) next b \<or> (\<exists>e. w2 = Inl e \<and> \<not> uncertain e \<and> contents env d3 m next b) \<or> (\<exists>e. w2 = Inl e \<and> uncertain e)"
        if c2: "contents env d2 m next b"
      proof (cases "we_hook env StageMarkerEncode \<or> (\<exists>e. EncodeAuthorityMarker env (marker_v2 env) = Inl e)")
        case True
        then show ?thesis using w2 c2 encode_errors_plain(2) by (auto simp: and_then_def stage_fails_def split: if_splits)
      next
        case False
        then obtain data where data: "EncodeAuthorityMarker env (marker_v2 env) = Inr data" by (cases "EncodeAuthorityMarker env (marker_v2 env)") auto
        then have "artifact_write ArtifactMarker data d2 = (w2, d3)" using w2 False by (simp add: and_then_def stage_fails_def)
        then show ?thesis using write_marker_file [OF c2 marker_decodes(2) [OF assms(2) data]] by blast
      qed
      have out: "UpgradeExecutionLinks env boardID revision next d =
        (case w1 of Inl err \<Rightarrow> (None, Some err, d2) | Inr _ \<Rightarrow> (case w2 of Inl err \<Rightarrow> (Some next, Some err, d3) | Inr _ \<Rightarrow>
          (case and_then (stage_fails env StageMarkerReread d3) (\<lambda>_ d. loadCommitted env d) of
             (Inl err, d) \<Rightarrow> (Some next, Some err, d) | (Inr (record, _), d) \<Rightarrow> (Some record, None, d))))"
        using l Inr x True match w1 w2 by (simp add: UpgradeExecutionLinks_def with_committed_def version_defs split: sum.splits)
      show ?thesis
      proof (cases "w1 = Inr () \<and> w2 = Inr ()")
        case True
        then have e3: "exact env d3 next b" using s1 s2 new by auto
        then show ?thesis using exact_load [OF e3] out True assms(5)
          by (auto simp: and_then_def stage_fails_def exact_holds exact_same holds_same split: if_splits)
      next
        case False
        then show ?thesis using s1 s2 out old mid assms(5) by (cases w1; cases w2) auto
      qed
    qed
  qed
qed (use assms in \<open>auto simp: UpgradeExecutionLinks_def with_committed_def\<close>)

text \<open>A board without items, whose record and successor have one-letter encodings.\<close>

definition demo_record :: "64 word \<Rightarrow> AuthorityRecord" where
  "demo_record revision =
     \<lparr>ar_Version = 2, ar_SessionID = ''s'', ar_BoardID = ''b'', ar_Board = \<lparr>wb_Revision = revision, wb_NextTodoID = 0, wb_Items = []\<rparr>,
      ar_Compatibility = \<lparr>cp_NextTaskID = 1, cp_Tasks = [], cp_TodoScopes = []\<rparr>, ar_Diagnostics = [], ar_ExecutionLinks = []\<rparr>"

definition demo_work_env :: work_env where
  "demo_work_env =
     \<lparr>we_json = \<lparr>js_Valid = (\<lambda>_. True), js_Object = (\<lambda>_. Some [])\<rparr>, we_SessionID = ''s'',
      we_encRecord = (\<lambda>r. if r = demo_record 1 then Some ''1'' else if r = demo_record 2 then Some ''2'' else None),
      we_decRecord = (\<lambda>data. if data = [CHR ''1'', CHR 0x0A] then Some (demo_record 1) else if data = [CHR ''2'', CHR 0x0A] then Some (demo_record 2) else None),
      we_encMarker = (\<lambda>m. if am_Version m = 1 then Some ''M'' else Some ''N''),
      we_decMarker = (\<lambda>data. if data = [CHR ''M'', CHR 0x0A] then Some \<lparr>am_Version = 1, am_SessionID = ''s'', am_MinimumReader = ''workboard/v2''\<rparr>
                       else if data = [CHR ''N'', CHR 0x0A] then Some \<lparr>am_Version = 2, am_SessionID = ''s'', am_MinimumReader = ''workboard/v3''\<rparr> else None),
      we_encBackup = (\<lambda>b. if b = backupFromRecord (demo_record 1) then Some ''B'' else None), we_decBackup = (\<lambda>data. Some (backupFromRecord (demo_record 1))),
      we_hook = (\<lambda>_. False), we_identical = True, we_directory = True\<rparr>"

definition demo_disk :: disk where
  "demo_disk = \<lparr>dk_Authority = Content [CHR ''1'', CHR 0x0A], dk_Marker = Content [CHR ''M'', CHR 0x0A], dk_Backup = Content [CHR ''B'', CHR 0x0A],
     dk_writes = [], dk_readFaults = []\<rparr>"

lemma demo_text: "\<not> blank ''s''" "\<not> blank ''b''" "\<not> too_long ''s''" "\<not> too_long ''b''"
  by code_simp (code_simp, simp_all add: too_long_def MaxFieldBytes_def)

lemma demo_valid:
  "revision \<noteq> 0 \<Longrightarrow> validateAuthorityRecord js (demo_record revision) ''s'' = None"
  "validateLegacyBackup js (backupFromRecord (demo_record 1)) ''s'' = None"
  by (simp_all add: validateAuthorityRecord_def validateLegacyBackup_def backupFromRecord_def demo_record_def first_error_def version_defs
    validateAuthorityIdentity_def demo_text validateBoard_def Let_def firstDependencyCycle_def dependency_edges_def validateCompatibility_def
    task_dependency_count_def check_todo_items_def validateAuthorityDiagnostics_def validateExecutionLinks_def)

lemma demo_distinct: "demo_record 2 \<noteq> demo_record 1"
  by (simp add: demo_record_def)

lemma demo_session [simp]: "ar_SessionID (demo_record revision) = ''s''" "lb_SessionID (backupFromRecord (demo_record revision)) = ''s''"
  by (simp_all add: demo_record_def backupFromRecord_def)

lemma demo_codecs:
  "EncodeAuthorityRecord demo_work_env (demo_record 1) = Inr [CHR ''1'', CHR 0x0A]"
  "EncodeAuthorityRecord demo_work_env (demo_record 2) = Inr [CHR ''2'', CHR 0x0A]"
  "DecodeAuthorityRecord demo_work_env [CHR ''1'', CHR 0x0A] = Inr (demo_record 1)"
  "DecodeAuthorityRecord demo_work_env [CHR ''2'', CHR 0x0A] = Inr (demo_record 2)"
  "EncodeAuthorityMarker demo_work_env (marker_v1 demo_work_env) = Inr [CHR ''M'', CHR 0x0A]"
  "EncodeAuthorityMarker demo_work_env (marker_v2 demo_work_env) = Inr [CHR ''N'', CHR 0x0A]"
  "DecodeAuthorityMarker demo_work_env [CHR ''M'', CHR 0x0A] = Inr (marker_v1 demo_work_env)"
  "DecodeAuthorityMarker demo_work_env [CHR ''N'', CHR 0x0A] = Inr (marker_v2 demo_work_env)"
  "DecodeLegacyBackup demo_work_env [CHR ''B'', CHR 0x0A] = Inr (backupFromRecord (demo_record 1))"
  "EncodeLegacyBackup demo_work_env (backupFromRecord (demo_record 1)) = Inr [CHR ''B'', CHR 0x0A]"
  by (simp_all add: EncodeAuthorityRecord_def DecodeAuthorityRecord_def EncodeAuthorityMarker_def DecodeAuthorityMarker_def
    EncodeLegacyBackup_def DecodeLegacyBackup_def encodeAuthorityJSON_def decodeAuthorityJSON_def validateAuthorityMarker_def marker_v1_def marker_v2_def
    demo_work_env_def demo_valid demo_distinct demo_text version_defs MaxEncodedJSONBytes_def)

lemma demo_codec_laws:
  "marker_codec demo_work_env" "record_codec demo_work_env (demo_record 1)" "record_codec demo_work_env (demo_record 2)"
  "backup_codec demo_work_env (backupFromRecord (demo_record 1))"
  by (simp_all add: marker_codec_def record_codec_def backup_codec_def demo_codecs) (simp add: demo_work_env_def)

lemma demo_holds: "holds demo_work_env demo_disk (demo_record 1) (backupFromRecord (demo_record 1))"
proof -
  have "contents demo_work_env demo_disk (marker_v1 demo_work_env) (demo_record 1) (backupFromRecord (demo_record 1))"
    by (simp add: contents_def demo_disk_def demo_codecs) (simp add: backupFromRecord_def)
  then show ?thesis by (auto simp: holds_def exact_def marker_v1_def version_defs demo_record_def)
qed

theorem Commit_atomic_witness:
  "holds demo_work_env (snd (snd (Commit demo_work_env ''b'' 1 (demo_record 2) demo_disk))) (demo_record 2) (backupFromRecord (demo_record 1))"
proof -
  obtain res err d' where c: "Commit demo_work_env ''b'' 1 (demo_record 2) demo_disk = (res, err, d')" by (metis prod.exhaust)
  have "we_directory demo_work_env" "we_hook demo_work_env = (\<lambda>_. False)" "we_SessionID demo_work_env = ''s''" by (simp_all add: demo_work_env_def)
  then have "fst (snd (Commit demo_work_env ''b'' 1 (demo_record 2) demo_disk)) = None"
    by (simp add: Commit_def with_committed_def loadCommitted_def numeral_2_eq_2 and_then_def load_files_def artifact_read_def Let_def demo_disk_def
      demo_codecs MaxEncodedJSONBytes_def write_record_def stage_fails_def artifact_write_def too_large_def)
      (simp add: demo_record_def backupFromRecord_def marker_v1_def version_defs)
  then show ?thesis using Commit_atomic [OF demo_holds demo_codec_laws(1,3) c] c by simp
qed

section \<open>Cutover\<close>

lemma stage_fails_simps [simp]: "snd (stage_fails env stage d) = d" "fst (stage_fails env stage d) = Inl e \<Longrightarrow> \<not> uncertain e"
  by (auto simp: stage_fails_def split: if_splits)

lemma marker_absent_write:
  "artifact_write kind data d = (res, d') \<Longrightarrow> kind \<noteq> ArtifactMarker \<Longrightarrow> dk_Marker d = Absent \<Longrightarrow> dk_Marker d' = Absent"
  by (cases kind) (auto simp: artifact_write_def Let_def quarantineAfterRollbackFailure_def split: if_splits write_outcome.splits)

lemma disk_file_set [simp]:
  "disk_file k (set_file kind f d) = (if k = kind then f else disk_file k d)" "disk_file k (d\<lparr>dk_writes := ws\<rparr>) = disk_file k d"
  by (cases k; cases kind; simp)+

lemma artifact_write_ok:
  "artifact_write kind data d = (Inr u, d') \<Longrightarrow> disk_file kind d' = Content data \<and> (\<forall>k. k \<noteq> kind \<longrightarrow> disk_file k d' = disk_file k d)"
  by (auto simp: artifact_write_def Let_def simp del: set_file.simps split: if_splits write_outcome.splits)

text \<open>Before the marker, the writes of a cutover leave no marker; when all succeed the files are complete.\<close>

lemma cutover_writes_files:
  assumes "cutover_writes env seed backup d = (res, d')" "dk_Marker d = Absent" "record_codec env seed" "backup_codec env backup"
  shows "dk_Marker d' = Absent"
    and "res = Inr u \<Longrightarrow> (\<exists>rd. dk_Authority d' = Content rd \<and> DecodeAuthorityRecord env rd = Inr seed) \<and>
      (\<exists>bd. dk_Backup d' = Content bd \<and> DecodeLegacyBackup env bd = Inr backup)"
proof -
  show "dk_Marker d' = Absent"
    using assms(1,2) marker_absent_write
    by (auto simp: cutover_writes_def and_then_def stage_fails_def split: if_splits sum.splits prod.splits)
next
  assume ok: "res = Inr u"
  from assms(1) ok obtain bd d1 rd where b: "EncodeLegacyBackup env backup = Inr bd" "artifact_write ArtifactBackup bd d = (Inr (), d1)"
    and r: "EncodeAuthorityRecord env seed = Inr rd" "artifact_write ArtifactAuthority rd d1 = (Inr u, d')"
    by (auto simp: cutover_writes_def and_then_def stage_fails_def split: if_splits sum.splits prod.splits)
  show "(\<exists>rd. dk_Authority d' = Content rd \<and> DecodeAuthorityRecord env rd = Inr seed) \<and>
      (\<exists>bd. dk_Backup d' = Content bd \<and> DecodeLegacyBackup env bd = Inr backup)"
    using artifact_write_ok [OF b(2)] artifact_write_ok [OF r(2)] b(1) r(1) assms(3,4)
    by (fastforce simp: record_codec_def backup_codec_def)
qed

lemma absent_marker_write:
  assumes "dk_Marker d = Absent" "artifact_write ArtifactMarker data d = (res, d')"
  shows "dk_Authority d' = dk_Authority d \<and> dk_Backup d' = dk_Backup d \<and>
    (res = Inr () \<and> dk_Marker d' = Content data \<or>
     (\<exists>e. res = Inl e \<and> dk_Marker d' = Absent) \<or>
     (\<exists>e. res = Inl e \<and> uncertain e \<and> dk_Marker d' \<in> {Content data, Unusable}))"
  using assms by (auto simp: artifact_write_def Let_def quarantineAfterRollbackFailure_def split: if_splits write_outcome.splits)

lemma Cutover_outcome:
  assumes "dk_Marker d = Absent" "marker_codec env" "record_codec env seed" "backup_codec env backup"
    "ar_Version seed = AuthorityRecordVersion" "Cutover env seed backup d = (st, err, d')"
  shows "dk_Marker d' = Absent \<and> err \<noteq> None \<and> st \<in> {NoState, LegacyState} \<or>
    exact env d' seed backup \<and> st = WorkBoardState seed backup \<or>
    IsDurabilityUncertain err \<and> (exact env d' seed backup \<or> dk_Marker d' = Unusable) \<and> st = LegacyState"
proof (cases "validateAuthorityRecord (we_json env) seed (we_SessionID env) = None \<and> validateLegacyBackup (we_json env) backup (we_SessionID env) = None
    \<and> backupFromRecord seed = backup \<and> we_identical env \<and> we_directory env")
  case False
  then show ?thesis using assms(1,6) by (auto simp: Cutover_def split: option.splits if_splits)
next
  case True
  obtain w d1 where w: "cutover_writes env seed backup d = (w, d1)" by fastforce
  note files = cutover_writes_files [OF w assms(1,3,4)]
  obtain cm d2 where cm: "cutover_marker env d1 = (cm, d2)" by fastforce
  then have d2: "d2 = d1" by (auto simp: cutover_marker_def and_then_def stage_fails_def split: if_splits)
  show ?thesis
  proof (cases "\<exists>u data. w = Inr u \<and> cm = Inr data")
    case False
    then show ?thesis using assms(6) True w cm d2 files(1) by (auto simp: Cutover_def split: sum.splits)
  next
    case both: True
    then obtain data where wi: "w = Inr ()" and ci: "cm = Inr data" by auto
    have dec: "DecodeAuthorityMarker env data = Inr (marker_v1 env)"
      using cm ci assms(2) marker_decodes(1) by (auto simp: cutover_marker_def and_then_def stage_fails_def split: if_splits)
    have "lineage seed backup" using True by (auto simp: lineage_def backupFromRecord_def)
    then have ex: "exact env y seed backup" if "dk_Marker y = Content data" "dk_Authority y = dk_Authority d1" "dk_Backup y = dk_Backup d1" for y
      using that files(2) [OF wi] dec assms(5) by (auto simp: exact_def contents_def lineage_def marker_v1_def version_defs)
    obtain mw d3 where mw: "artifact_write ArtifactMarker data d1 = (mw, d3)" by fastforce
    note m = absent_marker_write [OF files(1) mw]
    show ?thesis
    proof (cases mw)
      case (Inr u)
      then have e3: "exact env d3 seed backup" using m ex by auto
      then show ?thesis using exact_load [OF e3] assms(6) True w wi cm ci d2 mw Inr
        by (auto simp: Cutover_def exact_same split: if_splits)
    next
      case (Inl e)
      obtain ins d4 where ins: "Inspect env d3 = (ins, d4)" by fastforce
      have out: "d' = d4" "err = Some e" "st = (case ins of Inr (WorkBoardState r b) \<Rightarrow> WorkBoardState r b | _ \<Rightarrow> LegacyState)"
        using assms(6) True w wi cm ci d2 mw Inl ins by (auto simp: Cutover_def split: sum.splits AuthorityState.splits)
      from m Inl consider "dk_Marker d3 = Absent" | "uncertain e" "dk_Marker d3 = Unusable"
        | "uncertain e" "dk_Marker d3 = Content data" by auto
      then show ?thesis
      proof cases
        case 3
        then have e3: "exact env d3 seed backup" using m ex by auto
        then show ?thesis using exact_load [OF e3] ins out 3 by (auto simp: Inspect_def and_then_def exact_same split: if_splits)
      qed (use ins out in \<open>auto simp: Inspect_def split: if_splits\<close>)
    qed
  qed
qed

text \<open>
  A cutover is atomic: whatever fails, and wherever the process stops, there is either no
  marker, and the session still runs on its old state, or the disk holds the complete seed with its
  backup.  The caller is told which, unless the durability of the marker is uncertain, and then the
  error says so; a cutover without error has committed the seed.
\<close>

lemma Cutover_atomic:
  assumes "dk_Marker d = Absent" "marker_codec env" "record_codec env seed" "backup_codec env backup"
    "ar_Version seed = AuthorityRecordVersion" "Cutover env seed backup d = (st, err, d')"
  shows "dk_Marker d' = Absent \<and> err \<noteq> None \<and> st \<in> {NoState, LegacyState} \<or>
    exact env d' seed backup \<and> st = WorkBoardState seed backup \<or>
    IsDurabilityUncertain err \<and> (exact env d' seed backup \<or> dk_Marker d' = Unusable) \<and> st = LegacyState"
  using assms by (rule Cutover_outcome)

definition empty_disk :: disk where
  "empty_disk = \<lparr>dk_Authority = Absent, dk_Marker = Absent, dk_Backup = Absent, dk_writes = [WriteOk, WriteOk, WriteFails], dk_readFaults = []\<rparr>"

lemma Cutover_atomic_witness:
  "dk_Marker empty_disk = Absent \<and>
   (case Cutover demo_work_env (demo_record 1) (backupFromRecord (demo_record 1)) empty_disk of (st, err, d') \<Rightarrow>
      dk_Marker d' = Absent \<and> err \<noteq> None \<and> st \<in> {NoState, LegacyState} \<or>
      exact demo_work_env d' (demo_record 1) (backupFromRecord (demo_record 1)) \<and> st = WorkBoardState (demo_record 1) (backupFromRecord (demo_record 1)) \<or>
      IsDurabilityUncertain err \<and> (exact demo_work_env d' (demo_record 1) (backupFromRecord (demo_record 1)) \<or> dk_Marker d' = Unusable) \<and> st = LegacyState)"
proof -
  obtain st err d' where c: "Cutover demo_work_env (demo_record 1) (backupFromRecord (demo_record 1)) empty_disk = (st, err, d')" by (metis prod.exhaust)
  have "dk_Marker empty_disk = Absent" "ar_Version (demo_record 1) = AuthorityRecordVersion"
    by (simp_all add: empty_disk_def demo_record_def version_defs)
  then show ?thesis using Cutover_atomic [OF _ demo_codec_laws(1,2,4) _ c] c by simp
qed

section \<open>Recovery\<close>

text \<open>
  A recovery writes a record with a new board identity beside a backup that keeps the old one.
  Every later load rejects the pair, so no commit succeeds again.
\<close>

lemma lineage_rejected:
  assumes "dk_Marker d = Content md" "DecodeAuthorityMarker env md = Inr m" "dk_Authority d = Content rd" "DecodeAuthorityRecord env rd = Inr r"
    "dk_Backup d = Content bd" "DecodeLegacyBackup env bd = Inr b" "lb_BoardID b \<noteq> ar_BoardID r"
  shows "\<exists>err d'. loadCommitted env d = (Inl err, d')"
  using assms decode_length
  by (auto simp: loadCommitted_def numeral_2_eq_2 and_then_def load_files_def artifact_read_def Let_def not_less [symmetric])

lemma recovery_bricks_store:
  assumes "holds env d r b" "marker_codec env" "Recover env boardID revision newBoardID d = (Some r', None, d')" "record_codec env r'"
  shows "\<exists>err. fst (loadCommitted env d') = Inl err" "fst (snd (Commit env boardID' revision' next d')) \<noteq> None"
proof -
  have dir: "we_directory env" using assms(3) by (auto simp: Recover_def with_committed_def split: if_splits)
  obtain l d1 where l: "loadCommitted env d = (l, d1)" by fastforce
  then have li: "l = Inr (r, b)" and ex: "exact env d1 r b"
    using holds_load [OF assms(1,2) l] assms(3) dir by (auto simp: Recover_def with_committed_def)
  have fresh: "newBoardID \<noteq> ar_BoardID r"
    and x: "write_record env (recovered_record env b newBoardID) d1 = (Some r', None, d')"
    using assms(3) dir l li by (auto simp: Recover_def with_committed_def split: if_splits)
  from x obtain data where data: "EncodeAuthorityRecord env r' = Inr data" "artifact_write ArtifactAuthority data d1 = (Inr (), d')" "recovered_record env b newBoardID = r'"
    by (auto simp: write_record_def and_then_def stage_fails_def split: if_splits sum.splits prod.splits)
  obtain m md bd where f: "dk_Marker d1 = Content md" "DecodeAuthorityMarker env md = Inr m" "dk_Backup d1 = Content bd"
    "DecodeLegacyBackup env bd = Inr b" "lb_BoardID b = ar_BoardID r" using ex by (auto simp: exact_def contents_def)
  note files = artifact_write_ok [OF data(2)]
  have "dk_Marker d' = Content md" "dk_Backup d' = Content bd" "dk_Authority d' = Content data"
    using files f disk_file.simps by (metis ArtifactKind.distinct(1,3))+
  then have "\<exists>err d''. loadCommitted env d' = (Inl err, d'')"
    using f data assms(4) fresh by (intro lineage_rejected [of d' md env m data r' bd b]) (auto simp: record_codec_def recovered_record_def Let_def)
  then show "\<exists>err. fst (loadCommitted env d') = Inl err" "fst (snd (Commit env boardID' revision' next d')) \<noteq> None"
    using dir by (auto simp: Commit_def with_committed_def)
qed

end
