(* ===== verification/Work_Adapter.thy ===== *)
theory Work_Adapter
  imports Work_Store
begin

text \<open>
  The adapter between the task and todo tools and the durable board
  (src/engine/internal/workboard/adapter.go), with the projection it keeps in memory
  (projection.go).  An operation runs under the adapter's lock, so it is a function of the adapter
  and the disk.  The adapter starts on the legacy state of the task manager; its first mutation
  cuts over to the durable board, and from then on every mutation is a commit of the next
  revision.  When the durability of a write is uncertain the adapter refuses mutations until it is
  made again from the disk.

  The clock, new board identities, the admission gate of session deletion, the settlement of
  executions and the test seam of the projection swap are arguments.
\<close>

section \<open>Projection\<close>

record ProjectionReducer =
  pr_record :: "AuthorityRecord option"
  pr_diagnostics :: "(64 word \<times> string) list"
  pr_sequence :: "64 word"

datatype projection_error =
    InvalidProjected authority_error
  | BootstrapBoardMismatch
  | BootstrapRegression
  | BootstrapContentMismatch
  | ReserveBeforeBootstrap
  | ReserveMismatch
  | ReserveInvalidNext

definition NewProjectionReducer :: ProjectionReducer where
  "NewProjectionReducer = \<lparr>pr_record = None, pr_diagnostics = [], pr_sequence = 0\<rparr>"

definition diagnose :: "string \<Rightarrow> ProjectionReducer \<Rightarrow> ProjectionReducer" where
  "diagnose message p =
     p\<lparr>pr_sequence := pr_sequence p + 1,
       pr_diagnostics := (if length (pr_diagnostics p) = 128 then tl (pr_diagnostics p) else pr_diagnostics p) @ [(pr_sequence p + 1, message)]\<rparr>"

definition Bootstrap :: "json_env \<Rightarrow> AuthorityRecord \<Rightarrow> ProjectionReducer \<Rightarrow> projection_error option \<times> ProjectionReducer" where
  "Bootstrap js record p =
     (case validateAuthorityRecord js record (ar_SessionID record) of
        Some err \<Rightarrow> (Some (InvalidProjected err), p)
      | None \<Rightarrow>
     (case pr_record p of
        None \<Rightarrow> (None, p\<lparr>pr_record := Some record\<rparr>)
      | Some current \<Rightarrow>
         (if ar_BoardID current \<noteq> ar_BoardID record then (Some BootstrapBoardMismatch, diagnose ''projection bootstrap BoardID mismatch'' p)
          else if wb_Revision (ar_Board record) < wb_Revision (ar_Board current)
          then (Some BootstrapRegression, diagnose ''projection bootstrap revision regression'' p)
          else if wb_Revision (ar_Board record) = wb_Revision (ar_Board current) then
            (if current \<noteq> record then (Some BootstrapContentMismatch, diagnose ''projection bootstrap same-revision content mismatch'' p)
             else (None, p))
          else (None, p\<lparr>pr_record := Some record\<rparr>))))"

definition reserve ::
  "json_env \<Rightarrow> string \<Rightarrow> 64 word \<Rightarrow> AuthorityRecord \<Rightarrow> ProjectionReducer \<Rightarrow> projection_error option \<times> ProjectionReducer"
where
  "reserve js expectedBoardID expectedRevision next p =
     (case pr_record p of
        None \<Rightarrow> (Some ReserveBeforeBootstrap, diagnose ''projection reservation before bootstrap'' p)
      | Some current \<Rightarrow>
         (if ar_BoardID current \<noteq> expectedBoardID \<or> wb_Revision (ar_Board current) \<noteq> expectedRevision
          then (Some ReserveMismatch, diagnose ''projection reservation identity or revision mismatch'' p)
          else if ar_BoardID next \<noteq> expectedBoardID \<or> wb_Revision (ar_Board next) \<noteq> expectedRevision + 1
          then (Some ReserveInvalidNext, diagnose ''projection reservation invalid next identity or revision'' p)
          else case validateAuthorityRecord js next (ar_SessionID next) of
            Some err \<Rightarrow> (Some (InvalidProjected err), diagnose ''projection reservation invalid authority record'' p)
          | None \<Rightarrow> (None, p)))"

section \<open>Adapter\<close>

datatype AuthorityMode = AuthorityModeLegacy | AuthorityModeWorkBoard

datatype TaskLifecyclePhase = TaskLifecycleCreated | TaskLifecycleUpdated | TaskLifecycleStopped

record TaskLifecycleEvent =
  te_Phase :: TaskLifecyclePhase
  te_Task :: "TaskRecord option"
  te_UpdatedFields :: "string list"

datatype mutation_error = UncertainWrite store_error | ProjectionUncertain

datatype adapter_error =
    DeletionBlocksMutation
  | MutationsQuarantined mutation_error
  | StoreError store_error
  | ProjectionError projection_error
  | CommittedProjectionUncertain
  | InvalidRecord authority_error
  | TaskNotFound string
  | TaskHasNoItem string
  | MissingTodoItem string
  | LinkBoardMismatch
  | LinkConflict
  | LinkItemNotOpen
  | LinkLimit
  | NoSettlementSnapshot
  | SettlementFailed
  | DuplicateSettlement
  | UnsettledExecution
  | DataLossNotAcknowledged
  | RecoveryIdentityMismatch
  | OperationFailed
  | ChangedDuringLifecycle
  | MarkerDisappeared
  | ForkSourceChanged
  | ForkNeedsFreshBoard
  | EmptyTodoScope

record LogicalWork =
  lw_mode :: AuthorityMode
  lw_record :: AuthorityRecord
  lw_backup :: LegacyBackup
  lw_events :: "TaskLifecycleEvent list"
  lw_mutationErr :: "mutation_error option"
  lw_projection :: ProjectionReducer

type_synonym settlement_key = "string \<times> 64 word"

record ExecutionSettlement =
  es_Key :: settlement_key
  es_Settled :: bool
  es_Reserved :: bool
  es_Live :: bool
  es_CancelPending :: bool
  es_Unresolved :: bool

record adapter_env =
  ae_store :: work_env
  ae_now :: int
  ae_newBoardID :: string
  ae_admitted :: bool
  ae_swapFails :: bool
  ae_settlement :: "(settlement_key list \<Rightarrow> ExecutionSettlement list option) option"

definition ae_json :: "adapter_env \<Rightarrow> json_env" where
  "ae_json env = we_json (ae_store env)"

definition ae_SessionID :: "adapter_env \<Rightarrow> string" where
  "ae_SessionID env = we_SessionID (ae_store env)"

definition mutationStateReadyLocked :: "LogicalWork \<Rightarrow> adapter_error option" where
  "mutationStateReadyLocked a = map_option MutationsQuarantined (lw_mutationErr a)"

definition mutationReadyLocked :: "adapter_env \<Rightarrow> LogicalWork \<Rightarrow> adapter_error option" where
  "mutationReadyLocked env a = (if \<not> ae_admitted env then Some DeletionBlocksMutation else mutationStateReadyLocked a)"

definition note_uncertain :: "store_error option \<Rightarrow> LogicalWork \<Rightarrow> LogicalWork" where
  "note_uncertain err a =
     (case err of Some e \<Rightarrow> (if uncertain e then a\<lparr>lw_mutationErr := Some (UncertainWrite e)\<rparr> else a) | None \<Rightarrow> a)"

definition acceptCommitLocked :: "AuthorityRecord option \<Rightarrow> store_error option \<Rightarrow> LogicalWork \<Rightarrow> LogicalWork" where
  "acceptCommitLocked committed err a =
     note_uncertain err (case committed of Some record \<Rightarrow> a\<lparr>lw_record := record\<rparr> | None \<Rightarrow> a)"

definition ensureAuthoritativeLocked :: "adapter_env \<Rightarrow> LogicalWork \<Rightarrow> disk \<Rightarrow> adapter_error option \<times> LogicalWork \<times> disk" where
  "ensureAuthoritativeLocked env a d =
     (case mutationReadyLocked env a of
        Some err \<Rightarrow> (Some err, a, d)
      | None \<Rightarrow>
      if lw_mode a = AuthorityModeWorkBoard then (None, a, d)
      else case Cutover (ae_store env) (lw_record a) (backupFromRecord (lw_record a)) d of
        (WorkBoardState record backup, err, d') \<Rightarrow>
          (let a1 = a\<lparr>lw_mode := AuthorityModeWorkBoard, lw_record := record, lw_backup := backup\<rparr> in
           case Bootstrap (ae_json env) record (lw_projection a1) of
             (Some e, p) \<Rightarrow> (Some (ProjectionError e), a1\<lparr>lw_projection := p\<rparr>, d')
           | (None, p) \<Rightarrow>
              (let a2 = a1\<lparr>lw_projection := p\<rparr> in
               case err of
                 Some e \<Rightarrow> (Some (StoreError e), note_uncertain err a2, d')
               | None \<Rightarrow> (if we_hook (ae_store env) StageFirstMutation then Some (StoreError (HookFailed StageFirstMutation)) else None, a2, d')))
      | (_, err, d') \<Rightarrow>
          (case err of
             Some e \<Rightarrow> (Some (StoreError e), note_uncertain err a, d')
           | None \<Rightarrow> (if we_hook (ae_store env) StageFirstMutation then Some (StoreError (HookFailed StageFirstMutation)) else None, a, d')))"

text \<open>The steps after the board is authoritative: bootstrap, reserve, write, accept, swap.\<close>

definition project_and_write ::
  "adapter_env \<Rightarrow> (string \<Rightarrow> 64 word \<Rightarrow> AuthorityRecord \<Rightarrow> disk \<Rightarrow> AuthorityRecord option \<times> store_error option \<times> disk)
   \<Rightarrow> AuthorityRecord \<Rightarrow> LogicalWork \<Rightarrow> disk \<Rightarrow> adapter_error option \<times> LogicalWork \<times> disk"
where
  "project_and_write env store_op next a d =
     (let boardID = ar_BoardID (lw_record a); revision = wb_Revision (ar_Board (lw_record a)) in
      case Bootstrap (ae_json env) (lw_record a) (lw_projection a) of
        (Some e, p) \<Rightarrow> (Some (ProjectionError e), a\<lparr>lw_projection := p\<rparr>, d)
      | (None, p1) \<Rightarrow>
     (case reserve (ae_json env) boardID revision next p1 of
        (Some e, p) \<Rightarrow> (Some (ProjectionError e), a\<lparr>lw_projection := p\<rparr>, d)
      | (None, p2) \<Rightarrow>
     (case store_op boardID revision next d of
        (committed, err, d') \<Rightarrow>
          (let a' = acceptCommitLocked committed err (a\<lparr>lw_projection := p2\<rparr>) in
           case err of
             Some e \<Rightarrow> (Some (StoreError e), a', d')
           | None \<Rightarrow>
              (if ae_swapFails env then (Some CommittedProjectionUncertain, a'\<lparr>lw_mutationErr := Some ProjectionUncertain\<rparr>, d')
               else (None, a'\<lparr>lw_projection := p2\<lparr>pr_record := Some next\<rparr>\<rparr>, d'))))))"

definition commitProjectedLocked :: "adapter_env \<Rightarrow> AuthorityRecord \<Rightarrow> LogicalWork \<Rightarrow> disk \<Rightarrow> adapter_error option \<times> LogicalWork \<times> disk" where
  "commitProjectedLocked env next a d =
     (case ensureAuthoritativeLocked env a d of
        (Some err, a1, d1) \<Rightarrow> (Some err, a1, d1)
      | (None, a1, d1) \<Rightarrow> project_and_write env (Commit (ae_store env)) next a1 d1)"

section \<open>The guard on linked items\<close>

definition terminalized :: "AuthorityRecord \<Rightarrow> AuthorityRecord \<Rightarrow> string list" where
  "terminalized current next =
     map wi_ID (filter (\<lambda>i. case item_by_id (wb_Items (ar_Board current)) (wi_ID i) of
                          None \<Rightarrow> False
                        | Some prior \<Rightarrow> \<not> isTerminalStatus (wi_Status prior) \<and> isTerminalStatus (wi_Status i)) (wb_Items (ar_Board next)))"

definition linked_keys :: "AuthorityRecord \<Rightarrow> string list \<Rightarrow> settlement_key list" where
  "linked_keys current ids =
     map (\<lambda>l. (el_AgentID l, el_Generation l))
       (filter (\<lambda>l. el_BoardID l = ar_BoardID current \<and> el_WorkItemID l \<in> set ids) (ar_ExecutionLinks current))"

definition settled :: "ExecutionSettlement \<Rightarrow> bool" where
  "settled s \<longleftrightarrow> es_Settled s \<and> \<not> es_Reserved s \<and> \<not> es_Live s \<and> \<not> es_CancelPending s \<and> \<not> es_Unresolved s"

definition guardTerminalLinksLocked :: "adapter_env \<Rightarrow> AuthorityRecord \<Rightarrow> AuthorityRecord \<Rightarrow> adapter_error option" where
  "guardTerminalLinksLocked env current next =
     (let keys = linked_keys current (terminalized current next) in
      if ar_ExecutionLinks current = [] \<or> terminalized current next = [] \<or> keys = [] then None
      else case ae_settlement env of
        None \<Rightarrow> Some NoSettlementSnapshot
      | Some snapshot \<Rightarrow>
     (case snapshot keys of
        None \<Rightarrow> Some SettlementFailed
      | Some settlements \<Rightarrow>
         (if \<not> distinct (map es_Key settlements) then Some DuplicateSettlement
          else if list_all (\<lambda>k. case find (\<lambda>s. es_Key s = k) settlements of None \<Rightarrow> False | Some s \<Rightarrow> settled s) keys then None
          else Some UnsettledExecution)))"

section \<open>Operations\<close>

definition next_revision :: "AuthorityRecord \<Rightarrow> AuthorityRecord \<Rightarrow> AuthorityRecord" where
  "next_revision current next = next\<lparr>ar_Board := (ar_Board next)\<lparr>wb_Revision := wb_Revision (ar_Board current) + 1\<rparr>\<rparr>"

definition taskLocked :: "adapter_env \<Rightarrow> LogicalWork \<Rightarrow> string \<Rightarrow> TaskRecord option" where
  "taskLocked env a ident =
     (case find (\<lambda>t. tc_ID t = ident) (cp_Tasks (ar_Compatibility (lw_record a))) of
        None \<Rightarrow> None
      | Some t \<Rightarrow> taskRecordFromCompatibility (ae_json env) t)"

definition recordTaskEventLocked :: "TaskLifecyclePhase \<Rightarrow> TaskRecord option \<Rightarrow> string list \<Rightarrow> LogicalWork \<Rightarrow> LogicalWork" where
  "recordTaskEventLocked phase task updatedFields a = a\<lparr>lw_events := lw_events a @ [\<lparr>te_Phase = phase, te_Task = task, te_UpdatedFields = updatedFields\<rparr>]\<rparr>"

text \<open>The common end of a mutation: check the links and the record, then commit.\<close>

definition commit_checked ::
  "adapter_env \<Rightarrow> bool \<Rightarrow> AuthorityRecord \<Rightarrow> LogicalWork \<Rightarrow> disk \<Rightarrow> adapter_error option \<times> LogicalWork \<times> disk"
where
  "commit_checked env guarded next a d =
     (case (if guarded then guardTerminalLinksLocked env (lw_record a) next else None) of
        Some err \<Rightarrow> (Some err, a, d)
      | None \<Rightarrow>
     (case validateAuthorityRecord (ae_json env) next (ae_SessionID env) of
        Some err \<Rightarrow> (Some (InvalidRecord err), a, d)
      | None \<Rightarrow> commitProjectedLocked env next a d))"

definition ReplaceTodos :: "adapter_env \<Rightarrow> TodoScope \<Rightarrow> TodoItem list \<Rightarrow> LogicalWork \<Rightarrow> disk \<Rightarrow> adapter_error option \<times> LogicalWork \<times> disk" where
  "ReplaceTodos env scope todos a d =
     (case mutationReadyLocked env a of
        Some err \<Rightarrow> (Some err, a, d)
      | None \<Rightarrow>
     (case replaceTodos (lw_record a) scope todos of
        (_, Some err) \<Rightarrow> (Some (InvalidRecord err), a, d)
      | (next, None) \<Rightarrow> commit_checked env True (next_revision (lw_record a) next) a d))"

definition new_task :: "adapter_env \<Rightarrow> string \<Rightarrow> string \<Rightarrow> string \<Rightarrow> string \<Rightarrow> tool_input \<Rightarrow> TaskCompatibility" where
  "new_task env ident subject description activeForm metadata =
     \<lparr>tc_ID = ident, tc_Subject = subject, tc_Description = description, tc_ActiveForm = activeForm, tc_LegacyStatus = StatusPending,
      tc_Owner = [], tc_Blocks = [], tc_BlockedBy = [], tc_UnresolvedBlocks = [], tc_UnresolvedBlockedBy = [],
      tc_Metadata = canonicalMetadata metadata, tc_Output = [], tc_CreatedAt = ae_now env, tc_UpdatedAt = ae_now env\<rparr>"

definition created_record :: "AuthorityRecord \<Rightarrow> TaskCompatibility \<Rightarrow> AuthorityRecord" where
  "created_record record task =
     (let items = wb_Items (ar_Board record); payload = ar_Compatibility record in
      next_revision record
        (record\<lparr>ar_Compatibility := payload\<lparr>cp_NextTaskID := cp_NextTaskID payload + 1, cp_Tasks := cp_Tasks payload @ [task]\<rparr>,
                ar_Board := (ar_Board record)\<lparr>wb_Items := normalizeItemOrder (items @ [workItemFromTask task (int (length items))])\<rparr>\<rparr>))"

definition Create ::
  "adapter_env \<Rightarrow> string \<Rightarrow> string \<Rightarrow> string \<Rightarrow> tool_input \<Rightarrow> LogicalWork \<Rightarrow> disk
   \<Rightarrow> (adapter_error + TaskRecord option) \<times> LogicalWork \<times> disk"
where
  "Create env subject description activeForm metadata a d =
     (case mutationReadyLocked env a of
        Some err \<Rightarrow> (Inl err, a, d)
      | None \<Rightarrow>
         (let ident = int_string (cp_NextTaskID (ar_Compatibility (lw_record a)));
              next = created_record (lw_record a) (new_task env ident subject description activeForm metadata) in
          case commit_checked env False next a d of
            (Some err, a', d') \<Rightarrow> (Inl err, a', d')
          | (None, a', d') \<Rightarrow>
             (let task = taskLocked env a' ident in (Inr task, recordTaskEventLocked TaskLifecycleCreated task [] a', d'))))"

definition index_of :: "('a \<Rightarrow> bool) \<Rightarrow> 'a list \<Rightarrow> nat option" where
  "index_of P xs = (let i = length (takeWhile (\<lambda>x. \<not> P x) xs) in if i < length xs then Some i else None)"

text \<open>The item of an updated task; without new dependencies it keeps its references.\<close>

definition updated_item :: "WorkItem \<Rightarrow> TaskCompatibility \<Rightarrow> TaskUpdate \<Rightarrow> string list \<Rightarrow> WorkItem" where
  "updated_item previous task input updatedFields =
     (let item = (workItemFromTask task (wi_Order previous))\<lparr>wi_Revision := wi_Revision previous\<rparr>;
          item1 = (if updatedFields \<noteq> [] \<or> \<not> sameWorkItemContent previous item then item\<lparr>wi_Revision := wi_Revision item + 1\<rparr> else item);
          item2 = (if tu_AddBlocks input = [] then item1\<lparr>wi_Blocks := wi_Blocks previous\<rparr> else item1)
      in if tu_AddBlockedBy input = [] then item2\<lparr>wi_BlockedBy := wi_BlockedBy previous\<rparr> else item2)"

definition updated_record ::
  "adapter_env \<Rightarrow> AuthorityRecord \<Rightarrow> TaskUpdate \<Rightarrow> adapter_error + AuthorityRecord \<times> string list"
where
  "updated_record env record input =
     (let payload = ar_Compatibility record; tasks = cp_Tasks payload; items = wb_Items (ar_Board record) in
      case index_of (\<lambda>t. tc_ID t = tu_TaskID input) tasks of
        None \<Rightarrow> Inl (TaskNotFound (tu_TaskID input))
      | Some ti \<Rightarrow>
     (case index_of (\<lambda>i. sp_Kind (wi_Source i) = ''task'' \<and> sp_LegacyID (wi_Source i) = tu_TaskID input) items of
        None \<Rightarrow> Inl (TaskHasNoItem (tu_TaskID input))
      | Some ii \<Rightarrow>
     (case updateTaskCompatibility (ae_json env) (tasks ! ti) input (map tc_ID tasks) of
        (task0, updatedFields) \<Rightarrow>
          (let task = task0\<lparr>tc_UpdatedAt := ae_now env\<rparr> in
           Inr (next_revision record
                  (record\<lparr>ar_Compatibility := payload\<lparr>cp_Tasks := tasks[ti := task]\<rparr>,
                          ar_Board := (ar_Board record)\<lparr>wb_Items := items[ii := updated_item (items ! ii) task input updatedFields]\<rparr>\<rparr>), updatedFields)))))"

definition updateTaskLocked ::
  "adapter_env \<Rightarrow> TaskUpdate \<Rightarrow> TaskLifecyclePhase \<Rightarrow> LogicalWork \<Rightarrow> disk
   \<Rightarrow> (adapter_error + TaskRecord option \<times> string list) \<times> LogicalWork \<times> disk"
where
  "updateTaskLocked env input phase a d =
     (case mutationReadyLocked env a of
        Some err \<Rightarrow> (Inl err, a, d)
      | None \<Rightarrow>
     (case updated_record env (lw_record a) input of
        Inl err \<Rightarrow> (Inl err, a, d)
      | Inr (next, updatedFields) \<Rightarrow>
     (case commit_checked env True next a d of
        (Some err, a', d') \<Rightarrow> (Inl err, a', d')
      | (None, a', d') \<Rightarrow>
         (let task = taskLocked env a' (tu_TaskID input) in
          (Inr (task, updatedFields), if updatedFields \<noteq> [] then recordTaskEventLocked phase task updatedFields a' else a', d')))))"

definition UpdateTask ::
  "adapter_env \<Rightarrow> TaskUpdate \<Rightarrow> LogicalWork \<Rightarrow> disk \<Rightarrow> (adapter_error + TaskRecord option \<times> string list) \<times> LogicalWork \<times> disk"
where
  "UpdateTask env input a d = updateTaskLocked env input TaskLifecycleUpdated a d"

definition StopTask :: "adapter_env \<Rightarrow> string \<Rightarrow> LogicalWork \<Rightarrow> disk \<Rightarrow> (adapter_error + TaskRecord option \<times> string list) \<times> LogicalWork \<times> disk" where
  "StopTask env ident a d =
     updateTaskLocked env
       \<lparr>tu_TaskID = ident, tu_Subject = None, tu_Description = None, tu_ActiveForm = None, tu_Status = Some ''killed'', tu_Owner = None,
        tu_AddBlocks = [], tu_AddBlockedBy = [], tu_Metadata = None, tu_Output = None\<rparr>
       TaskLifecycleStopped a d"

record AdmitExecutionLinkRequest =
  rq_Link :: ExecutionLink
  rq_BoardRevision :: "64 word"

definition linked_record :: "AuthorityRecord \<Rightarrow> ExecutionLink \<Rightarrow> AuthorityRecord" where
  "linked_record record link =
     next_revision record (record\<lparr>ar_Version := AuthorityRecordVersionV3, ar_ExecutionLinks := ar_ExecutionLinks record @ [link]\<rparr>)"

definition AdmitExecutionLink ::
  "adapter_env \<Rightarrow> AdmitExecutionLinkRequest \<Rightarrow> LogicalWork \<Rightarrow> disk \<Rightarrow> adapter_error option \<times> LogicalWork \<times> disk"
where
  "AdmitExecutionLink env request a d =
     (let record = lw_record a; link = (rq_Link request)\<lparr>el_Actor := ''agent_launch_admission''\<rparr> in
      case mutationReadyLocked env a of
        Some err \<Rightarrow> (Some err, a, d)
      | None \<Rightarrow>
      if lw_mode a \<noteq> AuthorityModeWorkBoard \<or> el_BoardID link \<noteq> ar_BoardID record then (Some LinkBoardMismatch, a, d)
      else case find (\<lambda>l. el_AgentID l = el_AgentID link \<and> el_Generation l = el_Generation link) (ar_ExecutionLinks record) of
        Some existing \<Rightarrow> (if existing = link then None else Some LinkConflict, a, d)
      | None \<Rightarrow>
         (if rq_BoardRevision request \<noteq> wb_Revision (ar_Board record) then (Some LinkBoardMismatch, a, d)
          else case find (\<lambda>i. wi_ID i = el_WorkItemID link) (wb_Items (ar_Board record)) of
            None \<Rightarrow> (Some LinkItemNotOpen, a, d)
          | Some item \<Rightarrow>
             (if isTerminalStatus (wi_Status item) \<or> wi_Revision item \<noteq> el_WorkItemRevision link then (Some LinkItemNotOpen, a, d)
              else if MaxExecutionLinks \<le> length (ar_ExecutionLinks record) then (Some LinkLimit, a, d)
              else
                let next = linked_record record link in
                case validateAuthorityRecord (ae_json env) next (ae_SessionID env) of
                  Some err \<Rightarrow> (Some (InvalidRecord err), a, d)
                | None \<Rightarrow>
                   project_and_write env
                     ((if ar_Version record = AuthorityRecordVersion then UpgradeExecutionLinks else Commit) (ae_store env)) next a d)))"

definition registerTodoScopeLocked :: "TodoScope \<Rightarrow> TodoItem list \<Rightarrow> LogicalWork \<Rightarrow> adapter_error option \<times> LogicalWork" where
  "registerTodoScopeLocked scope snapshot a =
     (if blank (to_SessionID scope) then (Some EmptyTodoScope, a)
      else if list_ex (scope_matches scope) (cp_TodoScopes (ar_Compatibility (lw_record a))) then (None, a)
      else if lw_mode a = AuthorityModeWorkBoard then (None, a)
      else case seedTodoScope (lw_record a) scope snapshot of
        (record, err) \<Rightarrow> (map_option InvalidRecord err, a\<lparr>lw_record := record\<rparr>))"

definition RegisterTodoScope :: "adapter_env \<Rightarrow> TodoScope \<Rightarrow> TodoItem list \<Rightarrow> LogicalWork \<Rightarrow> adapter_error option \<times> LogicalWork" where
  "RegisterTodoScope env scope snapshot a =
     (case mutationReadyLocked env a of
        Some err \<Rightarrow> (Some err, a)
      | None \<Rightarrow> registerTodoScopeLocked scope snapshot a)"

fun view_todos :: "WorkItem list \<Rightarrow> string list \<Rightarrow> adapter_error + TodoItem list" where
  "view_todos items [] = Inr []"
| "view_todos items (ident # ids) =
     (case item_by_id items ident of
        None \<Rightarrow> Inl (MissingTodoItem ident)
      | Some i \<Rightarrow>
         (case view_todos items ids of
            Inl err \<Rightarrow> Inl err
          | Inr todos \<Rightarrow> Inr (\<lparr>td_Content = wi_Title i, td_Status = wi_Status i, td_ActiveForm = wi_ActiveForm i\<rparr> # todos)))"

definition Todos :: "TodoScope \<Rightarrow> LogicalWork \<Rightarrow> adapter_error + TodoItem list" where
  "Todos scope a =
     (case find (scope_matches scope) (cp_TodoScopes (ar_Compatibility (lw_record a))) of
        None \<Rightarrow> Inr []
      | Some s \<Rightarrow> view_todos (wb_Items (ar_Board (lw_record a))) (sc_CurrentItemIDs s))"

definition ListTasks :: "adapter_env \<Rightarrow> LogicalWork \<Rightarrow> TaskRecord list" where
  "ListTasks env a =
     (let tasks = map (taskRecordFromCompatibility (ae_json env)) (cp_Tasks (ar_Compatibility (lw_record a))) in
      if None \<in> set tasks then [] else sort_key tr_ID (map the tasks))"

definition DrainLifecycleEvents :: "LogicalWork \<Rightarrow> TaskLifecycleEvent list \<times> LogicalWork" where
  "DrainLifecycleEvents a = (lw_events a, a\<lparr>lw_events := []\<rparr>)"

definition RecoverBoard ::
  "adapter_env \<Rightarrow> string \<Rightarrow> string \<Rightarrow> 64 word \<Rightarrow> bool \<Rightarrow> LogicalWork \<Rightarrow> disk \<Rightarrow> adapter_error option \<times> LogicalWork \<times> disk"
where
  "RecoverBoard env sessionID boardID revision acknowledge a d =
     (case mutationReadyLocked env a of
        Some err \<Rightarrow> (Some err, a, d)
      | None \<Rightarrow>
      if \<not> acknowledge then (Some DataLossNotAcknowledged, a, d)
      else if sessionID \<noteq> ae_SessionID env \<or> lw_mode a \<noteq> AuthorityModeWorkBoard \<or> boardID \<noteq> ar_BoardID (lw_record a) \<or>
              revision \<noteq> wb_Revision (ar_Board (lw_record a))
      then (Some RecoveryIdentityMismatch, a, d)
      else case Recover (ae_store env) boardID revision (ae_newBoardID env) d of
        (recovered, err, d') \<Rightarrow>
          (let a1 = (case recovered of Some record \<Rightarrow> a\<lparr>lw_record := record, lw_events := []\<rparr> | None \<Rightarrow> a) in
           case err of
             Some e \<Rightarrow> (Some (StoreError e), note_uncertain err a1, d')
           | None \<Rightarrow>
              (case Bootstrap (ae_json env) (lw_record a1) NewProjectionReducer of
                 (e, p) \<Rightarrow> (map_option ProjectionError e, a1\<lparr>lw_projection := p\<rparr>, d'))))"

definition NewLogicalWorkAdapter ::
  "adapter_env \<Rightarrow> TaskManagerSnapshot \<Rightarrow> TodoScope \<Rightarrow> TodoItem list \<Rightarrow> TaskLifecycleEvent list \<Rightarrow> disk
   \<Rightarrow> (adapter_error + LogicalWork) \<times> disk"
where
  "NewLogicalWorkAdapter env snapshot leaderScope leaderTodos events d =
     (let scope = (if blank (to_SessionID leaderScope) then leaderScope\<lparr>to_SessionID := ae_SessionID env\<rparr> else leaderScope) in
      case Inspect (ae_store env) d of
        (Inl err, d') \<Rightarrow> (Inl (StoreError err), d')
      | (Inr st, d') \<Rightarrow>
      if \<not> we_directory (ae_store env) then (Inl (StoreError DirectoryUnsafe), d')
      else case st of
        WorkBoardState record backup \<Rightarrow>
          (case Bootstrap (ae_json env) record NewProjectionReducer of
             (Some e, p) \<Rightarrow> (Inl (ProjectionError e), d')
           | (None, p) \<Rightarrow>
              (case registerTodoScopeLocked scope []
                      \<lparr>lw_mode = AuthorityModeWorkBoard, lw_record = record, lw_backup = backup, lw_events = events, lw_mutationErr = None,
                       lw_projection = p\<rparr> of
                 (Some err, _) \<Rightarrow> (Inl err, d')
               | (None, a) \<Rightarrow> (Inr a, d')))
      | _ \<Rightarrow>
          (case seedAuthorityRecord (ae_json env) (ae_SessionID env) (ae_newBoardID env) snapshot scope leaderTodos of
             Inl err \<Rightarrow> (Inl (InvalidRecord err), d')
           | Inr seed \<Rightarrow>
              (Inr \<lparr>lw_mode = AuthorityModeLegacy, lw_record = seed, lw_backup = backupFromRecord seed, lw_events = events,
                    lw_mutationErr = None, lw_projection = NewProjectionReducer\<rparr>, d')))"

text \<open>A fork writes a child board with a fresh identity and no links to a disk of its own.\<close>

definition fork_record :: "adapter_env \<Rightarrow> string \<Rightarrow> AuthorityRecord \<Rightarrow> AuthorityRecord" where
  "fork_record env childSessionID record =
     record\<lparr>ar_Version := AuthorityRecordVersion, ar_ExecutionLinks := [], ar_SessionID := childSessionID, ar_BoardID := ae_newBoardID env,
            ar_Compatibility := (ar_Compatibility record)\<lparr>cp_TodoScopes := cp_TodoScopes (ar_Compatibility record)
              @ [\<lparr>sc_SessionID = childSessionID, sc_AgentID = [], sc_CurrentItemIDs = []\<rparr>]\<rparr>\<rparr>"

definition PrepareFork ::
  "adapter_env \<Rightarrow> string \<Rightarrow> work_env \<Rightarrow> LogicalWork \<Rightarrow> disk \<Rightarrow> (adapter_error + AuthorityRecord option) \<times> disk"
where
  "PrepareFork env sourceSessionID child a d =
     (case mutationReadyLocked env a of
        Some err \<Rightarrow> (Inl err, d)
      | None \<Rightarrow>
      if blank sourceSessionID \<or> ae_SessionID env \<noteq> sourceSessionID then (Inl ForkSourceChanged, d)
      else if lw_mode a \<noteq> AuthorityModeWorkBoard then (Inr None, d)
      else case Inspect child d of
        (Inl err, d') \<Rightarrow> (Inl (StoreError err), d')
      | (Inr (WorkBoardState record _), d') \<Rightarrow> (Inr (Some record), d')
      | (Inr _, d') \<Rightarrow>
         (if blank (ae_newBoardID env) \<or> ae_newBoardID env = ar_BoardID (lw_record a) then (Inl ForkNeedsFreshBoard, d')
          else
            let seed = fork_record env (we_SessionID child) (lw_record a) in
            case Cutover child seed (backupFromRecord seed) d' of
              (_, Some err, d'') \<Rightarrow> (Inl (StoreError err), d'')
            | (WorkBoardState record _, None, d'') \<Rightarrow> (Inr (Some record), d'')
            | (_, None, d'') \<Rightarrow> (Inr None, d'')))"

end
