(* ===== verification/Work_Run.thy ===== *)
theory Work_Run
  imports Work_Adapter
begin

text \<open>
  Runs of the work board's adapter.  An operation is one of the calls of the task and todo tools;
  each runs in an environment of its own, with any clock, hooks, admission and settlement, while
  the codecs and the session stay those of the store.  The disk fails as its outcomes say.  Shown
  are that the adapter and the disk stay in step, that a restart sees what was acknowledged, that
  a linked item ends only after its executions have settled, and what a todo list round trips.
  \<open>RecoverBoard\<close> is not among the operations: after it the store rejects its own files
  (\<open>recovery_bricks_store\<close>).
\<close>

section \<open>Operations\<close>

datatype work_op =
    OpCreate string string string tool_input
  | OpUpdate TaskUpdate
  | OpStop string
  | OpReplaceTodos TodoScope "TodoItem list"
  | OpRegisterScope TodoScope "TodoItem list"
  | OpAdmitLink AdmitExecutionLinkRequest
  | OpDrain

fun work_step :: "adapter_env \<Rightarrow> work_op \<Rightarrow> LogicalWork \<times> disk \<Rightarrow> LogicalWork \<times> disk" where
  "work_step env (OpCreate subject description activeForm metadata) (a, d) = snd (Create env subject description activeForm metadata a d)"
| "work_step env (OpUpdate input) (a, d) = snd (UpdateTask env input a d)"
| "work_step env (OpStop ident) (a, d) = snd (StopTask env ident a d)"
| "work_step env (OpReplaceTodos scope todos) (a, d) = snd (ReplaceTodos env scope todos a d)"
| "work_step env (OpRegisterScope scope todos) (a, d) = (snd (RegisterTodoScope env scope todos a), d)"
| "work_step env (OpAdmitLink request) (a, d) = snd (AdmitExecutionLink env request a d)"
| "work_step env OpDrain (a, d) = (snd (DrainLifecycleEvents a), d)"

definition work_run :: "(adapter_env \<times> work_op) list \<Rightarrow> LogicalWork \<times> disk \<Rightarrow> LogicalWork \<times> disk" where
  "work_run ops s = fold (\<lambda>(env, op). work_step env op) ops s"

section \<open>Environments of one store\<close>

definition of_store :: "work_env \<Rightarrow> adapter_env \<Rightarrow> bool" where
  "of_store base env \<longleftrightarrow> (\<exists>hook identical directory. ae_store env = base\<lparr>we_hook := hook, we_identical := identical, we_directory := directory\<rparr>)"

definition codecs_ok :: "work_env \<Rightarrow> bool" where
  "codecs_ok base \<longleftrightarrow>
     marker_codec base \<and> (\<exists>data. EncodeAuthorityMarker base (marker_v2 base) = Inr data) \<and>
     (\<forall>r. record_codec base r) \<and> (\<forall>b. backup_codec base b)"

lemma vary_decode [simp]:
  "DecodeAuthorityRecord (base\<lparr>we_hook := h, we_identical := i, we_directory := x\<rparr>) = DecodeAuthorityRecord base"
  "DecodeAuthorityMarker (base\<lparr>we_hook := h, we_identical := i, we_directory := x\<rparr>) = DecodeAuthorityMarker base"
  "DecodeLegacyBackup (base\<lparr>we_hook := h, we_identical := i, we_directory := x\<rparr>) = DecodeLegacyBackup base"
  "EncodeAuthorityRecord (base\<lparr>we_hook := h, we_identical := i, we_directory := x\<rparr>) = EncodeAuthorityRecord base"
  "EncodeAuthorityMarker (base\<lparr>we_hook := h, we_identical := i, we_directory := x\<rparr>) = EncodeAuthorityMarker base"
  "EncodeLegacyBackup (base\<lparr>we_hook := h, we_identical := i, we_directory := x\<rparr>) = EncodeLegacyBackup base"
  by (auto simp: DecodeAuthorityRecord_def DecodeAuthorityMarker_def DecodeLegacyBackup_def
    EncodeAuthorityRecord_def EncodeAuthorityMarker_def EncodeLegacyBackup_def fun_eq_iff split: sum.splits option.splits)

lemma of_store_same:
  assumes "of_store base env"
  shows "holds (ae_store env) = holds base" "exact (ae_store env) = exact base" "we_json (ae_store env) = we_json base"
    "we_SessionID (ae_store env) = we_SessionID base"
  using assms by (auto simp: of_store_def holds_def exact_def contents_def fun_eq_iff)

lemma of_store_codecs:
  assumes "of_store base env" "codecs_ok base"
  shows "marker_codec (ae_store env)" "record_codec (ae_store env) r" "backup_codec (ae_store env) b"
  using assms by (auto simp: of_store_def codecs_ok_def marker_codec_def record_codec_def backup_codec_def marker_v1_def marker_v2_def)

section \<open>Adapter and disk in step\<close>

text \<open>
  Until a write is uncertain, the disk of a durable adapter holds its record, and the disk of an
  adapter that has not cut over has no marker.
\<close>

definition in_step :: "work_env \<Rightarrow> LogicalWork \<Rightarrow> disk \<Rightarrow> bool" where
  "in_step base a d \<longleftrightarrow>
     ar_SessionID (lw_record a) = we_SessionID base \<and>
     (lw_mutationErr a \<noteq> None \<or>
      (case lw_mode a of
         AuthorityModeWorkBoard \<Rightarrow> holds base d (lw_record a) (lw_backup a)
       | AuthorityModeLegacy \<Rightarrow>
           dk_Marker d = Absent \<and> ar_Version (lw_record a) = AuthorityRecordVersion \<and> ar_ExecutionLinks (lw_record a) = []))"

lemma in_step_note:
  assumes "in_step base a d" shows "in_step base (note_uncertain err a) d"
  using assms by (auto simp: in_step_def note_uncertain_def split: option.splits)

lemma in_step_projection [simp]: "in_step base (a\<lparr>lw_projection := p\<rparr>) d = in_step base a d"
  by (auto simp: in_step_def split: AuthorityMode.splits)

lemma in_step_events [simp]: "in_step base (a\<lparr>lw_events := es\<rparr>) d = in_step base a d"
  by (auto simp: in_step_def split: AuthorityMode.splits)

lemma in_step_mutationErr: "in_step base a d \<Longrightarrow> in_step base (a\<lparr>lw_mutationErr := Some e\<rparr>) d'"
  by (simp add: in_step_def)

lemma note_uncertain_simps [simp]:
  "lw_record (note_uncertain err a) = lw_record a" "lw_mode (note_uncertain err a) = lw_mode a" "lw_backup (note_uncertain err a) = lw_backup a"
  by (auto simp: note_uncertain_def split: option.splits)

lemma ensureAuthoritative_in_step:
  assumes "codecs_ok base" "of_store base env" "in_step base a d" "ensureAuthoritativeLocked env a d = (err, a', d')"
  shows "in_step base a' d'" "err = None \<Longrightarrow> lw_mode a' = AuthorityModeWorkBoard \<and> lw_record a' = lw_record a \<and> lw_mutationErr a' = None"
    "lw_record a' = lw_record a"
proof -
  note same = of_store_same [OF assms(2)] and cod = of_store_codecs [OF assms(2,1)]
  have "in_step base a' d' \<and> (err = None \<longrightarrow> lw_mode a' = AuthorityModeWorkBoard \<and> lw_record a' = lw_record a \<and> lw_mutationErr a' = None) \<and>
    lw_record a' = lw_record a"
  proof (cases "mutationReadyLocked env a = None \<and> lw_mode a \<noteq> AuthorityModeWorkBoard")
    case False
    then show ?thesis using assms(3,4)
      by (auto simp: ensureAuthoritativeLocked_def mutationReadyLocked_def mutationStateReadyLocked_def split: option.splits if_splits)
  next
    case True
    then have free: "lw_mutationErr a = None" and legacy: "lw_mode a = AuthorityModeLegacy"
      by (auto simp: mutationReadyLocked_def mutationStateReadyLocked_def split: if_splits) (cases "lw_mode a", auto)
    then have absent: "dk_Marker d = Absent" "ar_Version (lw_record a) = AuthorityRecordVersion" "ar_ExecutionLinks (lw_record a) = []" and sid: "ar_SessionID (lw_record a) = we_SessionID base"
      using assms(3) by (auto simp: in_step_def)
    let ?r = "lw_record a" and ?b = "backupFromRecord (lw_record a)"
    obtain st e d1 where c: "Cutover (ae_store env) ?r ?b d = (st, e, d1)" by (metis prod.exhaust)
    note out = Cutover_outcome [OF absent(1) cod(1-3) absent(2) c, unfolded same]
    show ?thesis
    proof (cases "\<exists>r b. st = WorkBoardState r b")
      case wb: True
      then have st: "st = WorkBoardState ?r ?b" and ex: "exact base d1 ?r ?b" using out by auto
      have ok: "in_step base (a\<lparr>lw_mode := AuthorityModeWorkBoard, lw_record := ?r, lw_backup := ?b\<rparr>) d1"
        using sid exact_holds [OF ex] by (simp add: in_step_def)
      then show ?thesis using assms(4) c st True legacy free
        by (auto simp: ensureAuthoritativeLocked_def Let_def in_step_note split: option.splits prod.splits)
    next
      case False
      then have e: "e \<noteq> None" using out by (cases e) auto
      then obtain e' where e': "e = Some e'" by blast
      have "in_step base (note_uncertain e a) d1"
        using out False e' sid absent(2,3) legacy by (auto simp: in_step_def note_uncertain_def)
      then show ?thesis using assms(4) c True False e'
        by (cases st) (auto simp: ensureAuthoritativeLocked_def legacy split: option.splits)
    qed
  qed
  then show "in_step base a' d'" "err = None \<Longrightarrow> lw_mode a' = AuthorityModeWorkBoard \<and> lw_record a' = lw_record a \<and> lw_mutationErr a' = None"
    "lw_record a' = lw_record a" by auto
qed

text \<open>What a store operation leaves, for any that writes the next record.\<close>

definition store_outcome ::
  "work_env \<Rightarrow> AuthorityRecord \<Rightarrow> AuthorityRecord \<Rightarrow> LegacyBackup \<Rightarrow> AuthorityRecord option \<times> store_error option \<times> disk \<Rightarrow> bool"
where
  "store_outcome base r next b out \<longleftrightarrow>
     (case out of (res, err, d') \<Rightarrow>
        err = None \<and> res = Some next \<and> holds base d' next b \<or>
        (\<exists>e. err = Some e \<and> \<not> uncertain e \<and> (res = None \<and> holds base d' r b \<or> res = Some next \<and> holds base d' next b)) \<or>
        (\<exists>e. err = Some e \<and> uncertain e \<and> res \<in> {None, Some next}))"

lemma Commit_res:
  "Commit env boardID revision next d = (res, err, d') \<Longrightarrow> res \<in> {None, Some next}"
  by (auto simp: Commit_def with_committed_def write_record_def split: if_splits sum.splits prod.splits)

lemma Commit_store_outcome:
  assumes "codecs_ok base" "of_store base env" "holds base d r b"
  shows "store_outcome base r next b (Commit (ae_store env) boardID revision next d)"
proof -
  obtain res err d' where c: "Commit (ae_store env) boardID revision next d = (res, err, d')" by (metis prod.exhaust)
  note same = of_store_same [OF assms(2)] and cod = of_store_codecs [OF assms(2,1)]
  have "holds (ae_store env) d r b" using assms(3) same by simp
  from Commit_outcome [OF this cod(1,2) c] Commit_res [OF c] show ?thesis unfolding same c store_outcome_def by auto
qed

lemma Upgrade_res:
  assumes "codecs_ok base" "of_store base env" "holds base d r b" "lineage next b"
  shows "store_outcome base r next b (UpgradeExecutionLinks (ae_store env) boardID revision next d)"
proof -
  obtain res err d' where c: "UpgradeExecutionLinks (ae_store env) boardID revision next d = (res, err, d')" by (metis prod.exhaust)
  note same = of_store_same [OF assms(2)] and cod = of_store_codecs [OF assms(2,1)]
  have "res \<in> {None, Some next}" if "err \<noteq> None"
    using that c by (auto simp: UpgradeExecutionLinks_def with_committed_def split: if_splits sum.splits prod.splits)
  moreover have "holds (ae_store env) d r b" using assms(3) same by simp
  note Upgrade_outcome [OF this cod(1,2) assms(4) c]
  ultimately show ?thesis unfolding same c store_outcome_def by auto
qed

lemma project_and_write_in_step:
  assumes "codecs_ok base" "of_store base env" "in_step base a d" "lw_mode a = AuthorityModeWorkBoard" "lw_mutationErr a = None"
    and sess: "ar_SessionID next = we_SessionID base"
    and op: "store_op = Commit (ae_store env) \<or> store_op = UpgradeExecutionLinks (ae_store env)"
    and run: "project_and_write env store_op next a d = (err, a', d')"
  shows "in_step base a' d'"
    and "err = None \<Longrightarrow> lw_record a' = next \<and> lw_mutationErr a' = None \<and> lw_mode a' = AuthorityModeWorkBoard"
    and "lw_record a' \<in> {lw_record a, next}"
proof -
  let ?r = "lw_record a" and ?b = "lw_backup a"
  have hold: "holds base d ?r ?b" and sid: "ar_SessionID ?r = we_SessionID base" using assms(3-5) by (auto simp: in_step_def)
  obtain e1 p1 where b: "Bootstrap (ae_json env) ?r (lw_projection a) = (e1, p1)" by fastforce
  obtain e2 p2 where rs: "reserve (ae_json env) (ar_BoardID ?r) (wb_Revision (ar_Board ?r)) next p1 = (e2, p2)" by fastforce
  obtain res e3 d1 where w: "store_op (ar_BoardID ?r) (wb_Revision (ar_Board ?r)) next d = (res, e3, d1)" by (metis prod.exhaust)
  have "in_step base a' d' \<and> (err = None \<longrightarrow> lw_record a' = next \<and> lw_mutationErr a' = None \<and> lw_mode a' = AuthorityModeWorkBoard) \<and>
    lw_record a' \<in> {lw_record a, next}"
  proof (cases "e1 = None \<and> e2 = None")
    case False
    then show ?thesis using run b rs assms(3) by (auto simp: project_and_write_def Let_def split: option.splits)
  next
    case True
    have nxt: "ar_BoardID next = ar_BoardID ?r" "wb_Revision (ar_Board next) = wb_Revision (ar_Board ?r) + 1"
      "validateAuthorityRecord (ae_json env) next (ar_SessionID next) = None"
      using rs True by (auto simp: reserve_def split: option.splits if_splits)
    have "we_SessionID base \<noteq> []" using assms(1) by (simp add: codecs_ok_def marker_codec_def)
    then have "lineage next ?b" using next_lineage [OF hold] nxt sess valid_record_facts(2) [OF nxt(3)] by auto
    then have out: "store_outcome base ?r next ?b (res, e3, d1)"
      using op w Commit_store_outcome [OF assms(1,2) hold] Upgrade_res [OF assms(1,2) hold] by metis
    have fin: "(err, a', d') = (let a1 = acceptCommitLocked res e3 (a\<lparr>lw_projection := p2\<rparr>) in
        case e3 of Some e \<Rightarrow> (Some (StoreError e), a1, d1)
        | None \<Rightarrow> (if ae_swapFails env then (Some CommittedProjectionUncertain, a1\<lparr>lw_mutationErr := Some ProjectionUncertain\<rparr>, d1)
                   else (None, a1\<lparr>lw_projection := p2\<lparr>pr_record := Some next\<rparr>\<rparr>, d1)))"
      using run b rs w True by (simp add: project_and_write_def Let_def split: option.splits)
    show ?thesis using out fin sid sess assms(4,5)
      by (auto simp: store_outcome_def acceptCommitLocked_def note_uncertain_def in_step_def Let_def split: option.splits if_splits)
  qed
  then show "in_step base a' d'" "err = None \<Longrightarrow> lw_record a' = next \<and> lw_mutationErr a' = None \<and> lw_mode a' = AuthorityModeWorkBoard"
    "lw_record a' \<in> {lw_record a, next}" by auto
qed

lemma commit_checked_in_step:
  assumes "codecs_ok base" "of_store base env" "in_step base a d" "ar_SessionID next = we_SessionID base"
    "commit_checked env guarded next a d = (err, a', d')"
  shows "in_step base a' d'"
    and "err = None \<Longrightarrow> lw_record a' = next \<and> lw_mutationErr a' = None \<and> lw_mode a' = AuthorityModeWorkBoard"
    and "lw_record a' = lw_record a \<or> lw_record a' = next \<and> (guarded \<longrightarrow> guardTerminalLinksLocked env (lw_record a) next = None)"
proof -
  obtain e1 a1 d1 where en: "ensureAuthoritativeLocked env a d = (e1, a1, d1)" by (metis prod.exhaust)
  note s1 = ensureAuthoritative_in_step [OF assms(1-3) en]
  have "in_step base a' d' \<and> (err = None \<longrightarrow> lw_record a' = next \<and> lw_mutationErr a' = None \<and> lw_mode a' = AuthorityModeWorkBoard) \<and>
    (lw_record a' = lw_record a \<or> lw_record a' = next \<and> (guarded \<longrightarrow> guardTerminalLinksLocked env (lw_record a) next = None))"
  proof (cases "(guarded \<longrightarrow> guardTerminalLinksLocked env (lw_record a) next = None) \<and>
      validateAuthorityRecord (ae_json env) next (ae_SessionID env) = None \<and> e1 = None")
    case False
    then show ?thesis using assms(3,5) en s1
      by (auto simp: commit_checked_def commitProjectedLocked_def split: option.splits if_splits)
  next
    case True
    then have "project_and_write env (Commit (ae_store env)) next a1 d1 = (err, a', d')"
      using assms(5) en by (auto simp: commit_checked_def commitProjectedLocked_def split: if_splits)
    from project_and_write_in_step [OF assms(1,2) s1(1) _ _ assms(4) _ this] s1(2,3) True show ?thesis by auto
  qed
  then show "in_step base a' d'" "err = None \<Longrightarrow> lw_record a' = next \<and> lw_mutationErr a' = None \<and> lw_mode a' = AuthorityModeWorkBoard"
    "lw_record a' = lw_record a \<or> lw_record a' = next \<and> (guarded \<longrightarrow> guardTerminalLinksLocked env (lw_record a) next = None)" by auto
qed

lemma replaceTodos_session: "replaceTodos r scope todos = (r', e) \<Longrightarrow>
   ar_SessionID r' = ar_SessionID r \<and> ar_Version r' = ar_Version r \<and> ar_ExecutionLinks r' = ar_ExecutionLinks r"
  by (auto simp: replaceTodos_def Let_def split: prod.splits sum.splits)

lemma next_revision_simps [simp]:
  "ar_SessionID (next_revision c r) = ar_SessionID r" "ar_Version (next_revision c r) = ar_Version r"
  "ar_ExecutionLinks (next_revision c r) = ar_ExecutionLinks r" "wb_Items (ar_Board (next_revision c r)) = wb_Items (ar_Board r)"
  by (simp_all add: next_revision_def)

lemma updated_record_session: "updated_record env r input = Inr (next, updatedFields) \<Longrightarrow> ar_SessionID next = ar_SessionID r"
  by (auto simp: updated_record_def Let_def split: option.splits prod.splits)

lemma in_step_record: "in_step base a d \<Longrightarrow> ar_SessionID (lw_record a) = we_SessionID base"
  by (simp add: in_step_def)

lemma ready_free: "mutationReadyLocked env a = None \<Longrightarrow> lw_mutationErr a = None"
  by (auto simp: mutationReadyLocked_def mutationStateReadyLocked_def split: if_splits)

text \<open>
  The steps by their effect: nothing, a commit of a next record, or, before the cutover, a new todo
  scope in memory.  Only task events differ besides.
\<close>

lemma Create_cases:
  assumes "Create env subject description activeForm metadata a d = (res, a', d')"
  shows "(a' = a \<and> d' = d) \<or>
    (\<exists>next err a1. ar_SessionID next = ar_SessionID (lw_record a) \<and> wb_Items (ar_Board next) = wb_Items (ar_Board (created_record (lw_record a)
        (new_task env (int_string (cp_NextTaskID (ar_Compatibility (lw_record a)))) subject description activeForm metadata))) \<and>
       commit_checked env False next a d = (err, a1, d') \<and> (\<exists>es. a' = a1\<lparr>lw_events := es\<rparr>))"
proof (cases "mutationReadyLocked env a")
  case None
  let ?next = "created_record (lw_record a) (new_task env (int_string (cp_NextTaskID (ar_Compatibility (lw_record a)))) subject description activeForm metadata)"
  obtain err a1 d1 where c: "commit_checked env False ?next a d = (err, a1, d1)" by (metis prod.exhaust)
  have "ar_SessionID ?next = ar_SessionID (lw_record a)" by (simp add: created_record_def Let_def)
  moreover have "d1 = d' \<and> (\<exists>es. a' = a1\<lparr>lw_events := es\<rparr>)"
    using assms None c by (cases err) (auto simp: Create_def Let_def recordTaskEventLocked_def intro: exI [of _ "lw_events a1"])
  ultimately show ?thesis using c by blast
qed (use assms in \<open>auto simp: Create_def\<close>)

lemma updateTaskLocked_cases:
  assumes "updateTaskLocked env input phase a d = (res, a', d')"
  shows "(a' = a \<and> d' = d) \<or>
    (\<exists>next err a1. ar_SessionID next = ar_SessionID (lw_record a) \<and> commit_checked env True next a d = (err, a1, d') \<and> (\<exists>es. a' = a1\<lparr>lw_events := es\<rparr>))"
proof (cases "mutationReadyLocked env a = None \<and> (\<exists>next updatedFields. updated_record env (lw_record a) input = Inr (next, updatedFields))")
  case True
  then obtain "next" updatedFields where u: "updated_record env (lw_record a) input = Inr (next, updatedFields)" by blast
  obtain err a1 d1 where c: "commit_checked env True next a d = (err, a1, d1)" by (metis prod.exhaust)
  have "d1 = d' \<and> (\<exists>es. a' = a1\<lparr>lw_events := es\<rparr>)"
    using assms True u c by (cases err) (auto simp: updateTaskLocked_def Let_def recordTaskEventLocked_def intro: exI [of _ "lw_events a1"] split: if_splits)
  then show ?thesis using c updated_record_session [OF u] by blast
qed (use assms in \<open>auto simp: updateTaskLocked_def split: option.splits sum.splits\<close>)

lemma guard_None:
  assumes "guardTerminalLinksLocked env current next = None" "l \<in> set (ar_ExecutionLinks current)" "el_BoardID l = ar_BoardID current"
    "el_WorkItemID l \<in> set (terminalized current next)"
  shows "\<exists>snapshot keys settlements s. ae_settlement env = Some snapshot \<and> snapshot keys = Some settlements \<and>
    s \<in> set settlements \<and> es_Key s = (el_AgentID l, el_Generation l) \<and> settled s"
proof -
  let ?keys = "linked_keys current (terminalized current next)"
  have key: "(el_AgentID l, el_Generation l) \<in> set ?keys" using assms(2-4) by (auto simp: linked_keys_def)
  then have "?keys \<noteq> []" "terminalized current next \<noteq> []" "ar_ExecutionLinks current \<noteq> []" using assms(2,4) by auto
  then obtain snapshot settlements where "ae_settlement env = Some snapshot" "snapshot ?keys = Some settlements"
    and all: "list_all (\<lambda>k. case find (\<lambda>s. es_Key s = k) settlements of None \<Rightarrow> False | Some s \<Rightarrow> settled s) ?keys"
    using assms(1) by (auto simp: guardTerminalLinksLocked_def Let_def split: option.splits if_splits)
  moreover from all key have "case find (\<lambda>s. es_Key s = (el_AgentID l, el_Generation l)) settlements of None \<Rightarrow> False | Some s \<Rightarrow> settled s"
    by (auto simp: list_all_iff)
  then obtain s where f: "find (\<lambda>s. es_Key s = (el_AgentID l, el_Generation l)) settlements = Some s" "settled s" by (auto split: option.splits)
  moreover from f(1) have "s \<in> set settlements" "es_Key s = (el_AgentID l, el_Generation l)" by (auto simp: find_Some_iff)
  ultimately show ?thesis by blast
qed

lemma guard_unchanged: "terminalized current next = [] \<Longrightarrow> guardTerminalLinksLocked env current next = None"
  by (simp add: guardTerminalLinksLocked_def Let_def)

lemma guard_no_links: "ar_ExecutionLinks current = [] \<Longrightarrow> guardTerminalLinksLocked env current next = None"
  by (simp add: guardTerminalLinksLocked_def Let_def)

lemma valid_distinct: "validateAuthorityRecord js r sid = None \<Longrightarrow> distinct (map wi_ID (wb_Items (ar_Board r)))"
  by (auto simp: validateAuthorityRecord_def first_error_None validateBoard_iff board_ok_def Let_def split: if_splits)

lemma item_by_idD: "item_by_id items ident = Some i \<Longrightarrow> i \<in> set items \<and> wi_ID i = ident"
  by (auto simp: item_by_id_def find_Some_iff in_set_conv_nth rev_nth) (metis diff_less length_greater_0_conv list.size(3) not_less_zero zero_less_Suc)

lemma terminalized_subset:
  assumes "distinct (map wi_ID (wb_Items (ar_Board next)))" "set (wb_Items (ar_Board current)) \<subseteq> set (wb_Items (ar_Board next))"
    "\<And>i. i \<in> set (wb_Items (ar_Board next)) \<Longrightarrow> i \<in> set (wb_Items (ar_Board current)) \<or> \<not> isTerminalStatus (wi_Status i)"
  shows "terminalized current next = []"
proof -
  have False if i: "i \<in> set (wb_Items (ar_Board next))" and p: "item_by_id (wb_Items (ar_Board current)) (wi_ID i) = Some prior"
    and t: "\<not> isTerminalStatus (wi_Status prior)" "isTerminalStatus (wi_Status i)" for i prior
  proof -
    have "prior \<in> set (wb_Items (ar_Board next))" "wi_ID prior = wi_ID i" using item_by_idD [OF p] assms(2) by auto
    then have "prior = i" using assms(1) i by (auto simp: distinct_map inj_on_def)
    then show False using t by simp
  qed
  then show ?thesis by (auto simp: terminalized_def filter_empty_conv split: option.splits)
qed

lemma commit_checked_valid:
  "commit_checked env guarded next a d = (err, a', d') \<Longrightarrow> lw_record a' \<noteq> lw_record a \<Longrightarrow>
   validateAuthorityRecord (ae_json env) next (ae_SessionID env) = None"
  by (auto simp: commit_checked_def split: option.splits if_splits)

lemma created_terminalized:
  assumes "wb_Items (ar_Board next) = wb_Items (ar_Board (created_record r (new_task env ident subject description activeForm metadata)))"
    "distinct (map wi_ID (wb_Items (ar_Board next)))"
  shows "terminalized r next = []"
  using assms(2)
  by (rule terminalized_subset) (auto simp: assms(1) created_record_def Let_def normalizeItemOrder_def workItemFromTask_def new_task_def
    canonicalStatusForLegacy_def isTerminalStatus_def status_defs)

lemma AdmitExecutionLink_cases:
  assumes "AdmitExecutionLink env request a d = (err, a', d')"
  obtains "a' = a" "d' = d"
  | link store_op err where "lw_mode a = AuthorityModeWorkBoard" "lw_mutationErr a = None"
      "validateAuthorityRecord (ae_json env) (linked_record (lw_record a) link) (ae_SessionID env) = None"
      "store_op = Commit (ae_store env) \<or> store_op = UpgradeExecutionLinks (ae_store env)"
      "project_and_write env store_op (linked_record (lw_record a) link) a d = (err, a', d')"
  using assms ready_free [of env a]
  by (auto simp: AdmitExecutionLink_def Let_def split: option.splits if_splits)

lemma work_step_effect:
  assumes "codecs_ok base" "of_store base env" "in_step base a d" "work_step env op (a, d) = (a', d')"
  shows "in_step base a' d' \<and> (lw_record a' = lw_record a \<or> guardTerminalLinksLocked env (lw_record a) (lw_record a') = None)"
proof -
  note sid = in_step_record [OF assms(3)]
  have guarded: ?thesis if "ar_SessionID next = ar_SessionID (lw_record a)" "commit_checked env g next a d = (err, a1, d')" "a' = a1\<lparr>lw_events := es\<rparr>"
    "g \<or> (distinct (map wi_ID (wb_Items (ar_Board next))) \<longrightarrow> terminalized (lw_record a) next = [])" for "next" g err a1 es
    using commit_checked_in_step [OF assms(1-3) _ that(2)] that valid_distinct [OF commit_checked_valid [OF that(2)]] guard_unchanged sid by auto
  have with_guard: ?thesis if "ar_SessionID next = ar_SessionID (lw_record a)" "commit_checked env True next a d = (err, a1, d')" "a' = a1\<lparr>lw_events := es\<rparr>"
    for "next" err a1 es by (rule guarded [OF that]) simp
  show ?thesis
  proof (cases op)
    case (OpCreate subject description activeForm metadata)
    then obtain res where "Create env subject description activeForm metadata a d = (res, a', d')" using assms(4) by (metis prod.collapse work_step.simps(1))
    from Create_cases [OF this] show ?thesis
    proof (elim disjE exE conjE)
      fix "next" err a1 es
      assume n: "ar_SessionID next = ar_SessionID (lw_record a)" "commit_checked env False next a d = (err, a1, d')" "a' = a1\<lparr>lw_events := es\<rparr>"
        and items: "wb_Items (ar_Board next) = wb_Items (ar_Board (created_record (lw_record a)
          (new_task env (int_string (cp_NextTaskID (ar_Compatibility (lw_record a)))) subject description activeForm metadata)))"
      show ?thesis by (rule guarded [OF n]) (use created_terminalized [OF items] in simp)
    qed (use assms(3) in simp)
  next
    case (OpUpdate input)
    then obtain res where "updateTaskLocked env input TaskLifecycleUpdated a d = (res, a', d')" using assms(4) by (metis UpdateTask_def prod.collapse work_step.simps(2))
    from updateTaskLocked_cases [OF this] show ?thesis using assms(3) by (elim disjE exE conjE) (simp, rule with_guard)
  next
    case (OpStop ident)
    then obtain res input where "updateTaskLocked env input TaskLifecycleStopped a d = (res, a', d')" using assms(4) by (metis StopTask_def prod.collapse work_step.simps(3))
    from updateTaskLocked_cases [OF this] show ?thesis using assms(3) by (elim disjE exE conjE) (simp, rule with_guard)
  next
    case (OpReplaceTodos scope todos)
    then have "ReplaceTodos env scope todos a d = (fst (ReplaceTodos env scope todos a d), a', d')" using assms(4) by (simp add: prod_eq_iff)
    then have "a' = a \<and> d' = d \<or> (\<exists>r err. replaceTodos (lw_record a) scope todos = (r, None) \<and> commit_checked env True (next_revision (lw_record a) r) a d = (err, a', d'))"
      by (auto simp: ReplaceTodos_def split: option.splits prod.splits)
    then show ?thesis
    proof (elim disjE exE conjE)
      fix r err
      assume r: "replaceTodos (lw_record a) scope todos = (r, None)" and c: "commit_checked env True (next_revision (lw_record a) r) a d = (err, a', d')"
      show ?thesis by (rule with_guard [OF _ c, of "lw_events a'"]) (use replaceTodos_session [OF r] in simp_all)
    qed (use assms(3) in simp)
  next
    case (OpRegisterScope scope todos)
    then show ?thesis using assms(3,4) replaceTodos_session guard_no_links ready_free
      by (auto simp: RegisterTodoScope_def registerTodoScopeLocked_def seedTodoScope_def in_step_def
        split: option.splits prod.splits AuthorityMode.splits if_splits)
  next
    case OpDrain
    then show ?thesis using assms(3,4) by (auto simp: DrainLifecycleEvents_def)
  next
    case (OpAdmitLink request)
    then have adm: "AdmitExecutionLink env request a d = (fst (AdmitExecutionLink env request a d), a', d')" using assms(4) by (simp add: prod_eq_iff)
    show ?thesis
    proof (rule AdmitExecutionLink_cases [OF adm])
      fix link store_op err
      let ?next = "linked_record (lw_record a) link"
      assume m: "lw_mode a = AuthorityModeWorkBoard" "lw_mutationErr a = None" "validateAuthorityRecord (ae_json env) ?next (ae_SessionID env) = None"
        and op: "store_op = Commit (ae_store env) \<or> store_op = UpgradeExecutionLinks (ae_store env)"
        and w: "project_and_write env store_op ?next a d = (err, a', d')"
      have sess: "ar_SessionID ?next = we_SessionID base" using sid by (simp add: linked_record_def)
      have "terminalized (lw_record a) ?next = []"
        using valid_distinct [OF m(3)] by (intro terminalized_subset) (auto simp: linked_record_def)
      then show ?thesis using project_and_write_in_step [OF assms(1-3) m(1,2) sess op w] guard_unchanged by auto
    qed (use assms(3) in simp)
  qed
qed

lemma work_run_in_step:
  assumes "codecs_ok base" "\<forall>(env, op) \<in> set ops. of_store base env" "in_step base a d"
  shows "in_step base (fst (work_run ops (a, d))) (snd (work_run ops (a, d)))"
  using assms(2,3)
proof (induction ops arbitrary: a d)
  case (Cons x ops)
  obtain env op where x: "x = (env, op)" by fastforce
  obtain a1 d1 where s: "work_step env op (a, d) = (a1, d1)" by fastforce
  have "in_step base a1 d1" using work_step_effect [OF assms(1) _ Cons.prems(2) s] Cons.prems(1) x by auto
  then have "in_step base (fst (work_run ops (a1, d1))) (snd (work_run ops (a1, d1)))" using Cons by simp
  then show ?case using s x by (simp add: work_run_def)
qed (simp add: work_run_def)

text \<open>A restart on a disk that holds a board, without faults, gives an adapter with that board.\<close>

definition clean :: "disk \<Rightarrow> bool" where
  "clean d \<longleftrightarrow> dk_readFaults d = [] \<and> dk_writes d = []"

lemma artifact_read_clean:
  assumes "clean d" "disk_file kind d = Content data" "length data \<le> MaxEncodedJSONBytes"
  shows "artifact_read kind d = (Inr data, d)"
  using assms by (cases d) (auto simp: artifact_read_def clean_def)

lemma load_files_clean:
  assumes "contents env d m r b" "clean d"
  shows "load_files env d = (Inr (m, r, b), d)"
proof -
  from assms obtain md rd bd where f: "disk_file ArtifactMarker d = Content md" "DecodeAuthorityMarker env md = Inr m"
    "disk_file ArtifactAuthority d = Content rd" "DecodeAuthorityRecord env rd = Inr r"
    "disk_file ArtifactBackup d = Content bd" "DecodeLegacyBackup env bd = Inr b" by (auto simp: contents_def)
  have "\<not> (lb_BoardID b \<noteq> ar_BoardID r \<or> lb_SessionID b \<noteq> ar_SessionID r \<or> wb_Revision (ar_Board r) < wb_Revision (lb_Board b))"
    using assms(1) by (auto simp: contents_def)
  then show ?thesis
    using f artifact_read_clean [OF assms(2) f(1) decode_length(1) [OF f(2)]] artifact_read_clean [OF assms(2) f(3) decode_length(2) [OF f(4)]]
      artifact_read_clean [OF assms(2) f(5) decode_length(3) [OF f(6)]]
    by (simp add: load_files_def and_then_def)
qed

lemma load_clean:
  assumes "holds env d r b" "clean d" "marker_codec env" "EncodeAuthorityMarker env (marker_v2 env) = Inr data"
  shows "\<exists>d'. loadCommitted env d = (Inr (r, b), d') \<and> exact env d' r b"
proof (cases "exact env d r b")
  case True
  then obtain m where m: "contents env d m r b" "am_Version m = 1 \<and> ar_Version r = 2 \<or> am_Version m = 2 \<and> ar_Version r = 3" by (auto simp: exact_def)
  then show ?thesis using load_files_clean [OF m(1) assms(2)] True
    by (auto simp: loadCommitted_def numeral_2_eq_2 and_then_def version_defs)
next
  case False
  with assms(1) obtain m where m: "contents env d m r b" "am_Version m = 1" "ar_Version r = 3" by (auto simp: holds_def)
  note dec = marker_decodes(2) [OF assms(3,4)]
  obtain w d1 where w: "artifact_write ArtifactMarker data d = (w, d1)" by fastforce
  have "w = Inr () \<and> clean d1"
    using w assms(2) m(1) contents_not_too_large [OF m(1), of ArtifactMarker] decode_length(1) [OF dec]
    by (auto simp: artifact_write_def clean_def contents_def Let_def split: if_splits)
  then have d1: "w = Inr ()" "clean d1" "contents env d1 (marker_v2 env) r b" using write_marker_file [OF m(1) dec w] by auto
  then show ?thesis
    using load_upgrade [OF load_files_clean [OF m(1) assms(2)] m(2,3) assms(4)] w load_files_clean [OF d1(3,2)] m(3)
    by (auto simp: and_then_def version_defs marker_v2_def exact_def)
qed

lemma restart_reads_board:
  assumes "codecs_ok base" "of_store base env" "holds base d r b" "we_directory (ae_store env)" "clean d"
  shows "\<exists>a d'. NewLogicalWorkAdapter env snapshot scope todos events d = (Inr a, d') \<and>
    lw_record a = r \<and> lw_backup a = b \<and> lw_mode a = AuthorityModeWorkBoard \<and> lw_mutationErr a = None"
proof -
  note same = of_store_same [OF assms(2)] and cod = of_store_codecs [OF assms(2,1)]
  have h: "holds (ae_store env) d r b" using assms(3) same by simp
  obtain data where "EncodeAuthorityMarker (ae_store env) (marker_v2 (ae_store env)) = Inr data"
    using assms(1,2) by (auto simp: codecs_ok_def of_store_def marker_v2_def)
  from load_clean [OF h assms(5) cod(1) this] obtain d' where l: "loadCommitted (ae_store env) d = (Inr (r, b), d')" by blast
  have sid: "we_SessionID (ae_store env) \<noteq> []" using cod(1) by (simp add: marker_codec_def)
  obtain md where md: "dk_Marker d = Content md" using h by (auto simp: holds_def exact_def contents_def)
  have valid: "validateAuthorityRecord (ae_json env) r (we_SessionID (ae_store env)) = None"
    using h by (auto simp: holds_def exact_def contents_def ae_json_def dest: decode_valid(2))
  have "ar_SessionID r = we_SessionID (ae_store env)" using holds_session [OF h sid] by simp
  moreover from this have "\<not> blank (we_SessionID (ae_store env))"
    using valid by (auto simp: validateAuthorityRecord_def first_error_None validateAuthorityIdentity_def split: if_splits)
  ultimately show ?thesis using l md valid assms(4)
    by (auto simp: NewLogicalWorkAdapter_def Inspect_def and_then_def Bootstrap_def NewProjectionReducer_def registerTodoScopeLocked_def ae_SessionID_def Let_def)
qed

section \<open>Properties\<close>


text \<open>
  C34. A work item that agents were launched for is closed only when they have settled.  If an
  operation makes an open item terminal and a link of the board admits an execution for it, the
  settlement snapshot of that operation reports this execution as settled, with nothing reserved,
  live, being cancelled or unresolved.
\<close>

theorem linked_item_settled:
  assumes "codecs_ok base" "of_store base env" "in_step base a d" "work_step env op (a, d) = (a', d')"
    "l \<in> set (ar_ExecutionLinks (lw_record a))" "el_BoardID l = ar_BoardID (lw_record a)"
    "item_by_id (wb_Items (ar_Board (lw_record a))) (el_WorkItemID l) = Some i" "\<not> isTerminalStatus (wi_Status i)"
    "i' \<in> set (wb_Items (ar_Board (lw_record a')))" "wi_ID i' = el_WorkItemID l" "isTerminalStatus (wi_Status i')"
    "distinct (map wi_ID (wb_Items (ar_Board (lw_record a))))"
  shows "\<exists>snapshot keys settlements s. ae_settlement env = Some snapshot \<and> snapshot keys = Some settlements \<and>
    s \<in> set settlements \<and> es_Key s = (el_AgentID l, el_Generation l) \<and> settled s"
proof -
  have "lw_record a' \<noteq> lw_record a"
  proof
    assume "lw_record a' = lw_record a"
    moreover have "i \<in> set (wb_Items (ar_Board (lw_record a)))" "wi_ID i = el_WorkItemID l" using item_by_idD [OF assms(7)] by auto
    ultimately have "i = i'" using assms(9,10,12) by (auto simp: distinct_map inj_on_def)
    then show False using assms(8,11) by simp
  qed
  then have "guardTerminalLinksLocked env (lw_record a) (lw_record a') = None" using work_step_effect [OF assms(1-4)] by blast
  moreover have "el_WorkItemID l \<in> set (terminalized (lw_record a) (lw_record a'))"
    using assms(7-11) by (force simp: terminalized_def)
  ultimately show ?thesis using guard_None assms(5,6) by blast
qed

section \<open>Mutations on a healthy disk\<close>

lemma load_exact:
  assumes "exact env d r b" "clean d"
  shows "loadCommitted env d = (Inr (r, b), d)"
proof -
  from assms(1) obtain m where m: "contents env d m r b" "am_Version m = 1 \<and> ar_Version r = 2 \<or> am_Version m = 2 \<and> ar_Version r = 3" by (auto simp: exact_def)
  then show ?thesis using load_files_clean [OF m(1) assms(2)] by (auto simp: loadCommitted_def numeral_2_eq_2 and_then_def version_defs)
qed

lemma Commit_succeeds:
  assumes "exact env d r b" "clean d" "we_directory env" "we_hook env = (\<lambda>_. False)" "EncodeAuthorityRecord env next = Inr data"
    "ar_Version next = ar_Version r" "ar_SessionID next = we_SessionID env" "ar_BoardID next = ar_BoardID r"
    "wb_Revision (ar_Board next) = wb_Revision (ar_Board r) + 1"
  shows "Commit env (ar_BoardID r) (wb_Revision (ar_Board r)) next d = (Some next, None, d\<lparr>dk_Authority := Content data\<rparr>)"
proof -
  have "\<not> MaxEncodedJSONBytes < length data"
    using assms(5) by (auto simp: EncodeAuthorityRecord_def encodeAuthorityJSON_def split: option.splits if_splits)
  moreover have "dk_Authority d \<noteq> Unusable" using assms(1) by (auto simp: exact_def contents_def)
  moreover have "\<not> too_large (dk_Authority d)" using assms(1) contents_not_too_large [of env d _ r b ArtifactAuthority] by (auto simp: exact_def)
  ultimately have "artifact_write ArtifactAuthority data d = (Inr (), d\<lparr>dk_Authority := Content data\<rparr>)"
    using assms(2) by (cases d) (simp add: artifact_write_def clean_def)
  then show ?thesis using load_exact [OF assms(1,2)] assms(3-9)
    by (simp add: Commit_def with_committed_def write_record_def stage_fails_def and_then_def)
qed

text \<open>
  An adapter that is not quarantined, whose disk holds its record, commits every valid next record
  that its codec encodes.
\<close>

lemma commit_checked_succeeds:
  assumes "exact (ae_store env) d (lw_record a) (lw_backup a)" "clean d" "we_directory (ae_store env)" "we_hook (ae_store env) = (\<lambda>_. False)"
    and "ae_admitted env" "\<not> ae_swapFails env" "lw_mutationErr a = None" "lw_mode a = AuthorityModeWorkBoard"
    and "pr_record (lw_projection a) \<in> {None, Some (lw_record a)}"
    and "validateAuthorityRecord (ae_json env) (lw_record a) (ar_SessionID (lw_record a)) = None"
    and "guarded \<Longrightarrow> guardTerminalLinksLocked env (lw_record a) next = None"
    and "validateAuthorityRecord (ae_json env) next (ar_SessionID next) = None" "we_encRecord (ae_store env) next = Some text" "length text < MaxEncodedJSONBytes"
    and "ar_Version next = ar_Version (lw_record a)" "ar_SessionID next = ae_SessionID env" "ar_BoardID next = ar_BoardID (lw_record a)"
    and "wb_Revision (ar_Board next) = wb_Revision (ar_Board (lw_record a)) + 1"
  shows "commit_checked env guarded next a d =
    (None, a\<lparr>lw_record := next, lw_projection := (lw_projection a)\<lparr>pr_record := Some next\<rparr>\<rparr>, d\<lparr>dk_Authority := Content (text @ [CHR 0x0A])\<rparr>)"
proof -
  have enc: "EncodeAuthorityRecord (ae_store env) next = Inr (text @ [CHR 0x0A])"
    using assms(12-14) by (simp add: EncodeAuthorityRecord_def encodeAuthorityJSON_def ae_json_def)
  have commit: "Commit (ae_store env) (ar_BoardID (lw_record a)) (wb_Revision (ar_Board (lw_record a))) next d =
    (Some next, None, d\<lparr>dk_Authority := Content (text @ [CHR 0x0A])\<rparr>)"
    by (rule Commit_succeeds [OF assms(1-4) enc]) (use assms(15-18) in \<open>simp_all add: ae_SessionID_def\<close>)
  have boot: "Bootstrap (ae_json env) (lw_record a) (lw_projection a) = (None, (lw_projection a)\<lparr>pr_record := Some (lw_record a)\<rparr>)"
    using assms(9,10) by (cases "lw_projection a") (auto simp: Bootstrap_def)
  have res: "reserve (ae_json env) (ar_BoardID (lw_record a)) (wb_Revision (ar_Board (lw_record a))) next ((lw_projection a)\<lparr>pr_record := Some (lw_record a)\<rparr>) =
    (None, (lw_projection a)\<lparr>pr_record := Some (lw_record a)\<rparr>)"
    using assms(12,17,18) by (simp add: reserve_def)
  show ?thesis
    using assms(5-8,11,12,16) boot res commit
    by (auto simp: commit_checked_def commitProjectedLocked_def ensureAuthoritativeLocked_def mutationReadyLocked_def mutationStateReadyLocked_def
      project_and_write_def acceptCommitLocked_def note_uncertain_def Let_def)
qed

section \<open>A codec of enumerated records\<close>

text \<open>Records of a list are encoded by their position; it satisfies the laws of the codecs.\<close>

fun position :: "'a \<Rightarrow> 'a list \<Rightarrow> nat option" where
  "position x [] = None"
| "position x (y # ys) = (if x = y then Some 0 else map_option Suc (position x ys))"

definition encode_in :: "'a list \<Rightarrow> 'a \<Rightarrow> string option" where
  "encode_in xs x = map_option (\<lambda>n. replicate n (CHR ''x'')) (position x xs)"

definition decode_in :: "'a list \<Rightarrow> string \<Rightarrow> 'a option" where
  "decode_in xs data = (let n = length data - 1 in if data \<noteq> [] \<and> n < length xs then Some (xs ! n) else None)"

definition enum_env :: "AuthorityRecord list \<Rightarrow> LegacyBackup list \<Rightarrow> work_env" where
  "enum_env rs bs =
     \<lparr>we_json = \<lparr>js_Valid = (\<lambda>_. True), js_Object = (\<lambda>_. Some [])\<rparr>, we_SessionID = ''s'',
      we_encRecord = encode_in rs, we_decRecord = decode_in rs,
      we_encMarker = encode_in [\<lparr>am_Version = 1, am_SessionID = ''s'', am_MinimumReader = ''workboard/v2''\<rparr>, \<lparr>am_Version = 2, am_SessionID = ''s'', am_MinimumReader = ''workboard/v3''\<rparr>],
      we_decMarker = decode_in [\<lparr>am_Version = 1, am_SessionID = ''s'', am_MinimumReader = ''workboard/v2''\<rparr>, \<lparr>am_Version = 2, am_SessionID = ''s'', am_MinimumReader = ''workboard/v3''\<rparr>],
      we_encBackup = encode_in bs, we_decBackup = decode_in bs, we_hook = (\<lambda>_. False), we_identical = True, we_directory = True\<rparr>"

lemma position_Some: "position x xs = Some n \<Longrightarrow> n < length xs \<and> xs ! n = x"
  by (induction xs arbitrary: n) (auto split: if_splits)

lemma decode_encode_in: "encode_in xs x = Some data \<Longrightarrow> decode_in xs (data @ [CHR 0x0A]) = Some x"
  by (auto simp: encode_in_def decode_in_def dest!: position_Some)

lemma encode_in_member: "encode_in xs x = Some data \<Longrightarrow> x \<in> set xs"
  by (auto simp: encode_in_def dest!: position_Some)

lemma enum_codecs:
  assumes "\<forall>r \<in> set rs. ar_SessionID r = ''s''" "\<forall>b \<in> set bs. lb_SessionID b = ''s''"
  shows "codecs_ok (enum_env rs bs)"
proof -
  have r: "record_codec (enum_env rs bs) r" for r
    using assms(1) encode_in_member [of rs r]
    by (auto simp: record_codec_def EncodeAuthorityRecord_def DecodeAuthorityRecord_def encodeAuthorityJSON_def decodeAuthorityJSON_def enum_env_def decode_encode_in
      split: option.splits if_splits)
  have b: "backup_codec (enum_env rs bs) b" for b
    using assms(2) encode_in_member [of bs b]
    by (auto simp: backup_codec_def EncodeLegacyBackup_def DecodeLegacyBackup_def encodeAuthorityJSON_def decodeAuthorityJSON_def enum_env_def decode_encode_in
      split: option.splits if_splits)
  have "marker_codec (enum_env rs bs)" "\<exists>data. EncodeAuthorityMarker (enum_env rs bs) (marker_v2 (enum_env rs bs)) = Inr data"
    by (auto simp: marker_codec_def EncodeAuthorityMarker_def DecodeAuthorityMarker_def encodeAuthorityJSON_def decodeAuthorityJSON_def enum_env_def encode_in_def decode_in_def
      marker_v1_def marker_v2_def version_defs validateAuthorityMarker_def demo_text MaxEncodedJSONBytes_def Let_def)
  then show ?thesis using r b by (simp add: codecs_ok_def)
qed

definition enum_disk :: disk where
  "enum_disk = \<lparr>dk_Authority = Content [CHR 0x0A], dk_Marker = Content [CHR 0x0A], dk_Backup = Content [CHR 0x0A], dk_writes = [], dk_readFaults = []\<rparr>"

definition enum_disk3 :: disk where
  "enum_disk3 = enum_disk\<lparr>dk_Marker := Content [CHR ''x'', CHR 0x0A]\<rparr>"

section \<open>Witnesses\<close>

definition demo_adapter :: "AuthorityRecord \<Rightarrow> LogicalWork" where
  "demo_adapter r =
     \<lparr>lw_mode = AuthorityModeWorkBoard, lw_record = r, lw_backup = backupFromRecord (demo_record 1), lw_events = [], lw_mutationErr = None,
      lw_projection = NewProjectionReducer\<rparr>"

definition demo_adapter_env :: "AuthorityRecord list \<Rightarrow> adapter_env" where
  "demo_adapter_env rs =
     \<lparr>ae_store = enum_env rs [backupFromRecord (demo_record 1)], ae_now = 5, ae_newBoardID = ''c'', ae_admitted = True, ae_swapFails = False,
      ae_settlement = Some (\<lambda>keys. Some (map (\<lambda>k.
        \<lparr>es_Key = k, es_Settled = True, es_Reserved = False, es_Live = False, es_CancelPending = False, es_Unresolved = False\<rparr>) keys))\<rparr>"

definition demo_scope :: TodoScope where "demo_scope = \<lparr>to_SessionID = ''s'', to_AgentID = []\<rparr>"

definition todo_record :: AuthorityRecord where
  "todo_record = (demo_record 2)\<lparr>ar_Compatibility := \<lparr>cp_NextTaskID = 1, cp_Tasks = [],
     cp_TodoScopes = [\<lparr>sc_SessionID = ''s'', sc_AgentID = [], sc_CurrentItemIDs = []\<rparr>]\<rparr>\<rparr>"

lemma todo_record_valid: "validateAuthorityRecord js todo_record ''s'' = None"
  by (simp add: validateAuthorityRecord_def todo_record_def demo_record_def first_error_def version_defs
    validateAuthorityIdentity_def demo_text validateBoard_def Let_def firstDependencyCycle_def dependency_edges_def validateCompatibility_def
    task_dependency_count_def check_todo_items_def validateAuthorityDiagnostics_def validateExecutionLinks_def too_long_def MaxFieldBytes_def)

lemma todo_record_next: "replaceTodos (demo_record 1) demo_scope [] = (r, e) \<Longrightarrow> e = None \<and> next_revision (demo_record 1) r = todo_record"
  by (auto simp: replaceTodos_def demo_record_def demo_scope_def with_scope_def empty_scope_def next_revision_def todo_record_def normalizeItemOrder_def
    scope_matches_def Let_def)

lemma demo_backup: "lb_BoardID (backupFromRecord (demo_record 1)) = ''b''" "wb_Revision (lb_Board (backupFromRecord (demo_record 1))) = 1"
  by (simp_all add: backupFromRecord_def demo_record_def)

lemma enum_exact:
  assumes "ar_SessionID r = ''s''" "ar_BoardID r = ''b''" "1 \<le> wb_Revision (ar_Board r)"
    "validateAuthorityRecord \<lparr>js_Valid = (\<lambda>_. True), js_Object = (\<lambda>_. Some [])\<rparr> r ''s'' = None"
  shows "ar_Version r = 2 \<Longrightarrow> exact (enum_env (r # rs) [backupFromRecord (demo_record 1)]) enum_disk r (backupFromRecord (demo_record 1))"
    "ar_Version r = 3 \<Longrightarrow> exact (enum_env (r # rs) [backupFromRecord (demo_record 1)]) enum_disk3 r (backupFromRecord (demo_record 1))"
  using assms by (auto simp: exact_def contents_def enum_disk_def enum_disk3_def DecodeAuthorityMarker_def DecodeAuthorityRecord_def DecodeLegacyBackup_def
    decodeAuthorityJSON_def decode_in_def enum_env_def demo_valid Let_def MaxEncodedJSONBytes_def validateAuthorityMarker_def version_defs demo_text
    demo_backup)

lemma demo_env_of_store: "of_store (enum_env rs [backupFromRecord (demo_record 1)]) (demo_adapter_env rs)"
  unfolding of_store_def by (rule exI [of _ "\<lambda>_. False"], rule exI [of _ True], rule exI [of _ True]) (simp add: demo_adapter_env_def enum_env_def)


definition demo_task :: "string \<Rightarrow> int \<Rightarrow> TaskCompatibility" where
  "demo_task status updated =
     \<lparr>tc_ID = ''1'', tc_Subject = ''t'', tc_Description = [], tc_ActiveForm = [], tc_LegacyStatus = status, tc_Owner = [], tc_Blocks = [], tc_BlockedBy = [],
      tc_UnresolvedBlocks = [], tc_UnresolvedBlockedBy = [], tc_Metadata = [], tc_Output = [], tc_CreatedAt = 1, tc_UpdatedAt = updated\<rparr>"

definition demo_link :: ExecutionLink where
  "demo_link =
     \<lparr>el_BoardID = ''b'', el_WorkItemID = ''task:1'', el_WorkItemRevision = 1, el_AgentID = ''a'', el_Generation = 1, el_Actor = ''agent_launch_admission'',
      el_ParentSessionID = ''s'', el_ParentThreadID = ''m'', el_ParentAgentID = [], el_ParentToolUseID = ''u'', el_AdmittedAt = 1, el_UTC = True\<rparr>"

definition task_board :: "64 word \<Rightarrow> 64 word \<Rightarrow> string \<Rightarrow> int \<Rightarrow> AuthorityRecord" where
  "task_board revision item_revision status updated =
     \<lparr>ar_Version = 3, ar_SessionID = ''s'', ar_BoardID = ''b'',
      ar_Board = \<lparr>wb_Revision = revision, wb_NextTodoID = 0, wb_Items = [(workItemFromTask (demo_task status updated) 0)\<lparr>wi_Revision := item_revision\<rparr>]\<rparr>,
      ar_Compatibility = \<lparr>cp_NextTaskID = 2, cp_Tasks = [demo_task status updated], cp_TodoScopes = []\<rparr>, ar_Diagnostics = [], ar_ExecutionLinks = [demo_link]\<rparr>"

lemma task_board_fields:
  "ar_Version (task_board revision n status updated) = 3" "ar_SessionID (task_board revision n status updated) = ''s''"
  "ar_BoardID (task_board revision n status updated) = ''b''" "wb_Revision (ar_Board (task_board revision n status updated)) = revision"
  "ar_ExecutionLinks (task_board revision n status updated) = [demo_link]" "ar_Diagnostics (task_board revision n status updated) = []"
  by (simp_all add: task_board_def)

lemma demo_words: "\<not> blank ''task:1''" "\<not> blank ''1''" "\<not> blank ''a''" "\<not> blank ''m''" "\<not> blank ''u''" "Atoi ''1'' = Some 1"
  by code_simp+

lemma short_text: "length s \<le> 30 \<Longrightarrow> \<not> too_long s"
  by (simp add: too_long_def MaxFieldBytes_def)

lemma demo_status:
  "canonicalStatusForLegacy ''pending'' = ''pending''" "canonicalStatusForLegacy ''killed'' = ''cancelled''" "terminal_reason ''pending'' = []"
  "terminal_reason ''killed'' = ''legacy_task_stopped''" "validStatus ''pending''" "validStatus ''cancelled''" "isTerminalStatus ''cancelled''" "\<not> isTerminalStatus ''pending''"
  by (simp_all add: canonicalStatusForLegacy_def terminal_reason_def validStatus_def isTerminalStatus_def status_defs)

lemma demo_task_fields:
  "tc_ID (demo_task status updated) = ''1''" "tc_Blocks (demo_task status updated) = []" "tc_BlockedBy (demo_task status updated) = []"
  "tc_UnresolvedBlocks (demo_task status updated) = []" "tc_UnresolvedBlockedBy (demo_task status updated) = []"
  by (simp_all add: demo_task_def)

lemma demo_item_fields:
  assumes "i = (workItemFromTask (demo_task status updated) 0)\<lparr>wi_Revision := n\<rparr>"
  shows "wi_ID i = ''task:1''" "wi_Revision i = n" "wi_Source i = \<lparr>sp_Kind = ''task'', sp_SessionID = [], sp_AgentID = [], sp_LegacyID = ''1''\<rparr>"
    "wi_Title i = ''t''" "wi_Description i = []" "wi_ActiveForm i = []" "wi_Status i = canonicalStatusForLegacy status" "wi_Owner i = []" "wi_Blocks i = []" "wi_BlockedBy i = []"
    "wi_Metadata i = []" "wi_ResultSummary i = []" "wi_TerminalReason i = terminal_reason status" "wi_Order i = 0"
  using assms by (simp_all add: workItemFromTask_def demo_task_def taskWorkItemID_def)

lemma demo_item_ok:
  assumes "i = (workItemFromTask (demo_task status updated) 0)\<lparr>wi_Revision := n\<rparr>" "n \<noteq> 0" "status = ''pending'' \<or> status = ''killed''"
  shows "check_item json_valid 0 [] 0 i = None" "firstDependencyCycle [i] = []"
proof -
  have "validStatus (canonicalStatusForLegacy status)" "\<not> too_long (terminal_reason status)" "\<not> too_long (canonicalStatusForLegacy status)"
    using assms(3) by (auto simp: demo_status short_text)
  then show "check_item json_valid 0 [] 0 i = None"
    using assms(2) by (simp add: check_item_def demo_item_fields [OF assms(1)] demo_words item_fields_def short_text)
  show "firstDependencyCycle [i] = []"
    by (simp add: firstDependencyCycle_def dependency_edges_def edge_targets_def edges_of_def demo_item_fields [OF assms(1)])
qed

lemma task_board_valid:
  assumes "revision \<noteq> 0" "n \<noteq> 0" "status = ''pending'' \<or> status = ''killed''" "updated \<noteq> 0"
  shows "validateAuthorityRecord js (task_board revision n status updated) ''s'' = None"
proof -
  let ?r = "task_board revision n status updated"
  define i where i: "i = (workItemFromTask (demo_task status updated) 0)\<lparr>wi_Revision := n\<rparr>"
  note fields = demo_item_fields [OF i] and ok = demo_item_ok [OF i assms(2,3)]
  have items: "wb_Items (ar_Board ?r) = [i]" by (simp add: task_board_def i)
  have board: "validateBoard (js_Valid js) (ar_Board ?r) = None"
    by (simp add: validateBoard_def items Let_def MaxItems_def ok fields)
  have same: "sameWorkItemContent i ((workItemFromTask (demo_task status updated) (wi_Order i))\<lparr>wi_Revision := wi_Revision i\<rparr>)"
    by (simp add: sameWorkItemContent_def fields) (simp add: i)
  have short: "\<not> too_long status" using assms(3) by (auto simp: short_text)
  have task: "check_task js [i] (demo_task status updated) = None"
    using assms(4) same short by (simp add: check_task_def task_item_def fields demo_task_def first_error_def task_fields_def check_metadata_def stringSubset_def short_text)
  have compat: "validateCompatibility js (ar_Board ?r) (ar_Compatibility ?r) = None"
    by (simp add: validateCompatibility_def items Let_def) (simp add: task_board_def task first_error_def fields MaxItems_def MaxDependencyRefs_def task_dependency_count_def
      check_todo_items_def demo_words demo_task_fields)
  have links: "validateExecutionLinks ?r = None"
    by (simp add: validateExecutionLinks_def items item_by_id_def link_ok_def link_fields_def fields demo_link_def demo_words demo_text short_text task_board_fields
      version_defs MaxExecutionLinks_def)
  show ?thesis using assms(1) board compat links
    by (simp add: validateAuthorityRecord_def first_error_def task_board_fields version_defs validateAuthorityIdentity_def demo_text validateAuthorityDiagnostics_def)
qed

theorem linked_item_settled_witness:
  "case work_step (demo_adapter_env [task_board 2 1 ''pending'' 1, task_board 3 2 ''killed'' 5]) (OpStop ''1'') (demo_adapter (task_board 2 1 ''pending'' 1), enum_disk3) of
     (a', d') \<Rightarrow> map wi_Status (wb_Items (ar_Board (lw_record a'))) = [''cancelled''] \<and>
       (\<exists>snapshot keys settlements s. ae_settlement (demo_adapter_env [task_board 2 1 ''pending'' 1, task_board 3 2 ''killed'' 5]) = Some snapshot \<and>
          snapshot keys = Some settlements \<and> s \<in> set settlements \<and> es_Key s = (''a'', 1) \<and> settled s)"
proof -
  let ?r = "task_board 2 1 ''pending'' 1" and ?next = "task_board 3 2 ''killed'' 5"
  let ?env = "demo_adapter_env [?r, ?next]" and ?a = "demo_adapter ?r" and ?base = "enum_env [?r, ?next] [backupFromRecord (demo_record 1)]"
  have differ: "?next \<noteq> ?r" by (simp add: task_board_def)
  have base: "codecs_ok ?base" by (rule enum_codecs) (simp_all add: task_board_fields)
  have ex: "exact ?base enum_disk3 ?r (backupFromRecord (demo_record 1))"
    by (rule enum_exact(2)) (simp_all add: task_board_valid task_board_fields)
  have upd: "updated_record ?env ?r \<lparr>tu_TaskID = ''1'', tu_Subject = None, tu_Description = None, tu_ActiveForm = None, tu_Status = Some ''killed'', tu_Owner = None,
        tu_AddBlocks = [], tu_AddBlockedBy = [], tu_Metadata = None, tu_Output = None\<rparr> = Inr (?next, [''status''])"
    by (simp add: updated_record_def Let_def index_of_def task_board_def demo_task_def workItemFromTask_def updateTaskCompatibility_def set_field_def set_status_def
      next_revision_def updated_item_def demo_adapter_env_def)
  have guard: "guardTerminalLinksLocked ?env ?r ?next = None"
    by (simp add: guardTerminalLinksLocked_def linked_keys_def demo_adapter_env_def settled_def Let_def task_board_def demo_link_def)
  have facts: "ae_admitted ?env" "lw_mutationErr ?a = None" "lw_record ?a = ?r" by (simp_all add: demo_adapter_def demo_adapter_env_def)
  have "commit_checked ?env True ?next ?a enum_disk3 =
    (None, ?a\<lparr>lw_record := ?next, lw_projection := (lw_projection ?a)\<lparr>pr_record := Some ?next\<rparr>\<rparr>, enum_disk3\<lparr>dk_Authority := Content (''x'' @ [CHR 0x0A])\<rparr>)"
    by (rule commit_checked_succeeds) (use ex guard in \<open>simp_all add: demo_adapter_env_def demo_adapter_def clean_def enum_disk3_def enum_disk_def
      enum_env_def ae_json_def ae_SessionID_def NewProjectionReducer_def MaxEncodedJSONBytes_def
      task_board_fields task_board_valid\<close>, simp_all add: encode_in_def differ)
  then have step: "work_step ?env (OpStop ''1'') (?a, enum_disk3) = (fst (work_step ?env (OpStop ''1'') (?a, enum_disk3)), enum_disk3\<lparr>dk_Authority := Content (''x'' @ [CHR 0x0A])\<rparr>)"
    "lw_record (fst (work_step ?env (OpStop ''1'') (?a, enum_disk3))) = ?next"
    using upd facts by (simp_all add: StopTask_def updateTaskLocked_def mutationReadyLocked_def mutationStateReadyLocked_def recordTaskEventLocked_def Let_def)
  have "in_step ?base ?a enum_disk3" using exact_holds [OF ex] by (simp add: in_step_def demo_adapter_def enum_env_def task_board_def)
  note settled_at = linked_item_settled [OF base demo_env_of_store this step(1), of demo_link "hd (wb_Items (ar_Board ?r))" "hd (wb_Items (ar_Board ?next))"]
  have items: "wb_Items (ar_Board (task_board revision n status updated)) = [(workItemFromTask (demo_task status updated) 0)\<lparr>wi_Revision := n\<rparr>]" for revision n status updated
    by (simp add: task_board_def)
  have keys: "el_AgentID demo_link = ''a''" "el_Generation demo_link = 1" "el_BoardID demo_link = ''b''" "el_WorkItemID demo_link = ''task:1''" by (simp_all add: demo_link_def)
  have "\<exists>snapshot keys settlements s. ae_settlement ?env = Some snapshot \<and> snapshot keys = Some settlements \<and> s \<in> set settlements \<and> es_Key s = (''a'', 1) \<and> settled s"
    using settled_at unfolding step(2) facts(3) items keys task_board_fields
    by (simp add: item_by_id_def demo_item_fields [OF refl, simplified] demo_status keys)
  then show ?thesis using step by (auto simp: items demo_item_fields [OF refl, simplified] demo_status split: prod.splits)
qed

end
