(* ===== verification/Plan_State.thy ===== *)
theory Plan_State
  imports Input_Item Permission_Mode Go_Path
begin

text \<open>
  The Plan state machine of the engine (src/engine/plan_state.go, plan_digest.go, and the parts of
  tools/plan_mode.go, tool_execution.go, execution_controls.go and command_executor.go that drive
  it).  In Plan mode the agent may only plan; it leaves it through an approval that is bound to the
  bytes of the plan file the user reviewed.

  The state is held under \<open>planMu\<close>, so each operation is a function of the engine.  The engine is
  the record of the fields the operations touch; what they publish (events, the notice of a new
  permission mode, the checkpoint of the session) is a log.  Reading the plan file, SHA-256 (in
  hexadecimal) and the home directory are arguments.  A result of a permission interaction carries
  further fields that are passed through unread; they are \<open>ir_rest\<close>, empty in a fresh result.
\<close>

section \<open>Data\<close>

record PlanState =
  pl_Phase :: PlanPhase
  pl_PlanFileIdentity :: string
  pl_ReturnMode :: Mode
  pl_ApprovalRequestID :: string
  pl_ApprovalInitialDigest :: string
  pl_Revision :: "64 word"

datatype planTransitionSource =
    planTransitionTool | planTransitionExternal | planTransitionUserConfirmed | planTransitionCommand
  | planTransitionApprovalRequest | planTransitionApprovalResult

fun source_string :: "planTransitionSource \<Rightarrow> string" where
  "source_string planTransitionTool = ''tool''"
| "source_string planTransitionExternal = ''external''"
| "source_string planTransitionUserConfirmed = ''user_confirmed''"
| "source_string planTransitionCommand = ''command''"
| "source_string planTransitionApprovalRequest = ''approval_request''"
| "source_string planTransitionApprovalResult = ''approval_result''"

record planTransitionRequest =
  pt_Source :: planTransitionSource
  pt_TurnID :: string
  pt_RequestID :: string
  pt_Mode :: Mode

record PlanStateTransitionEvent =
  px_FromPhase :: PlanPhase
  px_Phase :: PlanPhase
  px_PermissionMode :: Mode
  px_PlanFileIdentity :: string
  px_ReturnMode :: Mode
  px_ApprovalRequestID :: string
  px_RequestID :: string
  px_Revision :: "64 word"
  px_Source :: string

datatype PlanApprovalOutcome = PlanApprovalApprove | PlanApprovalRevise | PlanApprovalCancel | PlanApprovalOther string

record PlanApprovalRequest =
  aq_RequestID :: string
  aq_PlanRevision :: "64 word"
  aq_PlanFileIdentity :: string
  aq_InitialPlanDigest :: string
  aq_ReturnMode :: Mode

record PlanApprovalDecision =
  pa_RequestID :: string
  pa_PlanRevision :: "64 word"
  pa_Outcome :: PlanApprovalOutcome
  pa_ReviewedPlanDigest :: string
  pa_TargetMode :: Mode
  pa_Confirmed :: bool
  pa_Feedback :: string
  pa_settled :: bool
  pa_Approved :: bool

record PermissionInteractionResult =
  ir_Decision :: PermissionInteractionDecision
  ir_Message :: string
  ir_PlanApproval :: "PlanApprovalDecision option"
  ir_rest :: string

datatype plan_error =
    NoTurnIdentity
  | TurnOwnsBoundary string
  | NoRequestIdentity
  | UnknownMode Mode
  | NotBoundaryOwner string string
  | ApprovalOwnsBoundary string
  | SessionNotIdle string
  | UnknownSource planTransitionSource
  | ConfirmedTargetNotBypass Mode
  | GoalPlanConflict
  | EnterRequiresInactive PlanPhase
  | ExitTargetNotAllowed Mode
  | ExitRequiresActive PlanPhase
  | ApprovalHasNoTurn
  | ApprovalRequiresActive PlanPhase
  | SnapshotUnavailable string
  | ModeNotSelectable Mode
  | BypassNotConfirmed

datatype plan_effect =
    PlanEvent PlanStateTransitionEvent
  | RuntimeEvent string PlanStateTransitionEvent
  | ModeNotified string
  | CheckpointSaved

record plan_engine =
  pe_plan :: PlanState
  pe_turn :: string
  pe_mode :: Mode
  pe_goal :: "goalState option"
  pe_session :: "string option"
  pe_routeGeneration :: "64 word"
  pe_subagentMode :: "Mode option"
  pe_log :: "plan_effect list"

record plan_env =
  pv_home :: string
  pv_read :: "string \<Rightarrow> string + string"
  pv_sha256 :: "string \<Rightarrow> string"

section \<open>Modes, plan files and digests\<close>

definition knownPermissionMode :: "Mode \<Rightarrow> bool" where
  "knownPermissionMode mode \<longleftrightarrow>
     mode \<in> {ModeDefault, ModePlan, ModeAcceptEdits, ModeBypassPermissions, ModeDontAsk, ModeAuto, ModeBubble}"

definition knownPlanReturnMode :: "Mode \<Rightarrow> bool" where
  "knownPlanReturnMode mode \<longleftrightarrow> mode \<noteq> ModePlan \<and> knownPermissionMode mode"

definition knownPlanExitTargetMode :: "Mode \<Rightarrow> bool" where
  "knownPlanExitTargetMode mode = knownPlanReturnMode mode"

definition userSelectablePermissionMode :: "Mode \<Rightarrow> bool" where
  "userSelectablePermissionMode mode \<longleftrightarrow>
     mode \<in> {ModeDefault, ModePlan, ModeAcceptEdits, ModeBypassPermissions, ModeDontAsk, ModeAuto}"

definition GetPlansDirPath :: "plan_env \<Rightarrow> string" where
  "GetPlansDirPath env = Join [pv_home env, ''.claude'', ''plans'']"

definition GetPlanFilePath :: "plan_env \<Rightarrow> string \<Rightarrow> string \<Rightarrow> string" where
  "GetPlanFilePath env sessionID agentID =
     (let slug = (if sessionID = [] then ''default'' else sessionID) in
      if agentID \<noteq> [] then Join [GetPlansDirPath env, slug @ ''-agent-'' @ agentID @ ''.md'']
      else Join [GetPlansDirPath env, slug @ ''.md''])"

definition initialPlanState :: "plan_env \<Rightarrow> string \<Rightarrow> string \<Rightarrow> Mode \<Rightarrow> PlanState" where
  "initialPlanState env sessionID agentID mode =
     \<lparr>pl_Phase = (if mode = ModePlan then PlanPhaseActive else PlanPhaseInactive), pl_PlanFileIdentity = GetPlanFilePath env sessionID agentID,
      pl_ReturnMode = ModeDefault, pl_ApprovalRequestID = [], pl_ApprovalInitialDigest = [], pl_Revision = (if mode = ModePlan then 1 else 0)\<rparr>"

definition planDigestPrefix :: string where "planDigestPrefix = ''sha256:''"

definition PlanBytesDigest :: "plan_env \<Rightarrow> string \<Rightarrow> string" where
  "PlanBytesDigest env data = planDigestPrefix @ pv_sha256 env data"

definition ReadPlanReviewSnapshot :: "plan_env \<Rightarrow> string \<Rightarrow> string + string \<times> string" where
  "ReadPlanReviewSnapshot env path =
     (case pv_read env path of
        Inl err \<Rightarrow> Inl (''read Plan review snapshot: '' @ err)
      | Inr data \<Rightarrow> Inr (data, PlanBytesDigest env data))"

definition hex_digit :: "char \<Rightarrow> bool" where
  "hex_digit c \<longleftrightarrow> c \<in> set ''0123456789abcdefABCDEF''"

definition validPlanDigest :: "string \<Rightarrow> bool" where
  "validPlanDigest v \<longleftrightarrow>
     v = TrimUnicode v \<and> HasPrefix v planDigestPrefix \<and>
     (let encoded = drop (length planDigestPrefix) v in
      encoded = ToLower encoded \<and> even (length encoded) \<and> list_all hex_digit encoded \<and> length encoded div 2 = 32)"

section \<open>Turns\<close>

definition effective_mode :: "Mode \<Rightarrow> Mode" where
  "effective_mode mode = (if mode = ModeOther [] then ModeDefault else mode)"

definition beginPlanTurn :: "string \<Rightarrow> plan_engine \<Rightarrow> (plan_error + PlanState \<times> Mode) \<times> plan_engine" where
  "beginPlanTurn turn e =
     (let turnID = TrimUnicode turn in
      if turnID = [] then (Inl NoTurnIdentity, e)
      else if pe_turn e \<noteq> [] then (Inl (TurnOwnsBoundary (pe_turn e)), e)
      else (Inr (pe_plan e, if planPhaseRequiresContainment (pl_Phase (pe_plan e)) then ModePlan else effective_mode (pe_mode e)),
            e\<lparr>pe_turn := turnID\<rparr>))"

definition endPlanTurn :: "string \<Rightarrow> plan_engine \<Rightarrow> plan_engine" where
  "endPlanTurn turnID e = (if pe_turn e = TrimUnicode turnID then e\<lparr>pe_turn := []\<rparr> else e)"

section \<open>Transitions\<close>

text \<open>Who may cross the boundary: the turn that owns it, or an idle session.\<close>

definition idle_error :: "plan_engine \<Rightarrow> plan_error option" where
  "idle_error e =
     (if pe_turn e \<noteq> [] then Some (TurnOwnsBoundary (pe_turn e))
      else if pl_Phase (pe_plan e) = PlanPhaseAwaitingApproval then Some (ApprovalOwnsBoundary (pl_ApprovalRequestID (pe_plan e)))
      else case pe_session e of Some s \<Rightarrow> (if s \<noteq> ''idle'' then Some (SessionNotIdle s) else None) | None \<Rightarrow> None)"

definition boundary_error :: "planTransitionSource \<Rightarrow> string \<Rightarrow> plan_engine \<Rightarrow> plan_error option" where
  "boundary_error source turnID e =
     (case source of
        planTransitionTool \<Rightarrow> (if turnID = [] \<or> turnID \<noteq> pe_turn e then Some (NotBoundaryOwner turnID (pe_turn e)) else None)
      | planTransitionCommand \<Rightarrow> (if turnID = [] \<or> turnID \<noteq> pe_turn e then Some (NotBoundaryOwner turnID (pe_turn e)) else None)
      | planTransitionExternal \<Rightarrow> idle_error e
      | planTransitionUserConfirmed \<Rightarrow> idle_error e
      | _ \<Rightarrow> Some (UnknownSource source))"

definition tool_phase_error :: "Mode \<Rightarrow> PlanPhase \<Rightarrow> plan_error option" where
  "tool_phase_error mode fromPhase =
     (if mode = ModePlan then (if fromPhase \<noteq> PlanPhaseInactive then Some (EnterRequiresInactive fromPhase) else None)
      else if \<not> knownPlanExitTargetMode mode then Some (ExitTargetNotAllowed mode)
      else if fromPhase \<noteq> PlanPhaseActive then Some (ExitRequiresActive fromPhase)
      else None)"

definition planTransitionEvent :: "PlanPhase \<Rightarrow> PlanState \<Rightarrow> Mode \<Rightarrow> string \<Rightarrow> planTransitionSource \<Rightarrow> PlanStateTransitionEvent" where
  "planTransitionEvent fromPhase nxt mode requestID source =
     \<lparr>px_FromPhase = fromPhase, px_Phase = pl_Phase nxt, px_PermissionMode = mode, px_PlanFileIdentity = pl_PlanFileIdentity nxt,
      px_ReturnMode = pl_ReturnMode nxt, px_ApprovalRequestID = pl_ApprovalRequestID nxt, px_RequestID = requestID,
      px_Revision = pl_Revision nxt, px_Source = source_string source\<rparr>"

text \<open>The mode a transition leads to: an external exit from Plan mode leads back to where it began.\<close>

definition target_mode :: "planTransitionSource \<Rightarrow> Mode \<Rightarrow> plan_engine \<Rightarrow> Mode" where
  "target_mode source requested e =
     (if source = planTransitionExternal \<and> pl_Phase (pe_plan e) = PlanPhaseActive \<and> requested \<noteq> ModePlan then pl_ReturnMode (pe_plan e) else requested)"

definition next_plan :: "Mode \<Rightarrow> plan_engine \<Rightarrow> PlanState" where
  "next_plan mode e =
     (let state = pe_plan e; currentMode = effective_mode (pe_mode e) in
      state\<lparr>pl_ReturnMode := (if mode = ModePlan \<and> pl_Phase state \<noteq> PlanPhaseActive \<and> currentMode \<noteq> ModePlan then currentMode else pl_ReturnMode state),
            pl_Phase := (if mode = ModePlan then PlanPhaseActive else PlanPhaseInactive), pl_ApprovalRequestID := [], pl_ApprovalInitialDigest := [],
            pl_Revision := pl_Revision state + 1\<rparr>)"

text \<open>The change itself; the event is \<open>None\<close> where the code reports that nothing changed.\<close>

definition enter_mode :: "planTransitionSource \<Rightarrow> string \<Rightarrow> Mode \<Rightarrow> plan_engine \<Rightarrow> (plan_error + PlanStateTransitionEvent option) \<times> plan_engine" where
  "enter_mode source requestID mode e =
     (let fromPhase = pl_Phase (pe_plan e); targetPhase = (if mode = ModePlan then PlanPhaseActive else PlanPhaseInactive) in
      case (if source = planTransitionTool then tool_phase_error mode fromPhase else None) of
        Some err \<Rightarrow> (Inl err, e)
      | None \<Rightarrow>
      if source \<noteq> planTransitionTool \<and> effective_mode (pe_mode e) = mode \<and> fromPhase = targetPhase then (Inr None, e)
      else
        (Inr (Some (planTransitionEvent fromPhase (next_plan mode e) mode requestID source)),
         e\<lparr>pe_plan := next_plan mode e, pe_mode := mode,
           pe_routeGeneration := (if fromPhase \<noteq> targetPhase then pe_routeGeneration e + 1 else pe_routeGeneration e),
           pe_subagentMode := map_option (\<lambda>_. mode) (pe_subagentMode e)\<rparr>))"

definition applyPlanTransition :: "planTransitionRequest \<Rightarrow> plan_engine \<Rightarrow> (plan_error + PlanStateTransitionEvent option) \<times> plan_engine" where
  "applyPlanTransition request e =
     (let source = pt_Source request; turnID = TrimUnicode (pt_TurnID request); requestID = TrimUnicode (pt_RequestID request); mode = pt_Mode request in
      if requestID = [] then (Inl NoRequestIdentity, e)
      else if \<not> knownPermissionMode mode then (Inl (UnknownMode mode), e)
      else case boundary_error source turnID e of
        Some err \<Rightarrow> (Inl err, e)
      | None \<Rightarrow>
      if source = planTransitionUserConfirmed \<and> mode \<noteq> ModeBypassPermissions then (Inl (ConfirmedTargetNotBypass mode), e)
      else if mode = ModePlan \<and> pl_Phase (pe_plan e) \<noteq> PlanPhaseActive \<and> goalBlocksPlan (pe_goal e) then (Inl GoalPlanConflict, e)
      else enter_mode source requestID (target_mode source mode e) e)"

definition emit_plan :: "bool \<Rightarrow> PlanStateTransitionEvent \<Rightarrow> plan_engine \<Rightarrow> plan_engine" where
  "emit_plan emit event e = (if emit then e\<lparr>pe_log := pe_log e @ [PlanEvent event]\<rparr> else e)"

definition notify_mode :: "Mode \<Rightarrow> plan_engine \<Rightarrow> plan_engine" where
  "notify_mode mode e =
     e\<lparr>pe_log := pe_log e @ (if pe_session e \<noteq> None then [ModeNotified (mode_string mode)] else []) @ [CheckpointSaved]\<rparr>"

text \<open>The closure that a tool transition returns, run at most once when its result is published.\<close>

definition publish_transition :: "bool \<Rightarrow> PlanStateTransitionEvent \<Rightarrow> plan_engine \<Rightarrow> plan_engine" where
  "publish_transition emit event e = notify_mode (px_PermissionMode event) (emit_plan emit event e)"

record toolOptions =
  po_PermissionMode :: Mode
  po_PlanFilePath :: string

record toolUseContext =
  pc_PlanMode :: bool
  pc_Options :: "toolOptions option"
  pc_SessionID :: string
  pc_AgentID :: string

definition applyPermissionModeToToolContext :: "Mode \<Rightarrow> toolUseContext option \<Rightarrow> toolUseContext option" where
  "applyPermissionModeToToolContext mode ctx =
     map_option (\<lambda>c. c\<lparr>pc_PlanMode := (mode = ModePlan), pc_Options := map_option (\<lambda>o1. o1\<lparr>po_PermissionMode := mode\<rparr>) (pc_Options c)\<rparr>) ctx"

definition transitionPermissionModeForTurn ::
  "string \<Rightarrow> toolUseContext option \<Rightarrow> Mode \<Rightarrow> string \<Rightarrow> plan_engine
   \<Rightarrow> (toolUseContext option \<times> PlanStateTransitionEvent option \<times> plan_error option) \<times> plan_engine"
where
  "transitionPermissionModeForTurn turnID ctx mode requestID e =
     (case applyPlanTransition \<lparr>pt_Source = planTransitionTool, pt_TurnID = turnID, pt_RequestID = requestID, pt_Mode = mode\<rparr> e of
        (Inl err, e') \<Rightarrow> ((ctx, None, Some err), e')
      | (Inr event, e') \<Rightarrow> ((applyPermissionModeToToolContext mode ctx, event, None), e'))"

definition transitionPermissionModeForCommandTurn :: "string \<Rightarrow> bool \<Rightarrow> Mode \<Rightarrow> string \<Rightarrow> plan_engine \<Rightarrow> plan_error option \<times> plan_engine" where
  "transitionPermissionModeForCommandTurn turnID emit mode requestID e =
     (case applyPlanTransition \<lparr>pt_Source = planTransitionCommand, pt_TurnID = turnID, pt_RequestID = requestID, pt_Mode = mode\<rparr> e of
        (Inl err, e') \<Rightarrow> (Some err, e')
      | (Inr None, e') \<Rightarrow> (None, e')
      | (Inr (Some event), e') \<Rightarrow> (None, notify_mode (px_PermissionMode event) (emit_plan emit event e')))"

definition setPermissionMode :: "string \<Rightarrow> Mode \<Rightarrow> planTransitionSource \<Rightarrow> plan_engine \<Rightarrow> plan_error option \<times> plan_engine" where
  "setPermissionMode uuid mode source e =
     (case applyPlanTransition \<lparr>pt_Source = source, pt_TurnID = [], pt_RequestID = uuid, pt_Mode = mode\<rparr> e of
        (Inl err, e') \<Rightarrow> (Some err, e')
      | (Inr None, e') \<Rightarrow> (None, e')
      | (Inr (Some event), e') \<Rightarrow>
          (None, notify_mode (px_PermissionMode event) (e'\<lparr>pe_log := pe_log e' @ [RuntimeEvent (''external-plan-'' @ uuid) event]\<rparr>)))"

definition SetPermissionModeConfirmed :: "string \<Rightarrow> Mode \<Rightarrow> bool \<Rightarrow> plan_engine \<Rightarrow> plan_error option \<times> plan_engine" where
  "SetPermissionModeConfirmed uuid mode bypassConfirmed e =
     (if \<not> userSelectablePermissionMode mode then (Some (ModeNotSelectable mode), e)
      else if mode = ModeBypassPermissions \<and> \<not> bypassConfirmed then (Some BypassNotConfirmed, e)
      else setPermissionMode uuid mode
        (if mode = ModeBypassPermissions \<and> bypassConfirmed then planTransitionUserConfirmed else planTransitionExternal) e)"

definition SetPermissionMode :: "string \<Rightarrow> Mode \<Rightarrow> plan_engine \<Rightarrow> plan_error option \<times> plan_engine" where
  "SetPermissionMode uuid mode e = SetPermissionModeConfirmed uuid mode False e"

section \<open>Approval\<close>

definition Allowed :: "PermissionInteractionResult \<Rightarrow> bool" where
  "Allowed r \<longleftrightarrow> ir_Decision r \<in> {PermissionAllowOnce, PermissionAllowSession, PermissionAllowAlways}"

definition beginPlanApproval ::
  "plan_env \<Rightarrow> string \<Rightarrow> bool \<Rightarrow> plan_engine \<Rightarrow> (plan_error + PlanApprovalRequest) \<times> plan_engine"
where
  "beginPlanApproval env request emit e =
     (let requestID = TrimUnicode request; state = pe_plan e in
      if requestID = [] then (Inl NoRequestIdentity, e)
      else if pe_turn e = [] then (Inl ApprovalHasNoTurn, e)
      else if pl_Phase state \<noteq> PlanPhaseActive then (Inl (ApprovalRequiresActive (pl_Phase state)), e)
      else case ReadPlanReviewSnapshot env (pl_PlanFileIdentity state) of
        Inl err \<Rightarrow> (Inl (SnapshotUnavailable err), e)
      | Inr (_, digest) \<Rightarrow>
          (let nxt = state\<lparr>pl_Phase := PlanPhaseAwaitingApproval, pl_ApprovalRequestID := requestID, pl_ApprovalInitialDigest := digest,
                           pl_Revision := pl_Revision state + 1\<rparr> in
           (Inr \<lparr>aq_RequestID = requestID, aq_PlanRevision = pl_Revision nxt, aq_PlanFileIdentity = pl_PlanFileIdentity nxt,
                 aq_InitialPlanDigest = digest, aq_ReturnMode = pl_ReturnMode nxt\<rparr>,
            emit_plan emit (planTransitionEvent (pl_Phase state) nxt ModePlan requestID planTransitionApprovalRequest) (e\<lparr>pe_plan := nxt\<rparr>))))"

definition normalizePlanApprovalCancel :: "PermissionInteractionResult \<Rightarrow> PlanApprovalDecision \<Rightarrow> string \<Rightarrow> PermissionInteractionResult" where
  "normalizePlanApprovalCancel result decision message =
     result\<lparr>ir_PlanApproval := Some (decision\<lparr>pa_settled := False, pa_Approved := False, pa_Confirmed := False, pa_TargetMode := ModePlan,
                                             pa_ReviewedPlanDigest := [], pa_Feedback := []\<rparr>),
           ir_Decision := (if Allowed result then PermissionDeny else ir_Decision result),
           ir_Message := (if TrimUnicode (ir_Message result) = [] then message else ir_Message result)\<rparr>"

definition cancel_decision :: "PlanApprovalRequest \<Rightarrow> PlanApprovalDecision" where
  "cancel_decision request =
     \<lparr>pa_RequestID = aq_RequestID request, pa_PlanRevision = aq_PlanRevision request, pa_Outcome = PlanApprovalCancel, pa_ReviewedPlanDigest = [],
      pa_TargetMode = ModePlan, pa_Confirmed = False, pa_Feedback = [], pa_settled = False, pa_Approved = False\<rparr>"

definition denied :: "PlanApprovalRequest \<Rightarrow> string \<Rightarrow> PermissionInteractionResult" where
  "denied request message = \<lparr>ir_Decision = PermissionDeny, ir_Message = message, ir_PlanApproval = Some (cancel_decision request), ir_rest = []\<rparr>"

text \<open>The outcome of an answer of the older form, which has none.\<close>

definition legacy_outcome :: "string \<Rightarrow> PermissionInteractionResult \<Rightarrow> PlanApprovalDecision \<Rightarrow> PlanApprovalDecision" where
  "legacy_outcome initial result decision =
     (if pa_Outcome decision \<noteq> PlanApprovalOther [] then decision
      else if pa_Approved decision \<and> Allowed result
      then decision\<lparr>pa_Outcome := PlanApprovalApprove,
                    pa_ReviewedPlanDigest := (if pa_ReviewedPlanDigest decision = [] then initial else pa_ReviewedPlanDigest decision)\<rparr>
      else if pa_Feedback decision \<noteq> [] then decision\<lparr>pa_Outcome := PlanApprovalRevise\<rparr>
      else decision\<lparr>pa_Outcome := PlanApprovalCancel\<rparr>)"

definition approval_refused :: "plan_env \<Rightarrow> PlanApprovalRequest \<Rightarrow> PlanApprovalDecision \<Rightarrow> string option" where
  "approval_refused env request decision =
     (if \<not> knownPlanExitTargetMode (pa_TargetMode decision) then Some ''invalid Plan approval target mode''
      else if pa_TargetMode decision = ModeBypassPermissions \<and> \<not> pa_Confirmed decision
      then Some ''explicit confirmation is required for Plan bypass''
      else if \<not> validPlanDigest (pa_ReviewedPlanDigest decision) then Some ''Plan approval did not identify reviewed bytes''
      else case ReadPlanReviewSnapshot env (aq_PlanFileIdentity request) of
        Inl err \<Rightarrow> Some (''Plan review is stale: '' @ err)
      | Inr (_, currentDigest) \<Rightarrow>
          (if currentDigest \<noteq> pa_ReviewedPlanDigest decision then Some ''Plan review is stale: the Plan file changed after review'' else None))"

definition decide_outcome ::
  "plan_env \<Rightarrow> PlanApprovalRequest \<Rightarrow> PermissionInteractionResult \<Rightarrow> PlanApprovalDecision \<Rightarrow> PermissionInteractionResult"
where
  "decide_outcome env request result decision =
     (case pa_Outcome decision of
        PlanApprovalRevise \<Rightarrow>
          (if pa_Feedback decision = [] then normalizePlanApprovalCancel result (decision\<lparr>pa_Outcome := PlanApprovalCancel\<rparr>) ''Plan approval cancelled.''
           else result\<lparr>ir_PlanApproval := Some (decision\<lparr>pa_Approved := False, pa_Confirmed := False, pa_TargetMode := ModePlan, pa_ReviewedPlanDigest := []\<rparr>),
                       ir_Decision := PermissionDeny, ir_Message := ''User requested further planning: '' @ pa_Feedback decision\<rparr>)
      | PlanApprovalCancel \<Rightarrow> normalizePlanApprovalCancel result decision ''Plan approval cancelled.''
      | PlanApprovalOther _ \<Rightarrow> denied request ''invalid Plan approval outcome''
      | PlanApprovalApprove \<Rightarrow>
          (if \<not> Allowed result then normalizePlanApprovalCancel result (decision\<lparr>pa_Outcome := PlanApprovalCancel\<rparr>) ''Plan approval was not authorized.''
           else case approval_refused env request decision of
             Some message \<Rightarrow> normalizePlanApprovalCancel result (decision\<lparr>pa_Outcome := PlanApprovalCancel\<rparr>) message
           | None \<Rightarrow> result\<lparr>ir_Decision := PermissionAllowOnce, ir_Message := [],
                            ir_PlanApproval := Some (decision\<lparr>pa_Feedback := [], pa_settled := True\<rparr>)\<rparr>))"

definition normalizePlanApprovalDecision ::
  "plan_env \<Rightarrow> PlanApprovalRequest \<Rightarrow> PermissionInteractionResult \<Rightarrow> PermissionInteractionResult"
where
  "normalizePlanApprovalDecision env request result =
     (let initial = (if aq_InitialPlanDigest request \<noteq> [] then aq_InitialPlanDigest request
                     else case ReadPlanReviewSnapshot env (aq_PlanFileIdentity request) of Inl _ \<Rightarrow> [] | Inr (_, digest) \<Rightarrow> digest) in
      case ir_PlanApproval result of
        None \<Rightarrow>
          result\<lparr>ir_PlanApproval := Some (cancel_decision request),
                 ir_Decision := (if Allowed result then PermissionDeny else ir_Decision result),
                 ir_Message := (if Allowed result then ''structured Plan approval decision required''
                                else if TrimUnicode (ir_Message result) = [] then ''User rejected the plan.'' else ir_Message result)\<rparr>
      | Some given \<Rightarrow>
          (let decision = given\<lparr>pa_settled := False, pa_Feedback := TrimUnicode (pa_Feedback given)\<rparr> in
           if pa_RequestID decision \<noteq> aq_RequestID request \<or> pa_PlanRevision decision \<noteq> aq_PlanRevision request
           then denied request ''mismatched Plan approval identity''
           else decide_outcome env request result ((legacy_outcome initial result decision)\<lparr>pa_Approved := False\<rparr>)))"

definition settlePlanApproval ::
  "plan_env \<Rightarrow> PlanApprovalRequest \<Rightarrow> PermissionInteractionResult \<Rightarrow> bool \<Rightarrow> plan_engine \<Rightarrow> PermissionInteractionResult \<times> plan_engine"
where
  "settlePlanApproval env request result emit e =
     (let state = pe_plan e in
      if pl_Phase state \<noteq> PlanPhaseAwaitingApproval \<or> pl_ApprovalRequestID state \<noteq> aq_RequestID request \<or>
         pl_Revision state \<noteq> aq_PlanRevision request \<or> pl_ApprovalInitialDigest state \<noteq> aq_InitialPlanDigest request
      then (\<lparr>ir_Decision = PermissionDeny, ir_Message = ''stale Plan approval decision ignored'', ir_PlanApproval = None, ir_rest = []\<rparr>, e)
      else
        let nxt = state\<lparr>pl_Phase := PlanPhaseActive, pl_ApprovalRequestID := [], pl_ApprovalInitialDigest := [], pl_Revision := pl_Revision state + 1\<rparr> in
        (normalizePlanApprovalDecision env request result,
         emit_plan emit (planTransitionEvent (pl_Phase state) nxt ModePlan (aq_RequestID request) planTransitionApprovalResult) (e\<lparr>pe_plan := nxt\<rparr>)))"

definition ensurePlanApprovalSettled ::
  "plan_env \<Rightarrow> PlanApprovalRequest \<Rightarrow> PermissionInteractionResult \<Rightarrow> bool \<Rightarrow> plan_engine \<Rightarrow> PermissionInteractionResult \<times> plan_engine"
where
  "ensurePlanApprovalSettled env request result emit e =
     (let state = pe_plan e in
      if pl_Phase state \<noteq> PlanPhaseAwaitingApproval \<or> pl_ApprovalRequestID state \<noteq> aq_RequestID request \<or> pl_Revision state \<noteq> aq_PlanRevision request
      then (result, e)
      else settlePlanApproval env request result emit e)"

definition planApprovalAllowsExit :: "PlanApprovalDecision option \<Rightarrow> string \<Rightarrow> bool" where
  "planApprovalAllowsExit decision requestID =
     (case decision of
        None \<Rightarrow> False
      | Some d \<Rightarrow> pa_Outcome d = PlanApprovalApprove \<and> pa_settled d \<and> TrimUnicode requestID \<noteq> [] \<and> pa_RequestID d = requestID)"

definition planModeTransition :: "string \<Rightarrow> string \<Rightarrow> PlanApprovalDecision option \<Rightarrow> Mode option" where
  "planModeTransition toolName requestID planApproval =
     (if toolName = ''EnterPlanMode'' then Some ModePlan
      else if toolName = ''ExitPlanMode'' then
        (case planApproval of
           None \<Rightarrow> None
         | Some d \<Rightarrow>
            (if \<not> planApprovalAllowsExit planApproval requestID \<or> \<not> knownPlanExitTargetMode (pa_TargetMode d) then None
             else Some (pa_TargetMode d)))
      else None)"

definition PlanApprovalTargetModes :: "Mode \<Rightarrow> Mode list" where
  "PlanApprovalTargetModes returnMode = rev (remdups (rev [effective_mode returnMode, ModeAcceptEdits, ModeBypassPermissions]))"

end
