(* ===== verification/Plan_Policy.thy ===== *)
theory Plan_Policy
  imports Plan_State Permission_Path
begin

text \<open>
  What Plan mode admits (src/engine/plan_tool_policy.go) and how a Plan state survives a restart
  (src/engine/plan_persistence.go, with the record of session/branch.go and its writer in
  session_checkpoint.go).  While Plan mode is active a tool runs only when it is on a fixed list,
  and Write and Edit only on the plan file itself, reached without a symbolic link.

  \<open>Lstat\<close> has three answers here, since the code tells a missing file from other errors.  A
  registry gives the name in the tool information of a registered tool; no information is
  \<open>Some None\<close>.  The warnings of a restore are a datatype instead of their English text.
\<close>

section \<open>Paths\<close>

datatype lstat_result = LstatFound FileMode | LstatNotExist | LstatError

record plan_files =
  pf_Lstat :: "string \<Rightarrow> lstat_result"
  pf_EvalSymlinks :: "string \<Rightarrow> string option"

function no_symlinks_from :: "plan_files \<Rightarrow> string \<Rightarrow> bool" where
  "no_symlinks_from fs path =
     (case pf_Lstat fs path of
        LstatFound mode \<Rightarrow>
          \<not> is_symlink mode \<and> (case pf_EvalSymlinks fs path of None \<Rightarrow> False | Some resolved \<Rightarrow> Clean resolved = path)
      | LstatError \<Rightarrow> False
      | LstatNotExist \<Rightarrow> (let parent = Dir path in if parent = path then False else no_symlinks_from fs parent))"
  by pat_completeness auto
termination
proof (relation "measure (\<lambda>(fs, p). if p = ''.'' then 0 else if p = [] then 1 else Suc (length p))", goal_cases)
  case (2 fs path parent)
  then show ?case using Dir_decreases [of path] by (auto simp: Dir_def Clean_def)
qed simp

declare no_symlinks_from.simps [simp del]

definition pathHasNoSymlinkComponents :: "plan_files \<Rightarrow> string \<Rightarrow> bool" where
  "pathHasNoSymlinkComponents fs path = no_symlinks_from fs (Clean path)"

definition plain_absolute :: "string \<Rightarrow> bool" where
  "plain_absolute path \<longleftrightarrow> \<not> (TrimUnicode path = [] \<or> path \<noteq> TrimUnicode path \<or> \<not> filepath_IsAbs path \<or> path \<noteq> Clean path)"

definition isExactPlanFileMutation ::
  "plan_env \<Rightarrow> plan_files \<Rightarrow> tool_input \<Rightarrow> string \<Rightarrow> string \<Rightarrow> string list \<Rightarrow> bool \<times> string"
where
  "isExactPlanFileMutation env fs input sessionID agentID identities =
     (let filePath = (case string_field input ''file_path'' of Some p \<Rightarrow> p | None \<Rightarrow> []);
          expected = (if identities \<noteq> [] \<and> TrimUnicode (hd identities) \<noteq> [] then hd identities else Clean (GetPlanFilePath env sessionID agentID));
          reason = ''plan mode permits only the exact session plan file '' @ expected in
      if \<not> plain_absolute filePath then (False, reason)
      else if \<not> plain_absolute expected \<or> filePath \<noteq> expected then (False, reason)
      else if \<not> pathHasNoSymlinkComponents fs (Dir expected) then (False, reason)
      else case pf_Lstat fs expected of
        LstatFound mode \<Rightarrow> (if is_symlink mode then (False, reason) else (True, []))
      | LstatNotExist \<Rightarrow> (True, [])
      | LstatError \<Rightarrow> (False, reason))"

section \<open>Tools\<close>

datatype planToolPolicyClass = planToolPolicyOrdinary | planToolPolicyExactFileCapability

record planToolPolicyDecision =
  py_Allowed :: bool
  py_Reason :: string
  py_Class :: planToolPolicyClass

type_synonym plan_registry = "(string \<Rightarrow> string option option) option"

record planToolPolicyRequest =
  pp_Active :: bool
  pp_Projection :: bool
  pp_ToolName :: string
  pp_Input :: tool_input
  pp_SessionID :: string
  pp_AgentID :: string
  pp_PlanFileIdentity :: string
  pp_Registry :: plan_registry

definition hasExactFileCapability :: "planToolPolicyDecision \<Rightarrow> bool" where
  "hasExactFileCapability d \<longleftrightarrow> py_Allowed d \<and> py_Class d = planToolPolicyExactFileCapability"

definition planActiveToolAllowlist :: "string list" where
  "planActiveToolAllowlist =
     [''AskUserQuestion'', ''Glob'', ''Grep'', ''LSP'', ''ListMcpResourcesTool'', ''Read'', ''ReadMcpResourceTool'', ''Skill'', ''TodoWrite'',
      ''WebFetch'', ''WebSearch'']"

definition canonicalPlanToolName :: "plan_registry \<Rightarrow> string \<Rightarrow> string" where
  "canonicalPlanToolName registry name =
     (let toolName = TrimUnicode name in
      case registry of
        None \<Rightarrow> toolName
      | Some get \<Rightarrow>
         (case get toolName of
            Some (Some info) \<Rightarrow> (if TrimUnicode info = [] then toolName else TrimUnicode info)
          | _ \<Rightarrow> toolName))"

definition allow :: planToolPolicyDecision where
  "allow = \<lparr>py_Allowed = True, py_Reason = [], py_Class = planToolPolicyOrdinary\<rparr>"

definition refuse :: "string \<Rightarrow> planToolPolicyDecision" where
  "refuse reason = \<lparr>py_Allowed = False, py_Reason = reason, py_Class = planToolPolicyOrdinary\<rparr>"

definition evaluatePlanToolPolicy :: "plan_env \<Rightarrow> plan_files \<Rightarrow> planToolPolicyRequest \<Rightarrow> planToolPolicyDecision" where
  "evaluatePlanToolPolicy env fs request =
     (let toolName = canonicalPlanToolName (pp_Registry request) (pp_ToolName request) in
      if \<not> pp_Active request then
        (if toolName = ''ExitPlanMode'' then refuse ''ExitPlanMode is available only while plan mode is active'' else allow)
      else if toolName = ''EnterPlanMode'' then refuse ''EnterPlanMode is unavailable while plan mode is already active''
      else if toolName = ''ExitPlanMode'' then allow
      else if toolName = ''Write'' \<or> toolName = ''Edit'' then
        (if pp_Projection request then allow
         else case isExactPlanFileMutation env fs (pp_Input request) (pp_SessionID request) (pp_AgentID request) [pp_PlanFileIdentity request] of
           (allowed, reason) \<Rightarrow>
             \<lparr>py_Allowed = allowed, py_Reason = reason,
              py_Class = (if allowed then planToolPolicyExactFileCapability else planToolPolicyOrdinary)\<rparr>)
      else if toolName \<in> set planActiveToolAllowlist then allow
      else refuse (''tool '' @ toolName @ '' is not available while plan mode is active''))"

text \<open>Of a tool information the filter reads the name.\<close>

definition filterPlanModelVisibleTools ::
  "plan_env \<Rightarrow> plan_files \<Rightarrow> (string \<times> 'a) option list \<Rightarrow> bool \<Rightarrow> plan_registry \<Rightarrow> (string \<times> 'a) list"
where
  "filterPlanModelVisibleTools env fs infos active registry =
     filter (\<lambda>info. py_Allowed (evaluatePlanToolPolicy env fs
               \<lparr>pp_Active = active, pp_Projection = True, pp_ToolName = fst info, pp_Input = [], pp_SessionID = [], pp_AgentID = [],
                pp_PlanFileIdentity = [], pp_Registry = registry\<rparr>))
       (List.map_filter (\<lambda>info. info) infos)"

definition toolContextPlanActive :: "toolUseContext option \<Rightarrow> bool" where
  "toolContextPlanActive ctx =
     (case ctx of
        None \<Rightarrow> False
      | Some c \<Rightarrow> pc_PlanMode c \<or> (case pc_Options c of None \<Rightarrow> False | Some o1 \<Rightarrow> po_PermissionMode o1 = ModePlan))"

definition toolContextSessionID :: "toolUseContext option \<Rightarrow> string \<Rightarrow> string" where
  "toolContextSessionID ctx fallback =
     (case ctx of None \<Rightarrow> fallback | Some c \<Rightarrow> (if TrimUnicode (pc_SessionID c) \<noteq> [] then pc_SessionID c else fallback))"

definition toolContextAgentID :: "toolUseContext option \<Rightarrow> string \<Rightarrow> string" where
  "toolContextAgentID ctx fallback =
     (case ctx of None \<Rightarrow> fallback | Some c \<Rightarrow> (if TrimUnicode (pc_AgentID c) \<noteq> [] then pc_AgentID c else fallback))"

definition toolContextPlanFileIdentity :: "toolUseContext option \<Rightarrow> string" where
  "toolContextPlanFileIdentity ctx =
     (case ctx of None \<Rightarrow> [] | Some c \<Rightarrow> (case pc_Options c of None \<Rightarrow> [] | Some o1 \<Rightarrow> po_PlanFilePath o1))"

definition evaluateToolContextPlanPolicy ::
  "plan_env \<Rightarrow> plan_files \<Rightarrow> toolUseContext option \<Rightarrow> plan_registry \<Rightarrow> string \<Rightarrow> tool_input \<Rightarrow> planToolPolicyDecision"
where
  "evaluateToolContextPlanPolicy env fs ctx registry toolName input =
     evaluatePlanToolPolicy env fs
       \<lparr>pp_Active = toolContextPlanActive ctx, pp_Projection = False, pp_ToolName = toolName, pp_Input = input,
        pp_SessionID = toolContextSessionID ctx [], pp_AgentID = toolContextAgentID ctx [],
        pp_PlanFileIdentity = toolContextPlanFileIdentity ctx, pp_Registry = registry\<rparr>"

section \<open>Persistence\<close>

record PersistedPlanState =
  pz_Version :: int
  pz_Phase :: string
  pz_PlanFileIdentity :: string
  pz_ReturnMode :: string
  pz_ApprovalRequestID :: string
  pz_ApprovalInitialDigest :: string
  pz_Revision :: "64 word"

datatype plan_warning =
    UnknownModeReplaced string
  | VersionIgnored int
  | PhaseIgnored string
  | IdentityReplaced
  | ReturnModeReplaced string
  | ZeroRevisionRepaired
  | PhaseConflict
  | InactiveApprovalDiscarded
  | ActiveApprovalDiscarded
  | PlanModeRestored
  | ApprovalNormalized

definition PersistedPlanStateVersion :: int where "PersistedPlanStateVersion = 1"

fun phase_string :: "PlanPhase \<Rightarrow> string" where
  "phase_string PlanPhaseInactive = ''inactive''"
| "phase_string PlanPhaseActive = ''active''"
| "phase_string PlanPhaseAwaitingApproval = ''awaiting_approval''"
| "phase_string (PlanPhaseOther s) = s"

text \<open>The conversions \<open>PlanPhase(s)\<close> and \<open>permission.Mode(s)\<close>.\<close>

definition PlanPhase_of :: "string \<Rightarrow> PlanPhase" where
  "PlanPhase_of s =
     (if s = ''inactive'' then PlanPhaseInactive else if s = ''active'' then PlanPhaseActive
      else if s = ''awaiting_approval'' then PlanPhaseAwaitingApproval else PlanPhaseOther s)"

definition Mode_of :: "string \<Rightarrow> Mode" where
  "Mode_of s =
     (case find (\<lambda>m. mode_string m = s) [ModeDefault, ModePlan, ModeAcceptEdits, ModeBypassPermissions, ModeDontAsk, ModeAuto, ModeBubble] of
        Some m \<Rightarrow> m
      | None \<Rightarrow> ModeOther s)"

definition persistedPlanState :: "PlanState \<Rightarrow> PersistedPlanState" where
  "persistedPlanState state =
     \<lparr>pz_Version = PersistedPlanStateVersion, pz_Phase = phase_string (pl_Phase state), pz_PlanFileIdentity = pl_PlanFileIdentity state,
      pz_ReturnMode = mode_string (pl_ReturnMode state), pz_ApprovalRequestID = pl_ApprovalRequestID state,
      pz_ApprovalInitialDigest = pl_ApprovalInitialDigest state, pz_Revision = pl_Revision state\<rparr>"

definition validPersistedPlanFileIdentity :: "plan_env \<Rightarrow> plan_files \<Rightarrow> string \<Rightarrow> string \<Rightarrow> string \<Rightarrow> bool" where
  "validPersistedPlanFileIdentity env fs v sessionID agentID \<longleftrightarrow>
     plain_absolute v \<and> Base v = Base (GetPlanFilePath env sessionID agentID) \<and>
     (let plansDir = Dir v; expectedPlansDir = GetPlansDirPath env in
      Base plansDir = Base expectedPlansDir \<and> Base (Dir plansDir) = Base (Dir expectedPlansDir) \<and> pathHasNoSymlinkComponents fs plansDir) \<and>
     (case pf_Lstat fs v of LstatFound mode \<Rightarrow> \<not> is_symlink mode | LstatNotExist \<Rightarrow> True | LstatError \<Rightarrow> False)"

definition restoredPermissionMode :: "string \<Rightarrow> Mode \<Rightarrow> Mode \<times> plan_warning list" where
  "restoredPermissionMode persisted fallback =
     (let name = TrimUnicode persisted in
      if name = [] then (if knownPermissionMode fallback then fallback else ModeDefault, [])
      else if knownPermissionMode (Mode_of name) then (Mode_of name, [])
      else (ModeDefault, [UnknownModeReplaced name]))"

definition maxPlanRevision :: "64 word \<Rightarrow> 64 word \<Rightarrow> 64 word" where
  "maxPlanRevision left right = (if left > right then left else right)"

text \<open>The fields of a record whose version and phase are known, with the unsafe ones replaced.\<close>

definition repaired_state ::
  "plan_env \<Rightarrow> plan_files \<Rightarrow> PersistedPlanState \<Rightarrow> PlanPhase \<Rightarrow> string \<Rightarrow> string \<Rightarrow> PlanState \<times> plan_warning list"
where
  "repaired_state env fs record phase sessionID agentID =
     (let valid = validPersistedPlanFileIdentity env fs (pz_PlanFileIdentity record) sessionID agentID;
          known = knownPlanReturnMode (Mode_of (pz_ReturnMode record));
          zero = (phase \<noteq> PlanPhaseInactive \<and> pz_Revision record = 0) in
      (\<lparr>pl_Phase = phase,
        pl_PlanFileIdentity = (if valid then pz_PlanFileIdentity record else GetPlanFilePath env sessionID agentID),
        pl_ReturnMode = (if known then Mode_of (pz_ReturnMode record) else ModeDefault),
        pl_ApprovalRequestID = TrimUnicode (pz_ApprovalRequestID record),
        pl_ApprovalInitialDigest = TrimUnicode (pz_ApprovalInitialDigest record),
        pl_Revision = (if zero then 1 else pz_Revision record)\<rparr>,
       (if valid then [] else [IdentityReplaced]) @ (if known then [] else [ReturnModeReplaced (pz_ReturnMode record)])
       @ (if zero then [ZeroRevisionRepaired] else [])))"

definition restore_phase ::
  "PlanState \<Rightarrow> PlanState \<Rightarrow> Mode \<Rightarrow> bool \<Rightarrow> PlanState \<times> Mode \<times> plan_warning list"
where
  "restore_phase fallback state mode preserveLiveApproval =
     (case pl_Phase state of
        PlanPhaseInactive \<Rightarrow>
          (if mode = ModePlan
           then (fallback\<lparr>pl_Revision := maxPlanRevision (pl_Revision fallback) (pl_Revision state)\<rparr>, ModePlan, [PhaseConflict])
           else (state\<lparr>pl_ApprovalInitialDigest := [], pl_ApprovalRequestID := []\<rparr>, mode,
                 if pl_ApprovalRequestID state \<noteq> [] then [InactiveApprovalDiscarded] else []))
      | PlanPhaseActive \<Rightarrow>
          (state\<lparr>pl_ApprovalInitialDigest := [], pl_ApprovalRequestID := []\<rparr>, ModePlan,
           (if pl_ApprovalRequestID state \<noteq> [] then [ActiveApprovalDiscarded] else []) @ (if mode \<noteq> ModePlan then [PlanModeRestored] else []))
      | PlanPhaseAwaitingApproval \<Rightarrow>
          (if preserveLiveApproval then (state, ModePlan, [])
           else (state\<lparr>pl_Phase := PlanPhaseActive, pl_ApprovalRequestID := [], pl_ApprovalInitialDigest := [],
                       pl_Revision := (if pl_Revision state < - 1 then pl_Revision state + 1 else pl_Revision state)\<rparr>,
                 ModePlan, [ApprovalNormalized]))
      | PlanPhaseOther _ \<Rightarrow> (fallback, mode, []))"

definition restorePersistedPlanState ::
  "plan_env \<Rightarrow> plan_files \<Rightarrow> PersistedPlanState option \<Rightarrow> string \<Rightarrow> string \<Rightarrow> string \<Rightarrow> Mode \<Rightarrow> bool
   \<Rightarrow> PlanState \<times> Mode \<times> plan_warning list"
where
  "restorePersistedPlanState env fs record persistedMode sessionID agentID fallbackMode preserveLiveApproval =
     (case restoredPermissionMode persistedMode fallbackMode of
        (mode, modeWarnings) \<Rightarrow>
          (let fallback = initialPlanState env sessionID agentID mode in
           case record of
             None \<Rightarrow> (fallback, mode, modeWarnings)
           | Some r \<Rightarrow>
              (if pz_Version r \<noteq> PersistedPlanStateVersion then (fallback, mode, modeWarnings @ [VersionIgnored (pz_Version r)])
               else let phase = PlanPhase_of (TrimUnicode (pz_Phase r)) in
                 if phase \<notin> {PlanPhaseInactive, PlanPhaseActive, PlanPhaseAwaitingApproval}
                 then (fallback, mode, modeWarnings @ [PhaseIgnored (pz_Phase r)])
                 else case repaired_state env fs r phase sessionID agentID of
                   (state, repairs) \<Rightarrow>
                     (case restore_phase fallback state mode preserveLiveApproval of
                        (restored, restoredMode, warnings) \<Rightarrow> (restored, restoredMode, modeWarnings @ repairs @ warnings)))))"

definition validLivePersistedPlanApproval :: "plan_env \<Rightarrow> plan_files \<Rightarrow> PersistedPlanState option \<Rightarrow> string \<Rightarrow> string \<Rightarrow> bool" where
  "validLivePersistedPlanApproval env fs record sessionID agentID =
     (case record of
        None \<Rightarrow> False
      | Some r \<Rightarrow>
          pz_Version r = PersistedPlanStateVersion \<and> PlanPhase_of (TrimUnicode (pz_Phase r)) = PlanPhaseAwaitingApproval \<and>
          TrimUnicode (pz_ApprovalRequestID r) \<noteq> [] \<and> pz_Revision r > 0 \<and> validPlanDigest (pz_ApprovalInitialDigest r) \<and>
          knownPlanReturnMode (Mode_of (pz_ReturnMode r)) \<and>
          validPersistedPlanFileIdentity env fs (pz_PlanFileIdentity r) sessionID agentID)"

section \<open>What Plan mode admits\<close>

text \<open>
  A directory is reached without links when its nearest existing ancestor is no link and resolves
  to itself.
\<close>

inductive link_free :: "plan_files \<Rightarrow> string \<Rightarrow> bool" for fs where
  existing: "pf_Lstat fs path = LstatFound mode \<Longrightarrow> \<not> is_symlink mode \<Longrightarrow> pf_EvalSymlinks fs path = Some resolved \<Longrightarrow> Clean resolved = path \<Longrightarrow>
    link_free fs path"
| missing: "pf_Lstat fs path = LstatNotExist \<Longrightarrow> Dir path \<noteq> path \<Longrightarrow> link_free fs (Dir path) \<Longrightarrow> link_free fs path"

inductive_cases link_freeE: "link_free fs path"

lemma no_symlinks_from_iff: "no_symlinks_from fs path = link_free fs path"
proof
  assume "no_symlinks_from fs path"
  then show "link_free fs path"
  proof (induction fs path rule: no_symlinks_from.induct)
    case (1 fs path)
    then show ?case
      by (auto simp: no_symlinks_from.simps [of fs path] Let_def split: lstat_result.splits option.splits if_splits intro: link_free.intros)
  qed
next
  assume "link_free fs path"
  then show "no_symlinks_from fs path"
    by induction (simp_all add: no_symlinks_from.simps Let_def)
qed

text \<open>The one file that may be written: given clean and absolute, no link and reached without one.\<close>

definition plan_file_writable :: "plan_files \<Rightarrow> string \<Rightarrow> bool" where
  "plan_file_writable fs path \<longleftrightarrow>
     plain_absolute path \<and> link_free fs (Dir path) \<and>
     (pf_Lstat fs path = LstatNotExist \<or> (\<exists>mode. pf_Lstat fs path = LstatFound mode \<and> \<not> is_symlink mode))"

lemma Clean_Dir: "Clean (Dir path) = Dir path"
  by (simp add: Dir_def)

lemma isExactPlanFileMutation_iff:
  assumes "expected = (if TrimUnicode identity \<noteq> [] then identity else Clean (GetPlanFilePath env sessionID agentID))"
  shows "fst (isExactPlanFileMutation env fs input sessionID agentID [identity]) \<longleftrightarrow>
    string_field input ''file_path'' = Some expected \<and> plan_file_writable fs expected"
proof -
  have "\<not> plain_absolute []" by (simp add: plain_absolute_def filepath_IsAbs_def rooted_def)
  then show ?thesis using assms
    by (auto simp: isExactPlanFileMutation_def plan_file_writable_def pathHasNoSymlinkComponents_def no_symlinks_from_iff Clean_Dir Let_def
      split: option.splits lstat_result.splits)
qed

definition plan_file :: "plan_env \<Rightarrow> planToolPolicyRequest \<Rightarrow> string" where
  "plan_file env request =
     (if TrimUnicode (pp_PlanFileIdentity request) \<noteq> [] then pp_PlanFileIdentity request
      else Clean (GetPlanFilePath env (pp_SessionID request) (pp_AgentID request)))"

lemma policy_allows_iff:
  assumes "pp_Active request" "\<not> pp_Projection request" "name = canonicalPlanToolName (pp_Registry request) (pp_ToolName request)"
  shows "py_Allowed (evaluatePlanToolPolicy env fs request) \<longleftrightarrow>
    name = ''ExitPlanMode'' \<or> name \<in> set planActiveToolAllowlist \<or>
    (name = ''Write'' \<or> name = ''Edit'') \<and> string_field (pp_Input request) ''file_path'' = Some (plan_file env request) \<and>
      plan_file_writable fs (plan_file env request)"
proof -
  note exact_file = isExactPlanFileMutation_iff [OF plan_file_def [of env request], of fs "pp_Input request"]
  have "''Write'' \<notin> set planActiveToolAllowlist" "''Edit'' \<notin> set planActiveToolAllowlist" "''EnterPlanMode'' \<notin> set planActiveToolAllowlist"
    by (simp_all add: planActiveToolAllowlist_def)
  then show ?thesis using assms exact_file
    by (cases "isExactPlanFileMutation env fs (pp_Input request) (pp_SessionID request) (pp_AgentID request) [pp_PlanFileIdentity request]")
      (auto simp: evaluatePlanToolPolicy_def Let_def allow_def refuse_def)
qed

text \<open>A tool that may run is one the model was shown.\<close>

lemma admitted_is_visible:
  assumes "py_Allowed (evaluatePlanToolPolicy env fs request)" "pp_ToolName request = fst info" "Some info \<in> set infos"
  shows "info \<in> set (filterPlanModelVisibleTools env' fs' infos (pp_Active request) (pp_Registry request))"
proof -
  have "info \<in> set (List.map_filter (\<lambda>info. info) infos)" using assms(3) by (force simp: List.map_filter_def)
  then show ?thesis using assms(1,2)
    by (auto simp: filterPlanModelVisibleTools_def evaluatePlanToolPolicy_def Let_def allow_def refuse_def split: if_splits)
qed

section \<open>What a restart keeps\<close>

definition plan_contained :: "PlanState \<Rightarrow> Mode \<Rightarrow> bool" where
  "plan_contained state mode \<longleftrightarrow> (planPhaseRequiresContainment (pl_Phase state) \<longleftrightarrow> mode = ModePlan) \<and> pl_ReturnMode state \<noteq> ModePlan"

lemma initial_contained: "plan_contained (initialPlanState env sessionID agentID mode) mode"
  by (simp add: plan_contained_def initialPlanState_def planPhaseRequiresContainment_def)

lemma below_max_le_next: "x < - 1 \<Longrightarrow> x \<le> x + 1" for x :: "64 word"
  by uint_arith

lemma restore_phase_contained:
  assumes "restore_phase fallback state mode preserve = (restored, mode', ws)" "plan_contained fallback mode" "pl_ReturnMode state \<noteq> ModePlan"
    "pl_Phase state \<in> {PlanPhaseInactive, PlanPhaseActive, PlanPhaseAwaitingApproval}"
  shows "plan_contained restored mode'" "planPhaseRequiresContainment (pl_Phase state) \<or> mode = ModePlan \<Longrightarrow> mode' = ModePlan"
    "\<not> preserve \<Longrightarrow> pl_Phase fallback \<noteq> PlanPhaseAwaitingApproval \<Longrightarrow> pl_ApprovalRequestID fallback = [] \<Longrightarrow>
       pl_Phase restored \<noteq> PlanPhaseAwaitingApproval \<and> pl_ApprovalRequestID restored = []"
    "pl_Revision state \<le> pl_Revision restored"
  using assms below_max_le_next [of "pl_Revision state"]
  by (auto simp: restore_phase_def plan_contained_def planPhaseRequiresContainment_def maxPlanRevision_def split: if_splits PlanPhase.splits)

lemma repaired_state_facts:
  assumes "repaired_state env fs r phase sessionID agentID = (state, ws)"
  shows "pl_Phase state = phase" "pl_ReturnMode state \<noteq> ModePlan" "pz_Revision r \<le> pl_Revision state"
  using assms by (auto simp: repaired_state_def knownPlanReturnMode_def Let_def split: if_splits)

definition record_phase :: "PersistedPlanState \<Rightarrow> PlanPhase" where
  "record_phase r = PlanPhase_of (TrimUnicode (pz_Phase r))"

lemma restore_outcome:
  assumes "restorePersistedPlanState env fs (Some r) persistedMode sessionID agentID fallbackMode preserve = (state, mode, ws)"
    "pz_Version r = PersistedPlanStateVersion" "record_phase r \<in> {PlanPhaseInactive, PlanPhaseActive, PlanPhaseAwaitingApproval}"
  shows "plan_contained state mode" "planPhaseRequiresContainment (record_phase r) \<or> fst (restoredPermissionMode persistedMode fallbackMode) = ModePlan \<Longrightarrow> mode = ModePlan"
    "\<not> preserve \<Longrightarrow> pl_Phase state \<noteq> PlanPhaseAwaitingApproval \<and> pl_ApprovalRequestID state = []"
    "pz_Revision r \<le> pl_Revision state"
proof -
  obtain m mw where m: "restoredPermissionMode persistedMode fallbackMode = (m, mw)" by fastforce
  let ?f = "initialPlanState env sessionID agentID m"
  obtain st rw where st: "repaired_state env fs r (record_phase r) sessionID agentID = (st, rw)" by fastforce
  obtain re m' w where re: "restore_phase ?f st m preserve = (re, m', w)" by (metis prod.exhaust)
  have eq: "state = re" "mode = m'"
    using assms m st re by (auto simp: restorePersistedPlanState_def record_phase_def Let_def split: if_splits)
  note facts = repaired_state_facts [OF st]
  have known: "pl_Phase st \<in> {PlanPhaseInactive, PlanPhaseActive, PlanPhaseAwaitingApproval}" using facts(1) assms(3) by simp
  note out = restore_phase_contained [OF re initial_contained facts(2) known]
  show "plan_contained state mode" using out(1) eq by simp
  show "mode = ModePlan" if "planPhaseRequiresContainment (record_phase r) \<or> fst (restoredPermissionMode persistedMode fallbackMode) = ModePlan"
    using out(2) that eq facts(1) m by simp
  show "pl_Phase state \<noteq> PlanPhaseAwaitingApproval \<and> pl_ApprovalRequestID state = []" if "\<not> preserve"
    using out(3) that eq by (simp add: initialPlanState_def)
  show "pz_Revision r \<le> pl_Revision state" using out(4) facts(3) eq by (metis order_trans)
qed

lemma restore_always_contained:
  assumes "restorePersistedPlanState env fs record persistedMode sessionID agentID fallbackMode preserve = (state, mode, ws)"
  shows "plan_contained state mode"
proof (cases "\<exists>r. record = Some r \<and> pz_Version r = PersistedPlanStateVersion \<and> record_phase r \<in> {PlanPhaseInactive, PlanPhaseActive, PlanPhaseAwaitingApproval}")
  case True
  then show ?thesis using restore_outcome(1) assms by blast
next
  case False
  then show ?thesis using assms initial_contained
    by (auto simp: restorePersistedPlanState_def record_phase_def Let_def split: option.splits prod.splits if_splits)
qed

lemma Mode_of_string: "knownPermissionMode m \<Longrightarrow> Mode_of (mode_string m) = m \<and> TrimUnicode (mode_string m) = mode_string m \<and> mode_string m \<noteq> []"
  unfolding knownPermissionMode_def by (elim insertE emptyE; hypsubst; code_simp)

lemma PlanPhase_of_string:
  "phase \<in> {PlanPhaseInactive, PlanPhaseActive, PlanPhaseAwaitingApproval} \<Longrightarrow> PlanPhase_of (TrimUnicode (phase_string phase)) = phase"
  by (elim insertE emptyE; hypsubst; code_simp)

section \<open>Properties\<close>

text \<open>
  C35. What an agent may do while it plans.  While Plan mode is active, a call is admitted exactly
  when its tool, by its registered name, is ExitPlanMode or one of the eleven reading and asking
  tools of the list, or is Write or Edit with the plan file as its path, where that path is clean
  and absolute, is no symbolic link and is reached through none.
\<close>

theorem plan_policy_exact:
  assumes "pp_Active request" "\<not> pp_Projection request" "name = canonicalPlanToolName (pp_Registry request) (pp_ToolName request)"
  shows "py_Allowed (evaluatePlanToolPolicy env fs request) \<longleftrightarrow>
    name = ''ExitPlanMode'' \<or> name \<in> set planActiveToolAllowlist \<or>
    (name = ''Write'' \<or> name = ''Edit'') \<and> string_field (pp_Input request) ''file_path'' = Some (plan_file env request) \<and>
      plan_file_writable fs (plan_file env request)"
  by (rule policy_allows_iff [OF assms])

definition demo_plan_env :: plan_env where
  "demo_plan_env = \<lparr>pv_home = ''/h'', pv_read = (\<lambda>_. Inr ''plan''), pv_sha256 = (\<lambda>_. replicate 64 (CHR ''a''))\<rparr>"

definition demo_plan_files :: plan_files where
  "demo_plan_files =
     \<lparr>pf_Lstat = (\<lambda>p. if p = ''/h'' then LstatFound 0 else LstatNotExist), pf_EvalSymlinks = (\<lambda>p. if p = ''/h'' then Some ''/h'' else None)\<rparr>"

definition demo_write :: "string \<Rightarrow> planToolPolicyRequest" where
  "demo_write path =
     \<lparr>pp_Active = True, pp_Projection = False, pp_ToolName = ''Write'', pp_Input = [(''file_path'', JStr path)], pp_SessionID = ''s'', pp_AgentID = [],
      pp_PlanFileIdentity = [], pp_Registry = None\<rparr>"

lemma demo_plan_paths:
  "GetPlansDirPath demo_plan_env = ''/h/.claude/plans''" "GetPlanFilePath demo_plan_env ''s'' [] = ''/h/.claude/plans/s.md''"
  "Dir ''/h/.claude/plans/s.md'' = ''/h/.claude/plans''" "Dir ''/h/.claude/plans'' = ''/h/.claude''" "Dir ''/h/.claude'' = ''/h''" "Clean ''/h'' = ''/h''"
  "Clean ''/h/.claude/plans/s.md'' = ''/h/.claude/plans/s.md''" "Clean ''/h/.claude/plans'' = ''/h/.claude/plans''" "plain_absolute ''/h/.claude/plans/s.md''"
proof -
  have "Join [''/h'', ''.claude'', ''plans''] = ''/h/.claude/plans''" "Join [''/h/.claude/plans'', ''s.md''] = ''/h/.claude/plans/s.md''" by code_simp+
  then show "GetPlansDirPath demo_plan_env = ''/h/.claude/plans''" "GetPlanFilePath demo_plan_env ''s'' [] = ''/h/.claude/plans/s.md''"
    by (simp_all add: GetPlansDirPath_def GetPlanFilePath_def demo_plan_env_def)
qed code_simp+

lemma demo_plan_directory: "no_symlinks_from demo_plan_files ''/h/.claude/plans''" "pf_Lstat demo_plan_files ''/h/.claude/plans/s.md'' = LstatNotExist"
  by (simp_all add: no_symlinks_from.simps [of _ "''/h/.claude/plans''"] no_symlinks_from.simps [of _ "''/h/.claude''"] no_symlinks_from.simps [of _ "''/h''"]
    demo_plan_paths demo_plan_files_def is_symlink_def)

theorem plan_policy_exact_witness:
  "py_Allowed (evaluatePlanToolPolicy demo_plan_env demo_plan_files (demo_write ''/h/.claude/plans/s.md'')) \<and>
   \<not> py_Allowed (evaluatePlanToolPolicy demo_plan_env demo_plan_files (demo_write ''/h/src/main.go''))"
proof -
  have name: "canonicalPlanToolName (pp_Registry (demo_write path)) (pp_ToolName (demo_write path)) = ''Write''" for path
    by (simp add: demo_write_def canonicalPlanToolName_def) code_simp
  have path: "plan_file demo_plan_env (demo_write path) = ''/h/.claude/plans/s.md''" for path
  proof -
    have "TrimUnicode [] = []" by code_simp
    then show ?thesis by (simp add: demo_write_def plan_file_def demo_plan_paths)
  qed
  have "plan_file_writable demo_plan_files ''/h/.claude/plans/s.md''"
    using demo_plan_directory by (simp add: plan_file_writable_def no_symlinks_from_iff demo_plan_paths)
  moreover have "''Write'' \<notin> set planActiveToolAllowlist" by (simp add: planActiveToolAllowlist_def)
  ultimately show ?thesis
    using plan_policy_exact [of "demo_write ''/h/.claude/plans/s.md''" "''Write''" demo_plan_env demo_plan_files]
      plan_policy_exact [of "demo_write ''/h/src/main.go''" "''Write''" demo_plan_env demo_plan_files]
    by (simp add: name path) (simp add: demo_write_def string_field_def)
qed

text \<open>
  C36. A restart cannot end Plan mode.  When the checkpoint has a Plan record of the known version
  with a known phase, the restored phase and permission mode agree, Plan mode is restored whenever
  the record was in Plan mode or the saved permission mode was plan, the revision does not go
  back, the mode to return to is not Plan, and an approval that waited is no longer actionable
  unless the caller found its live request.
\<close>

theorem restore_keeps_containment:
  assumes "restorePersistedPlanState env fs (Some r) persistedMode sessionID agentID fallbackMode preserve = (state, mode, ws)"
    "pz_Version r = PersistedPlanStateVersion" "record_phase r \<in> {PlanPhaseInactive, PlanPhaseActive, PlanPhaseAwaitingApproval}"
  shows "(planPhaseRequiresContainment (pl_Phase state) \<longleftrightarrow> mode = ModePlan) \<and> pl_ReturnMode state \<noteq> ModePlan \<and> pz_Revision r \<le> pl_Revision state \<and>
    (planPhaseRequiresContainment (record_phase r) \<or> fst (restoredPermissionMode persistedMode fallbackMode) = ModePlan \<longrightarrow> mode = ModePlan) \<and>
    (\<not> preserve \<longrightarrow> pl_Phase state \<noteq> PlanPhaseAwaitingApproval \<and> pl_ApprovalRequestID state = [])"
  using restore_outcome [OF assms] by (auto simp: plan_contained_def)

definition demo_persisted :: PersistedPlanState where
  "demo_persisted =
     \<lparr>pz_Version = 1, pz_Phase = ''awaiting_approval'', pz_PlanFileIdentity = ''/etc/passwd'', pz_ReturnMode = ''plan'', pz_ApprovalRequestID = ''q'',
      pz_ApprovalInitialDigest = [], pz_Revision = 7\<rparr>"

theorem restore_keeps_containment_witness:
  "case restorePersistedPlanState demo_plan_env demo_plan_files (Some demo_persisted) ''bypassPermissions'' ''s'' [] ModeDefault False of
     (state, mode, ws) \<Rightarrow> mode = ModePlan \<and> pl_Phase state \<noteq> PlanPhaseAwaitingApproval \<and> pl_ReturnMode state \<noteq> ModePlan \<and> 7 \<le> pl_Revision state"
proof -
  obtain state mode ws where r: "restorePersistedPlanState demo_plan_env demo_plan_files (Some demo_persisted) ''bypassPermissions'' ''s'' [] ModeDefault False = (state, mode, ws)"
    by (metis prod.exhaust)
  have phase: "record_phase demo_persisted = PlanPhaseAwaitingApproval" by code_simp
  then have "planPhaseRequiresContainment (record_phase demo_persisted)" by (simp add: planPhaseRequiresContainment_def)
  then show ?thesis using restore_keeps_containment [OF r] phase by (simp add: r) (simp add: demo_persisted_def PersistedPlanStateVersion_def)
qed

text \<open>
  A Plan state survives a restart unchanged.  A state whose phase agrees with the permission
  mode, with no approval waiting, a known mode to return to and a plan file that is still valid, is
  restored from its own checkpoint exactly, with its mode and without a warning.
\<close>

lemma plan_state_survives_restart:
  assumes "plan_contained s m" "knownPermissionMode m" "knownPlanReturnMode (pl_ReturnMode s)" "pl_Phase s \<in> {PlanPhaseInactive, PlanPhaseActive}"
    "pl_ApprovalRequestID s = []" "pl_ApprovalInitialDigest s = []" "pl_Phase s = PlanPhaseActive \<Longrightarrow> pl_Revision s \<noteq> 0"
    "validPersistedPlanFileIdentity env fs (pl_PlanFileIdentity s) sessionID agentID"
  shows "restorePersistedPlanState env fs (Some (persistedPlanState s)) (mode_string m) sessionID agentID fallbackMode preserve = (s, m, [])"
proof -
  have mode: "restoredPermissionMode (mode_string m) fallbackMode = (m, [])"
    using Mode_of_string [OF assms(2)] assms(2) by (simp add: restoredPermissionMode_def)
  have phase: "PlanPhase_of (TrimUnicode (phase_string (pl_Phase s))) = pl_Phase s" using PlanPhase_of_string assms(4) by auto
  have ret: "Mode_of (mode_string (pl_ReturnMode s)) = pl_ReturnMode s" using Mode_of_string assms(3) by (simp add: knownPlanReturnMode_def)
  have trim: "TrimUnicode [] = []" by code_simp
  have state: "repaired_state env fs (persistedPlanState s) (pl_Phase s) sessionID agentID = (s, [])"
    using assms(3-8) ret trim by (cases s) (auto simp: repaired_state_def persistedPlanState_def Let_def)
  have fields: "pz_Version (persistedPlanState s) = PersistedPlanStateVersion" "pz_Phase (persistedPlanState s) = phase_string (pl_Phase s)"
    by (simp_all add: persistedPlanState_def)
  have keep: "s\<lparr>pl_ApprovalInitialDigest := [], pl_ApprovalRequestID := []\<rparr> = s" using assms(5,6) by simp
  have "restore_phase fallback s m preserve = (s, m, [])" for fallback
  proof (cases "pl_Phase s = PlanPhaseActive")
    case True
    then show ?thesis using assms(1,5) keep by (simp add: restore_phase_def plan_contained_def planPhaseRequiresContainment_def)
  next
    case False
    then have "pl_Phase s = PlanPhaseInactive" using assms(4) by simp
    then show ?thesis using assms(1,5) keep by (simp add: restore_phase_def plan_contained_def planPhaseRequiresContainment_def)
  qed
  then show ?thesis using mode phase state assms(4) by (auto simp: restorePersistedPlanState_def fields Let_def)
qed

lemma plan_state_survives_restart_witness:
  "restorePersistedPlanState demo_plan_env demo_plan_files (Some (persistedPlanState (initialPlanState demo_plan_env ''s'' [] ModePlan)))
     (mode_string ModePlan) ''s'' [] ModeDefault False = (initialPlanState demo_plan_env ''s'' [] ModePlan, ModePlan, [])"
proof (rule plan_state_survives_restart)
  show "validPersistedPlanFileIdentity demo_plan_env demo_plan_files (pl_PlanFileIdentity (initialPlanState demo_plan_env ''s'' [] ModePlan)) ''s'' []"
    by (simp add: validPersistedPlanFileIdentity_def initialPlanState_def pathHasNoSymlinkComponents_def demo_plan_paths demo_plan_directory)
qed (simp_all add: plan_contained_def planPhaseRequiresContainment_def knownPermissionMode_def knownPlanReturnMode_def initialPlanState_def)

end
