(* ===== verification/Plan_Run.thy ===== *)
theory Plan_Run
  imports Plan_Policy
begin

text \<open>
  Runs of the Plan state machine.  A step is one operation of the engine: a turn begins or ends, a
  command or an external caller sets the permission mode, a plan tool runs, an approval is opened
  or settled, a goal changes, a session is restored.  The plan file and the rest of the environment
  may differ at every step; only SHA-256 and the home directory stay.

  The decisions that the engine has returned from a settlement are kept with the request and the
  bytes of its plan file at that moment.  A tool can present any decision, but one that is marked as
  settled only if the engine returned it: the mark is a private field that nothing else sets.
  \<open>ensurePlanApprovalSettled\<close> settles or does nothing, so it is covered by the settlement.
\<close>

section \<open>Steps\<close>

record plan_world =
  pw_engine :: plan_engine
  pw_issued :: "(PlanApprovalRequest \<times> string \<times> PlanApprovalDecision) list"

datatype plan_label =
    TurnBegan | TurnEnded | CommandRan Mode bool | ExternalSet Mode bool | ToolRan string string "PlanApprovalDecision option"
  | ApprovalBegan | ApprovalSettled | GoalChanged | SessionRestored string Mode

definition issue :: "plan_env \<Rightarrow> PlanApprovalRequest \<Rightarrow> PermissionInteractionResult \<Rightarrow> (PlanApprovalRequest \<times> string \<times> PlanApprovalDecision) list" where
  "issue env request result =
     (case (pv_read env (aq_PlanFileIdentity request), ir_PlanApproval result) of
        (Inr bytes, Some d) \<Rightarrow> [(request, bytes, d)]
      | _ \<Rightarrow> [])"

text \<open>A decision without the mark can be made by anyone.\<close>

definition presentable :: "plan_world \<Rightarrow> PlanApprovalDecision option \<Rightarrow> bool" where
  "presentable w decision \<longleftrightarrow> (\<forall>d. decision = Some d \<and> pa_settled d \<longrightarrow> (\<exists>request bytes. (request, bytes, d) \<in> set (pw_issued w)))"

inductive plan_step :: "plan_env \<Rightarrow> plan_world \<Rightarrow> plan_label \<Rightarrow> plan_world \<Rightarrow> bool" for base where
  turn_begins: "plan_step base w TurnBegan (w\<lparr>pw_engine := snd (beginPlanTurn turn (pw_engine w))\<rparr>)"
| turn_ends: "plan_step base w TurnEnded (w\<lparr>pw_engine := endPlanTurn turn (pw_engine w)\<rparr>)"
| command_runs: "userSelectablePermissionMode mode \<Longrightarrow> mode = ModeBypassPermissions \<longrightarrow> confirmed \<Longrightarrow>
    plan_step base w (CommandRan mode confirmed)
      (w\<lparr>pw_engine := snd (transitionPermissionModeForCommandTurn turn emit mode requestID (pw_engine w))\<rparr>)"
| external_sets: "plan_step base w (ExternalSet mode confirmed) (w\<lparr>pw_engine := snd (SetPermissionModeConfirmed uuid mode confirmed (pw_engine w))\<rparr>)"
| tool_runs: "planModeTransition toolName requestID decision = Some mode \<Longrightarrow> presentable w decision \<Longrightarrow>
    transitionPermissionModeForTurn turn ctx mode requestID (pw_engine w) = ((ctx', event, err), e') \<Longrightarrow>
    plan_step base w (ToolRan toolName requestID decision)
      (w\<lparr>pw_engine := (case event of Some ev \<Rightarrow> if published then publish_transition emit ev e' else e' | None \<Rightarrow> e')\<rparr>)"
| approval_begins: "env = base\<lparr>pv_read := read\<rparr> \<Longrightarrow>
    plan_step base w ApprovalBegan (w\<lparr>pw_engine := snd (beginPlanApproval env requestID emit (pw_engine w))\<rparr>)"
| approval_settles: "env = base\<lparr>pv_read := read\<rparr> \<Longrightarrow> settlePlanApproval env request result emit (pw_engine w) = (result', e') \<Longrightarrow>
    plan_step base w ApprovalSettled (w\<lparr>pw_engine := e', pw_issued := pw_issued w @ issue env request result'\<rparr>)"
| goal_changes: "plan_step base w GoalChanged (w\<lparr>pw_engine := (pw_engine w)\<lparr>pe_goal := goal\<rparr>\<rparr>)"
| session_restored: "restorePersistedPlanState base fs record persistedMode sessionID agentID (pe_mode (pw_engine w)) preserve = (state, mode, ws) \<Longrightarrow>
    plan_step base w (SessionRestored persistedMode mode)
      (w\<lparr>pw_engine := (pw_engine w)\<lparr>pe_plan := state, pe_mode := mode, pe_turn := turn, pe_goal := goal,
           pe_routeGeneration := pe_routeGeneration (pw_engine w) + 1\<rparr>\<rparr>)"

inductive_cases tool_runsE: "plan_step base w (ToolRan toolName requestID decision) w'"

section \<open>A settled decision\<close>

lemma cancel_unsettled: "ir_PlanApproval (normalizePlanApprovalCancel result decision message) = Some d \<Longrightarrow> \<not> pa_settled d"
  by (auto simp: normalizePlanApprovalCancel_def)

lemma denied_unsettled: "ir_PlanApproval (denied request message) = Some d \<Longrightarrow> \<not> pa_settled d"
  by (auto simp: denied_def cancel_decision_def)

lemma decide_settled:
  assumes "ir_PlanApproval (decide_outcome env request result d1) = Some d" "pa_settled d" "\<not> pa_settled d1"
  shows "pa_Outcome d1 = PlanApprovalApprove \<and> approval_refused env request d1 = None \<and> d = d1\<lparr>pa_Feedback := [], pa_settled := True\<rparr>"
proof (cases "pa_Outcome d1")
  case PlanApprovalApprove
  then show ?thesis using assms cancel_unsettled by (cases "approval_refused env request d1") (auto simp: decide_outcome_def split: if_splits)
next
  case PlanApprovalRevise
  then show ?thesis using assms cancel_unsettled by (auto simp: decide_outcome_def split: if_splits)
next
  case PlanApprovalCancel
  then show ?thesis using assms cancel_unsettled by (auto simp: decide_outcome_def)
next
  case (PlanApprovalOther s)
  then show ?thesis using assms denied_unsettled by (auto simp: decide_outcome_def)
qed

lemma settled_decisionE:
  assumes "ir_PlanApproval (normalizePlanApprovalDecision env request result) = Some d" "pa_settled d"
  shows "pa_Outcome d = PlanApprovalApprove" "pa_RequestID d = aq_RequestID request" "knownPlanExitTargetMode (pa_TargetMode d)"
    "pa_TargetMode d = ModeBypassPermissions \<longrightarrow> pa_Confirmed d"
    "\<exists>bytes. pv_read env (aq_PlanFileIdentity request) = Inr bytes \<and> pa_ReviewedPlanDigest d = PlanBytesDigest env bytes"
proof -
  obtain given where given: "ir_PlanApproval result = Some given"
    using assms by (cases "ir_PlanApproval result") (auto simp: normalizePlanApprovalDecision_def cancel_decision_def Let_def)
  define initial where "initial = (if aq_InitialPlanDigest request \<noteq> [] then aq_InitialPlanDigest request
    else case ReadPlanReviewSnapshot env (aq_PlanFileIdentity request) of Inl _ \<Rightarrow> [] | Inr (_, digest) \<Rightarrow> digest)"
  define d0 where "d0 = given\<lparr>pa_settled := False, pa_Feedback := TrimUnicode (pa_Feedback given)\<rparr>"
  define d1 where "d1 = (legacy_outcome initial result d0)\<lparr>pa_Approved := False\<rparr>"
  have n: "normalizePlanApprovalDecision env request result =
    (if pa_RequestID d0 \<noteq> aq_RequestID request \<or> pa_PlanRevision d0 \<noteq> aq_PlanRevision request then denied request ''mismatched Plan approval identity''
     else decide_outcome env request result d1)"
    unfolding normalizePlanApprovalDecision_def given initial_def d0_def d1_def Let_def option.case by (rule refl)
  then have same: "pa_RequestID d0 = aq_RequestID request \<and> pa_PlanRevision d0 = aq_PlanRevision request"
    using assms denied_unsettled by (metis (full_types))
  then have r: "ir_PlanApproval (decide_outcome env request result d1) = Some d" using n assms(1) by simp
  have unsettled: "\<not> pa_settled d1" and rid: "pa_RequestID d1 = pa_RequestID d0"
    by (auto simp: d1_def d0_def legacy_outcome_def)
  note decide_settled [OF r assms(2) unsettled]
  then have ok: "pa_Outcome d1 = PlanApprovalApprove" "approval_refused env request d1 = None" "d = d1\<lparr>pa_Feedback := [], pa_settled := True\<rparr>" by auto
  show "pa_Outcome d = PlanApprovalApprove" "pa_RequestID d = aq_RequestID request" using ok same rid by simp_all
  show "knownPlanExitTargetMode (pa_TargetMode d)" "pa_TargetMode d = ModeBypassPermissions \<longrightarrow> pa_Confirmed d"
    "\<exists>bytes. pv_read env (aq_PlanFileIdentity request) = Inr bytes \<and> pa_ReviewedPlanDigest d = PlanBytesDigest env bytes"
    using ok(2,3) by (auto simp: approval_refused_def ReadPlanReviewSnapshot_def split: if_splits sum.splits)
qed

section \<open>Invariants\<close>

definition reviewed :: "plan_env \<Rightarrow> PlanApprovalRequest \<times> string \<times> PlanApprovalDecision \<Rightarrow> bool" where
  "reviewed base entry =
     (case entry of (request, bytes, d) \<Rightarrow>
        pa_Outcome d = PlanApprovalApprove \<and> pa_RequestID d = aq_RequestID request \<and> pa_ReviewedPlanDigest d = PlanBytesDigest base bytes \<and>
        knownPlanExitTargetMode (pa_TargetMode d) \<and> (pa_TargetMode d = ModeBypassPermissions \<longrightarrow> pa_Confirmed d))"

definition plan_inv :: "plan_env \<Rightarrow> plan_world \<Rightarrow> bool" where
  "plan_inv base w \<longleftrightarrow>
     plan_contained (pe_plan (pw_engine w)) (pe_mode (pw_engine w)) \<and>
     (\<forall>(request, bytes, d) \<in> set (pw_issued w). pa_settled d \<longrightarrow> reviewed base (request, bytes, d))"

lemma effective_mode_plan: "effective_mode mode = ModePlan \<longleftrightarrow> mode = ModePlan"
  by (simp add: effective_mode_def)

lemma next_plan_contained: "plan_contained (pe_plan e) (pe_mode e) \<Longrightarrow> plan_contained (next_plan mode e) mode"
  by (simp add: next_plan_def plan_contained_def planPhaseRequiresContainment_def Let_def)

lemma enter_mode_cases:
  assumes "enter_mode source requestID mode e = (res, e')"
  shows "e' = e \<or> pe_plan e' = next_plan mode e \<and> pe_mode e' = mode"
  using assms by (auto simp: enter_mode_def Let_def split: if_split_asm option.split_asm)

lemma apply_cases:
  assumes "applyPlanTransition request e = (res, e')"
  shows "e' = e \<or> pe_plan e' = next_plan (pe_mode e') e \<and> pe_mode e' = target_mode (pt_Source request) (pt_Mode request) e \<and>
    (pt_Source request = planTransitionUserConfirmed \<longrightarrow> pt_Mode request = ModeBypassPermissions)"
proof -
  have "e' = e \<or> (pt_Source request = planTransitionUserConfirmed \<longrightarrow> pt_Mode request = ModeBypassPermissions) \<and>
    (\<exists>rid. enter_mode (pt_Source request) rid (target_mode (pt_Source request) (pt_Mode request) e) e = (res, e'))"
    using assms unfolding applyPlanTransition_def Let_def by (auto split: if_split_asm option.split_asm)
  then show ?thesis using enter_mode_cases by metis
qed

lemma apply_contained:
  assumes "plan_contained (pe_plan e) (pe_mode e)" "applyPlanTransition request e = (res, e')"
  shows "plan_contained (pe_plan e') (pe_mode e')"
  using apply_cases [OF assms(2)] next_plan_contained [OF assms(1)] assms(1) by metis

lemma log_only [simp]:
  "pe_plan (notify_mode mode e) = pe_plan e" "pe_mode (notify_mode mode e) = pe_mode e"
  "pe_plan (emit_plan emit ev e) = pe_plan e" "pe_mode (emit_plan emit ev e) = pe_mode e"
  "pe_plan (publish_transition emit ev e) = pe_plan e" "pe_mode (publish_transition emit ev e) = pe_mode e"
  by (simp_all add: notify_mode_def emit_plan_def publish_transition_def)

text \<open>An operation that crosses the boundary goes through one transition, and only logs besides.\<close>

lemma command_apply:
  "\<exists>res e'. applyPlanTransition \<lparr>pt_Source = planTransitionCommand, pt_TurnID = turn, pt_RequestID = requestID, pt_Mode = mode\<rparr> e = (res, e') \<and>
     pe_plan (snd (transitionPermissionModeForCommandTurn turn emit mode requestID e)) = pe_plan e' \<and>
     pe_mode (snd (transitionPermissionModeForCommandTurn turn emit mode requestID e)) = pe_mode e'"
  by (cases "applyPlanTransition \<lparr>pt_Source = planTransitionCommand, pt_TurnID = turn, pt_RequestID = requestID, pt_Mode = mode\<rparr> e")
    (auto simp: transitionPermissionModeForCommandTurn_def split: sum.splits option.splits)

lemma set_apply:
  "\<exists>res e'. applyPlanTransition \<lparr>pt_Source = source, pt_TurnID = [], pt_RequestID = uuid, pt_Mode = mode\<rparr> e = (res, e') \<and>
     pe_plan (snd (setPermissionMode uuid mode source e)) = pe_plan e' \<and> pe_mode (snd (setPermissionMode uuid mode source e)) = pe_mode e'"
  by (cases "applyPlanTransition \<lparr>pt_Source = source, pt_TurnID = [], pt_RequestID = uuid, pt_Mode = mode\<rparr> e")
    (auto simp: setPermissionMode_def split: sum.splits option.splits)

lemma tool_apply:
  assumes "transitionPermissionModeForTurn turn ctx mode requestID e = ((ctx', event, err), e')"
  shows "\<exists>res. applyPlanTransition \<lparr>pt_Source = planTransitionTool, pt_TurnID = turn, pt_RequestID = requestID, pt_Mode = mode\<rparr> e = (res, e')"
  using assms by (auto simp: transitionPermissionModeForTurn_def split: prod.splits sum.splits)

lemma settle_issue:
  assumes "settlePlanApproval env request result emit e = (result', e')" "(request', bytes, d) \<in> set (issue env request result')" "pa_settled d"
    "pv_sha256 env = pv_sha256 base"
  shows "reviewed base (request', bytes, d)"
proof -
  have r: "request' = request" "pv_read env (aq_PlanFileIdentity request) = Inr bytes" "ir_PlanApproval result' = Some d"
    using assms(2) by (auto simp: issue_def split: sum.splits option.splits)
  have "result' = normalizePlanApprovalDecision env request result"
    using assms(1) r(3) by (auto simp: settlePlanApproval_def Let_def split: if_splits)
  with r(3) have "ir_PlanApproval (normalizePlanApprovalDecision env request result) = Some d" by simp
  from settled_decisionE [OF this assms(3)] show ?thesis using r(1,2) assms(4) by (auto simp: reviewed_def PlanBytesDigest_def)
qed

lemma approval_contained:
  assumes "plan_contained (pe_plan e) (pe_mode e)"
  shows "plan_contained (pe_plan (snd (beginPlanApproval env requestID emit e))) (pe_mode (snd (beginPlanApproval env requestID emit e)))"
    "settlePlanApproval env request result emit e = (result', e') \<Longrightarrow> plan_contained (pe_plan e') (pe_mode e')"
  using assms
  by (auto simp: beginPlanApproval_def settlePlanApproval_def plan_contained_def planPhaseRequiresContainment_def Let_def split: sum.splits if_splits)

lemma plan_step_inv:
  assumes "plan_step base w l w'" "plan_inv base w"
  shows "plan_inv base w'"
proof -
  have c: "plan_contained (pe_plan (pw_engine w)) (pe_mode (pw_engine w))" using assms(2) by (simp add: plan_inv_def)
  show ?thesis using assms(1)
  proof cases
    case (turn_begins turn)
    then show ?thesis using assms(2) by (auto simp: plan_inv_def beginPlanTurn_def Let_def)
  next
    case (turn_ends turn)
    then show ?thesis using assms(2) by (auto simp: plan_inv_def endPlanTurn_def)
  next
    case (command_runs mode confirmed turn emit requestID)
    then show ?thesis using assms(2) command_apply [of turn requestID mode "pw_engine w" emit] apply_contained [OF c] by (auto simp: plan_inv_def)
  next
    case (external_sets mode confirmed uuid)
    then show ?thesis using assms(2) set_apply [of _ uuid mode "pw_engine w"] apply_contained [OF c]
      by (auto simp: plan_inv_def SetPermissionModeConfirmed_def) metis+
  next
    case (tool_runs toolName requestID decision mode turn ctx ctx' event err e' published emit)
    then have "plan_contained (pe_plan e') (pe_mode e')" using tool_apply apply_contained [OF c] by blast
    then show ?thesis using assms(2) tool_runs(2) by (auto simp: plan_inv_def split: option.splits)
  next
    case (approval_begins env read requestID emit)
    then show ?thesis using assms(2) approval_contained(1) [OF c] by (auto simp: plan_inv_def)
  next
    case (approval_settles env read request result emit result' e')
    then show ?thesis using assms(2) approval_contained(2) [OF c approval_settles(4)] settle_issue [OF approval_settles(4), of _ _ _ base]
      by (auto simp: plan_inv_def)
  next
    case (goal_changes goal)
    then show ?thesis using assms(2) by (simp add: plan_inv_def)
  next
    case (session_restored fs r persistedMode sessionID agentID preserve state mode ws turn goal)
    then show ?thesis using assms(2) restore_always_contained [OF session_restored(3)] by (simp add: plan_inv_def)
  qed
qed

section \<open>Properties\<close>

text \<open>The world at the start of an engine: the state of its configuration, and nothing approved.\<close>

definition plan_start :: "plan_env \<Rightarrow> plan_world \<Rightarrow> bool" where
  "plan_start base w \<longleftrightarrow>
     pw_issued w = [] \<and> (\<exists>sessionID agentID. pe_plan (pw_engine w) = initialPlanState base sessionID agentID (pe_mode (pw_engine w)))"

inductive plan_reach :: "plan_env \<Rightarrow> plan_world \<Rightarrow> bool" for base where
  start: "plan_start base w \<Longrightarrow> plan_reach base w"
| step: "plan_reach base w \<Longrightarrow> plan_step base w l w' \<Longrightarrow> plan_reach base w'"

lemma plan_reach_inv: "plan_reach base w \<Longrightarrow> plan_inv base w"
proof (induction rule: plan_reach.induct)
  case (start w)
  then show ?case using initial_contained by (auto simp: plan_start_def plan_inv_def)
next
  case (step w l w')
  then show ?case using plan_step_inv by blast
qed

text \<open>
  C37. The Plan phase and the permission mode agree in every run.  Whatever turns, commands,
  external callers, tools, approvals and restores do, the engine is in Plan mode exactly when its
  phase is active or awaiting approval, the mode to return to is never Plan itself, and a turn that
  begins in such a phase runs in Plan mode.
\<close>

theorem plan_stays_contained:
  assumes "plan_reach base w"
  shows "(planPhaseRequiresContainment (pl_Phase (pe_plan (pw_engine w))) \<longleftrightarrow> pe_mode (pw_engine w) = ModePlan) \<and>
    pl_ReturnMode (pe_plan (pw_engine w)) \<noteq> ModePlan \<and>
    (case fst (beginPlanTurn turn (pw_engine w)) of
       Inl _ \<Rightarrow> True
     | Inr (state, mode) \<Rightarrow> mode = ModePlan \<longleftrightarrow> planPhaseRequiresContainment (pl_Phase (pe_plan (pw_engine w))))"
  using plan_reach_inv [OF assms] by (auto simp: plan_inv_def plan_contained_def beginPlanTurn_def effective_mode_plan Let_def)

text \<open>
  C38. The agent leaves Plan mode only through a reviewed plan.  When a tool takes a run out of
  Plan mode, the tool is ExitPlanMode and it presents a decision that the engine itself settled for
  this very request; at that settlement the plan file named by the request had exactly the bytes
  whose digest the user had reviewed, the new mode is the one of the decision, and bypassing all
  permissions was confirmed explicitly.
\<close>

theorem plan_exit_reviewed:
  assumes "plan_reach base w" "plan_step base w (ToolRan toolName requestID decision) w'"
    "pe_mode (pw_engine w) = ModePlan" "pe_mode (pw_engine w') \<noteq> ModePlan"
  shows "toolName = ''ExitPlanMode'' \<and>
    (\<exists>request bytes d. decision = Some d \<and> (request, bytes, d) \<in> set (pw_issued w) \<and> aq_RequestID request = requestID \<and>
       pa_ReviewedPlanDigest d = PlanBytesDigest base bytes \<and> pe_mode (pw_engine w') = pa_TargetMode d \<and>
       (pa_TargetMode d = ModeBypassPermissions \<longrightarrow> pa_Confirmed d))"
  using assms(2)
proof (rule tool_runsE)
  fix mode turn ctx ctx' event err e' published emit
  assume t: "planModeTransition toolName requestID decision = Some mode" and pres: "presentable w decision"
    and run: "transitionPermissionModeForTurn turn ctx mode requestID (pw_engine w) = ((ctx', event, err), e')"
    and w': "w' = w\<lparr>pw_engine := case event of None \<Rightarrow> e' | Some ev \<Rightarrow> if published then publish_transition emit ev e' else e'\<rparr>"
  have "pe_mode (pw_engine w') = pe_mode e'" using w' by (auto split: option.splits)
  moreover obtain res where "applyPlanTransition \<lparr>pt_Source = planTransitionTool, pt_TurnID = turn, pt_RequestID = requestID, pt_Mode = mode\<rparr> (pw_engine w) = (res, e')"
    using tool_apply [OF run] by blast
  ultimately have m: "pe_mode (pw_engine w') = mode" using apply_cases assms(3,4) by (fastforce simp: target_mode_def)
  with t assms(4) obtain d where d: "toolName = ''ExitPlanMode''" "decision = Some d" "pa_settled d" "pa_RequestID d = requestID" "mode = pa_TargetMode d"
    by (auto simp: planModeTransition_def planApprovalAllowsExit_def split: if_splits option.splits)
  then obtain request bytes where i: "(request, bytes, d) \<in> set (pw_issued w)" using pres by (auto simp: presentable_def)
  then have "reviewed base (request, bytes, d)" using plan_reach_inv [OF assms(1)] d(3) by (auto simp: plan_inv_def)
  then show ?thesis using i d m by (auto simp: reviewed_def)
qed

text \<open>Who has agreed to a step that turns on the bypass mode.\<close>

definition consented :: "plan_env \<Rightarrow> plan_world \<Rightarrow> plan_label \<Rightarrow> bool" where
  "consented base w l =
     (case l of
        CommandRan mode confirmed \<Rightarrow> mode = ModeBypassPermissions \<and> confirmed
      | ExternalSet mode confirmed \<Rightarrow>
          mode = ModeBypassPermissions \<and> confirmed \<or>
          pl_Phase (pe_plan (pw_engine w)) = PlanPhaseActive \<and> pl_ReturnMode (pe_plan (pw_engine w)) = ModeBypassPermissions
      | ToolRan toolName requestID decision \<Rightarrow>
          (\<exists>request bytes d. decision = Some d \<and> (request, bytes, d) \<in> set (pw_issued w) \<and> pa_Confirmed d \<and>
             pa_ReviewedPlanDigest d = PlanBytesDigest base bytes)
      | SessionRestored persisted mode \<Rightarrow> Mode_of (TrimUnicode persisted) = ModeBypassPermissions
      | _ \<Rightarrow> False)"

lemma restore_bypass:
  assumes "restorePersistedPlanState env fs r persisted sessionID agentID fallback preserve = (state, ModeBypassPermissions, ws)" "fallback \<noteq> ModeBypassPermissions"
  shows "Mode_of (TrimUnicode persisted) = ModeBypassPermissions"
proof -
  have "fst (restoredPermissionMode persisted fallback) = ModeBypassPermissions"
    using assms(1) by (auto simp: restorePersistedPlanState_def restore_phase_def Let_def split: prod.splits option.splits if_splits PlanPhase.splits)
  then show ?thesis using assms(2) by (auto simp: restoredPermissionMode_def Let_def split: if_splits)
qed

lemma tool_bypass:
  assumes "plan_inv base w" "planModeTransition toolName requestID decision = Some ModeBypassPermissions" "presentable w decision"
  shows "consented base w (ToolRan toolName requestID decision)"
proof -
  obtain d where d: "decision = Some d" "pa_settled d" "pa_TargetMode d = ModeBypassPermissions"
    using assms(2) by (auto simp: planModeTransition_def planApprovalAllowsExit_def split: if_splits option.splits)
  then obtain request bytes where i: "(request, bytes, d) \<in> set (pw_issued w)" using assms(3) by (auto simp: presentable_def)
  then have "reviewed base (request, bytes, d)" using assms(1) d(2) by (auto simp: plan_inv_def)
  then show ?thesis using i d by (auto simp: consented_def reviewed_def)
qed

lemma apply_bypass:
  assumes "applyPlanTransition request e = (res, e')" "pe_mode e \<noteq> ModeBypassPermissions" "pe_mode e' = ModeBypassPermissions"
  shows "pt_Mode request = ModeBypassPermissions \<and> pt_Source request \<noteq> planTransitionExternal \<or>
    pt_Source request = planTransitionExternal \<and>
      (pt_Mode request = ModeBypassPermissions \<or> pl_Phase (pe_plan e) = PlanPhaseActive \<and> pl_ReturnMode (pe_plan e) = ModeBypassPermissions)"
  using apply_cases [OF assms(1)] assms(2,3) by (auto simp: target_mode_def split: if_splits)

lemma set_bypass:
  assumes "pe_mode e \<noteq> ModeBypassPermissions" "pe_mode (snd (SetPermissionModeConfirmed uuid mode confirmed e)) = ModeBypassPermissions"
  shows "mode = ModeBypassPermissions \<and> confirmed \<or> pl_Phase (pe_plan e) = PlanPhaseActive \<and> pl_ReturnMode (pe_plan e) = ModeBypassPermissions"
proof (cases "mode = ModeBypassPermissions")
  case True
  then show ?thesis using assms by (auto simp: SetPermissionModeConfirmed_def userSelectablePermissionMode_def split: if_splits)
next
  case False
  then have "pe_mode (snd (setPermissionMode uuid mode planTransitionExternal e)) = ModeBypassPermissions"
    using assms by (auto simp: SetPermissionModeConfirmed_def split: if_splits)
  then show ?thesis using set_apply [of planTransitionExternal uuid mode e] apply_bypass assms(1) False by fastforce
qed

lemma step_bypass:
  assumes "plan_inv base w" "plan_step base w l w'" "pe_mode (pw_engine w) \<noteq> ModeBypassPermissions" "pe_mode (pw_engine w') = ModeBypassPermissions"
  shows "consented base w l"
  using assms(2)
proof cases
  case (turn_begins turn)
  then show ?thesis using assms(3,4) by (auto simp: beginPlanTurn_def Let_def split: if_splits)
next
  case (turn_ends turn)
  then show ?thesis using assms(3,4) by (auto simp: endPlanTurn_def split: if_splits)
next
  case (command_runs mode confirmed turn emit requestID)
  then have "pe_mode (snd (transitionPermissionModeForCommandTurn turn emit mode requestID (pw_engine w))) = ModeBypassPermissions" using assms(4) by simp
  then have "mode = ModeBypassPermissions"
    using command_apply [of turn requestID mode "pw_engine w" emit] apply_bypass [OF _ assms(3)] by fastforce
  then show ?thesis using command_runs by (simp add: consented_def)
next
  case (external_sets mode confirmed uuid)
  then show ?thesis using set_bypass [OF assms(3)] assms(4) by (simp add: consented_def)
next
  case (tool_runs toolName requestID decision mode turn ctx ctx' event err e' published emit)
  then have "pe_mode e' = ModeBypassPermissions" using assms(4) by (auto split: option.splits if_splits)
  then have "mode = ModeBypassPermissions" using tool_apply [OF tool_runs(5)] apply_bypass [OF _ assms(3)] by fastforce
  then show ?thesis using tool_runs tool_bypass [OF assms(1)] by simp
next
  case (approval_begins env read requestID emit)
  then show ?thesis using assms(3,4) by (auto simp: beginPlanApproval_def Let_def split: if_splits sum.splits)
next
  case (approval_settles env read request result emit result' e')
  then show ?thesis using assms(3,4) by (auto simp: settlePlanApproval_def Let_def split: if_splits)
next
  case (goal_changes goal)
  then show ?thesis using assms(3,4) by simp
next
  case (session_restored fs r persistedMode sessionID agentID preserve state mode ws turn goal)
  then show ?thesis using assms(3,4) restore_bypass by (auto simp: consented_def)
qed

text \<open>
  C39. Nothing bypasses the permissions without consent.  A step that turns on the bypass mode is a
  command or an external call that carries the confirmation, the abandoning of Plan mode that was
  entered from the bypass mode, a plan exit with a confirmed and reviewed decision, or the restore
  of a session that was saved in the bypass mode.
\<close>

theorem bypass_needs_consent:
  assumes "plan_reach base w" "plan_step base w l w'" "pe_mode (pw_engine w) \<noteq> ModeBypassPermissions" "pe_mode (pw_engine w') = ModeBypassPermissions"
  shows "consented base w l"
  by (rule step_bypass [OF plan_reach_inv [OF assms(1)] assms(2-4)])

section \<open>A run that leaves Plan mode\<close>

definition demo_plan :: "PlanPhase \<Rightarrow> string \<Rightarrow> string \<Rightarrow> 64 word \<Rightarrow> PlanState" where
  "demo_plan phase requestID digest revision =
     \<lparr>pl_Phase = phase, pl_PlanFileIdentity = GetPlanFilePath demo_plan_env ''s'' [], pl_ReturnMode = ModeDefault, pl_ApprovalRequestID = requestID,
      pl_ApprovalInitialDigest = digest, pl_Revision = revision\<rparr>"

definition demo_plan_engine :: "string \<Rightarrow> PlanState \<Rightarrow> plan_engine" where
  "demo_plan_engine turn state =
     \<lparr>pe_plan = state, pe_turn = turn, pe_mode = ModePlan, pe_goal = None, pe_session = None, pe_routeGeneration = 0, pe_subagentMode = None, pe_log = []\<rparr>"

definition demo_digest :: string where "demo_digest = planDigestPrefix @ replicate 64 (CHR ''a'')"

definition demo_request :: PlanApprovalRequest where
  "demo_request = \<lparr>aq_RequestID = ''q'', aq_PlanRevision = 2, aq_PlanFileIdentity = GetPlanFilePath demo_plan_env ''s'' [], aq_InitialPlanDigest = demo_digest,
     aq_ReturnMode = ModeDefault\<rparr>"

definition demo_decision :: "bool \<Rightarrow> PlanApprovalDecision" where
  "demo_decision is_settled = \<lparr>pa_RequestID = ''q'', pa_PlanRevision = 2, pa_Outcome = PlanApprovalApprove, pa_ReviewedPlanDigest = demo_digest,
     pa_TargetMode = ModeBypassPermissions, pa_Confirmed = True, pa_Feedback = [], pa_settled = is_settled, pa_Approved = False\<rparr>"

definition demo_result :: "bool \<Rightarrow> PermissionInteractionResult" where
  "demo_result is_settled = \<lparr>ir_Decision = PermissionAllowOnce, ir_Message = [], ir_PlanApproval = Some (demo_decision is_settled), ir_rest = []\<rparr>"

definition demo_approved :: plan_world where
  "demo_approved = \<lparr>pw_engine = demo_plan_engine ''t'' (demo_plan PlanPhaseActive [] [] 3), pw_issued = [(demo_request, ''plan'', demo_decision True)]\<rparr>"

lemma demo_plan_texts: "TrimUnicode ''t'' = ''t''" "TrimUnicode ''q'' = ''q''" "TrimUnicode [] = []" by code_simp+

lemma demo_digest_valid: "validPlanDigest demo_digest" by code_simp

lemma demo_snapshot: "ReadPlanReviewSnapshot demo_plan_env path = Inr (''plan'', demo_digest)"
  by (simp add: ReadPlanReviewSnapshot_def PlanBytesDigest_def demo_plan_env_def demo_digest_def)

lemma demo_settles:
  "settlePlanApproval demo_plan_env demo_request (demo_result False) False (demo_plan_engine ''t'' (demo_plan PlanPhaseAwaitingApproval ''q'' demo_digest 2)) =
     (demo_result True, demo_plan_engine ''t'' (demo_plan PlanPhaseActive [] [] 3))"
proof -
  have "approval_refused demo_plan_env demo_request (demo_decision False) = None"
    by (simp add: approval_refused_def demo_snapshot demo_digest_valid demo_decision_def knownPlanExitTargetMode_def knownPlanReturnMode_def knownPermissionMode_def)
  then have "normalizePlanApprovalDecision demo_plan_env demo_request (demo_result False) = demo_result True"
    by (simp add: normalizePlanApprovalDecision_def demo_result_def demo_decision_def demo_request_def demo_plan_texts legacy_outcome_def decide_outcome_def Allowed_def Let_def)
  then show ?thesis by (simp add: settlePlanApproval_def demo_plan_engine_def demo_plan_def demo_request_def emit_plan_def Let_def)
qed

lemma demo_plan_reach: "plan_reach demo_plan_env demo_approved"
proof -
  let ?e0 = "demo_plan_engine [] (demo_plan PlanPhaseActive [] [] 1)" and ?e1 = "demo_plan_engine ''t'' (demo_plan PlanPhaseActive [] [] 1)"
  let ?e2 = "demo_plan_engine ''t'' (demo_plan PlanPhaseAwaitingApproval ''q'' demo_digest 2)" and ?e3 = "demo_plan_engine ''t'' (demo_plan PlanPhaseActive [] [] 3)"
  have same: "demo_plan_env = demo_plan_env\<lparr>pv_read := pv_read demo_plan_env\<rparr>" by simp
  have "plan_start demo_plan_env \<lparr>pw_engine = ?e0, pw_issued = []\<rparr>"
    unfolding plan_start_def by (auto simp: demo_plan_engine_def demo_plan_def initialPlanState_def)
  then have r0: "plan_reach demo_plan_env \<lparr>pw_engine = ?e0, pw_issued = []\<rparr>" by (rule plan_reach.start)
  have "snd (beginPlanTurn ''t'' ?e0) = ?e1" by (simp add: beginPlanTurn_def demo_plan_texts demo_plan_engine_def)
  then have r1: "plan_reach demo_plan_env \<lparr>pw_engine = ?e1, pw_issued = []\<rparr>"
    using plan_reach.step [OF r0 turn_begins [of _ _ "''t''"]] by simp
  have "snd (beginPlanApproval demo_plan_env ''q'' False ?e1) = ?e2"
    by (simp add: beginPlanApproval_def demo_plan_texts demo_snapshot demo_plan_engine_def demo_plan_def emit_plan_def Let_def)
  then have r2: "plan_reach demo_plan_env \<lparr>pw_engine = ?e2, pw_issued = []\<rparr>"
    using plan_reach.step [OF r1 approval_begins [OF same, of _ "''q''" False]] by simp
  have "issue demo_plan_env demo_request (demo_result True) = [(demo_request, ''plan'', demo_decision True)]"
    by (simp add: issue_def demo_plan_env_def demo_result_def)
  then show ?thesis
    using plan_reach.step [OF r2 approval_settles [OF same, of demo_request "demo_result False" False]] demo_settles by (simp add: demo_approved_def)
qed

lemma demo_exit:
  "\<exists>e'. plan_step demo_plan_env demo_approved (ToolRan ''ExitPlanMode'' ''q'' (Some (demo_decision True))) (demo_approved\<lparr>pw_engine := e'\<rparr>) \<and>
     pe_mode e' = ModeBypassPermissions"
proof -
  let ?e = "pw_engine demo_approved"
  obtain ctx' event err e' where run: "transitionPermissionModeForTurn ''t'' None ModeBypassPermissions ''q'' ?e = ((ctx', event, err), e')"
    by (metis prod.exhaust)
  have mode: "planModeTransition ''ExitPlanMode'' ''q'' (Some (demo_decision True)) = Some ModeBypassPermissions"
    by (simp add: planModeTransition_def planApprovalAllowsExit_def demo_decision_def demo_plan_texts knownPlanExitTargetMode_def knownPlanReturnMode_def knownPermissionMode_def)
  have pres: "presentable demo_approved (Some (demo_decision True))" by (auto simp: presentable_def demo_approved_def)
  have "pe_mode e' = ModeBypassPermissions"
    using run by (auto simp: transitionPermissionModeForTurn_def applyPlanTransition_def boundary_error_def enter_mode_def target_mode_def tool_phase_error_def
      demo_approved_def demo_plan_engine_def demo_plan_def demo_plan_texts knownPermissionMode_def knownPlanExitTargetMode_def knownPlanReturnMode_def Let_def)
  then show ?thesis using tool_runs [OF mode pres run, of demo_plan_env False False] by (auto split: option.splits)
qed

theorem plan_stays_contained_witness:
  "planPhaseRequiresContainment (pl_Phase (pe_plan (pw_engine demo_approved))) \<and> pe_mode (pw_engine demo_approved) = ModePlan"
  using plan_stays_contained [OF demo_plan_reach, of "''t''"] by (simp add: demo_approved_def demo_plan_engine_def demo_plan_def)

theorem plan_exit_reviewed_witness:
  "\<exists>e'. plan_step demo_plan_env demo_approved (ToolRan ''ExitPlanMode'' ''q'' (Some (demo_decision True))) (demo_approved\<lparr>pw_engine := e'\<rparr>) \<and>
     (\<exists>request bytes. (request, bytes, demo_decision True) \<in> set (pw_issued demo_approved) \<and> aq_RequestID request = ''q'' \<and>
        demo_digest = PlanBytesDigest demo_plan_env bytes \<and> pa_Confirmed (demo_decision True))"
proof -
  obtain e' where e': "plan_step demo_plan_env demo_approved (ToolRan ''ExitPlanMode'' ''q'' (Some (demo_decision True))) (demo_approved\<lparr>pw_engine := e'\<rparr>)"
    "pe_mode e' = ModeBypassPermissions" using demo_exit by blast
  have "pe_mode (pw_engine demo_approved) = ModePlan" by (simp add: demo_approved_def demo_plan_engine_def)
  from plan_exit_reviewed [OF demo_plan_reach e'(1) this] e' show ?thesis by (auto simp: demo_decision_def)
qed

theorem bypass_needs_consent_witness: "consented demo_plan_env demo_approved (ToolRan ''ExitPlanMode'' ''q'' (Some (demo_decision True)))"
proof -
  obtain e' where e': "plan_step demo_plan_env demo_approved (ToolRan ''ExitPlanMode'' ''q'' (Some (demo_decision True))) (demo_approved\<lparr>pw_engine := e'\<rparr>)"
    "pe_mode e' = ModeBypassPermissions" using demo_exit by blast
  show ?thesis
    by (rule bypass_needs_consent [OF demo_plan_reach e'(1)]) (use e'(2) in \<open>simp_all add: demo_approved_def demo_plan_engine_def\<close>)
qed

end
