(* ===== verification/Critical_Path.thy ===== *)
theory Critical_Path
  imports Go_Path
begin

text \<open>
  The classifier of deletions that touch a critical path
  (src/engine/permission/bash_critical_path.go).  It reads a small literal subset of the shell:
  words, quotes, escapes and the separators \<open>;\<close>, newline, \<open>&&\<close> and \<open>||\<close>.  Anything else is an
  unknown command, which does not match.  The functions of Go's package \<open>path\<close> are those of
  \<open>filepath\<close> on Unix.
\<close>

section \<open>Words\<close>

record criticalPathWord =
  cw_value :: string
  cw_unquotedTilde :: bool
  cw_unquotedStars :: "nat list"

definition empty_word :: criticalPathWord where
  "empty_word = \<lparr>cw_value = [], cw_unquotedTilde = False, cw_unquotedStars = []\<rparr>"

text \<open>The variables of the tokenizer; the value under construction is kept in the word.\<close>

record tokenizer =
  tz_segments :: "criticalPathWord list list"
  tz_segment :: "criticalPathWord list"
  tz_word :: criticalPathWord
  tz_wordStarted :: bool
  tz_requiresNext :: bool

definition flushWord :: "tokenizer \<Rightarrow> tokenizer" where
  "flushWord z =
     (if \<not> tz_wordStarted z then z
      else z\<lparr>tz_segment := tz_segment z @ [tz_word z], tz_requiresNext := False, tz_word := empty_word, tz_wordStarted := False\<rparr>)"

definition flushSegment :: "bool \<Rightarrow> tokenizer \<Rightarrow> tokenizer option" where
  "flushSegment requireFollowing z0 =
     (let z = flushWord z0 in
      if tz_segment z = [] then None
      else Some (z\<lparr>tz_segments := tz_segments z @ [tz_segment z], tz_segment := [], tz_requiresNext := requireFollowing\<rparr>))"

definition write_bytes :: "string \<Rightarrow> tokenizer \<Rightarrow> tokenizer" where
  "write_bytes s z = z\<lparr>tz_wordStarted := True, tz_word := (tz_word z)\<lparr>cw_value := cw_value (tz_word z) @ s\<rparr>\<rparr>"

text \<open>The loops over a quoted part: its bytes and what follows the closing quote.\<close>

fun single_quoted :: "string \<Rightarrow> (string \<times> string) option" where
  "single_quoted [] = None"
| "single_quoted (c # s) =
     (if c = CHR 0x27 then Some ([], s)
      else if c = CHR ''$'' \<or> c = CHR 0x60 then None
      else map_option (\<lambda>(v, rest). (c # v, rest)) (single_quoted s))"

fun double_quoted :: "string \<Rightarrow> (string \<times> string) option" where
  "double_quoted [] = None"
| "double_quoted (c # s) =
     (if c = CHR 0x22 then Some ([], s)
      else if c = CHR ''$'' \<or> c = CHR 0x60 then None
      else if c = CHR 0x5C then
        (case s of
           [] \<Rightarrow> None
         | x # t \<Rightarrow> (if x = CHR 0x0A then None else map_option (\<lambda>(v, rest). (x # v, rest)) (double_quoted t)))
      else map_option (\<lambda>(v, rest). (c # v, rest)) (double_quoted s))"

lemma single_quoted_shorter: "single_quoted s = Some (v, rest) \<Longrightarrow> length rest < length s"
  by (induction s arbitrary: v) (fastforce split: if_splits)+

lemma double_quoted_shorter: "double_quoted s = Some (v, rest) \<Longrightarrow> length rest < length s"
  by (induction s arbitrary: v rule: double_quoted.induct) (fastforce split: if_splits list.splits)+

definition plain_byte :: "char \<Rightarrow> tokenizer \<Rightarrow> tokenizer" where
  "plain_byte c z =
     (let w = tz_word z;
          w1 = (if c = CHR ''~'' \<and> cw_value w = [] then w\<lparr>cw_unquotedTilde := True\<rparr> else w);
          w2 = (if c = CHR ''*'' then w1\<lparr>cw_unquotedStars := cw_unquotedStars w1 @ [length (cw_value w1)]\<rparr> else w1)
      in write_bytes [c] (z\<lparr>tz_word := w2\<rparr>))"

function tokenize_loop :: "string \<Rightarrow> tokenizer \<Rightarrow> tokenizer option" where
  "tokenize_loop [] z = Some z"
| "tokenize_loop (c # s) z =
     (if c = CHR '' '' \<or> c = CHR 0x09 \<or> c = CHR 0x0D then tokenize_loop s (flushWord z)
      else if c = CHR 0x0A then
        (let z1 = flushWord z in
         if tz_segment z1 \<noteq> [] then (case flushSegment False z1 of None \<Rightarrow> None | Some z2 \<Rightarrow> tokenize_loop s z2)
         else tokenize_loop s z1)
      else if c = CHR '';'' then (case flushSegment False z of None \<Rightarrow> None | Some z1 \<Rightarrow> tokenize_loop s z1)
      else if c = CHR ''&'' \<or> c = CHR ''|'' then
        (case s of
           [] \<Rightarrow> None
         | x # t \<Rightarrow> (if x \<noteq> c then None else case flushSegment True z of None \<Rightarrow> None | Some z1 \<Rightarrow> tokenize_loop t z1))
      else if c = CHR ''<'' \<or> c = CHR ''>'' \<or> c = CHR ''('' \<or> c = CHR '')'' \<or> c = CHR 0x60 \<or> c = CHR ''$'' then None
      else if c = CHR 0x5C then
        (case s of [] \<Rightarrow> None | x # t \<Rightarrow> (if x = CHR 0x0A then None else tokenize_loop t (write_bytes [x] z)))
      else if c = CHR 0x27 then (case single_quoted s of None \<Rightarrow> None | Some (v, rest) \<Rightarrow> tokenize_loop rest (write_bytes v z))
      else if c = CHR 0x22 then (case double_quoted s of None \<Rightarrow> None | Some (v, rest) \<Rightarrow> tokenize_loop rest (write_bytes v z))
      else if c = CHR ''?'' \<or> c = CHR ''['' \<or> c = CHR '']'' then None
      else tokenize_loop s (plain_byte c z))"
  by pat_completeness auto
termination
  by (relation "measure (\<lambda>(s, z). length s)") (auto dest: single_quoted_shorter double_quoted_shorter)

definition supportedCriticalPathGlob :: "criticalPathWord \<Rightarrow> bool" where
  "supportedCriticalPathGlob w =
     (if cw_unquotedStars w = [] then True
      else if length (cw_unquotedStars w) \<noteq> 1 \<or> int (hd (cw_unquotedStars w)) \<noteq> int (length (cw_value w)) - 1 then False
      else cw_value w = ''*'' \<or> HasSuffix (cw_value w) ''/*'')"

definition tokenizeCriticalPathCommand :: "string \<Rightarrow> criticalPathWord list list option" where
  "tokenizeCriticalPathCommand command =
     (case tokenize_loop command \<lparr>tz_segments = [], tz_segment = [], tz_word = empty_word, tz_wordStarted = False, tz_requiresNext = False\<rparr> of
        None \<Rightarrow> None
      | Some z0 \<Rightarrow>
         (let z = flushWord z0; segments = tz_segments z @ (if tz_segment z \<noteq> [] then [tz_segment z] else []) in
          if tz_requiresNext z then None
          else if segments = [] then None
          else if list_all (list_all supportedCriticalPathGlob) segments then Some segments
          else None))"

section \<open>Targets\<close>

record BashCriticalPathDecision =
  bd_Match :: bool
  bd_ReasonCode :: string

definition no_match :: BashCriticalPathDecision where "no_match = \<lparr>bd_Match = False, bd_ReasonCode = []\<rparr>"

definition matched :: "string \<Rightarrow> BashCriticalPathDecision" where "matched reason = \<lparr>bd_Match = True, bd_ReasonCode = reason\<rparr>"

definition classifyCriticalVolumePath :: "string \<Rightarrow> string" where
  "classifyCriticalVolumePath targetPath =
     (if \<not> HasPrefix targetPath ''/Volumes/'' then []
      else let parts = comps (drop (length ''/Volumes/'') targetPath) in
        if length parts = 1 then ''volume_root'' else if length parts = 2 then ''volume_child'' else [])"

definition classifyCriticalPathTarget :: "criticalPathWord \<Rightarrow> string \<Rightarrow> string \<Rightarrow> BashCriticalPathDecision" where
  "classifyCriticalPathTarget target cwd home =
     (if length (cw_unquotedStars target) = 1 then matched ''all_entries''
      else if cw_value target = ''~'' \<and> cw_unquotedTilde target then matched ''home''
      else
        let resolved = Clean (if filepath_IsAbs (cw_value target) then cw_value target else Join [cwd, cw_value target]) in
        if resolved = ''/'' then matched ''root''
        else if resolved = home then matched ''home''
        else if classifyCriticalVolumePath resolved \<noteq> [] then matched (classifyCriticalVolumePath resolved)
        else if Dir resolved = ''/'' then matched ''root_child''
        else no_match)"

fun classify_targets :: "bool \<Rightarrow> string \<Rightarrow> string \<Rightarrow> criticalPathWord list \<Rightarrow> BashCriticalPathDecision" where
  "classify_targets options cwd home [] = no_match"
| "classify_targets options cwd home (t # ts) =
     (if options \<and> cw_value t = ''--'' then classify_targets False cwd home ts
      else if options \<and> HasPrefix (cw_value t) ''-'' \<and> cw_value t \<noteq> ''-'' then classify_targets True cwd home ts
      else let decision = classifyCriticalPathTarget t cwd home in
        if bd_Match decision then decision else classify_targets False cwd home ts)"

definition classifyCriticalPathSegment :: "criticalPathWord list \<Rightarrow> string \<Rightarrow> string \<Rightarrow> BashCriticalPathDecision" where
  "classifyCriticalPathSegment words cwd home =
     (if words = [] then no_match
      else let rest = (if cw_value (hd words) = ''command'' \<or> cw_value (hd words) = ''builtin'' then tl words else words) in
        if rest = [] \<or> cw_value (hd rest) \<noteq> ''rm'' \<and> cw_value (hd rest) \<noteq> ''rmdir'' then no_match
        else classify_targets True cwd home (tl rest))"

fun classify_segments :: "string \<Rightarrow> string \<Rightarrow> criticalPathWord list list \<Rightarrow> BashCriticalPathDecision" where
  "classify_segments cwd home [] = no_match"
| "classify_segments cwd home (s # ss) =
     (let decision = classifyCriticalPathSegment s cwd home in if bd_Match decision then decision else classify_segments cwd home ss)"

definition ClassifyBashCriticalPath :: "string \<Rightarrow> string \<Rightarrow> string \<Rightarrow> BashCriticalPathDecision" where
  "ClassifyBashCriticalPath command cwd home =
     (if \<not> filepath_IsAbs cwd \<or> \<not> filepath_IsAbs home then no_match
      else case tokenizeCriticalPathCommand command of
        None \<Rightarrow> no_match
      | Some segments \<Rightarrow> classify_segments (Clean cwd) (Clean home) segments)"

section \<open>Quoted commands\<close>

text \<open>A command printed with every word in single quotes, which any word without \<open>'\<close>, \<open>$\<close> and \<open>`\<close> allows.\<close>

definition quote :: "string \<Rightarrow> string" where
  "quote w = CHR 0x27 # w @ [CHR 0x27]"

definition quotable :: "string \<Rightarrow> bool" where
  "quotable w \<longleftrightarrow> CHR 0x27 \<notin> set w \<and> CHR ''$'' \<notin> set w \<and> CHR 0x60 \<notin> set w"

fun print_words :: "string list \<Rightarrow> string" where
  "print_words [] = []"
| "print_words [w] = quote w"
| "print_words (w # ws) = quote w @ '' '' @ print_words ws"

fun print_segments :: "string list list \<Rightarrow> string" where
  "print_segments [] = []"
| "print_segments [s] = print_words s"
| "print_segments (s # ss) = print_words s @ ''; '' @ print_segments ss"

definition literal :: "string \<Rightarrow> criticalPathWord" where
  "literal w = \<lparr>cw_value = w, cw_unquotedTilde = False, cw_unquotedStars = []\<rparr>"

lemma single_quoted_quote: "quotable w \<Longrightarrow> single_quoted (w @ CHR 0x27 # rest) = Some (w, rest)"
  by (induction w) (auto simp: quotable_def)

definition at_word :: "criticalPathWord list list \<Rightarrow> criticalPathWord list \<Rightarrow> bool \<Rightarrow> tokenizer" where
  "at_word segments segment next = \<lparr>tz_segments = segments, tz_segment = segment, tz_word = empty_word, tz_wordStarted = False, tz_requiresNext = next\<rparr>"

definition in_word :: "criticalPathWord list list \<Rightarrow> criticalPathWord list \<Rightarrow> string \<Rightarrow> tokenizer" where
  "in_word segments segment w = \<lparr>tz_segments = segments, tz_segment = segment, tz_word = literal w, tz_wordStarted = True, tz_requiresNext = False\<rparr>"

lemma tokenize_quote:
  "quotable w \<Longrightarrow> tokenize_loop (quote w @ rest) (at_word segments segment False) = tokenize_loop rest (in_word segments segment w)"
  by (simp add: quote_def single_quoted_quote at_word_def in_word_def write_bytes_def empty_word_def literal_def)

lemma flush_in_word: "flushWord (in_word segments segment w) = at_word segments (segment @ [literal w]) False"
  by (simp add: flushWord_def in_word_def at_word_def)

lemma tokenize_words:
  assumes "ws \<noteq> []" "list_all quotable ws"
  shows "tokenize_loop (print_words ws @ rest) (at_word segments segment False) =
    tokenize_loop rest (in_word segments (segment @ map literal (butlast ws)) (last ws))"
  using assms
proof (induction ws arbitrary: segment rule: print_words.induct)
  case (3 w v ws)
  then have "tokenize_loop (print_words (w # v # ws) @ rest) (at_word segments segment False) =
    tokenize_loop (print_words (v # ws) @ rest) (at_word segments (segment @ [literal w]) False)"
    using tokenize_quote [of w "'' '' @ print_words (v # ws) @ rest" segments segment] by (simp add: flush_in_word)
  then show ?case using 3 by simp
qed (simp_all add: tokenize_quote)

lemma literal_split: "ws \<noteq> [] \<Longrightarrow> map literal (butlast ws) @ [literal (last ws)] = map literal ws"
  by (metis append_butlast_last_id list.simps(8,9) map_append)

lemma in_word_segment:
  "ws \<noteq> [] \<Longrightarrow> flushSegment b (in_word segments (map literal (butlast ws)) (last ws)) = Some (at_word (segments @ [map literal ws]) [] b)"
  by (simp add: flushSegment_def flush_in_word Let_def) (simp add: at_word_def literal_split)

lemma tokenize_segments:
  assumes "ss \<noteq> []" "\<forall>s \<in> set ss. s \<noteq> [] \<and> list_all quotable s"
  shows "tokenize_loop (print_segments ss) (at_word segments [] False) =
    Some (in_word (segments @ map (map literal) (butlast ss)) (map literal (butlast (last ss))) (last (last ss)))"
  using assms
proof (induction ss arbitrary: segments rule: print_segments.induct)
  case (2 s)
  then show ?case using tokenize_words [of s "[]" segments "[]"] by simp
next
  case (3 s t ss)
  have "tokenize_loop (print_segments (s # t # ss)) (at_word segments [] False) =
    tokenize_loop (''; '' @ print_segments (t # ss)) (in_word segments (map literal (butlast s)) (last s))"
    using tokenize_words [of s "''; '' @ print_segments (t # ss)" segments "[]"] "3.prems" by simp
  also have "\<dots> = tokenize_loop (print_segments (t # ss)) (at_word (segments @ [map literal s]) [] False)"
    using "3.prems" by (simp add: in_word_segment) (simp add: flushWord_def at_word_def)
  also have "\<dots> = Some (in_word ((segments @ [map literal s]) @ map (map literal) (butlast (t # ss))) (map literal (butlast (last (t # ss)))) (last (last (t # ss))))"
    by (rule "3.IH") (use "3.prems" in auto)
  finally show ?case by simp
qed simp

lemma tokenize_print:
  assumes "ss \<noteq> []" "\<forall>s \<in> set ss. s \<noteq> [] \<and> list_all quotable s"
  shows "tokenizeCriticalPathCommand (print_segments ss) = Some (map (map literal) ss)"
proof -
  have supported: "list_all (list_all supportedCriticalPathGlob) (map (map literal) xs)" "list_all supportedCriticalPathGlob (map literal ws)" for xs ws
    by (simp_all add: list_all_iff supportedCriticalPathGlob_def literal_def)
  have "last ss \<noteq> []" using assms by simp
  then have "flushWord (in_word (map (map literal) (butlast ss)) (map literal (butlast (last ss))) (last (last ss))) =
    at_word (map (map literal) (butlast ss)) (map literal (last ss)) False"
    by (simp add: flush_in_word literal_split)
  moreover have "map (map literal) (butlast ss) @ [map literal (last ss)] = map (map literal) ss"
    using assms(1) by (metis append_butlast_last_id list.simps(8,9) map_append)
  moreover have "tokenize_loop (print_segments ss)
      \<lparr>tz_segments = [], tz_segment = [], tz_word = empty_word, tz_wordStarted = False, tz_requiresNext = False\<rparr> =
    Some (in_word (map (map literal) (butlast ss)) (map literal (butlast (last ss))) (last (last ss)))"
    using tokenize_segments [OF assms, of "[]"] by (simp add: at_word_def)
  ultimately show ?thesis using supported \<open>last ss \<noteq> []\<close> assms(1)
    by (simp add: tokenizeCriticalPathCommand_def Let_def) (simp add: at_word_def)
qed

section \<open>What is classified\<close>

text \<open>The targets of a deletion: what follows its options.\<close>

fun after_options :: "string list \<Rightarrow> string list" where
  "after_options [] = []"
| "after_options (w # ws) =
     (if w = ''--'' then ws else if HasPrefix w ''-'' \<and> w \<noteq> ''-'' then after_options ws else w # ws)"

definition deletion_targets :: "string list \<Rightarrow> string list" where
  "deletion_targets ws =
     (case (if ws \<noteq> [] \<and> hd ws \<in> {''command'', ''builtin''} then tl ws else ws) of
        [] \<Rightarrow> []
      | name # args \<Rightarrow> (if name \<in> {''rm'', ''rmdir''} then after_options args else []))"

definition resolve_target :: "string \<Rightarrow> string \<Rightarrow> string" where
  "resolve_target cwd t = Clean (if filepath_IsAbs t then t else Join [cwd, t])"

text \<open>The root, its entries, the home directory, and the volumes with their entries.\<close>

definition critical :: "string \<Rightarrow> string \<Rightarrow> string \<Rightarrow> bool" where
  "critical cwd home t =
     (let p = resolve_target (Clean cwd) t in
      p = ''/'' \<or> Dir p = ''/'' \<or> p = Clean home \<or> HasPrefix p ''/Volumes/'' \<and> length (comps (drop (length ''/Volumes/'') p)) \<in> {1, 2})"

lemma bd_simps [simp]: "bd_Match (matched r)" "\<not> bd_Match no_match"
  by (simp_all add: matched_def no_match_def)

lemma target_match: "bd_Match (classifyCriticalPathTarget (literal t) (Clean cwd) (Clean home)) = critical cwd home t"
proof -
  have "classifyCriticalVolumePath p \<noteq> [] \<longleftrightarrow> HasPrefix p ''/Volumes/'' \<and> length (comps (drop (length ''/Volumes/'') p)) \<in> {1, 2}" for p
    by (simp add: classifyCriticalVolumePath_def Let_def)
  then show ?thesis
    unfolding classifyCriticalPathTarget_def critical_def resolve_target_def [symmetric] Let_def by (simp add: literal_def resolve_target_def [symmetric])
qed

lemma targets_match:
  "bd_Match (classify_targets False (Clean cwd) (Clean home) (map literal ts)) \<longleftrightarrow> (\<exists>t \<in> set ts. critical cwd home t)"
  by (induction ts) (auto simp: Let_def target_match)

lemma options_match:
  "bd_Match (classify_targets True (Clean cwd) (Clean home) (map literal ts)) \<longleftrightarrow> (\<exists>t \<in> set (after_options ts). critical cwd home t)"
proof (induction ts)
  case (Cons t ts)
  have "cw_value (literal t) = t" by (simp add: literal_def)
  then show ?case using Cons by (auto simp: Let_def target_match targets_match)
qed simp

lemma segment_match:
  assumes "ws \<noteq> []"
  shows "bd_Match (classifyCriticalPathSegment (map literal ws) (Clean cwd) (Clean home)) \<longleftrightarrow> (\<exists>t \<in> set (deletion_targets ws). critical cwd home t)"
proof -
  have v: "cw_value (literal t) = t" for t by (simp add: literal_def)
  define rest where rest: "rest = (if ws \<noteq> [] \<and> hd ws \<in> {''command'', ''builtin''} then tl ws else ws)"
  have targets: "deletion_targets ws = (case rest of [] \<Rightarrow> [] | name # args \<Rightarrow> (if name \<in> {''rm'', ''rmdir''} then after_options args else []))"
    by (simp only: deletion_targets_def rest)
  have r: "(if cw_value (hd (map literal ws)) = ''command'' \<or> cw_value (hd (map literal ws)) = ''builtin'' then tl (map literal ws) else map literal ws) = map literal rest"
    using assms by (simp add: rest hd_map v map_tl)
  have "classifyCriticalPathSegment (map literal ws) (Clean cwd) (Clean home) =
    (if map literal rest = [] \<or> cw_value (hd (map literal rest)) \<noteq> ''rm'' \<and> cw_value (hd (map literal rest)) \<noteq> ''rmdir'' then no_match
     else classify_targets True (Clean cwd) (Clean home) (tl (map literal rest)))"
    unfolding classifyCriticalPathSegment_def Let_def r using assms by simp
  then show ?thesis using targets options_match by (cases rest) (auto simp: v)
qed

lemma segments_match:
  "\<forall>s \<in> set ss. s \<noteq> [] \<Longrightarrow>
   bd_Match (classify_segments (Clean cwd) (Clean home) (map (map literal) ss)) \<longleftrightarrow> (\<exists>s \<in> set ss. \<exists>t \<in> set (deletion_targets s). critical cwd home t)"
  by (induction ss) (auto simp: Let_def segment_match)

section \<open>Properties\<close>



text \<open>
  A leading tilde is recognised only when it is the whole word.  A shell expands \<open>~/\<close> to the home
  directory as well, and \<open>~/..\<close> to its parent, but the classifier resolves them below the working
  directory and does not match.
\<close>

lemma tilde_slash_missed: "\<not> bd_Match (ClassifyBashCriticalPath ''rm -rf ~/'' ''/work/p'' ''/home/u'')"
proof -
  have "tokenizeCriticalPathCommand ''rm -rf ~/'' =
    Some [[literal ''rm'', literal ''-rf'', \<lparr>cw_value = ''~/'', cw_unquotedTilde = True, cw_unquotedStars = []\<rparr>]]" by code_simp
  moreover have "Clean ''/work/p'' = ''/work/p''" "Clean ''/home/u'' = ''/home/u''" "Clean (Join [''/work/p'', ''~/'']) = ''/work/p/~''" "Dir ''/work/p/~'' = ''/work/p''" by code_simp+
  ultimately show ?thesis
    by (simp add: ClassifyBashCriticalPath_def filepath_IsAbs_def rooted_def classifyCriticalPathSegment_def literal_def HasPrefix_def
      classifyCriticalPathTarget_def classifyCriticalVolumePath_def Let_def)
qed

end
