(* ===== verification/Spec2Isabelle.thy ===== *)
theory Spec2Isabelle
  imports Shell_Match Tool_Input Permission_Rules Rule_Syntax Permission_Session Shell_Policy
    Permission_Path Permission_Mode Permission_Eval Turn_Queue Priority_Queue Event_Order Goal_Ledger
    Input_Recovery Tool_Round Cron_Tasks Work_Run Plan_Run Critical_Path
begin

text \<open>
  A model of the runtime of YHC, a coding agent written in Go.  An engine runs a query loop: it
  takes user input from queues, calls a language model, executes the tool calls of the reply and
  emits events to its front ends.  This development models eight parts of it: the permission
  subsystem (src/engine/permission), the input queues (src/engine/queue), the input coordinator
  (src/engine/input_coordinator.go and the files beside it), the goal service
  (src/engine/goal_*.go), the rounds of tool calls (src/engine/execution and
  src/engine/tool_schedule.go), the cron scheduler (src/engine/cron), the Plan state
  (src/engine/plan_*.go) and the work board (src/engine/internal/workboard), with the validator of
  the event order (src/engine/event_order_validator.go).

  \<^bold>\<open>How the parts interact.\<close>  Input of the user, of tasks and of the cron scheduler becomes an item
  of the input coordinator, which writes it to its ledger before it accepts it and hands it to one
  turn.  A reply of the model with tool calls becomes a schedule of batches; the streaming executor
  runs the calls, exclusive ones alone, and gives the results back in the order of the calls.  Each
  call is first put to \<open>Evaluate\<close>, the entry of the permission subsystem.  It asks, in this order,
  the rate limiter of recent denials, the store of remembered decisions, the rules (by specificity,
  then restrictiveness), the containment check of acceptEdits mode, the static risk classifier and
  the default of the current mode.  The goal service keeps one objective across turns: it counts the
  tokens of every provider call against the budget, stops the clock while the user is waited for,
  and admits a continuation turn as long as the goal is active.  Every change of a goal is written
  before it is visible, and a saved goal is validated before it is restored.  In Plan mode a call is
  first put to the Plan policy; the agent leaves Plan mode through an approval bound to the bytes of
  the plan file the user reviewed.  The work board keeps the todo lists and tasks of a session in
  files; an item that agents were launched for is closed only when they have settled.

  \<^bold>\<open>Theories and sources.\<close>
  \<^item> \<open>Go_Prelude\<close>: the functions of Go's package strings the code calls, on byte strings, and shared
    list lemmas.  \<open>Go_Path\<close>: path/filepath on Unix.  \<open>Tool_Input\<close>: decoded JSON inputs of a tool
    call, their string fields, and the key of the rate limiter.
  \<^item> \<open>Shell_Match\<close> (shell_match.go): rule parsing and wildcard matching.  The regular expression
    the code builds is the token list it stands for; matching is shown equal to the language of
    the pattern, escapes and the trailing-wildcard rule included.
  \<^item> \<open>Permission_Rules\<close> (rules.go, precedence.go, shadowed_rules.go): matching and evaluation of
    rules, the winning rule, and unreachable rules.  The locale \<open>preference\<close> states what a strict
    preference gives for the choice of a best element, \<open>preference_tiebreak\<close> adds a weight; both
    are interpreted on the specificity order of the code.
  \<^item> \<open>Rule_Syntax\<close> (loader.go, persist.go, the parser of rules.go): rule strings, escaping and
    their round trips.
  \<^item> \<open>Permission_Session\<close> (session_store.go, denial_tracking.go): remembered decisions, as an
    interpretation of the locale \<open>keyed_store\<close>, and denial counters, history and rate limits.
  \<^item> \<open>Shell_Lex\<close>, \<open>Shell_Security\<close>, \<open>Shell_Policy\<close> (bash_security.go): the splitter with its
    refinement to a tokeniser, the detection scanners, and the policy with the allowlist.
  \<^item> \<open>Permission_Path\<close> (path_resolution.go, accept_edits.go): symbolic links and containment.
  \<^item> \<open>Permission_Mode\<close>, \<open>Permission_Eval\<close> (mode.go, mode_transition.go, bypass_killswitch.go,
    risk_classifier.go, evaluator.go): modes, classifier, evaluator, mode manager.
  \<^item> \<open>Turn_Queue\<close> (queue/queue.go): the per-session queue.  Waiting is a step relation, so that
    enqueues, dequeues and close of other goroutines interleave with it; the manager keeps its
    queues in a store, since callers share them by pointer.
  \<^item> \<open>Priority_Queue\<close> (queue/processor.go): the heap (locale \<open>keyed_heap\<close>), the priority queue
    (locale \<open>min_queue\<close>), retries and the background loop.
  \<^item> \<open>Event_Order\<close> (event_order_validator.go): the phases of a turn.

  \<^item> \<open>Go_Text\<close>, \<open>Goal_Text\<close> (goal_validation.go, goal_binding.go): UTF-8, Unicode white space,
    decimal and hexadecimal text, and the normal forms of objectives, reasons and blocker keys.
  \<^item> \<open>Goal_State\<close> (goal_state.go): the goal record, its status, and every control
    operation as a transaction on the service: checks, the write of the new state, the projection.
  \<^item> \<open>Goal_Cursor\<close> (goal_continuation.go): identities, admission and delivery of continuations.
    \<open>Goal_Turn\<close> (goal_runtime.go, goal_continuation.go): the turn, its evidence, waiting and the terminal event.
    \<open>Goal_Usage\<close> (goal_usage.go, goal_usage_normalize.go, transcript/goal_usage.go): normalisation of provider usage, admission,
    completion and reconciliation.
  \<^item> \<open>Goal_Run\<close>: the operations on a goal as one step function, with the write-ahead, status and clock
    properties.  \<open>Goal_Restore\<close> (goal_persistence.go): validation and restoration.  \<open>Goal_Wf\<close>: what
    every operation writes can be restored.  \<open>Goal_Ledger\<close>: the account of the tokens; the locale
    \<open>accounting_client\<close> states what a client of the ledger relies on and is interpreted on the
    operations of \<open>Goal_Usage\<close>.
  \<^item> \<open>Input_Item\<close>, \<open>Input_Coordinator\<close> (input_coordinator.go,
    runtime_prompt_persistence.go): items, receipts, the ledger record and every operation of the coordinator.  \<open>Input_Run\<close>: the operations as one step
    function and the write-ahead property.  \<open>Input_Inbox\<close>: the abstract inbox the coordinator
    promises, its laws as the locale \<open>inbox_provider\<close>, and the refinement.  \<open>Input_Recovery\<close>: the
    replay of a ledger after a crash; nothing accepted is lost, nothing settled comes back.
  \<^item> \<open>Tool_Schedule\<close> (tool_schedule.go, tool_orchestration.go): schedules and batches.
    \<open>Tool_Executor\<close> (execution/streaming.go): the executor, one definition per method.  A goroutine
    that runs a call is the call's status, and its report an operation of its own.  \<open>Tool_Run\<close>: the
    abstract executor and the refinement of every operation to it.  \<open>Tool_Order\<close>: the locale
    \<open>executor_invariant\<close>, interpreted for exclusion, the order of results and single starts.
    \<open>Tool_Round\<close> (tool_round.go): a whole round under any order of the reports; it completes.
  \<^item> \<open>Cron_Expr\<close>, \<open>Cron_Tasks\<close> (cron/cron.go): expressions, the search for the next run over civil
    dates, the task file and the scheduler.
  \<^item> \<open>Plan_State\<close> (plan_state.go, plan_digest.go): the Plan phase, its transitions by tools,
    commands and users, and the approval of a plan.  \<open>Plan_Policy\<close> (plan_tool_policy.go,
    plan_persistence.go): what is admitted while planning, and the saved record.  \<open>Plan_Run\<close>: the
    operations as a step relation that lets the plan file change between any two steps; a decision
    with engine authority is one that a settlement of the run has issued.
  \<^item> \<open>Critical_Path\<close> (permission/bash_critical_path.go): deletions of critical paths, shown exact
    on commands of quoted words.
  \<^item> \<open>Work_Board\<close> (types.go): items, limits and the search for cycles, shown equal to the absence
    of a cyclic chain.  \<open>Work_Record\<close> (authority.go, adapter.go): the durable record, its
    validation, and the changes of tasks and todo lists.  \<open>Work_Store\<close> (secure_store.go,
    authority_codec.go, store.go): files, codecs, cutover, commit, upgrade and recovery, atomic under
    every way a write can end.  \<open>Work_Adapter\<close> (projection.go, adapter.go): the operations of a
    session.  \<open>Work_Run\<close>: any sequence of them keeps memory and files in step.

  \<^bold>\<open>Conventions.\<close>  A Go string is its list of bytes.  A pointer that may be nil is an option, an
  error a sum or option value, a nil slice the empty list.  Mutexes make operations atomic, so
  each is a state transformer; where interleaving matters it is a step relation or an arbitrary
  sequence of operations.  String types with declared constants have one constructor per constant
  and one for any other string.  Token counts and revisions (uint64) are 64-bit words where the code
  adds, compares or saturates them; the integers of cron expressions wrap at 64 bits.  Times are
  integers, in the unit the code has.  Other lengths and counters are unbounded; the modelled
  operations do not depend on their wrap-around.

  \<^bold>\<open>Parameters.\<close>  The clock, the random identities, the file system (Lstat, Readlink, EvalSymlinks),
  the case folding of the operating system, the answer of the confirmation callback, the queue's
  handler, error callback and context, the digests and JSON encodings, the outcome of each write of
  a ledger or a saved state, the media store and the look-up in the transcript are arguments of the
  definitions that use them.  The disk of the work board carries the outcomes of its coming reads and
  writes; its JSON codecs are assumed to decode what they encoded, and a witness instantiates them by
  an enumeration of the records of a run.

  \<^bold>\<open>Bounds.\<close>  Most loops are total functions; their measures are the rest of the input, the
  components of a path, the size of a queue, or the retries left.  The code's own bounds are forty
  hops of a symbolic link and the 525960 minutes the search for the next cron run covers.  A round
  of tools takes as fuel the reports of its calls; twice the number of calls is enough, since each
  call starts once and reports once.  Loading a board takes at most two rounds, since the second one
  finds the marker that the first one wrote; \<open>load_rounds\<close> answers \<open>UpgradeLoops\<close> beyond that.  The
  search for an unused todo identity tries one more than the identities in use.
  The loops that expand a range of a cron expression may run forever and are partial functions whose value None is not returning; \<open>ParseCronExpression_returns\<close>
  says when they return.

  \<^bold>\<open>Findings.\<close>  Lemmas at the end of the theories show inputs on which the code departs from its
  documentation or intent, for example \<open>newline_hides_command\<close> in \<open>Shell_Policy\<close>,
  \<open>two_waiters_stranded\<close> in \<open>Turn_Queue\<close>, \<open>interrupted_collection_stuck\<close> in \<open>Tool_Round\<close>,
  \<open>largest_range_never_ends\<close> in \<open>Cron_Expr\<close>, \<open>session_task_refires\<close> in \<open>Cron_Tasks\<close>,
  \<open>recovery_bricks_store\<close> in \<open>Work_Store\<close> and \<open>tilde_slash_missed\<close> in \<open>Critical_Path\<close>.

  \<^bold>\<open>Not modelled.\<close>  Reading and writing of settings and session files, prompts to the user,
  reviews by a model, the rendering of input items as messages, and the rest of the engine: the
  query loop, sessions and transcripts, compaction, hooks, providers, tools, servers and user
  interfaces.  Of the modelled parts: the stages and directory checks inside a write of the work
  board, its shadow recorder, and the plan tools themselves.  These are files, processes, network protocols and rendering, where the program's own
  decisions are thin.  What would come next: the remembered approvals of the permission subsystem,
  the commands and tools of the goal service, recovery policies, and the execution of a single tool
  call.
\<close>

end
